(* ===== verification/Prelude.thy ===== *)
theory Prelude
  imports Complex_Main "HOL-Library.AList" "HOL-Library.Sublist"
begin

text \<open>
  Shared vocabulary of the development: Python values, truthiness, the string
  operations the services call, ordered dictionaries as association lists, and
  the lemma collections the component theories add to.

  Conventions.  A Python string is a \<open>string\<close>, one \<open>char\<close> per code point, so the
  modelled alphabet is the code points 0 to 255.  A Python float is a \<open>real\<close>
  (rounding is not modelled).  A dict is an association list in insertion order
  with distinct keys: \<open>map_of\<close> reads it, \<open>AList.update\<close> is the item assignment
  (in place for a present key, appended for a new one) and \<open>AList.delete\<close> is
  \<open>del\<close> or \<open>pop\<close>.
\<close>

named_theorems dict_simps \<open>reading an ordered dictionary after an update\<close>
named_theorems str_simps \<open>evaluation of the Python string operations\<close>

section \<open>Python values\<close>

datatype py =
    PNone
  | PBool bool
  | PInt int
  | PFloat real
  | PStr string
  | PList "py list"
  | PDict "(string \<times> py) list"

type_synonym pydict = "(string \<times> py) list"

fun truthy :: "py \<Rightarrow> bool" where
  "truthy PNone = False"
| "truthy (PBool b) = b"
| "truthy (PInt i) = (i \<noteq> 0)"
| "truthy (PFloat r) = (r \<noteq> 0)"
| "truthy (PStr s) = (s \<noteq> [])"
| "truthy (PList xs) = (xs \<noteq> [])"
| "truthy (PDict d) = (d \<noteq> [])"

text \<open>\<open>d.get(k)\<close>: \<open>None\<close> when the key is absent.\<close>

definition pyget :: "pydict \<Rightarrow> string \<Rightarrow> py" where
  "pyget d k = (case map_of d k of None \<Rightarrow> PNone | Some v \<Rightarrow> v)"

lemma pyget_simps [simp]:
  "pyget [] k = PNone"
  "pyget ((k', v) # d) k = (if k = k' then v else pyget d k)"
  by (simp_all add: pyget_def)

text \<open>\<open>x or y\<close> on optional strings: the empty string counts as absent.\<close>

fun or_empty :: "string option \<Rightarrow> string" where
  "or_empty None = []"
| "or_empty (Some s) = s"

section \<open>Strings\<close>

definition py_ws :: "char \<Rightarrow> bool" where
  "py_ws c = (let n = (of_char c :: nat) in (9 \<le> n \<and> n \<le> 13) \<or> (28 \<le> n \<and> n \<le> 32) \<or> n = 133 \<or> n = 160)"

definition py_lstrip :: "string \<Rightarrow> string" where
  "py_lstrip s = dropWhile py_ws s"

definition py_rstrip :: "string \<Rightarrow> string" where
  "py_rstrip s = rev (dropWhile py_ws (rev s))"

definition py_strip :: "string \<Rightarrow> string" where
  "py_strip s = py_rstrip (py_lstrip s)"

text \<open>\<open>str.lower\<close> on code points 0 to 255.\<close>

definition lower_char :: "char \<Rightarrow> char" where
  "lower_char c = (let n = (of_char c :: nat) in
     if (65 \<le> n \<and> n \<le> 90) \<or> (192 \<le> n \<and> n \<le> 222 \<and> n \<noteq> 215) then char_of (n + 32) else c)"

definition py_lower :: "string \<Rightarrow> string" where
  "py_lower s = map lower_char s"

text \<open>\<open>str.upper\<close> on ASCII.\<close>

definition upper_char :: "char \<Rightarrow> char" where
  "upper_char c = (let n = (of_char c :: nat) in if 97 \<le> n \<and> n \<le> 122 then char_of (n - 32) else c)"

definition py_upper :: "string \<Rightarrow> string" where
  "py_upper s = map upper_char s"

text \<open>\<open>str.split()\<close>: the maximal runs of non-space characters.\<close>

fun words_acc :: "string \<Rightarrow> string \<Rightarrow> string list" where
  "words_acc acc [] = (if acc = [] then [] else [rev acc])"
| "words_acc acc (c # cs) =
     (if py_ws c then (if acc = [] then words_acc [] cs else rev acc # words_acc [] cs)
      else words_acc (c # acc) cs)"

definition py_split :: "string \<Rightarrow> string list" where
  "py_split s = words_acc [] s"

text \<open>\<open>s.split(c, 1)\<close> for a one-character separator: one part or two.\<close>

fun split_once :: "char \<Rightarrow> string \<Rightarrow> string list" where
  "split_once c [] = [[]]"
| "split_once c (x # xs) =
     (if x = c then [[], xs]
      else case split_once c xs of [] \<Rightarrow> [[x]] | p # ps \<Rightarrow> (x # p) # ps)"

text \<open>\<open>needle in hay\<close> on strings.\<close>

fun str_in :: "string \<Rightarrow> string \<Rightarrow> bool" where
  "str_in n [] = (n = [])"
| "str_in n (c # cs) = (prefix n (c # cs) \<or> str_in n cs)"

text \<open>\<open>sep.join(xs)\<close>.\<close>

fun str_join :: "string \<Rightarrow> string list \<Rightarrow> string" where
  "str_join sep [] = []"
| "str_join sep [x] = x"
| "str_join sep (x # y # ys) = x @ sep @ str_join sep (y # ys)"

text \<open>Decimal rendering of a non-negative integer and \<open>f"{n:03d}"\<close>.\<close>

definition digit_char :: "nat \<Rightarrow> char" where
  "digit_char d = char_of (48 + d)"

fun show_nat :: "nat \<Rightarrow> string" where
  "show_nat n = (if n < 10 then [digit_char n] else show_nat (n div 10) @ [digit_char (n mod 10)])"

declare show_nat.simps [simp del]

definition pad3 :: "nat \<Rightarrow> string" where
  "pad3 n = (let s = show_nat n in replicate (3 - length s) (CHR ''0'') @ s)"

definition is_digit :: "char \<Rightarrow> bool" where
  "is_digit c = (let n = (of_char c :: nat) in 48 \<le> n \<and> n \<le> 57)"

definition digit_val :: "char \<Rightarrow> nat" where
  "digit_val c = (of_char c :: nat) - 48"

definition nat_of_digits :: "string \<Rightarrow> nat" where
  "nat_of_digits s = foldl (\<lambda>n c. 10 * n + digit_val c) 0 s"

subsection \<open>Facts about strings\<close>

lemma py_ws_space [simp]: "py_ws (CHR '' '')"
  by (simp add: py_ws_def)

lemma words_acc_no_ws:
  "(\<forall>c \<in> set acc. \<not> py_ws c) \<Longrightarrow> t \<in> set (words_acc acc s) \<Longrightarrow> t \<noteq> [] \<and> (\<forall>c \<in> set t. \<not> py_ws c)"
proof (induction acc s arbitrary: t rule: words_acc.induct)
  case (1 acc)
  then show ?case by (cases "acc = []") auto
next
  case (2 acc c cs)
  consider "\<not> py_ws c" | "py_ws c" "acc = []" | "py_ws c" "acc \<noteq> []" by blast
  then show ?case
  proof cases
    case 1
    have "\<forall>x \<in> set (c # acc). \<not> py_ws x" using 1 2(4) by simp
    moreover have "t \<in> set (words_acc (c # acc) cs)" using 1 2(5) by simp
    ultimately show ?thesis by (rule 2(3) [OF 1])
  next
    case ws: 2
    then have "t \<in> set (words_acc [] cs)" using 2(5) by simp
    then show ?thesis by (rule 2(1) [OF ws, rotated]) simp
  next
    case ws: 3
    then have "t = rev acc \<or> t \<in> set (words_acc [] cs)" using 2(5) by simp
    moreover have "t \<in> set (words_acc [] cs) \<Longrightarrow> t \<noteq> [] \<and> (\<forall>c \<in> set t. \<not> py_ws c)"
      by (rule 2(2) [OF ws, rotated]) simp_all
    ultimately show ?thesis using ws(2) 2(4) by auto
  qed
qed

lemma py_split_words: "t \<in> set (py_split s) \<Longrightarrow> t \<noteq> [] \<and> (\<forall>c \<in> set t. \<not> py_ws c)"
  unfolding py_split_def by (rule words_acc_no_ws) auto

lemma words_acc_prefix:
  "\<forall>c \<in> set t. \<not> py_ws c \<Longrightarrow> words_acc acc (t @ s) = words_acc (rev t @ acc) s"
  by (induction t arbitrary: acc) auto

lemma py_split_join:
  "\<forall>t \<in> set ts. t \<noteq> [] \<and> (\<forall>c \<in> set t. \<not> py_ws c) \<Longrightarrow> py_split (str_join [CHR '' ''] ts) = ts"
proof (induction ts rule: list.induct)
  case Nil
  then show ?case by (simp add: py_split_def)
next
  case (Cons x ts)
  then have x: "x \<noteq> []" "\<forall>c \<in> set x. \<not> py_ws c" by auto
  show ?case
  proof (cases ts)
    case Nil
    with x words_acc_prefix [of x "[]" "[]"] show ?thesis by (simp add: py_split_def)
  next
    case (Cons y ys)
    with x words_acc_prefix [of x "[]" "CHR '' '' # str_join [CHR '' ''] (y # ys)"] Cons.IH Cons.prems
    show ?thesis by (simp add: py_split_def)
  qed
qed

lemma dropWhile_py_ws_idem [simp]: "dropWhile py_ws (dropWhile py_ws s) = dropWhile py_ws s"
  by (induction s) auto

lemma digit_val_char [simp]: "d < 10 \<Longrightarrow> digit_val (digit_char d) = d"
  by (simp add: digit_val_def digit_char_def)

lemma nat_of_digits_snoc: "nat_of_digits (s @ [c]) = 10 * nat_of_digits s + digit_val c"
  by (simp add: nat_of_digits_def)

lemma nat_of_digits_show [simp]: "nat_of_digits (show_nat n) = n"
proof (induction n rule: show_nat.induct)
  case (1 n)
  show ?case
  proof (cases "n < 10")
    case True
    then show ?thesis by (subst show_nat.simps) (simp add: nat_of_digits_def)
  next
    case False
    with 1 show ?thesis by (subst show_nat.simps) (simp add: nat_of_digits_snoc)
  qed
qed

lemma nat_of_digits_zeros: "nat_of_digits (replicate k (CHR ''0'') @ s) = nat_of_digits s"
  by (induction k) (simp_all add: nat_of_digits_def digit_val_def)

lemma nat_of_digits_pad3 [simp]: "nat_of_digits (pad3 n) = n"
  by (simp add: pad3_def Let_def nat_of_digits_zeros)

lemma pad3_inj [simp]: "pad3 m = pad3 n \<longleftrightarrow> m = n"
  by (metis nat_of_digits_pad3)

lemma str_in_sublist: "str_in n h \<longleftrightarrow> sublist n h"
  by (induction h) (auto simp: sublist_Cons_right)

section \<open>Ordered dictionaries\<close>

lemma in_set_tl: "x \<in> set (tl xs) \<Longrightarrow> x \<in> set xs"
  by (cases xs) auto

lemma update_new: "k \<notin> fst ` set d \<Longrightarrow> AList.update k v d = d @ [(k, v)]"
  by (induction d) auto

lemma update_last: "k \<notin> fst ` set d \<Longrightarrow> AList.update k v (d @ [(k, w)]) = d @ [(k, v)]"
  by (induction d) auto

lemma map_of_update [dict_simps]: "map_of (AList.update k v d) = (map_of d)(k \<mapsto> v)"
  by (simp add: update_conv')

lemma map_of_delete [dict_simps]: "map_of (AList.delete k d) = (map_of d)(k := None)"
  by (simp add: delete_conv')

lemma map_of_filter_key:
  "map_of (filter (\<lambda>(k, v). P k) d) k = (if P k then map_of d k else None)"
  by (induction d) auto

lemma distinct_keys_update [simp]:
  "distinct (map fst d) \<Longrightarrow> distinct (map fst (AList.update k v d))"
  by (rule distinct_update)

lemma distinct_keys_delete [simp]:
  "distinct (map fst d) \<Longrightarrow> distinct (map fst (AList.delete k d))"
  by (rule distinct_delete)

lemma distinct_keys_filter [simp]:
  "distinct (map fst d) \<Longrightarrow> distinct (map fst (filter P d))"
  by (rule distinct_map_filter)

lemma keys_update [dict_simps]: "fst ` set (AList.update k v d) = insert k (fst ` set d)"
  by (simp add: dom_update)

lemma keys_delete [dict_simps]: "fst ` set (AList.delete k d) = fst ` set d - {k}"
  by (auto simp: AList.delete_eq image_iff)

lemma length_delete_less:
  "distinct (map fst d) \<Longrightarrow> k \<in> fst ` set d \<Longrightarrow> Suc (length (AList.delete k d)) = length d"
proof (induction d)
  case Nil
  then show ?case by simp
next
  case (Cons p d)
  show ?case
  proof (cases "fst p = k")
    case True
    with Cons.prems have "k \<notin> fst ` set d" by auto
    then have "AList.delete k d = d" by (simp add: delete_idem)
    with True show ?thesis by (cases p) (simp add: AList.delete_eq)
  next
    case False
    with Cons have "Suc (length (AList.delete k d)) = length d" by auto
    with False show ?thesis by (cases p) (simp add: AList.delete_eq)
  qed
qed

section \<open>Rendering and reading Python values\<close>

definition show_int :: "int \<Rightarrow> string" where
  "show_int i = (if i < 0 then CHR ''-'' # show_nat (nat (- i)) else show_nat (nat i))"

definition hex_digit :: "nat \<Rightarrow> char" where
  "hex_digit d = (if d < 10 then char_of (48 + d) else char_of (87 + d))"

text \<open>\<open>repr\<close> of one character of a string quoted with \<open>q\<close>.\<close>

definition repr_char :: "char \<Rightarrow> char \<Rightarrow> string" where
  "repr_char q c = (let n = (of_char c :: nat) in
     if c = q \<or> c = CHR 0x5C then [CHR 0x5C, c]
     else if n = 10 then [CHR 0x5C, CHR ''n'']
     else if n = 13 then [CHR 0x5C, CHR ''r'']
     else if n = 9 then [CHR 0x5C, CHR ''t'']
     else if n < 32 \<or> (127 \<le> n \<and> n \<le> 160) \<or> n = 173
     then [CHR 0x5C, CHR ''x'', hex_digit (n div 16), hex_digit (n mod 16)]
     else [c])"

definition repr_str :: "string \<Rightarrow> string" where
  "repr_str s = (let q = (if CHR 0x27 \<in> set s \<and> CHR 0x22 \<notin> set s then CHR 0x22 else CHR 0x27)
     in [q] @ concat (map (repr_char q) s) @ [q])"

text \<open>
  \<open>repr\<close> and \<open>str\<close>.  A float is a real number here and has no decimal rendering: it is
  rendered as the fixed text below, and no property depends on it.
\<close>

fun py_repr :: "py \<Rightarrow> string" where
  "py_repr PNone = ''None''"
| "py_repr (PBool b) = (if b then ''True'' else ''False'')"
| "py_repr (PInt i) = show_int i"
| "py_repr (PFloat r) = ''<float>''"
| "py_repr (PStr s) = repr_str s"
| "py_repr (PList xs) = ''['' @ str_join '', '' (map py_repr xs) @ '']''"
| "py_repr (PDict d) = ''{'' @ str_join '', '' (map (\<lambda>(k, v). repr_str k @ '': '' @ py_repr v) d) @ ''}''"

fun py_str :: "py \<Rightarrow> string" where
  "py_str (PStr s) = s"
| "py_str v = py_repr v"

text \<open>Python's \<open>isinstance(x, dict)\<close> and \<open>isinstance(x, str)\<close>.\<close>

fun is_dict :: "py \<Rightarrow> bool" where
  "is_dict (PDict d) = True"
| "is_dict _ = False"

fun is_str :: "py \<Rightarrow> bool" where
  "is_str (PStr s) = True"
| "is_str _ = False"

text \<open>A value that cannot be a dictionary key or be looked up in one: \<open>TypeError\<close>.\<close>

fun unhashable :: "py \<Rightarrow> bool" where
  "unhashable (PList xs) = True"
| "unhashable (PDict d) = True"
| "unhashable _ = False"

lemma size_pyget: "is_dict v \<Longrightarrow> v = pyget d k \<Longrightarrow> size v < size (PDict d)"
proof (induction d)
  case Nil
  then show ?case by simp
next
  case (Cons p d)
  then show ?case by (cases p) (auto split: if_splits)
qed

end
