(* ===== verification/AuthErrors.thy ===== *)
theory AuthErrors
  imports Prelude
begin

text \<open>
  \<open>common/auth/errors.py\<close>: the exception hierarchy of the authentication and consent
  failures, the catalogue id every class carries, and the \<open>isinstance\<close> test by which an
  \<open>except\<close> clause selects what it handles.  The developer-facing message and the log
  details of an exception are not modelled; its class and its \<open>error_id\<close> are.
\<close>

datatype exc_class =
    AuthError
  | JWTValidationError
  | PeerTrustError
  | ScopeError
  | CIBAError
  | CIBAInitiationError
  | CIBADeniedError
  | CIBAExpiredError
  | CIBATimeoutError
  | CIBAPollError
  | ActorTokenError

fun exc_parent :: "exc_class \<Rightarrow> exc_class option" where
  "exc_parent AuthError = None"
| "exc_parent JWTValidationError = Some AuthError"
| "exc_parent PeerTrustError = Some AuthError"
| "exc_parent ScopeError = Some AuthError"
| "exc_parent CIBAError = Some AuthError"
| "exc_parent CIBAInitiationError = Some CIBAError"
| "exc_parent CIBADeniedError = Some CIBAError"
| "exc_parent CIBAExpiredError = Some CIBAError"
| "exc_parent CIBATimeoutError = Some CIBAError"
| "exc_parent CIBAPollError = Some CIBAError"
| "exc_parent ActorTokenError = Some AuthError"

fun class_error_id :: "exc_class \<Rightarrow> string" where
  "class_error_id AuthError = ''ERR-AUTH-000''"
| "class_error_id JWTValidationError = ''ERR-AUTH-006''"
| "class_error_id PeerTrustError = ''ERR-AGENT-002''"
| "class_error_id ScopeError = ''ERR-MCP-003''"
| "class_error_id CIBAError = ''ERR-CIBA-000''"
| "class_error_id CIBAInitiationError = ''ERR-CIBA-001''"
| "class_error_id CIBADeniedError = ''ERR-CIBA-005''"
| "class_error_id CIBAExpiredError = ''ERR-CIBA-009''"
| "class_error_id CIBATimeoutError = ''ERR-CIBA-010''"
| "class_error_id CIBAPollError = ''ERR-CIBA-008''"
| "class_error_id ActorTokenError = ''ERR-CIBA-009''"

record auth_error =
  ae_class :: exc_class
  ae_id :: string

text \<open>The constructor: an explicit \<open>error_id\<close> overrides the class attribute.\<close>

definition mk_auth_error :: "exc_class \<Rightarrow> string option \<Rightarrow> auth_error" where
  "mk_auth_error c eid = \<lparr>ae_class = c, ae_id = (case eid of None \<Rightarrow> class_error_id c | Some i \<Rightarrow> i)\<rparr>"

definition exc_isinstance :: "exc_class \<Rightarrow> exc_class \<Rightarrow> bool" where
  "exc_isinstance c d = (c = d \<or> exc_parent c = Some d
     \<or> (case exc_parent c of None \<Rightarrow> False | Some p \<Rightarrow> exc_parent p = Some d))"

text \<open>What a call can raise: one of the exceptions above or another Python exception.\<close>

datatype exn = EAuth auth_error | EPy string

type_synonym 'a res = "exn + 'a"

fun raised_as :: "exn \<Rightarrow> exc_class \<Rightarrow> bool" where
  "raised_as (EAuth e) c = exc_isinstance (ae_class e) c"
| "raised_as (EPy n) c = False"

fun exn_id :: "exn \<Rightarrow> string" where
  "exn_id (EAuth e) = ae_id e"
| "exn_id (EPy n) = n"

definition raise_auth :: "exc_class \<Rightarrow> string \<Rightarrow> exn" where
  "raise_auth c eid = EAuth (mk_auth_error c (Some eid))"

definition raise_default :: "exc_class \<Rightarrow> exn" where
  "raise_default c = EAuth (mk_auth_error c None)"

lemma raise_auth_simps [simp]:
  "exn_id (raise_auth c i) = i"
  "raised_as (raise_auth c i) d = exc_isinstance c d"
  "exn_id (raise_default c) = class_error_id c"
  "raised_as (raise_default c) d = exc_isinstance c d"
  "raise_auth c i = raise_auth c' i' \<longleftrightarrow> c = c' \<and> i = i'"
  "raise_auth c i \<noteq> EPy n"
  "raise_default c = raise_default d \<longleftrightarrow> c = d"
  "raise_default c \<noteq> EPy n"
  "EPy n \<noteq> raise_default c"
  by (auto simp: raise_auth_def raise_default_def mk_auth_error_def)

lemma exc_isinstance_refl [simp]: "exc_isinstance c c"
  by (simp add: exc_isinstance_def)

lemma exc_isinstance_base: "exc_isinstance c AuthError"
  by (cases c) (simp_all add: exc_isinstance_def)

lemma exc_isinstance_ciba:
  "exc_isinstance c CIBAError \<longleftrightarrow>
     c \<in> {CIBAError, CIBAInitiationError, CIBADeniedError, CIBAExpiredError, CIBATimeoutError, CIBAPollError}"
  by (cases c) (simp_all add: exc_isinstance_def)

lemma exc_isinstance_trans:
  "exc_isinstance a b \<Longrightarrow> exc_isinstance b c \<Longrightarrow> exc_isinstance a c"
  by (cases a; cases b; cases c) (simp_all add: exc_isinstance_def)

section \<open>int(x)\<close>

definition digits_int :: "string \<Rightarrow> int option" where
  "digits_int s = (if s \<noteq> [] \<and> list_all is_digit s then Some (int (nat_of_digits s)) else None)"

text \<open>
  \<open>int\<close> of a JSON value.  A string is stripped, may carry a sign, and may separate its
  digits by single underscores.
\<close>

fun drop_underscores :: "string \<Rightarrow> string option" where
  "drop_underscores [] = Some []"
| "drop_underscores [c] = (if is_digit c then Some [c] else None)"
| "drop_underscores (c # d # cs) =
     (if \<not> is_digit c then None
      else if d = CHR ''_'' then (if cs = [] then None else map_option (Cons c) (drop_underscores cs))
      else map_option (Cons c) (drop_underscores (d # cs)))"

definition int_of_string :: "string \<Rightarrow> int option" where
  "int_of_string s0 =
     (let s = py_strip s0;
          neg = (case s of c # _ \<Rightarrow> c = CHR ''-'' | [] \<Rightarrow> False);
          body = (case s of c # cs \<Rightarrow> if c = CHR ''-'' \<or> c = CHR ''+'' then cs else s | [] \<Rightarrow> s)
      in case Option.bind (drop_underscores body) digits_int of
           None \<Rightarrow> None
         | Some i \<Rightarrow> Some (if neg then - i else i))"

definition trunc_real :: "real \<Rightarrow> int" where
  "trunc_real r = (if r < 0 then \<lceil>r\<rceil> else \<lfloor>r\<rfloor>)"

fun py_int :: "py \<Rightarrow> int res" where
  "py_int (PInt i) = Inr i"
| "py_int (PBool b) = Inr (if b then 1 else 0)"
| "py_int (PFloat r) = Inr (trunc_real r)"
| "py_int (PStr s) = (case int_of_string s of None \<Rightarrow> Inl (EPy ''ValueError'') | Some i \<Rightarrow> Inr i)"
| "py_int _ = Inl (EPy ''TypeError'')"

lemma py_int_error: "py_int v = Inl e \<Longrightarrow> \<exists>n. e = EPy n"
  by (cases v) (auto split: option.splits)

end
