(* ===== verification/TokenModels.thy ===== *)
theory TokenModels
  imports AuthErrors
begin

text \<open>
  \<open>common/auth/models.py\<close> and \<open>common/auth/peer_trust.py\<close>: the token and claims data, the
  walk over the nested \<open>act\<close> claim, and the peer allowlist check on the resulting chain.
\<close>

section \<open>OAuthToken\<close>

text \<open>
  The \<open>/oauth2/token\<close> reply; a field copied from the JSON body keeps the value it has
  there.  \<open>expires_at\<close> is in epoch seconds.
\<close>

record oauth_token =
  access_token :: py
  token_type :: py
  expires_in :: int
  expires_at :: real
  refresh_token :: py
  token_scope :: py
  id_token :: py

definition pyget_or :: "pydict \<Rightarrow> string \<Rightarrow> py \<Rightarrow> py" where
  "pyget_or d k dflt = (case map_of d k of None \<Rightarrow> dflt | Some v \<Rightarrow> v)"

definition from_response :: "pydict \<Rightarrow> real \<Rightarrow> oauth_token res" where
  "from_response body effective_now =
     (case map_of body ''expires_in'' of
        None \<Rightarrow> Inl (EPy ''KeyError'')
      | Some ex \<Rightarrow>
         (case py_int ex of
            Inl e \<Rightarrow> Inl e
          | Inr secs \<Rightarrow>
             (case map_of body ''access_token'' of
                None \<Rightarrow> Inl (EPy ''KeyError'')
              | Some tok \<Rightarrow>
                 Inr \<lparr>access_token = tok,
                      token_type = pyget_or body ''token_type'' (PStr ''Bearer''),
                      expires_in = secs,
                      expires_at = effective_now + of_int secs,
                      refresh_token = pyget body ''refresh_token'',
                      token_scope = pyget_or body ''scope'' (PStr ''''),
                      id_token = pyget body ''id_token''\<rparr>)))"

record obo_token =
  obo_raw :: oauth_token
  obo_sub :: string
  obo_act_sub :: string
  obo_aud :: string
  obo_iss :: string
  obo_iat :: real
  obo_jti :: string

text \<open>\<open>OBOToken.is_expired\<close> (the code's default buffer is 30 seconds).\<close>

definition obo_is_expired :: "obo_token \<Rightarrow> real \<Rightarrow> int \<Rightarrow> bool" where
  "obo_is_expired t now buffer_s = (expires_at (obo_raw t) - of_int buffer_s \<le> now)"

section \<open>JWTClaims\<close>

record jwt_claims =
  c_sub :: string
  c_iss :: string
  c_aud :: py
  c_exp :: int
  c_iat :: int
  c_jti :: py
  c_act :: py
  c_scope :: py
  c_aut :: py
  c_username :: "string option"
  c_email :: "string option"

text \<open>
  \<open>act_chain\<close>: the actors from the outermost inwards.  The loop walks into \<open>act.act\<close>
  while it is an object, so it ends because every step goes to a smaller value.
\<close>

function act_walk :: "py \<Rightarrow> string list" where
  "act_walk cur =
     (case cur of
        PDict d \<Rightarrow>
          (let sub = pyget d ''sub''; rest = pyget d ''act''
           in (if truthy sub then [py_str sub] else []) @ (if is_dict rest then act_walk rest else []))
      | _ \<Rightarrow> [])"
  by pat_completeness auto
termination
  by (relation "measure size") (auto dest: size_pyget [OF _ refl])

declare act_walk.simps [simp del]

definition act_chain :: "jwt_claims \<Rightarrow> string list" where
  "act_chain c = act_walk (c_act c)"

lemma act_walk_not_dict [simp]: "\<not> is_dict v \<Longrightarrow> act_walk v = []"
  by (cases v) (simp_all add: act_walk.simps)

lemma act_walk_dict [simp]:
  "act_walk (PDict d) =
     (if truthy (pyget d ''sub'') then [py_str (pyget d ''sub'')] else []) @ act_walk (pyget d ''act'')"
  by (subst act_walk.simps) (simp add: Let_def)

section \<open>Peer trust\<close>

definition extract_chain :: "jwt_claims \<Rightarrow> string list" where
  "extract_chain c = act_chain c"

text \<open>The per-actor loop: the first actor outside the allowlist raises.\<close>

fun check_actors :: "string list \<Rightarrow> string set \<Rightarrow> unit res" where
  "check_actors [] allowed = Inr ()"
| "check_actors (a # as) allowed =
     (if a \<notin> allowed then Inl (raise_default PeerTrustError) else check_actors as allowed)"

definition validate_chain :: "jwt_claims \<Rightarrow> string set \<Rightarrow> bool \<Rightarrow> int \<Rightarrow> unit res" where
  "validate_chain claims allowed_peers require_non_empty max_depth =
     (let chain = extract_chain claims in
      if chain = [] then
        (if require_non_empty then Inl (raise_default PeerTrustError) else Inr ())
      else if max_depth < int (length chain) then Inl (raise_default PeerTrustError)
      else check_actors chain allowed_peers)"

lemma check_actors_ok: "check_actors as allowed = Inr () \<longleftrightarrow> set as \<subseteq> allowed"
  by (induction as) auto

lemma check_actors_err: "check_actors as allowed = Inl e \<Longrightarrow> e = raise_default PeerTrustError"
  by (induction as) (auto split: if_splits)

lemma validate_chain_ok:
  "validate_chain c allowed True n = Inr () \<longleftrightarrow>
     act_chain c \<noteq> [] \<and> int (length (act_chain c)) \<le> n \<and> set (act_chain c) \<subseteq> allowed"
  by (auto simp: validate_chain_def extract_chain_def Let_def check_actors_ok)

lemma validate_chain_err:
  "validate_chain c allowed b n = Inl e \<Longrightarrow> e = raise_default PeerTrustError"
  by (auto simp: validate_chain_def Let_def dest: check_actors_err split: if_splits)

text \<open>With the default depth of one, the accepted chain is a single trusted actor.\<close>

lemma validate_chain_depth1:
  "validate_chain c allowed True 1 = Inr () \<longleftrightarrow> (\<exists>a \<in> allowed. act_chain c = [a])"
  unfolding validate_chain_ok by (cases "act_chain c") auto

end
