(* ===== verification/Jwt.thy ===== *)
theory Jwt
  imports TokenModels
begin

text \<open>
  \<open>common/auth/jwt_validator.py\<close>: the signing-key cache with its refetch on a key miss,
  the sanitiser of the identity claims, and the six-step token validation.

  PyJWT and the JWKS endpoint are parameters.  \<open>'k pyjwt\<close> bundles the library functions
  the code calls; \<open>net n\<close> is the reply to the \<open>n\<close>-th HTTP request of a cache together with
  the monotonic clock when it arrived.  The cache counts its requests, so the properties
  can say when it goes to the network.
\<close>

section \<open>The library interface\<close>

datatype jwt_err =
    ExpiredSignatureError
  | InvalidIssuerError
  | InvalidSignatureError
  | DecodeError
  | OtherInvalidTokenError

record 'k pyjwt =
  j_header :: "string \<Rightarrow> jwt_err + pydict"
  j_from_jwk :: "py \<Rightarrow> 'k option"
  j_decode :: "string \<Rightarrow> 'k \<Rightarrow> string \<Rightarrow> int \<Rightarrow> real \<Rightarrow> jwt_err + pydict"

datatype jwks_reply = JwksStatus int | JwksRequestError | JwksNotJson | JwksBody py

type_synonym jwks_net = "nat \<Rightarrow> jwks_reply \<times> real"

record validator_config =
  vc_expected_iss :: string
  vc_jwks_url :: string
  vc_expected_aud :: "string option"
  vc_required_scopes :: "string set"
  vc_leeway_seconds :: int
  vc_insecure_tls :: bool

section \<open>JWKSCache\<close>

record jwks_cache =
  jc_jwks_url :: string
  jc_ttl_seconds :: int
  jc_insecure_tls :: bool
  jc_keys :: "(py \<times> py) list"
  jc_fetched_at :: real
  jc_requests :: nat

definition new_jwks_cache :: "string \<Rightarrow> bool \<Rightarrow> jwks_cache" where
  "new_jwks_cache url insecure =
     \<lparr>jc_jwks_url = url, jc_ttl_seconds = 3600, jc_insecure_tls = insecure,
      jc_keys = [], jc_fetched_at = 0, jc_requests = 0\<rparr>"

definition jwks_is_stale :: "real \<Rightarrow> jwks_cache \<Rightarrow> bool" where
  "jwks_is_stale mt c = (of_int (jc_ttl_seconds c) \<le> mt - jc_fetched_at c)"

text \<open>The loop over \<open>jwks.get("keys", [])\<close>, as Python iterates a value of each shape.\<close>

fun index_keys :: "py list \<Rightarrow> (py \<times> py) list \<Rightarrow> (py \<times> py) list res" where
  "index_keys [] acc = Inr acc"
| "index_keys (k # ks) acc =
     (case k of
        PDict d \<Rightarrow>
          (let kid = pyget d ''kid''
           in if \<not> truthy kid then index_keys ks acc
              else if unhashable kid then Inl (EPy ''TypeError'')
              else index_keys ks (AList.update kid k acc))
      | _ \<Rightarrow> Inl (EPy ''AttributeError''))"

definition keys_of_body :: "py \<Rightarrow> (py \<times> py) list res" where
  "keys_of_body body =
     (case body of
        PDict d \<Rightarrow>
          (case pyget_or d ''keys'' (PList []) of
             PList ks \<Rightarrow> index_keys ks []
           | PStr s \<Rightarrow> index_keys (map (\<lambda>c. PStr [c]) s) []
           | PDict e \<Rightarrow> index_keys (map (\<lambda>(k, _). PStr k) e) []
           | _ \<Rightarrow> Inl (EPy ''TypeError''))
      | _ \<Rightarrow> Inl (EPy ''AttributeError''))"

definition jwks_refresh :: "jwks_net \<Rightarrow> jwks_cache \<Rightarrow> unit res \<times> jwks_cache" where
  "jwks_refresh net c =
     (let n = jc_requests c; c' = c\<lparr>jc_requests := Suc n\<rparr>
      in case net n of
           (JwksBody body, mt) \<Rightarrow>
             (case keys_of_body body of
                Inl e \<Rightarrow> (Inl e, c')
              | Inr ks \<Rightarrow> (Inr (), c'\<lparr>jc_keys := ks, jc_fetched_at := mt\<rparr>))
         | (_, _) \<Rightarrow> (Inl (raise_auth JWTValidationError ''ERR-AUTH-006''), c'))"

text \<open>The second half of \<open>get_key\<close>: a cached key, or one forced refetch.\<close>

definition jwks_lookup :: "jwks_net \<Rightarrow> py \<Rightarrow> jwks_cache \<Rightarrow> py res \<times> jwks_cache" where
  "jwks_lookup net kid c =
     (if unhashable kid then (Inl (EPy ''TypeError''), c)
      else case map_of (jc_keys c) kid of
        Some k \<Rightarrow> (Inr k, c)
      | None \<Rightarrow>
         (case jwks_refresh net c of
            (Inl e, c') \<Rightarrow> (Inl e, c')
          | (Inr _, c') \<Rightarrow>
             (case map_of (jc_keys c') kid of
                Some k \<Rightarrow> (Inr k, c')
              | None \<Rightarrow> (Inl (raise_auth JWTValidationError ''ERR-AUTH-006''), c'))))"

definition jwks_get_key :: "jwks_net \<Rightarrow> real \<Rightarrow> py \<Rightarrow> jwks_cache \<Rightarrow> py res \<times> jwks_cache" where
  "jwks_get_key net mt kid c =
     (if jwks_is_stale mt c then
        (case jwks_refresh net c of
           (Inl e, c') \<Rightarrow> (Inl e, c')
         | (Inr _, c') \<Rightarrow> jwks_lookup net kid c')
      else jwks_lookup net kid c)"

section \<open>The shared cache registry\<close>

type_synonym cache_registry = "((string \<times> bool) \<times> jwks_cache) list"

definition get_or_create_cache :: "validator_config \<Rightarrow> cache_registry \<Rightarrow> jwks_cache \<times> cache_registry" where
  "get_or_create_cache cfg reg =
     (let key = (vc_jwks_url cfg, vc_insecure_tls cfg)
      in case map_of reg key of
           Some c \<Rightarrow> (c, reg)
         | None \<Rightarrow>
            (let c = new_jwks_cache (vc_jwks_url cfg) (vc_insecure_tls cfg)
             in (c, AList.update key c reg)))"

text \<open>The registry holds one object per key, so what a refresh does to it is seen by all.\<close>

definition prewarm_shared_cache ::
  "jwks_net \<Rightarrow> string \<Rightarrow> bool \<Rightarrow> cache_registry \<Rightarrow> jwks_cache res \<times> cache_registry"
where
  "prewarm_shared_cache net url insecure reg =
     (let cfg = \<lparr>vc_expected_iss = [], vc_jwks_url = url, vc_expected_aud = None,
                 vc_required_scopes = {}, vc_leeway_seconds = 30, vc_insecure_tls = insecure\<rparr>;
          (c, reg1) = get_or_create_cache cfg reg
      in case jwks_refresh net c of
           (Inl e, c') \<Rightarrow> (Inl e, AList.update (url, insecure) c' reg1)
         | (Inr _, c') \<Rightarrow> (Inr c', AList.update (url, insecure) c' reg1))"

section \<open>Identity claim sanitising\<close>

text \<open>
  On Unicode code points: the class of the removed characters, and the white space
  \<open>str.strip\<close> removes.
\<close>

definition forbidden_point :: "nat \<Rightarrow> bool" where
  "forbidden_point n = (n \<le> 31 \<or> n = 8232 \<or> n = 8233)"

definition space_point :: "nat \<Rightarrow> bool" where
  "space_point n = ((9 \<le> n \<and> n \<le> 13) \<or> (28 \<le> n \<and> n \<le> 32) \<or> n = 133 \<or> n = 160 \<or> n = 5760
     \<or> (8192 \<le> n \<and> n \<le> 8202) \<or> n = 8232 \<or> n = 8233 \<or> n = 8239 \<or> n = 8287 \<or> n = 12288)"

definition sanitise_points :: "nat \<Rightarrow> nat list \<Rightarrow> nat list option" where
  "sanitise_points max_len value =
     (let cleaned = rev (dropWhile space_point (rev (dropWhile space_point
                      (filter (\<lambda>n. \<not> forbidden_point n) value))))
      in if cleaned = [] then None
         else if max_len < length cleaned then Some (take max_len cleaned)
         else Some cleaned)"

definition sanitise_user_string :: "py \<Rightarrow> nat \<Rightarrow> string option" where
  "sanitise_user_string value max_len =
     (case value of
        PStr s \<Rightarrow> map_option (map char_of) (sanitise_points max_len (map of_char s))
      | _ \<Rightarrow> None)"

section \<open>validate()\<close>

text \<open>The except clauses around \<open>jwt.decode\<close>, in their order.\<close>

fun decode_error :: "jwt_err \<Rightarrow> exn" where
  "decode_error ExpiredSignatureError = raise_auth JWTValidationError ''ERR-AUTH-008''"
| "decode_error InvalidIssuerError = raise_auth JWTValidationError ''ERR-AUTH-007''"
| "decode_error InvalidSignatureError = raise_auth JWTValidationError ''ERR-AUTH-006''"
| "decode_error DecodeError = raise_auth JWTValidationError ''ERR-AUTH-006''"
| "decode_error OtherInvalidTokenError = raise_auth JWTValidationError ''ERR-AUTH-006''"

text \<open>The header parse catches \<open>DecodeError\<close> and its subclass only.\<close>

fun header_error :: "jwt_err \<Rightarrow> exn" where
  "header_error DecodeError = raise_auth JWTValidationError ''ERR-AUTH-006''"
| "header_error InvalidSignatureError = raise_auth JWTValidationError ''ERR-AUTH-006''"
| "header_error _ = EPy ''InvalidTokenError''"

text \<open>The \<open>aud\<close> claim as a list: a list stays, another truthy value is wrapped.\<close>

definition aud_list :: "py \<Rightarrow> py list" where
  "aud_list raw = (case raw of PList xs \<Rightarrow> xs | _ \<Rightarrow> if truthy raw then [raw] else [])"

definition scope_words :: "py \<Rightarrow> string list res" where
  "scope_words v = (case v of PStr s \<Rightarrow> Inr (py_split s) | _ \<Rightarrow> Inl (EPy ''AttributeError''))"

text \<open>Steps 3 to 5 on the decoded payload.\<close>

definition check_payload :: "validator_config \<Rightarrow> pydict \<Rightarrow> unit res" where
  "check_payload cfg p =
     (case (case vc_expected_aud cfg of
              None \<Rightarrow> Inr ()
            | Some a \<Rightarrow>
                if PStr a \<notin> set (aud_list (pyget p ''aud''))
                then Inl (raise_auth JWTValidationError ''ERR-MCP-001'') else Inr ()) of
        Inl e \<Rightarrow> Inl e
      | Inr _ \<Rightarrow>
         if \<not> truthy (pyget p ''jti'') then Inl (raise_auth JWTValidationError ''ERR-AUTH-010'')
         else if vc_required_scopes cfg = {} then Inr ()
         else (case scope_words (pyget_or p ''scope'' (PStr [])) of
                 Inl e \<Rightarrow> Inl e
               | Inr ws \<Rightarrow>
                   if vc_required_scopes cfg - set ws \<noteq> {}
                   then Inl (raise_auth JWTValidationError ''ERR-MCP-003'') else Inr ()))"

text \<open>Step 6: the claims record.\<close>

definition assemble_claims :: "pydict \<Rightarrow> jwt_claims res" where
  "assemble_claims p =
     (case (py_int (pyget_or p ''exp'' (PInt 0)), py_int (pyget_or p ''iat'' (PInt 0))) of
        (Inl e, _) \<Rightarrow> Inl e
      | (Inr _, Inl e) \<Rightarrow> Inl e
      | (Inr ex, Inr ia) \<Rightarrow>
         Inr \<lparr>c_sub = py_str (pyget_or p ''sub'' (PStr [])),
              c_iss = py_str (pyget_or p ''iss'' (PStr [])),
              c_aud = pyget_or p ''aud'' (PStr []),
              c_exp = ex, c_iat = ia,
              c_jti = pyget p ''jti'',
              c_act = pyget p ''act'',
              c_scope = pyget p ''scope'',
              c_aut = pyget p ''aut'',
              c_username = sanitise_user_string (pyget p ''username'') 64,
              c_email = sanitise_user_string (pyget p ''email'') 256\<rparr>)"

definition validate ::
  "'k pyjwt \<Rightarrow> jwks_net \<Rightarrow> real \<Rightarrow> real \<Rightarrow> string \<Rightarrow> validator_config \<Rightarrow> jwks_cache \<Rightarrow> jwt_claims res \<times> jwks_cache"
where
  "validate J net mt now token cfg cache =
     (case j_header J token of
        Inl e \<Rightarrow> (Inl (header_error e), cache)
      | Inr header \<Rightarrow>
         (let kid = pyget_or header ''kid'' (PStr [])
          in if \<not> truthy kid then (Inl (raise_auth JWTValidationError ''ERR-AUTH-006''), cache)
             else
              (case jwks_get_key net mt kid cache of
                 (Inl e, cache') \<Rightarrow> (Inl e, cache')
               | (Inr jwk, cache') \<Rightarrow>
                  (case j_from_jwk J jwk of
                     None \<Rightarrow> (Inl (raise_auth JWTValidationError ''ERR-AUTH-006''), cache')
                   | Some key \<Rightarrow>
                      (case j_decode J token key (vc_expected_iss cfg) (vc_leeway_seconds cfg) now of
                         Inl e \<Rightarrow> (Inl (decode_error e), cache')
                       | Inr p \<Rightarrow>
                          (case check_payload cfg p of
                             Inl e \<Rightarrow> (Inl e, cache')
                           | Inr _ \<Rightarrow> (assemble_claims p, cache')))))))"

section \<open>Facts\<close>

lemma jwks_refresh_requests: "jc_requests (snd (jwks_refresh net c)) = Suc (jc_requests c)"
  by (auto simp: jwks_refresh_def Let_def split: prod.splits jwks_reply.splits sum.splits)

lemma jwks_refresh_fixed:
  "jc_jwks_url (snd (jwks_refresh net c)) = jc_jwks_url c"
  "jc_ttl_seconds (snd (jwks_refresh net c)) = jc_ttl_seconds c"
  by (auto simp: jwks_refresh_def Let_def split: prod.splits jwks_reply.splits sum.splits)

lemma jwks_refresh_failed_keeps:
  "jwks_refresh net c = (Inl e, c') \<Longrightarrow> jc_keys c' = jc_keys c \<and> jc_fetched_at c' = jc_fetched_at c"
  by (auto simp: jwks_refresh_def Let_def split: prod.splits jwks_reply.splits sum.splits)

lemma jwks_lookup_found:
  "jwks_lookup net kid c = (Inr k, c') \<Longrightarrow> map_of (jc_keys c') kid = Some k"
  by (auto simp: jwks_lookup_def split: option.splits prod.splits sum.splits if_splits)

lemma jwks_get_key_found:
  "jwks_get_key net mt kid c = (Inr k, c') \<Longrightarrow> map_of (jc_keys c') kid = Some k"
  by (auto simp: jwks_get_key_def dest: jwks_lookup_found split: prod.splits sum.splits if_splits)

text \<open>The keys of a cache after a lookup: those it had, or those of an answer of the endpoint.\<close>

definition keys_served :: "jwks_net \<Rightarrow> jwks_cache \<Rightarrow> jwks_cache \<Rightarrow> bool" where
  "keys_served net c c' \<longleftrightarrow> jc_keys c' = jc_keys c
     \<or> (\<exists>n body t. jc_requests c \<le> n \<and> net n = (JwksBody body, t) \<and> keys_of_body body = Inr (jc_keys c'))"

lemma keys_served_refl [simp]: "keys_served net c c"
  by (simp add: keys_served_def)

lemma jwks_refresh_served: "jwks_refresh net c = (x, c') \<Longrightarrow> keys_served net c c'"
  by (auto simp: jwks_refresh_def keys_served_def Let_def split: prod.splits jwks_reply.splits sum.splits)

lemma keys_served_trans:
  "keys_served net c c1 \<Longrightarrow> jc_requests c \<le> jc_requests c1 \<Longrightarrow> keys_served net c1 c2 \<Longrightarrow> keys_served net c c2"
  unfolding keys_served_def by (metis order_trans)

lemma jwks_lookup_served: "jwks_lookup net kid c = (x, c') \<Longrightarrow> keys_served net c c'"
  by (auto simp: jwks_lookup_def dest: jwks_refresh_served
      split: option.splits prod.splits sum.splits if_splits)

lemma jwks_get_key_served:
  assumes "jwks_get_key net mt kid c = (x, c')"
  shows "keys_served net c c'"
proof (cases "jwks_is_stale mt c")
  case False
  then show ?thesis using assms jwks_lookup_served by (simp add: jwks_get_key_def)
next
  case True
  obtain r c1 where r: "jwks_refresh net c = (r, c1)" by force
  have "jc_requests c \<le> jc_requests c1" using jwks_refresh_requests [of net c] r by simp
  then show ?thesis
    using True r assms jwks_refresh_served [OF r] jwks_lookup_served [of net kid c1]
    by (auto simp: jwks_get_key_def intro: keys_served_trans split: sum.splits)
qed

lemma jwks_lookup_requests:
  "jc_requests (snd (jwks_lookup net kid c)) \<le> Suc (jc_requests c)"
  using jwks_refresh_requests [of net c]
  by (auto simp: jwks_lookup_def split: option.splits prod.splits sum.splits)

lemma jwks_lookup_hit:
  "\<not> unhashable kid \<Longrightarrow> map_of (jc_keys c) kid = Some k \<Longrightarrow> jwks_lookup net kid c = (Inr k, c)"
  by (simp add: jwks_lookup_def)

lemma jwks_lookup_miss:
  "\<not> unhashable kid \<Longrightarrow> map_of (jc_keys c) kid = None \<Longrightarrow>
     jc_requests (snd (jwks_lookup net kid c)) = Suc (jc_requests c)"
  using jwks_refresh_requests [of net c]
  by (auto simp: jwks_lookup_def split: option.splits prod.splits sum.splits)

lemma jwks_get_key_requests:
  "jc_requests (snd (jwks_get_key net mt kid c)) \<le> Suc (Suc (jc_requests c))"
proof (cases "jwks_is_stale mt c")
  case False
  then show ?thesis using jwks_lookup_requests [of net kid c] by (simp add: jwks_get_key_def)
next
  case True
  obtain r c1 where rc: "jwks_refresh net c = (r, c1)" by force
  then have "jc_requests c1 = Suc (jc_requests c)" using jwks_refresh_requests [of net c] by simp
  then show ?thesis using True rc jwks_lookup_requests [of net kid c1]
    by (auto simp: jwks_get_key_def split: sum.splits)
qed

lemma check_payload_ok:
  "check_payload cfg p = Inr () \<longleftrightarrow>
     (\<forall>a. vc_expected_aud cfg = Some a \<longrightarrow> PStr a \<in> set (aud_list (pyget p ''aud'')))
     \<and> truthy (pyget p ''jti'')
     \<and> (vc_required_scopes cfg = {} \<or>
         (\<exists>ws. scope_words (pyget_or p ''scope'' (PStr [])) = Inr ws \<and> vc_required_scopes cfg \<subseteq> set ws))"
  unfolding check_payload_def by (auto split: option.splits sum.splits if_splits)

lemma assemble_claims_fields:
  "assemble_claims p = Inr c \<Longrightarrow>
     c_jti c = pyget p ''jti'' \<and> c_aud c = pyget_or p ''aud'' (PStr []) \<and> c_act c = pyget p ''act''
     \<and> c_scope c = pyget p ''scope'' \<and> c_iss c = py_str (pyget_or p ''iss'' (PStr []))
     \<and> py_int (pyget_or p ''exp'' (PInt 0)) = Inr (c_exp c)"
  by (auto simp: assemble_claims_def split: sum.splits)

text \<open>An accepted token: the key, the decoded payload and the checks it passed.\<close>

lemma validate_ok:
  assumes "validate J net mt now token cfg cache = (Inr c, cache')"
  obtains header jwk key p where
    "j_header J token = Inr header" "truthy (pyget_or header ''kid'' (PStr []))"
    "map_of (jc_keys cache') (pyget_or header ''kid'' (PStr [])) = Some jwk" "j_from_jwk J jwk = Some key"
    "j_decode J token key (vc_expected_iss cfg) (vc_leeway_seconds cfg) now = Inr p"
    "check_payload cfg p = Inr ()" "assemble_claims p = Inr c"
  using assms
  by (auto simp: validate_def Let_def split: sum.splits if_splits prod.splits option.splits
      dest: jwks_get_key_found)

lemma aud_list_claim:
  "PStr a \<in> set (aud_list (pyget p ''aud'')) \<Longrightarrow> PStr a \<in> set (aud_list (pyget_or p ''aud'' (PStr [])))"
  by (auto simp: pyget_def pyget_or_def aud_list_def split: option.splits py.splits if_splits)

text \<open>
  What the documentation of PyJWT promises of \<open>decode\<close> with the options the code passes:
  the payload is signed by the key, its issuer is the expected one and it has not expired.
\<close>

definition pyjwt_sound :: "'k pyjwt \<Rightarrow> (string \<Rightarrow> 'k \<Rightarrow> pydict \<Rightarrow> bool) \<Rightarrow> bool" where
  "pyjwt_sound J signed \<longleftrightarrow>
     (\<forall>token key iss leeway now p. j_decode J token key iss leeway now = Inr p \<longrightarrow>
        signed token key p \<and> map_of p ''iss'' = Some (PStr iss)
        \<and> (\<forall>v e. map_of p ''exp'' = Some v \<longrightarrow> py_int v = Inr e \<longrightarrow> now - of_int leeway < of_int e))"

lemma sanitise_points_bound:
  "sanitise_points m v = Some r \<Longrightarrow> length r \<le> m \<and> (\<forall>n \<in> set r. \<not> forbidden_point n)"
  unfolding sanitise_points_def Let_def
  by (auto split: if_splits dest!: in_set_takeD set_dropWhileD)

lemma sanitise_user_string_bound:
  assumes "sanitise_user_string v m = Some s"
  shows "length s \<le> m \<and> (\<forall>ch \<in> set s. 31 < (of_char ch :: nat))"
proof -
  from assms obtain t r where r: "sanitise_points m (map of_char t) = Some r" and s: "s = map char_of r"
    by (auto simp: sanitise_user_string_def split: py.splits)
  have "\<forall>n \<in> set r. n \<in> set (map (of_char :: char \<Rightarrow> nat) t)"
    using r unfolding sanitise_points_def Let_def
    by (auto split: if_splits dest!: in_set_takeD set_dropWhileD)
  then have "\<forall>n \<in> set r. n < 256" by auto
  then show ?thesis using sanitise_points_bound [OF r]
    by (auto simp: s forbidden_point_def of_char_of not_le)
qed

end
