(* ===== verification/Fifo.thy ===== *)
theory Fifo
  imports Prelude
begin

text \<open>
  The contract shared by the three bounded, swept, recency-ordered stores of the
  services: the revoked-jti denylist (\<open>common/revocation/jti_denylist.py\<close>), the
  seen logout tokens (\<open>orchestrator/auth/bcl_receiver.py\<close>) and the pending
  logout reasons (\<open>orchestrator/auth/session_store.py\<close>).  Each is an
  \<open>OrderedDict\<close> with a hard cap, first-in-first-out eviction and an age sweep.

  The locale \<open>fifo_store\<close> states what a store promises; its lemmas (bounded size,
  membership after an insertion, retention until the cap or the age is reached)
  are proved once and interpreted on the code's model in the three components.
\<close>

section \<open>OrderedDict primitives\<close>

definition od_keys :: "(string \<times> 'v) list \<Rightarrow> string list" where
  "od_keys d = map fst d"

text \<open>\<open>d.move_to_end(k, last=True)\<close> for a present key.\<close>

definition od_move_to_end :: "string \<Rightarrow> (string \<times> 'v) list \<Rightarrow> (string \<times> 'v) list" where
  "od_move_to_end k d = (case map_of d k of None \<Rightarrow> d | Some v \<Rightarrow> AList.delete k d @ [(k, v)])"

text \<open>\<open>d.popitem(last=False)\<close>: \<open>KeyError\<close> (here \<open>None\<close>) on an empty dictionary.\<close>

definition od_popitem_first :: "'a list \<Rightarrow> ('a \<times> 'a list) option" where
  "od_popitem_first d = (case d of [] \<Rightarrow> None | p # ps \<Rightarrow> Some (p, ps))"

section \<open>Deleting keys one by one is filtering\<close>

lemma fold_delete_filter:
  "fold AList.delete ks d = filter (\<lambda>(k, v). k \<notin> set ks) d"
proof (induction ks arbitrary: d)
  case Nil
  then show ?case by simp
next
  case (Cons k ks)
  have "fold AList.delete (k # ks) d = filter (\<lambda>(k', v). k' \<notin> set ks) (AList.delete k d)"
    using Cons [of "AList.delete k d"] by simp
  also have "\<dots> = filter (\<lambda>p. fst p \<notin> set ks \<and> fst p \<noteq> k) d"
    by (simp add: AList.delete_eq case_prod_beta conj_commute eq_commute)
  finally show ?case by (simp add: case_prod_beta conj_commute)
qed

lemma expired_keys_filter:
  assumes "distinct (map fst d)"
  shows "filter (\<lambda>(k, v). k \<notin> set (map fst (filter (\<lambda>(j, e). P e) d))) d = filter (\<lambda>(k, v). \<not> P v) d"
proof (rule filter_cong [OF refl])
  fix p assume "p \<in> set d"
  obtain k v where p: "p = (k, v)" by (cases p)
  with \<open>p \<in> set d\<close> have kv: "(k, v) \<in> set d" by simp
  have "k \<in> set (map fst (filter (\<lambda>(j, e). P e) d)) \<longleftrightarrow> P v"
  proof
    assume "k \<in> set (map fst (filter (\<lambda>(j, e). P e) d))"
    then obtain w where "(k, w) \<in> set d" and "P w" by auto
    with eq_key_imp_eq_value [OF assms kv] show "P v" by blast
  next
    assume "P v"
    with kv have "(k, v) \<in> set (filter (\<lambda>(j, e). P e) d)" by simp
    then have "fst (k, v) \<in> set (map fst (filter (\<lambda>(j, e). P e) d))" unfolding set_map by (rule imageI)
    then show "k \<in> set (map fst (filter (\<lambda>(j, e). P e) d))" by simp
  qed
  then show "(case p of (k, v) \<Rightarrow> k \<notin> set (map fst (filter (\<lambda>(j, e). P e) d))) = (case p of (k, v) \<Rightarrow> \<not> P v)"
    by (simp add: p)
qed

lemma length_filter_split:
  "length (filter (\<lambda>(k, v). \<not> P v) d) + length (filter (\<lambda>(k, v). P v) d) = length d"
  by (induction d) auto

lemma move_update_spec:
  assumes "jti \<in> fst ` set d"
  shows "AList.update jti e (od_move_to_end jti d) = AList.delete jti d @ [(jti, e)]"
proof -
  from assms obtain v where v: "map_of d jti = Some v"
    by (metis map_of_eq_None_iff not_None_eq)
  have "jti \<notin> fst ` set (AList.delete jti d)" by (simp add: keys_delete)
  then show ?thesis by (simp add: od_move_to_end_def v update_last)
qed

section \<open>The abstract store\<close>

text \<open>One insertion on the list of items, oldest first.\<close>

definition fifo_spec :: "int \<Rightarrow> string \<Rightarrow> 'v \<Rightarrow> (string \<times> 'v) list \<Rightarrow> (string \<times> 'v) list" where
  "fifo_spec c k v d =
     (if k \<in> fst ` set d then AList.delete k d @ [(k, v)]
      else (if c \<le> int (length d) then tl d else d) @ [(k, v)])"

datatype 'v fifo_op = FPut string 'v | FSweep real

fun is_put :: "'v fifo_op \<Rightarrow> bool" where
  "is_put (FPut k v) = True"
| "is_put (FSweep t) = False"

fun fifo_run ::
  "('s \<Rightarrow> string \<Rightarrow> 'v \<Rightarrow> 's option) \<Rightarrow> (real \<Rightarrow> 's \<Rightarrow> 's \<times> nat) \<Rightarrow> 's \<Rightarrow> 'v fifo_op list \<Rightarrow> 's option"
where
  "fifo_run put sweep s [] = Some s"
| "fifo_run put sweep s (FPut k v # ops) =
     (case put s k v of None \<Rightarrow> None | Some s' \<Rightarrow> fifo_run put sweep s' ops)"
| "fifo_run put sweep s (FSweep t # ops) = fifo_run put sweep (fst (sweep t s)) ops"

lemma fifo_spec_mem: "map_of (fifo_spec c k v d) k = Some v"
  unfolding fifo_spec_def
proof (cases "k \<in> fst ` set d")
  case True
  then show "map_of (if k \<in> fst ` set d then AList.delete k d @ [(k, v)]
      else (if c \<le> int (length d) then tl d else d) @ [(k, v)]) k = Some v"
    by (simp add: map_add_def delete_conv')
next
  case False
  have "set (tl d) \<subseteq> set d" by (cases d) auto
  with False have "k \<notin> fst ` set (if c \<le> int (length d) then tl d else d)" by auto
  then have "map_of (if c \<le> int (length d) then tl d else d) k = None"
    by (simp add: map_of_eq_None_iff)
  with False show "map_of (if k \<in> fst ` set d then AList.delete k d @ [(k, v)]
      else (if c \<le> int (length d) then tl d else d) @ [(k, v)]) k = Some v"
    by (simp add: map_add_def)
qed

lemma fifo_spec_distinct:
  assumes "distinct (map fst d)"
  shows "distinct (map fst (fifo_spec c k v d))"
proof (cases "k \<in> fst ` set d")
  case True
  have "k \<notin> fst ` set (AList.delete k d)" by (simp add: keys_delete)
  with True assms show ?thesis by (simp add: fifo_spec_def)
next
  case False
  then show ?thesis using assms by (cases d) (auto simp: fifo_spec_def)
qed

lemma fifo_spec_bounded:
  assumes "distinct (map fst d)" and "int (length d) \<le> c" and "0 < c"
  shows "int (length (fifo_spec c k v d)) \<le> c"
proof (cases "k \<in> fst ` set d")
  case True
  with length_delete_less [OF assms(1) True] assms(2) show ?thesis
    by (simp add: fifo_spec_def)
next
  case False
  then show ?thesis using assms by (cases d) (auto simp: fifo_spec_def)
qed

text \<open>The entries of \<open>k\<close> and those younger than it: at most \<open>n\<close> entries follow it.\<close>

definition young :: "string \<Rightarrow> nat \<Rightarrow> (string \<times> 'v) list \<Rightarrow> bool" where
  "young k n d \<longleftrightarrow> (\<exists>xs v ys. d = xs @ (k, v) # ys \<and> length ys \<le> n)"

lemma young_mem: "young k n d \<Longrightarrow> k \<in> fst ` set d"
  unfolding young_def by force

lemma young_put_other:
  assumes y: "young k n d" and ne: "k' \<noteq> k" and small: "int (Suc n) < c"
  shows "young k (Suc n) (fifo_spec c k' v' d)"
proof -
  from y obtain xs v ys where d: "d = xs @ (k, v) # ys" and len: "length ys \<le> n"
    unfolding young_def by blast
  show ?thesis
  proof (cases "k' \<in> fst ` set d")
    case True
    have "AList.delete k' d = AList.delete k' xs @ (k, v) # AList.delete k' ys"
      using ne by (simp add: d AList.delete_eq)
    moreover have "length (AList.delete k' ys) \<le> n"
      unfolding AList.delete_eq by (rule order_trans [OF length_filter_le len])
    ultimately have "fifo_spec c k' v' d = AList.delete k' xs @ (k, v) # (AList.delete k' ys @ [(k', v')])
        \<and> length (AList.delete k' ys @ [(k', v')]) \<le> Suc n"
      using True by (simp add: fifo_spec_def)
    then show ?thesis unfolding young_def by blast
  next
    case False
    show ?thesis
    proof (cases "c \<le> int (length d)")
      case True
      with small len have "xs \<noteq> []" by (auto simp: d)
      then have "fifo_spec c k' v' d = tl xs @ (k, v) # (ys @ [(k', v')])"
        using False True by (simp add: fifo_spec_def d)
      with len show ?thesis unfolding young_def by fastforce
    next
      case nb: False
      then have "fifo_spec c k' v' d = xs @ (k, v) # (ys @ [(k', v')])"
        using False by (simp add: fifo_spec_def d)
      with len show ?thesis unfolding young_def by fastforce
    qed
  qed
qed

lemma young_put_same: "young k 0 (fifo_spec c k v d)"
  unfolding young_def fifo_spec_def by auto

lemma young_mono: "young k m d \<Longrightarrow> m \<le> n \<Longrightarrow> young k n d"
  unfolding young_def by fastforce

lemma young_filter:
  assumes "young k n d" and "\<forall>v. (k, v) \<in> set d \<longrightarrow> P (k, v)"
  shows "young k n (filter P d)"
proof -
  from assms(1) obtain xs v ys where d: "d = xs @ (k, v) # ys" and len: "length ys \<le> n"
    unfolding young_def by blast
  have "filter P d = filter P xs @ (k, v) # filter P ys"
    using assms(2) by (simp add: d)
  moreover have "length (filter P ys) \<le> n"
    using order_trans [OF length_filter_le len] .
  ultimately show ?thesis unfolding young_def by blast
qed

section \<open>The contract\<close>

locale fifo_store =
  fixes put :: "'s \<Rightarrow> string \<Rightarrow> 'v \<Rightarrow> 's option"
    and sweep :: "real \<Rightarrow> 's \<Rightarrow> 's \<times> nat"
    and items :: "'s \<Rightarrow> (string \<times> 'v) list"
    and cap :: "'s \<Rightarrow> int"
    and stale :: "'s \<Rightarrow> real \<Rightarrow> 'v \<Rightarrow> bool"
  assumes put_items: "put s k v = Some s' \<Longrightarrow> distinct (map fst (items s)) \<Longrightarrow> items s' = fifo_spec (cap s) k v (items s)"
    and put_cap: "put s k v = Some s' \<Longrightarrow> cap s' = cap s \<and> stale s' = stale s"
    and put_total: "0 < cap s \<Longrightarrow> \<exists>s'. put s k v = Some s'"
    and sweep_items: "distinct (map fst (items s)) \<Longrightarrow>
       items (fst (sweep t s)) = filter (\<lambda>(k, v). \<not> stale s t v) (items s)"
    and sweep_cap: "cap (fst (sweep t s)) = cap s \<and> stale (fst (sweep t s)) = stale s"
    and sweep_count: "distinct (map fst (items s)) \<Longrightarrow>
       length (items (fst (sweep t s))) + snd (sweep t s) = length (items s)"
begin

lemma put_distinct:
  "put s k v = Some s' \<Longrightarrow> distinct (map fst (items s)) \<Longrightarrow> distinct (map fst (items s'))"
  by (simp add: put_items fifo_spec_distinct)

lemma sweep_distinct:
  "distinct (map fst (items s)) \<Longrightarrow> distinct (map fst (items (fst (sweep t s))))"
  by (simp add: sweep_items)

lemma put_member:
  "put s k v = Some s' \<Longrightarrow> distinct (map fst (items s)) \<Longrightarrow> map_of (items s') k = Some v"
  by (simp add: put_items fifo_spec_mem)

lemma put_bounded:
  "put s k v = Some s' \<Longrightarrow> distinct (map fst (items s)) \<Longrightarrow> int (length (items s)) \<le> cap s
    \<Longrightarrow> 0 < cap s \<Longrightarrow> int (length (items s')) \<le> cap s'"
  by (simp add: put_items put_cap fifo_spec_bounded)

lemma run_bounded:
  "fifo_run put sweep s ops = Some s' \<Longrightarrow> distinct (map fst (items s)) \<Longrightarrow> int (length (items s)) \<le> cap s
    \<Longrightarrow> 0 < cap s \<Longrightarrow> int (length (items s')) \<le> cap s' \<and> distinct (map fst (items s')) \<and> cap s' = cap s"
proof (induction ops arbitrary: s)
  case Nil
  then show ?case by simp
next
  case (Cons opr ops)
  show ?case
  proof (cases opr)
    case (FPut k v)
    with Cons.prems obtain s1 where s1: "put s k v = Some s1" and r: "fifo_run put sweep s1 ops = Some s'"
      by (auto split: option.splits)
    from s1 Cons.prems have "distinct (map fst (items s1))" "int (length (items s1)) \<le> cap s1" "cap s1 = cap s"
      using put_distinct [OF s1] put_bounded [OF s1] put_cap [OF s1] by auto
    with Cons.IH [OF r] Cons.prems show ?thesis by auto
  next
    case (FSweep t)
    let ?s1 = "fst (sweep t s)"
    have "int (length (items ?s1)) \<le> cap ?s1"
      using Cons.prems sweep_count [of s t] sweep_cap [of t s] by linarith
    with Cons.IH [of ?s1] Cons.prems FSweep sweep_cap [of t s] show ?thesis
      by (auto simp: sweep_distinct)
  qed
qed

lemma run_total:
  "0 < cap s \<Longrightarrow> \<exists>s'. fifo_run put sweep s ops = Some s'"
proof (induction ops arbitrary: s)
  case Nil
  then show ?case by simp
next
  case (Cons opr ops)
  show ?case
  proof (cases opr)
    case (FPut k v)
    obtain s1 where s1: "put s k v = Some s1" using put_total [OF Cons.prems] by blast
    then have "0 < cap s1" using Cons.prems put_cap by auto
    with Cons.IH FPut s1 show ?thesis by auto
  next
    case (FSweep t)
    then show ?thesis using Cons.IH [of "fst (sweep t s)"] Cons.prems sweep_cap [of t s] by simp
  qed
qed

text \<open>
  Retention: an entry with at most \<open>n\<close> younger ones stays through a run with at most
  \<open>m\<close> insertions when \<open>n + m\<close> is below the cap and no sweep finds its value stale.
\<close>

lemma run_young:
  "fifo_run put sweep s ops = Some s' \<Longrightarrow> distinct (map fst (items s)) \<Longrightarrow> young k n (items s)
    \<Longrightarrow> int (n + length (filter is_put ops)) < cap s
    \<Longrightarrow> (\<forall>t v. FSweep t \<in> set ops \<longrightarrow> (k, v) \<in> set (items s) \<or> FPut k v \<in> set ops \<longrightarrow> \<not> stale s t v)
    \<Longrightarrow> k \<in> fst ` set (items s')"
proof (induction ops arbitrary: s n)
  case Nil
  then show ?case by (simp add: young_mem)
next
  case (Cons opr ops)
  show ?case
  proof (cases opr)
    case (FPut k' v')
    with Cons.prems obtain s1 where s1: "put s k' v' = Some s1" and r: "fifo_run put sweep s1 ops = Some s'"
      by (auto split: option.splits)
    have it: "items s1 = fifo_spec (cap s) k' v' (items s)"
      using put_items [OF s1] Cons.prems by simp
    have y: "young k (Suc n) (items s1)"
    proof (cases "k' = k")
      case True
      then show ?thesis using it young_put_same young_mono by (metis le0)
    next
      case False
      have "int (Suc n) < cap s" using Cons.prems(4) FPut by simp
      then show ?thesis unfolding it by (rule young_put_other [OF Cons.prems(3) False])
    qed
    have old: "(k, v) \<in> set (items s1) \<Longrightarrow> (k, v) \<in> set (items s) \<or> FPut k v \<in> set (opr # ops)" for v
      unfolding it FPut fifo_spec_def by (auto simp: AList.delete_eq split: if_splits dest: in_set_tl)
    have "\<forall>t v. FSweep t \<in> set ops \<longrightarrow> (k, v) \<in> set (items s1) \<or> FPut k v \<in> set ops \<longrightarrow> \<not> stale s1 t v"
      using Cons.prems(5) old put_cap [OF s1] by auto
    moreover have "int (Suc n + length (filter is_put ops)) < cap s1"
      using Cons.prems(4) FPut put_cap [OF s1] by simp
    ultimately show ?thesis
      using Cons.IH [OF r put_distinct [OF s1 Cons.prems(2)] y] by blast
  next
    case (FSweep t)
    let ?s1 = "fst (sweep t s)"
    have r: "fifo_run put sweep ?s1 ops = Some s'" using Cons.prems(1) FSweep by simp
    have it: "items ?s1 = filter (\<lambda>(k, v). \<not> stale s t v) (items s)"
      using sweep_items Cons.prems(2) by simp
    have y: "young k n (items ?s1)"
      unfolding it using Cons.prems(3,5) FSweep by (intro young_filter) auto
    have "\<forall>t' v. FSweep t' \<in> set ops \<longrightarrow> (k, v) \<in> set (items ?s1) \<or> FPut k v \<in> set ops \<longrightarrow> \<not> stale ?s1 t' v"
      using Cons.prems(5) sweep_cap [of t s] by (auto simp: it)
    moreover have "int (n + length (filter is_put ops)) < cap ?s1"
      using Cons.prems(4) FSweep sweep_cap [of t s] by simp
    ultimately show ?thesis
      using Cons.IH [OF r sweep_distinct [OF Cons.prems(2)] y] by blast
  qed
qed

lemma put_retained:
  assumes "put s k v = Some s1" and "distinct (map fst (items s))"
    and "fifo_run put sweep s1 ops = Some s2"
    and "int (length (filter is_put ops)) < cap s"
    and "\<And>t. FSweep t \<in> set ops \<Longrightarrow> \<not> stale s t v"
    and "\<And>t v'. FSweep t \<in> set ops \<Longrightarrow> FPut k v' \<in> set ops \<Longrightarrow> \<not> stale s t v'"
  shows "k \<in> fst ` set (items s2)"
proof -
  have it: "items s1 = fifo_spec (cap s) k v (items s)" using put_items assms by blast
  have d1: "distinct (map fst (items s1))" using put_distinct assms by blast
  have "(k, w) \<in> set (items s1) \<Longrightarrow> w = v" for w
    using map_of_is_SomeI [OF d1, of k w] put_member [OF assms(1,2)] by simp
  then have "\<forall>t w. FSweep t \<in> set ops \<longrightarrow> (k, w) \<in> set (items s1) \<or> FPut k w \<in> set ops \<longrightarrow> \<not> stale s1 t w"
    using assms(5,6) put_cap [OF assms(1)] by auto
  moreover have "young k 0 (items s1)" unfolding it by (rule young_put_same)
  ultimately show ?thesis
    using run_young [OF assms(3) d1] assms(4) put_cap [OF assms(1)] by (metis add_0)
qed

end

end
