(* ===== verification/Denylist.thy ===== *)
theory Denylist
  imports Fifo
begin

text \<open>
  \<open>common/revocation/jti_denylist.py\<close>: the bounded set of revoked token ids that
  the four receivers share, with its insertion, membership, expiry sweep and the
  supervised sweep loop, and the per-service container \<open>RevocationState\<close>.
  The class is the first provider of the \<open>fifo_store\<close> contract.
\<close>

section \<open>JtiDenylist\<close>

record jti_denylist =
  dl_hard_cap :: int
  dl_sweep_interval_seconds :: int
  dl_items :: "(string \<times> real) list"

definition new_denylist :: jti_denylist where
  "new_denylist = \<lparr>dl_hard_cap = 10000, dl_sweep_interval_seconds = 300, dl_items = []\<rparr>"

text \<open>\<open>add\<close>; \<open>None\<close> is the \<open>KeyError\<close> of \<open>popitem\<close> on an empty dictionary (cap 0).\<close>

definition denylist_add :: "jti_denylist \<Rightarrow> string \<Rightarrow> real \<Rightarrow> jti_denylist option" where
  "denylist_add d jti expiry =
     (if jti \<in> set (od_keys (dl_items d))
      then Some (d\<lparr>dl_items := AList.update jti expiry (od_move_to_end jti (dl_items d))\<rparr>)
      else if dl_hard_cap d \<le> int (length (dl_items d))
      then (case od_popitem_first (dl_items d) of
              None \<Rightarrow> None
            | Some (_, rest) \<Rightarrow> Some (d\<lparr>dl_items := AList.update jti expiry rest\<rparr>))
      else Some (d\<lparr>dl_items := AList.update jti expiry (dl_items d)\<rparr>))"

definition denylist_contains :: "jti_denylist \<Rightarrow> string \<Rightarrow> bool" where
  "denylist_contains d jti = (jti \<in> set (od_keys (dl_items d)))"

definition denylist_len :: "jti_denylist \<Rightarrow> nat" where
  "denylist_len d = length (dl_items d)"

text \<open>\<open>sweep_once\<close>: \<open>del\<close> of every key whose expiry is before the cutoff.\<close>

definition denylist_sweep_once :: "real \<Rightarrow> jti_denylist \<Rightarrow> jti_denylist \<times> nat" where
  "denylist_sweep_once now d =
     (let expired = map fst (filter (\<lambda>(j, e). e < now) (dl_items d))
      in (d\<lparr>dl_items := fold AList.delete expired (dl_items d)\<rparr>, length expired))"

text \<open>
  \<open>sweep_loop\<close>, over the outcomes of its sleeps: it wakes at a time and sweeps, or is
  cancelled, which it re-raises.  An empty rest of the list means it still sleeps.
\<close>

datatype wake = Woke real | CancelledError

fun denylist_sweep_loop :: "wake list \<Rightarrow> jti_denylist \<Rightarrow> jti_denylist \<times> bool" where
  "denylist_sweep_loop [] d = (d, False)"
| "denylist_sweep_loop (CancelledError # ws) d = (d, True)"
| "denylist_sweep_loop (Woke now # ws) d = denylist_sweep_loop ws (fst (denylist_sweep_once now d))"

record revocation_state =
  revoked_jtis :: jti_denylist

definition new_revocation_state :: revocation_state where
  "new_revocation_state = \<lparr>revoked_jtis = new_denylist\<rparr>"

section \<open>The contract\<close>

lemma denylist_sweep_items:
  "distinct (map fst (dl_items d)) \<Longrightarrow>
   dl_items (fst (denylist_sweep_once t d)) = filter (\<lambda>(k, v). \<not> v < t) (dl_items d)"
  using expired_keys_filter [of "dl_items d" "\<lambda>e. e < t"]
  by (simp add: denylist_sweep_once_def Let_def fold_delete_filter)

lemma denylist_add_items:
  assumes "denylist_add d k v = Some d'" and "distinct (map fst (dl_items d))"
  shows "dl_items d' = fifo_spec (dl_hard_cap d) k v (dl_items d)"
proof (cases "k \<in> fst ` set (dl_items d)")
  case True
  with assms show ?thesis
    by (auto simp: denylist_add_def od_keys_def fifo_spec_def move_update_spec)
next
  case False
  with assms show ?thesis
    by (auto simp: denylist_add_def od_keys_def fifo_spec_def od_popitem_first_def update_new
        split: if_splits list.splits)
qed

interpretation dl: fifo_store denylist_add denylist_sweep_once dl_items dl_hard_cap
  "\<lambda>_ t v. v < t"
proof unfold_locales
  fix s k v s'
  assume "denylist_add s k v = Some s'" "distinct (map fst (dl_items s))"
  then show "dl_items s' = fifo_spec (dl_hard_cap s) k v (dl_items s)"
    by (rule denylist_add_items)
next
  fix s k v s'
  assume "denylist_add s k v = Some s'"
  then show "dl_hard_cap s' = dl_hard_cap s \<and> (\<lambda>t v. v < t) = (\<lambda>t v. v < t)"
    by (auto simp: denylist_add_def split: if_splits option.splits)
next
  fix s :: jti_denylist and k v
  assume "0 < dl_hard_cap s"
  then show "\<exists>s'. denylist_add s k v = Some s'"
    by (auto simp: denylist_add_def od_popitem_first_def split: list.splits)
next
  fix s :: jti_denylist and t :: real
  assume "distinct (map fst (dl_items s))"
  then show "dl_items (fst (denylist_sweep_once t s)) = filter (\<lambda>(k, v). \<not> v < t) (dl_items s)"
    by (rule denylist_sweep_items)
next
  fix s :: jti_denylist and t :: real
  show "dl_hard_cap (fst (denylist_sweep_once t s)) = dl_hard_cap s \<and> (\<lambda>t v. v < t) = (\<lambda>t v. v < t)"
    by (simp add: denylist_sweep_once_def Let_def)
next
  fix s :: jti_denylist and t :: real
  assume "distinct (map fst (dl_items s))"
  then show "length (dl_items (fst (denylist_sweep_once t s))) + snd (denylist_sweep_once t s) = length (dl_items s)"
    using length_filter_split [of "\<lambda>v. v < t" "dl_items s"] denylist_sweep_items [of s t]
    by (simp add: denylist_sweep_once_def Let_def)
qed

lemma denylist_contains_iff: "denylist_contains d jti \<longleftrightarrow> jti \<in> fst ` set (dl_items d)"
  by (simp add: denylist_contains_def od_keys_def)

lemma denylist_add_contains [intro]:
  "denylist_add d k v = Some d' \<Longrightarrow> denylist_contains d' k"
  by (auto simp: denylist_add_def denylist_contains_iff od_move_to_end_def dom_update
      split: if_splits option.splits)

end
