(* ===== verification/McpValidator.thy ===== *)
theory McpValidator
  imports Jwt Denylist
begin

text \<open>
  \<open>hr_server/auth/validators.py\<close> and its mirror \<open>it_server/auth/validators.py\<close>: the
  validation an MCP tool call goes through (signature, issuer, expiry and audience by
  \<open>validate\<close>; the actor chain; the scopes; the revocation denylist), and the locale
  \<open>token_guard\<close> with what the tool handlers rely on, interpreted on both servers.

  The validator and the \<open>/internal/events\<close> route of a server hold the same
  \<open>RevocationState\<close> object; here it is an argument of the validation, \<open>None\<close> when
  \<open>attach_revocation\<close> was not called.
\<close>

section \<open>Configuration and construction\<close>

record mcp_config =
  mc_expected_iss :: string
  mc_jwks_url :: string
  mc_expected_aud :: string
  mc_trusted_act_subs :: "string set"
  mc_required_scopes :: "string set"
  mc_insecure_tls :: bool

record mcp_validator =
  mv_config :: mcp_config
  mv_jwks_cache :: jwks_cache
  mv_validator_config :: validator_config
  mv_revocation :: "revocation_state option"

definition hr_validator_init :: "mcp_config \<Rightarrow> jwks_cache option \<Rightarrow> mcp_validator" where
  "hr_validator_init cfg cache =
     \<lparr>mv_config = cfg,
      mv_jwks_cache = (case cache of Some c \<Rightarrow> c
                       | None \<Rightarrow> new_jwks_cache (mc_jwks_url cfg) (mc_insecure_tls cfg)),
      mv_validator_config =
        \<lparr>vc_expected_iss = mc_expected_iss cfg, vc_jwks_url = mc_jwks_url cfg,
         vc_expected_aud = Some (mc_expected_aud cfg), vc_required_scopes = {},
         vc_leeway_seconds = 30, vc_insecure_tls = mc_insecure_tls cfg\<rparr>,
      mv_revocation = None\<rparr>"

definition it_validator_init :: "mcp_config \<Rightarrow> jwks_cache option \<Rightarrow> mcp_validator" where
  "it_validator_init cfg cache =
     \<lparr>mv_config = cfg,
      mv_jwks_cache = (case cache of Some c \<Rightarrow> c
                       | None \<Rightarrow> new_jwks_cache (mc_jwks_url cfg) (mc_insecure_tls cfg)),
      mv_validator_config =
        \<lparr>vc_expected_iss = mc_expected_iss cfg, vc_jwks_url = mc_jwks_url cfg,
         vc_expected_aud = Some (mc_expected_aud cfg), vc_required_scopes = {},
         vc_leeway_seconds = 30, vc_insecure_tls = mc_insecure_tls cfg\<rparr>,
      mv_revocation = None\<rparr>"

definition attach_revocation :: "revocation_state \<Rightarrow> mcp_validator \<Rightarrow> mcp_validator" where
  "attach_revocation st v = v\<lparr>mv_revocation := Some st\<rparr>"

text \<open>\<open>prewarm_jwks\<close>: a failed fetch is logged and swallowed.\<close>

definition prewarm_jwks :: "jwks_net \<Rightarrow> mcp_validator \<Rightarrow> mcp_validator" where
  "prewarm_jwks net v = v\<lparr>mv_jwks_cache := snd (jwks_refresh net (mv_jwks_cache v))\<rparr>"

section \<open>Steps 6 and 7\<close>

definition claim_scopes :: "jwt_claims \<Rightarrow> string list res" where
  "claim_scopes c = (if truthy (c_scope c) then scope_words (c_scope c) else Inr [])"

definition scope_step :: "string set \<Rightarrow> jwt_claims \<Rightarrow> unit res" where
  "scope_step effective c =
     (if effective = {} then Inr ()
      else case claim_scopes c of
             Inl e \<Rightarrow> Inl e
           | Inr ws \<Rightarrow> if effective - set ws \<noteq> {} then Inl (raise_default ScopeError) else Inr ())"

definition denylist_step :: "revocation_state option \<Rightarrow> jwt_claims \<Rightarrow> unit res" where
  "denylist_step rv c =
     (case rv of
        None \<Rightarrow> Inr ()
      | Some st \<Rightarrow>
          if \<not> truthy (c_jti c) then Inr ()
          else if unhashable (c_jti c) then Inl (EPy ''TypeError'')
          else (case c_jti c of
                  PStr j \<Rightarrow> if denylist_contains (revoked_jtis st) j
                            then Inl (raise_auth ScopeError ''ERR-MCP-002'') else Inr ()
                | _ \<Rightarrow> Inr ()))"

section \<open>validate_token\<close>

definition hr_validate_token ::
  "'k pyjwt \<Rightarrow> jwks_net \<Rightarrow> real \<Rightarrow> real \<Rightarrow> string \<Rightarrow> string set option \<Rightarrow> mcp_validator
     \<Rightarrow> jwt_claims res \<times> mcp_validator"
where
  "hr_validate_token J net mt now token required v =
     (let effective = (case required of Some r \<Rightarrow> r | None \<Rightarrow> mc_required_scopes (mv_config v));
          (r, cache') = validate J net mt now token (mv_validator_config v) (mv_jwks_cache v);
          v' = v\<lparr>mv_jwks_cache := cache'\<rparr>
      in case r of
           Inl e \<Rightarrow> (Inl e, v')
         | Inr claims \<Rightarrow>
            (case validate_chain claims (mc_trusted_act_subs (mv_config v)) True 1 of
               Inl e \<Rightarrow> (Inl e, v')
             | Inr _ \<Rightarrow>
                (case scope_step effective claims of
                   Inl e \<Rightarrow> (Inl e, v')
                 | Inr _ \<Rightarrow>
                    (case denylist_step (mv_revocation v) claims of
                       Inl e \<Rightarrow> (Inl e, v')
                     | Inr _ \<Rightarrow> (Inr claims, v')))))"

definition it_validate_token ::
  "'k pyjwt \<Rightarrow> jwks_net \<Rightarrow> real \<Rightarrow> real \<Rightarrow> string \<Rightarrow> string set option \<Rightarrow> mcp_validator
     \<Rightarrow> jwt_claims res \<times> mcp_validator"
where
  "it_validate_token J net mt now token required v =
     (let effective = (case required of Some r \<Rightarrow> r | None \<Rightarrow> mc_required_scopes (mv_config v));
          (r, cache') = validate J net mt now token (mv_validator_config v) (mv_jwks_cache v);
          v' = v\<lparr>mv_jwks_cache := cache'\<rparr>
      in case r of
           Inl e \<Rightarrow> (Inl e, v')
         | Inr claims \<Rightarrow>
            (case validate_chain claims (mc_trusted_act_subs (mv_config v)) True 1 of
               Inl e \<Rightarrow> (Inl e, v')
             | Inr _ \<Rightarrow>
                (case scope_step effective claims of
                   Inl e \<Rightarrow> (Inl e, v')
                 | Inr _ \<Rightarrow>
                    (case denylist_step (mv_revocation v) claims of
                       Inl e \<Rightarrow> (Inl e, v')
                     | Inr _ \<Rightarrow> (Inr claims, v')))))"

text \<open>\<open>log_startup_assertion\<close>: the two signals an operator can alarm on.\<close>

definition startup_denylist_enforcement :: "mcp_validator \<Rightarrow> string \<times> bool" where
  "startup_denylist_enforcement v =
     (if mv_revocation v \<noteq> None then (''on'', False) else (''off'', True))"

section \<open>The contract of the tool handlers\<close>

definition jti_revoked :: "revocation_state option \<Rightarrow> py \<Rightarrow> bool" where
  "jti_revoked rv jti = (\<exists>st j. rv = Some st \<and> jti = PStr j \<and> j \<noteq> [] \<and> denylist_contains (revoked_jtis st) j)"

lemma denylist_step_ok: "denylist_step rv c = Inr () \<Longrightarrow> \<not> jti_revoked rv (c_jti c)"
  by (auto simp: denylist_step_def jti_revoked_def split: if_splits)

lemma denylist_step_revoked:
  "jti_revoked rv (c_jti c) \<Longrightarrow> denylist_step rv c = Inl (raise_auth ScopeError ''ERR-MCP-002'')"
  by (auto simp: denylist_step_def jti_revoked_def)

lemma scope_step_ok:
  "scope_step eff c = Inr () \<Longrightarrow> eff = {} \<or> (\<exists>ws. claim_scopes c = Inr ws \<and> eff \<subseteq> set ws)"
  by (auto simp: scope_step_def split: if_splits sum.splits)

lemma hr_validate_token_ok:
  assumes "hr_validate_token J net mt now token (Some req) v = (Inr c, v')"
  shows "validate J net mt now token (mv_validator_config v) (mv_jwks_cache v) = (Inr c, mv_jwks_cache v')"
    and "\<exists>a \<in> mc_trusted_act_subs (mv_config v). act_chain c = [a]"
    and "req = {} \<or> (\<exists>ws. claim_scopes c = Inr ws \<and> req \<subseteq> set ws)"
    and "\<not> jti_revoked (mv_revocation v) (c_jti c)"
  using assms
  by (auto simp: hr_validate_token_def Let_def validate_chain_depth1 [symmetric] denylist_step_ok
      split: prod.splits sum.splits dest!: scope_step_ok)

lemma it_hr_validate_token: "it_validate_token = hr_validate_token"
  by (intro ext) (simp add: it_validate_token_def hr_validate_token_def)

lemma hr_validate_token_denied:
  assumes "mv_revocation v = Some st" "c_jti c = PStr j" "j \<noteq> []" "denylist_contains (revoked_jtis st) j"
  shows "hr_validate_token J net mt now token req v \<noteq> (Inr c, v')"
proof
  assume "hr_validate_token J net mt now token req v = (Inr c, v')"
  then have "denylist_step (mv_revocation v) c = Inr ()"
    by (auto simp: hr_validate_token_def Let_def split: prod.splits sum.splits)
  then show False using assms by (simp add: denylist_step_def)
qed

end
