(* ===== verification/ToolGuard.thy ===== *)
theory ToolGuard
  imports McpValidator
begin

text \<open>
  The authentication block every MCP tool handler opens with (\<open>hr_server/mcp/tools.py\<close>
  and \<open>it_server/mcp/tools.py\<close>): the bearer extraction, the validation of the token under
  the scope of the tool, and the mapping of the three authentication exceptions to 401.

  The locale \<open>token_guard\<close> is the interface between the handlers and the validators.
  Its lemmas say what a handler may rely on when its body runs, and are interpreted on
  the HR and the IT validator.
\<close>

section \<open>Replies\<close>

text \<open>
  A reply is the modelled body, or a status with the error id of its detail.  An exception
  no handler catches is answered 500 by the framework.
\<close>

datatype 'a http = Ok200 'a | Fail nat string

fun is_ok :: "'a http \<Rightarrow> bool" where
  "is_ok (Ok200 a) = True"
| "is_ok (Fail n i) = False"

section \<open>Bearer and identity helpers\<close>

definition extract_bearer :: "string option \<Rightarrow> string option" where
  "extract_bearer auth_header =
     (case auth_header of
        None \<Rightarrow> None
      | Some h \<Rightarrow>
         if h = [] then None
         else (case split_once (CHR '' '') h of
                 [scheme, rest] \<Rightarrow>
                   if py_lower scheme \<noteq> ''bearer'' then None
                   else if py_strip rest = [] then None else Some (py_strip rest)
               | _ \<Rightarrow> None))"

definition username_for :: "jwt_claims \<Rightarrow> string" where
  "username_for c =
     (if or_empty (c_username c) \<noteq> [] then or_empty (c_username c)
      else (let p = hd (split_once (CHR ''@'') (c_sub c)) in if p = [] then ''user'' else p))"

section \<open>The block\<close>

text \<open>The exceptions the \<open>except\<close> clause of a handler names.\<close>

definition auth_rejection :: "exn \<Rightarrow> bool" where
  "auth_rejection e = (raised_as e JWTValidationError \<or> raised_as e PeerTrustError \<or> raised_as e ScopeError)"

type_synonym 'v checker = "string \<Rightarrow> string set option \<Rightarrow> 'v \<Rightarrow> jwt_claims res \<times> 'v"

definition tool_guard ::
  "'v checker \<Rightarrow> string set \<Rightarrow> string option \<Rightarrow> 'v \<Rightarrow> jwt_claims http \<times> 'v"
where
  "tool_guard check required auth_header v =
     (case extract_bearer auth_header of
        None \<Rightarrow> (Fail 401 ''ERR-AUTH-006'', v)
      | Some token_str \<Rightarrow>
         (case check token_str (Some required) v of
            (Inr claims, v') \<Rightarrow> (Ok200 claims, v')
          | (Inl e, v') \<Rightarrow>
              (if auth_rejection e then Fail 401 (exn_id e) else Fail 500 (exn_id e), v')))"

text \<open>A handler: the block, then the body on the claims and the data of the service.\<close>

definition with_guard ::
  "'v checker \<Rightarrow> string set \<Rightarrow> string option \<Rightarrow> (jwt_claims \<Rightarrow> 'd \<Rightarrow> 'r http \<times> 'd) \<Rightarrow> 'v \<Rightarrow> 'd \<Rightarrow> 'r http \<times> 'v \<times> 'd"
where
  "with_guard check required auth_header body v d =
     (case tool_guard check required auth_header v of
        (Fail s i, v') \<Rightarrow> (Fail s i, v', d)
      | (Ok200 claims, v') \<Rightarrow> (let (r, d') = body claims d in (r, v', d')))"

section \<open>What the block guarantees\<close>

text \<open>The claims of an admitted call, over what the validator trusts and has revoked.\<close>

definition admitted :: "string set \<Rightarrow> (py \<Rightarrow> bool) \<Rightarrow> string set \<Rightarrow> jwt_claims \<Rightarrow> bool" where
  "admitted trusted is_revoked required c \<longleftrightarrow>
     (\<exists>a \<in> trusted. act_chain c = [a])
     \<and> (required = {} \<or> (\<exists>ws. claim_scopes c = Inr ws \<and> required \<subseteq> set ws))
     \<and> \<not> is_revoked (c_jti c)"

text \<open>The claims the validation of the call's own bearer token returned.\<close>

definition accepted_call :: "'v checker \<Rightarrow> string set \<Rightarrow> string option \<Rightarrow> 'v \<Rightarrow> jwt_claims \<Rightarrow> bool" where
  "accepted_call check required h v c \<longleftrightarrow>
     (\<exists>tok v'. extract_bearer h = Some tok \<and> check tok (Some required) v = (Inr c, v'))"

locale token_guard =
  fixes check :: "'v checker"
    and trusted :: "'v \<Rightarrow> string set"
    and is_revoked :: "'v \<Rightarrow> py \<Rightarrow> bool"
  assumes check_admits: "check tok (Some req) v = (Inr c, v') \<Longrightarrow> admitted (trusted v) (is_revoked v) req c"
    and check_keeps: "check tok r v = (x, v') \<Longrightarrow> trusted v' = trusted v \<and> is_revoked v' = is_revoked v"
    and check_raises: "check tok r v = (Inl (EAuth a), v') \<Longrightarrow> auth_rejection (EAuth a)"
begin

lemma guard_admits:
  "tool_guard check req h v = (Ok200 c, v') \<Longrightarrow> accepted_call check req h v c \<and> admitted (trusted v) (is_revoked v) req c"
  by (auto simp: tool_guard_def accepted_call_def check_admits split: option.splits prod.splits sum.splits if_splits)

lemma guard_keeps:
  "tool_guard check req h v = (x, v') \<Longrightarrow> trusted v' = trusted v \<and> is_revoked v' = is_revoked v"
  using check_keeps
  by (auto simp: tool_guard_def split: option.splits prod.splits sum.splits if_splits)

text \<open>The body runs on admitted claims only; otherwise the data is left as it was.\<close>

lemma with_guard_cases:
  assumes "with_guard check req h body v d = (r, v', d')"
  shows "(\<exists>s i. r = Fail s i \<and> d' = d) \<or>
     (\<exists>c. accepted_call check req h v c \<and> admitted (trusted v) (is_revoked v) req c \<and> body c d = (r, d'))"
  using assms guard_admits [of req h v]
  by (cases "tool_guard check req h v"; cases "fst (tool_guard check req h v)")
     (auto simp: with_guard_def Let_def split: prod.splits)

lemma with_guard_ok:
  assumes "with_guard check req h body v d = (Ok200 r, v', d')"
  obtains c where "accepted_call check req h v c" "admitted (trusted v) (is_revoked v) req c" "body c d = (Ok200 r, d')"
  using with_guard_cases [OF assms] by auto

text \<open>A catalogued authentication failure is answered 401, never 500.\<close>

lemma guard_failure_status:
  assumes "tool_guard check req h v = (Fail s i, v')"
  shows "s = 401 \<or> (\<exists>tok n. check tok (Some req) v = (Inl (EPy n), v'))"
  using assms check_raises
  by (auto simp: tool_guard_def split: option.splits prod.splits sum.splits if_splits)
     (metis exn.exhaust)

lemma with_guard_changed:
  assumes "with_guard check req h body v d = (r, v', d')" "d' \<noteq> d"
  obtains c where "accepted_call check req h v c" "admitted (trusted v) (is_revoked v) req c" "body c d = (r, d')"
  using with_guard_cases [OF assms(1)] assms(2) by auto

end

text \<open>Without a bearer token the validator is not consulted.\<close>

lemma with_guard_no_bearer:
  "extract_bearer h = None \<Longrightarrow> with_guard check req h body v d = (Fail 401 ''ERR-AUTH-006'', v, d)"
  by (simp add: with_guard_def tool_guard_def)

text \<open>The data is left as it was, or is what the body makes of it on some claims.\<close>

lemma with_guard_data:
  assumes "with_guard check req h body v d = (r, v', d')"
  shows "d' = d \<or> (\<exists>c. d' = snd (body c d))"
proof (cases "tool_guard check req h v")
  case (Pair g w)
  show ?thesis
  proof (cases g)
    case (Ok200 c)
    with assms Pair have "d' = snd (body c d)" by (auto simp: with_guard_def Let_def split: prod.splits)
    then show ?thesis by blast
  next
    case (Fail s i)
    with assms Pair show ?thesis by (simp add: with_guard_def)
  qed
qed

lemma with_guard_pres:
  "P st \<Longrightarrow> (\<And>c. P (snd (body c st))) \<Longrightarrow> P (snd (snd (with_guard check req h body v st)))"
  by (cases "with_guard check req h body v st") (auto dest!: with_guard_data)

section \<open>The two validators\<close>

definition mv_trusted :: "mcp_validator \<Rightarrow> string set" where
  "mv_trusted v = mc_trusted_act_subs (mv_config v)"

definition mv_revoked :: "mcp_validator \<Rightarrow> py \<Rightarrow> bool" where
  "mv_revoked v = jti_revoked (mv_revocation v)"

lemma hr_validate_token_keeps:
  "hr_validate_token J net mt now token required v = (x, v') \<Longrightarrow> mv_config v' = mv_config v \<and> mv_revocation v' = mv_revocation v"
  by (auto simp: hr_validate_token_def Let_def split: prod.splits sum.splits)

text \<open>Every catalogued exception a validation raises is one the handlers map to 401.\<close>

named_theorems auth_only

definition caught :: "exn \<Rightarrow> bool" where
  "caught e = (\<forall>a. e = EAuth a \<longrightarrow> auth_rejection e)"

lemma caught_simps [auth_only]:
  "caught (EPy n)"
  "caught (raise_auth JWTValidationError i)"
  "caught (raise_auth ScopeError i)"
  "caught (raise_default PeerTrustError)"
  "caught (raise_default ScopeError)"
  by (simp_all add: caught_def auth_rejection_def raise_auth_def raise_default_def mk_auth_error_def)

lemma caught_errors [auth_only]:
  "caught (decode_error e)" "caught (header_error e)"
  by (cases e; simp add: auth_only)+

lemma index_keys_raises: "index_keys ks acc = Inl e \<Longrightarrow> caught e"
  by (induction ks acc rule: index_keys.induct) (auto simp: auth_only Let_def split: py.splits if_splits)

lemma keys_of_body_raises: "keys_of_body b = Inl e \<Longrightarrow> caught e"
  by (auto simp: keys_of_body_def auth_only dest: index_keys_raises split: py.splits)

lemma jwks_refresh_raises: "jwks_refresh net c = (Inl e, c') \<Longrightarrow> caught e"
  by (auto simp: jwks_refresh_def Let_def auth_only dest: keys_of_body_raises
      split: prod.splits jwks_reply.splits sum.splits)

lemma jwks_lookup_raises: "jwks_lookup net kid c = (Inl e, c') \<Longrightarrow> caught e"
  by (auto simp: jwks_lookup_def auth_only dest: jwks_refresh_raises
      split: prod.splits sum.splits option.splits if_splits)

lemma jwks_get_key_raises: "jwks_get_key net mt kid c = (Inl e, c') \<Longrightarrow> caught e"
  by (auto simp: jwks_get_key_def dest: jwks_refresh_raises jwks_lookup_raises
      split: prod.splits sum.splits if_splits)

lemma scope_words_raises: "scope_words v = Inl e \<Longrightarrow> caught e"
  by (auto simp: scope_words_def auth_only split: py.splits)

lemma check_payload_raises: "check_payload cfg p = Inl e \<Longrightarrow> caught e"
  by (auto simp: check_payload_def auth_only dest: scope_words_raises split: option.splits sum.splits if_splits)

lemma py_int_raises: "py_int v = Inl e \<Longrightarrow> caught e"
  by (cases v) (auto simp: auth_only split: option.splits)

lemma assemble_claims_raises: "assemble_claims p = Inl e \<Longrightarrow> caught e"
  by (auto simp: assemble_claims_def dest: py_int_raises split: sum.splits)

lemma validate_raises: "validate J net mt now tok cfg c = (Inl e, c') \<Longrightarrow> caught e"
  by (auto simp: validate_def Let_def auth_only
      dest: jwks_get_key_raises check_payload_raises assemble_claims_raises
      split: sum.splits if_splits prod.splits option.splits)

lemma hr_validate_token_raises:
  "hr_validate_token J net mt now tok r v = (Inl e, v') \<Longrightarrow> caught e"
  by (auto simp: hr_validate_token_def Let_def scope_step_def claim_scopes_def denylist_step_def auth_only
      dest: validate_raises validate_chain_err scope_words_raises
      split: prod.splits sum.splits if_splits option.splits py.splits)

interpretation hr_guard: token_guard
  "\<lambda>token required. hr_validate_token J net mt now token required" mv_trusted mv_revoked
proof unfold_locales
  fix tok req v c v'
  assume "hr_validate_token J net mt now tok (Some req) v = (Inr c, v')"
  then show "admitted (mv_trusted v) (mv_revoked v) req c"
    using hr_validate_token_ok [of J net mt now tok req v c v']
    by (simp add: admitted_def mv_trusted_def mv_revoked_def)
next
  fix tok r v x v'
  assume "hr_validate_token J net mt now tok r v = (x, v')"
  then show "mv_trusted v' = mv_trusted v \<and> mv_revoked v' = mv_revoked v"
    by (auto simp: mv_trusted_def mv_revoked_def dest: hr_validate_token_keeps)
next
  fix tok r v a v'
  assume "hr_validate_token J net mt now tok r v = (Inl (EAuth a), v')"
  from hr_validate_token_raises [OF this] show "auth_rejection (EAuth a)"
    by (simp add: caught_def)
qed

interpretation it_guard: token_guard
  "\<lambda>token required. it_validate_token J net mt now token required" mv_trusted mv_revoked
  unfolding it_hr_validate_token by (rule hr_guard.token_guard_axioms)

end
