(* ===== verification/Samples.thy ===== *)
theory Samples
  imports ToolGuard
begin

text \<open>
  Concrete data for the witnesses: an instance of the token library in which a token
  string names its payload, a key endpoint that always answers with one key, and an HR
  validator that trusts one agent.
\<close>

definition sample_payload :: "string \<Rightarrow> string \<Rightarrow> string \<Rightarrow> pydict" where
  "sample_payload sub jti scope =
     [(''iss'', PStr ''is''), (''sub'', PStr sub), (''aud'', PStr ''hr''), (''jti'', PStr jti),
      (''exp'', PInt 2000), (''iat'', PInt 1000), (''scope'', PStr scope),
      (''act'', PDict [(''sub'', PStr ''hr-agent'')])]"

fun sample_decode :: "string \<Rightarrow> jwt_err + pydict" where
  "sample_decode t =
     (if t = ''alice'' then Inr (sample_payload ''alice'' ''j1'' ''hr_self_rest'')
      else if t = ''it'' then Inr (sample_payload ''alice'' ''j3'' ''it_assets_self_rest'')
      else if t = ''boss'' then Inr (sample_payload ''boss'' ''j2'' ''hr_approve_rest hr_read_rest'')
      else Inl InvalidSignatureError)"

definition sample_jwt :: "unit pyjwt" where
  "sample_jwt =
     \<lparr>j_header = \<lambda>t. if t = ''junk'' then Inl DecodeError else Inr [(''kid'', PStr ''k1'')],
      j_from_jwk = \<lambda>_. Some (),
      j_decode = \<lambda>t key iss leeway now.
        if 2000 + of_int leeway \<le> now then Inl ExpiredSignatureError
        else if iss \<noteq> ''is'' then Inl InvalidIssuerError else sample_decode t\<rparr>"

definition sample_net :: jwks_net where
  "sample_net n = (JwksBody (PDict [(''keys'', PList [PDict [(''kid'', PStr ''k1'')]])]), 5000)"

definition sample_config :: mcp_config where
  "sample_config = \<lparr>mc_expected_iss = ''is'', mc_jwks_url = ''jwks'', mc_expected_aud = ''hr'',
     mc_trusted_act_subs = {''hr-agent''}, mc_required_scopes = {}, mc_insecure_tls = False\<rparr>"

definition sample_revocation :: "string list \<Rightarrow> revocation_state" where
  "sample_revocation js = \<lparr>revoked_jtis = new_denylist\<lparr>dl_items := map (\<lambda>j. (j, 3000)) js\<rparr>\<rparr>"

definition sample_validator :: "string list \<Rightarrow> mcp_validator" where
  "sample_validator js = attach_revocation (sample_revocation js) (hr_validator_init sample_config None)"

definition sample_claims :: "string \<Rightarrow> string \<Rightarrow> string \<Rightarrow> jwt_claims" where
  "sample_claims sub jti scope =
     \<lparr>c_sub = sub, c_iss = ''is'', c_aud = PStr ''hr'', c_exp = 2000, c_iat = 1000, c_jti = PStr jti,
      c_act = PDict [(''sub'', PStr ''hr-agent'')], c_scope = PStr scope, c_aut = PNone,
      c_username = None, c_email = None\<rparr>"

definition sample_fetched :: "jwks_cache \<Rightarrow> jwks_cache" where
  "sample_fetched c = c\<lparr>jc_keys := [(PStr ''k1'', PDict [(''kid'', PStr ''k1'')])], jc_fetched_at := 5000,
     jc_requests := Suc (jc_requests c)\<rparr>"

lemma sample_refresh: "jwks_refresh sample_net c = (Inr (), sample_fetched c)"
  by (simp add: jwks_refresh_def sample_net_def keys_of_body_def pyget_or_def sample_fetched_def Let_def)

lemma sample_get_key:
  "jc_ttl_seconds c = 3600 \<Longrightarrow> jc_fetched_at c = 0 \<Longrightarrow>
     jwks_get_key sample_net 4000 (PStr ''k1'') c = (Inr (PDict [(''kid'', PStr ''k1'')]), sample_fetched c)"
  by (simp add: jwks_get_key_def jwks_is_stale_def sample_refresh jwks_lookup_def)
     (simp add: sample_fetched_def)

lemma sample_check_payload:
  "vc_expected_aud cfg = Some ''hr'' \<Longrightarrow> vc_required_scopes cfg = {} \<Longrightarrow> jti \<noteq> [] \<Longrightarrow>
     check_payload cfg (sample_payload sub jti scope) = Inr ()"
  by (simp add: check_payload_ok sample_payload_def aud_list_def)

lemma sample_assemble: "assemble_claims (sample_payload sub jti scope) = Inr (sample_claims sub jti scope)"
  by (simp add: assemble_claims_def sample_payload_def sample_claims_def pyget_or_def sanitise_user_string_def)

lemma sample_act_chain: "act_chain (sample_claims sub jti scope) = [''hr-agent'']"
  by (simp add: act_chain_def sample_claims_def)

lemma sample_validate:
  assumes "vc_expected_aud cfg = Some ''hr''" "vc_required_scopes cfg = {}" "vc_expected_iss cfg = ''is''"
    "vc_leeway_seconds cfg = 30" "jc_ttl_seconds c = 3600" "jc_fetched_at c = 0"
    and "sample_decode tok = Inr (sample_payload sub jti scope)" "jti \<noteq> []" "tok \<noteq> ''junk''" "now < 2030"
  shows "validate sample_jwt sample_net 4000 now tok cfg c = (Inr (sample_claims sub jti scope), sample_fetched c)"
  using assms
  by (simp add: validate_def sample_jwt_def pyget_or_def sample_get_key sample_check_payload sample_assemble
      del: sample_decode.simps)

text \<open>A second validation finds the key in the cache.\<close>

lemma sample_validate_again:
  assumes "vc_expected_aud cfg = Some ''hr''" "vc_required_scopes cfg = {}" "vc_expected_iss cfg = ''is''"
    "vc_leeway_seconds cfg = 30" "jc_ttl_seconds c = 3600"
    and "sample_decode tok = Inr (sample_payload sub jti scope)" "jti \<noteq> []" "tok \<noteq> ''junk''" "now < 2030"
  shows "validate sample_jwt sample_net 4000 now tok cfg (sample_fetched c) = (Inr (sample_claims sub jti scope), sample_fetched c)"
proof -
  have "jwks_get_key sample_net 4000 (PStr ''k1'') (sample_fetched c) = (Inr (PDict [(''kid'', PStr ''k1'')]), sample_fetched c)"
    using assms(5) by (simp add: jwks_get_key_def jwks_is_stale_def jwks_lookup_def sample_fetched_def)
  then show ?thesis using assms
    by (simp add: validate_def sample_jwt_def pyget_or_def sample_check_payload sample_assemble del: sample_decode.simps)
qed

lemma sample_hr_step_at:
  assumes "sample_decode tok = Inr (sample_payload sub jti scope)" "jti \<noteq> []" "tok \<noteq> ''junk''" "now < 2030"
    and "py_split scope = ws" "set req \<subseteq> set ws"
  shows "hr_validate_token sample_jwt sample_net 4000 now tok (Some (set req)) (attach_revocation st (sample_validator js))
     = (if denylist_contains (revoked_jtis st) jti then Inl (raise_auth ScopeError ''ERR-MCP-002'')
        else Inr (sample_claims sub jti scope),
        (attach_revocation st (sample_validator js))
          \<lparr>mv_jwks_cache := sample_fetched (mv_jwks_cache (sample_validator js))\<rparr>)"
proof -
  let ?v = "attach_revocation st (sample_validator js)"
  have v: "validate sample_jwt sample_net 4000 now tok (mv_validator_config ?v) (mv_jwks_cache ?v) =
      (Inr (sample_claims sub jti scope), sample_fetched (mv_jwks_cache (sample_validator js)))"
    by (subst sample_validate [where sub = sub and jti = jti and scope = scope])
       (use assms in \<open>simp_all add: sample_validator_def attach_revocation_def hr_validator_init_def
          sample_config_def new_jwks_cache_def\<close>)
  have c: "validate_chain (sample_claims sub jti scope) (mc_trusted_act_subs (mv_config ?v)) True 1 = Inr ()"
    by (simp add: validate_chain_depth1 sample_act_chain sample_validator_def attach_revocation_def
        hr_validator_init_def sample_config_def)
  have "claim_scopes (sample_claims sub jti scope) = Inr ws"
    using assms(5) by (auto simp: claim_scopes_def sample_claims_def scope_words_def py_split_def)
  then have s: "scope_step (set req) (sample_claims sub jti scope) = Inr ()"
    using assms(6) by (auto simp: scope_step_def)
  have d: "denylist_step (mv_revocation ?v) (sample_claims sub jti scope) =
      (if denylist_contains (revoked_jtis st) jti then Inl (raise_auth ScopeError ''ERR-MCP-002'') else Inr ())"
    using assms(2) by (simp add: denylist_step_def attach_revocation_def sample_claims_def)
  show ?thesis by (simp add: hr_validate_token_def v c s d)
qed

lemma sample_hr_step:
  assumes "sample_decode tok = Inr (sample_payload sub jti scope)" "jti \<noteq> []" "tok \<noteq> ''junk''" "now < 2030"
    and "py_split scope = ws" "set req \<subseteq> set ws"
  shows "hr_validate_token sample_jwt sample_net 4000 now tok (Some (set req)) (sample_validator js)
     = (if jti \<in> set js then Inl (raise_auth ScopeError ''ERR-MCP-002'') else Inr (sample_claims sub jti scope),
        (sample_validator js)\<lparr>mv_jwks_cache := sample_fetched (mv_jwks_cache (sample_validator js))\<rparr>)"
proof -
  have "attach_revocation (sample_revocation js) (sample_validator js) = sample_validator js"
    by (simp add: sample_validator_def attach_revocation_def)
  moreover have "denylist_contains (revoked_jtis (sample_revocation js)) jti \<longleftrightarrow> jti \<in> set js"
    by (simp add: sample_revocation_def denylist_contains_def od_keys_def comp_def)
  ultimately show ?thesis using sample_hr_step_at [OF assms, of "sample_revocation js" js] by simp
qed

lemma sample_bearer:
  "extract_bearer (Some ''Bearer alice'') = Some ''alice''"
  "extract_bearer (Some ''Bearer boss'') = Some ''boss''"
  "extract_bearer (Some ''Bearer it'') = Some ''it''"
  by (simp_all add: extract_bearer_def py_lower_def lower_char_def py_strip_def py_rstrip_def py_lstrip_def
      py_ws_def char_of_eq_iff)

text \<open>The two tokens through the HR validator with an empty denylist.\<close>

definition sample_hr_check :: "mcp_validator checker" where
  "sample_hr_check = (\<lambda>tok req. hr_validate_token sample_jwt sample_net 4000 1500 tok req)"

definition sample_validator' :: mcp_validator where
  "sample_validator' = (sample_validator [])\<lparr>mv_jwks_cache := sample_fetched (mv_jwks_cache (sample_validator []))\<rparr>"

lemma sample_scopes:
  "py_split ''hr_self_rest'' = [''hr_self_rest'']"
  "py_split ''it_assets_self_rest'' = [''it_assets_self_rest'']"
  "py_split ''hr_approve_rest hr_read_rest'' = [''hr_approve_rest'', ''hr_read_rest'']"
  by (simp_all add: py_split_def py_ws_def)

lemma sample_alice:
  "sample_hr_check ''alice'' (Some {''hr_self_rest''}) (sample_validator [])
     = (Inr (sample_claims ''alice'' ''j1'' ''hr_self_rest''), sample_validator')"
  using sample_hr_step [of "''alice''" "''alice''" "''j1''" "''hr_self_rest''" 1500 "[''hr_self_rest'']"
      "[''hr_self_rest'']" "[]"]
  by (simp add: sample_hr_check_def sample_validator'_def sample_scopes)

lemma sample_boss:
  "req \<in> {''hr_approve_rest'', ''hr_read_rest''} \<Longrightarrow>
   sample_hr_check ''boss'' (Some {req}) (sample_validator [])
     = (Inr (sample_claims ''boss'' ''j2'' ''hr_approve_rest hr_read_rest''), sample_validator')"
  using sample_hr_step [of "''boss''" "''boss''" "''j2''" "''hr_approve_rest hr_read_rest''" 1500
      "[''hr_approve_rest'', ''hr_read_rest'']" "[req]" "[]"]
  by (simp add: sample_hr_check_def sample_validator'_def sample_scopes)

definition sample_it_check :: "mcp_validator checker" where
  "sample_it_check = (\<lambda>tok req. it_validate_token sample_jwt sample_net 4000 1500 tok req)"

lemma sample_it:
  "sample_it_check ''it'' (Some {''it_assets_self_rest''}) (sample_validator [])
     = (Inr (sample_claims ''alice'' ''j3'' ''it_assets_self_rest''), sample_validator')"
  using sample_hr_step [of "''it''" "''alice''" "''j3''" "''it_assets_self_rest''" 1500 "[''it_assets_self_rest'']"
      "[''it_assets_self_rest'']" "[]"]
  by (simp add: sample_it_check_def it_hr_validate_token sample_validator'_def sample_scopes)

end
