(* ===== verification/AuthProps.thy ===== *)
theory AuthProps
  imports Samples
begin

text \<open>
  The properties of token validation: what an accepted token satisfies, how often the key
  endpoint is asked, and what the sanitiser lets through.
\<close>




definition sample_cfg :: validator_config where
  "sample_cfg = \<lparr>vc_expected_iss = ''is'', vc_jwks_url = ''jwks'', vc_expected_aud = Some ''hr'',
     vc_required_scopes = {}, vc_leeway_seconds = 30, vc_insecure_tls = False\<rparr>"



text \<open>
  A validation asks the key endpoint at most twice: once for a stale cache and once for
  a key id the cache does not hold.  With a fresh cache that holds the key it asks not at
  all and leaves the cache as it is.
\<close>

theorem validate_requests_bounded:
  "jc_requests (snd (validate J net mt now token cfg cache)) \<le> jc_requests cache + 2
   \<and> (\<forall>header. j_header J token = Inr header \<longrightarrow> \<not> jwks_is_stale mt cache
        \<longrightarrow> map_of (jc_keys cache) (pyget_or header ''kid'' (PStr [])) \<noteq> None
        \<longrightarrow> \<not> unhashable (pyget_or header ''kid'' (PStr []))
        \<longrightarrow> snd (validate J net mt now token cfg cache) = cache)"
proof (cases "j_header J token")
  case (Inl e)
  then show ?thesis by (simp add: validate_def)
next
  case (Inr header)
  let ?kid = "pyget_or header ''kid'' (PStr [])"
  have "snd (validate J net mt now token cfg cache) = cache
      \<or> snd (validate J net mt now token cfg cache) = snd (jwks_get_key net mt ?kid cache)"
    using Inr by (auto simp: validate_def Let_def split: sum.splits prod.splits option.splits)
  moreover have "jwks_get_key net mt ?kid cache = (Inr (the (map_of (jc_keys cache) ?kid)), cache)"
    if "\<not> jwks_is_stale mt cache" "map_of (jc_keys cache) ?kid \<noteq> None" "\<not> unhashable ?kid"
    using that by (auto simp: jwks_get_key_def jwks_lookup_hit)
  ultimately show ?thesis using jwks_get_key_requests [of net mt ?kid cache] Inr by auto
qed

lemma validate_requests_bounded_witness:
  "snd (validate sample_jwt sample_net 5001 1500 ''alice'' sample_cfg (sample_fetched (new_jwks_cache ''jwks'' False)))
     = sample_fetched (new_jwks_cache ''jwks'' False)"
proof -
  have "j_header sample_jwt ''alice'' = Inr [(''kid'', PStr ''k1'')]" by (simp add: sample_jwt_def)
  then show ?thesis
    using validate_requests_bounded [of sample_jwt sample_net 5001 1500 "''alice''" sample_cfg
        "sample_fetched (new_jwks_cache ''jwks'' False)"]
    by (simp add: pyget_or_def jwks_is_stale_def sample_fetched_def new_jwks_cache_def)
qed

text \<open>
  The failures of a validation are catalogued: it returns an authentication error that
  the tool handlers answer with 401, or an exception of the Python runtime.
\<close>

theorem tool_failure_is_401:
  assumes "tool_guard (\<lambda>tok req. hr_validate_token J net mt now tok req) req h v = (Fail s i, v')"
  shows "s = 401 \<or> (\<exists>tok n. extract_bearer h = Some tok
    \<and> hr_validate_token J net mt now tok (Some req) v = (Inl (EPy n), v'))"
proof (cases "extract_bearer h")
  case None
  then show ?thesis using assms by (simp add: tool_guard_def)
next
  case (Some tok)
  then obtain e where e: "hr_validate_token J net mt now tok (Some req) v = (Inl e, v')"
    and s: "s = (if auth_rejection e then 401 else 500)"
    using assms by (auto simp: tool_guard_def split: prod.splits sum.splits if_splits)
  show ?thesis
  proof (cases e)
    case (EAuth a)
    then show ?thesis using hr_guard.check_raises [OF e [unfolded EAuth]] s by simp
  next
    case (EPy n)
    then show ?thesis using Some e by blast
  qed
qed

lemma tool_failure_is_401_witness:
  "tool_guard (\<lambda>tok req. hr_validate_token sample_jwt sample_net 4000 1500 tok req) {''hr_self_rest''} None
      (sample_validator []) = (Fail 401 ''ERR-AUTH-006'', sample_validator [])
   \<and> (401 = (401 :: nat) \<or> (\<exists>tok n. extract_bearer None = Some tok
      \<and> hr_validate_token sample_jwt sample_net 4000 1500 tok (Some {''hr_self_rest''}) (sample_validator [])
          = (Inl (EPy n), sample_validator [])))"
proof -
  have g: "tool_guard (\<lambda>tok req. hr_validate_token sample_jwt sample_net 4000 1500 tok req) {''hr_self_rest''} None
      (sample_validator []) = (Fail 401 ''ERR-AUTH-006'', sample_validator [])"
    by (simp add: tool_guard_def extract_bearer_def)
  from tool_failure_is_401 [OF g] g show ?thesis by blast
qed

text \<open>
  A header that does not parse as a token in a way other than a decode error is not caught
  around the header parse: it leaves the validation as an exception of the library, not as
  one of the catalogued errors.
\<close>

lemma header_error_uncaught:
  "j_header J token = Inl OtherInvalidTokenError \<Longrightarrow>
     validate J net mt now token cfg cache = (Inl (EPy ''InvalidTokenError''), cache)"
  by (simp add: validate_def)

text \<open>
  A sanitised identity claim is non-empty, at most as long as its bound, free of
  control characters and line separators, and starts with a character that is not white
  space.
\<close>

theorem sanitised_claim_clean:
  assumes "sanitise_points max_len value = Some cleaned" and "0 < max_len"
  shows "cleaned \<noteq> [] \<and> length cleaned \<le> max_len \<and> \<not> space_point (hd cleaned)
    \<and> list_all (\<lambda>n. n \<in> set value \<and> 31 < n \<and> n \<noteq> 8232 \<and> n \<noteq> 8233) cleaned"
proof -
  let ?t = "rev (dropWhile space_point (rev (dropWhile space_point (filter (\<lambda>n. \<not> forbidden_point n) value))))"
  have r: "?t \<noteq> []" "cleaned = ?t \<or> cleaned = take max_len ?t" "length cleaned \<le> max_len"
    using assms(1) by (auto simp: sanitise_points_def Let_def split: if_splits)
  obtain x xs where t: "?t = x # xs" using r(1) by (cases ?t) auto
  have "\<not> space_point x"
  proof -
    let ?u = "dropWhile space_point (filter (\<lambda>n. \<not> forbidden_point n) value)"
    have "?u = ?t @ rev (takeWhile space_point (rev ?u))"
      by (metis rev_append rev_rev_ident takeWhile_dropWhile_id)
    then obtain ys where u: "?u = x # ys" unfolding t by simp
    show ?thesis using hd_dropWhile [of space_point "filter (\<lambda>n. \<not> forbidden_point n) value"] unfolding u by simp
  qed
  moreover have "hd cleaned = x" using r(2) t assms(2) by (cases max_len) auto
  moreover have "\<forall>n \<in> set cleaned. n \<in> set value \<and> \<not> forbidden_point n"
    using r(2) by (auto dest!: in_set_takeD set_dropWhileD)
  ultimately show ?thesis
    using r t assms(2) by (auto simp: list_all_iff forbidden_point_def)
qed

text \<open>The tab is removed too.\<close>

lemma sanitised_claim_clean_witness:
  "sanitise_points 3 [32, 97, 9, 98, 99, 100] = Some [97, 98, 99] \<and> \<not> space_point (hd [97, 98, 99])"
proof -
  have s: "sanitise_points 3 [32, 97, 9, 98, 99, 100] = Some [97, 98, 99]"
    by (simp add: sanitise_points_def forbidden_point_def space_point_def Let_def)
  from sanitised_claim_clean [OF s] s show ?thesis by simp
qed

end
