(* ===== verification/Dates.thy ===== *)
theory Dates
  imports Prelude
begin

text \<open>
  The part of Python's \<open>datetime.date\<close> the leave service uses: \<open>date.fromisoformat\<close>
  on calendar and ISO-week dates, as CPython parses them, and the day ordinal by which
  dates are subtracted.  A date is its proleptic Gregorian ordinal, 1 for 0001-01-01.
\<close>

definition is_leap :: "nat \<Rightarrow> bool" where
  "is_leap y = (y mod 4 = 0 \<and> (y mod 100 \<noteq> 0 \<or> y mod 400 = 0))"

definition days_in_month :: "nat \<Rightarrow> nat \<Rightarrow> nat" where
  "days_in_month y m =
     (if m = 2 then (if is_leap y then 29 else 28)
      else if m \<in> {4, 6, 9, 11} then 30 else 31)"

definition ymd_to_ord :: "nat \<Rightarrow> nat \<Rightarrow> nat \<Rightarrow> int" where
  "ymd_to_ord y m d =
     (let p = int y - 1
      in p * 365 + p div 4 - p div 100 + p div 400
         + int (sum_list (map (days_in_month y) [1..<m])) + int d)"

definition max_ordinal :: int where
  "max_ordinal = 3652059"

text \<open>The constructor's range checks on a calendar date.\<close>

definition calendar_date :: "nat \<Rightarrow> nat \<Rightarrow> nat \<Rightarrow> int option" where
  "calendar_date y m d =
     (if 1 \<le> y \<and> y \<le> 9999 \<and> 1 \<le> m \<and> m \<le> 12 \<and> 1 \<le> d \<and> d \<le> days_in_month y m
      then Some (ymd_to_ord y m d) else None)"

text \<open>An ISO week date; a year has week 53 when it starts on a Thursday, or is a leap
  year starting on a Wednesday.\<close>

definition week_date :: "nat \<Rightarrow> nat \<Rightarrow> nat \<Rightarrow> int option" where
  "week_date y w d =
     (let first_day = ymd_to_ord y 1 1;
          first_weekday = (first_day + 6) mod 7;
          week1_monday = first_day - first_weekday + (if 3 < first_weekday then 7 else 0);
          long = (first_weekday = 3 \<or> (first_weekday = 2 \<and> is_leap y));
          res = week1_monday + (int w - 1) * 7 + int d - 1
      in if 1 \<le> y \<and> y \<le> 9999 \<and> 1 \<le> w \<and> (w \<le> 52 \<or> (w = 53 \<and> long)) \<and> 1 \<le> d \<and> d \<le> 7
            \<and> res \<le> max_ordinal
         then Some res else None)"

section \<open>date.fromisoformat\<close>

definition take_digits :: "nat \<Rightarrow> string \<Rightarrow> (nat \<times> string) option" where
  "take_digits n s =
     (if length s < n \<or> \<not> list_all is_digit (take n s) then None
      else Some (nat_of_digits (take n s), drop n s))"

definition eat_dash :: "bool \<Rightarrow> string \<Rightarrow> string option" where
  "eat_dash needed s =
     (if \<not> needed then Some s
      else case s of c # cs \<Rightarrow> (if c = CHR ''-'' then Some cs else None) | [] \<Rightarrow> None)"

text \<open>The length test counts bytes of the UTF-8 encoding.\<close>

definition utf8_length :: "string \<Rightarrow> nat" where
  "utf8_length s = sum_list (map (\<lambda>c. if (of_char c :: nat) < 128 then 1 else 2) s)"

definition fromisoformat :: "string \<Rightarrow> int option" where
  "fromisoformat s =
     (if utf8_length s \<notin> {7, 8, 10} then None
      else case take_digits 4 s of
        None \<Rightarrow> None
      | Some (y, r1) \<Rightarrow>
         (let sep = (case r1 of c # _ \<Rightarrow> c = CHR ''-'' | [] \<Rightarrow> False);
              r2 = (if sep then tl r1 else r1)
          in case r2 of
               [] \<Rightarrow> None
             | c # cs \<Rightarrow>
                if c = CHR ''W'' then
                  (case take_digits 2 cs of
                     None \<Rightarrow> None
                   | Some (w, []) \<Rightarrow> week_date y w 1
                   | Some (w, r3) \<Rightarrow>
                      (case Option.bind (eat_dash sep r3) (take_digits 1) of
                         None \<Rightarrow> None
                       | Some (d, _) \<Rightarrow> week_date y w d))
                else
                  (case take_digits 2 r2 of
                     None \<Rightarrow> None
                   | Some (m, r3) \<Rightarrow>
                      (case Option.bind (eat_dash sep r3) (take_digits 2) of
                         None \<Rightarrow> None
                       | Some (d, _) \<Rightarrow> calendar_date y m d))))"

section \<open>Facts\<close>

lemma days_in_month_pos: "0 < days_in_month y m"
  by (simp add: days_in_month_def)

lemma calendar_date_pos: "calendar_date y m d = Some n \<Longrightarrow> 1 \<le> n"
proof -
  assume a: "calendar_date y m d = Some n"
  then have y: "1 \<le> y" and n: "n = ymd_to_ord y m d" and d: "1 \<le> d"
    by (auto simp: calendar_date_def split: if_splits)
  define p where "p = int y - 1"
  have "0 \<le> p" using y by (simp add: p_def)
  then have "p div 100 \<le> p" "0 \<le> p div 4" "0 \<le> p div 400" 
    by (cases "p = 0"; simp add: int_div_le_self pos_imp_zdiv_nonneg_iff)+
  then have "0 \<le> p * 365 + p div 4 - p div 100 + p div 400" using \<open>0 \<le> p\<close> by linarith
  then show ?thesis using n d by (simp add: ymd_to_ord_def Let_def p_def)
qed

lemma fromisoformat_examples:
  "fromisoformat ''2024-02-29'' = Some 738945"
  "fromisoformat ''20240101'' = Some 738886"
  "fromisoformat ''2024-W01-1'' = Some 738886"
  "fromisoformat ''2023-02-29'' = None"
  "fromisoformat ''2024-1-01'' = None"
  "fromisoformat ''2024010155'' = Some 738886"
  by (simp_all add: fromisoformat_def utf8_length_def take_digits_def is_digit_def nat_of_digits_def
      digit_val_def eat_dash_def calendar_date_def week_date_def days_in_month_def is_leap_def
      ymd_to_ord_def max_ordinal_def upt_conv_Cons Let_def)

end
