(* ===== verification/HrStore.thy ===== *)
theory HrStore
  imports AuthErrors Dates
begin

text \<open>
  \<open>hr_server/service/store.py\<close>: the in-memory data of the HR server (users, leave
  balances and requests keyed by the token subject, the leave policy, the 100 cubicles),
  its seed, the request-id counter and the registration of a user on first contact.
  The module-level variables of the file are the fields of \<open>hr_store\<close>.
\<close>

section \<open>Data\<close>

record leave_rule =
  lp_max_days_per_year :: int
  lp_requires_approval :: bool
  lp_min_notice_days :: int
  lp_description :: string

text \<open>\<open>first_seen\<close> is the ordinal of the day whose text the code stores.\<close>

record hr_user =
  hu_first_name :: string
  hu_last_name :: string
  hu_name :: string
  hu_sub :: string
  hu_username :: string
  hu_email :: string
  hu_first_seen :: int

record leave_request =
  lr_user_sub :: string
  lr_user_name :: string
  lr_leave_type :: string
  lr_start_date :: string
  lr_end_date :: string
  lr_days_requested :: int
  lr_status :: string
  lr_reason :: string
  lr_reviewed_by_sub :: "string option"
  lr_reviewed_by_name :: "string option"
  lr_rejection_reason :: "string option"

record cubicle =
  cu_cubicle_id :: string
  cu_floor :: int
  cu_occupied :: bool
  cu_username :: "string option"
  cu_email :: "string option"
  cu_sub :: "string option"
  cu_assigned_at :: "string option"

type_synonym balance = "(string \<times> int) list"

record hr_store =
  hs_leave_policy :: "(string \<times> leave_rule) list"
  hs_holidays :: "(string \<times> string) list"
  hs_users :: "(string \<times> hr_user) list"
  hs_leave_balances :: "(string \<times> balance) list"
  hs_leave_requests :: "(string \<times> leave_request) list"
  hs_leave_request_counter :: nat
  hs_cubicles :: "cubicle list"

section \<open>Seed data\<close>

definition seed_leave_policy :: "(string \<times> leave_rule) list" where
  "seed_leave_policy =
     [(''Annual Leave'', \<lparr>lp_max_days_per_year = 20, lp_requires_approval = True,
         lp_min_notice_days = 7, lp_description = ''Paid annual vacation leave''\<rparr>),
      (''Sick Leave'', \<lparr>lp_max_days_per_year = 10, lp_requires_approval = True,
         lp_min_notice_days = 0,
         lp_description = ''Medical leave. Certificate required for 3+ consecutive days.''\<rparr>),
      (''Personal Leave'', \<lparr>lp_max_days_per_year = 5, lp_requires_approval = True,
         lp_min_notice_days = 3,
         lp_description = ''Unpaid personal leave for emergencies or personal matters''\<rparr>)]"

definition seed_holidays :: "(string \<times> string) list" where
  "seed_holidays =
     [(''2026-01-01'', ''New Year'' @ [CHR 0x27] @ ''s Day''),
      (''2026-03-20'', ''Eid Al Fitr (expected)''),
      (''2026-05-27'', ''Arafat Day (expected)''),
      (''2026-05-28'', ''Eid Al Adha (expected)''),
      (''2026-07-18'', ''Islamic New Year (expected)''),
      (''2026-12-01'', ''Commemoration Day''),
      (''2026-12-02'', ''UAE National Day'')]"

definition default_leave_balance :: balance where
  "default_leave_balance = [(''annual'', 20), (''sick'', 10), (''personal'', 5)]"

definition vacant_cubicle :: "nat \<Rightarrow> cubicle" where
  "vacant_cubicle n =
     \<lparr>cu_cubicle_id = ''C-'' @ pad3 n, cu_floor = (int n - 1) div 25 + 1, cu_occupied = False,
      cu_username = None, cu_email = None, cu_sub = None, cu_assigned_at = None\<rparr>"

definition seed_cubicles :: "cubicle list" where
  "seed_cubicles = map vacant_cubicle [1..<101]"

definition reset_data :: hr_store where
  "reset_data =
     \<lparr>hs_leave_policy = seed_leave_policy, hs_holidays = seed_holidays, hs_users = [],
      hs_leave_balances = [], hs_leave_requests = [], hs_leave_request_counter = 0,
      hs_cubicles = seed_cubicles\<rparr>"

section \<open>Operations\<close>

definition next_request_id :: "hr_store \<Rightarrow> string \<times> hr_store" where
  "next_request_id st =
     (let n = hs_leave_request_counter st + 1
      in (''LR'' @ pad3 n, st\<lparr>hs_leave_request_counter := n\<rparr>))"

definition default_balance :: balance where
  "default_balance = default_leave_balance"

definition new_user :: "string \<Rightarrow> string \<Rightarrow> string \<Rightarrow> string option \<Rightarrow> string option \<Rightarrow> int \<Rightarrow> hr_user" where
  "new_user sub first_name last_name username email today =
     \<lparr>hu_first_name = first_name, hu_last_name = last_name,
      hu_name = py_strip (first_name @ '' '' @ last_name), hu_sub = sub,
      hu_username = or_empty username, hu_email = or_empty email, hu_first_seen = today\<rparr>"

text \<open>The name refresh and the backfill of a known user's record.\<close>

definition refresh_user :: "string \<Rightarrow> string \<Rightarrow> string option \<Rightarrow> string option \<Rightarrow> hr_user \<Rightarrow> hr_user" where
  "refresh_user first_name last_name username email u =
     (let full_name = py_strip (first_name @ '' '' @ last_name);
          u1 = (if full_name \<noteq> [] \<and> full_name \<noteq> hu_name u
                then u\<lparr>hu_first_name := first_name, hu_last_name := last_name, hu_name := full_name\<rparr> else u);
          u2 = (if or_empty username \<noteq> [] \<and> hu_username u1 = [] then u1\<lparr>hu_username := or_empty username\<rparr> else u1)
      in if or_empty email \<noteq> [] \<and> hu_email u2 = [] then u2\<lparr>hu_email := or_empty email\<rparr> else u2)"

definition ensure_user ::
  "string \<Rightarrow> string \<Rightarrow> string \<Rightarrow> string option \<Rightarrow> string option \<Rightarrow> int \<Rightarrow> hr_store \<Rightarrow> hr_user \<times> hr_store"
where
  "ensure_user sub first_name last_name username email today st =
     (case map_of (hs_users st) sub of
        None \<Rightarrow>
          (let u = new_user sub first_name last_name username email today
           in (u, st\<lparr>hs_users := AList.update sub u (hs_users st),
                    hs_leave_balances := AList.update sub default_balance (hs_leave_balances st)\<rparr>))
      | Some r \<Rightarrow>
          (let u = refresh_user first_name last_name username email r
           in (u, st\<lparr>hs_users := AList.update sub u (hs_users st)\<rparr>)))"

section \<open>Facts\<close>

lemma refresh_user_sub [simp]: "hu_sub (refresh_user f l u e r) = hu_sub r"
  by (simp add: refresh_user_def Let_def)

lemma ensure_user_frame:
  assumes "ensure_user sub f l un em today st = (u, st')"
  shows "hs_leave_policy st' = hs_leave_policy st" "hs_leave_requests st' = hs_leave_requests st"
    "hs_leave_request_counter st' = hs_leave_request_counter st" "hs_cubicles st' = hs_cubicles st"
    "map_of (hs_users st') = (map_of (hs_users st))(sub \<mapsto> u)"
    "hs_leave_balances st' = (if map_of (hs_users st) sub = None
       then AList.update sub default_balance (hs_leave_balances st) else hs_leave_balances st)"
  using assms by (auto simp: ensure_user_def Let_def dict_simps split: option.splits)

lemma ensure_user_distinct:
  "ensure_user sub f l un em today st = (u, st') \<Longrightarrow> distinct (map fst (hs_users st)) \<Longrightarrow>
     distinct (map fst (hs_users st'))"
  by (auto simp: ensure_user_def Let_def split: option.splits)

text \<open>A known user's username and email are filled once and then kept.\<close>

lemma refresh_user_keeps_username:
  "hu_username r \<noteq> [] \<Longrightarrow> hu_username (refresh_user f l u e r) = hu_username r"
  "hu_email r \<noteq> [] \<Longrightarrow> hu_email (refresh_user f l u e r) = hu_email r"
  by (simp_all add: refresh_user_def Let_def)

end
