(* ===== verification/HrService.thy ===== *)
theory HrService
  imports HrStore "HOL-Library.Char_ord" "HOL-Library.List_Lexorder" "HOL-Library.Product_Lexorder"
begin

text \<open>
  \<open>hr_server/service/hr_service.py\<close>: the business logic over the HR store.  A reply is
  the success value, or the error id and the message the code returns in its dictionary;
  a \<open>KeyError\<close> or \<open>IndexError\<close> the code could raise is an \<open>Inl\<close>.  What the
  operations keep of the store is \<open>hr_inv\<close> of \<open>HrLedger\<close>.
\<close>

datatype 'a svc = SvcOk 'a | SvcErr string string

section \<open>hr_basic\<close>

definition get_holidays :: "hr_store \<Rightarrow> (string \<times> string) list" where
  "get_holidays st = map (\<lambda>(d, n). (d, n)) (hs_holidays st)"

record policy_row =
  pr_leave_type :: string
  pr_max_days_per_year :: int
  pr_requires_approval :: bool
  pr_min_notice_days :: int
  pr_description :: string

definition get_leave_policy :: "hr_store \<Rightarrow> policy_row list" where
  "get_leave_policy st =
     map (\<lambda>(lt, p). \<lparr>pr_leave_type = lt, pr_max_days_per_year = lp_max_days_per_year p,
            pr_requires_approval = lp_requires_approval p,
            pr_min_notice_days = lp_min_notice_days p, pr_description = lp_description p\<rparr>)
       (hs_leave_policy st)"

section \<open>hr_self\<close>

record balance_reply =
  br_employee :: string
  br_annual :: int
  br_sick :: int
  br_personal :: int

definition get_my_leave_balance ::
  "string \<Rightarrow> string \<Rightarrow> string \<Rightarrow> int \<Rightarrow> hr_store \<Rightarrow> balance_reply res \<times> hr_store"
where
  "get_my_leave_balance sub first_name last_name today st =
     (let (user, st1) = ensure_user sub first_name last_name None None today st
      in (case map_of (hs_leave_balances st1) sub of
            None \<Rightarrow> Inl (EPy ''KeyError'')
          | Some b \<Rightarrow>
             (case (map_of b ''annual'', map_of b ''sick'', map_of b ''personal'') of
                (Some a, Some s, Some p) \<Rightarrow>
                   Inr \<lparr>br_employee = hu_name user, br_annual = a, br_sick = s, br_personal = p\<rparr>
              | _ \<Rightarrow> Inl (EPy ''KeyError'')), st1))"

record history_row =
  hr_request_id :: string
  hr_type :: string
  hr_start_date :: string
  hr_end_date :: string
  hr_days_requested :: int
  hr_status :: string
  hr_reason :: string

definition history_row_of :: "string \<times> leave_request \<Rightarrow> history_row" where
  "history_row_of = (\<lambda>(req_id, req).
     \<lparr>hr_request_id = req_id, hr_type = lr_leave_type req, hr_start_date = lr_start_date req,
      hr_end_date = lr_end_date req, hr_days_requested = lr_days_requested req,
      hr_status = lr_status req, hr_reason = lr_reason req\<rparr>)"

definition get_my_leave_requests ::
  "string \<Rightarrow> string \<Rightarrow> string \<Rightarrow> int \<Rightarrow> hr_store \<Rightarrow> history_row list \<times> hr_store"
where
  "get_my_leave_requests sub first_name last_name today st =
     (let (user, st1) = ensure_user sub first_name last_name None None today st
      in (map history_row_of (filter (\<lambda>(i, r). lr_user_sub r = sub) (hs_leave_requests st1)), st1))"

text \<open>\<open>leave_type.split()[0].lower()\<close>; \<open>None\<close> is the \<open>IndexError\<close> of a blank type.\<close>

definition balance_key :: "string \<Rightarrow> string option" where
  "balance_key leave_type = (case py_split leave_type of [] \<Rightarrow> None | w # _ \<Rightarrow> Some (py_lower w))"

definition balance_get :: "balance \<Rightarrow> string \<Rightarrow> int" where
  "balance_get b k = (case map_of b k of None \<Rightarrow> 0 | Some n \<Rightarrow> n)"

definition pending_request ::
  "string \<Rightarrow> string \<Rightarrow> string \<Rightarrow> string \<Rightarrow> string \<Rightarrow> int \<Rightarrow> string \<Rightarrow> leave_request"
where
  "pending_request sub name leave_type start_date end_date days reason =
     \<lparr>lr_user_sub = sub, lr_user_name = name, lr_leave_type = leave_type,
      lr_start_date = start_date, lr_end_date = end_date, lr_days_requested = days,
      lr_status = ''Pending'', lr_reason = reason, lr_reviewed_by_sub = None,
      lr_reviewed_by_name = None, lr_rejection_reason = None\<rparr>"

definition apply_leave ::
  "string \<Rightarrow> string \<Rightarrow> string \<Rightarrow> string \<Rightarrow> string \<Rightarrow> string \<Rightarrow> string \<Rightarrow> int \<Rightarrow> hr_store
     \<Rightarrow> string svc res \<times> hr_store"
where
  "apply_leave sub first_name last_name leave_type start_date end_date reason today st =
     (let (user, st1) = ensure_user sub first_name last_name None None today st
      in case map_of (hs_leave_policy st1) leave_type of
           None \<Rightarrow>
             (Inr (SvcErr ''invalid_leave_type''
                ([CHR 0x27] @ leave_type @ [CHR 0x27] @ '' is not a valid leave type. Valid types: ''
                 @ str_join '', '' (map fst (hs_leave_policy st1)))), st1)
         | Some rule \<Rightarrow>
            (case (fromisoformat start_date, fromisoformat end_date) of
               (Some start, Some end') \<Rightarrow>
                 (let days = end' - start + 1;
                      min_notice_days = lp_min_notice_days rule;
                      notice_days = start - today
                  in if days \<le> 0 then
                       (Inr (SvcErr ''invalid_dates'' ''End date must be on or after start date.''), st1)
                     else if notice_days < min_notice_days then
                       (Inr (SvcErr ''insufficient_notice''
                          (leave_type @ '' requires at least '' @ show_int min_notice_days
                           @ '' days notice; start date is '' @ show_int notice_days @ '' day(s) away.'')), st1)
                     else
                      (case (map_of (hs_leave_balances st1) sub, balance_key leave_type) of
                         (None, _) \<Rightarrow> (Inl (EPy ''KeyError''), st1)
                       | (_, None) \<Rightarrow> (Inl (EPy ''IndexError''), st1)
                       | (Some b, Some k) \<Rightarrow>
                           if balance_get b k < days then
                             (Inr (SvcErr ''insufficient_balance''
                                (''You only have '' @ show_int (balance_get b k) @ '' '' @ leave_type
                                 @ '' days remaining, but requested '' @ show_int days @ '' days.'')), st1)
                           else
                            (let (new_id, st2) = next_request_id st1
                             in (Inr (SvcOk new_id),
                                 st2\<lparr>hs_leave_requests := AList.update new_id
                                    (pending_request sub (hu_name user) leave_type start_date end_date days reason)
                                    (hs_leave_requests st2)\<rparr>))))
             | _ \<Rightarrow> (Inr (SvcErr ''invalid_dates'' ''Dates must be in YYYY-MM-DD format.''), st1)))"

section \<open>hr_read\<close>

record request_row =
  rq_request_id :: string
  rq_employee :: string
  rq_type :: string
  rq_start_date :: string
  rq_end_date :: string
  rq_days_requested :: int
  rq_status :: string

text \<open>The two optional filters of the loops over the requests; an empty filter counts as absent.\<close>

definition passes_filters :: "string option \<Rightarrow> string option \<Rightarrow> leave_request \<Rightarrow> bool" where
  "passes_filters status employee_name req =
     ((or_empty status = [] \<or> py_lower (lr_status req) = py_lower (or_empty status))
      \<and> (or_empty employee_name = [] \<or> str_in (py_lower (or_empty employee_name)) (py_lower (lr_user_name req))))"

definition request_row_of :: "string \<times> leave_request \<Rightarrow> request_row" where
  "request_row_of = (\<lambda>(req_id, req).
     \<lparr>rq_request_id = req_id, rq_employee = lr_user_name req, rq_type = lr_leave_type req,
      rq_start_date = lr_start_date req, rq_end_date = lr_end_date req,
      rq_days_requested = lr_days_requested req, rq_status = lr_status req\<rparr>)"

definition get_all_leave_requests :: "string option \<Rightarrow> string option \<Rightarrow> hr_store \<Rightarrow> request_row list" where
  "get_all_leave_requests status employee_name st =
     map request_row_of (filter (\<lambda>(i, r). passes_filters status employee_name r) (hs_leave_requests st))"

record details_reply =
  dr_request_id :: string
  dr_employee :: string
  dr_type :: string
  dr_start_date :: string
  dr_end_date :: string
  dr_days_requested :: int
  dr_status :: string
  dr_reason :: string
  dr_annual :: int
  dr_sick :: int
  dr_personal :: int

definition get_leave_request_details :: "string \<Rightarrow> hr_store \<Rightarrow> details_reply option" where
  "get_leave_request_details request_id st =
     (case map_of (hs_leave_requests st) request_id of
        None \<Rightarrow> None
      | Some req \<Rightarrow>
         (let b = (case map_of (hs_leave_balances st) (lr_user_sub req) of None \<Rightarrow> [] | Some b \<Rightarrow> b)
          in Some \<lparr>dr_request_id = request_id, dr_employee = lr_user_name req, dr_type = lr_leave_type req,
                   dr_start_date = lr_start_date req, dr_end_date = lr_end_date req,
                   dr_days_requested = lr_days_requested req, dr_status = lr_status req,
                   dr_reason = lr_reason req, dr_annual = balance_get b ''annual'',
                   dr_sick = balance_get b ''sick'', dr_personal = balance_get b ''personal''\<rparr>))"

text \<open>A dashboard row is a request row without its id.\<close>

record dashboard_row =
  db_employee :: string
  db_type :: string
  db_start_date :: string
  db_end_date :: string
  db_days_requested :: int
  db_status :: string

definition get_leaves_for_dashboard ::
  "string option \<Rightarrow> string option \<Rightarrow> string option \<Rightarrow> hr_store \<Rightarrow> dashboard_row list"
where
  "get_leaves_for_dashboard user_sub status employee_name st =
     map (\<lambda>(i, req). \<lparr>db_employee = lr_user_name req, db_type = lr_leave_type req,
            db_start_date = lr_start_date req, db_end_date = lr_end_date req,
            db_days_requested = lr_days_requested req, db_status = lr_status req\<rparr>)
       (filter (\<lambda>(i, r). (or_empty user_sub = [] \<or> lr_user_sub r = or_empty user_sub)
                          \<and> passes_filters status employee_name r) (hs_leave_requests st))"

section \<open>hr_approve\<close>

record review_reply =
  rv_request_id :: string
  rv_new_status :: string
  rv_employee :: string
  rv_notification :: string

definition review_reply_of :: "string \<Rightarrow> string \<Rightarrow> string \<Rightarrow> leave_request \<Rightarrow> review_reply" where
  "review_reply_of request_id status verb req =
     \<lparr>rv_request_id = request_id, rv_new_status = status, rv_employee = lr_user_name req,
      rv_notification = ''Leave request '' @ request_id @ '' for '' @ lr_user_name req @ '' has been '' @ verb @ ''.''\<rparr>"

text \<open>
  The deduction: no balance record, or none of the type, deducts nothing; otherwise an
  overdraw is refused.
\<close>

definition deduct_balance :: "string \<Rightarrow> leave_request \<Rightarrow> hr_store \<Rightarrow> hr_store svc res" where
  "deduct_balance request_id req st =
     (case map_of (hs_leave_balances st) (lr_user_sub req) of
        None \<Rightarrow> Inr (SvcOk st)
      | Some b \<Rightarrow>
         if b = [] then Inr (SvcOk st)
         else (case balance_key (lr_leave_type req) of
                 None \<Rightarrow> Inl (EPy ''IndexError'')
               | Some k \<Rightarrow>
                  (case map_of b k of
                     None \<Rightarrow> Inr (SvcOk st)
                   | Some remaining \<Rightarrow>
                       if remaining < lr_days_requested req then
                         Inr (SvcErr ''insufficient_balance''
                           (''Cannot approve '' @ request_id @ '': '' @ lr_user_name req @ '' only has ''
                            @ show_int remaining @ '' '' @ k @ '' day(s) remaining, but the request is for ''
                            @ show_int (lr_days_requested req) @ '' day(s).''))
                       else Inr (SvcOk (st\<lparr>hs_leave_balances := AList.update (lr_user_sub req)
                              (AList.update k (remaining - lr_days_requested req) b) (hs_leave_balances st)\<rparr>)))))"

text \<open>The two guards the reviews share: the request exists and is still pending.\<close>

definition find_pending :: "string \<Rightarrow> hr_store \<Rightarrow> (string \<times> string) + leave_request" where
  "find_pending request_id st =
     (case map_of (hs_leave_requests st) request_id of
        None \<Rightarrow> Inl (''not_found'', ''Leave request '' @ [CHR 0x27] @ request_id @ [CHR 0x27] @ '' not found.'')
      | Some req \<Rightarrow>
         if lr_status req \<noteq> ''Pending''
         then Inl (''invalid_status'', ''Leave request '' @ request_id @ '' is already '' @ lr_status req @ ''.'')
         else Inr req)"

definition approve_leave_request ::
  "string \<Rightarrow> string \<Rightarrow> string \<Rightarrow> hr_store \<Rightarrow> review_reply svc res \<times> hr_store"
where
  "approve_leave_request request_id reviewer_sub reviewer_name st =
     (case find_pending request_id st of
        Inl (e, msg) \<Rightarrow> (Inr (SvcErr e msg), st)
      | Inr req \<Rightarrow>
            (case deduct_balance request_id req st of
               Inl e \<Rightarrow> (Inl e, st)
             | Inr (SvcErr e msg) \<Rightarrow> (Inr (SvcErr e msg), st)
             | Inr (SvcOk st1) \<Rightarrow>
                 (Inr (SvcOk (review_reply_of request_id ''Approved'' ''approved'' req)),
                  st1\<lparr>hs_leave_requests := AList.update request_id
                     (req\<lparr>lr_status := ''Approved'', lr_reviewed_by_sub := Some reviewer_sub,
                          lr_reviewed_by_name := Some reviewer_name\<rparr>) (hs_leave_requests st1)\<rparr>)))"

definition reject_leave_request ::
  "string \<Rightarrow> string \<Rightarrow> string \<Rightarrow> string \<Rightarrow> hr_store \<Rightarrow> review_reply svc res \<times> hr_store"
where
  "reject_leave_request request_id reason reviewer_sub reviewer_name st =
     (case find_pending request_id st of
        Inl (e, msg) \<Rightarrow> (Inr (SvcErr e msg), st)
      | Inr req \<Rightarrow>
             (Inr (SvcOk (review_reply_of request_id ''Rejected'' ''rejected'' req)),
              st\<lparr>hs_leave_requests := AList.update request_id
                 (req\<lparr>lr_status := ''Rejected'', lr_reviewed_by_sub := Some reviewer_sub,
                      lr_reviewed_by_name := Some reviewer_name, lr_rejection_reason := Some reason\<rparr>)
                 (hs_leave_requests st)\<rparr>))"

end
