(* ===== verification/HrCubicles.thy ===== *)
theory HrCubicles
  imports HrService
begin

text \<open>
  The cubicle and directory part of \<open>hr_server/service/hr_service.py\<close>: per-floor counts,
  vacancies, the assignment with its same-holder idempotence, the caller's own cubicle,
  the employee lookup and the assignments report.  \<open>cubicle_inv\<close> is the shape every
  operation keeps.
\<close>

section \<open>Queries\<close>

type_synonym floor_counts = "(string \<times> (int \<times> int)) list"

definition floor_key :: "int \<Rightarrow> string" where
  "floor_key n = ''floor_'' @ show_int n"

definition count_row :: "floor_counts \<Rightarrow> cubicle \<Rightarrow> floor_counts" where
  "count_row summary row =
     (let key = floor_key (cu_floor row);
          (t, v) = (case map_of summary key of None \<Rightarrow> (0, 0) | Some p \<Rightarrow> p)
      in AList.update key (t + 1, if cu_occupied row then v else v + 1) summary)"

definition get_cubicle_summary :: "hr_store \<Rightarrow> floor_counts" where
  "get_cubicle_summary st = foldl count_row (map (\<lambda>n. (floor_key (int n), (0, 0))) [1..<5]) (hs_cubicles st)"

definition get_vacant_cubicles_on_floor :: "int \<Rightarrow> hr_store \<Rightarrow> (int \<times> string list) svc" where
  "get_vacant_cubicles_on_floor n st =
     (if n < 1 \<or> 4 < n then SvcErr ''invalid_floor'' (''Floor '' @ show_int n @ '' is not 1..4.'')
      else SvcOk (n, sort (map cu_cubicle_id (filter (\<lambda>r. cu_floor r = n \<and> \<not> cu_occupied r) (hs_cubicles st)))))"

definition my_cubicle_needles :: "string \<Rightarrow> string option \<Rightarrow> hr_store \<Rightarrow> string \<times> string" where
  "my_cubicle_needles sub username st =
     (let sub_needle = py_strip sub; name_needle = py_lower (py_strip (or_empty username))
      in if sub_needle \<noteq> [] \<and> name_needle = [] then
           (sub_needle, case map_of (hs_users st) sub_needle of
                          None \<Rightarrow> [] | Some u \<Rightarrow> py_lower (py_strip (hu_username u)))
         else (sub_needle, name_needle))"

definition holds_cubicle :: "string \<Rightarrow> string \<Rightarrow> cubicle \<Rightarrow> bool" where
  "holds_cubicle sub_needle name_needle row =
     (cu_occupied row
      \<and> ((sub_needle \<noteq> [] \<and> py_strip (or_empty (cu_sub row)) = sub_needle)
         \<or> (name_needle \<noteq> [] \<and> py_lower (py_strip (or_empty (cu_username row))) = name_needle)))"

text \<open>The reply: the cubicle, its floor and the time of the assignment, or not assigned.\<close>

definition get_my_cubicle :: "string \<Rightarrow> string option \<Rightarrow> hr_store \<Rightarrow> (string \<times> int \<times> string option) option" where
  "get_my_cubicle sub username st =
     (if py_strip sub = [] \<and> py_lower (py_strip (or_empty username)) = [] then None
      else (let (sub_needle, name_needle) = my_cubicle_needles sub username st
            in map_option (\<lambda>r. (cu_cubicle_id r, cu_floor r, cu_assigned_at r))
                 (find (holds_cubicle sub_needle name_needle) (hs_cubicles st))))"

section \<open>Assignment\<close>

record assignment =
  as_cubicle_id :: string
  as_floor :: int
  as_username :: "string option"
  as_email :: "string option"
  as_assigned_at :: "string option"

datatype assign_reply =
    Assigned assignment
  | AssignError string string
  | AlreadyOccupied "string option" "string option"

text \<open>The row update loop: the first row with the id is the target.\<close>

fun update_cubicle :: "string \<Rightarrow> (cubicle \<Rightarrow> cubicle) \<Rightarrow> cubicle list \<Rightarrow> cubicle list" where
  "update_cubicle cid f [] = []"
| "update_cubicle cid f (r # rs) =
     (if cu_cubicle_id r = cid then f r # rs else r # update_cubicle cid f rs)"

definition assign_cubicle ::
  "string \<Rightarrow> string \<Rightarrow> string \<Rightarrow> string option \<Rightarrow> string \<Rightarrow> hr_store \<Rightarrow> assign_reply \<times> hr_store"
where
  "assign_cubicle cid employee_username employee_email sub now_iso st =
     (case find (\<lambda>r. cu_cubicle_id r = cid) (hs_cubicles st) of
        None \<Rightarrow> (AssignError ''cubicle_not_found'' (''Cubicle '' @ repr_str cid @ '' does not exist.''), st)
      | Some target \<Rightarrow>
         if cu_occupied target then
           (let existing = py_lower (py_strip (or_empty (cu_username target)));
                incoming = py_lower (py_strip employee_username)
            in if existing = incoming \<and> incoming \<noteq> [] then
                 (Assigned \<lparr>as_cubicle_id = cu_cubicle_id target, as_floor = cu_floor target,
                    as_username = cu_username target, as_email = cu_email target,
                    as_assigned_at = cu_assigned_at target\<rparr>, st)
               else (AlreadyOccupied (cu_username target) (cu_email target), st))
         else
           (let email = (if employee_email = [] then None else Some employee_email)
            in (Assigned \<lparr>as_cubicle_id = cu_cubicle_id target, as_floor = cu_floor target,
                  as_username = Some employee_username, as_email = email, as_assigned_at = Some now_iso\<rparr>,
                st\<lparr>hs_cubicles := update_cubicle cid (\<lambda>r. r\<lparr>cu_occupied := True,
                     cu_username := Some employee_username, cu_email := email, cu_sub := sub,
                     cu_assigned_at := Some now_iso\<rparr>) (hs_cubicles st)\<rparr>)))"

section \<open>Directory\<close>

record employee_reply =
  er_username :: string
  er_email :: string
  er_sub :: string

fun lookup_users :: "string \<Rightarrow> (string \<times> hr_user) list \<Rightarrow> employee_reply option" where
  "lookup_users needle [] = None"
| "lookup_users needle ((s, u) # us) =
     (if (hu_username u \<noteq> [] \<and> hu_username u = needle)
         \<or> (hu_email u \<noteq> [] \<and> py_lower (hu_email u) = py_lower needle)
      then Some \<lparr>er_username = hu_username u, er_email = hu_email u, er_sub = hu_sub u\<rparr>
      else lookup_users needle us)"

definition lookup_employee :: "string \<Rightarrow> hr_store \<Rightarrow> employee_reply option" where
  "lookup_employee username_or_email st =
     (if username_or_email = [] then None
      else lookup_users (py_strip username_or_email) (hs_users st))"

record assignment_row =
  ar_username :: "string option"
  ar_email :: "string option"
  ar_cubicle_id :: string
  ar_floor :: int
  ar_assigned_at :: "string option"

definition get_all_cubicle_assignments :: "hr_store \<Rightarrow> assignment_row list" where
  "get_all_cubicle_assignments st =
     sort_key (\<lambda>r. (ar_floor r, ar_cubicle_id r))
       (map (\<lambda>r. \<lparr>ar_username = cu_username r, ar_email = cu_email r, ar_cubicle_id = cu_cubicle_id r,
               ar_floor = cu_floor r, ar_assigned_at = cu_assigned_at r\<rparr>)
         (filter cu_occupied (hs_cubicles st)))"

section \<open>Invariant\<close>

definition row_ok :: "cubicle \<Rightarrow> bool" where
  "row_ok r = (if cu_occupied r then cu_username r \<noteq> None \<and> cu_assigned_at r \<noteq> None
               else cu_username r = None \<and> cu_email r = None \<and> cu_sub r = None \<and> cu_assigned_at r = None)"

definition cubicle_inv :: "hr_store \<Rightarrow> bool" where
  "cubicle_inv st = (map (\<lambda>r. (cu_cubicle_id r, cu_floor r)) (hs_cubicles st)
       = map (\<lambda>r. (cu_cubicle_id r, cu_floor r)) seed_cubicles
     \<and> list_all row_ok (hs_cubicles st))"

lemma update_cubicle_map:
  "(\<And>r. g (f r) = g r) \<Longrightarrow> map g (update_cubicle cid f rs) = map g rs"
  by (induction rs) auto

lemma update_cubicle_all:
  "list_all P rs \<Longrightarrow> (\<And>r. P r \<Longrightarrow> P (f r)) \<Longrightarrow> list_all P (update_cubicle cid f rs)"
  by (induction rs) auto

lemma assign_cubicle_inv:
  "cubicle_inv st \<Longrightarrow> cubicle_inv (snd (assign_cubicle cid u e s t st))"
  by (auto simp: assign_cubicle_def Let_def cubicle_inv_def update_cubicle_map row_ok_def
      intro!: update_cubicle_all split: option.splits)

lemma reset_cubicle_inv: "cubicle_inv reset_data"
  by (simp add: cubicle_inv_def reset_data_def seed_cubicles_def list_all_iff row_ok_def vacant_cubicle_def)

lemma seed_ids_distinct: "distinct (map cu_cubicle_id seed_cubicles)"
  by (simp add: seed_cubicles_def vacant_cubicle_def distinct_map inj_on_def comp_def)

lemma cubicle_inv_distinct: "cubicle_inv st \<Longrightarrow> distinct (map cu_cubicle_id (hs_cubicles st))"
proof -
  assume "cubicle_inv st"
  then have "map fst (map (\<lambda>r. (cu_cubicle_id r, cu_floor r)) (hs_cubicles st))
      = map fst (map (\<lambda>r. (cu_cubicle_id r, cu_floor r)) seed_cubicles)"
    unfolding cubicle_inv_def by presburger
  then have "map cu_cubicle_id (hs_cubicles st) = map cu_cubicle_id seed_cubicles" by (simp add: comp_def)
  then show ?thesis using seed_ids_distinct by simp
qed

text \<open>An occupied row is never touched by an assignment.\<close>

lemma update_cubicle_keeps:
  "distinct (map cu_cubicle_id rs) \<Longrightarrow> r \<in> set rs \<Longrightarrow> cu_cubicle_id r \<noteq> cid \<Longrightarrow> r \<in> set (update_cubicle cid f rs)"
  by (induction rs) auto

lemma find_distinct_id:
  "distinct (map cu_cubicle_id rs) \<Longrightarrow> r \<in> set rs \<Longrightarrow> find (\<lambda>x. cu_cubicle_id x = cu_cubicle_id r) rs = Some r"
proof (induction rs)
  case Nil
  then show ?case by simp
next
  case (Cons x rs)
  then show ?case by (cases "x = r") (auto simp: rev_image_eqI)
qed

lemma assign_cubicle_occupied_kept:
  assumes "distinct (map cu_cubicle_id (hs_cubicles st))" "r \<in> set (hs_cubicles st)" "cu_occupied r"
  shows "r \<in> set (hs_cubicles (snd (assign_cubicle cid u e s t st)))"
proof (cases "cu_cubicle_id r = cid")
  case True
  then have "find (\<lambda>x. cu_cubicle_id x = cid) (hs_cubicles st) = Some r"
    using find_distinct_id [OF assms(1,2)] by simp
  then show ?thesis using assms by (simp add: assign_cubicle_def Let_def)
next
  case False
  then show ?thesis using assms update_cubicle_keeps [OF assms(1,2)]
    by (auto simp: assign_cubicle_def Let_def split: option.splits)
qed

text \<open>The vacancy counts add up: what the summary calls vacant is what the floor query lists.\<close>

lemma count_row_get:
  "map_of (count_row sm row) k =
     (if k = floor_key (cu_floor row)
      then (case map_of sm k of None \<Rightarrow> Some (1, if cu_occupied row then 0 else 1)
            | Some (t, v) \<Rightarrow> Some (t + 1, if cu_occupied row then v else v + 1))
      else map_of sm k)"
  by (auto simp: count_row_def Let_def dict_simps split: option.splits prod.splits)

lemma fold_count_rows:
  "map_of sm k = Some (t, v) \<Longrightarrow> (\<And>r. r \<in> set rows \<Longrightarrow> floor_key (cu_floor r) = k \<longleftrightarrow> cu_floor r = n) \<Longrightarrow>
     map_of (foldl count_row sm rows) k =
       Some (t + int (length (filter (\<lambda>r. cu_floor r = n) rows)),
             v + int (length (filter (\<lambda>r. cu_floor r = n \<and> \<not> cu_occupied r) rows)))"
proof (induction rows arbitrary: sm t v)
  case Nil
  then show ?case by simp
next
  case (Cons r rows)
  show ?case
  proof (cases "cu_floor r = n")
    case True
    then have "floor_key (cu_floor r) = k" using Cons.prems(2) [of r] by simp
    then have "map_of (count_row sm r) k = Some (t + 1, if cu_occupied r then v else v + 1)"
      using Cons.prems(1) by (simp add: count_row_get)
    from Cons.IH [OF this] Cons.prems True show ?thesis by simp
  next
    case False
    then have "map_of (count_row sm r) k = Some (t, v)"
      using Cons.prems by (auto simp: count_row_get)
    from Cons.IH [OF this] Cons.prems False show ?thesis by simp
  qed
qed

lemma show_nat_inj [simp]: "show_nat m = show_nat n \<longleftrightarrow> m = n"
  by (metis nat_of_digits_show)

lemma summary_counts:
  assumes "1 \<le> n" "n \<le> 4" "\<forall>r \<in> set (hs_cubicles st). 0 \<le> cu_floor r"
  shows "map_of (get_cubicle_summary st) (floor_key n) =
    Some (int (length (filter (\<lambda>r. cu_floor r = n) (hs_cubicles st))),
          int (length (filter (\<lambda>r. cu_floor r = n \<and> \<not> cu_occupied r) (hs_cubicles st))))"
proof -
  have inj: "floor_key a = floor_key b \<longleftrightarrow> a = b" if "0 \<le> a" "0 \<le> b" for a b
    using that by (auto simp: floor_key_def show_int_def)
  have "n \<in> {1, 2, 3, 4}" using assms by auto
  then have "map_of (map (\<lambda>n. (floor_key (int n), (0, 0))) [1..<5]) (floor_key n) = Some (0 :: int, 0 :: int)"
    using inj by (auto simp: upt_conv_Cons)
  from fold_count_rows [OF this, of "hs_cubicles st" n] show ?thesis
    using assms inj by (auto simp: get_cubicle_summary_def)
qed

end
