(* ===== verification/HrLedger.thy ===== *)
theory HrLedger
  imports HrCubicles
begin

text \<open>
  The operations of the HR service as one step function, its runs, and the invariant of
  the leave ledger: every balance is non-negative and equals the yearly allowance less
  the approved days, every request belongs to a registered user and a known leave type,
  and its id was allocated by the counter.
\<close>

section \<open>Runs\<close>

datatype hr_op =
    OpEnsureUser string string string "string option" "string option"
  | OpBalance string string string
  | OpHistory string string string
  | OpApply string string string string string string string
  | OpApprove string string string
  | OpReject string string string string
  | OpAssign string string string "string option" string
  | OpReset

fun hr_exec :: "int \<Rightarrow> hr_op \<Rightarrow> hr_store \<Rightarrow> hr_store" where
  "hr_exec today (OpEnsureUser sub f l un em) st = snd (ensure_user sub f l un em today st)"
| "hr_exec today (OpBalance sub f l) st = snd (get_my_leave_balance sub f l today st)"
| "hr_exec today (OpHistory sub f l) st = snd (get_my_leave_requests sub f l today st)"
| "hr_exec today (OpApply sub f l lt sd ed rs) st = snd (apply_leave sub f l lt sd ed rs today st)"
| "hr_exec today (OpApprove rid rsub rname) st = snd (approve_leave_request rid rsub rname st)"
| "hr_exec today (OpReject rid why rsub rname) st = snd (reject_leave_request rid why rsub rname st)"
| "hr_exec today (OpAssign cid u e s t) st = snd (assign_cubicle cid u e s t st)"
| "hr_exec today OpReset st = reset_data"

definition hr_run :: "(int \<times> hr_op) list \<Rightarrow> hr_store \<Rightarrow> hr_store" where
  "hr_run ops st = foldl (\<lambda>s (today, opr). hr_exec today opr s) st ops"

section \<open>The ledger\<close>

definition approved_part :: "string \<Rightarrow> string \<Rightarrow> leave_request \<Rightarrow> int" where
  "approved_part sub k r =
     (if lr_user_sub r = sub \<and> lr_status r = ''Approved'' \<and> balance_key (lr_leave_type r) = Some k
      then lr_days_requested r else 0)"

definition approved_days :: "string \<Rightarrow> string \<Rightarrow> (string \<times> leave_request) list \<Rightarrow> int" where
  "approved_days sub k reqs = sum_list (map (\<lambda>(i, r). approved_part sub k r) reqs)"

definition balance_ok :: "(string \<times> leave_request) list \<Rightarrow> string \<Rightarrow> balance \<Rightarrow> bool" where
  "balance_ok reqs sub b =
     (map fst b = map fst default_leave_balance \<and>
      (\<forall>k n d. map_of b k = Some n \<longrightarrow> map_of default_leave_balance k = Some d \<longrightarrow>
         0 \<le> n \<and> n + approved_days sub k reqs = d))"

definition request_ok :: "hr_store \<Rightarrow> string \<Rightarrow> leave_request \<Rightarrow> bool" where
  "request_ok st i r =
     (map_of (hs_users st) (lr_user_sub r) \<noteq> None
      \<and> lr_leave_type r \<in> fst ` set seed_leave_policy
      \<and> 1 \<le> lr_days_requested r
      \<and> lr_status r \<in> {''Pending'', ''Approved'', ''Rejected''}
      \<and> (\<exists>n. i = ''LR'' @ pad3 n \<and> 1 \<le> n \<and> n \<le> hs_leave_request_counter st))"

definition hr_inv :: "hr_store \<Rightarrow> bool" where
  "hr_inv st =
     (hs_leave_policy st = seed_leave_policy
      \<and> distinct (map fst (hs_leave_requests st))
      \<and> (\<forall>s. (map_of (hs_users st) s = None) = (map_of (hs_leave_balances st) s = None))
      \<and> (\<forall>i r. map_of (hs_leave_requests st) i = Some r \<longrightarrow> request_ok st i r)
      \<and> (\<forall>s b. map_of (hs_leave_balances st) s = Some b \<longrightarrow> balance_ok (hs_leave_requests st) s b))"

lemma sum_list_update:
  fixes f :: "'v \<Rightarrow> int"
  shows "sum_list (map (\<lambda>(i, r). f r) (AList.update i r d)) =
     sum_list (map (\<lambda>(i, r). f r) d) + f r - (case map_of d i of None \<Rightarrow> 0 | Some r0 \<Rightarrow> f r0)"
  by (induction d) auto

lemma approved_days_update:
  "approved_days sub k (AList.update i r reqs) = approved_days sub k reqs + approved_part sub k r
     - (case map_of reqs i of None \<Rightarrow> 0 | Some r0 \<Rightarrow> approved_part sub k r0)"
  unfolding approved_days_def by (rule sum_list_update)

lemma approved_days_update_same:
  "map_of reqs i = Some r0 \<Longrightarrow> lr_status r0 \<noteq> ''Approved'' \<Longrightarrow> lr_status r \<noteq> ''Approved'' \<Longrightarrow>
     approved_days sub k (AList.update i r reqs) = approved_days sub k reqs"
  "map_of reqs i = None \<Longrightarrow> lr_status r \<noteq> ''Approved'' \<Longrightarrow>
     approved_days sub k (AList.update i r reqs) = approved_days sub k reqs"
  by (simp_all add: approved_days_update approved_part_def)

lemma approved_days_absent:
  assumes "\<forall>i r. map_of reqs i = Some r \<longrightarrow> lr_user_sub r \<noteq> sub" and "distinct (map fst reqs)"
  shows "approved_days sub k reqs = 0"
proof -
  have "approved_part sub k r = 0" if "(i, r) \<in> set reqs" for i r
    using assms map_of_is_SomeI [OF assms(2) that] by (auto simp: approved_part_def)
  then have "map (\<lambda>(i, r). approved_part sub k r) reqs = map (\<lambda>_. 0) reqs" by auto
  then show ?thesis unfolding approved_days_def by (simp only: sum_list_triv mult_zero_right)
qed

lemma request_ok_mono:
  "request_ok st i r \<Longrightarrow> (\<And>s. map_of (hs_users st) s \<noteq> None \<Longrightarrow> map_of (hs_users st') s \<noteq> None)
    \<Longrightarrow> hs_leave_request_counter st \<le> hs_leave_request_counter st' \<Longrightarrow> request_ok st' i r"
  unfolding request_ok_def by fastforce

lemma hr_inv_reset: "hr_inv reset_data"
  by (simp add: hr_inv_def reset_data_def)

lemma hr_inv_ensure:
  assumes inv: "hr_inv st" and e: "ensure_user sub f l un em today st = (u, st')"
  shows "hr_inv st' \<and> map_of (hs_users st') sub = Some u \<and> map_of (hs_leave_balances st') sub \<noteq> None"
proof -
  note fr = ensure_user_frame [OF e]
  have bal: "balance_ok (hs_leave_requests st) s b" if "map_of (hs_leave_balances st') s = Some b" for s b
  proof (cases "map_of (hs_users st) sub = None \<and> s = sub")
    case True
    then have "lr_user_sub r \<noteq> sub" if "map_of (hs_leave_requests st) i = Some r" for i r
      using inv that unfolding hr_inv_def request_ok_def by metis
    then have "approved_days sub k (hs_leave_requests st) = 0" for k
      using inv by (intro approved_days_absent) (simp_all add: hr_inv_def)
    moreover have "b = default_leave_balance"
      using that True by (simp add: fr(6) dict_simps default_balance_def)
    ultimately show ?thesis using True by (auto simp: balance_ok_def default_leave_balance_def split: if_splits)
  next
    case False
    then have "map_of (hs_leave_balances st) s = Some b"
      using that by (auto simp: fr(6) dict_simps split: if_splits)
    then show ?thesis using inv by (simp add: hr_inv_def)
  qed
  have dom: "(map_of (hs_users st') s = None) = (map_of (hs_leave_balances st') s = None)" for s
    using inv by (auto simp: hr_inv_def fr(5,6) dict_simps)
  have "request_ok st' i r" if "map_of (hs_leave_requests st) i = Some r" for i r
    using inv that by (auto simp: hr_inv_def fr intro: request_ok_mono [of st])
  then have "hr_inv st'" using inv bal dom by (simp add: hr_inv_def fr(1,2))
  moreover have "map_of (hs_users st') sub = Some u" by (simp add: fr(5))
  ultimately show ?thesis using dom [of sub] by simp
qed

text \<open>The allowance of a balance key, and the key of a leave type.\<close>

lemma balance_key_seed [simp]:
  "balance_key ''Annual Leave'' = Some ''annual''"
  "balance_key ''Sick Leave'' = Some ''sick''"
  "balance_key ''Personal Leave'' = Some ''personal''"
  by (simp_all add: balance_key_def py_split_def py_ws_def py_lower_def lower_char_def char_of_eq_iff)

lemma policy_key:
  assumes "lt \<in> fst ` set seed_leave_policy"
  shows "\<exists>k d. balance_key lt = Some k \<and> map_of default_leave_balance k = Some d"
proof -
  have "lt \<in> {''Annual Leave'', ''Sick Leave'', ''Personal Leave''}"
    using assms unfolding seed_leave_policy_def list.set image_insert image_empty fst_conv .
  then consider "lt = ''Annual Leave''" | "lt = ''Sick Leave''" | "lt = ''Personal Leave''" by blast
  then show ?thesis by cases (simp_all add: default_leave_balance_def)
qed

lemma balance_ok_get:
  assumes "balance_ok reqs s b" "map_of default_leave_balance k = Some d"
  obtains n where "map_of b k = Some n" "0 \<le> n" "n + approved_days s k reqs = d"
proof -
  from assms(1) have "map fst b = map fst default_leave_balance" by (simp add: balance_ok_def)
  moreover have "k \<in> fst ` set default_leave_balance"
    using map_of_SomeD [OF assms(2)] by force
  ultimately have "k \<in> fst ` set b" unfolding list.set_map [symmetric] by presburger
  then obtain n where n: "map_of b k = Some n" by (metis map_of_eq_None_iff not_None_eq)
  with assms that show thesis by (auto simp: balance_ok_def)
qed

section \<open>Preservation\<close>

lemma hr_invD:
  assumes "hr_inv st"
  shows "map_of (hs_leave_requests st) i = Some r \<Longrightarrow> request_ok st i r"
    and "map_of (hs_leave_balances st) s = Some b \<Longrightarrow> balance_ok (hs_leave_requests st) s b"
    and "map_of (hs_users st) s = None \<longleftrightarrow> map_of (hs_leave_balances st) s = None"
    and "hs_leave_policy st = seed_leave_policy"
  using assms by (simp_all add: hr_inv_def)

text \<open>A step that replaces one request and leaves users, policy and counter as they are.\<close>

lemma hr_inv_request_update:
  assumes inv: "hr_inv st"
    and st': "st' = st\<lparr>hs_leave_balances := B, hs_leave_requests := AList.update i r (hs_leave_requests st)\<rparr>"
    and dom: "\<forall>s. (map_of B s = None) = (map_of (hs_leave_balances st) s = None)"
    and r: "request_ok st i r"
    and bal: "\<forall>s b. map_of B s = Some b \<longrightarrow> balance_ok (AList.update i r (hs_leave_requests st)) s b"
  shows "hr_inv st'"
proof -
  have "request_ok st' j q" if "map_of (hs_leave_requests st') j = Some q" for j q
  proof -
    have "request_ok st j q"
      using that inv r by (auto simp: st' hr_inv_def dict_simps split: if_splits)
    then show ?thesis by (rule request_ok_mono) (simp_all add: st')
  qed
  then show ?thesis using inv dom bal by (simp add: hr_inv_def st')
qed

lemma balance_ok_same:
  "balance_ok reqs s b \<Longrightarrow> (\<And>k. approved_days s k reqs' = approved_days s k reqs) \<Longrightarrow> balance_ok reqs' s b"
  by (simp add: balance_ok_def)

lemma find_pending_ok:
  "find_pending i st = Inr r \<longleftrightarrow> map_of (hs_leave_requests st) i = Some r \<and> lr_status r = ''Pending''"
  by (auto simp: find_pending_def split: option.splits)

lemma hr_inv_reject:
  assumes inv: "hr_inv st"
  shows "hr_inv (snd (reject_leave_request i why rsub rname st))"
proof (cases "find_pending i st")
  case (Inl e)
  then show ?thesis using inv by (cases e) (simp add: reject_leave_request_def)
next
  case (Inr r)
  then have r: "map_of (hs_leave_requests st) i = Some r" "lr_status r = ''Pending''"
    by (simp_all add: find_pending_ok)
  let ?r = "r\<lparr>lr_status := ''Rejected'', lr_reviewed_by_sub := Some rsub, lr_reviewed_by_name := Some rname,
    lr_rejection_reason := Some why\<rparr>"
  have "request_ok st i r" by (rule hr_invD(1) [OF inv r(1)])
  then have "request_ok st i ?r" by (simp add: request_ok_def)
  moreover have "balance_ok (AList.update i ?r (hs_leave_requests st)) s b"
    if "map_of (hs_leave_balances st) s = Some b" for s b
    using hr_invD(2) [OF inv that]
    by (rule balance_ok_same) (rule approved_days_update_same(1) [OF r(1)]; simp add: r)
  moreover have "snd (reject_leave_request i why rsub rname st) =
      st\<lparr>hs_leave_balances := hs_leave_balances st, hs_leave_requests := AList.update i ?r (hs_leave_requests st)\<rparr>"
    using Inr by (simp add: reject_leave_request_def)
  ultimately show ?thesis by (intro hr_inv_request_update [OF inv]) auto
qed

text \<open>An approval takes the requested days from the balance of the type.\<close>

lemma hr_inv_approve:
  assumes inv: "hr_inv st"
  shows "hr_inv (snd (approve_leave_request i rsub rname st))"
proof (cases "find_pending i st")
  case (Inl e)
  then show ?thesis using inv by (cases e) (simp add: approve_leave_request_def)
next
  case (Inr r)
  then have r: "map_of (hs_leave_requests st) i = Some r" "lr_status r = ''Pending''"
    by (simp_all add: find_pending_ok)
  have rok: "request_ok st i r" by (rule hr_invD(1) [OF inv r(1)])
  let ?u = "lr_user_sub r"
  let ?r = "r\<lparr>lr_status := ''Approved'', lr_reviewed_by_sub := Some rsub, lr_reviewed_by_name := Some rname\<rparr>"
  let ?reqs = "AList.update i ?r (hs_leave_requests st)"
  obtain b where b: "map_of (hs_leave_balances st) ?u = Some b"
    using hr_invD(3) [OF inv, of ?u] rok unfolding request_ok_def by fastforce
  note bok = hr_invD(2) [OF inv]
  obtain k d where k: "balance_key (lr_leave_type r) = Some k" "map_of default_leave_balance k = Some d"
    using policy_key rok unfolding request_ok_def by blast
  obtain n where n: "map_of b k = Some n" "0 \<le> n" "n + approved_days ?u k (hs_leave_requests st) = d"
    using balance_ok_get [OF bok [OF b] k(2)] .
  have ad: "approved_days s j ?reqs = approved_days s j (hs_leave_requests st)
      + (if s = ?u \<and> j = k then lr_days_requested r else 0)" for s j
    using r k by (simp add: approved_days_update approved_part_def)
  show ?thesis
  proof (cases "n < lr_days_requested r")
    case True
    then show ?thesis using inv Inr b k n
      by (auto simp: approve_leave_request_def deduct_balance_def split: if_splits)
  next
    case False
    let ?b = "AList.update k (n - lr_days_requested r) b"
    let ?B = "AList.update ?u ?b (hs_leave_balances st)"
    have "b \<noteq> []" using n by auto
    then have eq: "snd (approve_leave_request i rsub rname st) =
        st\<lparr>hs_leave_balances := ?B, hs_leave_requests := ?reqs\<rparr>"
      using Inr b k n False by (simp add: approve_leave_request_def deduct_balance_def)
    have keys: "map fst ?b = map fst b"
      using n(1) map_of_SomeD [OF n(1)] by (simp add: update_keys image_iff) force
    have "balance_ok ?reqs s c" if c: "map_of ?B s = Some c" for s c
    proof (cases "s = ?u")
      case True
      then have "c = ?b" using c by (simp add: dict_simps)
      moreover have "balance_ok ?reqs ?u ?b"
        unfolding balance_ok_def
      proof (intro conjI allI impI)
        show "map fst ?b = map fst default_leave_balance"
          using keys bok [OF b] by (simp add: balance_ok_def)
      next
        fix j m e assume m: "map_of ?b j = Some m" and e: "map_of default_leave_balance j = Some e"
        show "0 \<le> m" "m + approved_days ?u j ?reqs = e"
          using m e n k False bok [OF b] by (auto simp: ad dict_simps balance_ok_def split: if_splits)
      qed
      ultimately show ?thesis using True by simp
    next
      case False
      then have "map_of (hs_leave_balances st) s = Some c" using c by (simp add: dict_simps)
      from bok [OF this] show ?thesis by (rule balance_ok_same) (use False in \<open>simp add: ad\<close>)
    qed
    moreover have "request_ok st i ?r" using rok by (simp add: request_ok_def)
    moreover have "(map_of ?B s = None) = (map_of (hs_leave_balances st) s = None)" for s
      using b by (simp add: dict_simps)
    ultimately show ?thesis by (intro hr_inv_request_update [OF inv eq]) auto
  qed
qed

text \<open>The counter makes a fresh id, and a submitted request is pending with at least one day.\<close>

lemma next_id_fresh:
  assumes "hr_inv st" "next_request_id st = (i, st')"
  shows "map_of (hs_leave_requests st) i = None"
proof (rule ccontr)
  assume "map_of (hs_leave_requests st) i \<noteq> None"
  then obtain r where "map_of (hs_leave_requests st) i = Some r" by blast
  from hr_invD(1) [OF assms(1) this] obtain n where "i = ''LR'' @ pad3 n" "n \<le> hs_leave_request_counter st"
    by (auto simp: request_ok_def)
  moreover have "i = ''LR'' @ pad3 (hs_leave_request_counter st + 1)"
    using assms(2) by (simp add: next_request_id_def Let_def prod_eq_iff)
  ultimately show False by simp
qed

text \<open>The branches of \<open>apply_leave\<close>: either the store of the registration, or one more request.\<close>

lemma apply_leave_cases:
  assumes "apply_leave sub f l lt sd ed why today st = (r, st')"
    and "ensure_user sub f l None None today st = (u, st1)"
  shows "(st' = st1 \<and> (\<forall>x. r \<noteq> Inr (SvcOk x))) \<or>
    (\<exists>i rule s e b k. r = Inr (SvcOk i) \<and> map_of (hs_leave_policy st1) lt = Some rule
       \<and> fromisoformat sd = Some s \<and> fromisoformat ed = Some e \<and> s \<le> e
       \<and> lp_min_notice_days rule \<le> s - today
       \<and> map_of (hs_leave_balances st1) sub = Some b \<and> balance_key lt = Some k \<and> e - s + 1 \<le> balance_get b k
       \<and> i = fst (next_request_id st1)
       \<and> st' = (snd (next_request_id st1))\<lparr>hs_leave_requests := AList.update i
           (pending_request sub (hu_name u) lt sd ed (e - s + 1) why) (hs_leave_requests st1)\<rparr>)"
  using assms
  by (auto simp: apply_leave_def Let_def next_request_id_def split: option.splits if_splits)

lemma hr_inv_apply:
  assumes inv: "hr_inv st"
  shows "hr_inv (snd (apply_leave sub f l lt sd ed why today st))"
proof -
  obtain r st' where a: "apply_leave sub f l lt sd ed why today st = (r, st')" by force
  obtain u st1 where e: "ensure_user sub f l None None today st = (u, st1)" by force
  note inv1 = hr_inv_ensure [OF inv e]
  then have i1: "hr_inv st1" by simp
  from apply_leave_cases [OF a e] show ?thesis
  proof (elim disjE exE conjE)
    assume "st' = st1"
    then show ?thesis using a inv1 by simp
  next
    fix i rule s e' b k
    assume pol: "map_of (hs_leave_policy st1) lt = Some rule" and se: "s \<le> e'"
      and i: "i = fst (next_request_id st1)"
      and st': "st' = (snd (next_request_id st1))\<lparr>hs_leave_requests := AList.update i
           (pending_request sub (hu_name u) lt sd ed (e' - s + 1) why) (hs_leave_requests st1)\<rparr>"
    let ?r = "pending_request sub (hu_name u) lt sd ed (e' - s + 1) why"
    let ?st = "snd (next_request_id st1)"
    have st2: "?st = st1\<lparr>hs_leave_request_counter := hs_leave_request_counter st1 + 1\<rparr>"
      by (simp add: next_request_id_def Let_def)
    have fresh: "map_of (hs_leave_requests st1) i = None"
      using next_id_fresh [OF i1, of i ?st] i by simp
    have "request_ok ?st j q" if "map_of (hs_leave_requests st1) j = Some q" for j q
      by (rule request_ok_mono [OF hr_invD(1) [OF i1 that]]) (simp_all add: st2)
    then have inv2: "hr_inv ?st" using i1 by (simp add: hr_inv_def st2)
    have "lt \<in> fst ` set seed_leave_policy"
      using pol hr_invD(4) [OF i1] map_of_SomeD by force
    moreover have "i = ''LR'' @ pad3 (hs_leave_request_counter st1 + 1)"
      using i by (simp add: next_request_id_def Let_def)
    ultimately have rok: "request_ok ?st i ?r"
      using inv1 se by (auto simp: request_ok_def pending_request_def st2)
    have bal: "balance_ok (AList.update i ?r (hs_leave_requests ?st)) s' b'"
      if "map_of (hs_leave_balances ?st) s' = Some b'" for s' b'
      using hr_invD(2) [OF inv2 that]
      by (rule balance_ok_same)
        (rule approved_days_update_same(2); simp add: fresh st2 pending_request_def)
    have "st' = ?st\<lparr>hs_leave_balances := hs_leave_balances ?st,
        hs_leave_requests := AList.update i ?r (hs_leave_requests ?st)\<rparr>"
      by (simp add: st' st2)
    from hr_inv_request_update [OF inv2 this _ rok] bal show ?thesis by (simp add: a)
  qed
qed

lemma hr_inv_cubicles [simp]: "hr_inv (st\<lparr>hs_cubicles := c\<rparr>) = hr_inv st"
  by (simp add: hr_inv_def request_ok_def)

lemma hr_inv_assign: "hr_inv st \<Longrightarrow> hr_inv (snd (assign_cubicle cid u e s t st))"
  by (auto simp: assign_cubicle_def Let_def split: option.splits)

lemma hr_inv_queries:
  assumes "hr_inv st"
  shows "hr_inv (snd (get_my_leave_balance sub f l today st))"
    and "hr_inv (snd (get_my_leave_requests sub f l today st))"
  using hr_inv_ensure [OF assms, of sub f l None None today]
  by (auto simp: get_my_leave_balance_def get_my_leave_requests_def Let_def split: prod.splits)

lemma hr_inv_exec: "hr_inv st \<Longrightarrow> hr_inv (hr_exec today opr st)"
  by (cases opr)
     (auto simp: hr_inv_reset hr_inv_queries hr_inv_apply hr_inv_approve hr_inv_reject hr_inv_assign
       dest: hr_inv_ensure [OF _ prod.collapse [symmetric]])

lemma hr_inv_run: "hr_inv st \<Longrightarrow> hr_inv (hr_run ops st)"
  unfolding hr_run_def by (induction ops arbitrary: st) (auto simp: hr_inv_exec)

text \<open>The cubicles are changed by an assignment or a reset only.\<close>

lemma apply_leave_cubicles: "hs_cubicles (snd (apply_leave sub f l lt sd ed why today st)) = hs_cubicles st"
proof -
  obtain r st' where a: "apply_leave sub f l lt sd ed why today st = (r, st')" by force
  obtain u st1 where e: "ensure_user sub f l None None today st = (u, st1)" by force
  show ?thesis using apply_leave_cases [OF a e] ensure_user_frame(4) [OF e]
    by (auto simp: a next_request_id_def Let_def)
qed

lemma review_cubicles:
  "hs_cubicles (snd (approve_leave_request i a b st)) = hs_cubicles st"
  "hs_cubicles (snd (reject_leave_request i w a b st)) = hs_cubicles st"
  by (auto simp: approve_leave_request_def reject_leave_request_def deduct_balance_def
      split: sum.splits option.splits svc.splits if_splits prod.splits)

lemma ensure_cubicles:
  "hs_cubicles (snd (ensure_user sub f l un em today st)) = hs_cubicles st"
  "hs_cubicles (snd (get_my_leave_balance sub f l today st)) = hs_cubicles st"
  "hs_cubicles (snd (get_my_leave_requests sub f l today st)) = hs_cubicles st"
  by (auto simp: ensure_user_def get_my_leave_balance_def get_my_leave_requests_def Let_def
      split: option.splits prod.splits)

lemma hr_exec_cubicles:
  "(\<And>c u e s t. opr \<noteq> OpAssign c u e s t) \<Longrightarrow> opr \<noteq> OpReset \<Longrightarrow> hs_cubicles (hr_exec today opr st) = hs_cubicles st"
  by (cases opr) (simp_all add: apply_leave_cubicles review_cubicles ensure_cubicles, blast)

lemma cubicle_inv_cong: "hs_cubicles st' = hs_cubicles st \<Longrightarrow> cubicle_inv st' = cubicle_inv st"
  by (simp add: cubicle_inv_def)

lemma cubicle_inv_exec: "cubicle_inv st \<Longrightarrow> cubicle_inv (hr_exec today opr st)"
proof (cases opr)
  case (OpAssign c u e s t)
  assume "cubicle_inv st"
  with OpAssign show ?thesis by (simp add: assign_cubicle_inv)
qed (simp_all add: reset_cubicle_inv hr_exec_cubicles cubicle_inv_cong [OF apply_leave_cubicles]
       cubicle_inv_cong [OF review_cubicles(1)] cubicle_inv_cong [OF review_cubicles(2)]
       cubicle_inv_cong [OF ensure_cubicles(1)] cubicle_inv_cong [OF ensure_cubicles(2)]
       cubicle_inv_cong [OF ensure_cubicles(3)])

lemma cubicle_inv_run: "cubicle_inv st \<Longrightarrow> cubicle_inv (hr_run ops st)"
  unfolding hr_run_def by (induction ops arbitrary: st) (auto simp: cubicle_inv_exec)

end
