(* ===== verification/HrTools.thy ===== *)
theory HrTools
  imports ToolGuard HrLedger
begin

text \<open>
  \<open>hr_server/mcp/tools.py\<close>: the endpoints of the HR tool router, each the authentication
  block of \<open>ToolGuard\<close> under the scope of the tool, then the call of the service and the
  reply.  \<open>check\<close> is the validator of the router's dependencies, \<open>h\<close> the
  \<open>Authorization\<close> header, \<open>today\<close> and \<open>now_iso\<close> the calendar.  A body whose fields break
  their declared constraints is answered 422 by the framework before the handler runs.
\<close>

section \<open>Replies\<close>

record review_result =
  ar_success :: bool
  ar_request_id :: string
  ar_new_status :: "string option"
  ar_employee :: "string option"
  ar_notification :: "string option"
  ar_error :: "string option"
  ar_message :: "string option"
  ar_reviewed_by :: string

record apply_result =
  ap_success :: bool
  ap_request_id :: "string option"
  ap_error :: "string option"
  ap_message :: "string option"

record history_result =
  hh_employee_id :: string
  hh_entries :: "history_row list"

fun of_res :: "'a res \<Rightarrow> 'a http" where
  "of_res (Inl e) = Fail 500 (exn_id e)"
| "of_res (Inr a) = Ok200 a"

definition unprocessable :: "'r http" where
  "unprocessable = Fail 422 ''validation_error''"

section \<open>Handlers\<close>

definition tool_get_leave_policy ::
  "'v checker \<Rightarrow> string option \<Rightarrow> 'v \<Rightarrow> hr_store \<Rightarrow> policy_row list http \<times> 'v \<times> hr_store"
where
  "tool_get_leave_policy check h v st =
     with_guard check {''hr_basic_rest''} h (\<lambda>claims d. (Ok200 (get_leave_policy d), d)) v st"

definition tool_get_leave_balance ::
  "'v checker \<Rightarrow> string option \<Rightarrow> int \<Rightarrow> 'v \<Rightarrow> hr_store \<Rightarrow> balance_reply http \<times> 'v \<times> hr_store"
where
  "tool_get_leave_balance check h today v st =
     with_guard check {''hr_self_rest''} h
       (\<lambda>claims d. let (r, d') = get_my_leave_balance (c_sub claims) (username_for claims) [] today d
                    in (of_res r, d')) v st"

definition tool_get_leave_history ::
  "'v checker \<Rightarrow> string option \<Rightarrow> int \<Rightarrow> int \<Rightarrow> 'v \<Rightarrow> hr_store \<Rightarrow> history_result http \<times> 'v \<times> hr_store"
where
  "tool_get_leave_history check h today limit v st =
     (if limit < 1 \<or> 50 < limit then (unprocessable, v, st)
      else with_guard check {''hr_self_rest''} h
        (\<lambda>claims d. let (rows, d') = get_my_leave_requests (c_sub claims) (username_for claims) [] today d
                     in (Ok200 \<lparr>hh_employee_id = c_sub claims, hh_entries = take (nat limit) rows\<rparr>, d')) v st)"

text \<open>
  \<open>act_sub or claims.sub\<close>, the actor of the reply; a non-string actor fails the
  response model.
\<close>

definition acting_party :: "jwt_claims \<Rightarrow> string http" where
  "acting_party c =
     (case c_act c of
        PDict d \<Rightarrow> (if truthy (pyget d ''sub'')
                    then (case pyget d ''sub'' of PStr s \<Rightarrow> Ok200 s | _ \<Rightarrow> Fail 500 ''ValidationError'')
                    else Ok200 (c_sub c))
      | _ \<Rightarrow> Ok200 (c_sub c))"

definition review_result_of :: "string \<Rightarrow> review_reply svc res \<Rightarrow> jwt_claims \<Rightarrow> review_result http" where
  "review_result_of leave_id result c =
     (case result of
        Inl e \<Rightarrow> Fail 500 (exn_id e)
      | Inr r \<Rightarrow>
         (case acting_party c of
            Fail s i \<Rightarrow> Fail s i
          | Ok200 who \<Rightarrow>
             (case r of
                SvcOk a \<Rightarrow>
                  Ok200 \<lparr>ar_success = True, ar_request_id = rv_request_id a, ar_new_status = Some (rv_new_status a),
                         ar_employee = Some (rv_employee a), ar_notification = Some (rv_notification a),
                         ar_error = None, ar_message = None, ar_reviewed_by = who\<rparr>
              | SvcErr e m \<Rightarrow>
                  Ok200 \<lparr>ar_success = False, ar_request_id = leave_id, ar_new_status = None,
                         ar_employee = None, ar_notification = None,
                         ar_error = Some e, ar_message = Some m, ar_reviewed_by = who\<rparr>)))"

definition tool_approve_leave ::
  "'v checker \<Rightarrow> string option \<Rightarrow> string \<Rightarrow> 'v \<Rightarrow> hr_store \<Rightarrow> review_result http \<times> 'v \<times> hr_store"
where
  "tool_approve_leave check h leave_id v st =
     with_guard check {''hr_approve_rest''} h
       (\<lambda>claims d. let (r, d') = approve_leave_request leave_id (c_sub claims) (username_for claims) d
                    in (review_result_of leave_id r claims, d')) v st"

definition tool_reject_leave ::
  "'v checker \<Rightarrow> string option \<Rightarrow> string \<Rightarrow> string \<Rightarrow> 'v \<Rightarrow> hr_store \<Rightarrow> review_result http \<times> 'v \<times> hr_store"
where
  "tool_reject_leave check h leave_id reason v st =
     (if reason = [] then (unprocessable, v, st)
      else with_guard check {''hr_approve_rest''} h
        (\<lambda>claims d. let (r, d') = reject_leave_request leave_id reason (c_sub claims) (username_for claims) d
                     in (review_result_of leave_id r claims, d')) v st)"

definition tool_apply_leave ::
  "'v checker \<Rightarrow> string option \<Rightarrow> int \<Rightarrow> string \<Rightarrow> string \<Rightarrow> string \<Rightarrow> string \<Rightarrow> 'v \<Rightarrow> hr_store
     \<Rightarrow> apply_result http \<times> 'v \<times> hr_store"
where
  "tool_apply_leave check h today leave_type start_date end_date reason v st =
     with_guard check {''hr_self_rest''} h
       (\<lambda>claims d.
          let (r, d') = apply_leave (c_sub claims) (username_for claims) [] leave_type start_date end_date reason today d
          in (case r of
                Inl e \<Rightarrow> Fail 500 (exn_id e)
              | Inr (SvcOk i) \<Rightarrow> Ok200 \<lparr>ap_success = True, ap_request_id = Some i, ap_error = None, ap_message = None\<rparr>
              | Inr (SvcErr e m) \<Rightarrow>
                  Ok200 \<lparr>ap_success = False, ap_request_id = None, ap_error = Some e, ap_message = Some m\<rparr>, d')) v st"

text \<open>The four floor keys are read from the summary by subscript.\<close>

definition tool_get_cubicle_summary ::
  "'v checker \<Rightarrow> string option \<Rightarrow> 'v \<Rightarrow> hr_store \<Rightarrow> (int \<times> int) list http \<times> 'v \<times> hr_store"
where
  "tool_get_cubicle_summary check h v st =
     with_guard check {''hr_read_rest''} h
       (\<lambda>claims d.
          let s = get_cubicle_summary d
          in (case those (map (map_of s) [''floor_1'', ''floor_2'', ''floor_3'', ''floor_4'']) of
                None \<Rightarrow> Fail 500 ''KeyError'' | Some counts \<Rightarrow> Ok200 counts, d)) v st"

definition tool_get_vacant_cubicles_on_floor ::
  "'v checker \<Rightarrow> string option \<Rightarrow> int \<Rightarrow> 'v \<Rightarrow> hr_store \<Rightarrow> (int \<times> string list) svc http \<times> 'v \<times> hr_store"
where
  "tool_get_vacant_cubicles_on_floor check h n v st =
     (if n < 1 \<or> 4 < n then (unprocessable, v, st)
      else with_guard check {''hr_read_rest''} h
        (\<lambda>claims d. (Ok200 (get_vacant_cubicles_on_floor n d), d)) v st)"

definition tool_get_my_cubicle ::
  "'v checker \<Rightarrow> string option \<Rightarrow> 'v \<Rightarrow> hr_store \<Rightarrow> (string \<times> int \<times> string option) option http \<times> 'v \<times> hr_store"
where
  "tool_get_my_cubicle check h v st =
     with_guard check {''hr_self_rest''} h
       (\<lambda>claims d. (Ok200 (get_my_cubicle (c_sub claims) (c_username claims) d), d)) v st"

definition tool_assign_cubicle ::
  "'v checker \<Rightarrow> string option \<Rightarrow> string \<Rightarrow> string \<Rightarrow> string \<Rightarrow> string \<Rightarrow> 'v \<Rightarrow> hr_store
     \<Rightarrow> assign_reply http \<times> 'v \<times> hr_store"
where
  "tool_assign_cubicle check h now_iso cubicle_id raw_username employee_email v st =
     (if cubicle_id = [] \<or> raw_username = [] then (unprocessable, v, st)
      else with_guard check {''hr_assets_write_rest''} h
        (\<lambda>claims d.
           let employee_username = (if CHR ''@'' \<in> set raw_username
                                    then hd (split_once (CHR ''@'') raw_username) else raw_username);
               resolved_sub = (case lookup_employee raw_username d of
                                 None \<Rightarrow> None | Some e \<Rightarrow> if er_sub e = [] then None else Some (er_sub e));
               (r, d') = assign_cubicle cubicle_id employee_username employee_email resolved_sub now_iso d
           in (Ok200 r, d')) v st)"

definition tool_lookup_employee ::
  "'v checker \<Rightarrow> string option \<Rightarrow> string \<Rightarrow> 'v \<Rightarrow> hr_store \<Rightarrow> employee_reply option http \<times> 'v \<times> hr_store"
where
  "tool_lookup_employee check h username_or_email v st =
     (if username_or_email = [] then (unprocessable, v, st)
      else with_guard check {''hr_read_rest''} h
        (\<lambda>claims d. (Ok200 (lookup_employee username_or_email d), d)) v st)"

definition tool_get_all_leave_requests ::
  "'v checker \<Rightarrow> string option \<Rightarrow> string option \<Rightarrow> string option \<Rightarrow> 'v \<Rightarrow> hr_store
     \<Rightarrow> request_row list http \<times> 'v \<times> hr_store"
where
  "tool_get_all_leave_requests check h status employee_name v st =
     with_guard check {''hr_approve_rest''} h
       (\<lambda>claims d. (Ok200 (get_all_leave_requests status employee_name d), d)) v st"

section \<open>The router\<close>

datatype hr_call =
    GetLeavePolicy
  | GetLeaveBalance
  | GetLeaveHistory int
  | ApproveLeave string
  | RejectLeave string string
  | ApplyLeave string string string string
  | GetCubicleSummary
  | GetVacantCubicles int
  | GetMyCubicle
  | AssignCubicle string string string
  | LookupEmployee string
  | GetAllLeaveRequests "string option" "string option"

datatype hr_answer =
    APolicy "policy_row list" | ABalance balance_reply | AHistory history_result
  | AReview review_result | AApply apply_result | ASummary "(int \<times> int) list"
  | AVacant "(int \<times> string list) svc" | AMyCubicle "(string \<times> int \<times> string option) option"
  | AAssign assign_reply | ALookup "employee_reply option" | ARequests "request_row list"

fun map_http :: "('a \<Rightarrow> 'b) \<Rightarrow> 'a http \<Rightarrow> 'b http" where
  "map_http f (Ok200 a) = Ok200 (f a)"
| "map_http f (Fail s i) = Fail s i"

definition answer_as :: "('a \<Rightarrow> hr_answer) \<Rightarrow> 'a http \<times> 'v \<times> hr_store \<Rightarrow> hr_answer http \<times> 'v \<times> hr_store" where
  "answer_as f = (\<lambda>(r, s). (map_http f r, s))"

text \<open>The scope each route requires.\<close>

fun required_scope :: "hr_call \<Rightarrow> string" where
  "required_scope GetLeavePolicy = ''hr_basic_rest''"
| "required_scope GetLeaveBalance = ''hr_self_rest''"
| "required_scope (GetLeaveHistory n) = ''hr_self_rest''"
| "required_scope (ApproveLeave i) = ''hr_approve_rest''"
| "required_scope (RejectLeave i w) = ''hr_approve_rest''"
| "required_scope (ApplyLeave t s e w) = ''hr_self_rest''"
| "required_scope GetCubicleSummary = ''hr_read_rest''"
| "required_scope (GetVacantCubicles n) = ''hr_read_rest''"
| "required_scope GetMyCubicle = ''hr_self_rest''"
| "required_scope (AssignCubicle c u e) = ''hr_assets_write_rest''"
| "required_scope (LookupEmployee u) = ''hr_read_rest''"
| "required_scope (GetAllLeaveRequests s n) = ''hr_approve_rest''"

fun hr_route ::
  "'v checker \<Rightarrow> string option \<Rightarrow> int \<Rightarrow> string \<Rightarrow> hr_call \<Rightarrow> 'v \<Rightarrow> hr_store \<Rightarrow> hr_answer http \<times> 'v \<times> hr_store"
where
  "hr_route check h today now_iso GetLeavePolicy v st = answer_as APolicy (tool_get_leave_policy check h v st)"
| "hr_route check h today now_iso GetLeaveBalance v st = answer_as ABalance (tool_get_leave_balance check h today v st)"
| "hr_route check h today now_iso (GetLeaveHistory n) v st = answer_as AHistory (tool_get_leave_history check h today n v st)"
| "hr_route check h today now_iso (ApproveLeave i) v st = answer_as AReview (tool_approve_leave check h i v st)"
| "hr_route check h today now_iso (RejectLeave i w) v st = answer_as AReview (tool_reject_leave check h i w v st)"
| "hr_route check h today now_iso (ApplyLeave t s e w) v st = answer_as AApply (tool_apply_leave check h today t s e w v st)"
| "hr_route check h today now_iso GetCubicleSummary v st = answer_as ASummary (tool_get_cubicle_summary check h v st)"
| "hr_route check h today now_iso (GetVacantCubicles n) v st = answer_as AVacant (tool_get_vacant_cubicles_on_floor check h n v st)"
| "hr_route check h today now_iso GetMyCubicle v st = answer_as AMyCubicle (tool_get_my_cubicle check h v st)"
| "hr_route check h today now_iso (AssignCubicle c u e) v st = answer_as AAssign (tool_assign_cubicle check h now_iso c u e v st)"
| "hr_route check h today now_iso (LookupEmployee u) v st = answer_as ALookup (tool_lookup_employee check h u v st)"
| "hr_route check h today now_iso (GetAllLeaveRequests s n) v st = answer_as ARequests (tool_get_all_leave_requests check h s n v st)"

section \<open>What the routes guarantee\<close>

text \<open>Every route is the refusal of a malformed body or the block around a body.\<close>

lemmas tool_defs =
  tool_get_leave_policy_def tool_get_leave_balance_def tool_get_leave_history_def tool_approve_leave_def
  tool_reject_leave_def tool_apply_leave_def tool_get_cubicle_summary_def tool_get_vacant_cubicles_on_floor_def
  tool_get_my_cubicle_def tool_assign_cubicle_def tool_lookup_employee_def tool_get_all_leave_requests_def

lemma is_ok_map_http [simp]: "is_ok (map_http f r) = is_ok r"
  by (cases r) simp_all

lemma not_ok_unprocessable [simp]: "\<not> is_ok unprocessable"
  by (simp add: unprocessable_def)

lemma answer_as_eq:
  "answer_as f x = (r, v', st') \<longleftrightarrow> (\<exists>r0. x = (r0, v', st') \<and> r = map_http f r0)"
  by (cases x) (auto simp: answer_as_def)

context token_guard
begin

lemma guarded_effect:
  assumes "with_guard check req h body v d = (r, v', d')" "is_ok r \<or> d' \<noteq> d"
  shows "\<exists>c. accepted_call check req h v c \<and> admitted (trusted v) (is_revoked v) req c"
  using with_guard_cases [OF assms(1)] assms(2) by auto

text \<open>An answer, or a change of the data, means the token was admitted for the route's scope.\<close>

lemma route_admitted:
  assumes "hr_route check h today now_iso call v st = (r, v', st')" and "is_ok r \<or> st' \<noteq> st"
  shows "\<exists>c. accepted_call check {required_scope call} h v c
    \<and> admitted (trusted v) (is_revoked v) {required_scope call} c"
  using assms
  by (cases call) (auto simp: answer_as_eq tool_defs split: if_splits dest!: guarded_effect)

lemma route_keeps_trust:
  assumes "with_guard check req h body v d = (r, v', d')"
  shows "trusted v' = trusted v \<and> is_revoked v' = is_revoked v"
  using assms guard_keeps [of req h v]
  by (cases "tool_guard check req h v"; cases "fst (tool_guard check req h v)")
     (auto simp: with_guard_def Let_def split: prod.splits)

end

text \<open>A route changes the store as some service operation does, or not at all.\<close>

lemma exec_images:
  "\<exists>opr. snd (get_my_leave_balance s f l today st) = hr_exec today opr st"
  "\<exists>opr. snd (get_my_leave_requests s f l today st) = hr_exec today opr st"
  "\<exists>opr. snd (apply_leave s f l t a b w today st) = hr_exec today opr st"
  "\<exists>opr. snd (approve_leave_request i s f st) = hr_exec today opr st"
  "\<exists>opr. snd (reject_leave_request i w s f st) = hr_exec today opr st"
  "\<exists>opr. snd (assign_cubicle i u e z n st) = hr_exec today opr st"
proof -
  show "\<exists>opr. snd (get_my_leave_balance s f l today st) = hr_exec today opr st"
    by (rule exI [of _ "OpBalance s f l"]) simp
  show "\<exists>opr. snd (get_my_leave_requests s f l today st) = hr_exec today opr st"
    by (rule exI [of _ "OpHistory s f l"]) simp
  show "\<exists>opr. snd (apply_leave s f l t a b w today st) = hr_exec today opr st"
    by (rule exI [of _ "OpApply s f l t a b w"]) simp
  show "\<exists>opr. snd (approve_leave_request i s f st) = hr_exec today opr st"
    by (rule exI [of _ "OpApprove i s f"]) simp
  show "\<exists>opr. snd (reject_leave_request i w s f st) = hr_exec today opr st"
    by (rule exI [of _ "OpReject i w s f"]) simp
  show "\<exists>opr. snd (assign_cubicle i u e z n st) = hr_exec today opr st"
    by (rule exI [of _ "OpAssign i u e z n"]) simp
qed

lemma route_is_exec:
  assumes "hr_route check h today now_iso call v st = (r, v', st')"
  shows "st' = st \<or> (\<exists>opr. st' = hr_exec today opr st)"
  using assms
  by (cases call)
     (auto simp: answer_as_eq tool_defs Let_def case_prod_beta exec_images split: if_splits
       dest!: with_guard_data)

end
