(* ===== verification/HrProps.thy ===== *)
theory HrProps
  imports Samples HrTools
begin

text \<open>
  The properties of the HR server: which calls reach the service, and what the leave
  ledger and the cubicles keep over any sequence of operations.
\<close>

section \<open>Decided requests\<close>

lemma decided_kept:
  assumes inv: "hr_inv st" and r: "map_of (hs_leave_requests st) i = Some r" "lr_status r \<noteq> ''Pending''"
    and opr: "opr \<noteq> OpReset"
  shows "map_of (hs_leave_requests (hr_exec today opr st)) i = Some r"
proof (cases opr)
  case (OpApply sub f l lt sd ed why)
  obtain x st' where a: "apply_leave sub f l lt sd ed why today st = (x, st')" by force
  obtain u st1 where e: "ensure_user sub f l None None today st = (u, st1)" by force
  have i1: "hr_inv st1" using hr_inv_ensure [OF inv e] by simp
  have same: "hs_leave_requests st1 = hs_leave_requests st" by (rule ensure_user_frame(2) [OF e])
  have "map_of (hs_leave_requests st) (fst (next_request_id st1)) = None"
    using next_id_fresh [OF i1 prod.collapse [symmetric]] same by simp
  then show ?thesis using apply_leave_cases [OF a e] r a same
    by (auto simp: OpApply dict_simps)
next
  case (OpApprove j s n)
  then show ?thesis using r
    by (auto simp: approve_leave_request_def deduct_balance_def find_pending_def dict_simps
        split: sum.splits option.splits svc.splits if_splits prod.splits)
next
  case (OpReject j w s n)
  then show ?thesis using r
    by (auto simp: reject_leave_request_def find_pending_def dict_simps
        split: sum.splits option.splits svc.splits if_splits prod.splits)
next
  case (OpEnsureUser s f l u e)
  then show ?thesis using r ensure_user_frame(2) [OF prod.collapse [symmetric], of s f l u e today st] by simp
next
  case (OpBalance s f l)
  then show ?thesis using r ensure_user_frame(2) [OF prod.collapse [symmetric], of s f l None None today st]
    by (simp add: get_my_leave_balance_def case_prod_beta)
next
  case (OpHistory s f l)
  then show ?thesis using r ensure_user_frame(2) [OF prod.collapse [symmetric], of s f l None None today st]
    by (simp add: get_my_leave_requests_def case_prod_beta)
next
  case (OpAssign c u e s t)
  then show ?thesis using r by (simp add: assign_cubicle_def Let_def split: option.split)
qed (use opr in simp)

lemma decided_kept_run:
  "hr_inv st \<Longrightarrow> map_of (hs_leave_requests st) i = Some r \<Longrightarrow> lr_status r \<noteq> ''Pending'' \<Longrightarrow>
     OpReset \<notin> snd ` set ops \<Longrightarrow> map_of (hs_leave_requests (hr_run ops st)) i = Some r"
  unfolding hr_run_def
  by (induction ops arbitrary: st) (auto simp: decided_kept hr_inv_exec image_iff)

lemma occupied_kept_run:
  "cubicle_inv st \<Longrightarrow> r \<in> set (hs_cubicles st) \<Longrightarrow> cu_occupied r \<Longrightarrow> OpReset \<notin> snd ` set ops \<Longrightarrow>
     r \<in> set (hs_cubicles (hr_run ops st))"
  unfolding hr_run_def
proof (induction ops arbitrary: st)
  case Nil
  then show ?case by simp
next
  case (Cons p ops)
  obtain today opr where p: "p = (today, opr)" by (cases p)
  have "r \<in> set (hs_cubicles (hr_exec today opr st))"
  proof (cases opr)
    case (OpAssign c u e s t)
    then show ?thesis using assign_cubicle_occupied_kept [OF cubicle_inv_distinct] Cons.prems by simp
  qed (use Cons.prems p in \<open>simp_all add: apply_leave_cubicles review_cubicles ensure_cubicles\<close>)
  then show ?case using Cons p by (simp add: cubicle_inv_exec)
qed

section \<open>Properties\<close>

text \<open>
  C3. HR: an answer, or any change of the store, comes only from a call whose bearer token
  the validator accepted for the scope of that very route; the claims of that token have a
  single trusted actor, carry the scope and are not on the denylist.
\<close>

theorem hr_route_authorised:
  assumes "hr_route (\<lambda>tok req. hr_validate_token J net mt now tok req) h today now_iso call v st = (r, v', st')"
    and "is_ok r \<or> st' \<noteq> st"
  shows "\<exists>tok c v1 a. extract_bearer h = Some tok
    \<and> hr_validate_token J net mt now tok (Some {required_scope call}) v = (Inr c, v1)
    \<and> act_chain c = [a] \<and> a \<in> mc_trusted_act_subs (mv_config v)
    \<and> (\<exists>ws. claim_scopes c = Inr ws \<and> required_scope call \<in> set ws)
    \<and> \<not> jti_revoked (mv_revocation v) (c_jti c)"
  using hr_guard.route_admitted [OF assms]
  by (fastforce simp: accepted_call_def admitted_def mv_trusted_def mv_revoked_def)

lemma seed_cubicles_vacant: "find (holds_cubicle a b) seed_cubicles = None"
  by (simp add: find_None_iff seed_cubicles_def holds_cubicle_def vacant_cubicle_def)

lemma sample_my_cubicle:
  "hr_route sample_hr_check (Some ''Bearer alice'') 738885 ''now'' GetMyCubicle (sample_validator []) reset_data
     = (Ok200 (AMyCubicle None), sample_validator', reset_data)"
  by (simp add: tool_get_my_cubicle_def with_guard_def tool_guard_def sample_bearer sample_alice answer_as_def
      get_my_cubicle_def my_cubicle_needles_def sample_claims_def reset_data_def seed_cubicles_vacant)

lemma hr_route_authorised_witness:
  "\<exists>tok c v1 a. extract_bearer (Some ''Bearer alice'') = Some tok
    \<and> hr_validate_token sample_jwt sample_net 4000 1500 tok (Some {required_scope GetMyCubicle}) (sample_validator []) = (Inr c, v1)
    \<and> act_chain c = [a] \<and> a \<in> mc_trusted_act_subs (mv_config (sample_validator []))
    \<and> (\<exists>ws. claim_scopes c = Inr ws \<and> required_scope GetMyCubicle \<in> set ws)
    \<and> \<not> jti_revoked (mv_revocation (sample_validator [])) (c_jti c)"
  by (rule hr_route_authorised [OF sample_my_cubicle [unfolded sample_hr_check_def]]) simp

text \<open>
  HR: over any sequence of service operations from the seed, every balance entry is
  non-negative, and together with the days of the approved requests of its owner and type
  it makes up exactly the yearly allowance.
\<close>

theorem leave_days_conserved:
  assumes "map_of (hs_leave_balances (hr_run ops reset_data)) sub = Some b"
    and "map_of default_leave_balance k = Some allowance"
  shows "\<exists>n. map_of b k = Some n \<and> 0 \<le> n
    \<and> n + approved_days sub k (hs_leave_requests (hr_run ops reset_data)) = allowance"
  using hr_invD(2) [OF hr_inv_run [OF hr_inv_reset] assms(1)] assms(2) by (blast elim: balance_ok_get)

definition sample_ops :: "(int \<times> hr_op) list" where
  "sample_ops =
     [(738885, OpApply ''u1'' ''Ann'' ''Lee'' ''Sick Leave'' ''2024-01-01'' ''2024-01-02'' ''flu''),
      (738885, OpApprove ''LR001'' ''m1'' ''Max'')]"

lemma sample_dates:
  "fromisoformat ''2024-01-01'' = Some 738886" "fromisoformat ''2024-01-02'' = Some 738887"
  by (simp_all add: fromisoformat_def utf8_length_def take_digits_def is_digit_def nat_of_digits_def
      digit_val_def eat_dash_def calendar_date_def days_in_month_def ymd_to_ord_def upt_conv_Cons Let_def)

lemma pad3_one: "pad3 (Suc 0) = ''001''"
  by (simp add: pad3_def show_nat.simps digit_char_def char_of_eq_iff numeral_2_eq_2)

lemma sample_run:
  "map_of (hs_leave_balances (hr_run sample_ops reset_data)) ''u1''
     = Some [(''annual'', 20), (''sick'', 8), (''personal'', 5)]"
  "approved_days ''u1'' ''sick'' (hs_leave_requests (hr_run sample_ops reset_data)) = 2"
  by (simp_all add: sample_ops_def hr_run_def apply_leave_def ensure_user_def reset_data_def Let_def
      sample_dates seed_leave_policy_def default_balance_def default_leave_balance_def balance_get_def
      next_request_id_def pad3_one pending_request_def
      approve_leave_request_def find_pending_def deduct_balance_def approved_days_def approved_part_def)

lemma leave_days_conserved_witness:
  "\<exists>n. map_of [(''annual'', 20), (''sick'', 8), (''personal'', 5)] ''sick'' = Some n \<and> 0 \<le> n
    \<and> n + approved_days ''u1'' ''sick'' (hs_leave_requests (hr_run sample_ops reset_data)) = (10 :: int)
    \<and> approved_days ''u1'' ''sick'' (hs_leave_requests (hr_run sample_ops reset_data)) = 2"
  using leave_days_conserved [OF sample_run(1), of "''sick''" 10] sample_run(2)
  by (simp add: default_leave_balance_def)

text \<open>
  HR: a submission is accepted exactly when the leave type is in the policy, both dates
  parse, the end is not before the start, the notice is long enough and the balance of the
  caller covers the days; the reply then names the request it stored.
\<close>

theorem apply_leave_accepted_iff:
  "(\<exists>i. fst (apply_leave sub f l lt sd ed why today st) = Inr (SvcOk i)) \<longleftrightarrow>
    (\<exists>rule s e b k. map_of (hs_leave_policy st) lt = Some rule
       \<and> fromisoformat sd = Some s \<and> fromisoformat ed = Some e \<and> s \<le> e
       \<and> today + lp_min_notice_days rule \<le> s
       \<and> map_of (hs_leave_balances (snd (ensure_user sub f l None None today st))) sub = Some b
       \<and> balance_key lt = Some k
       \<and> e - s + 1 \<le> balance_get b k)"
proof -
  obtain u st1 where e: "ensure_user sub f l None None today st = (u, st1)" by force
  have pol: "hs_leave_policy st1 = hs_leave_policy st" by (rule ensure_user_frame(1) [OF e])
  show ?thesis
    by (auto simp: apply_leave_def e pol Let_def next_request_id_def split: option.splits)
qed

text \<open>
  HR: an accepted submission adds one pending request under an id no request had, for
  the caller, with the inclusive number of days; every other request and every balance of
  a known user stays.
\<close>

theorem apply_leave_adds_one:
  assumes "hr_inv st" and "apply_leave sub f l lt sd ed why today st = (Inr (SvcOk i), st')"
  shows "\<exists>s e r. fromisoformat sd = Some s \<and> fromisoformat ed = Some e
      \<and> map_of (hs_leave_requests st) i = None
      \<and> map_of (hs_leave_requests st') = (map_of (hs_leave_requests st))(i \<mapsto> r)
      \<and> lr_user_sub r = sub \<and> lr_status r = ''Pending'' \<and> lr_days_requested r = e - s + 1 \<and> 1 \<le> e - s + 1
      \<and> (\<forall>o'. map_of (hs_leave_balances st) o' \<noteq> None \<longrightarrow>
            map_of (hs_leave_balances st') o' = map_of (hs_leave_balances st) o')"
proof -
  obtain u st1 where e: "ensure_user sub f l None None today st = (u, st1)" by force
  note fr = ensure_user_frame [OF e]
  have i1: "hr_inv st1" using hr_inv_ensure [OF assms(1) e] by simp
  from apply_leave_cases [OF assms(2) e] obtain s e' where d: "fromisoformat sd = Some s" "fromisoformat ed = Some e'" "s \<le> e'"
    and i: "i = fst (next_request_id st1)"
    and st': "st' = (snd (next_request_id st1))\<lparr>hs_leave_requests := AList.update i
           (pending_request sub (hu_name u) lt sd ed (e' - s + 1) why) (hs_leave_requests st1)\<rparr>"
    by auto
  have fresh: "map_of (hs_leave_requests st1) i = None"
    using next_id_fresh [OF i1 prod.collapse [symmetric]] i by simp
  have known: "map_of (hs_leave_balances st') o' = map_of (hs_leave_balances st) o'"
    if "map_of (hs_leave_balances st) o' \<noteq> None" for o'
    using that hr_invD(3) [OF assms(1), of sub] by (auto simp: st' fr(6) next_request_id_def Let_def dict_simps)
  have reqs: "map_of (hs_leave_requests st') = (map_of (hs_leave_requests st))
      (i \<mapsto> pending_request sub (hu_name u) lt sd ed (e' - s + 1) why)"
    by (simp add: st' fr(2) dict_simps)
  show ?thesis
    using d fresh known reqs
    by (intro exI [of _ s] exI [of _ e'] exI [of _ "pending_request sub (hu_name u) lt sd ed (e' - s + 1) why"])
       (simp add: fr(2) pending_request_def)
qed

lemma apply_leave_adds_one_witness:
  "\<exists>s e r. fromisoformat ''2024-01-01'' = Some s \<and> fromisoformat ''2024-01-02'' = Some e
      \<and> map_of (hs_leave_requests reset_data) ''LR001'' = None
      \<and> map_of (hs_leave_requests (hr_run (take 1 sample_ops) reset_data)) = (map_of (hs_leave_requests reset_data))(''LR001'' \<mapsto> r)
      \<and> lr_user_sub r = ''u1'' \<and> lr_status r = ''Pending'' \<and> lr_days_requested r = e - s + 1 \<and> 1 \<le> e - s + 1
      \<and> (\<forall>o'. map_of (hs_leave_balances reset_data) o' \<noteq> None \<longrightarrow>
            map_of (hs_leave_balances (hr_run (take 1 sample_ops) reset_data)) o' = map_of (hs_leave_balances reset_data) o')"
proof -
  have a: "apply_leave ''u1'' ''Ann'' ''Lee'' ''Sick Leave'' ''2024-01-01'' ''2024-01-02'' ''flu'' 738885 reset_data
      = (Inr (SvcOk ''LR001''), hr_run (take 1 sample_ops) reset_data)"
    by (simp add: sample_ops_def hr_run_def apply_leave_def ensure_user_def reset_data_def Let_def
      sample_dates seed_leave_policy_def default_balance_def default_leave_balance_def balance_get_def
      next_request_id_def pad3_one)
  show ?thesis by (rule apply_leave_adds_one [OF hr_inv_reset a])
qed

text \<open>
  HR: a review is decided once.  Whatever operations follow short of a reset, a request
  that is approved or rejected keeps its decision, its reviewer and its days.
\<close>

theorem decided_requests_final:
  assumes "map_of (hs_leave_requests (hr_run ops reset_data)) i = Some r" "lr_status r \<noteq> ''Pending''"
    and "OpReset \<notin> snd ` set later"
  shows "map_of (hs_leave_requests (hr_run later (hr_run ops reset_data))) i = Some r"
  by (rule decided_kept_run [OF hr_inv_run [OF hr_inv_reset] assms])

definition sample_decided :: leave_request where
  "sample_decided = \<lparr>lr_user_sub = ''u1'', lr_user_name = ''Ann Lee'', lr_leave_type = ''Sick Leave'',
     lr_start_date = ''2024-01-01'', lr_end_date = ''2024-01-02'', lr_days_requested = 2, lr_status = ''Approved'',
     lr_reason = ''flu'', lr_reviewed_by_sub = Some ''m1'', lr_reviewed_by_name = Some ''Max'', lr_rejection_reason = None\<rparr>"

lemma decided_requests_final_witness:
  "map_of (hs_leave_requests (hr_run [(1, OpReject ''LR001'' ''late'' ''m2'' ''Eve'')] (hr_run sample_ops reset_data))) ''LR001''
     = Some sample_decided"
proof -
  have "py_strip ''Ann Lee'' = ''Ann Lee''"
    by (simp add: py_strip_def py_rstrip_def py_lstrip_def py_ws_def)
  then have "map_of (hs_leave_requests (hr_run sample_ops reset_data)) ''LR001'' = Some sample_decided"
    by (simp add: sample_ops_def hr_run_def apply_leave_def ensure_user_def reset_data_def Let_def
      sample_dates seed_leave_policy_def default_balance_def default_leave_balance_def balance_get_def
      next_request_id_def pad3_one pending_request_def new_user_def sample_decided_def
      approve_leave_request_def find_pending_def deduct_balance_def)
  then show ?thesis by (rule decided_requests_final) (simp_all add: sample_decided_def)
qed

text \<open>
  HR: a cubicle that was assigned is never taken away or given to someone else by any
  sequence of operations short of a reset, and the 100 cubicles keep their ids and floors.
\<close>

theorem assigned_cubicle_kept:
  assumes "OpReset \<notin> snd ` set later"
  shows "{r \<in> set (hs_cubicles (hr_run ops reset_data)). cu_occupied r}
       \<subseteq> set (hs_cubicles (hr_run later (hr_run ops reset_data)))
    \<and> map (\<lambda>r. (cu_cubicle_id r, cu_floor r)) (hs_cubicles (hr_run later (hr_run ops reset_data)))
      = map (\<lambda>r. (cu_cubicle_id r, cu_floor r)) seed_cubicles"
proof -
  have inv: "cubicle_inv (hr_run ops reset_data)" by (rule cubicle_inv_run [OF reset_cubicle_inv])
  from cubicle_inv_run [OF inv, of later] occupied_kept_run [OF inv] assms show ?thesis
    by (auto simp: cubicle_inv_def)
qed

lemma assigned_cubicle_kept_witness:
  "{r \<in> set (hs_cubicles (hr_run [(1, OpAssign ''C-001'' ''ann'' '''' None ''t0'')] reset_data)). cu_occupied r}
     \<subseteq> set (hs_cubicles (hr_run [(1, OpAssign ''C-001'' ''bob'' '''' None ''t1'')]
              (hr_run [(1, OpAssign ''C-001'' ''ann'' '''' None ''t0'')] reset_data)))"
  using assigned_cubicle_kept [of "[(1, OpAssign ''C-001'' ''bob'' '''' None ''t1'')]"
      "[(1, OpAssign ''C-001'' ''ann'' '''' None ''t0'')]"] by simp

lemma floor_total: "n \<in> {1, 2, 3, 4} \<Longrightarrow> length (filter (\<lambda>r. cu_floor r = n) seed_cubicles) = 25"
  by (auto simp: seed_cubicles_def vacant_cubicle_def upt_rec)

lemma map_key_filter: "map f xs = map f ys \<Longrightarrow> (\<And>x. P x = Q (f x)) \<Longrightarrow> length (filter P xs) = length (filter P ys)"
proof -
  assume m: "map f xs = map f ys" and P: "\<And>x. P x = Q (f x)"
  have "P = (\<lambda>x. Q (f x))" using P by blast
  then have e: "length (filter P zs) = length (filter Q (map f zs))" for zs by (simp add: filter_map comp_def)
  show ?thesis unfolding e m by (rule refl)
qed

text \<open>
  HR: after any sequence of operations the vacancy figure of the summary for a floor is
  the number of cubicles the floor query lists, out of 25.
\<close>

theorem vacancies_agree:
  assumes "n \<in> {1, 2, 3, 4}"
  shows "\<exists>ids. get_vacant_cubicles_on_floor n (hr_run ops reset_data) = SvcOk (n, ids)
    \<and> sorted ids
    \<and> map_of (get_cubicle_summary (hr_run ops reset_data)) (floor_key n) = Some (25, int (length ids))"
proof -
  let ?st = "hr_run ops reset_data"
  have inv: "cubicle_inv ?st" by (rule cubicle_inv_run [OF reset_cubicle_inv])
  then have m: "map (\<lambda>r. (cu_cubicle_id r, cu_floor r)) (hs_cubicles ?st)
      = map (\<lambda>r. (cu_cubicle_id r, cu_floor r)) seed_cubicles" unfolding cubicle_inv_def by blast
  have "\<forall>p \<in> set (map (\<lambda>r. (cu_cubicle_id r, cu_floor r)) seed_cubicles). 0 \<le> snd p"
    by (auto simp: seed_cubicles_def vacant_cubicle_def)
  then have "\<forall>p \<in> set (map (\<lambda>r. (cu_cubicle_id r, cu_floor r)) (hs_cubicles ?st)). 0 \<le> snd p"
    unfolding m .
  then have "\<forall>r \<in> set (hs_cubicles ?st). 0 \<le> cu_floor r" by simp
  moreover have "length (filter (\<lambda>r. cu_floor r = n) (hs_cubicles ?st)) = 25"
    using map_key_filter [OF m, of "\<lambda>r. cu_floor r = n" "\<lambda>p. snd p = n"] floor_total [OF assms] by simp
  ultimately have "map_of (get_cubicle_summary ?st) (floor_key n) =
      Some (25, int (length (filter (\<lambda>r. cu_floor r = n \<and> \<not> cu_occupied r) (hs_cubicles ?st))))"
    using summary_counts [of n ?st] assms by fastforce
  moreover have "\<not> (n < 1 \<or> 4 < n)" using assms by auto
  ultimately show ?thesis
    by (intro exI [of _ "sort (map cu_cubicle_id (filter (\<lambda>r. cu_floor r = n \<and> \<not> cu_occupied r) (hs_cubicles ?st)))"])
       (simp add: get_vacant_cubicles_on_floor_def)
qed

lemma vacancies_agree_witness:
  "\<exists>ids. get_vacant_cubicles_on_floor 2 (hr_run [] reset_data) = SvcOk (2, ids) \<and> sorted ids
     \<and> map_of (get_cubicle_summary (hr_run [] reset_data)) (floor_key 2) = Some (25, int (length ids))"
  by (rule vacancies_agree) simp

text \<open>
  HR: the self-service history shows the caller only requests filed under the subject of
  its own accepted token, at most as many as it asked for.
\<close>

theorem history_is_own:
  assumes "tool_get_leave_history (\<lambda>tok req. hr_validate_token J net mt now tok req) h today limit v st = (Ok200 hh, v', st')"
  shows "\<exists>tok c v1. extract_bearer h = Some tok
    \<and> hr_validate_token J net mt now tok (Some {''hr_self_rest''}) v = (Inr c, v1)
    \<and> hh_employee_id hh = c_sub c \<and> int (length (hh_entries hh)) \<le> limit
    \<and> (\<forall>e \<in> set (hh_entries hh). \<exists>r. (hr_request_id e, r) \<in> set (hs_leave_requests st')
          \<and> lr_user_sub r = c_sub c \<and> e = history_row_of (hr_request_id e, r))"
proof -
  let ?chk = "\<lambda>tok req. hr_validate_token J net mt now tok req"
  let ?body = "\<lambda>claims d. let (rows, d') = get_my_leave_requests (c_sub claims) (username_for claims) [] today d
                     in (Ok200 \<lparr>hh_employee_id = c_sub claims, hh_entries = take (nat limit) rows\<rparr>, d')"
  from assms have lim: "1 \<le> limit" and g: "with_guard ?chk {''hr_self_rest''} h ?body v st = (Ok200 hh, v', st')"
    by (auto simp: tool_get_leave_history_def unprocessable_def split: if_splits)
  from hr_guard.with_guard_ok [OF g] obtain c where c: "accepted_call ?chk {''hr_self_rest''} h v c"
    and b: "?body c st = (Ok200 hh, st')" by blast
  from b obtain rows where rows: "get_my_leave_requests (c_sub c) (username_for c) [] today st = (rows, st')"
    and hh: "hh = \<lparr>hh_employee_id = c_sub c, hh_entries = take (nat limit) rows\<rparr>"
    by (auto simp: Let_def split: prod.splits)
  from rows have r: "rows = map history_row_of (filter (\<lambda>(i, r). lr_user_sub r = c_sub c) (hs_leave_requests st'))"
    by (auto simp: get_my_leave_requests_def Let_def split: prod.splits)
  show ?thesis
    using c lim unfolding accepted_call_def
    by (fastforce simp: hh r history_row_of_def dest!: in_set_takeD)
qed

lemma history_is_own_witness:
  "\<exists>hh st'. tool_get_leave_history sample_hr_check (Some ''Bearer alice'') 738885 5 (sample_validator [])
      (hr_run [(738885, OpApply ''alice'' ''A'' '''' ''Sick Leave'' ''2024-01-01'' ''2024-01-02'' ''flu'')] reset_data)
      = (Ok200 hh, sample_validator', st')
    \<and> hh_employee_id hh = ''alice''
    \<and> (\<exists>tok c v1. extract_bearer (Some ''Bearer alice'') = Some tok
        \<and> hr_validate_token sample_jwt sample_net 4000 1500 tok (Some {''hr_self_rest''}) (sample_validator []) = (Inr c, v1)
        \<and> hh_employee_id hh = c_sub c \<and> int (length (hh_entries hh)) \<le> 5)"
proof -
  let ?st = "hr_run [(738885, OpApply ''alice'' ''A'' '''' ''Sick Leave'' ''2024-01-01'' ''2024-01-02'' ''flu'')] reset_data"
  obtain hh st' where h: "tool_get_leave_history sample_hr_check (Some ''Bearer alice'') 738885 5 (sample_validator []) ?st
      = (Ok200 hh, sample_validator', st')" and "hh_employee_id hh = ''alice''"
    by (simp add: tool_get_leave_history_def with_guard_def tool_guard_def sample_bearer sample_alice case_prod_beta)
       (simp add: sample_claims_def)
  with history_is_own [OF h [unfolded sample_hr_check_def]] show ?thesis by blast
qed

end
