(* ===== verification/LeaveBook.thy ===== *)
theory LeaveBook
  imports HrProps
begin

text \<open>
  What the leave service promises, without its balance tables: a book of claims that are
  filed, granted within the yearly allowance, or refused.  Every operation of the HR service
  is a step of the book or changes nothing in it, and what an employee may still take is
  what the book leaves of the allowance.
\<close>

section \<open>The book\<close>

datatype phase = Waiting | Granted | Refused

record claim =
  cm_owner :: string
  cm_key :: string
  cm_days :: int
  cm_phase :: phase

type_synonym leave_book = "string \<Rightarrow> claim option"

text \<open>The days granted to an owner from one allowance.\<close>

definition granted_days :: "leave_book \<Rightarrow> string \<Rightarrow> string \<Rightarrow> int" where
  "granted_days b s k = (\<Sum>i \<in> dom b. let c = the (b i)
     in if cm_owner c = s \<and> cm_key c = k \<and> cm_phase c = Granted then cm_days c else 0)"

definition allowance :: "string \<Rightarrow> int" where
  "allowance k = (case map_of default_leave_balance k of None \<Rightarrow> 0 | Some d \<Rightarrow> d)"

inductive book_step :: "leave_book \<Rightarrow> leave_book \<Rightarrow> bool" where
  filed: "b i = None \<Longrightarrow> cm_phase c = Waiting \<Longrightarrow> 1 \<le> cm_days c \<Longrightarrow>
     granted_days b (cm_owner c) (cm_key c) + cm_days c \<le> allowance (cm_key c) \<Longrightarrow> book_step b (b(i \<mapsto> c))"
| granted: "b i = Some c \<Longrightarrow> cm_phase c = Waiting \<Longrightarrow>
     granted_days b (cm_owner c) (cm_key c) + cm_days c \<le> allowance (cm_key c) \<Longrightarrow>
     book_step b (b(i \<mapsto> c\<lparr>cm_phase := Granted\<rparr>))"
| refused: "b i = Some c \<Longrightarrow> cm_phase c = Waiting \<Longrightarrow> book_step b (b(i \<mapsto> c\<lparr>cm_phase := Refused\<rparr>))"
| cleared: "book_step b Map.empty"
| unchanged: "book_step b b"

section \<open>The book of a store\<close>

definition phase_of :: "string \<Rightarrow> phase" where
  "phase_of status = (if status = ''Pending'' then Waiting else if status = ''Approved'' then Granted else Refused)"

definition claim_of :: "leave_request \<Rightarrow> claim" where
  "claim_of r = \<lparr>cm_owner = lr_user_sub r, cm_key = or_empty (balance_key (lr_leave_type r)),
     cm_days = lr_days_requested r, cm_phase = phase_of (lr_status r)\<rparr>"

definition book_of :: "hr_store \<Rightarrow> leave_book" where
  "book_of st i = map_option claim_of (map_of (hs_leave_requests st) i)"

lemma sum_list_map_of:
  fixes f :: "'v \<Rightarrow> int"
  assumes "distinct (map fst d)"
  shows "sum_list (map (\<lambda>(i, r). f r) d) = (\<Sum>i \<in> dom (map_of d). f (the (map_of d i)))"
proof -
  have "sum_list (map (\<lambda>(i, r). f r) d) = (\<Sum>p \<in> set d. f (snd p))"
    using assms by (simp add: sum_list_distinct_conv_sum_set distinct_map case_prod_beta)
  also have "\<dots> = (\<Sum>i \<in> fst ` set d. f (the (map_of d i)))"
    using assms by (subst sum.reindex) (auto simp: distinct_map intro!: sum.cong)
  finally show ?thesis by (simp add: dom_map_of_conv_image_fst)
qed

lemma granted_days_book:
  assumes inv: "hr_inv st"
  shows "granted_days (book_of st) s k = approved_days s k (hs_leave_requests st)"
proof -
  let ?m = "map_of (hs_leave_requests st)"
  have d: "distinct (map fst (hs_leave_requests st))" using inv by (simp add: hr_inv_def)
  have dom: "dom (book_of st) = dom ?m" by (auto simp: book_of_def)
  have key: "(or_empty (balance_key (lr_leave_type r)) = k) = (balance_key (lr_leave_type r) = Some k)"
    if "?m i = Some r" for i r
  proof -
    have "lr_leave_type r \<in> fst ` set seed_leave_policy" using hr_invD(1) [OF inv that] by (simp add: request_ok_def)
    then obtain k' where "balance_key (lr_leave_type r) = Some k'" using policy_key by blast
    then show ?thesis by simp
  qed
  have st: "lr_status r = ''Approved'' \<longleftrightarrow> phase_of (lr_status r) = Granted" for r by (simp add: phase_of_def)
  have "approved_days s k (hs_leave_requests st) = (\<Sum>i \<in> dom ?m. approved_part s k (the (?m i)))"
    unfolding approved_days_def by (rule sum_list_map_of [OF d])
  also have "\<dots> = granted_days (book_of st) s k"
    unfolding granted_days_def dom
  proof (rule sum.cong [OF refl])
    fix i assume "i \<in> dom ?m"
    then obtain r where r: "?m i = Some r" by auto
    show "approved_part s k (the (?m i)) = (let c = the (book_of st i)
      in if cm_owner c = s \<and> cm_key c = k \<and> cm_phase c = Granted then cm_days c else 0)"
      using key [OF r] by (simp add: approved_part_def book_of_def r claim_of_def st Let_def)
  qed
  finally show ?thesis by simp
qed

text \<open>What the balance table says is what the book leaves.\<close>

lemma balance_is_left:
  assumes inv: "hr_inv st" and "map_of (hs_leave_balances st) s = Some b" and "map_of default_leave_balance k = Some d"
  shows "balance_get b k = allowance k - granted_days (book_of st) s k"
proof -
  from balance_ok_get [OF hr_invD(2) [OF inv assms(2)] assms(3)] obtain n where
    "map_of b k = Some n" "n + approved_days s k (hs_leave_requests st) = d" by auto
  with assms(3) show ?thesis by (simp add: balance_get_def allowance_def granted_days_book [OF inv])
qed

section \<open>Each operation\<close>

lemma book_same: "hs_leave_requests st' = hs_leave_requests st \<Longrightarrow> book_step (book_of st) (book_of st')"
  using book_step.unchanged [of "book_of st"] by (simp add: book_of_def [abs_def])

lemma book_update:
  "hs_leave_requests st' = AList.update i r (hs_leave_requests st) \<Longrightarrow> book_of st' = (book_of st)(i \<mapsto> claim_of r)"
  by (rule ext) (simp add: book_of_def dict_simps)

lemma apply_refines:
  assumes inv: "hr_inv st"
  shows "book_step (book_of st) (book_of (snd (apply_leave sub f l lt sd ed why today st)))"
proof -
  obtain x st' where a: "apply_leave sub f l lt sd ed why today st = (x, st')" by force
  obtain u st1 where e: "ensure_user sub f l None None today st = (u, st1)" by force
  have i1: "hr_inv st1" using hr_inv_ensure [OF inv e] by simp
  have same: "hs_leave_requests st1 = hs_leave_requests st" by (rule ensure_user_frame(2) [OF e])
  then have b1: "book_of st1 = book_of st" by (simp add: book_of_def [abs_def])
  from apply_leave_cases [OF a e] show ?thesis
  proof (elim disjE exE conjE)
    assume "st' = st1"
    then show ?thesis using book_same [OF same] by (simp add: a)
  next
    fix i rule s t b k
    assume h: "map_of (hs_leave_policy st1) lt = Some rule" "s \<le> t" "map_of (hs_leave_balances st1) sub = Some b"
      "balance_key lt = Some k" "t - s + 1 \<le> balance_get b k" "i = fst (next_request_id st1)"
      "st' = (snd (next_request_id st1))\<lparr>hs_leave_requests := AList.update i
           (pending_request sub (hu_name u) lt sd ed (t - s + 1) why) (hs_leave_requests st1)\<rparr>"
    let ?r = "pending_request sub (hu_name u) lt sd ed (t - s + 1) why"
    have "map_of (hs_leave_requests st) i = None"
      using next_id_fresh [OF i1 prod.collapse [symmetric]] h(6) same by simp
    then have fresh: "book_of st i = None" by (simp add: book_of_def)
    have c: "cm_owner (claim_of ?r) = sub" "cm_key (claim_of ?r) = k" "cm_days (claim_of ?r) = t - s + 1"
      "cm_phase (claim_of ?r) = Waiting"
      using h(4) by (simp_all add: claim_of_def pending_request_def phase_of_def)
    have "lt \<in> fst ` set seed_leave_policy"
      using h(1) hr_invD(4) [OF i1] map_of_SomeD by (metis fst_conv image_eqI)
    then obtain d where "map_of default_leave_balance k = Some d" using policy_key h(4) by force
    from balance_is_left [OF i1 h(3) this] h(5) have
      "granted_days (book_of st) (cm_owner (claim_of ?r)) (cm_key (claim_of ?r)) + cm_days (claim_of ?r)
         \<le> allowance (cm_key (claim_of ?r))" by (simp add: c b1)
    moreover have "book_of st' = (book_of st)(i \<mapsto> claim_of ?r)"
      using book_update [of st' i ?r st1] h(7) by (simp add: b1)
    ultimately show ?thesis using book_step.filed [of "book_of st" i "claim_of ?r"] fresh c h(2) by (simp add: a)
  qed
qed

lemma approve_refines:
  assumes inv: "hr_inv st"
  shows "book_step (book_of st) (book_of (snd (approve_leave_request i rsub rname st)))"
proof (cases "find_pending i st")
  case (Inl e)
  then show ?thesis using book_same [of st st] by (cases e) (simp add: approve_leave_request_def)
next
  case (Inr r)
  then have r: "map_of (hs_leave_requests st) i = Some r" "lr_status r = ''Pending''" by (simp_all add: find_pending_ok)
  have rok: "request_ok st i r" by (rule hr_invD(1) [OF inv r(1)])
  let ?r = "r\<lparr>lr_status := ''Approved'', lr_reviewed_by_sub := Some rsub, lr_reviewed_by_name := Some rname\<rparr>"
  obtain b where b: "map_of (hs_leave_balances st) (lr_user_sub r) = Some b"
    using hr_invD(3) [OF inv, of "lr_user_sub r"] rok unfolding request_ok_def by fastforce
  obtain k d where k: "balance_key (lr_leave_type r) = Some k" "map_of default_leave_balance k = Some d"
    using policy_key rok unfolding request_ok_def by blast
  obtain n where n: "map_of b k = Some n" using balance_ok_get [OF hr_invD(2) [OF inv b] k(2)] by blast
  have bk: "book_of st i = Some (claim_of r)" by (simp add: book_of_def r)
  show ?thesis
  proof (cases "n < lr_days_requested r")
    case True
    then have "snd (approve_leave_request i rsub rname st) = st"
      using Inr b k n by (auto simp: approve_leave_request_def deduct_balance_def split: if_splits)
    then show ?thesis using book_same [of st st] by simp
  next
    case False
    have "b \<noteq> []" using n by auto
    then have "hs_leave_requests (snd (approve_leave_request i rsub rname st)) = AList.update i ?r (hs_leave_requests st)"
      using Inr b k n False by (simp add: approve_leave_request_def deduct_balance_def)
    from book_update [OF this] have u: "book_of (snd (approve_leave_request i rsub rname st)) = (book_of st)(i \<mapsto> claim_of ?r)" .
    have c: "claim_of ?r = (claim_of r)\<lparr>cm_phase := Granted\<rparr>" by (simp add: claim_of_def phase_of_def)
    have "n = allowance k - granted_days (book_of st) (lr_user_sub r) k"
      using balance_is_left [OF inv b k(2)] n by (simp add: balance_get_def)
    then have "granted_days (book_of st) (cm_owner (claim_of r)) (cm_key (claim_of r)) + cm_days (claim_of r)
        \<le> allowance (cm_key (claim_of r))"
      using False k(1) by (simp add: claim_of_def)
    from book_step.granted [OF bk _ this] r(2) show ?thesis unfolding u c by (simp add: claim_of_def phase_of_def)
  qed
qed

lemma reject_refines: "book_step (book_of st) (book_of (snd (reject_leave_request i why rsub rname st)))"
proof (cases "find_pending i st")
  case (Inl e)
  then show ?thesis using book_same [of st st] by (cases e) (simp add: reject_leave_request_def)
next
  case (Inr r)
  then have r: "map_of (hs_leave_requests st) i = Some r" "lr_status r = ''Pending''" by (simp_all add: find_pending_ok)
  let ?r = "r\<lparr>lr_status := ''Rejected'', lr_reviewed_by_sub := Some rsub, lr_reviewed_by_name := Some rname,
    lr_rejection_reason := Some why\<rparr>"
  have "hs_leave_requests (snd (reject_leave_request i why rsub rname st)) = AList.update i ?r (hs_leave_requests st)"
    using Inr by (simp add: reject_leave_request_def)
  from book_update [OF this]
  have "book_of (snd (reject_leave_request i why rsub rname st)) = (book_of st)(i \<mapsto> claim_of ?r)" .
  moreover have "claim_of ?r = (claim_of r)\<lparr>cm_phase := Refused\<rparr>" by (simp add: claim_of_def phase_of_def)
  ultimately show ?thesis
    using book_step.refused [of "book_of st" i "claim_of r"] r by (simp add: book_of_def claim_of_def phase_of_def)
qed

section \<open>The refinement\<close>

text \<open>
  C11. The HR service implements the leave book: in a store that operations reach, every
  operation is a step of the book (a claim is filed under a fresh id when it fits what is left,
  granted when it still fits, or refused, each only once) or leaves the book as it is, and
  every balance the store keeps is what the book leaves of the yearly allowance.
\<close>

theorem hr_refines_book:
  assumes "hr_inv st"
  shows "book_step (book_of st) (book_of (hr_exec today opr st)) \<and> hr_inv (hr_exec today opr st)
    \<and> (map_of (hs_leave_balances st) s = Some b \<and> k \<in> fst ` set default_leave_balance \<longrightarrow>
         balance_get b k = allowance k - granted_days (book_of st) s k)"
proof (intro conjI impI)
  show "hr_inv (hr_exec today opr st)" by (rule hr_inv_exec [OF assms])
  show "book_step (book_of st) (book_of (hr_exec today opr st))"
  proof (cases opr)
    case OpReset
    have "book_of reset_data = Map.empty" by (rule ext) (simp add: book_of_def reset_data_def)
    then show ?thesis using OpReset by (simp add: book_step.cleared)
  qed (auto simp: apply_refines [OF assms] approve_refines [OF assms] reject_refines get_my_leave_balance_def
      get_my_leave_requests_def assign_cubicle_def Let_def case_prod_beta
      intro!: book_same ensure_user_frame(2) [OF prod.collapse [symmetric]] split: option.split)
  assume h: "map_of (hs_leave_balances st) s = Some b \<and> k \<in> fst ` set default_leave_balance"
  then obtain d where "map_of default_leave_balance k = Some d"
    by (metis map_of_eq_None_iff not_None_eq)
  with h show "balance_get b k = allowance k - granted_days (book_of st) s k" using balance_is_left [OF assms] by blast
qed

lemma hr_refines_book_witness:
  "book_step (book_of reset_data) (book_of (hr_exec 1 (OpApply ''u1'' ''A'' ''B'' ''Annual Leave'' ''2026-01-05'' ''2026-01-06'' ''trip'') reset_data))"
  using hr_refines_book [OF hr_inv_reset] by blast

end
