(* ===== verification/ItService.thy ===== *)
theory ItService
  imports AuthErrors "HOL-Library.Char_ord" "HOL-Library.List_Lexorder" "HOL-Library.Product_Lexorder"
begin

text \<open>
  \<open>it_server/service/store.py\<close> and \<open>it_server/service/it_service.py\<close>: the asset catalogue,
  the assignment rows and the users of the IT server, the issuance that creates or moves
  an assignment, the caller's assets and the device report.  \<open>it_inv\<close> states that an asset
  has at most one holder and that the catalogue counts follow the rows.
\<close>

section \<open>Data\<close>

record cat_entry =
  ce_asset_id :: string
  ce_model :: string
  ce_type :: string
  ce_available_count :: int

record asset_row =
  ia_asset_id :: string
  ia_username :: string
  ia_type :: string
  ia_model :: string
  ia_status :: string

record it_user =
  iu_sub :: string
  iu_username :: string
  iu_email :: string
  iu_name :: string
  iu_first_seen :: int

record it_store =
  is_assets :: "asset_row list"
  is_users :: "(string \<times> it_user) list"
  is_catalogue :: "cat_entry list"

definition seed_catalogue :: "cat_entry list" where
  "seed_catalogue =
     [\<lparr>ce_asset_id = ''MBP-14-001'', ce_model = ''MacBook Pro 14'', ce_type = ''laptop'', ce_available_count = 3\<rparr>,
      \<lparr>ce_asset_id = ''MBP-16-001'', ce_model = ''MacBook Pro 16'', ce_type = ''laptop'', ce_available_count = 1\<rparr>,
      \<lparr>ce_asset_id = ''MON-LG-001'', ce_model = ''LG 27UK850'', ce_type = ''monitor'', ce_available_count = 5\<rparr>,
      \<lparr>ce_asset_id = ''MON-DEL-001'', ce_model = ''Dell UltraSharp 27'', ce_type = ''monitor'', ce_available_count = 2\<rparr>,
      \<lparr>ce_asset_id = ''PHN-IP15-001'', ce_model = ''iPhone 15 Pro'', ce_type = ''phone'', ce_available_count = 4\<rparr>]"

text \<open>The state at import; \<open>it_reset_data\<close> leaves the catalogue and its counts alone.\<close>

definition initial_it_store :: it_store where
  "initial_it_store = \<lparr>is_assets = [], is_users = [], is_catalogue = seed_catalogue\<rparr>"

definition it_reset_data :: "it_store \<Rightarrow> it_store" where
  "it_reset_data st = st\<lparr>is_assets := [], is_users := []\<rparr>"

section \<open>The hardware policy\<close>

text \<open>Fixed data of the store, for the public assistant's text to agree with.\<close>

definition seed_hardware_policy :: py where
  "seed_hardware_policy =
    PDict [(''standard_allocation'', PDict [(''description'', PStr (''Every permanent employee receives a standard hardware kit on their first day. The exact '' @
                          ''model depends on their role (see role_overrides below).'')),
                  (''default_kit'', PDict [(''laptop'', PStr ''MacBook Pro 14-inch (M4 Pro, 24 GB RAM, 512 GB SSD)''),
                         (''monitor'', PStr ''27-inch 4K display (on-site employees only)''),
                         (''peripherals'', PStr ''Wireless keyboard and mouse''),
                         (''phone'', PStr ''iPhone 15 (128 GB)'')])]),
           (''role_overrides'', PDict [(''Engineer / Developer'', PDict [(''laptop'', PStr ''MacBook Pro 14-inch (M4 Pro, 36 GB RAM, 1 TB SSD)''),
                         (''monitor'', PStr ''Dual 27-inch 4K displays (on-site employees only)''),
                         (''peripherals'', PStr ''Wireless keyboard, mouse, and USB-C hub''),
                         (''phone'', PStr ''iPhone 15 Pro (256 GB)''),
                         (''notes'', PStr ''Developers may request a Linux workstation in place of the MacBook.'')]),
                  (''Management / Executive'', PDict [(''laptop'', PStr ''MacBook Pro 16-inch (M4 Max, 48 GB RAM, 1 TB SSD)''),
                         (''monitor'', PStr ''32-inch 4K display (on-site employees only)''),
                         (''peripherals'', PStr ''Wireless keyboard, mouse, and USB-C hub''),
                         (''phone'', PStr ''iPhone 15 Pro Max (256 GB)'')]),
                  (''Operations / Finance / HR'', PDict [(''laptop'', PStr ''MacBook Pro 14-inch (M4, 16 GB RAM, 512 GB SSD)''),
                         (''monitor'', PStr ''27-inch 4K display (on-site employees only)''),
                         (''peripherals'', PStr ''Wireless keyboard and mouse''),
                         (''phone'', PStr ''iPhone 15 (128 GB)'')])]),
           (''remote_first'', PDict [(''description'', PStr (''Employees designated Remote-First receive the laptop and phone for their role only. '' @
                          ''Monitors and peripherals are not provided '' @
                          [CHR 0xE2, CHR 0x80, CHR 0x94] @
                          '' a Home Office Allowance of AED 1,500 (one-time) is available to purchase a personal '' @
                          ''monitor.''))]),
           (''replacement_cycle'', PDict [(''laptop'', PDict [(''years'', PInt 3),
                         (''notes'', PStr (''A replacement is issued if the device fails a hardware assessment before the 3-year '' @
                                 ''mark. Trade-in of the old device is mandatory.''))]),
                  (''phone'', PDict [(''years'', PInt 2),
                         (''notes'', PStr ''Phones are replaced on the standard 2-year cycle or on carrier contract renewal.'')]),
                  (''monitor'', PDict [(''years'', PInt 5),
                         (''notes'', PStr ''Monitors are replaced only on failure or role change that requires an upgrade.'')])]),
           (''request_process'', PDict [(''new_hire'', PStr (''Hardware is pre-ordered by HR Admin when the onboarding checklist is completed (UC-18). '' @
                          ''No action required from the employee on Day 1.'')),
                  (''replacement_or_additional'', PStr (''Raise a request through the IT Help Desk portal or contact your line manager. Approvals: '' @
                          ''line manager + IT Admin. Typical turnaround: 3'' @
                          [CHR 0xE2, CHR 0x80, CHR 0x93] @
                          ''5 business days.'')),
                  (''lost_or_stolen'', PStr (''Report immediately to IT Security and your line manager. The device will be remotely '' @
                          ''wiped. A loaner may be issued pending investigation.''))]),
           (''personal_device_policy'', PStr (''Personal devices (BYOD) are not permitted to access corporate systems unless enrolled '' @
                   ''in Mobile Device Management (MDM). Speak to IT Security for enrolment.''))]"

definition get_hardware_policy :: py where
  "get_hardware_policy = seed_hardware_policy"

section \<open>Store\<close>

definition get_asset_catalogue :: "string option \<Rightarrow> it_store \<Rightarrow> cat_entry list" where
  "get_asset_catalogue asset_type st =
     (case asset_type of None \<Rightarrow> is_catalogue st
      | Some t \<Rightarrow> filter (\<lambda>a. ce_type a = t) (is_catalogue st))"

definition it_refresh_user :: "string \<Rightarrow> string \<Rightarrow> string option \<Rightarrow> string option \<Rightarrow> it_user \<Rightarrow> it_user" where
  "it_refresh_user first_name last_name username email u =
     (let full_name = py_strip (first_name @ '' '' @ last_name);
          u1 = (if full_name \<noteq> [] \<and> full_name \<noteq> iu_name u then u\<lparr>iu_name := full_name\<rparr> else u);
          u2 = (if or_empty username \<noteq> [] \<and> iu_username u1 = [] then u1\<lparr>iu_username := or_empty username\<rparr> else u1)
      in if or_empty email \<noteq> [] \<and> iu_email u2 = [] then u2\<lparr>iu_email := or_empty email\<rparr> else u2)"

definition it_ensure_user ::
  "string \<Rightarrow> string \<Rightarrow> string \<Rightarrow> string option \<Rightarrow> string option \<Rightarrow> int \<Rightarrow> it_store \<Rightarrow> it_user \<times> it_store"
where
  "it_ensure_user sub first_name last_name username email today st =
     (let u = (case map_of (is_users st) sub of
                 None \<Rightarrow> \<lparr>iu_sub = sub, iu_username = or_empty username, iu_email = or_empty email,
                          iu_name = py_strip (first_name @ '' '' @ last_name), iu_first_seen = today\<rparr>
               | Some r \<Rightarrow> it_refresh_user first_name last_name username email r)
      in (u, st\<lparr>is_users := AList.update sub u (is_users st)\<rparr>))"

definition get_assets_for_username :: "string \<Rightarrow> it_store \<Rightarrow> asset_row list" where
  "get_assets_for_username username st =
     (if username = [] then [] else filter (\<lambda>a. ia_username a = username) (is_assets st))"

definition get_asset_by_id :: "string \<Rightarrow> it_store \<Rightarrow> asset_row option" where
  "get_asset_by_id asset_id st = find (\<lambda>a. ia_asset_id a = asset_id) (is_assets st)"

definition catalogue_entry_by_id :: "string \<Rightarrow> it_store \<Rightarrow> cat_entry option" where
  "catalogue_entry_by_id asset_id st =
     (if asset_id = [] then None else find (\<lambda>c. ce_asset_id c = asset_id) (is_catalogue st))"

fun update_first :: "('a \<Rightarrow> bool) \<Rightarrow> ('a \<Rightarrow> 'a) \<Rightarrow> 'a list \<Rightarrow> 'a list" where
  "update_first P f [] = []"
| "update_first P f (x # xs) = (if P x then f x # xs else x # update_first P f xs)"

definition moved_row :: "string \<Rightarrow> string \<Rightarrow> string \<Rightarrow> asset_row \<Rightarrow> asset_row" where
  "moved_row username model asset_type a =
     a\<lparr>ia_username := username, ia_status := ''outstanding'',
       ia_model := (if model \<noteq> [] then model else ia_model a),
       ia_type := (if asset_type \<noteq> [] then asset_type else ia_type a)\<rparr>"

definition record_issuance :: "string \<Rightarrow> string \<Rightarrow> string \<Rightarrow> string \<Rightarrow> it_store \<Rightarrow> asset_row \<times> it_store" where
  "record_issuance asset_id username model asset_type st =
     (case get_asset_by_id asset_id st of
        Some a \<Rightarrow>
          (moved_row username model asset_type a,
           st\<lparr>is_assets := update_first (\<lambda>a. ia_asset_id a = asset_id) (moved_row username model asset_type) (is_assets st)\<rparr>)
      | None \<Rightarrow>
          (let row = \<lparr>ia_asset_id = asset_id, ia_username = username, ia_type = asset_type,
                      ia_model = (if model \<noteq> [] then model else asset_id), ia_status = ''outstanding''\<rparr>;
               st1 = st\<lparr>is_assets := is_assets st @ [row]\<rparr>
           in (row, case catalogue_entry_by_id asset_id st of
                      None \<Rightarrow> st1
                    | Some c \<Rightarrow>
                        if 0 < ce_available_count c
                        then st1\<lparr>is_catalogue := update_first (\<lambda>c. ce_asset_id c = asset_id)
                               (\<lambda>c. c\<lparr>ce_available_count := ce_available_count c - 1\<rparr>) (is_catalogue st)\<rparr>
                        else st1)))"

definition lookup_user_by_username :: "string \<Rightarrow> it_store \<Rightarrow> it_user option" where
  "lookup_user_by_username username st =
     (if username = [] then None
      else map_option snd (find (\<lambda>(s, u). iu_username u = username) (is_users st)))"

definition lookup_user_by_sub :: "string \<Rightarrow> it_store \<Rightarrow> it_user option" where
  "lookup_user_by_sub sub st = (if sub = [] then None else map_of (is_users st) sub)"

section \<open>Service\<close>

definition list_available_assets :: "string option \<Rightarrow> it_store \<Rightarrow> cat_entry list" where
  "list_available_assets asset_type st = get_asset_catalogue asset_type st"

definition get_my_assets :: "string \<Rightarrow> string \<Rightarrow> it_store \<Rightarrow> asset_row list \<times> nat" where
  "get_my_assets username sub st =
     (let name = (if username = [] \<and> sub \<noteq> []
                  then (case lookup_user_by_sub sub st of None \<Rightarrow> [] | Some u \<Rightarrow> iu_username u)
                  else username);
          rows = (if name \<noteq> [] then get_assets_for_username name st else [])
      in (rows, length rows))"

record device_row =
  dv_username :: string
  dv_email :: string
  dv_asset_id :: string
  dv_type :: string
  dv_model :: string
  dv_status :: string

definition get_all_asset_assignments :: "it_store \<Rightarrow> device_row list" where
  "get_all_asset_assignments st =
     sort_key (\<lambda>r. (dv_username r, dv_asset_id r))
       (map (\<lambda>a. \<lparr>dv_username = ia_username a,
               dv_email = (case lookup_user_by_username (ia_username a) st of None \<Rightarrow> [] | Some u \<Rightarrow> iu_email u),
               dv_asset_id = ia_asset_id a, dv_type = ia_type a, dv_model = ia_model a,
               dv_status = ia_status a\<rparr>) (is_assets st))"

definition issue_asset :: "string \<Rightarrow> string \<Rightarrow> it_store \<Rightarrow> asset_row \<times> it_store" where
  "issue_asset asset_id0 employee0 st =
     (let asset_id = py_strip asset_id0;
          employee = py_strip employee0;
          username = (if CHR ''@'' \<in> set employee then hd (split_once (CHR ''@'') employee) else employee);
          cat = catalogue_entry_by_id asset_id st;
          model = (case cat of None \<Rightarrow> [] | Some c \<Rightarrow> ce_model c);
          asset_type = (case cat of None \<Rightarrow> [] | Some c \<Rightarrow> ce_type c)
      in record_issuance asset_id username model asset_type st)"

section \<open>Invariant\<close>

definition held :: "string \<Rightarrow> it_store \<Rightarrow> int" where
  "held i st = (if i \<in> ia_asset_id ` set (is_assets st) then 1 else 0)"

definition it_inv :: "it_store \<Rightarrow> bool" where
  "it_inv st =
     (distinct (map ia_asset_id (is_assets st))
      \<and> map (\<lambda>c. (ce_asset_id c, ce_available_count c + held (ce_asset_id c) st)) (is_catalogue st)
        = map (\<lambda>c. (ce_asset_id c, ce_available_count c)) seed_catalogue)"

lemma update_first_map: "(\<And>x. g (f x) = g x) \<Longrightarrow> map g (update_first P f xs) = map g xs"
  by (induction xs) auto

lemma find_None_ids: "find (\<lambda>a. g a = i) xs = None \<longleftrightarrow> i \<notin> g ` set xs"
  by (induction xs) auto

lemma moved_row_id [simp]: "ia_asset_id (moved_row u m t a) = ia_asset_id a"
  by (simp add: moved_row_def)

lemma update_first_unmatched: "\<forall>x \<in> set xs. \<not> P x \<Longrightarrow> update_first P f xs = xs"
  by (induction xs) auto

text \<open>Decrementing the one entry with the id shifts one count in the list.\<close>

lemma decrement_entry:
  assumes "distinct (map ce_asset_id cs)"
  shows "map (\<lambda>c. (ce_asset_id c, ce_available_count c + (if ce_asset_id c = i then n + 1 else h (ce_asset_id c))))
           (update_first (\<lambda>c. ce_asset_id c = i) (\<lambda>c. c\<lparr>ce_available_count := ce_available_count c - 1\<rparr>) cs)
       = map (\<lambda>c. (ce_asset_id c, ce_available_count c + (if ce_asset_id c = i then n else h (ce_asset_id c)))) cs"
  using assms
proof (induction cs)
  case Nil
  then show ?case by simp
next
  case (Cons c cs)
  show ?case
  proof (cases "ce_asset_id c = i")
    case True
    have "i \<notin> ce_asset_id ` set cs" using True Cons.prems by auto
    then have "\<forall>x \<in> set cs. ce_asset_id x \<noteq> i" by blast
    then show ?thesis using True by (simp cong: map_cong)
  next
    case False
    then show ?thesis using Cons by auto
  qed
qed

lemma seed_catalogue_ids: "distinct (map ce_asset_id seed_catalogue)"
  by (simp add: seed_catalogue_def)

lemma it_inv_catalogue_ids:
  assumes "it_inv st"
  shows "map ce_asset_id (is_catalogue st) = map ce_asset_id seed_catalogue"
proof -
  have "map fst (map (\<lambda>c. (ce_asset_id c, ce_available_count c + held (ce_asset_id c) st)) (is_catalogue st))
     = map fst (map (\<lambda>c. (ce_asset_id c, ce_available_count c)) seed_catalogue)"
    using assms unfolding it_inv_def by presburger
  then show ?thesis by (simp add: comp_def)
qed

lemma it_inv_counts:
  assumes "it_inv st" "c \<in> set (is_catalogue st)"
  shows "0 < ce_available_count c + held (ce_asset_id c) st"
proof -
  let ?f = "\<lambda>c. (ce_asset_id c, ce_available_count c + held (ce_asset_id c) st)"
  have "map ?f (is_catalogue st) = map (\<lambda>c. (ce_asset_id c, ce_available_count c)) seed_catalogue"
    using assms(1) unfolding it_inv_def by blast
  moreover have "?f c \<in> set (map ?f (is_catalogue st))" using assms(2) by simp
  ultimately have "?f c \<in> set (map (\<lambda>c. (ce_asset_id c, ce_available_count c)) seed_catalogue)" by (rule subst)
  then show ?thesis by (auto simp: seed_catalogue_def)
qed

lemma it_inv_initial: "it_inv initial_it_store"
  by (simp add: it_inv_def initial_it_store_def held_def)

lemma it_inv_ensure: "it_inv st \<Longrightarrow> it_inv (snd (it_ensure_user s f l u e t st))"
  by (simp add: it_inv_def it_ensure_user_def Let_def held_def)

lemma it_inv_record:
  assumes inv: "it_inv st"
  shows "it_inv (snd (record_issuance i u m t st))"
proof (cases "get_asset_by_id i st")
  case (Some a)
  let ?st = "st\<lparr>is_assets := update_first (\<lambda>a. ia_asset_id a = i) (moved_row u m t) (is_assets st)\<rparr>"
  have ids: "map ia_asset_id (is_assets ?st) = map ia_asset_id (is_assets st)"
    by (simp add: update_first_map)
  have "held j ?st = held j st" for j unfolding held_def list.set_map [symmetric] ids by (rule refl)
  then show ?thesis using inv ids Some by (simp add: record_issuance_def it_inv_def)
next
  case None
  then have fresh: "i \<notin> ia_asset_id ` set (is_assets st)" by (simp add: get_asset_by_id_def find_None_ids)
  define row where "row = \<lparr>ia_asset_id = i, ia_username = u, ia_type = t,
    ia_model = (if m \<noteq> [] then m else i), ia_status = ''outstanding''\<rparr>"
  have row: "ia_asset_id row = i" by (simp add: row_def)
  let ?st1 = "st\<lparr>is_assets := is_assets st @ [row]\<rparr>"
  have h: "held j ?st1 = (if j = i then 1 else held j st)" for j by (auto simp: held_def row)
  have h0: "held i st = 0" using fresh by (simp add: held_def)
  have d: "distinct (map ia_asset_id (is_assets ?st1))"
    using inv fresh by (simp add: it_inv_def row)
  show ?thesis
  proof (cases "i \<in> ce_asset_id ` set (is_catalogue st)")
    case False
    then have none: "catalogue_entry_by_id i st = None"
      by (simp add: catalogue_entry_by_id_def find_None_ids)
    have eq: "map (\<lambda>c. (ce_asset_id c, ce_available_count c + held (ce_asset_id c) ?st1)) (is_catalogue ?st1)
        = map (\<lambda>c. (ce_asset_id c, ce_available_count c + held (ce_asset_id c) st)) (is_catalogue st)"
      using False by (intro map_cong) (auto simp: h)
    have "it_inv ?st1" unfolding it_inv_def eq using inv d unfolding it_inv_def by blast
    then show ?thesis using none None by (simp add: record_issuance_def Let_def flip: row_def)
  next
    case True
    have cid: "distinct (map ce_asset_id (is_catalogue st))"
      using it_inv_catalogue_ids [OF inv] seed_catalogue_ids by simp
    have "i \<noteq> []"
      using True it_inv_catalogue_ids [OF inv, THEN arg_cong [where f = set]]
      by (auto simp: seed_catalogue_def)
    then obtain c where c: "catalogue_entry_by_id i st = Some c"
      using True by (cases "catalogue_entry_by_id i st") (auto simp: catalogue_entry_by_id_def find_None_ids)
    then have ci: "ce_asset_id c = i" "c \<in> set (is_catalogue st)"
      by (auto simp: catalogue_entry_by_id_def find_Some_iff split: if_splits)
    then have pos: "0 < ce_available_count c" using it_inv_counts [OF inv ci(2)] h0 by simp
    let ?cat = "update_first (\<lambda>c. ce_asset_id c = i) (\<lambda>c. c\<lparr>ce_available_count := ce_available_count c - 1\<rparr>)
      (is_catalogue st)"
    let ?st2 = "?st1\<lparr>is_catalogue := ?cat\<rparr>"
    have h2: "held j ?st2 = (if j = i then 0 + 1 else held j st)" for j
      using h [of j] by (simp add: held_def)
    have eq: "map (\<lambda>c. (ce_asset_id c, ce_available_count c + held (ce_asset_id c) ?st2)) ?cat
        = map (\<lambda>c. (ce_asset_id c, ce_available_count c + held (ce_asset_id c) st)) (is_catalogue st)"
      unfolding h2 decrement_entry [OF cid, of i 0 "\<lambda>j. held j st"] by (intro map_cong) (auto simp: h0)
    have cat: "is_catalogue ?st2 = ?cat" "is_assets ?st2 = is_assets ?st1" by simp_all
    have "it_inv ?st2" unfolding it_inv_def cat eq using inv d unfolding it_inv_def by blast
    then show ?thesis using None c pos by (simp add: record_issuance_def Let_def flip: row_def)
  qed
qed

lemma it_inv_issue: "it_inv st \<Longrightarrow> it_inv (snd (issue_asset i e st))"
  by (simp add: issue_asset_def Let_def it_inv_record)

text \<open>Issuing hands the asset to the recipient and takes it from everyone else.\<close>

lemma record_issuance_holder:
  assumes "it_inv st" "record_issuance i u m t st = (row, st')"
  shows "ia_username row = u" "ia_asset_id row = i" "row \<in> set (is_assets st')"
    "\<forall>a \<in> set (is_assets st'). ia_asset_id a = i \<longrightarrow> a = row"
proof -
  have inv': "it_inv st'" using it_inv_record [OF assms(1), of i u m t] assms(2) by simp
  show u: "ia_username row = u" and i: "ia_asset_id row = i"
    using assms(2)
    by (auto simp: record_issuance_def get_asset_by_id_def moved_row_def find_Some_iff Let_def
        split: option.splits)
  have up: "find P xs = Some a \<Longrightarrow> f a \<in> set (update_first P f xs)" for P f and xs :: "asset_row list" and a
    by (induction xs) auto
  show r: "row \<in> set (is_assets st')"
    using assms(2) by (auto simp: record_issuance_def get_asset_by_id_def Let_def up split: option.splits if_splits)
  show "\<forall>a \<in> set (is_assets st'). ia_asset_id a = i \<longrightarrow> a = row"
    using inv' r i by (auto simp: it_inv_def distinct_map inj_on_def)
qed

lemma split_once_absent: "c \<notin> set s \<Longrightarrow> split_once c s = [s]"
  by (induction s) auto

lemma update_first_others:
  "(\<And>x. P (f x) = P x) \<Longrightarrow> filter (\<lambda>x. \<not> P x) (update_first P f xs) = filter (\<lambda>x. \<not> P x) xs"
  by (induction xs) auto

lemma record_issuance_others:
  assumes "record_issuance i u m t st = (row, st')"
  shows "filter (\<lambda>a. ia_asset_id a \<noteq> i) (is_assets st') = filter (\<lambda>a. ia_asset_id a \<noteq> i) (is_assets st)"
  using assms update_first_others [of "\<lambda>a. ia_asset_id a = i" "moved_row u m t" "is_assets st"]
  by (auto simp: record_issuance_def Let_def split: option.splits if_splits)

end
