(* ===== verification/ItTools.thy ===== *)
theory ItTools
  imports HrTools ItService
begin

text \<open>
  \<open>it_server/mcp/tools.py\<close>: the three endpoints of the IT tool router over the block of
  \<open>ToolGuard\<close>, with the IT server's validator as the checker.
\<close>

section \<open>Handlers\<close>

definition tool_list_available_assets ::
  "'v checker \<Rightarrow> string option \<Rightarrow> string option \<Rightarrow> 'v \<Rightarrow> it_store \<Rightarrow> cat_entry list http \<times> 'v \<times> it_store"
where
  "tool_list_available_assets check h asset_type v st =
     with_guard check {''it_assets_read_rest''} h
       (\<lambda>claims d. (Ok200 (list_available_assets asset_type d), d)) v st"

definition tool_get_my_assets ::
  "'v checker \<Rightarrow> string option \<Rightarrow> 'v \<Rightarrow> it_store \<Rightarrow> (asset_row list \<times> nat) http \<times> 'v \<times> it_store"
where
  "tool_get_my_assets check h v st =
     with_guard check {''it_assets_self_rest''} h
       (\<lambda>claims d.
          if c_sub claims = [] then (Fail 401 ''ERR-AUTH-007'', d)
          else (Ok200 (get_my_assets (or_empty (c_username claims)) (c_sub claims) d), d)) v st"

record issue_result =
  ir_asset_id :: string
  ir_employee_id :: string
  ir_issued_by :: string
  ir_issued_at :: string

definition tool_issue_asset ::
  "'v checker \<Rightarrow> string option \<Rightarrow> string \<Rightarrow> string \<Rightarrow> string \<Rightarrow> 'v \<Rightarrow> it_store \<Rightarrow> issue_result http \<times> 'v \<times> it_store"
where
  "tool_issue_asset check h now_iso asset_id employee_id v st =
     with_guard check {''it_assets_write_rest''} h
       (\<lambda>claims d.
          let d' = snd (issue_asset asset_id employee_id d)
          in (case acting_party claims of
                Fail s i \<Rightarrow> Fail s i
              | Ok200 who \<Rightarrow> Ok200 \<lparr>ir_asset_id = asset_id, ir_employee_id = employee_id,
                                 ir_issued_by = who, ir_issued_at = now_iso\<rparr>, d')) v st"

section \<open>The router\<close>

datatype it_call =
    ListAvailableAssets "string option"
  | GetMyAssets
  | IssueAsset string string

datatype it_answer = ACatalogue "cat_entry list" | AAssets "asset_row list" nat | AIssued issue_result

fun it_required_scope :: "it_call \<Rightarrow> string" where
  "it_required_scope (ListAvailableAssets t) = ''it_assets_read_rest''"
| "it_required_scope GetMyAssets = ''it_assets_self_rest''"
| "it_required_scope (IssueAsset a e) = ''it_assets_write_rest''"

definition it_answer_as :: "('a \<Rightarrow> it_answer) \<Rightarrow> 'a http \<times> 'v \<times> it_store \<Rightarrow> it_answer http \<times> 'v \<times> it_store" where
  "it_answer_as f = (\<lambda>(r, s). (map_http f r, s))"

fun it_route ::
  "'v checker \<Rightarrow> string option \<Rightarrow> string \<Rightarrow> it_call \<Rightarrow> 'v \<Rightarrow> it_store \<Rightarrow> it_answer http \<times> 'v \<times> it_store"
where
  "it_route check h now_iso (ListAvailableAssets t) v st =
     it_answer_as ACatalogue (tool_list_available_assets check h t v st)"
| "it_route check h now_iso GetMyAssets v st =
     it_answer_as (\<lambda>(rows, n). AAssets rows n) (tool_get_my_assets check h v st)"
| "it_route check h now_iso (IssueAsset a e) v st =
     it_answer_as AIssued (tool_issue_asset check h now_iso a e v st)"

text \<open>A sequence of requests, each with its header, its clock text and its call.\<close>

definition it_serve ::
  "'v checker \<Rightarrow> (string option \<times> string \<times> it_call) list \<Rightarrow> 'v \<times> it_store \<Rightarrow> 'v \<times> it_store"
where
  "it_serve check reqs s = foldl (\<lambda>(v, st) (h, now_iso, call). snd (it_route check h now_iso call v st)) s reqs"

section \<open>What the routes guarantee\<close>

lemma it_answer_as_eq:
  "it_answer_as f x = (r, v', st') \<longleftrightarrow> (\<exists>r0. x = (r0, v', st') \<and> r = map_http f r0)"
  by (cases x) (auto simp: it_answer_as_def)

lemmas it_tool_defs = tool_list_available_assets_def tool_get_my_assets_def tool_issue_asset_def

context token_guard
begin

lemma it_route_admitted:
  assumes "it_route check h now_iso call v st = (r, v', st')" and "is_ok r \<or> st' \<noteq> st"
  shows "\<exists>c. accepted_call check {it_required_scope call} h v c
    \<and> admitted (trusted v) (is_revoked v) {it_required_scope call} c"
  using assms
  by (cases call) (auto simp: it_answer_as_eq it_tool_defs split: if_splits dest!: guarded_effect)

text \<open>The self-service read returns rows of one user only: the one the token names.\<close>

lemma my_assets_own:
  assumes "tool_get_my_assets check h v st = (Ok200 (rows, n), v', st')"
  shows "\<exists>c. accepted_call check {''it_assets_self_rest''} h v c
    \<and> admitted (trusted v) (is_revoked v) {''it_assets_self_rest''} c \<and> c_sub c \<noteq> []
    \<and> (\<forall>a \<in> set rows. a \<in> set (is_assets st) \<and> ia_username a =
         (if or_empty (c_username c) \<noteq> [] then or_empty (c_username c)
          else case lookup_user_by_sub (c_sub c) st of None \<Rightarrow> [] | Some u \<Rightarrow> iu_username u))
    \<and> st' = st"
proof -
  from assms obtain c where c: "accepted_call check {''it_assets_self_rest''} h v c"
      "admitted (trusted v) (is_revoked v) {''it_assets_self_rest''} c"
    and b: "(if c_sub c = [] then (Fail 401 ''ERR-AUTH-007'', st)
        else (Ok200 (get_my_assets (or_empty (c_username c)) (c_sub c) st), st)) = (Ok200 (rows, n), st')"
    unfolding tool_get_my_assets_def by (rule with_guard_ok)
  then have "c_sub c \<noteq> []" "get_my_assets (or_empty (c_username c)) (c_sub c) st = (rows, n)" "st' = st"
    by (auto split: if_splits)
  then show ?thesis using c
    by (intro exI [of _ c]) (auto simp: get_my_assets_def get_assets_for_username_def Let_def split: if_splits)
qed

end

lemma it_routes_inv:
  assumes "it_inv st"
  shows "it_inv (snd (snd (tool_list_available_assets check h t v st)))"
    and "it_inv (snd (snd (tool_get_my_assets check h v st)))"
    and "it_inv (snd (snd (tool_issue_asset check h n a e v st)))"
  unfolding it_tool_defs
  by (rule with_guard_pres [where P = it_inv, OF assms]; simp add: Let_def assms it_inv_issue)+

lemma it_route_inv: "it_inv st \<Longrightarrow> it_inv (snd (snd (it_route check h n call v st)))"
  by (cases call) (simp_all add: it_answer_as_def case_prod_beta it_routes_inv)

lemma it_serve_inv: "it_inv (snd s) \<Longrightarrow> it_inv (snd (it_serve check reqs s))"
proof (induction reqs arbitrary: s)
  case Nil
  then show ?case by (simp add: it_serve_def)
next
  case (Cons q reqs)
  obtain h n call where q: "q = (h, n, call)" by (cases q)
  have "it_inv (snd (snd (it_route check h n call (fst s) (snd s))))"
    using Cons.prems by (rule it_route_inv)
  from Cons.IH [OF this] show ?case by (simp add: it_serve_def q case_prod_beta)
qed

end
