(* ===== verification/ItProps.thy ===== *)
theory ItProps
  imports Samples ItTools
begin

text \<open>The properties of the IT server, over any sequence of requests to its routes.\<close>



text \<open>
  IT: an answer, or any change of the asset data, comes only from a call whose bearer
  token the IT validator accepted for the scope of that very route.
\<close>

theorem it_route_authorised:
  assumes "it_route (\<lambda>tok req. it_validate_token J net mt now tok req) h now_iso call v st = (r, v', st')"
    and "is_ok r \<or> st' \<noteq> st"
  shows "\<exists>tok c v1 a. extract_bearer h = Some tok
    \<and> it_validate_token J net mt now tok (Some {it_required_scope call}) v = (Inr c, v1)
    \<and> act_chain c = [a] \<and> a \<in> mc_trusted_act_subs (mv_config v)
    \<and> (\<exists>ws. claim_scopes c = Inr ws \<and> it_required_scope call \<in> set ws)
    \<and> \<not> jti_revoked (mv_revocation v) (c_jti c)"
  using it_guard.it_route_admitted [OF assms]
  by (fastforce simp: accepted_call_def admitted_def mv_trusted_def mv_revoked_def)

lemma sample_my_assets:
  "tool_get_my_assets sample_it_check (Some ''Bearer it'') (sample_validator []) initial_it_store
     = (Ok200 ([], 0), sample_validator', initial_it_store)"
  by (simp add: tool_get_my_assets_def with_guard_def tool_guard_def sample_bearer sample_it)
     (simp add: sample_claims_def get_my_assets_def lookup_user_by_sub_def initial_it_store_def)

lemma it_route_authorised_witness:
  "\<exists>tok c v1 a. extract_bearer (Some ''Bearer it'') = Some tok
    \<and> it_validate_token sample_jwt sample_net 4000 1500 tok (Some {it_required_scope GetMyAssets}) (sample_validator []) = (Inr c, v1)
    \<and> act_chain c = [a] \<and> a \<in> mc_trusted_act_subs (mv_config (sample_validator []))
    \<and> (\<exists>ws. claim_scopes c = Inr ws \<and> it_required_scope GetMyAssets \<in> set ws)
    \<and> \<not> jti_revoked (mv_revocation (sample_validator [])) (c_jti c)"
proof -
  have "it_route sample_it_check (Some ''Bearer it'') ''now'' GetMyAssets (sample_validator []) initial_it_store
      = (Ok200 (AAssets [] 0), sample_validator', initial_it_store)"
    by (simp add: sample_my_assets it_answer_as_def)
  from it_route_authorised [OF this [unfolded sample_it_check_def]] show ?thesis by simp
qed

text \<open>
  C29. IT: whatever requests are served from the initial store, an asset has at most one
  assignment row, and for every catalogue entry the available count plus one for an
  assigned asset is the seeded count, never negative.
\<close>

theorem inventory_consistent:
  "distinct (map ia_asset_id (is_assets (snd (it_serve check reqs (v, initial_it_store)))))
   \<and> map (\<lambda>c. (ce_asset_id c, ce_available_count c
           + held (ce_asset_id c) (snd (it_serve check reqs (v, initial_it_store)))))
         (is_catalogue (snd (it_serve check reqs (v, initial_it_store))))
       = map (\<lambda>c. (ce_asset_id c, ce_available_count c)) seed_catalogue
   \<and> (\<forall>c \<in> set (is_catalogue (snd (it_serve check reqs (v, initial_it_store)))). 0 \<le> ce_available_count c)"
proof -
  have inv: "it_inv (snd (it_serve check reqs (v, initial_it_store)))"
    by (rule it_serve_inv) (simp add: it_inv_initial)
  then have "0 \<le> ce_available_count c"
    if "c \<in> set (is_catalogue (snd (it_serve check reqs (v, initial_it_store))))" for c
    using it_inv_counts [OF inv that] by (auto simp: held_def split: if_splits)
  then show ?thesis using inv unfolding it_inv_def by blast
qed

lemma inventory_consistent_witness:
  "distinct (map ia_asset_id (is_assets (snd (it_serve sample_it_check
      [(Some ''Bearer it'', ''t'', IssueAsset ''MBP-14-001'' ''ann''),
       (Some ''Bearer it'', ''t'', GetMyAssets)] (sample_validator [], initial_it_store)))))"
  by (rule conjunct1 [OF inventory_consistent])

text \<open>A reset drops the rows and keeps the counts: an asset that was assigned is lost to the stock.\<close>

lemma reset_loses_stock:
  assumes "it_inv st" "c \<in> set (is_catalogue st)" "held (ce_asset_id c) st = 1"
  shows "\<not> it_inv (it_reset_data st)"
proof
  assume "it_inv (it_reset_data st)"
  then have "map (\<lambda>c. (ce_asset_id c, ce_available_count c)) (is_catalogue st)
      = map (\<lambda>c. (ce_asset_id c, ce_available_count c)) seed_catalogue"
    by (simp add: it_inv_def it_reset_data_def held_def)
  moreover have "map (\<lambda>c. (ce_asset_id c, ce_available_count c + held (ce_asset_id c) st)) (is_catalogue st)
      = map (\<lambda>c. (ce_asset_id c, ce_available_count c)) seed_catalogue"
    using assms(1) by (simp add: it_inv_def)
  ultimately have "map (\<lambda>c. (ce_asset_id c, ce_available_count c)) (is_catalogue st)
      = map (\<lambda>c. (ce_asset_id c, ce_available_count c + held (ce_asset_id c) st)) (is_catalogue st)" by simp
  with assms(2,3) show False by (auto simp: map_eq_conv)
qed

text \<open>
  IT: issuing an asset makes the named employee its only holder: afterwards every row
  with the asset id is the row returned, under the user part of the employee id.
\<close>

theorem issue_sets_holder:
  assumes "it_inv st" and "issue_asset asset_id employee st = (row, st')"
  shows "ia_asset_id row = py_strip asset_id
    \<and> ia_username row = hd (split_once (CHR ''@'') (py_strip employee))
    \<and> {a \<in> set (is_assets st'). ia_asset_id a = py_strip asset_id} = {row}
    \<and> filter (\<lambda>a. ia_asset_id a \<noteq> py_strip asset_id) (is_assets st')
       = filter (\<lambda>a. ia_asset_id a \<noteq> py_strip asset_id) (is_assets st)"
proof -
  let ?i = "py_strip asset_id" and ?e = "py_strip employee"
  let ?u = "if CHR ''@'' \<in> set ?e then hd (split_once (CHR ''@'') ?e) else ?e"
  obtain m t where r: "record_issuance ?i ?u m t st = (row, st')"
    using assms(2) by (auto simp: issue_asset_def Let_def)
  note h = record_issuance_holder [OF assms(1) r]
  have u: "?u = hd (split_once (CHR ''@'') ?e)" by (simp add: split_once_absent)
  have "{a \<in> set (is_assets st'). ia_asset_id a = ?i} = {row}" using h(2,3,4) by blast
  then show ?thesis using h(1,2) record_issuance_others [OF r] unfolding u by blast
qed

definition sample_row :: "string \<Rightarrow> asset_row" where
  "sample_row u = \<lparr>ia_asset_id = ''MON-LG-001'', ia_username = u, ia_type = ''monitor'', ia_model = ''LG 27UK850'',
     ia_status = ''outstanding''\<rparr>"

lemma sample_issue:
  "issue_asset '' MON-LG-001 '' ''ann@x.io'' initial_it_store
     = (sample_row ''ann'', snd (issue_asset '' MON-LG-001 '' ''ann@x.io'' initial_it_store))"
  by (simp add: issue_asset_def py_strip_def py_rstrip_def py_lstrip_def py_ws_def Let_def record_issuance_def
      get_asset_by_id_def initial_it_store_def catalogue_entry_by_id_def seed_catalogue_def sample_row_def)

lemma issue_sets_holder_witness:
  "it_inv initial_it_store \<and> ia_username (sample_row ''ann'') = hd (split_once (CHR ''@'') (py_strip ''ann@x.io''))
    \<and> {a \<in> set (is_assets (snd (issue_asset '' MON-LG-001 '' ''ann@x.io'' initial_it_store))).
         ia_asset_id a = py_strip '' MON-LG-001 ''} = {sample_row ''ann''}"
  using issue_sets_holder [OF it_inv_initial sample_issue] it_inv_initial by blast

text \<open>
  IT: the self-service listing returns rows of one user name only: the one the accepted
  token carries, or the one registered for its subject; it changes nothing.
\<close>

theorem my_assets_is_own:
  assumes "tool_get_my_assets (\<lambda>tok req. it_validate_token J net mt now tok req) h v st = (Ok200 (rows, n), v', st')"
  shows "st' = st \<and> (\<exists>tok c v1. extract_bearer h = Some tok
    \<and> it_validate_token J net mt now tok (Some {''it_assets_self_rest''}) v = (Inr c, v1) \<and> c_sub c \<noteq> []
    \<and> list_all (\<lambda>a. a \<in> set (is_assets st) \<and> ia_username a =
         (if or_empty (c_username c) \<noteq> [] then or_empty (c_username c)
          else case lookup_user_by_sub (c_sub c) st of None \<Rightarrow> [] | Some u \<Rightarrow> iu_username u)) rows)"
  using it_guard.my_assets_own [OF assms] by (fastforce simp: accepted_call_def list_all_iff)

lemma my_assets_is_own_witness:
  "\<exists>tok c v1. extract_bearer (Some ''Bearer it'') = Some tok
    \<and> it_validate_token sample_jwt sample_net 4000 1500 tok (Some {''it_assets_self_rest''}) (sample_validator []) = (Inr c, v1)
    \<and> c_sub c \<noteq> []"
  using my_assets_is_own [OF sample_my_assets [unfolded sample_it_check_def]] by blast

end
