(* ===== verification/Regex.thy ===== *)
theory Regex
  imports Prelude
begin

text \<open>
  The part of Python's \<open>re\<close> the services use: case-insensitive literals, runs of a
  character class, alternation, sequence, one capture group and the word boundary,
  matched by backtracking in the order Python tries the alternatives.

  A position is a pair: the characters before it, reversed, and the rest of the text.
  \<open>re_matches\<close> lists the ways a pattern matches at a position, best first; a search takes
  the first way at the leftmost position that has one.  The alphabet is the code points 0
  to 255 (see Prelude), on which case folding is \<open>lower_char\<close>.
\<close>

section \<open>Patterns\<close>

datatype char_class =
    Digit | Zero | Space | NonSpace | Letter | LetterDigit | TokenChar | DottedToken | IdChar | KeySep

text \<open>
  \<open>\d\<close>, \<open>0\<close>, \<open>\s\<close>, \<open>\S\<close>, \<open>[A-Z]\<close> and \<open>[A-Z0-9]\<close> with the case ignored; the classes of
  the log redaction are \<open>[A-Za-z0-9_-]\<close>, \<open>[A-Za-z0-9._\-]\<close>, \<open>[A-Za-z0-9:\-]\<close> and
  \<open>["'=:\s]\<close>, which the case flag does not change.
\<close>

definition ascii_letter :: "char \<Rightarrow> bool" where
  "ascii_letter c = (let n = (of_char c :: nat) in (65 \<le> n \<and> n \<le> 90) \<or> (97 \<le> n \<and> n \<le> 122))"

fun in_class :: "char_class \<Rightarrow> char \<Rightarrow> bool" where
  "in_class Digit c = is_digit c"
| "in_class Zero c = (c = CHR ''0'')"
| "in_class Space c = py_ws c"
| "in_class NonSpace c = (\<not> py_ws c)"
| "in_class Letter c = ascii_letter c"
| "in_class LetterDigit c = (ascii_letter c \<or> is_digit c)"
| "in_class TokenChar c = (ascii_letter c \<or> is_digit c \<or> c = CHR ''_'' \<or> c = CHR ''-'')"
| "in_class DottedToken c = (ascii_letter c \<or> is_digit c \<or> c = CHR ''.'' \<or> c = CHR ''_'' \<or> c = CHR ''-'')"
| "in_class IdChar c = (ascii_letter c \<or> is_digit c \<or> c = CHR '':'' \<or> c = CHR ''-'')"
| "in_class KeySep c = (py_ws c \<or> c = CHR 0x22 \<or> c = CHR 0x27 \<or> c = CHR ''='' \<or> c = CHR '':'')"

text \<open>\<open>\w\<close> on the code points 0 to 255: \<open>isalnum\<close> or the underscore.\<close>

definition word_char :: "char \<Rightarrow> bool" where
  "word_char c = (let n = (of_char c :: nat) in
     ascii_letter c \<or> is_digit c \<or> n \<in> {95, 170, 178, 179, 181, 185, 186, 188, 189, 190}
     \<or> (192 \<le> n \<and> n \<noteq> 215 \<and> n \<noteq> 247))"

text \<open>
  \<open>RLit\<close> ignores the case, \<open>RExact\<close> does not; \<open>RRun p lo hi\<close> is \<open>p{lo,hi}\<close>, greedy; \<open>hi = None\<close> is no upper bound.  \<open>RGroup\<close> captures.
\<close>

datatype re =
    RLit string
  | RRun char_class nat "nat option"
  | RBound
  | RThen re re
  | ROr re re
  | RGroup re
  | RExact string

text \<open>\<open>p+\<close> and \<open>p{n}\<close>, and a sequence of patterns.\<close>

definition r_many :: "char_class \<Rightarrow> re" where
  "r_many p = RRun p 1 None"

definition r_times :: "char_class \<Rightarrow> nat \<Rightarrow> re" where
  "r_times p n = RRun p n (Some n)"

fun r_seq :: "re list \<Rightarrow> re" where
  "r_seq [] = RLit []"
| "r_seq [r] = r"
| "r_seq (r # q # rs) = RThen r (r_seq (q # rs))"

section \<open>Matching\<close>

type_synonym re_pos = "string \<times> string \<times> string option"

fun advance :: "nat \<Rightarrow> re_pos \<Rightarrow> re_pos" where
  "advance k (b, a, g) = (rev (take k a) @ b, drop k a, g)"

definition at_boundary :: "string \<Rightarrow> string \<Rightarrow> bool" where
  "at_boundary b a = ((b \<noteq> [] \<and> word_char (hd b)) \<noteq> (a \<noteq> [] \<and> word_char (hd a)))"

definition run_length :: "char_class \<Rightarrow> nat option \<Rightarrow> string \<Rightarrow> nat" where
  "run_length p hi a = (let n = length (takeWhile (in_class p) a)
     in case hi of None \<Rightarrow> n | Some h \<Rightarrow> min h n)"

fun re_matches :: "re \<Rightarrow> re_pos \<Rightarrow> re_pos list" where
  "re_matches (RLit s) (b, a, g) =
     (if map lower_char (take (length s) a) = map lower_char s then [advance (length s) (b, a, g)] else [])"
| "re_matches (RRun p lo hi) (b, a, g) =
     map (\<lambda>k. advance k (b, a, g)) (rev [lo ..< Suc (run_length p hi a)])"
| "re_matches RBound (b, a, g) = (if at_boundary b a then [(b, a, g)] else [])"
| "re_matches (RThen r q) s = concat (map (re_matches q) (re_matches r s))"
| "re_matches (ROr r q) s = re_matches r s @ re_matches q s"
| "re_matches (RGroup r) (b, a, g) =
     map (\<lambda>(b', a', g'). (b', a', Some (take (length a - length a') a))) (re_matches r (b, a, g))"
| "re_matches (RExact s) (b, a, g) = (if prefix s a then [advance (length s) (b, a, g)] else [])"

text \<open>A match: the whole text matched and the text of the group.\<close>

type_synonym re_match = "string \<times> string option"

definition match_at :: "re \<Rightarrow> string \<Rightarrow> string \<Rightarrow> re_match option" where
  "match_at r b a = (case re_matches r (b, a, None) of
       [] \<Rightarrow> None
     | (b', a', g) # _ \<Rightarrow> Some (take (length a - length a') a, g))"

fun search_from :: "re \<Rightarrow> string \<Rightarrow> string \<Rightarrow> re_match option" where
  "search_from r b [] = match_at r b []"
| "search_from r b (c # cs) = (case match_at r b (c # cs) of
       Some m \<Rightarrow> Some m
     | None \<Rightarrow> search_from r (c # b) cs)"

definition re_search :: "re \<Rightarrow> string \<Rightarrow> re_match option" where
  "re_search r text = search_from r [] text"

text \<open>
  \<open>findall\<close> of a pattern with one group that never matches the empty text: the groups of
  the successive matches, each one starting where the one before ended.
\<close>

fun findall_from :: "re \<Rightarrow> nat \<Rightarrow> string \<Rightarrow> string \<Rightarrow> string list" where
  "findall_from r k b [] = []"
| "findall_from r (Suc k) b (c # cs) = findall_from r k (c # b) cs"
| "findall_from r 0 b (c # cs) = (case match_at r b (c # cs) of
       Some (m, g) \<Rightarrow> or_empty g # findall_from r (length m - 1) (c # b) cs
     | None \<Rightarrow> findall_from r 0 (c # b) cs)"

definition re_findall :: "re \<Rightarrow> string \<Rightarrow> string list" where
  "re_findall r text = findall_from r 0 [] text"

text \<open>
  \<open>sub\<close> of a pattern that never matches the empty text, the replacement being a function of
  the match.
\<close>

fun sub_from :: "re \<Rightarrow> (re_match \<Rightarrow> string) \<Rightarrow> nat \<Rightarrow> string \<Rightarrow> string \<Rightarrow> string" where
  "sub_from r f k b [] = []"
| "sub_from r f (Suc k) b (c # cs) = sub_from r f k (c # b) cs"
| "sub_from r f 0 b (c # cs) = (case match_at r b (c # cs) of
       Some (m, g) \<Rightarrow> f (m, g) @ sub_from r f (length m - 1) (c # b) cs
     | None \<Rightarrow> c # sub_from r f 0 (c # b) cs)"

definition re_sub :: "re \<Rightarrow> (re_match \<Rightarrow> string) \<Rightarrow> string \<Rightarrow> string" where
  "re_sub r f text = sub_from r f 0 [] text"

section \<open>Facts\<close>

lemma match_at_none: "re_matches r (b, a, None) = [] \<Longrightarrow> match_at r b a = None"
  by (simp add: match_at_def)

text \<open>A search skips a prefix in which no position matches.\<close>

lemma search_skip:
  "(\<And>i. i < length p \<Longrightarrow> match_at r (rev (take i p) @ b) (drop i p @ a) = None) \<Longrightarrow>
   search_from r b (p @ a) = search_from r (rev p @ b) a"
proof (induction p arbitrary: b)
  case Nil
  then show ?case by simp
next
  case (Cons c p)
  have "match_at r b (c # p @ a) = None" using Cons.prems [of 0] by simp
  moreover have "search_from r (c # b) (p @ a) = search_from r (rev p @ c # b) a"
  proof (rule Cons.IH)
    fix i assume "i < length p"
    then show "match_at r (rev (take i p) @ c # b) (drop i p @ a) = None"
      using Cons.prems [of "Suc i"] by simp
  qed
  ultimately show ?case by simp
qed

lemma search_hit: "match_at r b a = Some m \<Longrightarrow> search_from r b a = Some m"
  by (cases a) simp_all

text \<open>Every way of matching only moves forward in the text.\<close>

lemma re_matches_forward:
  "(b', a', g') \<in> set (re_matches r s) \<Longrightarrow>
   \<exists>u. fst (snd s) = u @ a' \<and> b' = rev u @ fst s"
proof (induction r arbitrary: s b' a' g')
  case (RLit x)
  then show ?case
    by (cases s) (auto split: if_splits intro!: exI [where x = "take (length x) (fst (snd s))"])
next
  case (RRun p lo hi)
  then obtain k where "(b', a', g') = advance k s" by (cases s) auto
  then show ?case by (cases s) (auto intro!: exI [where x = "take k (fst (snd s))"])
next
  case RBound
  then show ?case by (cases s) (auto split: if_splits)
next
  case (RThen r q)
  then obtain b1 a1 g1 where m: "(b1, a1, g1) \<in> set (re_matches r s)"
    and n: "(b', a', g') \<in> set (re_matches q (b1, a1, g1))" by (cases s) auto
  from RThen.IH(1) [OF m] RThen.IH(2) [OF n] show ?case
    by (auto intro: exI [where x = "x @ y" for x y])
next
  case (ROr r q)
  then show ?case by (cases s) auto
next
  case (RGroup r)
  then obtain g1 where "(b', a', g1) \<in> set (re_matches r s)" by (cases s) auto
  then show ?case by (rule RGroup.IH)
next
  case (RExact x)
  then show ?case
    by (cases s) (auto split: if_splits intro!: exI [where x = "take (length x) (fst (snd s))"])
qed

lemma search_from_sublist: "search_from r b a = Some (m, g) \<Longrightarrow> sublist m a"
proof (induction r b a rule: search_from.induct)
  case (1 r b)
  then show ?case by (auto simp: match_at_def split: list.splits)
next
  case (2 r b c cs)
  show ?case
  proof (cases "match_at r b (c # cs)")
    case None
    with 2 show ?thesis by (auto simp: sublist_Cons_right)
  next
    case (Some x)
    with 2(2) have "m = take (length m) (c # cs)"
      by (auto simp: match_at_def split: list.splits)
    then show ?thesis by (metis sublist_take)
  qed
qed

end
