(* ===== verification/KeywordRouter.thy ===== *)
theory KeywordRouter
  imports Regex
begin

text \<open>
  The deterministic router of the chat loop (\<open>orchestrator/chat/keyword_fallback.py\<close>): the
  rule table, the extraction of inline arguments by regular expressions and the routing
  of one message to at most one tool call per agent.
\<close>

section \<open>Calls and rules\<close>

record tool_call =
  tc_agent :: string
  tc_tool :: string
  tc_args :: pydict

record keyword_rule =
  rule_keywords :: "string list"
  rule_agent :: string
  rule_tool :: string
  rule_args :: pydict

definition default_rules :: "keyword_rule list" where
  "default_rules = [
    \<lparr>rule_keywords = [''where is my cubicle'', ''my cubicle'', ''show my cubicle'',
        ''where is my seat'', ''my seat'', ''show my seat''],
     rule_agent = ''hr_agent'', rule_tool = ''hr.cubicle_lookup_self'', rule_args = []\<rparr>,
    \<lparr>rule_keywords = [''vacant cubicle'', ''vacant cubicles'', ''show cubicles'',
        ''cubicle summary'', ''vacant seat'', ''vacant seats'', ''available seats'',
        ''free seats'', ''show seats'', ''seat summary''],
     rule_agent = ''hr_agent'', rule_tool = ''hr.cubicle_summary'', rule_args = []\<rparr>,
    \<lparr>rule_keywords = [''floor'', ''show me floor''],
     rule_agent = ''hr_agent'', rule_tool = ''hr.cubicle_list_floor'', rule_args = []\<rparr>,
    \<lparr>rule_keywords = [''assign cubicle'', ''assign c-'', ''assign seat''],
     rule_agent = ''hr_agent'', rule_tool = ''hr.cubicle_assign'', rule_args = []\<rparr>,
    \<lparr>rule_keywords = [''cubicle'', ''cubicles'', ''seat'', ''seats'', ''seating''],
     rule_agent = ''hr_agent'', rule_tool = ''hr.cubicle_summary'', rule_args = []\<rparr>,
    \<lparr>rule_keywords = [''leave requests'', ''all leaves'', ''leaves to approve'',
        ''leaves others submitted'', ''pending leaves'', ''need to approve'',
        ''others submitted''],
     rule_agent = ''hr_agent'', rule_tool = ''hr.read_all_leaves'', rule_args = []\<rparr>,
    \<lparr>rule_keywords = [''approve'', ''approval''],
     rule_agent = ''hr_agent'', rule_tool = ''hr.approve_leave'', rule_args = []\<rparr>,
    \<lparr>rule_keywords = [''issue'', ''give''],
     rule_agent = ''it_agent'', rule_tool = ''it.issue_asset'', rule_args = []\<rparr>,
    \<lparr>rule_keywords = [''annual leave from'', ''sick leave from'', ''personal leave from'',
        ''apply for annual'', ''apply for sick'', ''apply for personal'',
        ''submit annual'', ''submit sick'', ''submit personal'', ''request annual'',
        ''request sick'', ''request personal'', ''book annual'', ''book sick'',
        ''book personal'', ''take annual'', ''take sick'', ''take personal''],
     rule_agent = ''hr_agent'', rule_tool = ''hr.apply_leave'', rule_args = []\<rparr>,
    \<lparr>rule_keywords = [''leave types'', ''leave policy'', ''types of leave'', ''kinds of leave'',
        ''what leaves'', ''which leaves'', ''what leave can'', ''apply for''],
     rule_agent = ''hr_agent'', rule_tool = ''hr.read_policy'', rule_args = []\<rparr>,
    \<lparr>rule_keywords = [''leave'', ''vacation'', ''time off'', ''pto''],
     rule_agent = ''hr_agent'', rule_tool = ''hr.read_balance'', rule_args = []\<rparr>,
    \<lparr>rule_keywords = [''what laptop do i have'', ''my laptop'', ''my assets'', ''my equipment'',
        ''my devices''],
     rule_agent = ''it_agent'', rule_tool = ''it.get_my_assets'', rule_args = []\<rparr>,
    \<lparr>rule_keywords = [''laptop'', ''phone'', ''monitor'', ''screen'', ''asset'', ''equipment'',
        ''hardware'', ''computer''],
     rule_agent = ''it_agent'', rule_tool = ''it.list_available_assets'', rule_args = []\<rparr>]"

section \<open>The patterns of the inline arguments\<close>

text \<open>A pattern between word boundaries.\<close>

definition r_word :: "re list \<Rightarrow> re" where
  "r_word rs = r_seq (RBound # rs @ [RBound])"

definition leave_id_re :: re where
  "leave_id_re = r_word [ROr (r_seq [RLit ''LV-'', r_many Digit])
     (ROr (r_seq [RLit ''LR'', r_many Digit]) (r_seq [RLit ''LR-'', r_many Digit]))]"

definition asset_id_re :: re where
  "asset_id_re = r_word [RRun Letter 2 (Some 4), RLit ''-'', r_many LetterDigit, RLit ''-'', r_many Digit]"

definition leave_type_re :: re where
  "leave_type_re = r_word [RGroup (ROr (RLit ''Annual Leave'') (ROr (RLit ''Sick Leave'') (RLit ''Personal Leave'')))]"

definition iso_date_re :: re where
  "iso_date_re = r_word [RGroup (r_seq [r_times Digit 4, RLit ''-'', r_times Digit 2, RLit ''-'', r_times Digit 2])]"

definition recipient_re :: re where
  "recipient_re = r_seq [RBound, ROr (RLit ''to'') (RLit ''for''), r_many Space, RGroup (r_many NonSpace)]"

definition cubicle_id_re :: re where
  "cubicle_id_re = r_word [RLit ''C-'', r_times Digit 3]"

definition floor_num_re :: re where
  "floor_num_re = r_word [RLit ''floor'', r_many Space, RGroup (r_many Digit)]"

text \<open>\<open>0*\<close> is read greedily like the other runs; only the zeros before the number match it.\<close>

definition seat_num_re :: re where
  "seat_num_re = r_word [ROr (RLit ''seat'') (RLit ''cubicle''), r_many Space, ROr (RLit ''C-'') (RLit []),
     RRun Zero 0 None, RGroup (RRun Digit 1 (Some 3))]"

definition pending_intent_re :: re where
  "pending_intent_re = r_word [RGroup (ROr (RLit ''pending'')
     (ROr (r_seq [RLit ''need'', r_many Space, RLit ''to'', r_many Space, RLit ''approve''])
     (ROr (r_seq [RLit ''to'', r_many Space, RLit ''approve''])
          (r_seq [RLit ''awaiting'', r_many Space, RLit ''approval'']))))]"

section \<open>Inline arguments\<close>

text \<open>\<open>str.title\<close>; the matched texts it is applied to are ASCII.\<close>

fun title_from :: "bool \<Rightarrow> string \<Rightarrow> string" where
  "title_from inside [] = []"
| "title_from inside (c # cs) =
     (if ascii_letter c then (if inside then lower_char c else upper_char c) # title_from True cs
      else c # title_from False cs)"

definition py_title :: "string \<Rightarrow> string" where
  "py_title s = title_from False s"

definition trailing_punctuation :: string where
  "trailing_punctuation = ''.,;:!?''"

definition strip_recipient :: "string \<Rightarrow> string" where
  "strip_recipient s = rev (dropWhile (\<lambda>c. c \<in> set trailing_punctuation) (rev s))"

definition leave_type_of :: "string \<Rightarrow> string" where
  "leave_type_of g = (let t = py_title g in
     if py_lower t = ''annual leave'' then ''Annual Leave''
     else if py_lower t = ''sick leave'' then ''Sick Leave''
     else if py_lower t = ''personal leave'' then ''Personal Leave''
     else t)"

definition apply_leave_args :: "string \<Rightarrow> pydict" where
  "apply_leave_args message =
     (case re_search leave_type_re message of
        Some (_, g) \<Rightarrow> [(''leave_type'', PStr (leave_type_of (or_empty g)))] | None \<Rightarrow> [])
     @ (case re_findall iso_date_re message of
          [] \<Rightarrow> []
        | [d] \<Rightarrow> [(''start_date'', PStr d)]
        | d # e # _ \<Rightarrow> [(''start_date'', PStr d), (''end_date'', PStr e)])"

definition recipient_arg :: "string \<Rightarrow> string \<Rightarrow> pydict" where
  "recipient_arg k message = (case re_search recipient_re message of
       Some (_, g) \<Rightarrow> [(k, PStr (strip_recipient (or_empty g)))] | None \<Rightarrow> [])"

definition issue_asset_args :: "string \<Rightarrow> pydict" where
  "issue_asset_args message =
     (case re_search asset_id_re message of
        Some (m, _) \<Rightarrow> [(''asset_id'', PStr (py_upper m))] | None \<Rightarrow> [])
     @ recipient_arg ''employee_id'' message"

definition cubicle_arg :: "string \<Rightarrow> pydict" where
  "cubicle_arg message = (case re_search cubicle_id_re message of
       Some (m, _) \<Rightarrow> [(''cubicle_id'', PStr (py_upper m))]
     | None \<Rightarrow> (case re_search seat_num_re message of
          Some (_, g) \<Rightarrow> (let n = nat_of_digits (or_empty g)
             in if 1 \<le> n \<and> n \<le> 100 then [(''cubicle_id'', PStr (''C-'' @ pad3 n))] else [])
        | None \<Rightarrow> []))"

definition extract_inline_args :: "string \<Rightarrow> string \<Rightarrow> pydict" where
  "extract_inline_args tool_id message =
     (if tool_id = ''hr.apply_leave'' then apply_leave_args message
      else if tool_id = ''hr.approve_leave'' then
        (case re_search leave_id_re message of
           Some (m, _) \<Rightarrow> [(''leave_id'', PStr (py_upper m))] | None \<Rightarrow> [])
      else if tool_id = ''it.issue_asset'' then issue_asset_args message
      else if tool_id = ''hr.cubicle_list_floor'' then
        (case re_search floor_num_re message of
           Some (_, g) \<Rightarrow> [(''floor'', PInt (int (nat_of_digits (or_empty g))))] | None \<Rightarrow> [])
      else if tool_id = ''hr.cubicle_assign'' then
        cubicle_arg message @ recipient_arg ''employee_username'' message
      else if tool_id = ''hr.read_all_leaves'' then
        (if re_search pending_intent_re message \<noteq> None then [(''status'', PStr ''Pending'')] else [])
      else [])"

section \<open>Routing\<close>

definition compile_patterns :: "string list \<Rightarrow> re list" where
  "compile_patterns keywords = map (\<lambda>kw. RThen RBound (RLit kw)) keywords"

definition rule_matches :: "keyword_rule \<Rightarrow> string \<Rightarrow> bool" where
  "rule_matches rule txt = list_ex (\<lambda>p. re_search p txt \<noteq> None) (compile_patterns (rule_keywords rule))"

text \<open>\<open>d.update(e)\<close>.\<close>

definition dict_update :: "pydict \<Rightarrow> pydict \<Rightarrow> pydict" where
  "dict_update d e = fold (\<lambda>(k, v). AList.update k v) e d"

definition call_of_rule :: "keyword_rule \<Rightarrow> string \<Rightarrow> tool_call" where
  "call_of_rule rule message = \<lparr>tc_agent = rule_agent rule, tc_tool = rule_tool rule,
     tc_args = dict_update (rule_args rule) (extract_inline_args (rule_tool rule) message)\<rparr>"

fun route_rules :: "string list \<Rightarrow> keyword_rule list \<Rightarrow> string \<Rightarrow> tool_call list" where
  "route_rules seen [] message = []"
| "route_rules seen (rule # rules) message =
     (if rule_agent rule \<in> set seen then route_rules seen rules message
      else if rule_matches rule message
      then call_of_rule rule message # route_rules (rule_agent rule # seen) rules message
      else route_rules seen rules message)"

definition keyword_route :: "keyword_rule list \<Rightarrow> string \<Rightarrow> tool_call list" where
  "keyword_route rules message = route_rules [] rules message"

definition keyword_explain :: "keyword_rule list \<Rightarrow> string \<Rightarrow> string" where
  "keyword_explain rules message =
     (case map (\<lambda>r. rule_tool r @ '' ('' @ rule_agent r @ '')'') (filter (\<lambda>r. rule_matches r message) rules) of
        [] \<Rightarrow> ''no match''
      | m # ms \<Rightarrow> ''matched: '' @ str_join '', '' (m # ms))"

end
