(* ===== verification/BindingMessages.thy ===== *)
theory BindingMessages
  imports Prelude
begin

text \<open>
  \<open>common/auth/binding_messages.py\<close>: the consent texts and the choice between them.  A
  template is its text cut at the replacement fields; the dash of the texts is written as
  the three bytes of its UTF-8 encoding.
\<close>

datatype part = Lit string | AgentLabel | ActionText | RequestIdShort

type_synonym msg_template = "part list"

definition dash :: string where
  "dash = [CHR 0xE2, CHR 0x80, CHR 0x94]"

definition FRESH :: msg_template where
  "FRESH = [AgentLabel, Lit '' wants to '', ActionText, Lit ('' on your behalf '' @ dash @ '' request ''), RequestIdShort]"

definition REFRESH :: msg_template where
  "REFRESH = [AgentLabel, Lit ([CHR 0x27] @ ''s previous access has expired '' @ dash @ '' re-approve to ''), ActionText,
     Lit ('' on your behalf '' @ dash @ '' request ''), RequestIdShort]"

definition POST_USER_SIGNED_OUT :: msg_template where
  "POST_USER_SIGNED_OUT = [Lit (''Your previous session ended '' @ dash @ '' re-approve ''), AgentLabel, Lit '' to '', ActionText,
     Lit ('' on your behalf '' @ dash @ '' request ''), RequestIdShort]"

definition POST_ADMIN_TERMINATED :: msg_template where
  "POST_ADMIN_TERMINATED = [Lit (''Your previous session was ended by your administrator '' @ dash @ '' re-approve ''), AgentLabel,
     Lit '' to '', ActionText, Lit ('' on your behalf '' @ dash @ '' request ''), RequestIdShort]"

definition select_template :: "string option \<Rightarrow> bool \<Rightarrow> msg_template" where
  "select_template reason is_refresh =
     (if reason = Some ''admin_terminated'' then POST_ADMIN_TERMINATED
      else if reason = Some ''user_signed_out'' then POST_USER_SIGNED_OUT
      else if reason = Some ''token_expired'' \<or> is_refresh then REFRESH
      else FRESH)"

fun render_part :: "string \<Rightarrow> string \<Rightarrow> string \<Rightarrow> part \<Rightarrow> string" where
  "render_part agent_label action request_id (Lit s) = s"
| "render_part agent_label action request_id AgentLabel = agent_label"
| "render_part agent_label action request_id ActionText = action"
| "render_part agent_label action request_id RequestIdShort = take 8 request_id"

definition render :: "msg_template \<Rightarrow> string \<Rightarrow> string \<Rightarrow> string \<Rightarrow> string" where
  "render template agent_label action request_id = concat (map (render_part agent_label action request_id) template)"

lemmas template_defs = FRESH_def REFRESH_def POST_USER_SIGNED_OUT_def POST_ADMIN_TERMINATED_def

text \<open>Every consent text names the agent and the action, and ends with the short request id.\<close>

lemma render_names:
  "sublist agent_label (render (select_template reason f) agent_label action request_id)"
  "sublist action (render (select_template reason f) agent_label action request_id)"
  "suffix (take 8 request_id) (render (select_template reason f) agent_label action request_id)"
proof -
  let ?t = "select_template reason f" and ?r = "render_part agent_label action request_id"
  have t: "?t \<in> {FRESH, REFRESH, POST_USER_SIGNED_OUT, POST_ADMIN_TERMINATED}"
    by (simp add: select_template_def)
  have sub: "p \<in> set t \<Longrightarrow> sublist (?r p) (concat (map ?r t))" for p t
    by (induction t) (auto simp: sublist_append)
  have "AgentLabel \<in> set ?t" "ActionText \<in> set ?t" "\<exists>ps. ?t = ps @ [RequestIdShort]"
    using t by (auto simp: template_defs)
  then show "sublist agent_label (render ?t agent_label action request_id)"
    "sublist action (render ?t agent_label action request_id)"
    "suffix (take 8 request_id) (render ?t agent_label action request_id)"
    using sub [of AgentLabel ?t] sub [of ActionText ?t] by (auto simp: render_def suffix_def)
qed

end
