(* ===== verification/Ciba.thy ===== *)
theory Ciba
  imports TokenModels
begin

text \<open>
  \<open>common/auth/ciba_client.py\<close>: the initiation of a CIBA consent, the polling of the token
  endpoint and their composition.

  The identity server and the clock are parameters.  A \<open>poll_world\<close> says for the \<open>n\<close>-th
  attempt of a poll, counted from 1, whether the cancel event is set when the loop tests
  it, what the token endpoint answers, how long the request takes and by how much the
  sleep after it overruns.  The loop may not end (an interval of zero, a clock that stands
  still), so it is a partial function: \<open>None\<close> is not returning.  Next to its outcome it
  returns the times at which it sent its requests.
\<close>

section \<open>Initiation\<close>

record ciba_request =
  cr_auth_req_id :: py
  cr_auth_url :: py
  cr_interval_s :: int
  cr_expires_in_s :: int
  cr_issued_at :: real

record ciba_client_config =
  cc_is_base_url :: string
  cc_insecure_tls :: bool
  cc_notification_channel :: string
  cc_default_max_wait_seconds :: real

definition new_ciba_client_config :: "string \<Rightarrow> ciba_client_config" where
  "new_ciba_client_config url =
     \<lparr>cc_is_base_url = url, cc_insecure_tls = False, cc_notification_channel = ''external'',
      cc_default_max_wait_seconds = 300\<rparr>"

text \<open>The form the request carries.\<close>

definition ciba_form ::
  "ciba_client_config \<Rightarrow> string \<Rightarrow> string \<Rightarrow> py \<Rightarrow> string \<Rightarrow> string option \<Rightarrow> (string \<times> py) list"
where
  "ciba_form cfg login_hint binding_message actor_token scope resource =
     [(''scope'', PStr scope), (''login_hint'', PStr login_hint), (''binding_message'', PStr binding_message),
      (''actor_token'', actor_token),
      (''actor_token_type'', PStr ''urn:ietf:params:oauth:token-type:access_token''),
      (''notification_channel'', PStr (cc_notification_channel cfg))]
     @ (case resource of None \<Rightarrow> [] | Some r \<Rightarrow> [(''resource'', PStr r)])"

text \<open>The reply to a POST: a raised exception, a non-2xx status, or a 2xx body.\<close>

datatype ciba_reply = CibaRaised exn | CibaStatus int | CibaNotJson | CibaBody py

definition read_ciba_reply :: "real \<Rightarrow> ciba_reply \<Rightarrow> ciba_request res" where
  "read_ciba_reply now r =
     (case r of
        CibaRaised e \<Rightarrow> Inl e
      | CibaStatus c \<Rightarrow> Inl (raise_default CIBAInitiationError)
      | CibaNotJson \<Rightarrow> Inl (raise_default CIBAInitiationError)
      | CibaBody (PDict b) \<Rightarrow>
          (if \<not> truthy (pyget b ''auth_req_id'') then Inl (raise_default CIBAInitiationError)
           else (case (py_int (pyget_or b ''interval'' (PInt 2)), py_int (pyget_or b ''expires_in'' (PInt 120))) of
                   (Inl e, _) \<Rightarrow> Inl e
                 | (Inr _, Inl e) \<Rightarrow> Inl e
                 | (Inr i, Inr x) \<Rightarrow>
                     Inr \<lparr>cr_auth_req_id = pyget b ''auth_req_id'', cr_auth_url = pyget_or b ''auth_url'' (PStr []),
                          cr_interval_s = i, cr_expires_in_s = x, cr_issued_at = now\<rparr>))
      | CibaBody _ \<Rightarrow> Inl (EPy ''AttributeError''))"

text \<open>\<open>post\<close> is the endpoint: the reply to the credentials and the form.\<close>

definition initiate ::
  "ciba_client_config \<Rightarrow> (string \<Rightarrow> string \<Rightarrow> (string \<times> py) list \<Rightarrow> ciba_reply) \<Rightarrow> real
     \<Rightarrow> string \<Rightarrow> string \<Rightarrow> string \<Rightarrow> string \<Rightarrow> py \<Rightarrow> string \<Rightarrow> string option \<Rightarrow> ciba_request res"
where
  "initiate cfg post now client_id client_secret login_hint binding_message actor_token scope resource =
     read_ciba_reply now (post client_id client_secret (ciba_form cfg login_hint binding_message actor_token scope resource))"

section \<open>Polling\<close>

datatype poll_reply = PollNetworkError | PollRaised exn | PollNotJson | PollBody py

record poll_world =
  pw_cancelled :: "nat \<Rightarrow> bool"
  pw_reply :: "nat \<Rightarrow> poll_reply"
  pw_post_time :: "nat \<Rightarrow> real"
  pw_oversleep :: "nat \<Rightarrow> real"

text \<open>
  One answer: the outcome it decides, or the interval to sleep and go on with.  A body
  that is not JSON counts as an empty object.
\<close>

definition body_of :: "poll_reply \<Rightarrow> py" where
  "body_of r = (case r of PollBody b \<Rightarrow> b | _ \<Rightarrow> PDict [])"

definition poll_step :: "poll_reply \<Rightarrow> int \<Rightarrow> real \<Rightarrow> oauth_token res + int" where
  "poll_step r interval now =
     (case r of
        PollNetworkError \<Rightarrow> Inr interval
      | PollRaised e \<Rightarrow> Inl (Inl e)
      | _ \<Rightarrow>
         (case body_of r of
            PDict b \<Rightarrow>
             (let err = pyget b ''error''
              in if truthy (pyget b ''access_token'') then Inl (from_response b now)
                 else if err = PStr ''authorization_pending'' then Inr interval
                 else if err = PStr ''slow_down'' then Inr (interval + 5)
                 else if err = PStr ''expired_token'' then Inl (Inl (raise_default CIBAExpiredError))
                 else if err = PStr ''access_denied'' then Inl (Inl (raise_default CIBADeniedError))
                 else Inl (Inl (raise_default CIBAPollError)))
          | _ \<Rightarrow> Inl (Inl (EPy ''AttributeError''))))"

text \<open>\<open>asyncio.sleep\<close> of a negative time returns at once.\<close>

definition sleep_time :: "int \<Rightarrow> real" where
  "sleep_time interval = (if interval \<le> 0 then 0 else of_int interval)"

partial_function (option) poll_loop ::
  "poll_world \<Rightarrow> real \<Rightarrow> nat \<Rightarrow> int \<Rightarrow> real \<Rightarrow> (oauth_token res \<times> real list) option"
where
  "poll_loop w deadline n interval t =
     (if \<not> t < deadline then Some (Inl (raise_default CIBATimeoutError), [])
      else if pw_cancelled w n then Some (Inl (raise_default CIBATimeoutError), [])
      else (case poll_step (pw_reply w n) interval (t + pw_post_time w n) of
              Inl r \<Rightarrow> Some (r, [t])
            | Inr interval' \<Rightarrow>
                Option.bind (poll_loop w deadline (Suc n) interval'
                    (t + pw_post_time w n + sleep_time interval' + pw_oversleep w n))
                  (\<lambda>(r, ts). Some (r, t # ts))))"

definition poll_for_token ::
  "ciba_client_config \<Rightarrow> poll_world \<Rightarrow> real \<Rightarrow> ciba_request \<Rightarrow> real option \<Rightarrow> (oauth_token res \<times> real list) option"
where
  "poll_for_token cfg w now req max_wait_seconds =
     (let budget = (case max_wait_seconds of Some m \<Rightarrow> m | None \<Rightarrow> cc_default_max_wait_seconds cfg)
      in poll_loop w (now + budget) 1 (cr_interval_s req) now)"

section \<open>acquire_obo\<close>

text \<open>
  \<open>hook\<close> is \<open>on_consent_required\<close>, which may raise; the poll starts at the time the hook
  returns.
\<close>

definition acquire_obo ::
  "ciba_client_config \<Rightarrow> (string \<Rightarrow> string \<Rightarrow> (string \<times> py) list \<Rightarrow> ciba_reply) \<Rightarrow> poll_world \<Rightarrow> real \<Rightarrow> real
     \<Rightarrow> string \<Rightarrow> string \<Rightarrow> string \<Rightarrow> string \<Rightarrow> py \<Rightarrow> string \<Rightarrow> real option
     \<Rightarrow> (ciba_request \<Rightarrow> unit res) option \<Rightarrow> (ciba_request \<times> oauth_token) res option"
where
  "acquire_obo cfg post w now poll_start client_id client_secret login_hint binding_message actor_token scope max_wait hook =
     (case initiate cfg post now client_id client_secret login_hint binding_message actor_token scope None of
        Inl e \<Rightarrow> Some (Inl e)
      | Inr req \<Rightarrow>
         (case (case hook of None \<Rightarrow> Inr () | Some f \<Rightarrow> f req) of
            Inl e \<Rightarrow> Some (Inl e)
          | Inr _ \<Rightarrow>
             map_option (\<lambda>(r, ts). case r of Inl e \<Rightarrow> Inl e | Inr tok \<Rightarrow> Inr (req, tok))
               (poll_for_token cfg w poll_start req max_wait)))"

section \<open>Facts\<close>

lemma poll_step_interval: "poll_step r i now = Inr j \<Longrightarrow> i \<le> j"
  by (auto simp: poll_step_def Let_def split: poll_reply.splits py.splits if_splits)

lemma poll_step_independent: "poll_step r i now = Inr j \<Longrightarrow> poll_step r i' now' = Inr (i' + (j - i))"
  by (auto simp: poll_step_def Let_def split: poll_reply.splits py.splits if_splits)

definition fair_world :: "poll_world \<Rightarrow> bool" where
  "fair_world w = (\<forall>n. 0 \<le> pw_post_time w n \<and> 0 \<le> pw_oversleep w n)"

text \<open>The loop returns: every pass moves the clock by at least the interval.\<close>

lemma poll_loop_returns:
  assumes "fair_world w" and "1 \<le> interval" and "deadline - t \<le> real k * real_of_int interval"
  shows "\<exists>r ts. poll_loop w deadline n interval t = Some (r, ts) \<and> length ts \<le> k"
  using assms(2,3)
proof (induction k arbitrary: n interval t)
  case 0
  then have "\<not> t < deadline" by simp
  then show ?case by (subst poll_loop.simps) auto
next
  case (Suc k)
  show ?case
  proof (cases "\<not> t < deadline \<or> pw_cancelled w n")
    case True
    then show ?thesis by (subst poll_loop.simps) auto
  next
    case False
    show ?thesis
    proof (cases "poll_step (pw_reply w n) interval (t + pw_post_time w n)")
      case (Inl r)
      with False show ?thesis by (subst poll_loop.simps) auto
    next
      case (Inr j)
      let ?t = "t + pw_post_time w n + sleep_time j + pw_oversleep w n"
      have ij: "interval \<le> j" by (rule poll_step_interval [OF Inr])
      have "0 \<le> pw_post_time w n" "0 \<le> pw_oversleep w n" using assms(1) by (simp_all add: fair_world_def)
      then have "deadline - ?t \<le> deadline - t - real_of_int j" using Suc.prems ij by (simp add: sleep_time_def)
      also have "\<dots> \<le> real (Suc k) * real_of_int interval - real_of_int j" using Suc.prems by simp
      also have "\<dots> \<le> real k * real_of_int j"
      proof -
        have "real (Suc k) * real_of_int interval \<le> real (Suc k) * real_of_int j"
          using ij by (intro mult_left_mono) simp_all
        then show ?thesis by (simp add: algebra_simps)
      qed
      finally obtain r ts where "poll_loop w deadline (Suc n) j ?t = Some (r, ts)" "length ts \<le> k"
        using Suc.IH [of j ?t "Suc n"] Suc.prems ij by auto
      with False Inr show ?thesis by (subst poll_loop.simps) auto
    qed
  qed
qed

text \<open>
  It looks at the first passes only: what another world answers to the requests after as many
  as intervals fit into the remaining time makes no difference.
\<close>

definition same_polls :: "nat \<Rightarrow> nat \<Rightarrow> poll_world \<Rightarrow> poll_world \<Rightarrow> bool" where
  "same_polls n k w w' \<longleftrightarrow> (\<forall>m. n \<le> m \<and> m < n + k \<longrightarrow> pw_cancelled w' m = pw_cancelled w m \<and> pw_reply w' m = pw_reply w m
     \<and> pw_post_time w' m = pw_post_time w m \<and> pw_oversleep w' m = pw_oversleep w m)"

lemma poll_loop_same:
  assumes "fair_world w" and "1 \<le> interval" and "deadline - t \<le> real k * real_of_int interval" and "same_polls n k w w'"
  shows "poll_loop w' deadline n interval t = poll_loop w deadline n interval t"
  using assms(2-4)
proof (induction k arbitrary: n interval t)
  case 0
  then have "\<not> t < deadline" by simp
  then show ?case by (simp add: poll_loop.simps [of _ deadline n interval t])
next
  case (Suc k)
  have e: "pw_cancelled w' n = pw_cancelled w n" "pw_reply w' n = pw_reply w n"
    "pw_post_time w' n = pw_post_time w n" "pw_oversleep w' n = pw_oversleep w n"
    using Suc.prems(3) by (simp_all add: same_polls_def)
  show ?case
  proof (cases "poll_step (pw_reply w n) interval (t + pw_post_time w n)")
    case (Inl r)
    then show ?thesis by (simp add: e poll_loop.simps [of _ deadline n interval t])
  next
    case (Inr j)
    let ?t = "t + pw_post_time w n + sleep_time j + pw_oversleep w n"
    have ij: "interval \<le> j" by (rule poll_step_interval [OF Inr])
    have "0 \<le> pw_post_time w n" "0 \<le> pw_oversleep w n" using assms(1) by (simp_all add: fair_world_def)
    then have "deadline - ?t \<le> real (Suc k) * real_of_int interval - real_of_int j"
      using Suc.prems(1,2) ij by (simp add: sleep_time_def)
    moreover have "real (Suc k) * real_of_int interval \<le> real (Suc k) * real_of_int j"
      using ij by (intro mult_left_mono) simp_all
    ultimately have "deadline - ?t \<le> real k * real_of_int j" by (simp add: algebra_simps)
    moreover have "same_polls (Suc n) k w w'" using Suc.prems(3) by (auto simp: same_polls_def)
    ultimately have "poll_loop w' deadline (Suc n) j ?t = poll_loop w deadline (Suc n) j ?t"
      using Suc.IH [of j ?t "Suc n"] Suc.prems(1) ij by simp
    with Inr show ?thesis by (simp add: e poll_loop.simps [of _ deadline n interval t])
  qed
qed

text \<open>
  What a completed poll did: the sends are before the deadline, at least the interval apart
  and none is made once the cancel event is seen.
\<close>

lemma poll_loop_sends:
  assumes "fair_world w" and "1 \<le> interval" and "poll_loop w deadline n interval t = Some (r, ts)"
  shows "(\<forall>s \<in> set ts. t \<le> s \<and> s < deadline)
    \<and> (\<forall>i. Suc i < length ts \<longrightarrow> ts ! i + of_int interval \<le> ts ! Suc i)
    \<and> (\<forall>i < length ts. \<not> pw_cancelled w (n + i))"
  using assms(2,3)
proof (induction ts arbitrary: n interval t)
  case Nil
  then show ?case by simp
next
  case (Cons s ts)
  have go: "t < deadline" "\<not> pw_cancelled w n"
    using Cons.prems(2) by (subst (asm) poll_loop.simps; auto split: if_splits)+
  show ?case
  proof (cases "poll_step (pw_reply w n) interval (t + pw_post_time w n)")
    case (Inl r')
    then have "s = t" "ts = []"
      using Cons.prems(2) go by (subst (asm) poll_loop.simps; auto)+
    then show ?thesis using go by simp
  next
    case (Inr j)
    let ?t = "t + pw_post_time w n + sleep_time j + pw_oversleep w n"
    have st: "s = t" and rest: "poll_loop w deadline (Suc n) j ?t = Some (r, ts)"
      using Cons.prems(2) go Inr by (subst (asm) poll_loop.simps; auto simp: bind_eq_Some_conv)+
    have ij: "interval \<le> j" by (rule poll_step_interval [OF Inr])
    then have j1: "1 \<le> j" using Cons.prems(1) by simp
    have "0 \<le> pw_post_time w n" "0 \<le> pw_oversleep w n" using assms(1) by (simp_all add: fair_world_def)
    then have tt: "t + of_int interval \<le> ?t" using ij j1 by (simp add: sleep_time_def)
    note IH = Cons.IH [OF j1 rest]
    have low: "t \<le> ?t" using tt Cons.prems(1) by simp
    have "\<forall>x \<in> set (s # ts). t \<le> x \<and> x < deadline" using IH st go low by auto
    moreover have "(s # ts) ! i + of_int interval \<le> (s # ts) ! Suc i" if "Suc i < length (s # ts)" for i
    proof (cases i)
      case 0
      then show ?thesis using that IH st tt by (cases ts) auto
    next
      case (Suc m)
      then have "ts ! m + of_int j \<le> ts ! Suc m" using that IH by simp
      then show ?thesis using Suc ij by simp
    qed
    moreover have "\<not> pw_cancelled w (n + i)" if "i < length (s # ts)" for i
      using that IH go by (cases i) auto
    ultimately show ?thesis by blast
  qed
qed

text \<open>The replies the loop waits on, and the seconds each adds to the interval.\<close>

definition waits :: "poll_reply \<Rightarrow> bool" where
  "waits r = (case poll_step r 0 0 of Inl x \<Rightarrow> False | Inr j \<Rightarrow> True)"

definition backoff :: "poll_reply \<Rightarrow> int" where
  "backoff r = (case poll_step r 0 0 of Inl x \<Rightarrow> 0 | Inr j \<Rightarrow> j)"

lemma poll_step_waits: "poll_step r i now = Inr j \<longleftrightarrow> waits r \<and> j = i + backoff r"
  using poll_step_independent [of r i now j 0 0] poll_step_independent [of r 0 0 _ i now]
  by (auto simp: waits_def backoff_def split: sum.splits)

lemma poll_step_decides: "poll_step r i now = Inl x \<Longrightarrow> \<not> waits r"
  using poll_step_independent [of r 0 0 _ i now] by (auto simp: waits_def split: sum.splits)

lemma backoff_cases:
  "waits r \<Longrightarrow> backoff r = (case r of PollBody (PDict b) \<Rightarrow> if pyget b ''error'' = PStr ''slow_down'' then 5 else 0 | _ \<Rightarrow> 0)"
  by (auto simp: waits_def backoff_def poll_step_def body_of_def Let_def split: poll_reply.splits py.splits if_splits)

text \<open>The outcome is decided by the last answer, or by the clock or the cancel event.\<close>

lemma poll_loop_outcome:
  assumes "poll_loop w deadline n interval t = Some (r, ts)"
  shows "(\<exists>m i now. length ts = Suc m \<and> (\<forall>k < m. waits (pw_reply w (n + k))) \<and> poll_step (pw_reply w (n + m)) i now = Inl r)
     \<or> (r = Inl (raise_default CIBATimeoutError) \<and> (\<forall>k < length ts. waits (pw_reply w (n + k))))"
  using assms
proof (induction ts arbitrary: n interval t)
  case Nil
  then show ?case
    by (subst (asm) poll_loop.simps) (auto simp: bind_eq_Some_conv split: if_splits sum.splits)
next
  case (Cons s ts)
  have go: "t < deadline" "\<not> pw_cancelled w n"
    using Cons.prems by (subst (asm) poll_loop.simps; auto split: if_splits)+
  show ?case
  proof (cases "poll_step (pw_reply w n) interval (t + pw_post_time w n)")
    case (Inl r')
    then have "ts = []" "r = r'"
      using Cons.prems go by (subst (asm) poll_loop.simps; auto)+
    then show ?thesis using Inl
      by - (rule disjI1, rule exI [of _ 0], rule exI [of _ interval], rule exI [of _ "t + pw_post_time w n"], simp)
  next
    case (Inr j)
    then have rest: "poll_loop w deadline (Suc n) j (t + pw_post_time w n + sleep_time j + pw_oversleep w n) = Some (r, ts)"
      using Cons.prems go by (subst (asm) poll_loop.simps) (auto simp: bind_eq_Some_conv)
    have w0: "waits (pw_reply w n)" using Inr by (simp add: poll_step_waits)
    from Cons.IH [OF rest] show ?thesis
    proof (elim disjE exE conjE)
      fix m i now
      assume a: "length ts = Suc m" "\<forall>k<m. waits (pw_reply w (Suc n + k))" "poll_step (pw_reply w (Suc n + m)) i now = Inl r"
      have "\<forall>k < Suc m. waits (pw_reply w (n + k))" using a(2) w0 by (auto simp: less_Suc_eq_0_disj)
      then show ?thesis using a(1,3)
        by - (rule disjI1, rule exI [of _ "Suc m"], rule exI [of _ i], rule exI [of _ now], simp)
    next
      assume a: "r = Inl (raise_default CIBATimeoutError)" "\<forall>k<length ts. waits (pw_reply w (Suc n + k))"
      have "\<forall>k < length (s # ts). waits (pw_reply w (n + k))" using a(2) w0 by (auto simp: less_Suc_eq_0_disj)
      then show ?thesis using a(1) by blast
    qed
  qed
qed

text \<open>Each slow-down adds five seconds to every later gap.\<close>

lemma poll_loop_backoff:
  assumes "fair_world w" "1 \<le> interval" "poll_loop w deadline n interval t = Some (r, ts)" "Suc i < length ts"
  shows "ts ! i + of_int (interval + (\<Sum>k \<le> i. backoff (pw_reply w (n + k)))) \<le> ts ! Suc i"
  using assms(2-)
proof (induction i arbitrary: n interval t ts)
  case 0
  then obtain s s' ts' where ts: "ts = s # s' # ts'" by (cases ts; cases "tl ts") auto
  have go: "t < deadline" "\<not> pw_cancelled w n"
    using 0(2) ts by (subst (asm) poll_loop.simps; auto split: if_splits)+
  then obtain j where j: "poll_step (pw_reply w n) interval (t + pw_post_time w n) = Inr j"
    using 0(2) ts by (subst (asm) poll_loop.simps) (auto split: sum.splits)
  let ?t = "t + pw_post_time w n + sleep_time j + pw_oversleep w n"
  have st: "s = t" and rest: "poll_loop w deadline (Suc n) j ?t = Some (r, s' # ts')"
    using 0(2) ts go j by (subst (asm) poll_loop.simps; auto simp: bind_eq_Some_conv)+
  have "1 \<le> j" using poll_step_interval [OF j] 0(1) by simp
  moreover have "?t \<le> s'" using poll_loop_sends [OF assms(1) \<open>1 \<le> j\<close> rest] by simp
  moreover have "j = interval + backoff (pw_reply w n)" using j by (simp add: poll_step_waits)
  moreover have "0 \<le> pw_post_time w n" "0 \<le> pw_oversleep w n" using assms(1) by (simp_all add: fair_world_def)
  ultimately show ?case by (simp add: ts st sleep_time_def)
next
  case (Suc i)
  then obtain s ts' where ts: "ts = s # ts'" by (cases ts) auto
  have go: "t < deadline" "\<not> pw_cancelled w n"
    using Suc.prems(2) ts by (subst (asm) poll_loop.simps; auto split: if_splits)+
  then obtain j where j: "poll_step (pw_reply w n) interval (t + pw_post_time w n) = Inr j"
    using Suc.prems(2,3) ts by (subst (asm) poll_loop.simps) (auto split: sum.splits)
  have rest: "poll_loop w deadline (Suc n) j (t + pw_post_time w n + sleep_time j + pw_oversleep w n) = Some (r, ts')"
    using Suc.prems(2) ts go j by (subst (asm) poll_loop.simps) (auto simp: bind_eq_Some_conv)
  have j1: "1 \<le> j" using poll_step_interval [OF j] Suc.prems(1) by simp
  have ji: "j = interval + backoff (pw_reply w n)" using j by (simp add: poll_step_waits)
  have "(\<Sum>k \<le> Suc i. backoff (pw_reply w (n + k))) = backoff (pw_reply w n) + (\<Sum>k \<le> i. backoff (pw_reply w (Suc n + k)))"
    by (simp only: sum.atMost_Suc_shift) simp
  with Suc.IH [OF j1 rest] Suc.prems(3) show ?case by (simp add: ts ji add.assoc)
qed

end
