(* ===== verification/ActorToken.thy ===== *)
theory ActorToken
  imports TokenModels
begin

text \<open>
  \<open>common/auth/actor_token_provider.py\<close>: the choice of the login option, the minting of an
  agent's own token in three steps, and the provider that caches it for a few seconds.

  The identity server is a parameter: a \<open>mint_world\<close> says what one mint meets (the PKCE
  pair drawn, the replies of the three endpoints, the time when it is done).  The provider
  counts its mints; the count selects the world of the next one.  Its lock makes the slow
  path of \<open>ensure_valid_token\<close> one step.
\<close>

definition refresh_buffer_seconds :: int where
  "refresh_buffer_seconds = 2"

definition actor_token_cache_max_ttl_seconds :: int where
  "actor_token_cache_max_ttl_seconds = 10"

section \<open>Reading the replies\<close>

text \<open>\<open>x.get(k)\<close> and \<open>x or {}\<close> on a decoded value.\<close>

definition obj_get :: "py \<Rightarrow> string \<Rightarrow> py res" where
  "obj_get v k = (case v of PDict d \<Rightarrow> Inr (pyget d k) | _ \<Rightarrow> Inl (EPy ''AttributeError''))"

text \<open>\<open>for x in v\<close>: the items a loop sees.\<close>

definition py_iter :: "py \<Rightarrow> py list res" where
  "py_iter v = (case v of
       PList xs \<Rightarrow> Inr xs
     | PStr s \<Rightarrow> Inr (map (\<lambda>c. PStr [c]) s)
     | PDict d \<Rightarrow> Inr (map (\<lambda>(k, w). PStr k) d)
     | _ \<Rightarrow> Inl (EPy ''TypeError''))"

definition or_dict :: "py \<Rightarrow> py" where
  "or_dict v = (if truthy v then v else PDict [])"

definition sub_get :: "py \<Rightarrow> string \<Rightarrow> string \<Rightarrow> py res" where
  "sub_get v k1 k2 = (case obj_get v k1 of Inl e \<Rightarrow> Inl e | Inr x \<Rightarrow> obj_get (or_dict x) k2)"

text \<open>\<open>kw in x\<close> for a decoded \<open>x\<close>.\<close>

definition py_in :: "string \<Rightarrow> py \<Rightarrow> bool res" where
  "py_in kw v = (case v of PStr s \<Rightarrow> Inr (str_in kw s) | PList xs \<Rightarrow> Inr (PStr kw \<in> set xs)
     | PDict d \<Rightarrow> Inr (kw \<in> fst ` set d) | _ \<Rightarrow> Inl (EPy ''TypeError''))"

fun any_in :: "string list \<Rightarrow> py \<Rightarrow> bool res" where
  "any_in [] v = Inr False"
| "any_in (k # ks) v = (case py_in k v of Inl e \<Rightarrow> Inl e | Inr True \<Rightarrow> Inr True | Inr False \<Rightarrow> any_in ks v)"

definition is_local :: "py \<Rightarrow> bool" where
  "is_local a = (case a of PDict d \<Rightarrow> pyget d ''idp'' = PStr ''LOCAL'' | _ \<Rightarrow> False)"

text \<open>The two loops over the authenticators; \<open>None\<close> is falling through.\<close>

fun pick_basic :: "py list \<Rightarrow> py option res" where
  "pick_basic [] = Inr None"
| "pick_basic (a # as) =
     (case obj_get a ''idp'' of
        Inl e \<Rightarrow> Inl e
      | Inr idp \<Rightarrow>
         if idp \<noteq> PStr ''LOCAL'' then pick_basic as
         else (case obj_get a ''authenticator'' of
                 Inl e \<Rightarrow> Inl e
               | Inr nm \<Rightarrow>
                  (case any_in [''Basic'', ''Username'', ''Password''] (if truthy nm then nm else PStr []) of
                     Inl e \<Rightarrow> Inl e
                   | Inr True \<Rightarrow> map_sum id Some (obj_get a ''authenticatorId'')
                   | Inr False \<Rightarrow> pick_basic as)))"

fun pick_local :: "py list \<Rightarrow> py option res" where
  "pick_local [] = Inr None"
| "pick_local (a # as) =
     (case obj_get a ''idp'' of
        Inl e \<Rightarrow> Inl e
      | Inr idp \<Rightarrow> if idp = PStr ''LOCAL'' then map_sum id Some (obj_get a ''authenticatorId'') else pick_local as)"

definition pick_local_basic_authenticator :: "py \<Rightarrow> py res" where
  "pick_local_basic_authenticator authenticators =
     (case authenticators of
        PList [] \<Rightarrow> Inr PNone
      | PList (a # as) \<Rightarrow>
         (case pick_basic (a # as) of
            Inl e \<Rightarrow> Inl e
          | Inr (Some i) \<Rightarrow> Inr i
          | Inr None \<Rightarrow>
             (case pick_local (a # as) of
                Inl e \<Rightarrow> Inl e
              | Inr (Some i) \<Rightarrow> Inr i
              | Inr None \<Rightarrow> obj_get a ''authenticatorId''))
      | PStr s \<Rightarrow> if s = [] then Inr PNone else Inl (EPy ''AttributeError'')
      | PDict d \<Rightarrow> if d = [] then Inr PNone else Inl (EPy ''AttributeError'')
      | v \<Rightarrow> if truthy v then Inl (EPy ''TypeError'') else Inr PNone)"

section \<open>The authn loop\<close>

record mint_world =
  mw_verifier :: string
  mw_challenge :: string
  mw_authorize :: "string \<Rightarrow> py res"
  mw_authn :: "nat \<Rightarrow> py \<Rightarrow> py \<Rightarrow> py res"
  mw_exchange :: "py \<Rightarrow> string \<Rightarrow> oauth_token res"
  mw_done :: real

definition actor_error :: exn where
  "actor_error = raise_default ActorTokenError"

text \<open>The texts of the messages of type \<open>ERROR\<close>.\<close>

definition error_messages :: "py \<Rightarrow> string list res" where
  "error_messages messages =
     (case messages of
        PList ms \<Rightarrow> Inr (concat (map (\<lambda>m. case m of
            PDict d \<Rightarrow> if pyget d ''type'' = PStr ''ERROR''
                       then [py_str (pyget_or d ''messageId'' (PStr ''?'')) @ '': '' @ py_str (pyget_or d ''message'' (PStr []))]
                       else []
          | _ \<Rightarrow> []) ms))
      | PStr s \<Rightarrow> Inr []
      | PDict d \<Rightarrow> Inr []
      | v \<Rightarrow> if truthy v then Inl (EPy ''TypeError'') else Inr [])"

text \<open>
  What one answer of \<open>/authn\<close> leads to: an authorization code, the next authenticator, or an
  exception.
\<close>

datatype authn_next = GotCode py | NextAuthenticator py

definition authn_step :: "py \<Rightarrow> authn_next res" where
  "authn_step body =
     (case (sub_get body ''authData'' ''code'', obj_get body ''code'') of
        (Inl e, _) \<Rightarrow> Inl e
      | (Inr c1, c2) \<Rightarrow>
         if truthy c1 then Inr (GotCode c1)
         else (case c2 of
            Inl e \<Rightarrow> Inl e
          | Inr c \<Rightarrow>
             if truthy c then Inr (GotCode c)
             else
              (case body of
                 PDict b \<Rightarrow>
                  (let flow_status = pyget_or b ''flowStatus'' (PStr ''UNKNOWN'')
                   in case sub_get body ''nextStep'' ''messages'' of
                        Inl e \<Rightarrow> Inl e
                      | Inr msgs \<Rightarrow>
                         (case error_messages msgs of
                            Inl e \<Rightarrow> Inl e
                          | Inr errs \<Rightarrow>
                             if flow_status = PStr ''FAIL_INCOMPLETE''
                                \<or> (\<exists>m \<in> set errs. str_in ''ABA-60003'' m \<or> str_in ''login.fail'' m)
                             then Inl actor_error
                             else if flow_status = PStr ''INCOMPLETE'' then
                               (case sub_get body ''nextStep'' ''authenticators'' of
                                  Inl e \<Rightarrow> Inl e
                                | Inr as \<Rightarrow>
                                   if \<not> truthy as then Inl actor_error
                                   else (case pick_local_basic_authenticator as of
                                           Inl e \<Rightarrow> Inl e
                                         | Inr i \<Rightarrow> if truthy i then Inr (NextAuthenticator i) else Inl actor_error))
                             else Inl actor_error))
               | _ \<Rightarrow> Inl (EPy ''AttributeError''))))"

text \<open>
  The loop over at most \<open>k\<close> steps; next to its outcome, the authenticators the agent's
  credentials were sent to.
\<close>

fun authn_loop :: "(nat \<Rightarrow> py \<Rightarrow> py res) \<Rightarrow> nat \<Rightarrow> nat \<Rightarrow> py \<Rightarrow> py res \<times> py list" where
  "authn_loop authn 0 step current = (Inl actor_error, [])"
| "authn_loop authn (Suc k) step current =
     (case authn step current of
        Inl e \<Rightarrow> (Inl actor_error, [current])
      | Inr body \<Rightarrow>
         (case authn_step body of
            Inl e \<Rightarrow> (Inl e, [current])
          | Inr (GotCode c) \<Rightarrow> (Inr c, [current])
          | Inr (NextAuthenticator i) \<Rightarrow>
              (let (r, sent) = authn_loop authn k (Suc step) i in (r, current # sent))))"

definition max_authn_steps :: nat where
  "max_authn_steps = 4"

section \<open>Minting\<close>

text \<open>Steps 1 and 2: the authorization code.\<close>

definition obtain_code :: "mint_world \<Rightarrow> py res \<times> py list" where
  "obtain_code w =
     (case mw_authorize w (mw_challenge w) of
        Inl e \<Rightarrow> (Inl actor_error, [])
      | Inr body \<Rightarrow>
         (case (obj_get body ''flowId'', sub_get body ''nextStep'' ''authenticators'') of
            (Inl e, _) \<Rightarrow> (Inl e, [])
          | (Inr _, Inl e) \<Rightarrow> (Inl e, [])
          | (Inr flow_id, Inr as) \<Rightarrow>
             (case pick_local_basic_authenticator as of
                Inl e \<Rightarrow> (Inl e, [])
              | Inr authenticator_id \<Rightarrow>
                 (case (obj_get body ''flowStatus'', sub_get body ''authData'' ''code'') of
                    (Inl e, _) \<Rightarrow> (Inl e, [])
                  | (Inr _, Inl e) \<Rightarrow> (Inl e, [])
                  | (Inr flow_status, Inr code) \<Rightarrow>
                     if flow_status = PStr ''SUCCESS_COMPLETED'' \<and> truthy code then (Inr code, [])
                     else if \<not> truthy flow_id \<or> \<not> truthy authenticator_id then (Inl actor_error, [])
                     else authn_loop (\<lambda>n i. mw_authn w n flow_id i) max_authn_steps 0 authenticator_id))))"

text \<open>\<open>len(code)\<close> in the log line.\<close>

definition has_len :: "py \<Rightarrow> bool" where
  "has_len v = (case v of PStr s \<Rightarrow> True | PList xs \<Rightarrow> True | PDict d \<Rightarrow> True | _ \<Rightarrow> False)"

definition cap_expiry :: "real \<Rightarrow> oauth_token \<Rightarrow> oauth_token" where
  "cap_expiry now tok =
     (if now + of_int actor_token_cache_max_ttl_seconds < expires_at tok
      then tok\<lparr>expires_at := now + of_int actor_token_cache_max_ttl_seconds\<rparr> else tok)"

definition mint :: "mint_world \<Rightarrow> oauth_token res \<times> py list" where
  "mint w =
     (case obtain_code w of
        (Inl e, sent) \<Rightarrow> (Inl e, sent)
      | (Inr code, sent) \<Rightarrow>
          (if \<not> has_len code then Inl (EPy ''TypeError'')
           else (case mw_exchange w code (mw_verifier w) of
                   Inl e \<Rightarrow> Inl (if raised_as e ActorTokenError then e else actor_error)
                 | Inr tok \<Rightarrow>
                     if \<not> truthy (access_token tok) then Inl actor_error
                     else Inr (cap_expiry (mw_done w) tok)), sent))"

section \<open>The provider\<close>

record actor_provider =
  ap_buffer_seconds :: int
  ap_cached :: "oauth_token option"
  ap_mints :: nat

definition new_actor_provider :: actor_provider where
  "new_actor_provider = \<lparr>ap_buffer_seconds = refresh_buffer_seconds, ap_cached = None, ap_mints = 0\<rparr>"

definition is_fresh :: "actor_provider \<Rightarrow> real \<Rightarrow> bool" where
  "is_fresh p now = (case ap_cached p of None \<Rightarrow> False
     | Some t \<Rightarrow> now < expires_at t - of_int (ap_buffer_seconds p))"

text \<open>A failed mint leaves the cached token in place.\<close>

definition mint_into :: "(nat \<Rightarrow> mint_world) \<Rightarrow> actor_provider \<Rightarrow> oauth_token res \<times> actor_provider" where
  "mint_into world p =
     (let p' = p\<lparr>ap_mints := Suc (ap_mints p)\<rparr>
      in case fst (mint (world (ap_mints p))) of
           Inl e \<Rightarrow> (Inl e, p')
         | Inr tok \<Rightarrow> (Inr tok, p'\<lparr>ap_cached := Some tok\<rparr>))"

text \<open>The part of \<open>ensure_valid_token\<close> under the lock, entered at \<open>now\<close>.\<close>

definition ensure_locked :: "(nat \<Rightarrow> mint_world) \<Rightarrow> real \<Rightarrow> actor_provider \<Rightarrow> oauth_token res \<times> actor_provider" where
  "ensure_locked world now p =
     (if is_fresh p now then (Inr (the (ap_cached p)), p) else mint_into world p)"

definition ensure_valid_token ::
  "(nat \<Rightarrow> mint_world) \<Rightarrow> real \<Rightarrow> real \<Rightarrow> actor_provider \<Rightarrow> oauth_token res \<times> actor_provider"
where
  "ensure_valid_token world now lock_time p =
     (if is_fresh p now then (Inr (the (ap_cached p)), p) else ensure_locked world lock_time p)"

definition force_refresh :: "(nat \<Rightarrow> mint_world) \<Rightarrow> actor_provider \<Rightarrow> oauth_token res \<times> actor_provider" where
  "force_refresh world p = mint_into world p"

definition invalidate :: "actor_provider \<Rightarrow> actor_provider" where
  "invalidate p = p\<lparr>ap_cached := None\<rparr>"

section \<open>Facts\<close>

lemma authn_loop_bounded: "length (snd (authn_loop authn k step i)) \<le> k"
proof (induction k arbitrary: step i)
  case 0
  then show ?case by simp
next
  case (Suc k)
  then show ?case by (simp add: case_prod_beta split: sum.split authn_next.split)
qed

lemma mint_sent: "snd (mint w) = snd (obtain_code w)"
  by (simp add: mint_def case_prod_beta split: sum.split)

text \<open>The credentials go out in the authn loop only, started with the choice from the first answer.\<close>

lemma obtain_code_loop:
  "snd (obtain_code w) = [] \<or> (\<exists>body flow_id v i. mw_authorize w (mw_challenge w) = Inr body
     \<and> sub_get body ''nextStep'' ''authenticators'' = Inr v \<and> pick_local_basic_authenticator v = Inr i \<and> truthy i
     \<and> obtain_code w = authn_loop (\<lambda>n i. mw_authn w n flow_id i) max_authn_steps 0 i)"
proof (cases "mw_authorize w (mw_challenge w)")
  case (Inl e)
  then show ?thesis by (simp add: obtain_code_def)
next
  case (Inr body)
  show ?thesis
  proof (cases "\<exists>f v i s c. obj_get body ''flowId'' = Inr f \<and> sub_get body ''nextStep'' ''authenticators'' = Inr v
      \<and> pick_local_basic_authenticator v = Inr i \<and> obj_get body ''flowStatus'' = Inr s \<and> sub_get body ''authData'' ''code'' = Inr c")
    case True
    then obtain f v i s c where e: "obj_get body ''flowId'' = Inr f" "sub_get body ''nextStep'' ''authenticators'' = Inr v"
      "pick_local_basic_authenticator v = Inr i" "obj_get body ''flowStatus'' = Inr s" "sub_get body ''authData'' ''code'' = Inr c"
      by blast
    have "obtain_code w = (if s = PStr ''SUCCESS_COMPLETED'' \<and> truthy c then (Inr c, [])
       else if \<not> truthy f \<or> \<not> truthy i then (Inl actor_error, [])
       else authn_loop (\<lambda>n i. mw_authn w n f i) max_authn_steps 0 i)"
      using Inr e by (simp add: obtain_code_def)
    then show ?thesis using Inr e(2,3) by auto
  next
    case False
    then show ?thesis using Inr by (auto simp: obtain_code_def split: sum.split)
  qed
qed

lemma mint_cap: "fst (mint w) = Inr tok \<Longrightarrow> expires_at tok \<le> mw_done w + of_int actor_token_cache_max_ttl_seconds"
  by (auto simp: mint_def cap_expiry_def split: prod.splits sum.splits if_splits)

lemma mint_sends_few: "length (snd (mint w)) \<le> max_authn_steps"
  unfolding mint_sent using authn_loop_bounded [of _ max_authn_steps 0]
  using obtain_code_loop [of w] by fastforce

subsection \<open>Where the credentials go\<close>

lemma pick_basic_local:
  "pick_basic as = Inr (Some i) \<Longrightarrow> \<exists>a \<in> set as. is_local a \<and> obj_get a ''authenticatorId'' = Inr i"
proof (induction as)
  case Nil
  then show ?case by simp
next
  case (Cons a as)
  then show ?case
    by (auto simp: is_local_def obj_get_def split: sum.splits if_splits bool.splits py.splits)
qed

lemma pick_local_local:
  "pick_local as = Inr (Some i) \<Longrightarrow> \<exists>a \<in> set as. is_local a \<and> obj_get a ''authenticatorId'' = Inr i"
  by (induction as) (auto simp: is_local_def obj_get_def split: py.splits if_splits)

lemma pick_local_none: "pick_local as = Inr None \<Longrightarrow> \<forall>a \<in> set as. \<not> is_local a"
  by (induction as) (auto simp: is_local_def obj_get_def split: py.splits if_splits)

lemma pick_prefers_local:
  assumes "pick_local_basic_authenticator (PList as) = Inr i" "\<exists>a \<in> set as. is_local a"
  shows "\<exists>a \<in> set as. is_local a \<and> obj_get a ''authenticatorId'' = Inr i"
proof -
  obtain a0 as' where as: "as = a0 # as'" using assms(2) by (cases as) auto
  then show ?thesis
    using assms pick_basic_local [of as i] pick_local_local [of as i] pick_local_none [of as]
    by (auto simp: pick_local_basic_authenticator_def simp del: pick_basic.simps pick_local.simps
        split: sum.splits option.splits)
qed

text \<open>An answer whose list of authenticators, when it has one, offers a local one.\<close>

definition offers_local :: "py \<Rightarrow> bool" where
  "offers_local body \<longleftrightarrow> (\<forall>v. sub_get body ''nextStep'' ''authenticators'' = Inr v \<longrightarrow> truthy v \<longrightarrow>
     (\<exists>as. v = PList as \<and> (\<exists>a \<in> set as. is_local a)))"

definition local_id :: "py \<Rightarrow> py \<Rightarrow> bool" where
  "local_id body i \<longleftrightarrow> (\<exists>as a. sub_get body ''nextStep'' ''authenticators'' = Inr (PList as)
     \<and> a \<in> set as \<and> is_local a \<and> obj_get a ''authenticatorId'' = Inr i)"

lemma pick_offered:
  assumes "offers_local body" "sub_get body ''nextStep'' ''authenticators'' = Inr v"
    "pick_local_basic_authenticator v = Inr i" "truthy i"
  shows "local_id body i"
proof (cases "truthy v")
  case True
  then obtain as where as: "v = PList as" "\<exists>a \<in> set as. is_local a"
    using assms(1,2) unfolding offers_local_def by blast
  from pick_prefers_local [OF assms(3) [unfolded as(1)] as(2)] show ?thesis
    using assms(2) as(1) unfolding local_id_def by blast
next
  case False
  then have "i = PNone" using assms(3)
    by (auto simp: pick_local_basic_authenticator_def split: py.splits if_splits list.splits)
  then show ?thesis using assms(4) by simp
qed

lemma authn_step_next:
  "authn_step body = Inr (NextAuthenticator i) \<Longrightarrow> offers_local body \<Longrightarrow> local_id body i"
  by (auto simp: authn_step_def Let_def split: sum.splits py.splits if_splits intro: pick_offered)

lemma authn_loop_local:
  assumes "\<And>n c body. authn n c = Inr body \<Longrightarrow> offers_local body"
  shows "j \<in> set (snd (authn_loop authn k step i)) \<Longrightarrow>
     j = i \<or> (\<exists>n c body. authn n c = Inr body \<and> local_id body j)"
proof (induction k arbitrary: step i)
  case 0
  then show ?case by simp
next
  case (Suc k)
  show ?case
  proof (cases "j = i")
    case False
    with Suc.prems obtain body i' where b: "authn step i = Inr body" "authn_step body = Inr (NextAuthenticator i')"
      and j: "j \<in> set (snd (authn_loop authn k (Suc step) i'))"
      by (auto simp: case_prod_beta split: sum.splits authn_next.splits)
    from Suc.IH [OF j] show ?thesis using b authn_step_next [OF b(2) assms [OF b(1)]] by blast
  qed simp
qed

text \<open>The provider over sequences of calls.\<close>

datatype provider_op = Ensure real real | ForceRefresh | Invalidate

fun provider_exec :: "(nat \<Rightarrow> mint_world) \<Rightarrow> provider_op \<Rightarrow> actor_provider \<Rightarrow> actor_provider" where
  "provider_exec world (Ensure now lock_time) p = snd (ensure_valid_token world now lock_time p)"
| "provider_exec world ForceRefresh p = snd (force_refresh world p)"
| "provider_exec world Invalidate p = invalidate p"

definition provider_run :: "(nat \<Rightarrow> mint_world) \<Rightarrow> provider_op list \<Rightarrow> actor_provider \<Rightarrow> actor_provider" where
  "provider_run world ops p = fold (provider_exec world) ops p"

definition provider_inv :: "(nat \<Rightarrow> mint_world) \<Rightarrow> actor_provider \<Rightarrow> bool" where
  "provider_inv world p \<longleftrightarrow>
     (\<forall>tok. ap_cached p = Some tok \<longrightarrow> (\<exists>n < ap_mints p. fst (mint (world n)) = Inr tok))"

lemma mint_into_cases:
  "mint_into world p = (r, p') \<Longrightarrow> r = fst (mint (world (ap_mints p))) \<and> ap_mints p' = Suc (ap_mints p)
     \<and> ap_buffer_seconds p' = ap_buffer_seconds p
     \<and> ap_cached p' = (case r of Inl e \<Rightarrow> ap_cached p | Inr tok \<Rightarrow> Some tok)"
  by (auto simp: mint_into_def Let_def split: sum.splits)

lemma provider_inv_mint: "provider_inv world p \<Longrightarrow> provider_inv world (snd (mint_into world p))"
  using mint_into_cases [of world p "fst (mint_into world p)" "snd (mint_into world p)"]
  by (fastforce simp: provider_inv_def less_Suc_eq split: sum.splits)

lemma provider_inv_exec: "provider_inv world p \<Longrightarrow> provider_inv world (provider_exec world opr p)"
  by (cases opr)
     (auto simp: ensure_valid_token_def ensure_locked_def force_refresh_def provider_inv_mint,
      simp add: provider_inv_def invalidate_def)

lemma provider_inv_run: "provider_inv world p \<Longrightarrow> provider_inv world (provider_run world ops p)"
  unfolding provider_run_def by (induction ops arbitrary: p) (simp_all add: provider_inv_exec)

lemma provider_buffer_exec [simp]: "ap_buffer_seconds (provider_exec world opr p) = ap_buffer_seconds p"
  using mint_into_cases [of world p "fst (mint_into world p)" "snd (mint_into world p)"]
  by (cases opr) (auto simp: ensure_valid_token_def ensure_locked_def force_refresh_def invalidate_def)

lemma provider_buffer_run [simp]: "ap_buffer_seconds (provider_run world ops p) = ap_buffer_seconds p"
  unfolding provider_run_def by (induction ops arbitrary: p) simp_all

lemma provider_inv_new: "provider_inv world new_actor_provider"
  by (simp add: provider_inv_def new_actor_provider_def)

text \<open>A fresh provider serves every caller from its cache.\<close>

lemma ensure_fresh: "is_fresh p now \<Longrightarrow> ensure_valid_token world now lock_time p = (Inr (the (ap_cached p)), p)"
  by (simp add: ensure_valid_token_def)

end
