(* ===== verification/McpClients.thy ===== *)
theory McpClients
  imports TokenModels
begin

text \<open>
  \<open>hr_agent/mcp/client.py\<close> and \<open>it_agent/mcp/client.py\<close>: the thin HTTP clients by which the
  agents call the MCP servers.  A method is its name with the keyword arguments it is called
  with; it yields the path and the JSON body of one POST, or the \<open>TypeError\<close> of a call that
  does not fit its signature.  The transport is a parameter.
\<close>

section \<open>Signatures and bodies\<close>

definition call_method :: "string list \<Rightarrow> string list \<Rightarrow> pydict \<Rightarrow> 'a \<Rightarrow> 'a res" where
  "call_method required optional kwargs r =
     (if set required \<subseteq> fst ` set kwargs \<and> fst ` set kwargs \<subseteq> set (required @ optional) then Inr r
      else Inl (EPy ''TypeError''))"

text \<open>The arguments passed on as they are, and those left out when they are \<open>None\<close>.\<close>

definition pass_args :: "string list \<Rightarrow> pydict \<Rightarrow> pydict" where
  "pass_args ks kwargs = map (\<lambda>k. (k, pyget kwargs k)) ks"

definition pass_present :: "string list \<Rightarrow> pydict \<Rightarrow> pydict" where
  "pass_present ks kwargs = filter (\<lambda>(k, v). v \<noteq> PNone) (pass_args ks kwargs)"

definition tool_path :: "string \<Rightarrow> string" where
  "tool_path name = ''/mcp/tools/'' @ name"

definition hr_mcp_request :: "string \<Rightarrow> pydict \<Rightarrow> (string \<times> pydict) res" where
  "hr_mcp_request method kw =
     (if method = ''get_leave_policy'' then call_method [] [] kw (tool_path ''get_leave_policy'', [])
      else if method = ''get_leave_balance'' then
        call_method [] [''employee_id''] kw (tool_path ''get_leave_balance'', pass_present [''employee_id''] kw)
      else if method = ''get_leave_history'' then
        call_method [] [''employee_id'', ''limit''] kw
          (tool_path ''get_leave_history'', (''limit'', pyget_or kw ''limit'' (PInt 10)) # pass_present [''employee_id''] kw)
      else if method = ''apply_leave'' then
        call_method [''leave_type'', ''start_date'', ''end_date''] [''reason''] kw
          (tool_path ''apply_leave'', pass_args [''leave_type'', ''start_date'', ''end_date''] kw
             @ [(''reason'', pyget_or kw ''reason'' (PStr []))])
      else if method = ''approve_leave'' then
        call_method [''leave_id''] [] kw (tool_path ''approve_leave'', pass_args [''leave_id''] kw)
      else if method = ''reject_leave'' then
        call_method [''leave_id'', ''reason''] [] kw (tool_path ''reject_leave'', pass_args [''leave_id'', ''reason''] kw)
      else if method = ''get_cubicle_summary'' then call_method [] [] kw (tool_path ''get_cubicle_summary'', [])
      else if method = ''get_vacant_cubicles_on_floor'' then
        call_method [''floor''] [] kw (tool_path ''get_vacant_cubicles_on_floor'', pass_args [''floor''] kw)
      else if method = ''get_my_cubicle'' then call_method [] [] kw (tool_path ''get_my_cubicle'', [])
      else if method = ''assign_cubicle'' then
        call_method [''cubicle_id'', ''employee_username''] [''employee_email''] kw
          (tool_path ''assign_cubicle'', pass_args [''cubicle_id'', ''employee_username''] kw
             @ [(''employee_email'', pyget_or kw ''employee_email'' (PStr []))])
      else if method = ''lookup_employee'' then
        call_method [''username_or_email''] [] kw (tool_path ''lookup_employee'', pass_args [''username_or_email''] kw)
      else if method = ''get_all_leaves'' then
        call_method [] [''status'', ''employee_name''] kw
          (tool_path ''get_all_leave_requests'', pass_present [''status'', ''employee_name''] kw)
      else Inl (EPy ''AttributeError''))"

definition it_mcp_request :: "string \<Rightarrow> pydict \<Rightarrow> (string \<times> pydict) res" where
  "it_mcp_request method kw =
     (if method = ''list_available_assets'' then
        call_method [] [''asset_type''] kw (tool_path ''list_available_assets'', pass_present [''asset_type''] kw)
      else if method = ''get_my_assets'' then call_method [] [] kw (tool_path ''get_my_assets'', [])
      else if method = ''issue_asset'' then
        call_method [''asset_id'', ''employee_id''] [] kw
          (tool_path ''issue_asset'', pass_args [''asset_id'', ''employee_id''] kw)
      else Inl (EPy ''AttributeError''))"

section \<open>The POST\<close>

text \<open>
  What the transport answers: it raises, or it gives a status and the JSON value of the body,
  if the body is JSON.
\<close>

datatype http_answer = HttpRaised exn | HttpReply int "py option"

datatype mcp_reply = McpOk py | McpHttpError int "py option" | McpRaised exn

record mcp_headers =
  mh_authorization :: string
  mh_request_id :: string

definition build_headers :: "oauth_token \<Rightarrow> string \<Rightarrow> string \<Rightarrow> mcp_headers" where
  "build_headers token_b request_id fresh =
     \<lparr>mh_authorization = ''Bearer '' @ py_str (access_token token_b),
      mh_request_id = (if request_id \<noteq> [] then request_id else fresh)\<rparr>"

type_synonym transport = "string \<Rightarrow> mcp_headers \<Rightarrow> pydict \<Rightarrow> http_answer"

definition mcp_post :: "transport \<Rightarrow> string \<Rightarrow> string \<Rightarrow> oauth_token \<Rightarrow> string \<Rightarrow> pydict \<Rightarrow> mcp_reply" where
  "mcp_post net fresh path token_b request_id body =
     (case net path (build_headers token_b request_id fresh) body of
        HttpRaised e \<Rightarrow> McpRaised e
      | HttpReply status json \<Rightarrow>
          if \<not> (200 \<le> status \<and> status < 300) then McpHttpError status json
          else (case json of None \<Rightarrow> McpRaised (EPy ''JSONDecodeError'') | Some v \<Rightarrow> McpOk v))"

definition mcp_call ::
  "(string \<Rightarrow> pydict \<Rightarrow> (string \<times> pydict) res) \<Rightarrow> transport \<Rightarrow> string \<Rightarrow> string \<Rightarrow> oauth_token \<Rightarrow> string \<Rightarrow> pydict \<Rightarrow> mcp_reply"
where
  "mcp_call methods net fresh method token_b request_id kwargs =
     (case methods method kwargs of
        Inl e \<Rightarrow> McpRaised e
      | Inr (path, body) \<Rightarrow> mcp_post net fresh path token_b request_id body)"

section \<open>Facts\<close>

text \<open>A call reaches the server under the caller's token, or it raises without being sent.\<close>

lemma mcp_call_ok:
  "mcp_call methods net fresh m tok rid kw = McpOk v \<Longrightarrow>
     \<exists>path body status. methods m kw = Inr (path, body) \<and> 200 \<le> status \<and> status < 300
       \<and> net path (build_headers tok rid fresh) body = HttpReply status (Some v)"
  by (auto simp: mcp_call_def mcp_post_def split: sum.splits prod.splits http_answer.splits if_splits option.splits)

end
