(* ===== verification/Dispatcher.thy ===== *)
theory Dispatcher
  imports BindingMessages Ciba ActorToken Denylist McpClients HrService "HOL-Library.List_Lexorder" "HOL-Library.Char_ord"
begin

text \<open>
  \<open>hr_agent/ciba/orchestrator.py\<close> and its mirror \<open>it_agent/ciba/orchestrator.py\<close>: what an agent
  does with one tool call.  It serves the call from a cached token, or starts a consent at
  the identity server and leaves a background job that polls for the token and calls the
  MCP server with it.

  What differs between the two agents (the registry of tools, their required arguments and
  the consent texts) is an \<open>agent_kind\<close>; the two kinds are defined from the two files and
  everything else is shared.  The denylist is the one of the agent's event route and is an
  argument.  PyJWT's unverified decoding and the text of an exception are the fields of
  \<open>agent_lib\<close>.
\<close>

section \<open>Tools\<close>

record tool_entry =
  te_action :: string
  te_method :: string
  te_kwargs :: "pydict \<Rightarrow> pydict res"
  te_scope :: "string option"

definition entry :: "string \<Rightarrow> string \<Rightarrow> (pydict \<Rightarrow> pydict) \<Rightarrow> string option \<Rightarrow> tool_entry" where
  "entry action_text mcp_method kwargs scope =
     \<lparr>te_action = action_text, te_method = mcp_method, te_kwargs = (\<lambda>args. Inr (kwargs args)), te_scope = scope\<rparr>"

definition hr_tool_registry :: "string \<Rightarrow> tool_entry option" where
  "hr_tool_registry tool =
     (if tool = ''hr.read_policy'' then
        Some (entry ''View the company leave policy'' ''get_leave_policy'' (\<lambda>args. []) (Some ''openid hr_basic_rest''))
      else if tool = ''hr.read_balance'' then
        Some (entry ''View your leave balance'' ''get_leave_balance'' (\<lambda>args. []) None)
      else if tool = ''hr.read_history'' then
        Some (entry ''View your leave history'' ''get_leave_history'' (\<lambda>args. []) None)
      else if tool = ''hr.apply_leave'' then
        Some (entry ''Apply for leave on your behalf'' ''apply_leave''
          (\<lambda>args. [(''leave_type'', pyget args ''leave_type''), (''start_date'', pyget args ''start_date''),
                   (''end_date'', pyget args ''end_date''), (''reason'', pyget_or args ''reason'' (PStr []))])
          (Some ''openid hr_self_rest''))
      else if tool = ''hr.approve_leave'' then
        Some (entry ''Approve a leave request on your behalf'' ''approve_leave''
          (\<lambda>args. [(''leave_id'', pyget args ''leave_id'')]) (Some ''openid hr_approve_rest''))
      else if tool = ''hr.reject_leave'' then
        Some (entry ''Reject a leave request on your behalf'' ''reject_leave''
          (\<lambda>args. [(''leave_id'', pyget args ''leave_id''), (''reason'', pyget_or args ''reason'' (PStr []))])
          (Some ''openid hr_approve_rest''))
      else if tool = ''hr.cubicle_summary'' then
        Some (entry ''View vacant cubicles by floor'' ''get_cubicle_summary'' (\<lambda>args. []) (Some ''openid hr_read_rest''))
      else if tool = ''hr.cubicle_list_floor'' then
        Some \<lparr>te_action = ''View vacant cubicles on floor'', te_method = ''get_vacant_cubicles_on_floor'',
          te_kwargs = (\<lambda>args. case py_int (pyget_or args ''floor'' (PInt 1)) of
             Inl e \<Rightarrow> Inl e | Inr i \<Rightarrow> Inr [(''floor'', PInt i)]),
          te_scope = Some ''openid hr_read_rest''\<rparr>
      else if tool = ''hr.cubicle_assign'' then
        Some (entry ''Assign cubicle to employee'' ''assign_cubicle''
          (\<lambda>args. [(''cubicle_id'', pyget args ''cubicle_id''), (''employee_username'', pyget args ''employee_username''),
                   (''employee_email'', pyget_or args ''employee_email'' (PStr []))])
          (Some ''openid hr_assets_write_rest''))
      else if tool = ''hr.lookup_employee'' then
        Some (entry ''Look up an employee'' ''lookup_employee''
          (\<lambda>args. [(''username_or_email'', pyget_or args ''name'' (PStr []))]) (Some ''openid hr_read_rest''))
      else if tool = ''hr.cubicle_lookup_self'' then
        Some (entry ''View your cubicle assignment'' ''get_my_cubicle'' (\<lambda>args. []) None)
      else if tool = ''hr.read_all_leaves'' then
        Some (entry ''View all leave requests'' ''get_all_leaves''
          (\<lambda>args. [(''status'', pyget args ''status''), (''employee_name'', pyget args ''employee_name'')])
          (Some ''openid hr_approve_rest''))
      else None)"

definition it_tool_registry :: "string \<Rightarrow> tool_entry option" where
  "it_tool_registry tool =
     (if tool = ''it.list_available_assets'' then
        Some (entry ''List available IT assets'' ''list_available_assets''
          (\<lambda>args. [(''asset_type'', pyget args ''asset_type'')]) None)
      else if tool = ''it.get_my_assets'' then
        Some (entry ''View your assigned IT equipment'' ''get_my_assets'' (\<lambda>args. []) (Some ''openid it_assets_self_rest''))
      else if tool = ''it.issue_asset'' then
        Some (entry ''Issue an IT asset to an employee'' ''issue_asset''
          (\<lambda>args. [(''asset_id'', pyget args ''asset_id''), (''employee_id'', pyget args ''employee_id'')])
          (Some ''openid it_assets_write_rest''))
      else None)"

definition hr_required_args :: "string \<Rightarrow> string list" where
  "hr_required_args tool =
     (if tool = ''hr.approve_leave'' then [''leave_id'']
      else if tool = ''hr.reject_leave'' then [''leave_id'', ''reason'']
      else if tool = ''hr.apply_leave'' then [''leave_type'', ''start_date'', ''end_date'']
      else [])"

definition it_required_args :: "string \<Rightarrow> string list" where
  "it_required_args tool = (if tool = ''it.issue_asset'' then [''asset_id'', ''employee_id''] else [])"

section \<open>Consent texts\<close>

definition action_char :: "char \<Rightarrow> bool" where
  "action_char c =
     (let n = of_char c :: nat
      in (65 \<le> n \<and> n \<le> 90) \<or> (97 \<le> n \<and> n \<le> 122) \<or> (48 \<le> n \<and> n \<le> 57)
         \<or> c \<in> {CHR '' '', CHR ''.'', CHR ''-'', CHR ''_'', CHR 0x27, CHR ''@'', CHR '',''})"

definition action_text_max_len :: nat where
  "action_text_max_len = 256"

definition sanitise_action_text :: "string \<Rightarrow> string" where
  "sanitise_action_text value = take action_text_max_len (filter action_char value)"

text \<open>\<open>(args.get(k) or "").strip()\<close>\<close>

definition arg_stripped :: "pydict \<Rightarrow> string \<Rightarrow> string res" where
  "arg_stripped args k =
     (if \<not> truthy (pyget args k) then Inr []
      else case pyget args k of PStr s \<Rightarrow> Inr (py_strip s) | _ \<Rightarrow> Inl (EPy ''AttributeError''))"

text \<open>
  The action text for the consent widget and the binding message that replaces the rendered
  one.  The leave request is looked up in the store of the agent's own process, \<open>None\<close> when
  the service cannot be imported.
\<close>

type_synonym consent_texts = "string option \<times> string option"

definition hr_consent_texts :: "hr_store option \<Rightarrow> string \<Rightarrow> string \<Rightarrow> string \<Rightarrow> pydict \<Rightarrow> consent_texts res" where
  "hr_consent_texts own_store agent_label request_id tool args =
     (if tool = ''hr.cubicle_assign'' then
        (case (arg_stripped args ''cubicle_id'', arg_stripped args ''employee_username'') of
           (Inl e, _) \<Rightarrow> Inl e
         | (Inr _, Inl e) \<Rightarrow> Inl e
         | (Inr cubicle_id, Inr employee_username) \<Rightarrow>
             Inr (Some (sanitise_action_text (''Assign cubicle '' @ cubicle_id @ '' to '' @ employee_username)),
                  Some (sanitise_action_text (agent_label @ '' wants to assign cubicle '' @ cubicle_id
                          @ '' to '' @ employee_username @ '' corr-id '' @ request_id))))
      else if tool \<in> {''hr.approve_leave'', ''hr.reject_leave''} then
        (case arg_stripped args ''leave_id'' of
           Inl e \<Rightarrow> Inl e
         | Inr leave_id \<Rightarrow>
            (let verb = (if tool = ''hr.approve_leave'' then ''Approve'' else ''Reject'');
                 details = Option.bind own_store (get_leave_request_details leave_id);
                 (employee_label, start_date) = (case details of None \<Rightarrow> ([], []) | Some d \<Rightarrow> (dr_employee d, dr_start_date d))
             in Inr (Some (sanitise_action_text
                       (if employee_label \<noteq> [] \<and> start_date \<noteq> []
                        then verb @ '' '' @ employee_label @ [CHR 0x27] @ ''s leave from '' @ start_date
                        else verb @ '' leave request '' @ leave_id)), None)))
      else Inr (None, None))"

definition it_consent_texts :: "string \<Rightarrow> string \<Rightarrow> string \<Rightarrow> pydict \<Rightarrow> consent_texts res" where
  "it_consent_texts agent_label request_id tool args = Inr (None, None)"

record agent_kind =
  ak_name :: string
  ak_registry :: "string \<Rightarrow> tool_entry option"
  ak_required :: "string \<Rightarrow> string list"
  ak_texts :: "string \<Rightarrow> string \<Rightarrow> string \<Rightarrow> pydict \<Rightarrow> consent_texts res"

definition hr_agent :: "hr_store option \<Rightarrow> agent_kind" where
  "hr_agent own_store =
     \<lparr>ak_name = ''HR'', ak_registry = hr_tool_registry, ak_required = hr_required_args, ak_texts = hr_consent_texts own_store\<rparr>"

definition it_agent :: agent_kind where
  "it_agent =
     \<lparr>ak_name = ''IT'', ak_registry = it_tool_registry, ak_required = it_required_args, ak_texts = it_consent_texts\<rparr>"

section \<open>State\<close>

record agent_lib =
  al_unverified_claims :: "string \<Rightarrow> pydict option"
  al_str_exn :: "exn \<Rightarrow> string"

text \<open>\<open>_jti_of\<close>: the \<open>jti\<close> of the token, decoded without verification, or the empty string.\<close>

definition jti_of :: "agent_lib \<Rightarrow> oauth_token \<Rightarrow> string" where
  "jti_of lib tok =
     (case access_token tok of
        PStr s \<Rightarrow>
          if s = [] then []
          else (case al_unverified_claims lib s of
                  None \<Rightarrow> []
                | Some payload \<Rightarrow> if truthy (pyget payload ''jti'') then py_str (pyget payload ''jti'') else [])
      | _ \<Rightarrow> [])"

definition token_expiry_buffer :: int where
  "token_expiry_buffer = 30"

record cached_token =
  ct_token :: oauth_token
  ct_iat :: real
  ct_expires_at :: real

definition is_near_expiry :: "cached_token \<Rightarrow> real \<Rightarrow> bool" where
  "is_near_expiry c now = (ct_expires_at c - of_int token_expiry_buffer \<le> now)"

record dispatcher_deps =
  dd_ciba :: ciba_client_config
  dd_oauth_client_id :: string
  dd_oauth_client_secret :: string
  dd_agent_id :: string
  dd_agent_label :: string
  dd_ciba_scope :: string
  dd_max_poll_seconds :: real

type_synonym cache_key = "string \<times> string"

record dispatcher =
  dp_token_cache :: "cache_key \<rightharpoonup> cached_token"
  dp_jti_to_cache_key :: "string \<rightharpoonup> cache_key"
  dp_attached :: bool
  dp_provider :: actor_provider

definition new_dispatcher :: dispatcher where
  "new_dispatcher =
     \<lparr>dp_token_cache = Map.empty, dp_jti_to_cache_key = Map.empty, dp_attached = False, dp_provider = new_actor_provider\<rparr>"

definition disp_attach_revocation :: "dispatcher \<Rightarrow> dispatcher" where
  "disp_attach_revocation d = d\<lparr>dp_attached := True\<rparr>"

text \<open>\<open>revoke_jti\<close>: the index entry goes, and the cache entry under the key it held.\<close>

definition revoke_jti :: "string \<Rightarrow> dispatcher \<Rightarrow> dispatcher" where
  "revoke_jti jti d =
     (let d1 = d\<lparr>dp_jti_to_cache_key := (dp_jti_to_cache_key d)(jti := None)\<rparr>
      in case dp_jti_to_cache_key d jti of
           None \<Rightarrow> d1
         | Some cache_key \<Rightarrow> d1\<lparr>dp_token_cache := (dp_token_cache d1)(cache_key := None)\<rparr>)"

definition disp_denylist_contains :: "jti_denylist \<Rightarrow> dispatcher \<Rightarrow> string \<Rightarrow> bool" where
  "disp_denylist_contains denylist d jti = (if \<not> dp_attached d \<or> jti = [] then False else denylist_contains denylist jti)"

section \<open>Replies\<close>

record consent_required =
  cn_auth_req_id :: string
  cn_auth_url :: string
  cn_agent_label :: string
  cn_action :: string
  cn_scope :: string
  cn_binding_message :: string
  cn_expires_in :: int
  cn_is_refresh :: bool
  cn_prior_consent_at :: "real option"
  cn_action_text :: "string option"

record result_payload =
  rp_data :: pydict
  rp_token_jti :: string
  rp_token_exp :: int
  rp_token_iat :: int

record error_payload =
  ep_error_id :: string
  ep_reason :: string

datatype message_response = ConsentRequired consent_required | ResultReply result_payload | ErrorReply error_payload

text \<open>The strict models reject a field of another type.\<close>

definition make_result :: "agent_lib \<Rightarrow> py \<Rightarrow> oauth_token \<Rightarrow> int \<Rightarrow> int \<Rightarrow> result_payload res" where
  "make_result lib data tok exp_s iat_s =
     (case data of
        PDict d \<Rightarrow> Inr \<lparr>rp_data = d, rp_token_jti = jti_of lib tok, rp_token_exp = exp_s, rp_token_iat = iat_s\<rparr>
      | _ \<Rightarrow> Inl (EPy ''ValidationError''))"

section \<open>The request and the cache\<close>

text \<open>Steps 1 and 1b: the registry and the required arguments.\<close>

definition check_request :: "agent_kind \<Rightarrow> string \<Rightarrow> pydict \<Rightarrow> (error_payload + tool_entry \<times> pydict) res" where
  "check_request k tool args =
     (case ak_registry k tool of
        None \<Rightarrow> Inr (Inl \<lparr>ep_error_id = ''ERR-AGENT-001-tool-not-found'',
                   ep_reason = ''Tool '' @ repr_str tool @ '' is not registered in the '' @ ak_name k @ '' dispatcher''\<rparr>)
      | Some te \<Rightarrow>
         (case te_kwargs te args of
            Inl e \<Rightarrow> Inl e
          | Inr kwargs \<Rightarrow>
             (let missing = sort (filter (\<lambda>a. \<not> truthy (pyget args a)) (ak_required k tool))
              in if missing \<noteq> []
                 then Inr (Inl \<lparr>ep_error_id = ''ERR-AGENT-002'',
                        ep_reason = ''Missing required arguments for '' @ tool @ '': '' @ py_repr (PList (map PStr missing))\<rparr>)
                 else Inr (Inr (te, kwargs)))))"

definition effective_scope :: "dispatcher_deps \<Rightarrow> tool_entry \<Rightarrow> string" where
  "effective_scope deps te = (if or_empty (te_scope te) \<noteq> [] then or_empty (te_scope te) else dd_ciba_scope deps)"

type_synonym mcp_client = "string \<Rightarrow> oauth_token \<Rightarrow> string \<Rightarrow> pydict \<Rightarrow> mcp_reply"

text \<open>
  Step 1c: the reply served from the cache, \<open>None\<close> to go on with a consent.  An entry with a
  denied token or one the MCP server rejects is dropped.
\<close>

definition serve_cached ::
  "agent_lib \<Rightarrow> jti_denylist \<Rightarrow> mcp_client \<Rightarrow> real \<Rightarrow> cache_key \<Rightarrow> string \<Rightarrow> pydict \<Rightarrow> string \<Rightarrow> dispatcher
     \<Rightarrow> message_response res option \<times> dispatcher"
where
  "serve_cached lib denylist mcp now cache_key mcp_method mcp_kwargs request_id d =
     (case dp_token_cache d cache_key of
        None \<Rightarrow> (None, d)
      | Some cached \<Rightarrow>
         (let cached_jti = jti_of lib (ct_token cached);
              dropped = d\<lparr>dp_token_cache := (dp_token_cache d)(cache_key := None)\<rparr>
          in if disp_denylist_contains denylist d cached_jti
             then (None, dropped\<lparr>dp_jti_to_cache_key :=
                     if cached_jti = [] then dp_jti_to_cache_key d else (dp_jti_to_cache_key d)(cached_jti := None)\<rparr>)
             else if is_near_expiry cached now then (None, d)
             else (case mcp mcp_method (ct_token cached) request_id mcp_kwargs of
                     McpHttpError status json \<Rightarrow> (None, dropped)
                   | McpRaised e \<Rightarrow> (Some (Inl e), d)
                   | McpOk v \<Rightarrow>
                       (Some (map_sum id ResultReply (make_result lib v (ct_token cached)
                          (trunc_real (ct_expires_at cached)) (trunc_real (ct_iat cached)))), d))))"

section \<open>Starting a consent\<close>

text \<open>
  The in-flight state an await looks at; the background task that fills it works on the
  \<open>dispatch_job\<close>.
\<close>

record pending_state =
  pd_auth_req_id :: py
  pd_request_id :: string
  pd_started_at :: real
  pd_polling :: bool
  pd_completion :: bool
  pd_cancel :: bool
  pd_result :: "result_payload option"
  pd_error :: "error_payload option"

record dispatch_job =
  jb_request :: ciba_request
  jb_method :: string
  jb_kwargs :: pydict
  jb_request_id :: string
  jb_cache_key :: cache_key

definition new_pending_state :: "py \<Rightarrow> string \<Rightarrow> real \<Rightarrow> pending_state" where
  "new_pending_state auth_req_id request_id now =
     \<lparr>pd_auth_req_id = auth_req_id, pd_request_id = request_id, pd_started_at = now, pd_polling = True,
      pd_completion = False, pd_cancel = False, pd_result = None, pd_error = None\<rparr>"

text \<open>
  What a dispatch leaves behind: its reply, the background job with its state when one was
  started, and whether the state was entered in the pending map.
\<close>

record dispatch_outcome =
  do_response :: "message_response res"
  do_started :: "(pending_state \<times> dispatch_job) option"
  do_registered :: bool

definition replied :: "message_response res \<Rightarrow> dispatch_outcome" where
  "replied r = \<lparr>do_response = r, do_started = None, do_registered = False\<rparr>"

text \<open>What a dispatch meets: the clock at its steps, and the services it calls.\<close>

record dispatch_world =
  dw_now :: real
  dw_actor_now :: real
  dw_actor_lock :: real
  dw_initiated_at :: real
  dw_mcp :: mcp_client
  dw_mint :: "nat \<Rightarrow> mint_world"
  dw_ciba :: "string \<Rightarrow> string \<Rightarrow> (string \<times> py) list \<Rightarrow> ciba_reply"

text \<open>
  Steps 5 to 8.  The slice of the id in the name of the task and the key of the pending map
  need a string; a list can be sliced but not be a key.
\<close>

definition register_consent ::
  "dispatch_job \<Rightarrow> real \<Rightarrow> (string \<Rightarrow> string \<Rightarrow> consent_required) \<Rightarrow> dispatch_outcome"
where
  "register_consent job now payload =
     (let req = jb_request job;
          started = Some (new_pending_state (cr_auth_req_id req) (jb_request_id job) now, job)
      in case cr_auth_req_id req of
           PStr auth_req_id \<Rightarrow>
             (case cr_auth_url req of
                PStr auth_url \<Rightarrow>
                  \<lparr>do_response = Inr (ConsentRequired (payload auth_req_id auth_url)), do_started = started, do_registered = True\<rparr>
              | _ \<Rightarrow> \<lparr>do_response = Inl (EPy ''ValidationError''), do_started = started, do_registered = True\<rparr>)
         | PList xs \<Rightarrow> \<lparr>do_response = Inl (EPy ''TypeError''), do_started = started, do_registered = False\<rparr>
         | PDict m \<Rightarrow> replied (Inl (EPy ''KeyError''))
         | _ \<Rightarrow> replied (Inl (EPy ''TypeError'')))"

definition binding_message ::
  "dispatcher_deps \<Rightarrow> tool_entry \<Rightarrow> string option \<Rightarrow> bool \<Rightarrow> string \<Rightarrow> string option \<Rightarrow> string"
where
  "binding_message deps te last_logout_reason is_refresh request_id custom_binding_msg =
     (case custom_binding_msg of
        Some msg \<Rightarrow> msg
      | None \<Rightarrow> render (select_template last_logout_reason is_refresh) (dd_agent_label deps) (te_action te) request_id)"

text \<open>Steps 2 to 8.\<close>

definition start_consent ::
  "agent_kind \<Rightarrow> agent_lib \<Rightarrow> dispatcher_deps \<Rightarrow> dispatch_world \<Rightarrow> string \<Rightarrow> pydict \<Rightarrow> tool_entry \<Rightarrow> pydict
     \<Rightarrow> string \<Rightarrow> string \<Rightarrow> string option \<Rightarrow> real option \<Rightarrow> dispatcher \<Rightarrow> dispatch_outcome \<times> dispatcher"
where
  "start_consent k lib deps w tool args te mcp_kwargs user_sub request_id last_logout_reason prior_iat d =
     (let is_refresh = (prior_iat \<noteq> None); ciba_scope = effective_scope deps te
      in case ak_texts k (dd_agent_label deps) request_id tool args of
           Inl e \<Rightarrow> (replied (Inl e), d)
         | Inr (action_text, custom_binding_msg) \<Rightarrow>
            (let msg = binding_message deps te last_logout_reason is_refresh request_id custom_binding_msg;
                 (actor, provider') = ensure_valid_token (dw_mint w) (dw_actor_now w) (dw_actor_lock w) (dp_provider d);
                 d1 = d\<lparr>dp_provider := provider'\<rparr>
             in case actor of
                  Inl e \<Rightarrow> (replied (Inr (ErrorReply \<lparr>ep_error_id = ''ERR-AGENT-INTERNAL'',
                              ep_reason = ''Failed to obtain actor token: '' @ al_str_exn lib e\<rparr>)), d1)
                | Inr tok \<Rightarrow>
                   if \<not> has_len (access_token tok) then (replied (Inl (EPy ''TypeError'')), d1)
                   else
                    (case initiate (dd_ciba deps) (dw_ciba w) (dw_initiated_at w) (dd_oauth_client_id deps)
                            (dd_oauth_client_secret deps) user_sub msg (access_token tok) ciba_scope None of
                       Inl e \<Rightarrow> (replied (Inr (ErrorReply \<lparr>ep_error_id = ''ERR-CIBA-001'',
                                   ep_reason = ''CIBA initiation failed: '' @ al_str_exn lib e\<rparr>)), d1)
                     | Inr req \<Rightarrow>
                        (register_consent
                           \<lparr>jb_request = req, jb_method = te_method te, jb_kwargs = mcp_kwargs,
                            jb_request_id = request_id, jb_cache_key = (user_sub, ciba_scope)\<rparr>
                           (dw_initiated_at w)
                           (\<lambda>auth_req_id auth_url.
                              \<lparr>cn_auth_req_id = auth_req_id, cn_auth_url = auth_url, cn_agent_label = dd_agent_label deps,
                               cn_action = te_action te, cn_scope = ciba_scope, cn_binding_message = msg,
                               cn_expires_in = cr_expires_in_s req, cn_is_refresh = is_refresh,
                               cn_prior_consent_at = prior_iat, cn_action_text = action_text\<rparr>), d1))))"

definition dispatch ::
  "agent_kind \<Rightarrow> agent_lib \<Rightarrow> dispatcher_deps \<Rightarrow> dispatch_world \<Rightarrow> jti_denylist \<Rightarrow> string \<Rightarrow> pydict \<Rightarrow> string \<Rightarrow> string
     \<Rightarrow> string option \<Rightarrow> dispatcher \<Rightarrow> dispatch_outcome \<times> dispatcher"
where
  "dispatch k lib deps w denylist tool args user_sub request_id last_logout_reason d =
     (case check_request k tool args of
        Inl e \<Rightarrow> (replied (Inl e), d)
      | Inr (Inl err) \<Rightarrow> (replied (Inr (ErrorReply err)), d)
      | Inr (Inr (te, mcp_kwargs)) \<Rightarrow>
         (let cache_key = (user_sub, effective_scope deps te);
              prior_iat = map_option ct_iat (dp_token_cache d cache_key)
          in case serve_cached lib denylist (dw_mcp w) (dw_now w) cache_key (te_method te) mcp_kwargs request_id d of
               (Some r, d1) \<Rightarrow> (replied r, d1)
             | (None, d1) \<Rightarrow>
                 start_consent k lib deps w tool args te mcp_kwargs user_sub request_id last_logout_reason prior_iat d1))"

text \<open>The two dispatchers.\<close>

definition hr_dispatch where
  "hr_dispatch own_store = dispatch (hr_agent own_store)"

definition it_dispatch where
  "it_dispatch = dispatch it_agent"

section \<open>The background task\<close>

record run_world =
  rw_start :: real
  rw_poll :: poll_world
  rw_cancel_set :: bool
  rw_mcp :: mcp_client

text \<open>\<open>error_id\<close> in the detail of a rejected MCP call, when the body has one.\<close>

definition upstream_error_id :: "py option \<Rightarrow> py" where
  "upstream_error_id json =
     (case json of
        Some (PDict payload) \<Rightarrow>
          (case pyget_or payload ''detail'' (PDict payload) of PDict detail \<Rightarrow> pyget detail ''error_id'' | _ \<Rightarrow> PNone)
      | _ \<Rightarrow> PNone)"

text \<open>
  The \<open>except\<close> clauses; a strict model rejects an error id that is not a string, and that
  exception leaves the task.
\<close>

definition exn_error :: "agent_lib \<Rightarrow> bool \<Rightarrow> exn \<Rightarrow> error_payload" where
  "exn_error lib cancel_set e =
     (if raised_as e CIBADeniedError then \<lparr>ep_error_id = ''ERR-CIBA-005'', ep_reason = ''user_denied''\<rparr>
      else if raised_as e CIBAExpiredError then \<lparr>ep_error_id = ''ERR-CIBA-009'', ep_reason = ''auth_req_id_expired''\<rparr>
      else if raised_as e CIBATimeoutError then
        \<lparr>ep_error_id = ''ERR-CIBA-010'', ep_reason = (if cancel_set then ''cancelled'' else ''polling_timeout'')\<rparr>
      else \<lparr>ep_error_id = ''ERR-AGENT-INTERNAL'', ep_reason = al_str_exn lib e\<rparr>)"

definition http_error :: "agent_lib \<Rightarrow> int \<Rightarrow> py option \<Rightarrow> error_payload option" where
  "http_error lib status json =
     (let upstream_id = upstream_error_id json;
          error_id = (if truthy upstream_id then upstream_id else PStr ''ERR-MCP-005'')
      in case error_id of
           PStr i \<Rightarrow> Some \<lparr>ep_error_id = i,
                       ep_reason = ''MCP HTTP '' @ show_int status @ '': '' @ al_str_exn lib (EPy ''HTTPStatusError'')\<rparr>
         | _ \<Rightarrow> None)"

definition cache_issued :: "agent_lib \<Rightarrow> cache_key \<Rightarrow> oauth_token \<Rightarrow> dispatcher \<Rightarrow> dispatcher" where
  "cache_issued lib cache_key token_b d =
     (let jti = jti_of lib token_b
      in d\<lparr>dp_token_cache := (dp_token_cache d)(cache_key \<mapsto>
             \<lparr>ct_token = token_b, ct_iat = expires_at token_b - of_int (expires_in token_b), ct_expires_at = expires_at token_b\<rparr>),
           dp_jti_to_cache_key :=
             if jti \<noteq> [] then (dp_jti_to_cache_key d)(jti \<mapsto> cache_key) else dp_jti_to_cache_key d\<rparr>)"

text \<open>With a token: the MCP call, the caching and the result or error it leaves.\<close>

definition run_tool ::
  "agent_lib \<Rightarrow> bool \<Rightarrow> mcp_client \<Rightarrow> dispatch_job \<Rightarrow> oauth_token \<Rightarrow> dispatcher
     \<Rightarrow> (result_payload option \<times> error_payload option) \<times> dispatcher"
where
  "run_tool lib cancel_set mcp job token_b d =
     (case mcp (jb_method job) token_b (jb_request_id job) (jb_kwargs job) of
        McpHttpError status json \<Rightarrow> ((None, http_error lib status json), d)
      | McpRaised e \<Rightarrow> ((None, Some (exn_error lib cancel_set e)), d)
      | McpOk v \<Rightarrow>
          (case make_result lib v token_b (trunc_real (expires_at token_b))
                  (trunc_real (expires_at token_b - of_int (expires_in token_b))) of
             Inr res \<Rightarrow> ((Some res, None), cache_issued lib (jb_cache_key job) token_b d)
           | Inl e \<Rightarrow> ((None, Some (exn_error lib cancel_set e)), cache_issued lib (jb_cache_key job) token_b d)))"

text \<open>\<open>_run_to_completion\<close>; \<open>None\<close> when the poll does not return.\<close>

definition run_to_completion ::
  "agent_lib \<Rightarrow> dispatcher_deps \<Rightarrow> run_world \<Rightarrow> dispatch_job \<Rightarrow> pending_state \<Rightarrow> dispatcher
     \<Rightarrow> (pending_state \<times> dispatcher) option"
where
  "run_to_completion lib deps w job state d =
     (case poll_for_token (dd_ciba deps) (rw_poll w) (rw_start w) (jb_request job) (Some (dd_max_poll_seconds deps)) of
        None \<Rightarrow> None
      | Some (polled, sends) \<Rightarrow>
         (let ((result, error), d') =
                (case polled of
                   Inl e \<Rightarrow> ((None, Some (exn_error lib (rw_cancel_set w) e)), d)
                 | Inr token_b \<Rightarrow> run_tool lib (rw_cancel_set w) (rw_mcp w) job token_b d)
          in Some (state\<lparr>pd_result := result, pd_error := error, pd_completion := True, pd_polling := False\<rparr>, d')))"

section \<open>Facts\<close>

lemma register_consent_started:
  "do_started (register_consent job now f) = Some (st, job') \<Longrightarrow>
     job' = job \<and> st = new_pending_state (cr_auth_req_id (jb_request job)) (jb_request_id job) now"
  by (auto simp: register_consent_def Let_def replied_def split: py.splits)

lemma register_consent_registered:
  "do_registered (register_consent job now f) \<Longrightarrow> \<exists>a. cr_auth_req_id (jb_request job) = PStr a"
  by (auto simp: register_consent_def Let_def replied_def split: py.splits)

lemma register_consent_no_result: "do_response (register_consent job now f) \<noteq> Inr (ResultReply r)"
  by (auto simp: register_consent_def Let_def replied_def split: py.splits)

text \<open>What the identity server was asked when it gave a request id: the user and the scope.\<close>

definition asked :: "dispatcher_deps \<Rightarrow> dispatch_world \<Rightarrow> cache_key \<Rightarrow> ciba_request \<Rightarrow> bool" where
  "asked deps w key req \<longleftrightarrow>
     (\<exists>msg actor. initiate (dd_ciba deps) (dw_ciba w) (dw_initiated_at w) (dd_oauth_client_id deps)
        (dd_oauth_client_secret deps) (fst key) msg actor (snd key) None = Inr req)"

lemma start_consent_cases:
  assumes "start_consent k lib deps w tool args te kw user rid reason prior d = (out, d')"
  shows "\<exists>p. d' = d\<lparr>dp_provider := p\<rparr>"
    and "do_response out \<noteq> Inr (ResultReply r)"
    and "do_started out = Some (st, job) \<Longrightarrow> asked deps w (jb_cache_key job) (jb_request job)
       \<and> jb_cache_key job = (user, effective_scope deps te) \<and> jb_method job = te_method te
       \<and> st = new_pending_state (cr_auth_req_id (jb_request job)) rid (dw_initiated_at w)"
proof -
  show "\<exists>p. d' = d\<lparr>dp_provider := p\<rparr>"
    using assms by (auto simp: start_consent_def Let_def split: sum.splits prod.splits if_splits)
      (metis dispatcher.surjective dispatcher.update_convs(4))+
  show "do_response out \<noteq> Inr (ResultReply r)"
    using assms register_consent_no_result
    by (auto simp: start_consent_def Let_def replied_def split: sum.splits prod.splits if_splits)
  assume "do_started out = Some (st, job)"
  then show "asked deps w (jb_cache_key job) (jb_request job)
       \<and> jb_cache_key job = (user, effective_scope deps te) \<and> jb_method job = te_method te
       \<and> st = new_pending_state (cr_auth_req_id (jb_request job)) rid (dw_initiated_at w)"
    using assms
    by (auto simp: start_consent_def Let_def replied_def asked_def
        split: sum.splits prod.splits if_splits dest!: register_consent_started) blast
qed

text \<open>The reply from the cache, and the drop of the entry.\<close>

lemma serve_cached_result:
  assumes "serve_cached lib dl mcp now key m kw rid d = (Some (Inr r), d')"
  shows "\<exists>c v. d' = d \<and> dp_token_cache d key = Some c \<and> \<not> disp_denylist_contains dl d (jti_of lib (ct_token c))
    \<and> now < ct_expires_at c - 30 \<and> mcp m (ct_token c) rid kw = McpOk (PDict v)
    \<and> r = ResultReply \<lparr>rp_data = v, rp_token_jti = jti_of lib (ct_token c),
             rp_token_exp = trunc_real (ct_expires_at c), rp_token_iat = trunc_real (ct_iat c)\<rparr>"
  using assms
  by (auto simp: serve_cached_def Let_def is_near_expiry_def token_expiry_buffer_def make_result_def
      split: option.splits if_splits mcp_reply.splits py.splits)

lemma serve_cached_keeps:
  assumes "serve_cached lib dl mcp now key m kw rid d = (x, d')"
  shows "dp_attached d' = dp_attached d" "dp_provider d' = dp_provider d"
    "dp_token_cache d' = dp_token_cache d \<or> dp_token_cache d' = (dp_token_cache d)(key := None)"
  using assms
  by (auto simp: serve_cached_def Let_def split: option.splits if_splits mcp_reply.splits)

lemma serve_cached_denied:
  assumes "\<And>c. dp_token_cache d key = Some c \<Longrightarrow>
      disp_denylist_contains dl d (jti_of lib (ct_token c)) \<or> is_near_expiry c now"
  shows "serve_cached lib dl mcp now key m kw rid d = serve_cached lib dl mcp' now key m kw rid d"
    and "fst (serve_cached lib dl mcp now key m kw rid d) = None"
  using assms by (auto simp: serve_cached_def Let_def split: option.split)

subsection \<open>A dispatch\<close>

lemma dispatch_cache:
  assumes "dispatch k lib deps w dl tool args user rid reason d = (out, d')"
  shows "dp_attached d' = dp_attached d" and "dp_token_cache d' key = Some c \<Longrightarrow> dp_token_cache d key = Some c"
proof -
  have "dp_attached d' = dp_attached d \<and> (dp_token_cache d' key = Some c \<longrightarrow> dp_token_cache d key = Some c)"
  proof (cases "check_request k tool args")
    case (Inl e)
    with assms show ?thesis by (simp add: dispatch_def)
  next
    case (Inr x)
    show ?thesis
    proof (cases x)
      case (Inl e)
      with assms Inr show ?thesis by (simp add: dispatch_def)
    next
      case R: (Inr y)
      obtain te kw where y: "y = (te, kw)" by (cases y)
      let ?key = "(user, effective_scope deps te)"
      obtain z d1 where s: "serve_cached lib dl (dw_mcp w) (dw_now w) ?key (te_method te) kw rid d = (z, d1)" by fastforce
      note k = serve_cached_keeps [OF s]
      show ?thesis
      proof (cases z)
        case None
        with assms Inr R y s have "start_consent k lib deps w tool args te kw user rid reason
            (map_option ct_iat (dp_token_cache d ?key)) d1 = (out, d')" by (simp add: dispatch_def Let_def)
        from start_consent_cases(1) [OF this] show ?thesis using k by (auto split: if_splits)
      next
        case (Some r)
        with assms Inr R y s have "d' = d1" by (simp add: dispatch_def Let_def)
        then show ?thesis using k by (auto split: if_splits)
      qed
    qed
  qed
  then show "dp_attached d' = dp_attached d" "dp_token_cache d' key = Some c \<Longrightarrow> dp_token_cache d key = Some c" by auto
qed

lemma dispatch_started:
  assumes "dispatch k lib deps w dl tool args user rid reason d = (out, d')" and "do_started out = Some (st, job)"
  shows "asked deps w (jb_cache_key job) (jb_request job) \<and> fst (jb_cache_key job) = user
    \<and> st = new_pending_state (cr_auth_req_id (jb_request job)) rid (dw_initiated_at w)"
  using assms start_consent_cases(3) [of k lib deps w tool args]
  by (auto simp: dispatch_def Let_def replied_def split: sum.splits prod.splits option.splits) (metis fst_conv)+

lemma dispatch_result:
  assumes "dispatch k lib deps w dl tool args user rid reason d = (out, d')" and "do_response out = Inr (ResultReply r)"
  shows "\<exists>te kw. check_request k tool args = Inr (Inr (te, kw)) \<and> d' = d
    \<and> serve_cached lib dl (dw_mcp w) (dw_now w) (user, effective_scope deps te) (te_method te) kw rid d = (Some (Inr (ResultReply r)), d)"
  using assms start_consent_cases(2) [of k lib deps w tool args]
  by (auto simp: dispatch_def Let_def replied_def split: sum.splits prod.splits option.splits
      dest: serve_cached_result)

lemma dispatch_indifferent:
  assumes "\<And>te kw c. check_request k tool args = Inr (Inr (te, kw)) \<Longrightarrow>
      dp_token_cache d (user, effective_scope deps te) = Some c \<Longrightarrow>
      disp_denylist_contains dl d (jti_of lib (ct_token c)) \<or> is_near_expiry c (dw_now w)"
  shows "dispatch k lib deps (w\<lparr>dw_mcp := mcp'\<rparr>) dl tool args user rid reason d
       = dispatch k lib deps w dl tool args user rid reason d"
proof -
  have "start_consent k lib deps (w\<lparr>dw_mcp := mcp'\<rparr>) tool args te kw user rid reason p d1
      = start_consent k lib deps w tool args te kw user rid reason p d1" for te kw p d1
    by (simp add: start_consent_def Let_def split: sum.split prod.split)
  moreover have "serve_cached lib dl mcp' (dw_now w) (user, effective_scope deps te) (te_method te) kw rid d
      = serve_cached lib dl (dw_mcp w) (dw_now w) (user, effective_scope deps te) (te_method te) kw rid d"
    if "check_request k tool args = Inr (Inr (te, kw))" for te kw
    by (rule serve_cached_denied(1)) (rule assms [OF that])
  ultimately show ?thesis by (auto simp: dispatch_def Let_def split: sum.split option.split prod.split)
qed

subsection \<open>A background task\<close>

lemma run_tool_cache:
  assumes "run_tool lib b mcp job tok d = (x, d')"
  shows "d' = d \<or> d' = cache_issued lib (jb_cache_key job) tok d"
  using assms by (auto simp: run_tool_def split: mcp_reply.splits sum.splits)

lemma cache_issued_cache:
  "dp_token_cache (cache_issued lib key tok d) key' = Some c \<Longrightarrow>
     (key' = key \<and> ct_token c = tok \<and> ct_expires_at c = expires_at tok) \<or> dp_token_cache d key' = Some c"
  "dp_attached (cache_issued lib key tok d) = dp_attached d"
  by (auto simp: cache_issued_def Let_def split: if_splits)

text \<open>A task sets the completion and leaves a result or an error, never both.\<close>

lemma run_to_completion_state:
  assumes "run_to_completion lib deps w job st d = Some (st', d')"
  shows "pd_completion st'" "pd_auth_req_id st' = pd_auth_req_id st" "pd_cancel st' = pd_cancel st"
    "pd_result st' = None \<or> pd_error st' = None"
  using assms
  by (auto simp: run_to_completion_def run_tool_def Let_def
      split: option.splits prod.splits sum.splits mcp_reply.splits)

text \<open>A task changes the cache by entering the token its poll returned under the key of the job.\<close>

lemma run_to_completion_cache:
  assumes "run_to_completion lib deps w job st d = Some (st', d')" and "dp_token_cache d' key = Some c"
    and "dp_token_cache d key \<noteq> Some c"
  shows "key = jb_cache_key job \<and> ct_expires_at c = expires_at (ct_token c) \<and> (\<exists>ts. poll_for_token (dd_ciba deps) (rw_poll w) (rw_start w)
      (jb_request job) (Some (dd_max_poll_seconds deps)) = Some (Inr (ct_token c), ts))"
  using assms
  by (auto simp: run_to_completion_def Let_def split: option.splits prod.splits sum.splits
      dest!: run_tool_cache dest: cache_issued_cache(1))

lemma run_to_completion_attached:
  "run_to_completion lib deps w job st d = Some (st', d') \<Longrightarrow> dp_attached d' = dp_attached d"
  by (auto simp: run_to_completion_def Let_def cache_issued_cache split: option.splits prod.splits sum.splits
      dest!: run_tool_cache)

text \<open>With error ids that are strings or absent, one of the two is set.\<close>

lemma http_error_some:
  "is_str (upstream_error_id json) \<or> \<not> truthy (upstream_error_id json) \<Longrightarrow> http_error lib s json \<noteq> None"
  by (auto simp: http_error_def Let_def split: py.splits if_splits)

lemma run_to_completion_one:
  assumes "run_to_completion lib deps w job st d = Some (st', d')"
    and "\<And>m tok rid kw s json. rw_mcp w m tok rid kw = McpHttpError s json \<Longrightarrow>
      is_str (upstream_error_id json) \<or> \<not> truthy (upstream_error_id json)"
  shows "pd_result st' = None \<longleftrightarrow> pd_error st' \<noteq> None"
  using assms http_error_some
  by (auto simp: run_to_completion_def run_tool_def Let_def
      split: option.splits prod.splits sum.splits mcp_reply.splits)

text \<open>Of the poll's world the task sees the outcome of the poll.\<close>

lemma run_to_completion_polled:
  assumes "rw_start w' = rw_start w" "rw_cancel_set w' = rw_cancel_set w" "rw_mcp w' = rw_mcp w"
    and "poll_for_token (dd_ciba deps) (rw_poll w') (rw_start w) (jb_request job) (Some (dd_max_poll_seconds deps))
       = poll_for_token (dd_ciba deps) (rw_poll w) (rw_start w) (jb_request job) (Some (dd_max_poll_seconds deps))"
  shows "run_to_completion lib deps w' job st d = run_to_completion lib deps w job st d"
  unfolding run_to_completion_def assms ..

text \<open>The task returns: its poll does.\<close>

lemma run_to_completion_returns:
  assumes "fair_world (rw_poll w)" and "1 \<le> cr_interval_s (jb_request job)" and "0 \<le> dd_max_poll_seconds deps"
  shows "\<exists>st' d'. run_to_completion lib deps w job st d = Some (st', d')"
proof -
  let ?i = "real_of_int (cr_interval_s (jb_request job))" and ?k = "nat \<lceil>dd_max_poll_seconds deps\<rceil>"
  have "dd_max_poll_seconds deps \<le> real ?k" using assms(3) by linarith
  also have "real ?k \<le> real ?k * ?i" using assms(2) by (simp add: mult_le_cancel_left1)
  finally have "(rw_start w + dd_max_poll_seconds deps) - rw_start w \<le> real ?k * ?i" by simp
  from poll_loop_returns [OF assms(1,2) this, of 1] show ?thesis
    by (auto simp: run_to_completion_def poll_for_token_def Let_def split: prod.split)
qed

lemma revoke_jti_cache:
  "dp_token_cache (revoke_jti j d) key = Some c \<Longrightarrow> dp_token_cache d key = Some c"
  "dp_attached (revoke_jti j d) = dp_attached d"
  by (auto simp: revoke_jti_def Let_def split: option.splits if_splits)

text \<open>
  The index entry of a token outlives its cache entry: revoking the older of two tokens that
  were cached under one key drops the newer one.
\<close>

lemma stale_index_evicts:
  assumes "jti_of lib t1 \<noteq> []" and "jti_of lib t2 \<noteq> jti_of lib t1"
  shows "dp_token_cache (cache_issued lib key t2 (cache_issued lib key t1 d)) key \<noteq> None"
    and "dp_token_cache (revoke_jti (jti_of lib t1) (cache_issued lib key t2 (cache_issued lib key t1 d))) key = None"
  using assms by (auto simp: cache_issued_def revoke_jti_def Let_def)

text \<open>In an agent process without the leave request, the consent text falls back to its id.\<close>

lemma consent_text_fallback:
  "hr_consent_texts None label rid ''hr.approve_leave'' [(''leave_id'', PStr ''LR001'')]
     = Inr (Some ''Approve leave request LR001'', None)"
  by (simp add: hr_consent_texts_def arg_stripped_def py_strip_def py_lstrip_def py_rstrip_def py_ws_def
      sanitise_action_text_def action_text_max_len_def action_char_def)

end
