(* ===== verification/InternalEvents.thy ===== *)
theory InternalEvents
  imports AuthErrors Denylist
begin

text \<open>
  \<open>common/revocation/internal_events.py\<close>: the receiver of revocation events that the four
  services mount: the per-host sliding-window rate limit, the shared-secret check, the
  denylist insertion and the best-effort callback of the service.

  The closure variables of the router (denylist, rate buckets, secret) are the fields of
  \<open>events_router\<close>; the state of the service the callback changes is \<open>'s\<close>.  The body has
  passed the framework's parsing.
\<close>

section \<open>Data\<close>

record revoke_event =
  ev_type :: string
  ev_sub :: string
  ev_jti :: string
  ev_exp :: real
  ev_reason :: string

record events_router =
  er_state :: revocation_state
  er_shared_secret :: string
  er_rate_buckets :: "(string \<times> real list) list"

definition build_internal_events_router :: "revocation_state \<Rightarrow> string \<Rightarrow> events_router res" where
  "build_internal_events_router state shared_secret =
     (if shared_secret = [] then Inl (EPy ''ValueError'')
      else Inr \<lparr>er_state = state, er_shared_secret = shared_secret, er_rate_buckets = []\<rparr>)"

datatype ack = Acked "string option" | Refused nat string

section \<open>Rate limit\<close>

definition rate_window :: real where
  "rate_window = 60"

definition rate_max :: nat where
  "rate_max = 100"

text \<open>\<open>_rate_limit_check\<close>: expired entries leave on the left, an admitted call enters on the right.\<close>

definition rate_limit_check :: "string \<Rightarrow> real \<Rightarrow> (string \<times> real list) list \<Rightarrow> bool \<times> (string \<times> real list) list" where
  "rate_limit_check client_host now buckets =
     (let bucket = (case map_of buckets client_host of None \<Rightarrow> [] | Some b \<Rightarrow> b);
          live = dropWhile (\<lambda>t. t < now - rate_window) bucket
      in if rate_max \<le> length live then (False, AList.update client_host live buckets)
         else (True, AList.update client_host (live @ [now]) buckets))"

section \<open>The route\<close>

type_synonym 's revoke_callback = "string \<Rightarrow> string \<Rightarrow> real \<Rightarrow> string \<Rightarrow> 's \<Rightarrow> 's \<times> bool"

text \<open>
  The callback returns the service's state and whether it raised; the route answers the
  same either way.
\<close>

definition receive_event ::
  "'s revoke_callback option \<Rightarrow> revoke_event \<Rightarrow> string \<Rightarrow> string option \<Rightarrow> real \<Rightarrow> events_router \<Rightarrow> 's
     \<Rightarrow> ack \<times> events_router \<times> 's"
where
  "receive_event on_revoke body client_host x_internal_auth now r s =
     (let (allowed, buckets) = rate_limit_check client_host now (er_rate_buckets r);
          r1 = r\<lparr>er_rate_buckets := buckets\<rparr>
      in if \<not> allowed then (Refused 429 ''rate_limited'', r1, s)
         else if or_empty x_internal_auth \<noteq> er_shared_secret r then (Refused 401 ''invalid_secret'', r1, s)
         else if ev_type body \<noteq> ''session-revoked'' then (Refused 400 ''unknown_event_type'', r1, s)
         else
           (let already_present = denylist_contains (revoked_jtis (er_state r1)) (ev_jti body)
            in case denylist_add (revoked_jtis (er_state r1)) (ev_jti body) (ev_exp body) of
                 None \<Rightarrow> (Refused 500 ''KeyError'', r1, s)
               | Some d \<Rightarrow>
                   (Acked (if already_present then Some ''jti already in denylist'' else None),
                    r1\<lparr>er_state := (er_state r1)\<lparr>revoked_jtis := d\<rparr>\<rparr>,
                    case on_revoke of None \<Rightarrow> s
                    | Some f \<Rightarrow> fst (f (ev_jti body) (ev_sub body) (ev_exp body) (ev_reason body) s))))"

section \<open>Facts\<close>

lemma receive_event_cases:
  assumes "receive_event cb b host auth now r s = (a, r', s')"
  shows "(\<exists>n i. a = Refused n i \<and> er_state r' = er_state r \<and> s' = s) \<or>
    (\<exists>note d. a = Acked note \<and> or_empty auth = er_shared_secret r \<and> ev_type b = ''session-revoked''
       \<and> denylist_add (revoked_jtis (er_state r)) (ev_jti b) (ev_exp b) = Some d
       \<and> revoked_jtis (er_state r') = d)"
  using assms by (auto simp: receive_event_def Let_def split: if_splits option.splits prod.splits)

lemma receive_event_acked:
  "receive_event cb b host auth now r s = (Acked note, r', s') \<Longrightarrow>
     denylist_contains (revoked_jtis (er_state r')) (ev_jti b)"
  by (auto dest!: receive_event_cases)

lemma denylist_add_keeps_same:
  "denylist_contains d j \<Longrightarrow> denylist_add d j v = Some d' \<Longrightarrow> denylist_contains d' k \<longleftrightarrow> denylist_contains d k"
proof -
  assume c: "denylist_contains d j" and a: "denylist_add d j v = Some d'"
  then have j: "j \<in> fst ` set (dl_items d)" by (simp add: denylist_contains_iff)
  then have "dl_items d' = AList.delete j (dl_items d) @ [(j, v)]"
    using a by (auto simp: denylist_add_def od_keys_def move_update_spec)
  then show ?thesis using j by (auto simp: denylist_contains_iff keys_delete)
qed

text \<open>A repeated event leaves the set of revoked ids as it is.\<close>

lemma receive_event_idempotent:
  assumes "denylist_contains (revoked_jtis (er_state r)) (ev_jti b)"
    and "receive_event cb b host auth now r s = (a, r', s')"
  shows "denylist_contains (revoked_jtis (er_state r')) k \<longleftrightarrow> denylist_contains (revoked_jtis (er_state r)) k"
  using receive_event_cases [OF assms(2)] denylist_add_keeps_same [OF assms(1)] by auto

subsection \<open>The window\<close>

text \<open>The times of the calls a host had admitted: in order, and at most the maximum.\<close>

definition bucket_of :: "string \<Rightarrow> (string \<times> real list) list \<Rightarrow> real list" where
  "bucket_of h bs = (case map_of bs h of None \<Rightarrow> [] | Some b \<Rightarrow> b)"

definition rate_inv :: "(string \<times> real list) list \<Rightarrow> bool" where
  "rate_inv bs = (\<forall>h. length (bucket_of h bs) \<le> rate_max \<and> sorted (bucket_of h bs))"

lemma sorted_dropWhile_filter:
  "sorted xs \<Longrightarrow> dropWhile (\<lambda>t. t < (a :: real)) xs = filter (\<lambda>t. a \<le> t) xs"
proof (induction xs)
  case Nil
  then show ?case by simp
next
  case (Cons x xs)
  show ?case
  proof (cases "x < a")
    case True
    then show ?thesis using Cons by simp
  next
    case False
    then have "\<forall>t \<in> set (x # xs). a \<le> t" using Cons.prems by auto
    then have "filter (\<lambda>t. a \<le> t) (x # xs) = x # xs" by (simp add: filter_id_conv)
    then show ?thesis using False by simp
  qed
qed

lemma rate_limit_bucket:
  "bucket_of h (snd (rate_limit_check host now bs)) =
     (if h = host
      then dropWhile (\<lambda>t. t < now - rate_window) (bucket_of host bs)
           @ (if fst (rate_limit_check host now bs) then [now] else [])
      else bucket_of h bs)"
  by (auto simp: rate_limit_check_def bucket_of_def Let_def dict_simps)

lemma rate_limit_inv:
  assumes "rate_inv bs" and "\<forall>t \<in> set (bucket_of host bs). t \<le> now"
  shows "rate_inv (snd (rate_limit_check host now bs))"
proof -
  let ?live = "dropWhile (\<lambda>t. t < now - rate_window) (bucket_of host bs)"
  have s: "sorted (bucket_of host bs)" and l: "length (bucket_of host bs) \<le> rate_max"
    using assms(1) by (simp_all add: rate_inv_def)
  have "sorted ?live" "\<forall>t \<in> set ?live. t \<le> now"
    using s assms(2) by (auto simp: sorted_dropWhile_filter sorted_filter [where f = id, simplified])
  moreover have "length ?live \<le> rate_max"
    by (rule order_trans [OF length_dropWhile_le l])
  moreover have "fst (rate_limit_check host now bs) \<Longrightarrow> length ?live < rate_max"
    by (auto simp: rate_limit_check_def bucket_of_def Let_def split: if_splits option.splits)
  ultimately have "length (bucket_of host (snd (rate_limit_check host now bs))) \<le> rate_max
      \<and> sorted (bucket_of host (snd (rate_limit_check host now bs)))"
    by (auto simp: rate_limit_bucket sorted_append)
  then show ?thesis using assms(1) by (auto simp: rate_inv_def rate_limit_bucket [of _ host])
qed

text \<open>An admitted call counts at most the maximum of admitted calls in the last window.\<close>

lemma rate_limit_admits:
  assumes "rate_inv bs" "rate_limit_check host now bs = (True, bs')"
  shows "length (filter (\<lambda>t. now - rate_window \<le> t) (bucket_of host bs)) < rate_max"
  using assms sorted_dropWhile_filter [of "bucket_of host bs" "now - rate_window"]
  by (auto simp: rate_limit_check_def bucket_of_def rate_inv_def Let_def split: if_splits)

lemma rate_limit_refuses:
  assumes "rate_inv bs"
    and "rate_max \<le> length (filter (\<lambda>t. now - rate_window \<le> t) (bucket_of host bs))"
  shows "fst (rate_limit_check host now bs) = False"
  using rate_limit_admits [OF assms(1), of host now] assms(2)
  by (cases "rate_limit_check host now bs"; cases "fst (rate_limit_check host now bs)") auto

subsection \<open>Runs of the limiter\<close>

text \<open>The calls, host and time, that a sequence of calls gets admitted.\<close>

fun rate_run :: "(string \<times> real) list \<Rightarrow> (string \<times> real list) list \<Rightarrow> (string \<times> real) list" where
  "rate_run [] bs = []"
| "rate_run ((h, now) # calls) bs =
     (let (ok, bs') = rate_limit_check h now bs
      in (if ok then [(h, now)] else []) @ rate_run calls bs')"

definition in_window :: "real \<Rightarrow> real \<Rightarrow> bool" where
  "in_window t a = (t - rate_window \<le> a \<and> a \<le> t)"

definition rate_past :: "string \<Rightarrow> real list \<Rightarrow> (string \<times> real list) list \<Rightarrow> real \<Rightarrow> bool" where
  "rate_past host past bs lo \<longleftrightarrow>
     sorted (bucket_of host bs) \<and> (\<forall>a \<in> set past. a \<le> lo) \<and> (\<forall>a \<in> set (bucket_of host bs). a \<le> lo)
     \<and> filter (\<lambda>a. lo - rate_window \<le> a) past = filter (\<lambda>a. lo - rate_window \<le> a) (bucket_of host bs)
     \<and> (\<forall>t. length (filter (in_window t) past) \<le> rate_max)"

lemma rate_past_later:
  assumes "rate_past host past bs lo" "lo \<le> now"
  shows "rate_past host past bs now"
proof -
  let ?P = "\<lambda>a. lo - rate_window \<le> a" and ?Q = "\<lambda>a. now - rate_window \<le> a"
  have "filter ?Q xs = filter ?Q (filter ?P xs)" for xs
    using assms(2) by (auto intro: filter_cong)
  then have "filter ?Q past = filter ?Q (bucket_of host bs)"
    using assms(1) unfolding rate_past_def by metis
  then show ?thesis using assms by (force simp: rate_past_def)
qed

lemma rate_past_step:
  assumes p: "rate_past host past bs now" and r: "rate_limit_check h now bs = (ok, bs')"
  shows "rate_past host (past @ (if h = host \<and> ok then [now] else [])) bs' now"
proof (cases "h = host")
  case False
  then have "bucket_of host bs' = bucket_of host bs"
    using rate_limit_bucket [of host h now bs] r by simp
  then show ?thesis using p False by (simp add: rate_past_def)
next
  case True
  let ?live = "filter (\<lambda>a. now - rate_window \<le> a) (bucket_of host bs)"
  have s: "sorted (bucket_of host bs)" using p by (simp add: rate_past_def)
  have b: "bucket_of host bs' = ?live @ (if ok then [now] else [])"
    using rate_limit_bucket [of host host now bs] r True by (simp add: sorted_dropWhile_filter [OF s])
  have past: "filter (\<lambda>a. now - rate_window \<le> a) past = ?live" using p by (simp add: rate_past_def)
  have sl: "sorted ?live" using s sorted_filter [where f = id, simplified] by blast
  have le: "\<forall>a \<in> set (bucket_of host bs). a \<le> now" using p by (simp add: rate_past_def)
  show ?thesis
  proof (cases ok)
    case no: False
    then show ?thesis using p b past sl by (auto simp: rate_past_def)
  next
    case yes: True
    have small: "length ?live < rate_max"
      using r True yes by (auto simp: rate_limit_check_def bucket_of_def Let_def
          sorted_dropWhile_filter [OF s [unfolded bucket_of_def]] split: if_splits)
    have "length (filter (in_window t) (past @ [now])) \<le> rate_max" for t
    proof (cases "now \<le> t")
      case True
      then have "length (filter (in_window t) past) \<le> length ?live"
        unfolding past [symmetric]
        by (induction past) (auto simp: in_window_def)
      then show ?thesis using small by simp
    next
      case False
      then show ?thesis using p by (simp add: in_window_def rate_past_def)
    qed
    then show ?thesis
      using p b past sl le yes True by (auto simp: rate_past_def rate_window_def sorted_append)
  qed
qed

lemma rate_run_window:
  "rate_past host past bs lo \<Longrightarrow> sorted (lo # map snd calls) \<Longrightarrow>
     length (filter (in_window t) (past @ map snd (filter (\<lambda>(h, a). h = host) (rate_run calls bs)))) \<le> rate_max"
proof (induction calls arbitrary: past bs lo)
  case Nil
  then show ?case by (simp add: rate_past_def)
next
  case (Cons p calls)
  obtain h now where p: "p = (h, now)" by (cases p)
  obtain ok bs' where r: "rate_limit_check h now bs = (ok, bs')" by force
  have "rate_past host past bs now" using rate_past_later Cons.prems p by auto
  from Cons.IH [OF rate_past_step [OF this r]] Cons.prems show ?case by (auto simp: p r)
qed

lemma rate_past_empty: "rate_past host [] [] lo"
  by (simp add: rate_past_def bucket_of_def)

end
