(* ===== verification/A2AServer.thy ===== *)
theory A2AServer
  imports Dispatcher Jwt ToolGuard InternalEvents
begin

text \<open>
  \<open>common/a2a/server.py\<close> with the wire models of \<open>common/a2a/models.py\<close> and
  \<open>common/a2a/jsonrpc.py\<close>: the three endpoints by which the orchestrator drives an agent,
  and the agent process they act on.

  The in-flight states are shared between the pending map, the background task and a
  waiting await, so the process keeps them in a store: \<open>ag_states\<close> holds the objects, the
  pending map, the jobs and the waiters hold their addresses.  An await is two steps, its
  request and its wake-up, so that other steps come in between.
\<close>

section \<open>Envelopes\<close>

definition invalid_request :: int where "invalid_request = - 32600"
definition err_peer_not_trusted :: int where "err_peer_not_trusted = - 32001"
definition err_invalid_token_a :: int where "err_invalid_token_a = - 32002"
definition err_tool_not_found :: int where "err_tool_not_found = - 32004"

text \<open>The message texts of an error are left out; its code and data are kept.\<close>

datatype rpc_body = RpcResult message_response | RpcError int pydict

record rpc_response =
  rs_id :: py
  rs_body :: rpc_body

record rpc_request =
  rr_id :: py
  rr_method :: string
  rr_params :: py

text \<open>An id of type \<open>str | int\<close>: a Boolean and a float without a fraction become an integer.\<close>

definition rpc_id_of :: "py \<Rightarrow> py option" where
  "rpc_id_of v =
     (case v of
        PStr s \<Rightarrow> Some (PStr s)
      | PInt i \<Rightarrow> Some (PInt i)
      | PBool b \<Rightarrow> Some (PInt (if b then 1 else 0))
      | PFloat r \<Rightarrow> if r = of_int \<lfloor>r\<rfloor> then Some (PInt \<lfloor>r\<rfloor>) else None
      | _ \<Rightarrow> None)"

definition parse_request :: "py \<Rightarrow> rpc_request option" where
  "parse_request body =
     (case body of
        PDict b \<Rightarrow>
          (case (rpc_id_of (pyget b ''id''), pyget b ''method'', pyget_or b ''params'' (PDict [])) of
             (Some i, PStr mth, PDict p) \<Rightarrow>
               if pyget_or b ''jsonrpc'' (PStr ''2.0'') = PStr ''2.0''
               then Some \<lparr>rr_id = i, rr_method = mth, rr_params = PDict p\<rparr> else None
           | (Some i, PStr mth, PList p) \<Rightarrow>
               if pyget_or b ''jsonrpc'' (PStr ''2.0'') = PStr ''2.0''
               then Some \<lparr>rr_id = i, rr_method = mth, rr_params = PList p\<rparr> else None
           | _ \<Rightarrow> None)
      | _ \<Rightarrow> None)"

definition make_success :: "py \<Rightarrow> message_response \<Rightarrow> rpc_response" where
  "make_success i r = \<lparr>rs_id = i, rs_body = RpcResult r\<rparr>"

text \<open>The id of an error reply may be \<open>None\<close>; one of another type is rejected by the model.\<close>

definition make_error :: "py \<Rightarrow> int \<Rightarrow> pydict \<Rightarrow> rpc_response res" where
  "make_error i code data =
     (if i = PNone then Inr \<lparr>rs_id = PNone, rs_body = RpcError code data\<rparr>
      else case rpc_id_of i of
             None \<Rightarrow> Inl (EPy ''ValidationError'')
           | Some i' \<Rightarrow> Inr \<lparr>rs_id = i', rs_body = RpcError code data\<rparr>)"

text \<open>A request as it arrives: two headers and the JSON value of the body, if it is JSON.\<close>

record a2a_request =
  rq_authorization :: "string option"
  rq_request_id :: "string option"
  rq_body :: "py option"

definition resolve_request_id :: "string \<Rightarrow> a2a_request \<Rightarrow> string" where
  "resolve_request_id fresh rq = (if or_empty (rq_request_id rq) \<noteq> [] then or_empty (rq_request_id rq) else fresh)"

text \<open>Reading the envelope: the request, or the reply to a bad one.\<close>

definition read_envelope :: "a2a_request \<Rightarrow> rpc_response res + rpc_request" where
  "read_envelope rq =
     (case rq_body rq of
        None \<Rightarrow> Inl (make_error PNone invalid_request [])
      | Some body \<Rightarrow>
         (case parse_request body of
            None \<Rightarrow> Inl (make_error (case body of PDict b \<Rightarrow> pyget b ''id'' | _ \<Rightarrow> PNone) invalid_request [])
          | Some r \<Rightarrow> Inr r))"

section \<open>The agent process\<close>

record a2a_config =
  a2_validator :: validator_config
  a2_trusted_orchestrator_subs :: "string set"

record waiter =
  wt_id :: py
  wt_auth_req_id :: string
  wt_state :: nat

record agent_state =
  ag_cache :: jwks_cache
  ag_disp :: dispatcher
  ag_events :: events_router
  ag_states :: "pending_state list"
  ag_pending :: "string \<rightharpoonup> nat"
  ag_jobs :: "(nat \<times> dispatch_job) list"
  ag_waiters :: "waiter list"

definition ag_denylist :: "agent_state \<Rightarrow> jti_denylist" where
  "ag_denylist s = revoked_jtis (er_state (ag_events s))"

text \<open>The inputs of a token validation: the library, the network and the clocks.\<close>

record 'k token_world =
  tw_jwt :: "'k pyjwt"
  tw_net :: jwks_net
  tw_mono :: real
  tw_now :: real

text \<open>\<open>_validate_token_and_peer\<close>: the claims, or the reply to a rejected caller.\<close>

definition validate_token_and_peer ::
  "'k token_world \<Rightarrow> a2a_config \<Rightarrow> string option \<Rightarrow> py \<Rightarrow> jwks_cache
     \<Rightarrow> (rpc_response res + jwt_claims) res \<times> jwks_cache"
where
  "validate_token_and_peer tw cfg authorization request_id cache =
     (case extract_bearer authorization of
        None \<Rightarrow> (Inr (Inl (make_error request_id err_invalid_token_a [])), cache)
      | Some token \<Rightarrow>
         (case validate (tw_jwt tw) (tw_net tw) (tw_mono tw) (tw_now tw) token (a2_validator cfg) cache of
            (Inl e, cache') \<Rightarrow>
              (if raised_as e JWTValidationError
               then Inr (Inl (make_error request_id err_invalid_token_a [(''error_id'', PStr (exn_id e))])) else Inl e, cache')
          | (Inr claims, cache') \<Rightarrow>
              (case validate_chain claims (a2_trusted_orchestrator_subs cfg) True 1 of
                 Inl e \<Rightarrow>
                   (if raised_as e PeerTrustError
                    then Inr (Inl (make_error request_id err_peer_not_trusted [(''error_id'', PStr (exn_id e))])) else Inl e, cache')
               | Inr _ \<Rightarrow> (Inr (Inr claims), cache'))))"

section \<open>message/send\<close>

record send_params =
  sp_tool :: string
  sp_args :: pydict
  sp_last_logout_reason :: "string option"

definition message_send_params :: "pydict \<Rightarrow> send_params option" where
  "message_send_params p =
     (case (pyget p ''tool'', pyget p ''args'', pyget p ''last_logout_reason'') of
        (PStr t, PDict a, PNone) \<Rightarrow> Some \<lparr>sp_tool = t, sp_args = a, sp_last_logout_reason = None\<rparr>
      | (PStr t, PDict a, PStr r) \<Rightarrow> Some \<lparr>sp_tool = t, sp_args = a, sp_last_logout_reason = Some r\<rparr>
      | _ \<Rightarrow> None)"

text \<open>The dispatcher as the router sees it.\<close>

type_synonym dispatch_fn =
  "jti_denylist \<Rightarrow> string \<Rightarrow> pydict \<Rightarrow> string \<Rightarrow> string \<Rightarrow> string option \<Rightarrow> dispatcher \<Rightarrow> dispatch_outcome \<times> dispatcher"

text \<open>What a dispatch leaves in the process: the new object, its job and its map entry.\<close>

definition install :: "dispatch_outcome \<Rightarrow> agent_state \<Rightarrow> agent_state" where
  "install out s =
     (case do_started out of
        None \<Rightarrow> s
      | Some (state, job) \<Rightarrow>
         (let i = length (ag_states s)
          in s\<lparr>ag_states := ag_states s @ [state], ag_jobs := (i, job) # ag_jobs s,
               ag_pending := (case (do_registered out, pd_auth_req_id state) of
                  (True, PStr a) \<Rightarrow> (ag_pending s)(a \<mapsto> i) | _ \<Rightarrow> ag_pending s)\<rparr>))"

definition message_send ::
  "dispatch_fn \<Rightarrow> 'k token_world \<Rightarrow> a2a_config \<Rightarrow> string \<Rightarrow> a2a_request \<Rightarrow> agent_state \<Rightarrow> rpc_response res \<times> agent_state"
where
  "message_send disp tw cfg fresh rq s =
     (case read_envelope rq of
        Inl r \<Rightarrow> (r, s)
      | Inr rpc \<Rightarrow>
         if rr_method rpc \<noteq> ''message/send'' then (make_error (rr_id rpc) invalid_request [], s)
         else
          (case validate_token_and_peer tw cfg (rq_authorization rq) (rr_id rpc) (ag_cache s) of
             (Inl e, cache') \<Rightarrow> (Inl e, s\<lparr>ag_cache := cache'\<rparr>)
           | (Inr (Inl r), cache') \<Rightarrow> (r, s\<lparr>ag_cache := cache'\<rparr>)
           | (Inr (Inr claims), cache') \<Rightarrow>
              (let s1 = s\<lparr>ag_cache := cache'\<rparr>
               in case (case rr_params rpc of PDict p \<Rightarrow> message_send_params p | _ \<Rightarrow> None) of
                    None \<Rightarrow> (make_error (rr_id rpc) invalid_request [], s1)
                  | Some p \<Rightarrow>
                     (let (out, d') = disp (ag_denylist s1) (sp_tool p) (sp_args p) (c_sub claims)
                             (resolve_request_id fresh rq) (sp_last_logout_reason p) (ag_disp s1)
                      in (case do_response out of
                            Inl e \<Rightarrow> Inl e | Inr r \<Rightarrow> Inr (make_success (rr_id rpc) r),
                          install out (s1\<lparr>ag_disp := d'\<rparr>))))))"

section \<open>await\<close>

definition auth_req_param :: "py \<Rightarrow> string option" where
  "auth_req_param p = (case p of PDict d \<Rightarrow> (case pyget d ''auth_req_id'' of PStr a \<Rightarrow> Some a | _ \<Rightarrow> None) | _ \<Rightarrow> None)"

text \<open>The request: an immediate reply, or the wait for the state the map holds now.\<close>

definition await_begin ::
  "'k token_world \<Rightarrow> a2a_config \<Rightarrow> a2a_request \<Rightarrow> agent_state \<Rightarrow> (rpc_response res + waiter) \<times> agent_state"
where
  "await_begin tw cfg rq s =
     (case read_envelope rq of
        Inl r \<Rightarrow> (Inl r, s)
      | Inr rpc \<Rightarrow>
         (case validate_token_and_peer tw cfg (rq_authorization rq) (rr_id rpc) (ag_cache s) of
            (Inl e, cache') \<Rightarrow> (Inl (Inl e), s\<lparr>ag_cache := cache'\<rparr>)
          | (Inr (Inl r), cache') \<Rightarrow> (Inl r, s\<lparr>ag_cache := cache'\<rparr>)
          | (Inr (Inr claims), cache') \<Rightarrow>
             (let s1 = s\<lparr>ag_cache := cache'\<rparr>
              in case auth_req_param (rr_params rpc) of
                   None \<Rightarrow> (Inl (make_error (rr_id rpc) invalid_request []), s1)
                 | Some a \<Rightarrow>
                    (case ag_pending s1 a of
                       None \<Rightarrow> (Inl (make_error (rr_id rpc) err_tool_not_found [(''auth_req_id'', PStr a)]), s1)
                     | Some i \<Rightarrow>
                        (let wt = \<lparr>wt_id = rr_id rpc, wt_auth_req_id = a, wt_state = i\<rparr>
                         in (Inr wt, s1\<lparr>ag_waiters := wt # ag_waiters s1\<rparr>))))))"

text \<open>The wake-up, by the completion of the state or by the timeout.\<close>

definition completion_reply :: "pending_state \<Rightarrow> message_response" where
  "completion_reply state =
     (case pd_result state of
        Some r \<Rightarrow> ResultReply r
      | None \<Rightarrow>
         (case pd_error state of
            Some e \<Rightarrow> ErrorReply e
          | None \<Rightarrow> ErrorReply \<lparr>ep_error_id = ''ERR-AGENT-001'', ep_reason = ''completion_set_but_no_result''\<rparr>))"

definition await_end :: "bool \<Rightarrow> waiter \<Rightarrow> agent_state \<Rightarrow> rpc_response \<times> agent_state" where
  "await_end timed_out wt s =
     (let s1 = s\<lparr>ag_pending := (ag_pending s)(wt_auth_req_id wt := None), ag_waiters := remove1 wt (ag_waiters s)\<rparr>
      in (make_success (wt_id wt)
            (if timed_out then ErrorReply \<lparr>ep_error_id = ''ERR-CIBA-010'', ep_reason = ''server_await_timeout''\<rparr>
             else completion_reply (ag_states s ! wt_state wt)), s1))"

section \<open>cancel\<close>

record cancel_response =
  cl_cancelled :: bool
  cl_reason :: string

definition not_cancelled :: "string \<Rightarrow> cancel_response res" where
  "not_cancelled reason = Inr \<lparr>cl_cancelled = False, cl_reason = reason\<rparr>"

text \<open>A body is taken as an envelope when \<open>"jsonrpc" in body\<close>, otherwise as bare parameters.\<close>

definition cancel_params :: "py \<Rightarrow> (cancel_response res + py \<times> py)" where
  "cancel_params body =
     (case py_in ''jsonrpc'' body of
        Inl e \<Rightarrow> Inl (Inl e)
      | Inr False \<Rightarrow> Inr (PNone, body)
      | Inr True \<Rightarrow>
         (case parse_request body of
            None \<Rightarrow> Inl (not_cancelled ''invalid_rpc_envelope'')
          | Some rpc \<Rightarrow> Inr (rr_id rpc, if is_dict (rr_params rpc) then rr_params rpc else PDict [])))"

definition a2a_cancel :: "'k token_world \<Rightarrow> a2a_config \<Rightarrow> a2a_request \<Rightarrow> agent_state \<Rightarrow> cancel_response res \<times> agent_state" where
  "a2a_cancel tw cfg rq s =
     (case rq_body rq of
        None \<Rightarrow> (not_cancelled ''invalid_json'', s)
      | Some body \<Rightarrow>
         (case cancel_params body of
            Inl r \<Rightarrow> (r, s)
          | Inr (rpc_id, raw_params) \<Rightarrow>
             (case validate_token_and_peer tw cfg (rq_authorization rq) rpc_id (ag_cache s) of
                (Inl e, cache') \<Rightarrow> (Inl e, s\<lparr>ag_cache := cache'\<rparr>)
              | (Inr (Inl (Inl e)), cache') \<Rightarrow> (Inl e, s\<lparr>ag_cache := cache'\<rparr>)
              | (Inr (Inl (Inr r)), cache') \<Rightarrow> (not_cancelled ''auth_failed'', s\<lparr>ag_cache := cache'\<rparr>)
              | (Inr (Inr claims), cache') \<Rightarrow>
                 (let s1 = s\<lparr>ag_cache := cache'\<rparr>
                  in case auth_req_param raw_params of
                       None \<Rightarrow> (not_cancelled ''invalid_params'', s1)
                     | Some a \<Rightarrow>
                        (case ag_pending s1 a of
                           None \<Rightarrow> (not_cancelled ''not_found'', s1)
                         | Some i \<Rightarrow>
                            (Inr \<lparr>cl_cancelled = True, cl_reason = ''signal_sent''\<rparr>,
                             s1\<lparr>ag_states := (ag_states s1)[i := (ag_states s1 ! i)\<lparr>pd_cancel := True\<rparr>]\<rparr>))))))"

section \<open>The other steps of the process\<close>

text \<open>The background task of one job runs to its end.\<close>

definition job_end :: "agent_lib \<Rightarrow> dispatcher_deps \<Rightarrow> run_world \<Rightarrow> nat \<times> dispatch_job \<Rightarrow> agent_state \<Rightarrow> agent_state option" where
  "job_end lib deps w ij s =
     map_option (\<lambda>(state, d'). s\<lparr>ag_states := (ag_states s)[fst ij := state], ag_disp := d', ag_jobs := remove1 ij (ag_jobs s)\<rparr>)
       (run_to_completion lib deps w (snd ij) (ag_states s ! fst ij) (ag_disp s))"

text \<open>A revocation event; the callback is \<open>revoke_jti\<close> of the router's dispatcher.\<close>

definition on_revoke :: "dispatcher revoke_callback" where
  "on_revoke jti user_sub ev_expiry reason d = (revoke_jti jti d, False)"

definition agent_event :: "revoke_event \<Rightarrow> string \<Rightarrow> string option \<Rightarrow> real \<Rightarrow> agent_state \<Rightarrow> ack \<times> agent_state" where
  "agent_event body host secret now s =
     (let (a, r', d') = receive_event (Some on_revoke) body host secret now (ag_events s) (ag_disp s)
      in (a, s\<lparr>ag_events := r', ag_disp := d'\<rparr>))"

definition agent_sweep :: "real \<Rightarrow> agent_state \<Rightarrow> agent_state" where
  "agent_sweep now s =
     (let r = ag_events s
      in s\<lparr>ag_events := r\<lparr>er_state := (er_state r)\<lparr>revoked_jtis := fst (denylist_sweep_once now (revoked_jtis (er_state r)))\<rparr>\<rparr>\<rparr>)"

text \<open>The process at start-up: the dispatcher and the event route share the denylist.\<close>

definition new_agent :: "jwks_cache \<Rightarrow> string \<Rightarrow> agent_state res" where
  "new_agent cache secret =
     (case build_internal_events_router new_revocation_state secret of
        Inl e \<Rightarrow> Inl e
      | Inr r \<Rightarrow>
         Inr \<lparr>ag_cache = cache, ag_disp = disp_attach_revocation new_dispatcher, ag_events = r, ag_states = [],
              ag_pending = Map.empty, ag_jobs = [], ag_waiters = []\<rparr>)"

section \<open>Runs of the process\<close>

text \<open>
  A step of the agent process carries what it met outside: the world and the outcome of a
  dispatch, the job and the world of a finished task.  A finished task saw the cancel event
  in its final state, and saw it set during the poll only if it is set at the end.  A trace
  has the latest step first.
\<close>

record agent_setup =
  su_kind :: agent_kind
  su_lib :: agent_lib
  su_deps :: dispatcher_deps
  su_config :: a2a_config

datatype label = LSend dispatch_world | LJob dispatch_job run_world | LAwait | LCancel | LEvent | LSweep

definition agent_dispatch :: "agent_setup \<Rightarrow> dispatch_world \<Rightarrow> dispatch_fn" where
  "agent_dispatch su w = dispatch (su_kind su) (su_lib su) (su_deps su) w"

inductive agent_step :: "agent_setup \<Rightarrow> 'k itself \<Rightarrow> agent_state \<Rightarrow> label \<Rightarrow> agent_state \<Rightarrow> bool" for su K where
  send: "message_send (agent_dispatch su w) (tw :: 'k token_world) (su_config su) fresh rq s = (r, s')
    \<Longrightarrow> agent_step su K s (LSend w) s'"
| await_request: "await_begin (tw :: 'k token_world) (su_config su) rq s = (r, s') \<Longrightarrow> agent_step su K s LAwait s'"
| await_wake: "wt \<in> set (ag_waiters s) \<Longrightarrow> timed_out \<or> pd_completion (ag_states s ! wt_state wt)
    \<Longrightarrow> await_end timed_out wt s = (r, s') \<Longrightarrow> agent_step su K s LAwait s'"
| cancel: "a2a_cancel (tw :: 'k token_world) (su_config su) rq s = (r, s') \<Longrightarrow> agent_step su K s LCancel s'"
| job: "(i, job) \<in> set (ag_jobs s) \<Longrightarrow> rw_cancel_set w = pd_cancel (ag_states s ! i)
    \<Longrightarrow> (\<forall>n. pw_cancelled (rw_poll w) n \<longrightarrow> rw_cancel_set w)
    \<Longrightarrow> job_end (su_lib su) (su_deps su) w (i, job) s = Some s' \<Longrightarrow> agent_step su K s (LJob job w) s'"
| event: "agent_event body host secret now s = (a, s') \<Longrightarrow> agent_step su K s LEvent s'"
| sweep: "agent_sweep now s = s' \<Longrightarrow> agent_step su K s LSweep s'"

inductive agent_run :: "agent_setup \<Rightarrow> 'k itself \<Rightarrow> agent_state \<Rightarrow> label list \<Rightarrow> agent_state \<Rightarrow> bool" for su K s0 where
  start: "agent_run su K s0 [] s0"
| step: "agent_run su K s0 tr s \<Longrightarrow> agent_step su K s l s' \<Longrightarrow> agent_run su K s0 (l # tr) s'"

inductive_cases agent_run_consE: "agent_run su K s0 (l # tr) s"

end
