(* ===== verification/A2AClient.thy ===== *)
theory A2AClient
  imports A2AServer
begin

text \<open>
  \<open>common/a2a/client.py\<close> and the wire form of the models of \<open>common/a2a/models.py\<close> and
  \<open>common/a2a/jsonrpc.py\<close>: what the two sides of the agent protocol write as JSON and how the
  client reads an answer.

  JSON text and its transfer are left out: a body arrives as the value it was written from,
  a time as its ISO text (\<open>isotime\<close> below, a parameter).  The conversions pydantic does outside
  its strict mode beyond the obvious ones are the fields of \<open>lax\<close>.
\<close>

section \<open>The wire form\<close>

definition py_opt :: "string option \<Rightarrow> py" where
  "py_opt o_s = (case o_s of None \<Rightarrow> PNone | Some s \<Rightarrow> PStr s)"

definition make_request :: "string \<Rightarrow> pydict \<Rightarrow> string \<Rightarrow> rpc_request" where
  "make_request mth params request_id = \<lparr>rr_id = PStr request_id, rr_method = mth, rr_params = PDict params\<rparr>"

definition dump_request :: "rpc_request \<Rightarrow> py" where
  "dump_request r = PDict [(''jsonrpc'', PStr ''2.0''), (''id'', rr_id r), (''method'', PStr (rr_method r)),
     (''params'', rr_params r)]"

definition dump_send_params :: "send_params \<Rightarrow> pydict" where
  "dump_send_params p = [(''tool'', PStr (sp_tool p)), (''args'', PDict (sp_args p)),
     (''last_logout_reason'', py_opt (sp_last_logout_reason p))]"

fun dump_payload :: "(real \<Rightarrow> string) \<Rightarrow> message_response \<Rightarrow> pydict" where
  "dump_payload isotime (ConsentRequired c) =
     [(''type'', PStr ''consent_required''), (''auth_req_id'', PStr (cn_auth_req_id c)),
      (''auth_url'', PStr (cn_auth_url c)), (''agent_label'', PStr (cn_agent_label c)),
      (''action'', PStr (cn_action c)), (''scope'', PStr (cn_scope c)),
      (''binding_message'', PStr (cn_binding_message c)), (''expires_in'', PInt (cn_expires_in c)),
      (''is_refresh'', PBool (cn_is_refresh c)),
      (''prior_consent_at'', case cn_prior_consent_at c of None \<Rightarrow> PNone | Some t \<Rightarrow> PStr (isotime t)),
      (''action_text'', py_opt (cn_action_text c))]"
| "dump_payload isotime (ResultReply r) =
     [(''type'', PStr ''result''), (''data'', PDict (rp_data r)), (''token_jti'', PStr (rp_token_jti r)),
      (''token_exp'', PInt (rp_token_exp r)), (''token_iat'', PInt (rp_token_iat r))]"
| "dump_payload isotime (ErrorReply e) =
     [(''type'', PStr ''error''), (''error_id'', PStr (ep_error_id e)), (''reason'', PStr (ep_reason e))]"

text \<open>\<open>msg\<close> is the message text of an error.\<close>

definition dump_response :: "(real \<Rightarrow> string) \<Rightarrow> string \<Rightarrow> rpc_response \<Rightarrow> py" where
  "dump_response isotime msg r =
     (case rs_body r of
        RpcResult p \<Rightarrow> PDict [(''jsonrpc'', PStr ''2.0''), (''id'', rs_id r),
                         (''result'', PDict (dump_payload isotime p)), (''error'', PNone)]
      | RpcError code data \<Rightarrow> PDict [(''jsonrpc'', PStr ''2.0''), (''id'', rs_id r), (''result'', PNone),
                         (''error'', PDict [(''code'', PInt code), (''message'', PStr msg),
                            (''data'', if data = [] then PNone else PDict data)])])"

definition dump_cancel :: "cancel_response \<Rightarrow> py" where
  "dump_cancel r = PDict [(''cancelled'', PBool (cl_cancelled r)), (''reason'', PStr (cl_reason r))]"

section \<open>Reading an answer\<close>

text \<open>An envelope with an error becomes an \<open>A2AError\<close>; everything else that fails is another exception.\<close>

datatype a2a_failure = A2AError int string pydict | A2AOther exn

type_synonym 'a a2a_res = "a2a_failure + 'a"

definition protocol_mismatch :: a2a_failure where
  "protocol_mismatch = A2AOther (EPy ''ValidationError'')"

record lax =
  lax_int :: "string \<Rightarrow> int option"
  lax_bool :: "py \<Rightarrow> bool option"

definition read_int :: "lax \<Rightarrow> py \<Rightarrow> int option" where
  "read_int lx v =
     (case v of
        PInt i \<Rightarrow> Some i
      | PBool b \<Rightarrow> Some (if b then 1 else 0)
      | PFloat r \<Rightarrow> if r = of_int \<lfloor>r\<rfloor> then Some \<lfloor>r\<rfloor> else None
      | PStr s \<Rightarrow> lax_int lx s
      | _ \<Rightarrow> None)"

definition read_rpc_error :: "lax \<Rightarrow> pydict \<Rightarrow> (int \<times> string \<times> pydict) option" where
  "read_rpc_error lx d =
     (case (read_int lx (pyget d ''code''), pyget d ''message'', pyget d ''data'') of
        (Some c, PStr m, PNone) \<Rightarrow> Some (c, m, [])
      | (Some c, PStr m, PDict e) \<Rightarrow> Some (c, m, e)
      | _ \<Rightarrow> None)"

text \<open>\<open>JsonRpcResponse\<close>: exactly one of result and error; the id must be there.\<close>

definition read_response :: "lax \<Rightarrow> py \<Rightarrow> (pydict + int \<times> string \<times> pydict) option" where
  "read_response lx body =
     (case body of
        PDict b \<Rightarrow>
          if pyget_or b ''jsonrpc'' (PStr ''2.0'') \<noteq> PStr ''2.0'' then None
          else if map_of b ''id'' = None \<or> (pyget b ''id'' \<noteq> PNone \<and> rpc_id_of (pyget b ''id'') = None) then None
          else (case (pyget b ''result'', pyget b ''error'') of
                  (PDict r, PNone) \<Rightarrow> Some (Inl r)
                | (PNone, PDict e) \<Rightarrow> map_option Inr (read_rpc_error lx e)
                | _ \<Rightarrow> None)
      | _ \<Rightarrow> None)"

text \<open>
  The three payloads are strict models: a value of another type is an error, a text in
  place of a time included.
\<close>

definition read_consent :: "pydict \<Rightarrow> consent_required option" where
  "read_consent d =
     (case (pyget d ''auth_req_id'', pyget d ''auth_url'', pyget d ''agent_label'', pyget d ''action'') of
        (PStr a, PStr u, PStr l, PStr ac) \<Rightarrow>
          (case (pyget d ''scope'', pyget d ''binding_message'', pyget d ''expires_in'',
                 pyget_or d ''is_refresh'' (PBool False)) of
             (PStr sc, PStr bm, PInt ex, PBool rf) \<Rightarrow>
               (if pyget d ''prior_consent_at'' \<noteq> PNone then None
                else (let c = \<lparr>cn_auth_req_id = a, cn_auth_url = u, cn_agent_label = l, cn_action = ac, cn_scope = sc,
                        cn_binding_message = bm, cn_expires_in = ex, cn_is_refresh = rf,
                        cn_prior_consent_at = None, cn_action_text = None\<rparr>
                      in case pyget d ''action_text'' of
                           PNone \<Rightarrow> Some c
                         | PStr t \<Rightarrow> Some (c\<lparr>cn_action_text := Some t\<rparr>)
                         | _ \<Rightarrow> None))
           | _ \<Rightarrow> None)
      | _ \<Rightarrow> None)"

definition read_payload :: "pydict \<Rightarrow> message_response option" where
  "read_payload d =
     (if pyget d ''type'' = PStr ''consent_required'' then map_option ConsentRequired (read_consent d)
      else if pyget d ''type'' = PStr ''result'' then
        (case (pyget d ''data'', pyget d ''token_jti'', pyget d ''token_exp'', pyget d ''token_iat'') of
           (PDict v, PStr j, PInt e, PInt i) \<Rightarrow>
             Some (ResultReply \<lparr>rp_data = v, rp_token_jti = j, rp_token_exp = e, rp_token_iat = i\<rparr>)
         | _ \<Rightarrow> None)
      else if pyget d ''type'' = PStr ''error'' then
        (case (pyget d ''error_id'', pyget d ''reason'') of
           (PStr e, PStr r) \<Rightarrow> Some (ErrorReply \<lparr>ep_error_id = e, ep_reason = r\<rparr>)
         | _ \<Rightarrow> None)
      else None)"

definition parse_a2a_response :: "lax \<Rightarrow> py \<Rightarrow> message_response a2a_res" where
  "parse_a2a_response lx body =
     (case read_response lx body of
        None \<Rightarrow> Inl protocol_mismatch
      | Some (Inr (code, msg, data)) \<Rightarrow> Inl (A2AError code msg data)
      | Some (Inl result) \<Rightarrow>
          (case read_payload result of None \<Rightarrow> Inl protocol_mismatch | Some p \<Rightarrow> Inr p))"

text \<open>\<open>CancelResponse\<close> is not strict.\<close>

definition read_cancel :: "lax \<Rightarrow> pydict \<Rightarrow> (bool \<times> string option) option" where
  "read_cancel lx d =
     (case (case pyget d ''cancelled'' of PBool b \<Rightarrow> Some b | v \<Rightarrow> lax_bool lx v, pyget d ''reason'') of
        (Some b, PNone) \<Rightarrow> Some (b, None)
      | (Some b, PStr r) \<Rightarrow> Some (b, Some r)
      | _ \<Rightarrow> None)"

definition parse_cancel_response :: "lax \<Rightarrow> py \<Rightarrow> (bool \<times> string option) a2a_res" where
  "parse_cancel_response lx body =
     (case read_response lx body of
        None \<Rightarrow> Inl protocol_mismatch
      | Some (Inr (code, msg, data)) \<Rightarrow> Inl (A2AError code msg data)
      | Some (Inl result) \<Rightarrow>
          (case read_cancel lx result of None \<Rightarrow> Inl protocol_mismatch | Some c \<Rightarrow> Inr c))"

section \<open>The client\<close>

record a2a_headers =
  ah_authorization :: string
  ah_request_id :: string

definition a2a_build_headers :: "string \<Rightarrow> string \<Rightarrow> a2a_headers" where
  "a2a_build_headers bearer_token request_id =
     \<lparr>ah_authorization = ''Bearer '' @ bearer_token, ah_request_id = request_id\<rparr>"

text \<open>The id given, else the one of the context, else a fresh one.\<close>

definition a2a_resolve_request_id :: "string option \<Rightarrow> string option \<Rightarrow> string \<Rightarrow> string" where
  "a2a_resolve_request_id explicit context_id fresh =
     (case explicit of
        Some r \<Rightarrow> r
      | None \<Rightarrow> if or_empty context_id \<noteq> [] then or_empty context_id else fresh)"

type_synonym a2a_net = "string \<Rightarrow> a2a_headers \<Rightarrow> py \<Rightarrow> http_answer"

text \<open>The post, \<open>raise_for_status\<close> and \<open>json()\<close>.\<close>

definition a2a_post :: "a2a_net \<Rightarrow> string \<Rightarrow> string \<Rightarrow> string \<Rightarrow> string \<Rightarrow> rpc_request \<Rightarrow> py a2a_res" where
  "a2a_post net base_url path bearer_token rid rpc =
     (case net (base_url @ path) (a2a_build_headers bearer_token rid) (dump_request rpc) of
        HttpRaised e \<Rightarrow> Inl (A2AOther e)
      | HttpReply status json \<Rightarrow>
          if \<not> (200 \<le> status \<and> status < 300) then Inl (A2AOther (EPy ''HTTPStatusError''))
          else (case json of None \<Rightarrow> Inl (A2AOther (EPy ''JSONDecodeError'')) | Some v \<Rightarrow> Inr v))"

definition client_message_send ::
  "lax \<Rightarrow> a2a_net \<Rightarrow> string \<Rightarrow> string \<Rightarrow> string \<Rightarrow> pydict \<Rightarrow> string \<Rightarrow> string option \<Rightarrow> message_response a2a_res"
where
  "client_message_send lx net base_url bearer_token tool args rid last_logout_reason =
     (let params = dump_send_params \<lparr>sp_tool = tool, sp_args = args, sp_last_logout_reason = last_logout_reason\<rparr>
      in case a2a_post net base_url ''/a2a/message/send'' bearer_token rid (make_request ''message/send'' params rid) of
           Inl e \<Rightarrow> Inl e
         | Inr body \<Rightarrow> parse_a2a_response lx body)"

definition client_await_completion ::
  "lax \<Rightarrow> a2a_net \<Rightarrow> string \<Rightarrow> string \<Rightarrow> string \<Rightarrow> string \<Rightarrow> message_response a2a_res"
where
  "client_await_completion lx net base_url bearer_token auth_req_id rid =
     (case a2a_post net base_url ''/a2a/await'' bearer_token rid
             (make_request ''a2a/await'' [(''auth_req_id'', PStr auth_req_id)] rid) of
        Inl e \<Rightarrow> Inl e
      | Inr body \<Rightarrow> parse_a2a_response lx body)"

definition client_cancel ::
  "lax \<Rightarrow> a2a_net \<Rightarrow> string \<Rightarrow> string \<Rightarrow> string \<Rightarrow> string \<Rightarrow> (bool \<times> string option) a2a_res"
where
  "client_cancel lx net base_url bearer_token auth_req_id rid =
     (case a2a_post net base_url ''/a2a/cancel'' bearer_token rid
             (make_request ''a2a/cancel'' [(''auth_req_id'', PStr auth_req_id)] rid) of
        Inl e \<Rightarrow> Inl e
      | Inr body \<Rightarrow> parse_cancel_response lx body)"

section \<open>What is read is what was written\<close>

definition readable :: "message_response \<Rightarrow> bool" where
  "readable r = (case r of ConsentRequired c \<Rightarrow> cn_prior_consent_at c = None | _ \<Rightarrow> True)"

lemma pyget_or_simps [simp]:
  "pyget_or [] k v = v"
  "pyget_or ((k', w) # d) k v = (if k = k' then w else pyget_or d k v)"
  by (simp_all add: pyget_or_def)

lemma read_payload_dump: "readable r \<Longrightarrow> read_payload (dump_payload isotime r) = Some r"
  by (cases r) (auto simp: readable_def read_payload_def read_consent_def py_opt_def Let_def split: option.splits)

lemma read_payload_refresh: "\<not> readable r \<Longrightarrow> read_payload (dump_payload isotime r) = None"
  by (cases r) (auto simp: readable_def read_payload_def read_consent_def py_opt_def Let_def)

lemma parse_request_dump:
  "parse_request (dump_request (make_request mth params rid)) = Some (make_request mth params rid)"
  by (simp add: parse_request_def dump_request_def make_request_def rpc_id_of_def)

lemma send_params_dump: "message_send_params (dump_send_params p) = Some p"
  by (cases "sp_last_logout_reason p") (simp_all add: message_send_params_def dump_send_params_def py_opt_def)

lemma parse_response_dump:
  assumes "rs_id r = PStr i" and "rs_body r = RpcResult p"
  shows "parse_a2a_response lx (dump_response isotime msg r) = (if readable p then Inr p else Inl protocol_mismatch)"
  using assms read_payload_dump [of p isotime] read_payload_refresh [of p isotime]
  by (simp add: parse_a2a_response_def read_response_def dump_response_def rpc_id_of_def)

lemma parse_error_dump:
  assumes "rs_id r = PStr i \<or> rs_id r = PNone" and "rs_body r = RpcError code data"
  shows "parse_a2a_response lx (dump_response isotime msg r) = Inl (A2AError code msg data)"
  using assms
  by (auto simp: parse_a2a_response_def read_response_def dump_response_def rpc_id_of_def read_rpc_error_def read_int_def)

lemma parse_cancel_dump: "parse_cancel_response lx (dump_cancel r) = Inl protocol_mismatch"
  by (simp add: parse_cancel_response_def read_response_def dump_cancel_def)

end
