(* ===== verification/AgentCards.thy ===== *)
theory AgentCards
  imports A2AClient
begin

text \<open>
  The cards by which agents announce their skills (\<open>common/a2a/agent_card.py\<close>) and the
  registry the orchestrator keeps of them (\<open>orchestrator/agent_registry/cards.py\<close>).

  A card is modelled with the fields the orchestrator reads; pydantic's reading of a JSON
  document is the parameter of \<open>registry_from_files\<close>, and the validators the code adds to
  it are the predicates below.
\<close>

section \<open>Cards\<close>

record skill =
  sk_tool_id :: string
  sk_label :: string
  sk_description :: string
  sk_scope :: string
  sk_args :: "string list"

record agent_card =
  cd_id :: string
  cd_label :: string
  cd_base_url :: string
  cd_oauth_client_id :: string
  cd_api_version :: string
  cd_skills :: "skill list"

text \<open>\<open>_validate_tool_id_namespaced\<close>: a dot with text on both sides of the first one.\<close>

definition tool_id_namespaced :: "string \<Rightarrow> bool" where
  "tool_id_namespaced v =
     (CHR ''.'' \<in> set v \<and>
      (case split_once (CHR ''.'') v of [a, b] \<Rightarrow> a \<noteq> [] \<and> b \<noteq> [] | _ \<Rightarrow> False))"

text \<open>\<open>^https?://[^/]+$\<close>; the final \<open>$\<close> allows one newline more, which \<open>[^/]\<close> takes.\<close>

definition base_url_ok :: "string \<Rightarrow> bool" where
  "base_url_ok v =
     (let host_ok = (\<lambda>p. prefix p v \<and> drop (length p) v \<noteq> [] \<and> CHR ''/'' \<notin> set (drop (length p) v))
      in host_ok ''http://'' \<or> host_ok ''https://'')"

definition card_valid :: "agent_card \<Rightarrow> bool" where
  "card_valid c = (base_url_ok (cd_base_url c) \<and> list_all (\<lambda>s. tool_id_namespaced (sk_tool_id s)) (cd_skills c))"

section \<open>The projection for the model\<close>

record tool_description =
  td_tool_id :: string
  td_label :: string
  td_description :: string
  td_scope :: string
  td_args :: "string list"

record card_projection =
  pj_id :: string
  pj_label :: string
  pj_skills :: "tool_description list"

definition llm_projection :: "agent_card \<Rightarrow> card_projection" where
  "llm_projection crd = \<lparr>pj_id = cd_id crd, pj_label = cd_label crd,
     pj_skills = map (\<lambda>s. \<lparr>td_tool_id = sk_tool_id s, td_label = sk_label s, td_description = sk_description s,
                        td_scope = sk_scope s, td_args = sk_args s\<rparr>) (cd_skills crd)\<rparr>"

section \<open>The registry\<close>

type_synonym agent_registry = "(string \<times> agent_card) list"

definition registry_add :: "agent_card \<Rightarrow> agent_registry \<Rightarrow> agent_registry" where
  "registry_add crd reg = AList.update (cd_id crd) crd reg"

definition registry_get :: "agent_registry \<Rightarrow> string \<Rightarrow> agent_card option" where
  "registry_get reg agent_id = map_of reg agent_id"

definition registry_all :: "agent_registry \<Rightarrow> agent_card list" where
  "registry_all reg = map snd reg"

definition find_by_tool :: "agent_registry \<Rightarrow> string \<Rightarrow> agent_card option" where
  "find_by_tool reg tool_id =
     List.find (\<lambda>c. list_ex (\<lambda>s. sk_tool_id s = tool_id) (cd_skills c)) (map snd reg)"

record tool_listing =
  tl_tool :: tool_description
  tl_agent_id :: string
  tl_agent_label :: string

definition llm_tool_list :: "agent_registry \<Rightarrow> tool_listing list" where
  "llm_tool_list reg =
     concat (map (\<lambda>c. let p = llm_projection c
                     in map (\<lambda>t. \<lparr>tl_tool = t, tl_agent_id = pj_id p, tl_agent_label = pj_label p\<rparr>) (pj_skills p))
                 (map snd reg))"

text \<open>
  \<open>from_files\<close>: \<open>load\<close> reads and validates one file; a file it cannot read is skipped.
\<close>

definition registry_from_files :: "('p \<Rightarrow> agent_card option) \<Rightarrow> 'p list \<Rightarrow> agent_registry" where
  "registry_from_files load paths =
     fold (\<lambda>p reg. case load p of Some c \<Rightarrow> if card_valid c then registry_add c reg else reg | None \<Rightarrow> reg) paths []"

section \<open>Facts\<close>

definition registry_ok :: "agent_registry \<Rightarrow> bool" where
  "registry_ok reg = (distinct (map fst reg) \<and> (\<forall>(i, c) \<in> set reg. cd_id c = i))"

lemma registry_ok_empty: "registry_ok []"
  by (simp add: registry_ok_def)

lemma registry_update_subset: "set (AList.update k v d) \<subseteq> insert (k, v) (set d)"
  by (induction d) auto

lemma registry_ok_add: "registry_ok reg \<Longrightarrow> registry_ok (registry_add c reg)"
  unfolding registry_ok_def registry_add_def using registry_update_subset by fastforce

lemma registry_ok_from_files: "registry_ok (registry_from_files load paths)"
proof -
  have "registry_ok reg \<Longrightarrow> registry_ok (fold (\<lambda>p reg. case load p of Some c \<Rightarrow> if card_valid c then registry_add c reg else reg | None \<Rightarrow> reg) paths reg)" for reg
    by (induction paths arbitrary: reg) (auto simp: registry_ok_add split: option.split)
  then show ?thesis by (simp add: registry_from_files_def registry_ok_empty)
qed

lemma registry_get_add: "registry_get (registry_add c reg) a = (if a = cd_id c then Some c else registry_get reg a)"
  by (simp add: registry_get_def registry_add_def dict_simps)

lemma find_by_tool_some:
  "find_by_tool reg t = Some c \<Longrightarrow> c \<in> set (registry_all reg) \<and> (\<exists>s \<in> set (cd_skills c). sk_tool_id s = t)"
  by (auto simp: find_by_tool_def registry_all_def find_Some_iff list_ex_iff)

lemma llm_tool_list_mem:
  "x \<in> set (llm_tool_list reg) \<longleftrightarrow>
     (\<exists>c \<in> set (registry_all reg). \<exists>s \<in> set (cd_skills c).
        x = \<lparr>tl_tool = \<lparr>td_tool_id = sk_tool_id s, td_label = sk_label s, td_description = sk_description s,
               td_scope = sk_scope s, td_args = sk_args s\<rparr>, tl_agent_id = cd_id c, tl_agent_label = cd_label c\<rparr>)"
  by (auto simp: llm_tool_list_def llm_projection_def registry_all_def Let_def)

end
