(* ===== verification/Prompts.thy ===== *)
theory Prompts
  imports Prelude
begin

text \<open>
  What of a tool's outcome may leave the orchestrator: \<open>strip_sensitive\<close>, and the rendering
  of the outcomes for the model that composes the reply (\<open>orchestrator/llm/prompts.py\<close>,
  \<open>ToolOutcome\<close> of \<open>orchestrator/llm/client.py\<close>).
\<close>

section \<open>Sensitive keys and values\<close>

definition sensitive_keys_exact :: "string list" where
  "sensitive_keys_exact = [''sub'', ''user_sub'', ''issued_by'', ''reviewed_by_sub'', ''reviewer_sub'', ''act'']"

definition is_sensitive_key :: "string \<Rightarrow> bool" where
  "is_sensitive_key key =
     (let k = py_lower key
      in k \<in> set sensitive_keys_exact \<or> suffix ''_sub'' k
         \<or> list_ex (\<lambda>s. str_in s k) [''token'', ''secret'', ''password''])"

definition hex_char :: "char \<Rightarrow> bool" where
  "hex_char c = (let n = (of_char c :: nat) in (48 \<le> n \<and> n \<le> 57) \<or> (97 \<le> n \<and> n \<le> 102) \<or> (65 \<le> n \<and> n \<le> 70))"

definition uuid_shape :: "string \<Rightarrow> bool" where
  "uuid_shape s = (length s = 36 \<and>
     list_all (\<lambda>(i, c). if i \<in> {8, 13, 18, 23} then c = CHR ''-'' else hex_char c) (List.enumerate 0 s))"

text \<open>\<open>$\<close> also matches before a final newline.\<close>

definition looks_like_uuid :: "string \<Rightarrow> bool" where
  "looks_like_uuid s = (uuid_shape s \<or> (s \<noteq> [] \<and> last s = CHR 0x0A \<and> uuid_shape (butlast s)))"

definition uuid_value :: "py \<Rightarrow> bool" where
  "uuid_value v = (case v of PStr s \<Rightarrow> looks_like_uuid s | _ \<Rightarrow> False)"

definition dropped_entry :: "string \<times> py \<Rightarrow> bool" where
  "dropped_entry kv = (is_sensitive_key (fst kv) \<or> uuid_value (snd kv))"

fun strip_sensitive :: "py \<Rightarrow> py" and strip_entries :: "pydict \<Rightarrow> pydict" where
  "strip_sensitive (PDict d) = PDict (strip_entries d)"
| "strip_sensitive (PList xs) = PList (map strip_sensitive xs)"
| "strip_sensitive v = v"
| "strip_entries [] = []"
| "strip_entries ((k, v) # d) =
     (if dropped_entry (k, v) then strip_entries d else (k, strip_sensitive v) # strip_entries d)"

section \<open>Reading a model's answer\<close>

text \<open>\<open>_coerce_text\<close>: the content of a response as one text.\<close>

definition coerce_block :: "py \<Rightarrow> string" where
  "coerce_block b = (case b of PDict d \<Rightarrow> (case map_of d ''text'' of None \<Rightarrow> [] | Some v \<Rightarrow> py_str v) | _ \<Rightarrow> py_str b)"

definition coerce_text :: "py \<Rightarrow> string" where
  "coerce_text content =
     (case content of
        PNone \<Rightarrow> []
      | PStr s \<Rightarrow> s
      | PList blocks \<Rightarrow> concat (map coerce_block blocks)
      | _ \<Rightarrow> py_str content)"

section \<open>Rendering the outcomes\<close>

record tool_outcome =
  to_agent_id :: string
  to_tool_id :: string
  to_ok :: bool
  to_data :: "pydict option"
  to_error_id :: "string option"
  to_reason :: "string option"

text \<open>
  \<open>json.dumps(v, ensure_ascii=False)\<close>; the text of a float is left open as in \<open>py_repr\<close>.
\<close>

definition json_char :: "char \<Rightarrow> string" where
  "json_char c = (let n = (of_char c :: nat) in
     if c = CHR 0x22 \<or> c = CHR 0x5C then [CHR 0x5C, c]
     else if n = 10 then [CHR 0x5C, CHR ''n'']
     else if n = 13 then [CHR 0x5C, CHR ''r'']
     else if n = 9 then [CHR 0x5C, CHR ''t'']
     else if n = 12 then [CHR 0x5C, CHR ''f'']
     else if n = 8 then [CHR 0x5C, CHR ''b'']
     else if n < 32 then [CHR 0x5C, CHR ''u'', CHR ''0'', CHR ''0'', hex_digit (n div 16), hex_digit (n mod 16)]
     else [c])"

definition json_string :: "string \<Rightarrow> string" where
  "json_string s = [CHR 0x22] @ concat (map json_char s) @ [CHR 0x22]"

fun json_dumps :: "py \<Rightarrow> string" where
  "json_dumps PNone = ''null''"
| "json_dumps (PBool b) = (if b then ''true'' else ''false'')"
| "json_dumps (PInt i) = show_int i"
| "json_dumps (PFloat r) = ''<float>''"
| "json_dumps (PStr s) = json_string s"
| "json_dumps (PList xs) = ''['' @ str_join '', '' (map json_dumps xs) @ '']''"
| "json_dumps (PDict d) = ''{'' @ str_join '', '' (map (\<lambda>(k, v). json_string k @ '': '' @ json_dumps v) d) @ ''}''"

definition max_data_chars :: nat where
  "max_data_chars = 2000"

text \<open>The ellipsis character is written as its UTF-8 bytes.\<close>

definition truncated_mark :: string where
  "truncated_mark = [CHR 0xE2, CHR 0x80, CHR 0xA6] @ '' (truncated)''"

definition render_outcome :: "tool_outcome \<Rightarrow> string" where
  "render_outcome o_c =
     (if to_ok o_c then
        (let dumped = json_dumps (strip_sensitive (PDict (case to_data o_c of None \<Rightarrow> [] | Some d \<Rightarrow> d)))
         in ''Tool '' @ to_tool_id o_c @ '' (success): ''
            @ (if max_data_chars < length dumped then take max_data_chars dumped @ truncated_mark else dumped))
      else ''Tool '' @ to_tool_id o_c @ '' (failed): error_id=''
           @ (case to_error_id o_c of None \<Rightarrow> ''None'' | Some e \<Rightarrow> e)
           @ '' reason='' @ repr_str (or_empty (to_reason o_c)))"

definition render_outcomes :: "tool_outcome list \<Rightarrow> string" where
  "render_outcomes outcomes =
     (if outcomes = [] then ''(no tools ran)'' else str_join [CHR 0x0A] (map render_outcome outcomes))"

section \<open>Facts\<close>

text \<open>
  What must not be shown, written down apart from the code: an entry whose key is, in any case,
  that of a subject, an actor or an issuer or has a token, a secret or a password in its name,
  and an entry whose value is a text of five groups of hexadecimal digits, with or without a
  newline at its end.
\<close>

definition personal_key :: "string \<Rightarrow> bool" where
  "personal_key key \<longleftrightarrow> py_lower key \<in> {''sub'', ''act'', ''issued_by''} \<or> suffix ''_sub'' (py_lower key)
     \<or> sublist ''token'' (py_lower key) \<or> sublist ''secret'' (py_lower key) \<or> sublist ''password'' (py_lower key)"

definition uuid_text :: "string \<Rightarrow> bool" where
  "uuid_text s \<longleftrightarrow> (\<exists>a b c d e. s = a @ ''-'' @ b @ ''-'' @ c @ ''-'' @ d @ ''-'' @ e
     \<and> length a = 8 \<and> length b = 4 \<and> length c = 4 \<and> length d = 4 \<and> length e = 12
     \<and> set (a @ b @ c @ d @ e) \<subseteq> set ''0123456789abcdefABCDEF'')"

definition exposing :: "string \<times> py \<Rightarrow> bool" where
  "exposing kv \<longleftrightarrow> personal_key (fst kv)
     \<or> (\<exists>s. snd kv = PStr s \<and> (uuid_text s \<or> (\<exists>t. s = t @ [CHR 0x0A] \<and> uuid_text t)))"

text \<open>The entries of all dictionaries in a value, at any depth.\<close>

fun entries_in :: "py \<Rightarrow> pydict" and entries_below :: "pydict \<Rightarrow> pydict" where
  "entries_in (PDict d) = entries_below d"
| "entries_in (PList xs) = concat (map entries_in xs)"
| "entries_in v = []"
| "entries_below [] = []"
| "entries_below ((k, v) # d) = (k, v) # entries_in v @ entries_below d"

text \<open>The code's tests decide it.\<close>

lemma is_sensitive_key_iff: "is_sensitive_key k \<longleftrightarrow> personal_key k"
proof -
  have "suffix ''_sub'' ''user_sub''" "suffix ''_sub'' ''reviewed_by_sub''" "suffix ''_sub'' ''reviewer_sub''"
    by (simp_all add: suffix_def)
  then show ?thesis
    by (auto simp: is_sensitive_key_def personal_key_def sensitive_keys_exact_def str_in_sublist Let_def)
qed

lemma hex_char_iff: "hex_char c \<longleftrightarrow> c \<in> set ''0123456789abcdefABCDEF''"
proof -
  have e: "c = d \<longleftrightarrow> (of_char c :: nat) = of_char d" for d by simp
  have n: "(48 \<le> n \<and> n \<le> 57) \<or> (97 \<le> n \<and> n \<le> 102) \<or> (65 \<le> n \<and> n \<le> 70)
    \<longleftrightarrow> n \<in> set [48, 49, 50, 51, 52, 53, 54, 55, 56, 57, 97, 98, 99, 100, 101, 102, 65, 66, 67, 68, 69, 70]" for n :: nat
    by (simp only: list.set insert_iff empty_iff) presburger
  have "hex_char c \<longleftrightarrow> (of_char c :: nat)
    \<in> set [48, 49, 50, 51, 52, 53, 54, 55, 56, 57, 97, 98, 99, 100, 101, 102, 65, 66, 67, 68, 69, 70]"
    by (simp only: hex_char_def Let_def n)
  then show ?thesis by (simp add: e del: of_char_eq_iff)
qed

lemma uuid_group:
  assumes "set xs \<subseteq> set ''0123456789abcdefABCDEF''" and "\<forall>i \<in> {8, 13, 18, 23}. i < k \<or> k + length xs \<le> i"
  shows "list_all (\<lambda>(i, c). if i \<in> {8, 13, 18, 23} then c = CHR ''-'' else hex_char c) (List.enumerate k xs)"
proof -
  have "if i \<in> {8, 13, 18, 23} then c = CHR ''-'' else hex_char c" if "(i, c) \<in> set (List.enumerate k xs)" for i c
  proof -
    from that have "k \<le> i" "i < k + length xs" "c \<in> set xs"
      by (auto simp: in_set_enumerate_eq)
    then have "i \<notin> {8, 13, 18, 23}" "hex_char c" using assms unfolding hex_char_iff by fastforce+
    then show ?thesis by simp
  qed
  then show ?thesis unfolding list_all_iff by blast
qed

lemma uuid_shape_iff: "uuid_shape s \<longleftrightarrow> uuid_text s"
proof
  assume s: "uuid_shape s"
  then have "length s = 36" by (simp add: uuid_shape_def)
  then obtain x where x: "s = map x [0..<36]" by (metis map_nth)
  have u: "[0..<36] = [0,1,2,3,4,5,6,7,8,9,10,11,12,13,14,15,16,17,18,19,20,21,22,23,24,25,26,27,28,29,30,31,32,33,34,35::nat]"
    by code_simp
  show "uuid_text s"
    unfolding uuid_text_def
    by (rule exI [of _ "map x [0,1,2,3,4,5,6,7]"], rule exI [of _ "map x [9,10,11,12]"], rule exI [of _ "map x [14,15,16,17]"],
        rule exI [of _ "map x [19,20,21,22]"], rule exI [of _ "map x [24,25,26,27,28,29,30,31,32,33,34,35]"])
       (use s in \<open>simp add: x u uuid_shape_def hex_char_iff\<close>)
next
  assume "uuid_text s"
  then obtain a b c d e where s: "s = a @ ''-'' @ b @ ''-'' @ c @ ''-'' @ d @ ''-'' @ e"
    and l: "length a = 8" "length b = 4" "length c = 4" "length d = 4" "length e = 12"
    and h: "set a \<subseteq> set ''0123456789abcdefABCDEF''" "set b \<subseteq> set ''0123456789abcdefABCDEF''" "set c \<subseteq> set ''0123456789abcdefABCDEF''"
      "set d \<subseteq> set ''0123456789abcdefABCDEF''" "set e \<subseteq> set ''0123456789abcdefABCDEF''"
    unfolding uuid_text_def set_append Un_subset_iff by blast
  have g: "list_all (\<lambda>(i, c). if i \<in> {8, 13, 18, 23} then c = CHR ''-'' else hex_char c) (List.enumerate 0 a)"
    "list_all (\<lambda>(i, c). if i \<in> {8, 13, 18, 23} then c = CHR ''-'' else hex_char c) (List.enumerate 9 b)"
    "list_all (\<lambda>(i, c). if i \<in> {8, 13, 18, 23} then c = CHR ''-'' else hex_char c) (List.enumerate 14 c)"
    "list_all (\<lambda>(i, c). if i \<in> {8, 13, 18, 23} then c = CHR ''-'' else hex_char c) (List.enumerate 19 d)"
    "list_all (\<lambda>(i, c). if i \<in> {8, 13, 18, 23} then c = CHR ''-'' else hex_char c) (List.enumerate 24 e)"
    by (rule uuid_group [OF h(1)], simp add: l, rule uuid_group [OF h(2)], simp add: l, rule uuid_group [OF h(3)], simp add: l,
        rule uuid_group [OF h(4)], simp add: l, rule uuid_group [OF h(5)], simp add: l)
  show "uuid_shape s"
    using g unfolding uuid_shape_def s by (simp add: l enumerate_append_eq)
qed

lemma dropped_entry_iff: "dropped_entry kv \<longleftrightarrow> exposing kv"
proof -
  have "looks_like_uuid s \<longleftrightarrow> uuid_text s \<or> (\<exists>t. s = t @ [CHR 0x0A] \<and> uuid_text t)" for s
    by (cases s rule: rev_cases) (simp_all add: looks_like_uuid_def uuid_shape_iff)
  then show ?thesis
    by (cases "snd kv") (simp_all add: dropped_entry_def exposing_def is_sensitive_key_iff uuid_value_def)
qed

lemma uuid_value_strip [simp]: "uuid_value (strip_sensitive v) = uuid_value v"
  by (cases v) (simp_all add: uuid_value_def)

lemma dropped_strip [simp]: "dropped_entry (k, strip_sensitive v) = dropped_entry (k, v)"
  by (simp add: dropped_entry_def)

lemma list_ex_concat_map: "list_ex P (concat (map f xs)) \<longleftrightarrow> (\<exists>x \<in> set xs. list_ex P (f x))"
  by (induction xs) simp_all

lemma strip_hides: "\<not> list_ex exposing (entries_in (strip_sensitive v))"
  and strip_entries_hides: "\<not> list_ex exposing (entries_below (strip_entries d))"
  by (induction v and d rule: strip_sensitive_strip_entries.induct)
     (simp_all add: list_ex_concat_map flip: dropped_entry_iff)

lemma strip_fixed: "\<not> list_ex exposing (entries_in v) \<Longrightarrow> strip_sensitive v = v"
  and strip_entries_fixed: "\<not> list_ex exposing (entries_below d) \<Longrightarrow> strip_entries d = d"
  by (induction v and d rule: strip_sensitive_strip_entries.induct)
     (simp_all add: list_ex_concat_map map_idI flip: dropped_entry_iff)

lemma strip_entries_filter:
  "strip_entries d = map (\<lambda>(k, w). (k, strip_sensitive w)) (filter (\<lambda>kv. \<not> exposing kv) d)"
  by (induction d) (auto simp flip: dropped_entry_iff)

lemma strip_entries_subset: "(k, v) \<in> set (strip_entries d) \<Longrightarrow>
   \<exists>w. (k, w) \<in> set d \<and> v = strip_sensitive w \<and> \<not> dropped_entry (k, w)"
proof (induction d)
  case Nil
  then show ?case by simp
next
  case (Cons p d)
  then show ?case by (cases p) (auto split: if_splits)
qed

lemma strip_entries_keeps: "(k, w) \<in> set d \<Longrightarrow> \<not> dropped_entry (k, w) \<Longrightarrow> (k, strip_sensitive w) \<in> set (strip_entries d)"
proof (induction d)
  case Nil
  then show ?case by simp
next
  case (Cons p d)
  then show ?case by (cases p) auto
qed

text \<open>A UUID that is an element of a list passes.\<close>

lemma listed_uuid_kept: "looks_like_uuid u \<Longrightarrow> strip_sensitive (PDict [(''ids'', PList [PStr u])]) = PDict [(''ids'', PList [PStr u])]"
  by (simp add: dropped_entry_def uuid_value_def is_sensitive_key_def sensitive_keys_exact_def py_lower_def lower_char_def suffix_def)

end
