(* ===== verification/LlmRouter.thy ===== *)
theory LlmRouter
  imports KeywordRouter AgentCards Prompts
begin

text \<open>
  The language model in the chat loop (\<open>orchestrator/llm/router.py\<close>,
  \<open>orchestrator/llm/composer.py\<close>, \<open>orchestrator/llm/client.py\<close>): the model proposes tool calls
  and words the reply, the code keeps only calls the registry knows and falls back to the
  keyword router and the plain text.  The model itself is a parameter that may answer
  anything or raise.
\<close>

section \<open>The client\<close>

type_synonym chat_history = "(string \<times> string) list"

record catalogue_entry =
  ce_agent_id :: string
  ce_tool_id :: string
  ce_label :: string
  ce_description :: string
  ce_args :: "string list"

record routed_call =
  rc_agent_id :: string
  rc_tool_id :: string
  rc_args :: pydict

record llm_client =
  lm_route :: "string \<Rightarrow> catalogue_entry list \<Rightarrow> chat_history \<Rightarrow> routed_call list res"
  lm_compose :: "string \<Rightarrow> tool_outcome list \<Rightarrow> chat_history \<Rightarrow> string res"

text \<open>The part of the chat dependencies the routing uses.\<close>

record llm_deps =
  ld_fallback_mode :: string
  ld_client :: "llm_client option"
  ld_rules :: "keyword_rule list"
  ld_registry :: agent_registry
  ld_a2a_agents :: "string list"

section \<open>Routing\<close>

definition internal_only_tools :: "string list" where
  "internal_only_tools = [''hr.lookup_employee'']"

fun json_scalar :: "py \<Rightarrow> bool" where
  "json_scalar (PStr s) = True"
| "json_scalar (PInt i) = True"
| "json_scalar (PFloat r) = True"
| "json_scalar (PBool b) = True"
| "json_scalar _ = False"

definition build_catalogue :: "agent_registry \<Rightarrow> catalogue_entry list" where
  "build_catalogue reg =
     map (\<lambda>l. \<lparr>ce_agent_id = tl_agent_id l, ce_tool_id = td_tool_id (tl_tool l), ce_label = td_label (tl_tool l),
             ce_description = td_description (tl_tool l), ce_args = td_args (tl_tool l)\<rparr>) (llm_tool_list reg)"

definition validate_call :: "llm_deps \<Rightarrow> routed_call \<Rightarrow> tool_call option" where
  "validate_call deps rc =
     (if rc_tool_id rc \<in> set internal_only_tools then None
      else if rc_agent_id rc \<notin> set (ld_a2a_agents deps) then None
      else case registry_get (ld_registry deps) (rc_agent_id rc) of
             None \<Rightarrow> None
           | Some crd \<Rightarrow>
              (case List.find (\<lambda>s. sk_tool_id s = rc_tool_id rc) (cd_skills crd) of
                 None \<Rightarrow> None
               | Some sk \<Rightarrow>
                   Some \<lparr>tc_agent = rc_agent_id rc, tc_tool = rc_tool_id rc,
                     tc_args = filter (\<lambda>(k, v). k \<in> set (sk_args sk) \<and> json_scalar v) (rc_args rc)\<rparr>))"

definition validate_routed :: "llm_deps \<Rightarrow> routed_call list \<Rightarrow> tool_call list" where
  "validate_routed deps routed = List.map_filter (validate_call deps) routed"

definition use_llm :: "llm_deps \<Rightarrow> llm_client option" where
  "use_llm deps = (if ld_fallback_mode deps = ''llm'' then ld_client deps else None)"

definition resolve_tool_calls :: "llm_deps \<Rightarrow> string \<Rightarrow> chat_history \<Rightarrow> tool_call list" where
  "resolve_tool_calls deps user_message history =
     (let fallback = keyword_route (ld_rules deps) user_message
      in case use_llm deps of
           None \<Rightarrow> fallback
         | Some lm \<Rightarrow>
            (case lm_route lm user_message (build_catalogue (ld_registry deps)) history of
               Inl e \<Rightarrow> fallback
             | Inr routed \<Rightarrow>
                (let calls = validate_routed deps routed in if calls \<noteq> [] then calls else fallback)))"

section \<open>Composition\<close>

definition compose_reply :: "llm_deps \<Rightarrow> string \<Rightarrow> tool_outcome list \<Rightarrow> string \<Rightarrow> chat_history \<Rightarrow> string" where
  "compose_reply deps user_message outcomes fallback_text history =
     (case use_llm deps of
        None \<Rightarrow> fallback_text
      | Some lm \<Rightarrow>
         if outcomes \<noteq> [] \<or> history \<noteq> [] then
           (case lm_compose lm user_message outcomes history of Inl e \<Rightarrow> fallback_text | Inr reply \<Rightarrow> reply)
         else fallback_text)"

section \<open>Describing a failure\<close>

definition describe_llm_exc :: "string \<Rightarrow> string \<Rightarrow> string" where
  "describe_llm_exc name txt =
     (let low = py_lower txt
      in if name = ''ResourceExhausted'' \<or> str_in ''429'' txt \<or> str_in ''quota'' low \<or> str_in ''rate limit'' low
            \<or> str_in ''ratelimit'' low
         then name @ '': OpenAI / AMP gateway quota or rate limit exceeded. Check the gateway'' @ [CHR 0x27]
              @ ''s rate limits, or set OPENAI_MODEL to a deployment with more headroom. Falling back to keyword routing. [''
              @ take 160 txt @ '']''
         else if name \<in> set [''PermissionDenied'', ''Unauthenticated''] \<or> str_in ''api key'' low \<or> str_in ''api_key'' low
            \<or> str_in '' 401'' txt \<or> str_in '' 403'' txt
         then name @ '': OpenAI auth/permission error '' @ [CHR 0xE2, CHR 0x80, CHR 0x94] @ '' check OPENAI_API_KEY. ['' @ take 160 txt @ '']''
         else if name = ''InternalServerError'' \<or> str_in '' 500'' txt \<or> str_in '' 502'' txt \<or> str_in '' 503'' txt
            \<or> str_in ''upstream connect'' low
         then name @ '': OpenAI / AMP gateway 5xx (transient). Retried up to max_retries before falling back to keyword routing. [''
              @ take 160 txt @ '']''
         else if name \<in> set [''TimeoutError'', ''CancelledError'']
         then name @ '': OpenAI call exceeded the LLM_TIMEOUT_S budget (often a slow gateway or backoff after a 429/5xx).''
         else name @ '': '' @ take 200 txt)"

section \<open>Facts\<close>

text \<open>A call the registry stands behind.\<close>

definition registered_call :: "llm_deps \<Rightarrow> tool_call \<Rightarrow> bool" where
  "registered_call deps t \<longleftrightarrow>
     tc_tool t \<notin> set internal_only_tools \<and> tc_agent t \<in> set (ld_a2a_agents deps)
     \<and> (\<exists>crd sk. registry_get (ld_registry deps) (tc_agent t) = Some crd \<and> sk \<in> set (cd_skills crd)
          \<and> sk_tool_id sk = tc_tool t \<and> (\<forall>(k, v) \<in> set (tc_args t). k \<in> set (sk_args sk) \<and> json_scalar v))"

lemma validate_call_some:
  assumes "validate_call deps rc = Some t"
  shows "registered_call deps t" and "tc_agent t = rc_agent_id rc" and "tc_tool t = rc_tool_id rc"
    and "set (tc_args t) \<subseteq> set (rc_args rc)"
proof -
  from assms obtain crd sk where
    *: "rc_tool_id rc \<notin> set internal_only_tools" "rc_agent_id rc \<in> set (ld_a2a_agents deps)"
      "registry_get (ld_registry deps) (rc_agent_id rc) = Some crd"
      "List.find (\<lambda>s. sk_tool_id s = rc_tool_id rc) (cd_skills crd) = Some sk"
    and t: "t = \<lparr>tc_agent = rc_agent_id rc, tc_tool = rc_tool_id rc,
        tc_args = filter (\<lambda>(k, v). k \<in> set (sk_args sk) \<and> json_scalar v) (rc_args rc)\<rparr>"
    by (auto simp: validate_call_def split: if_splits option.splits)
  from *(4) have "sk \<in> set (cd_skills crd)" "sk_tool_id sk = rc_tool_id rc" by (auto simp: find_Some_iff)
  with *(1-3) t show "registered_call deps t" by (auto simp: registered_call_def)
  show "tc_agent t = rc_agent_id rc" "tc_tool t = rc_tool_id rc" "set (tc_args t) \<subseteq> set (rc_args rc)" using t by auto
qed

lemma validate_routed_registered: "t \<in> set (validate_routed deps routed) \<Longrightarrow>
   registered_call deps t \<and> (\<exists>rc \<in> set routed. tc_agent t = rc_agent_id rc \<and> tc_tool t = rc_tool_id rc \<and> set (tc_args t) \<subseteq> set (rc_args rc))"
  unfolding validate_routed_def List.map_filter_def by (auto dest: validate_call_some) (metis validate_call_some(2-4))

lemma resolve_cases:
  "resolve_tool_calls deps m h = keyword_route (ld_rules deps) m
   \<or> (\<exists>lm routed. use_llm deps = Some lm \<and> lm_route lm m (build_catalogue (ld_registry deps)) h = Inr routed
        \<and> resolve_tool_calls deps m h = validate_routed deps routed)"
  by (auto simp: resolve_tool_calls_def Let_def split: option.split sum.split)

end
