(* ===== verification/RenderResult.thy ===== *)
theory RenderResult
  imports Prompts Dispatcher
begin

text \<open>
  The texts of a chat reply (\<open>orchestrator/chat/routes.py\<close>): \<open>_friendly_error\<close>,
  \<open>_state_from_error_id\<close> and \<open>_render_result\<close>, one definition per tool.  The code trusts the
  shape of a tool's data: where it calls \<open>get\<close> on something that is no dictionary, or walks or
  joins something that is no list, the model raises as Python does.  A message of the tool is
  returned as it is, so a fragment may be any value.

  The bullet, the dashes and the arrow of the texts are written as their UTF-8 bytes.
\<close>

section \<open>Errors\<close>

definition error_copy :: "(string \<times> string) list" where
  "error_copy =
     [(''ERR-CIBA-001'', ''There was a problem initiating consent. Please try again.''),
      (''ERR-CIBA-002'', ''The agent app is not configured for CIBA. Contact admin.''),
      (''ERR-CIBA-003'', ''The notification channel is not enabled. Contact admin.''),
      (''ERR-CIBA-004'', ''Consent request was rejected by the identity provider.''),
      (''ERR-CIBA-005'', ''You declined the consent request.''),
      (''ERR-CIBA-006'', ''Consent was declined.''),
      (''ERR-CIBA-007'', ''Consent was denied.''),
      (''ERR-CIBA-008'', ''Consent was not granted.''),
      (''ERR-CIBA-009'', ''You took too long to approve. Please ask again.''),
      (''ERR-MCP-001'', ''The agent could not access the requested data. Contact admin.''),
      (''ERR-MCP-002'', ''Token was rejected by the resource server. Contact admin.''),
      (''ERR-MCP-003'', ''You don'' @ [CHR 0x27] @ ''t have permission to perform this action. Your administrator can grant the required role.''),
      (''ERR-MCP-005'', ''The agent could not complete the request. Try again or contact admin.''),
      (''ERR-AGENT-001'', ''The agent service is temporarily unavailable. Try again in a moment.''),
      (''ERR-AGENT-002'', ''I couldn'' @ [CHR 0x27] @ ''t tell which item you meant. Try formats like '' @ [CHR 0x27] @ ''approve LV-004'' @ [CHR 0x27]
          @ '' or '' @ [CHR 0x27] @ ''issue MBP-14-001 to alice'' @ [CHR 0x27] @ ''.'')]"

definition default_error_copy :: string where
  "default_error_copy = ''An error occurred while processing your request. Please try again.''"

definition denied_error_ids :: "string list" where
  "denied_error_ids = [''ERR-CIBA-005'', ''ERR-CIBA-006'', ''ERR-CIBA-007'', ''ERR-CIBA-008'']"

definition expired_error_id :: string where
  "expired_error_id = ''ERR-CIBA-009''"

definition friendly_error :: "string \<Rightarrow> string \<Rightarrow> string \<Rightarrow> string" where
  "friendly_error error_id reason agent_label =
     (if agent_label \<noteq> [] \<and> error_id \<in> set denied_error_ids then
        ''I couldn'' @ [CHR 0x27] @ ''t access '' @ agent_label @ '' (you declined the authorization). Ask again if you''
        @ [CHR 0x27] @ ''d like to retry.''
      else if agent_label \<noteq> [] \<and> error_id = expired_error_id then
        agent_label @ '' approval timed out. Ask again if you'' @ [CHR 0x27] @ ''d like to retry.''
      else (case map_of error_copy error_id of None \<Rightarrow> default_error_copy | Some t \<Rightarrow> t))"

definition state_from_error_id :: "string \<Rightarrow> string" where
  "state_from_error_id error_id =
     (if error_id \<in> set [''ERR-CIBA-005'', ''ERR-CIBA-006'', ''ERR-CIBA-007'', ''ERR-CIBA-008''] then ''DENIED''
      else if error_id = ''ERR-CIBA-009'' then ''EXPIRED''
      else ''ERROR'')"

section \<open>Python on the data\<close>

definition bullet :: string where "bullet = ''  '' @ [CHR 0xE2, CHR 0x80, CHR 0xA2] @ '' ''"
definition en_dash :: string where "en_dash = [CHR 0xE2, CHR 0x80, CHR 0x93]"
definition arrow :: string where "arrow = [CHR 0xE2, CHR 0x86, CHR 0x92]"

text \<open>\<open>d.get(k, "?")\<close> in a format string, \<open>v.get(k, x)\<close> on any value, \<open>d.get(k) or x\<close>.\<close>

definition shown :: "pydict \<Rightarrow> string \<Rightarrow> string" where
  "shown d k = py_str (pyget_or d k (PStr ''?''))"

definition attr_get :: "py \<Rightarrow> string \<Rightarrow> py \<Rightarrow> py res" where
  "attr_get v k dflt = (case v of PDict d \<Rightarrow> Inr (pyget_or d k dflt) | _ \<Rightarrow> Inl (EPy ''AttributeError''))"

definition py_or :: "py \<Rightarrow> py \<Rightarrow> py" where
  "py_or v w = (if truthy v then v else w)"

text \<open>\<open>sep.join(vs)\<close>: every element must be a string.\<close>

definition py_join :: "string \<Rightarrow> py list \<Rightarrow> string res" where
  "py_join sep vs = (if list_all is_str vs then Inr (str_join sep (map py_str vs)) else Inl (EPy ''TypeError''))"

definition newline :: string where "newline = [CHR 0x0A]"

text \<open>A header and one line per element; an element that is no dictionary is shown as it is.\<close>

definition render_rows :: "string \<Rightarrow> (pydict \<Rightarrow> string) \<Rightarrow> py \<Rightarrow> py res" where
  "render_rows header line rows =
     (case py_iter rows of
        Inl e \<Rightarrow> Inl e
      | Inr es \<Rightarrow> Inr (PStr (str_join newline
          (header # map (\<lambda>e. bullet @ (case e of PDict d \<Rightarrow> line d | _ \<Rightarrow> py_str e)) es))))"

section \<open>One tool each\<close>

definition render_balance :: "pydict \<Rightarrow> py res" where
  "render_balance data =
     (case pyget data ''balance'' of
        PDict b \<Rightarrow> Inr (PStr (''Your leave balance: '' @ shown b ''annual'' @ '' annual, '' @ shown b ''sick'' @ '' sick, ''
                     @ shown b ''personal'' @ '' personal day(s) remaining.''))
      | _ \<Rightarrow>
         (let days = pyget_or data ''leave_days'' (PStr ''?''); leave_type = pyget_or data ''leave_type'' (PStr ''annual'');
              as_of = pyget_or data ''as_of_date'' (PStr [])
          in Inr (PStr (''You have '' @ py_str days @ '' days of '' @ py_str leave_type @ '' leave remaining''
               @ (if truthy as_of then '' (as of '' @ py_str as_of @ '')'' else []) @ ''.''))))"

definition policy_line :: "py \<Rightarrow> string" where
  "policy_line t = bullet @
     (case t of
        PDict d \<Rightarrow>
          (let notice = pyget_or d ''min_notice_days'' (PInt 0)
           in shown d ''leave_type'' @ '' '' @ dash @ '' up to '' @ shown d ''max_days_per_year'' @ '' day(s) per year''
              @ (if truthy notice then '', '' @ py_str notice @ '' day(s) notice required'' else []))
      | _ \<Rightarrow> py_str t)"

definition render_policy :: "pydict \<Rightarrow> py res" where
  "render_policy data =
     (let types = py_or (pyget data ''leave_types'') (PList []); to_apply = py_or (pyget data ''to_apply'') (PList [])
      in if \<not> truthy types then Inr (PStr ''No leave policy is configured.'')
         else case py_iter types of
                Inl e \<Rightarrow> Inl e
              | Inr ts \<Rightarrow>
                 (case (if truthy to_apply then map_sum id (\<lambda>xs. [''To apply, give me: '' @ str_join ''; '' (map py_str xs) @ ''.'']) (py_iter to_apply)
                        else Inr []) of
                    Inl e \<Rightarrow> Inl e
                  | Inr apply_line \<Rightarrow>
                      Inr (PStr (str_join newline
                        (''You can apply for these leave types:'' # map policy_line ts @ apply_line
                         @ [''For example: '' @ [CHR 0x22] @ ''annual leave from 2026-06-10 to 2026-06-14, reason: family trip'' @ [CHR 0x22] @ ''.''])))))"

definition render_apply :: "pydict \<Rightarrow> py res" where
  "render_apply data =
     (if truthy (pyget data ''success'')
      then Inr (PStr (''Your leave request has been submitted (ref '' @ shown data ''request_id'' @ '') and is pending approval.''))
      else Inr (py_or (pyget data ''message'') (PStr ''Your leave request could not be submitted.'')))"

definition render_lookup_self :: "pydict \<Rightarrow> py res" where
  "render_lookup_self data =
     (if truthy (pyget data ''assigned'')
      then Inr (PStr (''Your cubicle is '' @ shown data ''cubicle_id'' @ '' on floor '' @ shown data ''floor'' @ ''.''))
      else Inr (PStr (''You don'' @ [CHR 0x27] @ ''t have a cubicle assigned yet.'')))"

text \<open>
  \<open>k.split("_")[1]\<close> of a key that starts with \<open>floor_\<close>.  \<open>isdigit\<close> also accepts the three
  superscript digits, on which \<open>int\<close> raises.
\<close>

definition floor_part :: "string \<Rightarrow> string" where
  "floor_part k = takeWhile (\<lambda>c. c \<noteq> CHR ''_'') (drop 6 k)"

definition floor_sort_key :: "string \<Rightarrow> nat res" where
  "floor_sort_key k =
     (let p = floor_part k; sup = (\<lambda>c. (of_char c :: nat) \<in> {178, 179, 185})
      in if p \<noteq> [] \<and> list_all (\<lambda>c. is_digit c \<or> sup c) p
         then (if list_all is_digit p then Inr (nat_of_digits p) else Inl (EPy ''ValueError''))
         else Inr 0)"

fun floor_parts :: "pydict \<Rightarrow> string list \<Rightarrow> string list res" where
  "floor_parts data [] = Inr []"
| "floor_parts data (fk # fks) =
     (let stats = pyget_or data fk (PDict [])
      in case (attr_get stats ''vacant'' (PStr ''?''), attr_get stats ''total'' (PStr ''?'')) of
           (Inr v, Inr t) \<Rightarrow>
             (case floor_parts data fks of
                Inl e \<Rightarrow> Inl e
              | Inr ps \<Rightarrow> Inr ((''Floor '' @ floor_part fk @ '': '' @ py_str v @ '' vacant of '' @ py_str t) # ps))
         | (Inl e, _) \<Rightarrow> Inl e
         | (_, Inl e) \<Rightarrow> Inl e)"

definition render_summary :: "pydict \<Rightarrow> py res" where
  "render_summary data =
     (let keys = filter (\<lambda>k. prefix ''floor_'' k) (map fst data)
      in if list_ex (\<lambda>k. floor_sort_key k = Inl (EPy ''ValueError'')) keys then Inl (EPy ''ValueError'')
         else (let floors = sort_key (\<lambda>k. projr (floor_sort_key k)) keys
               in if floors = [] then Inr (PStr ''No cubicle data available.'')
                  else (case floor_parts data floors of
                          Inl e \<Rightarrow> Inl e
                        | Inr parts \<Rightarrow>
                            Inr (PStr (''Vacant cubicles by floor '' @ dash @ '' '' @ str_join ''; '' parts
                                   @ ''. Which floor would you like to allocate on?'')))))"

definition render_list_floor :: "pydict \<Rightarrow> py res" where
  "render_list_floor data =
     (if truthy (pyget data ''error'')
      then Inr (py_or (pyget data ''message'') (PStr (''That floor is not valid (use 1'' @ en_dash @ ''4).'')))
      else (let vacant = pyget_or data ''vacant'' (PList [])
            in if \<not> truthy vacant
               then Inr (PStr (''Floor '' @ shown data ''floor'' @ '' has no vacant cubicles. Try another floor (1'' @ en_dash @ ''4).''))
               else (case py_iter vacant of
                       Inl e \<Rightarrow> Inl e
                     | Inr vs \<Rightarrow>
                        (case py_join '', '' vs of
                           Inl e \<Rightarrow> Inl e
                         | Inr t \<Rightarrow> Inr (PStr (''Floor '' @ shown data ''floor'' @ '' has '' @ show_nat (length vs)
                               @ '' vacant cubicle(s): '' @ t @ ''. Which seat would you like, and for which employee?''))))))"

definition render_assign :: "pydict \<Rightarrow> py res" where
  "render_assign data =
     (if pyget data ''error'' = PStr ''cubicle_already_occupied'' then
        map_sum id (\<lambda>u. PStr (''That cubicle is already assigned to '' @ py_str u @ ''.''))
          (attr_get (pyget_or data ''current_holder'' (PDict [])) ''username'' (PStr ''someone else''))
      else if truthy (pyget data ''error'') then Inr (py_or (pyget data ''message'') (PStr ''Could not assign that cubicle.''))
      else map_sum id (\<lambda>u. PStr (''Assigned '' @ shown data ''cubicle_id'' @ '' (floor '' @ shown data ''floor'' @ '') to ''
                                @ py_str u @ ''.''))
             (attr_get (pyget_or data ''assigned_to'' (PDict [])) ''username'' (PStr ''?'')))"

definition history_line :: "pydict \<Rightarrow> string" where
  "history_line e = shown e ''start_date'' @ '' to '' @ shown e ''end_date'' @ '' '' @ dash @ '' '' @ shown e ''days'' @ '' day(s), ''
     @ shown e ''type'' @ '' ('' @ shown e ''status'' @ '')''"

definition render_history :: "pydict \<Rightarrow> py res" where
  "render_history data =
     (let entries = pyget_or data ''entries'' (PList [])
      in if \<not> truthy entries then Inr (PStr ''You have no leave history on record.'')
         else render_rows ''Your recent leave:'' history_line entries)"

definition all_leaves_line :: "pydict \<Rightarrow> string" where
  "all_leaves_line row = shown row ''request_id'' @ '' '' @ dash @ '' '' @ shown row ''employee'' @ '' '' @ dash @ '' ''
     @ shown row ''type'' @ '' '' @ shown row ''start_date'' @ arrow @ shown row ''end_date''
     @ '' ('' @ shown row ''days_requested'' @ ''d) ['' @ shown row ''status'' @ '']''"

definition render_all_leaves :: "pydict \<Rightarrow> py res" where
  "render_all_leaves data =
     (let rows = pyget_or data ''leave_requests'' (PList [])
      in if \<not> truthy rows then Inr (PStr ''No leave requests found.'')
         else render_rows ''Leave requests:'' all_leaves_line rows)"

definition review_id :: "pydict \<Rightarrow> string" where
  "review_id data = py_str (py_or (pyget data ''request_id'') (py_or (pyget data ''leave_id'') (PStr ''?'')))"

definition render_approve :: "pydict \<Rightarrow> py res" where
  "render_approve data =
     (if \<not> truthy (pyget data ''success'')
      then Inr (py_or (pyget data ''message'') (PStr ''That leave request could not be approved.''))
      else (let emp = pyget data ''employee''
            in Inr (PStr (''You approved leave request '' @ review_id data @ (if truthy emp then '' for '' @ py_str emp @ ''.'' else ''.'')))))"

definition render_reject :: "pydict \<Rightarrow> py res" where
  "render_reject data =
     (if \<not> truthy (pyget data ''success'')
      then Inr (py_or (pyget data ''message'') (PStr ''That leave request could not be rejected.''))
      else (let emp = pyget data ''employee''; reason = py_or (pyget data ''rejection_reason'') (pyget data ''reason'')
            in Inr (PStr (''You rejected leave request '' @ review_id data @ (if truthy emp then '' for '' @ py_str emp else [])
                  @ (if truthy reason then '' (reason: '' @ py_str reason @ '')'' else []) @ ''.''))))"

definition available_line :: "pydict \<Rightarrow> string" where
  "available_line a = shown a ''model'' @ '' ('' @ shown a ''asset_id'' @ '') '' @ dash @ '' '' @ shown a ''type'' @ '', ''
     @ shown a ''available_count'' @ '' available''"

definition render_available :: "pydict \<Rightarrow> py res" where
  "render_available data =
     (let assets = pyget_or data ''assets'' (PList [])
      in if \<not> truthy assets then Inr (PStr ''No equipment is currently available.'')
         else render_rows ''Available equipment:'' available_line assets)"

definition my_asset_line :: "pydict \<Rightarrow> string" where
  "my_asset_line a = shown a ''model'' @ '' ('' @ shown a ''asset_id'' @ '') '' @ dash @ '' '' @ shown a ''type'' @ '', '' @ shown a ''status''"

definition render_my_assets :: "pydict \<Rightarrow> py res" where
  "render_my_assets data =
     (let assets = pyget_or data ''assets'' (PList [])
      in if \<not> truthy assets then Inr (PStr ''You have no assets assigned.'')
         else render_rows ''Your assigned equipment:'' my_asset_line assets)"

text \<open>\<open>issued_at[:10]\<close> needs a string or a list.\<close>

definition render_issue :: "pydict \<Rightarrow> py res" where
  "render_issue data =
     (let recipient = py_or (pyget data ''employee_username'') (py_or (pyget data ''employee_id'') (PStr ''the requested employee''));
          issued_at = pyget_or data ''issued_at'' (PStr []);
          txt = (\<lambda>c. PStr (''Asset '' @ shown data ''asset_id'' @ '' issued to '' @ py_str recipient @ c @ ''.''))
      in if \<not> truthy issued_at then Inr (txt [])
         else (case issued_at of
                 PStr s \<Rightarrow> Inr (txt ('' on '' @ take 10 s))
               | PList xs \<Rightarrow> Inr (txt ('' on '' @ py_str (PList (take 10 xs))))
               | PDict d \<Rightarrow> Inl (EPy ''KeyError'')
               | _ \<Rightarrow> Inl (EPy ''TypeError'')))"

definition render_generic :: "string \<Rightarrow> pydict \<Rightarrow> py res" where
  "render_generic agent_label data =
     Inr (PStr (agent_label @ '' returned: '' @ str_join '', '' (map (\<lambda>(k, v). k @ '': '' @ py_str v) data) @ ''.''))"

section \<open>The switch\<close>

definition render_result :: "string \<Rightarrow> string \<Rightarrow> result_payload \<Rightarrow> py res" where
  "render_result agent_label tool_id result =
     (let data = strip_entries (rp_data result)
      in if tool_id = ''hr.read_balance'' then render_balance data
         else if tool_id = ''hr.read_policy'' then render_policy data
         else if tool_id = ''hr.apply_leave'' then render_apply data
         else if tool_id = ''hr.cubicle_lookup_self'' then render_lookup_self data
         else if tool_id = ''hr.cubicle_summary'' then render_summary data
         else if tool_id = ''hr.cubicle_list_floor'' then render_list_floor data
         else if tool_id = ''hr.cubicle_assign'' then render_assign data
         else if tool_id = ''hr.read_history'' then render_history data
         else if tool_id = ''hr.read_all_leaves'' then render_all_leaves data
         else if tool_id = ''hr.approve_leave'' then render_approve data
         else if tool_id = ''hr.reject_leave'' then render_reject data
         else if tool_id = ''it.list_available_assets'' then render_available data
         else if tool_id = ''it.get_my_assets'' then render_my_assets data
         else if tool_id = ''it.issue_asset'' then render_issue data
         else render_generic agent_label data)"

end
