(* ===== verification/SessionStore.thy ===== *)
theory SessionStore
  imports TokenModels Fifo
begin

text \<open>
  \<open>orchestrator/auth/session_store.py\<close> with the event vocabulary of
  \<open>orchestrator/events/sse.py\<close>: sessions, their pending consents and issued-token log, and
  the store with its lookup, deletion, pruning, sid index and the pending logout reasons.
  The store of reasons is the second provider of the \<open>fifo_store\<close> contract.

  Objects the code shares by reference (a session, a pending consent) are the entries of
  the store; an update of one is an update of its entry.  An \<open>asyncio.Event\<close> is a flag,
  an \<open>asyncio.Queue\<close> the list of what was put, \<open>None\<close> being the close sentinel.
  Times are epoch seconds.
\<close>

section \<open>Events\<close>

record ciba_url_event =
  cu_request_id :: string
  cu_agent_id :: string
  cu_agent_label :: string
  cu_action :: string
  cu_auth_url :: string
  cu_binding_code :: string
  cu_expires_in :: int
  cu_scope :: string
  cu_is_refresh :: bool
  cu_prior_consent_at :: "real option"
  cu_binding_message :: "string option"
  cu_action_text :: "string option"

datatype sse_event =
    SessionReadyEvent string real
  | RoutingEvent string string string nat nat
  | CibaUrlEvent ciba_url_event
  | CibaStateChangeEvent string string "string option"
  | ChatMessageEvent string string
  | SseErrorEvent string string "string option"
  | SessionTerminatedEvent string string

section \<open>Sessions\<close>

record pending_ciba =
  pc_auth_req_id :: string
  pc_agent_id :: string
  pc_request_id :: string
  pc_started_at :: real
  pc_poll_task :: bool
  pc_cancel_event :: bool
  pc_cancelled_ack :: bool
  pc_status :: string

definition new_pending_ciba :: "string \<Rightarrow> string \<Rightarrow> string \<Rightarrow> real \<Rightarrow> pending_ciba" where
  "new_pending_ciba auth_req_id agent_id request_id started_at =
     \<lparr>pc_auth_req_id = auth_req_id, pc_agent_id = agent_id, pc_request_id = request_id,
      pc_started_at = started_at, pc_poll_task = False, pc_cancel_event = False,
      pc_cancelled_ack = False, pc_status = ''pending''\<rparr>"

record issued_token_record =
  tr_session_id :: string
  tr_agent_id :: string
  tr_jti :: string
  tr_exp :: int
  tr_iat :: int
  tr_auth_req_id :: string

record session =
  s_session_id :: string
  s_user_sub :: string
  s_user_label :: string
  s_token_a :: oauth_token
  s_pkce_state :: "string option"
  s_code_verifier :: "string option"
  s_sse_queue :: "sse_event option list"
  s_pending_ciba :: "(string \<times> pending_ciba) list"
  s_cached_obo :: "((string \<times> string set) \<times> obo_token) list"
  s_completed_ciba_log :: "issued_token_record list"
  s_created_at :: real
  s_last_seen_at :: real
  s_terminating :: bool
  s_last_logout_reason :: "string option"
  s_chat_history :: "(string \<times> string) list"

definition session_touch :: "real \<Rightarrow> session \<Rightarrow> session" where
  "session_touch now s = s\<lparr>s_last_seen_at := now\<rparr>"

definition max_chat_history :: nat where
  "max_chat_history = 12"

text \<open>\<open>del self.chat_history[:-12]\<close> drops all but the last twelve.\<close>

definition record_chat_turn :: "string \<Rightarrow> string \<Rightarrow> session \<Rightarrow> session" where
  "record_chat_turn role txt s =
     (let h = s_chat_history s @ [(role, txt)]
      in s\<lparr>s_chat_history := (if max_chat_history < length h then drop (length h - max_chat_history) h else h)\<rparr>)"

definition history_snapshot :: "session \<Rightarrow> (string \<times> string) list" where
  "history_snapshot s = s_chat_history s"

definition session_is_expired :: "real \<Rightarrow> int \<Rightarrow> session \<Rightarrow> bool" where
  "session_is_expired now max_idle_seconds s = (of_int max_idle_seconds < now - s_last_seen_at s)"

section \<open>The store\<close>

record session_store =
  ss_max_idle_seconds :: int
  ss_reasons_hard_cap :: int
  ss_reasons_ttl_seconds :: int
  ss_sessions :: "(string \<times> session) list"
  ss_sid_to_user_sub :: "(string \<times> string) list"
  ss_pending_logout_reasons :: "(string \<times> (string \<times> real)) list"

definition new_session_store :: session_store where
  "new_session_store =
     \<lparr>ss_max_idle_seconds = 3600, ss_reasons_hard_cap = 10000, ss_reasons_ttl_seconds = 86400,
      ss_sessions = [], ss_sid_to_user_sub = [], ss_pending_logout_reasons = []\<rparr>"

text \<open>\<open>create\<close>; the fresh UUID is an argument.\<close>

definition session_create ::
  "string \<Rightarrow> string \<Rightarrow> string \<Rightarrow> oauth_token \<Rightarrow> real \<Rightarrow> session_store \<Rightarrow> session \<times> session_store"
where
  "session_create session_id user_sub user_label token_a now st =
     (let s = \<lparr>s_session_id = session_id, s_user_sub = user_sub, s_user_label = user_label,
               s_token_a = token_a, s_pkce_state = None, s_code_verifier = None, s_sse_queue = [],
               s_pending_ciba = [], s_cached_obo = [], s_completed_ciba_log = [],
               s_created_at = now, s_last_seen_at = now, s_terminating = False,
               s_last_logout_reason = None, s_chat_history = []\<rparr>
      in (s, st\<lparr>ss_sessions := AList.update session_id s (ss_sessions st)\<rparr>))"

definition session_get :: "string \<Rightarrow> session_store \<Rightarrow> session option" where
  "session_get session_id st = map_of (ss_sessions st) session_id"

fun find_pending_in :: "string \<Rightarrow> (string \<times> session) list \<Rightarrow> (session \<times> pending_ciba) option" where
  "find_pending_in auth_req_id [] = None"
| "find_pending_in auth_req_id ((i, s) # ss) =
     (case map_of (s_pending_ciba s) auth_req_id of
        Some p \<Rightarrow> Some (s, p)
      | None \<Rightarrow> find_pending_in auth_req_id ss)"

definition find_pending_ciba :: "string \<Rightarrow> session_store \<Rightarrow> (session \<times> pending_ciba) option" where
  "find_pending_ciba auth_req_id st = find_pending_in auth_req_id (ss_sessions st)"

definition session_get_or_404 :: "string \<Rightarrow> real \<Rightarrow> session_store \<Rightarrow> session res \<times> session_store" where
  "session_get_or_404 session_id now st =
     (case map_of (ss_sessions st) session_id of
        None \<Rightarrow> (Inl (EPy ''KeyError''), st)
      | Some s \<Rightarrow>
         (let s' = session_touch now s
          in (Inr s', st\<lparr>ss_sessions := AList.update session_id s' (ss_sessions st)\<rparr>)))"

definition session_delete :: "string \<Rightarrow> session_store \<Rightarrow> bool \<times> session_store" where
  "session_delete session_id st =
     (if session_id \<in> fst ` set (ss_sessions st)
      then (True, st\<lparr>ss_sessions := AList.delete session_id (ss_sessions st)\<rparr>) else (False, st))"

definition find_sessions_for_user :: "string \<Rightarrow> session_store \<Rightarrow> session list" where
  "find_sessions_for_user user_sub st = filter (\<lambda>s. s_user_sub s = user_sub) (map snd (ss_sessions st))"

definition register_sid :: "string \<Rightarrow> string \<Rightarrow> session_store \<Rightarrow> session_store" where
  "register_sid sid user_sub st =
     (case map_of (ss_sid_to_user_sub st) sid of
        Some existing \<Rightarrow>
          (if existing \<noteq> user_sub then st
           else st\<lparr>ss_sid_to_user_sub := AList.update sid user_sub (ss_sid_to_user_sub st)\<rparr>)
      | None \<Rightarrow> st\<lparr>ss_sid_to_user_sub := AList.update sid user_sub (ss_sid_to_user_sub st)\<rparr>)"

definition resolve_sid :: "string \<Rightarrow> session_store \<Rightarrow> string option" where
  "resolve_sid sid st = map_of (ss_sid_to_user_sub st) sid"

text \<open>\<open>None\<close> is the \<open>KeyError\<close> of \<open>popitem\<close> on an empty dictionary (cap 0).\<close>

definition record_pending_logout_reason ::
  "string \<Rightarrow> string \<Rightarrow> real \<Rightarrow> session_store \<Rightarrow> session_store option"
where
  "record_pending_logout_reason user_sub reason now st =
     (if user_sub \<in> set (od_keys (ss_pending_logout_reasons st))
      then Some (st\<lparr>ss_pending_logout_reasons :=
              AList.update user_sub (reason, now) (od_move_to_end user_sub (ss_pending_logout_reasons st))\<rparr>)
      else if ss_reasons_hard_cap st \<le> int (length (ss_pending_logout_reasons st))
      then (case od_popitem_first (ss_pending_logout_reasons st) of
              None \<Rightarrow> None
            | Some (_, rest) \<Rightarrow> Some (st\<lparr>ss_pending_logout_reasons := AList.update user_sub (reason, now) rest\<rparr>))
      else Some (st\<lparr>ss_pending_logout_reasons :=
              AList.update user_sub (reason, now) (ss_pending_logout_reasons st)\<rparr>))"

definition consume_pending_logout_reason :: "string \<Rightarrow> session_store \<Rightarrow> string option \<times> session_store" where
  "consume_pending_logout_reason user_sub st =
     (map_option fst (map_of (ss_pending_logout_reasons st) user_sub),
      st\<lparr>ss_pending_logout_reasons := AList.delete user_sub (ss_pending_logout_reasons st)\<rparr>)"

definition sweep_pending_logout_reasons :: "real \<Rightarrow> session_store \<Rightarrow> session_store \<times> nat" where
  "sweep_pending_logout_reasons now st =
     (let cutoff = now - of_int (ss_reasons_ttl_seconds st);
          expired = map fst (filter (\<lambda>(k, e). snd e < cutoff) (ss_pending_logout_reasons st))
      in (st\<lparr>ss_pending_logout_reasons := fold AList.delete expired (ss_pending_logout_reasons st)\<rparr>,
          length expired))"

definition prune_expired :: "real \<Rightarrow> session_store \<Rightarrow> nat \<times> session_store" where
  "prune_expired now st =
     (let stale = map fst (filter (\<lambda>(i, s). session_is_expired now (ss_max_idle_seconds st) s) (ss_sessions st))
      in (length stale, st\<lparr>ss_sessions := fold AList.delete stale (ss_sessions st)\<rparr>))"

section \<open>The reasons are a bounded store\<close>

lemma reasons_sweep_items:
  "distinct (map fst (ss_pending_logout_reasons st)) \<Longrightarrow>
     ss_pending_logout_reasons (fst (sweep_pending_logout_reasons t st)) =
       filter (\<lambda>(k, v). \<not> snd v < t - of_int (ss_reasons_ttl_seconds st)) (ss_pending_logout_reasons st)"
  using expired_keys_filter [of "ss_pending_logout_reasons st" "\<lambda>e. snd e < t - of_int (ss_reasons_ttl_seconds st)"]
  by (simp add: sweep_pending_logout_reasons_def Let_def fold_delete_filter)

lemma reasons_put_items:
  assumes "record_pending_logout_reason k r t st = Some st'" "distinct (map fst (ss_pending_logout_reasons st))"
  shows "ss_pending_logout_reasons st' = fifo_spec (ss_reasons_hard_cap st) k (r, t) (ss_pending_logout_reasons st)"
proof (cases "k \<in> fst ` set (ss_pending_logout_reasons st)")
  case True
  with assms show ?thesis
    by (auto simp: record_pending_logout_reason_def od_keys_def fifo_spec_def move_update_spec)
next
  case False
  with assms show ?thesis
    by (auto simp: record_pending_logout_reason_def od_keys_def fifo_spec_def od_popitem_first_def update_new
        split: if_splits list.splits)
qed

lemma reasons_put_frame:
  "record_pending_logout_reason k r t st = Some st' \<Longrightarrow>
     ss_sessions st' = ss_sessions st \<and> ss_reasons_hard_cap st' = ss_reasons_hard_cap st
     \<and> ss_reasons_ttl_seconds st' = ss_reasons_ttl_seconds st \<and> ss_sid_to_user_sub st' = ss_sid_to_user_sub st
     \<and> ss_max_idle_seconds st' = ss_max_idle_seconds st"
  by (auto simp: record_pending_logout_reason_def split: if_splits option.splits)

lemma reasons_put_total:
  "0 < ss_reasons_hard_cap st \<Longrightarrow> \<exists>st'. record_pending_logout_reason k r t st = Some st'"
  by (auto simp: record_pending_logout_reason_def od_popitem_first_def split: list.splits)

lemma reasons_sweep_count:
  "distinct (map fst (ss_pending_logout_reasons st)) \<Longrightarrow>
     length (filter (\<lambda>(k, v). \<not> snd v < t - of_int (ss_reasons_ttl_seconds st)) (ss_pending_logout_reasons st))
       + snd (sweep_pending_logout_reasons t st) = length (ss_pending_logout_reasons st)"
  using length_filter_split [of "\<lambda>v. snd v < t - of_int (ss_reasons_ttl_seconds st)" "ss_pending_logout_reasons st"]
  by (simp add: sweep_pending_logout_reasons_def Let_def)

lemma reasons_sweep_frame:
  "ss_reasons_hard_cap (fst (sweep_pending_logout_reasons t st)) = ss_reasons_hard_cap st"
  "ss_reasons_ttl_seconds (fst (sweep_pending_logout_reasons t st)) = ss_reasons_ttl_seconds st"
  by (simp_all add: sweep_pending_logout_reasons_def Let_def)

interpretation reasons: fifo_store
  "\<lambda>st k v. record_pending_logout_reason k (fst v) (snd v) st"
  sweep_pending_logout_reasons ss_pending_logout_reasons ss_reasons_hard_cap
  "\<lambda>st t v. snd v < t - of_int (ss_reasons_ttl_seconds st)"
  by unfold_locales
     (auto simp: reasons_put_items reasons_sweep_items reasons_put_total reasons_sweep_count
       reasons_sweep_frame dest: reasons_put_frame)

section \<open>Facts\<close>

text \<open>The sessions of the dictionary carry its keys.\<close>

definition store_ok :: "session_store \<Rightarrow> bool" where
  "store_ok st = (distinct (map fst (ss_sessions st))
     \<and> (\<forall>(i, s) \<in> set (ss_sessions st). s_session_id s = i))"

lemma store_ok_new: "store_ok new_session_store"
  by (simp add: store_ok_def new_session_store_def)

lemma set_update_subset: "set (AList.update k v d) \<subseteq> insert (k, v) (set d)"
  by (induction d) auto

lemma store_ok_create: "store_ok st \<Longrightarrow> store_ok (snd (session_create i u l t now st))"
  unfolding store_ok_def session_create_def Let_def
  using set_update_subset by fastforce

lemma store_ok_get: "store_ok st \<Longrightarrow> store_ok (snd (session_get_or_404 i now st))"
proof -
  assume ok: "store_ok st"
  show ?thesis
  proof (cases "map_of (ss_sessions st) i")
    case None
    then show ?thesis using ok by (simp add: session_get_or_404_def)
  next
    case (Some s)
    then have "s_session_id (session_touch now s) = i"
      using ok map_of_SomeD by (fastforce simp: store_ok_def session_touch_def)
    then show ?thesis using ok Some set_update_subset [of i "session_touch now s" "ss_sessions st"]
      by (fastforce simp: session_get_or_404_def store_ok_def Let_def)
  qed
qed

lemma store_ok_delete: "store_ok st \<Longrightarrow> store_ok (snd (session_delete i st))"
  by (auto simp: store_ok_def session_delete_def AList.delete_eq)

lemma session_delete_sessions: "ss_sessions (snd (session_delete i st)) = AList.delete i (ss_sessions st)"
  by (auto simp: session_delete_def delete_idem)

lemma find_sessions_for_user_iff:
  "s \<in> set (find_sessions_for_user u st) \<longleftrightarrow> s_user_sub s = u \<and> (\<exists>i. (i, s) \<in> set (ss_sessions st))"
  by (force simp: find_sessions_for_user_def)

lemma chat_history_bounded:
  "length (s_chat_history s) \<le> max_chat_history \<Longrightarrow> length (s_chat_history (record_chat_turn r t s)) \<le> max_chat_history"
  by (simp add: record_chat_turn_def Let_def max_chat_history_def)

text \<open>What pruning removes.\<close>

lemma prune_expired_sessions:
  assumes "distinct (map fst (ss_sessions st))"
  shows "ss_sessions (snd (prune_expired now st)) =
    filter (\<lambda>(i, s). \<not> session_is_expired now (ss_max_idle_seconds st) s) (ss_sessions st)"
  using expired_keys_filter [OF assms, of "session_is_expired now (ss_max_idle_seconds st)"]
  by (simp add: prune_expired_def Let_def fold_delete_filter)

end
