(* ===== verification/Sse.thy ===== *)
theory Sse
  imports SessionStore
begin

text \<open>
  The event stream to the browser: the channel over a session's queue
  (\<open>orchestrator/events/sse.py\<close>), the route that opens a stream
  (\<open>orchestrator/events/sse_router.py\<close>) and the hook that runs when one ends
  (\<open>_cancel_pending_ciba_for_session\<close> of \<open>orchestrator/main.py\<close>).

  The bytes of a frame are pydantic's JSON of its event; a frame here is the event itself.
\<close>

section \<open>The channel\<close>

definition publish :: "sse_event \<Rightarrow> session \<Rightarrow> session" where
  "publish e s = s\<lparr>s_sse_queue := s_sse_queue s @ [Some e]\<rparr>"

text \<open>\<open>close\<close>: the sentinel, once per channel object.\<close>

definition channel_close :: "bool \<Rightarrow> session \<Rightarrow> bool \<times> session" where
  "channel_close was_closed s = (if was_closed then (True, s) else (True, s\<lparr>s_sse_queue := s_sse_queue s @ [None]\<rparr>))"

datatype frame = KeepAlive | DataFrame sse_event

text \<open>
  \<open>stream\<close> as it meets the publishers: \<open>Published\<close> is a put, \<open>Waited\<close> one turn of the loop,
  which takes the head of the queue or, when the wait ran out on an empty queue, sends a
  keep-alive.  The result: the frames, the queue, and whether the stream is still open.
\<close>

datatype stream_act = Published "sse_event option" | Waited

text \<open>What the publishers put in the queue.\<close>

definition put_by :: "stream_act list \<Rightarrow> sse_event option list" where
  "put_by acts = List.map_filter (\<lambda>a. case a of Published x \<Rightarrow> Some x | Waited \<Rightarrow> None) acts"

fun stream_run :: "sse_event option list \<Rightarrow> stream_act list \<Rightarrow> frame list \<times> sse_event option list \<times> bool" where
  "stream_run q [] = ([], q, True)"
| "stream_run q (Published x # acts) = stream_run (q @ [x]) acts"
| "stream_run [] (Waited # acts) = (let (fs, r) = stream_run [] acts in (KeepAlive # fs, r))"
| "stream_run (None # q) (Waited # acts) = ([], q @ put_by acts, False)"
| "stream_run (Some e # q) (Waited # acts) = (let (fs, r) = stream_run q acts in (DataFrame e # fs, r))"

section \<open>The route\<close>

datatype stream_answer = StreamRefused int string | StreamOpened session

definition open_stream :: "string \<Rightarrow> string option \<Rightarrow> real \<Rightarrow> session_store \<Rightarrow> stream_answer \<times> session_store" where
  "open_stream session_id cookie now st =
     (if or_empty cookie = [] then (StreamRefused 401 ''ERR-AUTH-001'', st)
      else if or_empty cookie \<noteq> session_id then (StreamRefused 403 ''ERR-AUTH-009'', st)
      else case session_get_or_404 session_id now st of
             (Inl e, st') \<Rightarrow> (StreamRefused 404 ''Session not found'', st')
           | (Inr s, st') \<Rightarrow>
               (let s' = publish (SessionReadyEvent (s_user_label s) now) s
                in (StreamOpened s', st'\<lparr>ss_sessions := AList.update session_id s' (ss_sessions st')\<rparr>)))"

section \<open>The end of a stream\<close>

text \<open>
  The hook: a cancel call to the agent of every pending consent that has a client (a failing
  call is logged and skipped), and the local flag in any case.
\<close>

definition cancel_pending_for_session :: "string set \<Rightarrow> session \<Rightarrow> session \<times> (string \<times> string) list" where
  "cancel_pending_for_session agents s =
     (s\<lparr>s_pending_ciba := map (\<lambda>(k, p). (k, p\<lparr>pc_cancel_event := True, pc_status := ''cancelled''\<rparr>)) (s_pending_ciba s)\<rparr>,
      map (\<lambda>(k, p). (pc_agent_id p, k)) (filter (\<lambda>(k, p). pc_agent_id p \<in> agents) (s_pending_ciba s)))"

section \<open>Facts\<close>

fun events_of :: "frame list \<Rightarrow> sse_event list" where
  "events_of [] = []"
| "events_of (KeepAlive # fs) = events_of fs"
| "events_of (DataFrame e # fs) = e # events_of fs"

lemma put_by_simps [simp]:
  "put_by [] = []" "put_by (Published x # acts) = x # put_by acts" "put_by (Waited # acts) = put_by acts"
  by (simp_all add: put_by_def List.map_filter_simps)

lemma stream_open_order:
  "stream_run q acts = (fs, q', True) \<Longrightarrow> q @ put_by acts = map Some (events_of fs) @ q'"
  by (induction q acts arbitrary: fs rule: stream_run.induct) (auto split: prod.splits)

lemma stream_closed_order:
  "stream_run q acts = (fs, q', False) \<Longrightarrow> q @ put_by acts = map Some (events_of fs) @ None # q'"
  by (induction q acts arbitrary: fs rule: stream_run.induct) (auto split: prod.splits)

lemma stream_run_drains:
  "None \<notin> set q \<Longrightarrow> stream_run q (replicate (length q) Waited) = (map (DataFrame \<circ> the) q, [], True)"
proof (induction q)
  case Nil
  then show ?case by simp
next
  case (Cons a q)
  then obtain e where "a = Some e" by (cases a) auto
  with Cons show ?case by simp
qed

end
