(* ===== verification/UrlText.thy ===== *)
theory UrlText
  imports Prelude
begin

text \<open>
  The two encodings of text the services put into URLs, both of the Python standard library:
  \<open>urllib.parse.urlencode\<close> for query strings and \<open>base64.urlsafe_b64encode\<close> for the PKCE
  values.  Beside each stands its reader, which the identity server applies, and the fact
  that reading gives back what was written.
\<close>

section \<open>Query strings\<close>

text \<open>\<open>urllib.parse.quote_plus\<close> on UTF-8.\<close>

definition url_safe :: "char \<Rightarrow> bool" where
  "url_safe c = (let n = (of_char c :: nat) in
     (48 \<le> n \<and> n \<le> 57) \<or> (65 \<le> n \<and> n \<le> 90) \<or> (97 \<le> n \<and> n \<le> 122)
     \<or> c \<in> {CHR ''_'', CHR ''.'', CHR ''-'', CHR ''~''})"

definition upper_hex :: "nat \<Rightarrow> char" where
  "upper_hex d = (if d < 10 then char_of (48 + d) else char_of (55 + d))"

definition percent_byte :: "nat \<Rightarrow> string" where
  "percent_byte n = [CHR ''%'', upper_hex (n div 16), upper_hex (n mod 16)]"

definition quote_char :: "char \<Rightarrow> string" where
  "quote_char c = (let n = (of_char c :: nat) in
     if url_safe c then [c]
     else if c = CHR '' '' then ''+''
     else if n < 128 then percent_byte n
     else percent_byte (192 + n div 64) @ percent_byte (128 + n mod 64))"

definition quote_plus :: "string \<Rightarrow> string" where
  "quote_plus s = concat (map quote_char s)"

definition urlencode :: "(string \<times> string) list \<Rightarrow> string" where
  "urlencode ps = str_join ''&'' (map (\<lambda>(k, v). quote_plus k @ ''='' @ quote_plus v) ps)"

subsection \<open>Reading a query string\<close>

definition unhex :: "char \<Rightarrow> nat" where
  "unhex c = (let n = (of_char c :: nat) in if n < 65 then n - 48 else n - 55)"

text \<open>The bytes of a quoted text, and the code points below 256 of UTF-8 bytes.\<close>

fun pct_decode :: "string \<Rightarrow> nat list" where
  "pct_decode [] = []"
| "pct_decode (c # cs) =
     (if c = CHR ''+'' then 32 # pct_decode cs
      else if c = CHR ''%'' then
        (case cs of h # l # r \<Rightarrow> (16 * unhex h + unhex l) # pct_decode r | _ \<Rightarrow> 37 # pct_decode cs)
      else of_char c # pct_decode cs)"

fun utf8_decode :: "nat list \<Rightarrow> string" where
  "utf8_decode [] = []"
| "utf8_decode (b # bs) =
     (if b < 128 then char_of b # utf8_decode bs
      else case bs of [] \<Rightarrow> [] | b2 # r \<Rightarrow> char_of ((b - 192) * 64 + (b2 - 128)) # utf8_decode r)"

definition unquote_plus :: "string \<Rightarrow> string" where
  "unquote_plus s = utf8_decode (pct_decode s)"

fun split_all :: "char \<Rightarrow> string \<Rightarrow> string list" where
  "split_all c [] = [[]]"
| "split_all c (x # xs) = (if x = c then [] # split_all c xs
     else (case split_all c xs of [] \<Rightarrow> [[x]] | p # ps \<Rightarrow> (x # p) # ps))"

definition read_pair :: "string \<Rightarrow> string \<times> string" where
  "read_pair p = (case split_once (CHR ''='') p of k # v # _ \<Rightarrow> (unquote_plus k, unquote_plus v)
     | _ \<Rightarrow> (unquote_plus p, []))"

definition parse_query :: "string \<Rightarrow> (string \<times> string) list" where
  "parse_query q = map read_pair (split_all (CHR ''&'') q)"

subsection \<open>Reading gives back what was written\<close>

lemma unhex_upper: "d < 16 \<Longrightarrow> unhex (upper_hex d) = d"
  by (simp add: unhex_def upper_hex_def Let_def)

lemma url_safe_upper: "d < 16 \<Longrightarrow> url_safe (upper_hex d)"
  by (simp add: url_safe_def upper_hex_def Let_def)

lemma url_safe_ascii: "url_safe c \<Longrightarrow> (of_char c :: nat) < 128 \<and> c \<notin> {CHR ''+'', CHR ''%'', CHR ''&'', CHR ''=''}"
  by (auto simp: url_safe_def Let_def)

lemma pct_decode_percent: "n < 256 \<Longrightarrow> pct_decode (percent_byte n @ r) = n # pct_decode r"
  by (simp add: percent_byte_def unhex_upper)

definition utf8_bytes :: "char \<Rightarrow> nat list" where
  "utf8_bytes c = (let n = (of_char c :: nat) in if n < 128 then [n] else [192 + n div 64, 128 + n mod 64])"

lemma of_char_less [simp]: "(of_char c :: nat) < 256"
  using of_char_mod_256 [of c, where ?'a = nat] by (metis mod_less_divisor zero_less_numeral)

lemma pct_decode_quote_char: "pct_decode (quote_char c @ r) = utf8_bytes c @ pct_decode r"
proof (cases "url_safe c")
  case True
  with url_safe_ascii [of c] show ?thesis by (simp add: quote_char_def utf8_bytes_def Let_def)
next
  case False
  have "(of_char c :: nat) div 64 < 4" using of_char_less [of c] by linarith
  moreover have "(of_char c :: nat) mod 64 < 64" by simp
  ultimately have "192 + (of_char c :: nat) div 64 < 256" "128 + (of_char c :: nat) mod 64 < 256" by linarith+
  with False show ?thesis
    by (simp add: quote_char_def utf8_bytes_def Let_def pct_decode_percent)
qed

lemma utf8_decode_bytes: "utf8_decode (utf8_bytes c @ r) = c # utf8_decode r"
  by (simp add: utf8_bytes_def Let_def)

lemma unquote_quote: "unquote_plus (quote_plus s) = s"
proof -
  have "pct_decode (quote_plus s) = concat (map utf8_bytes s)"
    unfolding quote_plus_def by (induction s) (simp_all add: pct_decode_quote_char)
  moreover have "utf8_decode (concat (map utf8_bytes s)) = s"
    by (induction s) (simp_all add: utf8_decode_bytes)
  ultimately show ?thesis by (simp add: unquote_plus_def)
qed


lemma quote_char_chars: "x \<in> set (quote_char c) \<Longrightarrow> url_safe x \<or> x \<in> {CHR ''+'', CHR ''%''}"
proof -
  have s: "d < 16 \<Longrightarrow> url_safe (upper_hex d)" for d by (rule url_safe_upper)
  have "(of_char c :: nat) div 64 < 4" "(of_char c :: nat) mod 64 < 64" using of_char_less [of c] by linarith+
  then have "(192 + (of_char c :: nat) div 64) div 16 < 16" "(128 + (of_char c :: nat) mod 64) div 16 < 16"
    by linarith+
  moreover have "(of_char c :: nat) < 128 \<Longrightarrow> (of_char c :: nat) div 16 < 16" by simp
  moreover assume "x \<in> set (quote_char c)"
  ultimately show ?thesis
    by (auto simp: quote_char_def percent_byte_def Let_def s split: if_splits)
qed

lemma quote_plus_no_sep: "x \<in> set (quote_plus s) \<Longrightarrow> x \<notin> {CHR ''&'', CHR ''=''}"
  unfolding quote_plus_def using quote_char_chars url_safe_ascii by fastforce

lemma split_once_part: "c \<notin> set k \<Longrightarrow> split_once c (k @ c # v) = [k, v]"
  by (induction k) auto

lemma split_all_no_sep: "c \<notin> set s \<Longrightarrow> split_all c s = [s]"
  by (induction s) auto

lemma split_all_cons: "c \<notin> set s \<Longrightarrow> split_all c (s @ c # r) = s # split_all c r"
  by (induction s) auto

lemma split_all_join:
  "xs \<noteq> [] \<Longrightarrow> \<forall>x \<in> set xs. c \<notin> set x \<Longrightarrow> split_all c (str_join [c] xs) = xs"
  by (induction "[c]" xs rule: str_join.induct) (simp_all add: split_all_no_sep split_all_cons)

lemma parse_query_urlencode: "ps \<noteq> [] \<Longrightarrow> parse_query (urlencode ps) = ps"
proof -
  assume "ps \<noteq> []"
  let ?f = "\<lambda>(k, v). quote_plus k @ ''='' @ quote_plus v"
  have "\<forall>x \<in> set (map ?f ps). CHR ''&'' \<notin> set x"
    using quote_plus_no_sep by fastforce
  with \<open>ps \<noteq> []\<close> have "split_all (CHR ''&'') (urlencode ps) = map ?f ps"
    unfolding urlencode_def by (intro split_all_join) simp_all
  moreover have "read_pair (?f p) = p" for p
  proof -
    obtain k v where "p = (k, v)" by (cases p)
    then show ?thesis
      using quote_plus_no_sep [of "CHR ''=''" k] split_once_part [of "CHR ''=''" "quote_plus k" "quote_plus v"]
      by (fastforce simp: read_pair_def unquote_quote)
  qed
  ultimately show ?thesis by (simp add: parse_query_def comp_def del: case_prod_conv)
qed

section \<open>Base64 for URLs\<close>

definition b64_char :: "nat \<Rightarrow> char" where
  "b64_char n = (if n < 26 then char_of (65 + n) else if n < 52 then char_of (71 + n)
     else if n < 62 then char_of (n - 4) else if n = 62 then CHR ''-'' else CHR ''_'')"

text \<open>The six-bit groups of the bytes, the last one filled with zeros, and the padding.\<close>

fun b64_body :: "nat list \<Rightarrow> string" where
  "b64_body [] = []"
| "b64_body [a] = [b64_char (a div 4), b64_char (a mod 4 * 16)]"
| "b64_body [a, b] = [b64_char (a div 4), b64_char (a mod 4 * 16 + b div 16), b64_char (b mod 16 * 4)]"
| "b64_body (a # b # c # bs) =
     b64_char (a div 4) # b64_char (a mod 4 * 16 + b div 16) # b64_char (b mod 16 * 4 + c div 64)
       # b64_char (c mod 64) # b64_body bs"

definition urlsafe_b64encode :: "nat list \<Rightarrow> string" where
  "urlsafe_b64encode bs = b64_body bs @ (if length bs mod 3 = 1 then ''=='' else if length bs mod 3 = 2 then ''='' else [])"

definition rstrip_pad :: "string \<Rightarrow> string" where
  "rstrip_pad s = rev (dropWhile (\<lambda>c. c = CHR ''='') (rev s))"

subsection \<open>Reading it\<close>

definition b64_val :: "char \<Rightarrow> nat" where
  "b64_val c = (let n = (of_char c :: nat) in
     if n = 45 then 62 else if n = 95 then 63
     else if n < 58 then n + 4 else if n < 91 then n - 65 else n - 71)"

fun b64_decode :: "string \<Rightarrow> nat list" where
  "b64_decode [x, y] = [b64_val x * 4 + b64_val y div 16]"
| "b64_decode [x, y, z] = [b64_val x * 4 + b64_val y div 16, b64_val y mod 16 * 16 + b64_val z div 4]"
| "b64_decode (x # y # z # w # cs) =
     (b64_val x * 4 + b64_val y div 16) # (b64_val y mod 16 * 16 + b64_val z div 4)
       # (b64_val z mod 4 * 64 + b64_val w) # b64_decode cs"
| "b64_decode _ = []"

lemma b64_val_char: "n < 64 \<Longrightarrow> b64_val (b64_char n) = n"
  by (auto simp: b64_val_def b64_char_def Let_def)

lemma b64_char_safe: "n < 64 \<Longrightarrow> url_safe (b64_char n)"
  by (auto simp: b64_char_def url_safe_def Let_def)

lemma pack16: "lo < 16 \<Longrightarrow> (hi * 16 + lo) div 16 = hi \<and> (hi * 16 + lo) mod 16 = (lo :: nat)"
  by simp

lemma pack4: "lo < 4 \<Longrightarrow> (hi * 4 + lo) div 4 = hi \<and> (hi * 4 + lo) mod 4 = (lo :: nat)"
  by simp

lemma byte_groups:
  assumes "a < (256 :: nat)"
  shows "a div 4 < 64" "a mod 4 * 16 < 64" "a div 16 < 16" "a div 64 < 4" "a mod 16 * 4 < 64"
  using assms by (simp_all add: div_less_iff_less_mult)

lemma group_bounds:
  assumes "b < 256" "c < 256"
  shows "a mod 4 * 16 + b div 16 < 64" "b mod 16 * 4 + c div 64 < (64 :: nat)"
proof -
  have "a mod 4 < 4" "b mod 16 < 16" by simp_all
  then show "a mod 4 * 16 + b div 16 < 64" "b mod 16 * 4 + c div 64 < (64 :: nat)"
    using byte_groups(3) [OF assms(1)] byte_groups(4) [OF assms(2)] by linarith+
qed

lemma b64_decode_body: "\<forall>b \<in> set bs. b < 256 \<Longrightarrow> b64_decode (b64_body bs) = bs"
proof (induction bs rule: b64_body.induct)
  case (2 a)
  then have g: "a < 256" by simp
  show ?case using byte_groups [OF g] pack16 [of 0 "a mod 4"] by (simp add: b64_val_char)
next
  case (3 a b)
  then have g: "a < 256" "b < 256" by simp_all
  show ?case
    using byte_groups(1) [OF g(1)] byte_groups(5) [OF g(2)] group_bounds(1) [OF g(2) g(2), of a]
      pack16 [OF byte_groups(3) [OF g(2)], of "a mod 4"]
    by (simp only: b64_body.simps b64_decode.simps b64_val_char) simp
next
  case (4 a b c bs)
  then have g: "a < 256" "b < 256" "c < 256" and ih: "b64_decode (b64_body bs) = bs" by simp_all
  have "c mod 64 < 64" by simp
  then show ?case
    using byte_groups(1) [OF g(1)] group_bounds [OF g(2) g(3)] ih
      pack16 [OF byte_groups(3) [OF g(2)], of "a mod 4"] pack4 [OF byte_groups(4) [OF g(3)], of "b mod 16"]
    by (simp only: b64_body.simps b64_decode.simps b64_val_char) simp
qed simp

lemma b64_body_safe: "\<forall>b \<in> set bs. b < 256 \<Longrightarrow> x \<in> set (b64_body bs) \<Longrightarrow> url_safe x"
proof (induction bs rule: b64_body.induct)
  case (2 a)
  then show ?case using byte_groups(1,2) [of a] by (auto simp: b64_char_safe)
next
  case (3 a b)
  then have g: "a < 256" "b < 256" by simp_all
  show ?case using 3(2) byte_groups(1) [OF g(1)] byte_groups(5) [OF g(2)] group_bounds(1) [OF g(2) g(2), of a]
    by (auto simp: b64_char_safe)
next
  case (4 a b c bs)
  then have g: "a < 256" "b < 256" "c < 256" by simp_all
  have "c mod 64 < 64" by simp
  then have "url_safe (b64_char (a div 4))" "url_safe (b64_char (a mod 4 * 16 + b div 16))"
    "url_safe (b64_char (b mod 16 * 4 + c div 64))" "url_safe (b64_char (c mod 64))"
    using byte_groups(1) [OF g(1)] group_bounds [OF g(2) g(3)] by (simp_all only: b64_char_safe)
  then show ?case using 4 by (simp only: b64_body.simps set_simps insert_iff) auto
qed simp

lemma rstrip_urlsafe: "\<forall>b \<in> set bs. b < 256 \<Longrightarrow> rstrip_pad (urlsafe_b64encode bs) = b64_body bs"
proof -
  assume b: "\<forall>b \<in> set bs. b < 256"
  have p: "rstrip_pad (b64_body bs @ replicate k (CHR ''='')) = b64_body bs" for k
  proof -
    have "dropWhile (\<lambda>c. c = CHR ''='') (rev (b64_body bs)) = rev (b64_body bs)"
    proof (cases "rev (b64_body bs)")
      case (Cons x xs)
      then have "x \<in> set (b64_body bs)" by (metis list.set_intros(1) set_rev)
      from url_safe_ascii [OF b64_body_safe [OF b this]] Cons show ?thesis by simp
    qed simp
    moreover have "dropWhile (\<lambda>c. c = CHR ''='') (replicate k (CHR ''='') @ xs) = dropWhile (\<lambda>c. c = CHR ''='') xs" for xs
      by (induction k) simp_all
    ultimately show ?thesis by (simp add: rstrip_pad_def)
  qed
  show ?thesis using p [of 0] p [of 1] p [of 2] by (simp add: urlsafe_b64encode_def numeral_2_eq_2)
qed

lemma length_b64_body: "length (b64_body bs) = (4 * length bs + 2) div 3"
  by (induction bs rule: b64_body.induct) auto

end
