(* ===== verification/LogoutHandler.thy ===== *)
theory LogoutHandler
  imports SessionStore UrlText
begin

text \<open>
  \<open>orchestrator/auth/logout_handler.py\<close> and \<open>orchestrator/auth/is_revoke.py\<close>: the logout
  cascade over all sessions of a user, run under the user's lock.  The lock makes the
  cascade one step here; what it does to the outside (revocations at the identity
  server, fan-out of token ids, events to the browser) is returned as a trace of
  actions, in order, next to the new store.
\<close>

section \<open>Revoking a token at the identity server\<close>

datatype revoke_reply = RevokeStatus int | RevokeHttpError | RevokeOther string

definition revoke_access_token :: "revoke_reply \<Rightarrow> unit res" where
  "revoke_access_token r =
     (case r of
        RevokeStatus c \<Rightarrow> (if c = 200 \<or> c = 204 then Inr () else Inl (EPy ''RevokeError''))
      | RevokeHttpError \<Rightarrow> Inl (EPy ''RevokeError'')
      | RevokeOther n \<Rightarrow> Inl (EPy n))"

section \<open>The logout URL\<close>

record logout_config =
  lc_is_base_url :: string
  lc_mcp_client_id :: string
  lc_post_logout_redirect_uri :: string

definition build_is_logout_url :: "logout_config \<Rightarrow> string \<Rightarrow> py \<Rightarrow> string" where
  "build_is_logout_url cfg state idt =
     lc_is_base_url cfg @ ''/oidc/logout?'' @
     urlencode ([(''client_id'', lc_mcp_client_id cfg),
                 (''post_logout_redirect_uri'', lc_post_logout_redirect_uri cfg),
                 (''state'', state)]
                @ (if truthy idt then [(''id_token_hint'', py_str idt)] else []))"

section \<open>The cascade\<close>

datatype logout_action =
    SetTerminating string
  | SetCancelEvent string string
  | RevokeTokenA string py
  | FanOutJti string string string real string
  | PushSse string sse_event
  | RecordReason string string
  | DropSession string

record logout_result =
  lr_had_session :: bool
  lr_redirect_url :: "string option"
  lr_request_id :: string
  lr_reason_label :: string

text \<open>
  The environment of one run: the reply of each revocation, whether a fan-out client is
  injected, the clock, the nonce of the logout URL.
\<close>

record logout_env =
  le_revoke :: "string \<Rightarrow> revoke_reply"
  le_has_client :: bool
  le_now :: real
  le_state_nonce :: string

definition known_reason :: "string \<Rightarrow> bool" where
  "known_reason r = (r \<in> {''user_signed_out'', ''admin_terminated''})"

text \<open>\<open>_cancel_pending_ciba\<close> on the live pending consents of a session.\<close>

definition cancel_pending_ciba :: "session \<Rightarrow> session \<times> logout_action list" where
  "cancel_pending_ciba s =
     (s\<lparr>s_pending_ciba := map (\<lambda>(k, p). (k, p\<lparr>pc_cancel_event := True\<rparr>)) (s_pending_ciba s)\<rparr>,
      map (\<lambda>(k, p). SetCancelEvent (s_session_id s) (pc_auth_req_id p)) (s_pending_ciba s))"

definition fan_out_log :: "string \<Rightarrow> string \<Rightarrow> session \<Rightarrow> logout_action list" where
  "fan_out_log user_sub reason s =
     map (\<lambda>r. FanOutJti (s_session_id s) (tr_jti r) user_sub (of_int (tr_exp r)) reason) (s_completed_ciba_log s)"

definition put_session :: "session \<Rightarrow> session_store \<Rightarrow> session_store" where
  "put_session s st = st\<lparr>ss_sessions := AList.update (s_session_id s) s (ss_sessions st)\<rparr>"

text \<open>Steps 6 and 7: fan-out, the event to the browser, the recorded reason, the removal.\<close>

definition logout_finish ::
  "logout_env \<Rightarrow> string \<Rightarrow> string \<Rightarrow> string \<Rightarrow> session \<Rightarrow> session_store
     \<Rightarrow> unit res \<times> session_store \<times> logout_action list"
where
  "logout_finish env user_sub request_id reason s st =
     (let tr1 = (if le_has_client env then fan_out_log user_sub reason s else []);
          evt = SessionTerminatedEvent reason request_id
      in if known_reason reason then
           (let st1 = put_session (s\<lparr>s_sse_queue := s_sse_queue s @ [Some evt]\<rparr>) st;
                tr2 = tr1 @ [PushSse (s_session_id s) evt]
            in case record_pending_logout_reason (s_user_sub s) reason (le_now env) st1 of
                 None \<Rightarrow> (Inl (EPy ''KeyError''), st1, tr2)
               | Some st2 \<Rightarrow>
                   (Inr (), snd (session_delete (s_session_id s) st2),
                    tr2 @ [RecordReason (s_user_sub s) reason, DropSession (s_session_id s)]))
         else (Inr (), snd (session_delete (s_session_id s) st), tr1 @ [DropSession (s_session_id s)]))"

text \<open>Steps 4 to 7 on one session.  Only \<open>RevokeError\<close> is caught around the revocation.\<close>

definition logout_one ::
  "logout_env \<Rightarrow> string \<Rightarrow> string \<Rightarrow> string \<Rightarrow> session \<Rightarrow> session_store
     \<Rightarrow> unit res \<times> session_store \<times> logout_action list"
where
  "logout_one env user_sub request_id reason s0 st0 =
     (let (s, tr1) = cancel_pending_ciba s0;
          st = put_session s st0;
          tr2 = tr1 @ [RevokeTokenA (s_session_id s) (access_token (s_token_a s))];
          revoked = revoke_access_token (le_revoke env (s_session_id s))
      in if revoked \<in> {Inr (), Inl (EPy ''RevokeError'')}
         then (let (r, st', tr3) = logout_finish env user_sub request_id reason s st in (r, st', tr2 @ tr3))
         else (revoked, st, tr2))"

fun logout_sessions ::
  "logout_env \<Rightarrow> string \<Rightarrow> string \<Rightarrow> string \<Rightarrow> session list \<Rightarrow> session_store
     \<Rightarrow> unit res \<times> session_store \<times> logout_action list"
where
  "logout_sessions env user_sub request_id reason [] st = (Inr (), st, [])"
| "logout_sessions env user_sub request_id reason (s # ss) st =
     (case logout_one env user_sub request_id reason s st of
        (Inl e, st1, tr1) \<Rightarrow> (Inl e, st1, tr1)
      | (Inr _, st1, tr1) \<Rightarrow>
         (let (r, st2, tr2) = logout_sessions env user_sub request_id reason ss st1
          in (r, st2, tr1 @ tr2)))"

definition mark_terminating :: "session \<Rightarrow> session" where
  "mark_terminating s = s\<lparr>s_terminating := True\<rparr>"

definition execute_locked ::
  "logout_config \<Rightarrow> logout_env \<Rightarrow> session \<Rightarrow> string \<Rightarrow> string \<Rightarrow> session_store
     \<Rightarrow> logout_result res \<times> session_store \<times> logout_action list"
where
  "execute_locked cfg env initiator request_id reason st =
     (let to_drop = find_sessions_for_user (s_user_sub initiator) st
      in if to_drop = [] then
           (Inr \<lparr>lr_had_session = False, lr_redirect_url = None, lr_request_id = request_id,
                 lr_reason_label = reason\<rparr>, st, [])
         else
           (let st1 = fold (\<lambda>s. put_session (mark_terminating s)) to_drop st;
                tr1 = map (\<lambda>s. SetTerminating (s_session_id s)) to_drop;
                (r, st2, tr2) = logout_sessions env (s_user_sub initiator) request_id reason
                                  (map mark_terminating to_drop) st1
            in case r of
                 Inl e \<Rightarrow> (Inl e, st2, tr1 @ tr2)
               | Inr _ \<Rightarrow>
                   (Inr \<lparr>lr_had_session = True,
                         lr_redirect_url = Some (build_is_logout_url cfg (le_state_nonce env) (id_token (s_token_a initiator))),
                         lr_request_id = request_id, lr_reason_label = reason\<rparr>, st2, tr1 @ tr2)))"

definition logout_execute ::
  "logout_config \<Rightarrow> logout_env \<Rightarrow> session \<Rightarrow> string \<Rightarrow> string \<Rightarrow> session_store
     \<Rightarrow> logout_result res \<times> session_store \<times> logout_action list"
where
  "logout_execute cfg env session request_id reason st = execute_locked cfg env session request_id reason st"

definition execute_for_user_sub ::
  "logout_config \<Rightarrow> logout_env \<Rightarrow> string \<Rightarrow> string \<Rightarrow> string \<Rightarrow> session_store
     \<Rightarrow> logout_result res \<times> session_store \<times> logout_action list"
where
  "execute_for_user_sub cfg env user_sub request_id reason st =
     (case find_sessions_for_user user_sub st of
        [] \<Rightarrow> (Inr \<lparr>lr_had_session = False, lr_redirect_url = None, lr_request_id = request_id,
                   lr_reason_label = reason\<rparr>, st, [])
      | initiator # _ \<Rightarrow>
         (case execute_locked cfg env initiator request_id reason st of
            (Inl e, st', tr) \<Rightarrow> (Inl e, st', tr)
          | (Inr r, st', tr) \<Rightarrow> (Inr (r\<lparr>lr_redirect_url := None\<rparr>), st', tr)))"

section \<open>What the cascade does\<close>

text \<open>The trace of a session whose removal completes.\<close>

definition session_trace :: "logout_env \<Rightarrow> string \<Rightarrow> string \<Rightarrow> string \<Rightarrow> session \<Rightarrow> logout_action list" where
  "session_trace env user_sub request_id reason s =
     map (\<lambda>(k, p). SetCancelEvent (s_session_id s) (pc_auth_req_id p)) (s_pending_ciba s)
     @ [RevokeTokenA (s_session_id s) (access_token (s_token_a s))]
     @ (if le_has_client env then fan_out_log user_sub reason s else [])
     @ (if known_reason reason then [PushSse (s_session_id s) (SessionTerminatedEvent reason request_id)] else [])
     @ (if known_reason reason then [RecordReason (s_user_sub s) reason] else [])
     @ [DropSession (s_session_id s)]"

lemma cancel_pending_fields [simp]:
  "s_session_id (fst (cancel_pending_ciba s)) = s_session_id s"
  "s_user_sub (fst (cancel_pending_ciba s)) = s_user_sub s"
  "s_token_a (fst (cancel_pending_ciba s)) = s_token_a s"
  "s_completed_ciba_log (fst (cancel_pending_ciba s)) = s_completed_ciba_log s"
  by (simp_all add: cancel_pending_ciba_def)

lemma delete_put: "AList.delete k (AList.update k v d) = AList.delete k d"
  by (induction d) (auto simp: AList.delete_eq)

lemma put_session_fields [simp]:
  "ss_sessions (put_session s st) = AList.update (s_session_id s) s (ss_sessions st)"
  "ss_reasons_hard_cap (put_session s st) = ss_reasons_hard_cap st"
  "ss_sid_to_user_sub (put_session s st) = ss_sid_to_user_sub st"
  "ss_pending_logout_reasons (put_session s st) = ss_pending_logout_reasons st"
  by (simp_all add: put_session_def)

lemma session_delete_frame:
  "ss_reasons_hard_cap (snd (session_delete i st)) = ss_reasons_hard_cap st"
  "ss_sid_to_user_sub (snd (session_delete i st)) = ss_sid_to_user_sub st"
  by (simp_all add: session_delete_def)

lemma logout_one_done:
  assumes "logout_one env u rid reason s st = (Inr (), st', tr)"
  shows "ss_sessions st' = AList.delete (s_session_id s) (ss_sessions st)"
    and "tr = session_trace env u rid reason s"
    and "ss_reasons_hard_cap st' = ss_reasons_hard_cap st"
    and "ss_sid_to_user_sub st' = ss_sid_to_user_sub st"
  using assms
  by (auto simp: logout_one_def logout_finish_def Let_def session_trace_def cancel_pending_ciba_def
      fan_out_log_def session_delete_sessions delete_put case_prod_beta comp_def session_delete_frame
      split: if_splits option.splits prod.splits dest!: reasons_put_frame)

lemma logout_one_succeeds:
  assumes "0 < ss_reasons_hard_cap st" "le_revoke env (s_session_id s) \<in> {RevokeStatus c, RevokeHttpError}"
  shows "\<exists>st' tr. logout_one env u rid reason s st = (Inr (), st', tr)"
proof -
  have "revoke_access_token (le_revoke env (s_session_id s)) \<in> {Inr (), Inl (EPy ''RevokeError'')}"
    using assms(2) by (auto simp: revoke_access_token_def split: if_splits)
  moreover obtain s1 tr1 where c: "cancel_pending_ciba s = (s1, tr1)" by force
  moreover have "s_session_id s1 = s_session_id s" using c cancel_pending_fields(1) [of s] by simp
  moreover have "\<exists>st' tr. logout_finish env u rid reason s1 (put_session s1 st) = (Inr (), st', tr)"
    using reasons_put_total [of "put_session (s1\<lparr>s_sse_queue := s_sse_queue s1 @ [Some (SessionTerminatedEvent reason rid)]\<rparr>) (put_session s1 st)"
        "s_user_sub s1" reason "le_now env"] assms(1)
    by (auto simp: logout_finish_def Let_def)
  ultimately show ?thesis by (auto simp: logout_one_def Let_def)
qed

lemma logout_sessions_done:
  "logout_sessions env u rid reason ss st = (Inr (), st', tr) \<Longrightarrow>
     ss_sessions st' = fold AList.delete (map s_session_id ss) (ss_sessions st)
     \<and> tr = concat (map (session_trace env u rid reason) ss)
     \<and> ss_sid_to_user_sub st' = ss_sid_to_user_sub st"
proof (induction ss arbitrary: st tr)
  case Nil
  then show ?case by simp
next
  case (Cons s ss)
  then obtain st1 tr1 tr2 where o: "logout_one env u rid reason s st = (Inr (), st1, tr1)"
    and r: "logout_sessions env u rid reason ss st1 = (Inr (), st', tr2)" and "tr = tr1 @ tr2"
    by (auto simp: Let_def split: prod.splits sum.splits)
  then show ?case
    using Cons.IH [OF r] logout_one_done(1) [OF o] logout_one_done(2) [OF o] logout_one_done(4) [OF o] by simp
qed

lemma logout_sessions_succeeds:
  assumes "0 < ss_reasons_hard_cap st"
    and "\<forall>s \<in> set ss. \<exists>c. le_revoke env (s_session_id s) \<in> {RevokeStatus c, RevokeHttpError}"
  shows "\<exists>st' tr. logout_sessions env u rid reason ss st = (Inr (), st', tr)"
  using assms
proof (induction ss arbitrary: st)
  case Nil
  then show ?case by simp
next
  case (Cons s ss)
  then obtain c where "le_revoke env (s_session_id s) \<in> {RevokeStatus c, RevokeHttpError}" by auto
  then obtain st1 tr1 where o: "logout_one env u rid reason s st = (Inr (), st1, tr1)"
    using logout_one_succeeds Cons.prems(1) by blast
  then have "0 < ss_reasons_hard_cap st1" using logout_one_done(3) [OF o] Cons.prems(1) by simp
  moreover have "\<forall>s \<in> set ss. \<exists>c. le_revoke env (s_session_id s) \<in> {RevokeStatus c, RevokeHttpError}"
    using Cons.prems(2) by simp
  ultimately obtain st' tr where "logout_sessions env u rid reason ss st1 = (Inr (), st', tr)"
    using Cons.IH by blast
  with o show ?case by auto
qed

text \<open>The marking step keeps every key and every other session.\<close>

definition mark_all :: "session list \<Rightarrow> session_store \<Rightarrow> session_store" where
  "mark_all ss st = fold (\<lambda>s. put_session (mark_terminating s)) ss st"

lemma mark_all_frame [simp]:
  "ss_reasons_hard_cap (mark_all ss st) = ss_reasons_hard_cap st"
  "ss_sid_to_user_sub (mark_all ss st) = ss_sid_to_user_sub st"
  by (induction ss arbitrary: st) (simp_all add: mark_all_def)

lemma mark_terminating_id [simp]: "s_session_id (mark_terminating s) = s_session_id s"
  by (simp add: mark_terminating_def)

lemma filter_update_key: "\<not> P k \<Longrightarrow> filter (\<lambda>(k, v). P k) (AList.update k v d) = filter (\<lambda>(k, v). P k) d"
  by (induction d) auto

lemma mark_all_others:
  "filter (\<lambda>(i, s). i \<notin> set (map s_session_id ss)) (ss_sessions (mark_all ss st)) =
     filter (\<lambda>(i, s). i \<notin> set (map s_session_id ss)) (ss_sessions st)"
proof -
  have "filter (\<lambda>(i, s). P i) (ss_sessions (mark_all ss st)) = filter (\<lambda>(i, s). P i) (ss_sessions st)"
    if "\<forall>s \<in> set ss. \<not> P (s_session_id s)" for P
    using that by (induction ss arbitrary: st) (simp_all add: mark_all_def filter_update_key)
  from this [of "\<lambda>i. i \<notin> set (map s_session_id ss)"] show ?thesis by simp
qed

text \<open>A cascade that returns has removed exactly the sessions of the user.\<close>

lemma user_sessions_ids:
  assumes "store_ok st" "(i, s) \<in> set (ss_sessions st)"
  shows "i \<in> set (map s_session_id (find_sessions_for_user u st)) \<longleftrightarrow> s_user_sub s = u"
proof -
  note ok = assms(1) [unfolded store_ok_def]
  have id: "s_session_id s = i" using ok assms(2) by auto
  show ?thesis
  proof
    assume "i \<in> set (map s_session_id (find_sessions_for_user u st))"
    then obtain s' i' where s': "(i', s') \<in> set (ss_sessions st)" "s_session_id s' = i" "s_user_sub s' = u"
      by (auto simp: find_sessions_for_user_iff)
    then have "i' = i" using ok by auto
    then have "s' = s" using eq_key_imp_eq_value [of "ss_sessions st" i s' s] ok s' assms(2) by simp
    then show "s_user_sub s = u" using s' by simp
  next
    assume "s_user_sub s = u"
    then have "s \<in> set (find_sessions_for_user u st)"
      using assms(2) by (auto simp: find_sessions_for_user_iff)
    then show "i \<in> set (map s_session_id (find_sessions_for_user u st))" using id by force
  qed
qed

lemma execute_locked_done:
  assumes ok: "store_ok st"
    and run: "execute_locked cfg env initiator rid reason st = (Inr res, st', tr)"
  defines "ss \<equiv> find_sessions_for_user (s_user_sub initiator) st"
  shows "ss_sessions st' = filter (\<lambda>(i, s). s_user_sub s \<noteq> s_user_sub initiator) (ss_sessions st)"
    and "tr = map (\<lambda>s. SetTerminating (s_session_id s)) ss
       @ concat (map (session_trace env (s_user_sub initiator) rid reason) (map mark_terminating ss))"
    and "lr_had_session res \<longleftrightarrow> ss \<noteq> []"
    and "ss_sid_to_user_sub st' = ss_sid_to_user_sub st"
proof -
  have noneq: "filter (\<lambda>(i, s). i \<notin> set (map s_session_id ss)) (ss_sessions st) =
      filter (\<lambda>(i, s). s_user_sub s \<noteq> s_user_sub initiator) (ss_sessions st)"
    using user_sessions_ids [OF ok] by (intro filter_cong) (auto simp: ss_def)
  have all: "ss_sessions st' = filter (\<lambda>(i, s). s_user_sub s \<noteq> s_user_sub initiator) (ss_sessions st)
      \<and> tr = map (\<lambda>s. SetTerminating (s_session_id s)) ss
       @ concat (map (session_trace env (s_user_sub initiator) rid reason) (map mark_terminating ss))
      \<and> (lr_had_session res \<longleftrightarrow> ss \<noteq> []) \<and> ss_sid_to_user_sub st' = ss_sid_to_user_sub st"
  proof (cases "ss = []")
    case True
    then have "filter (\<lambda>(i, s). i \<notin> set (map s_session_id ss)) (ss_sessions st) = ss_sessions st"
      by (simp add: case_prod_beta)
    then show ?thesis using run True noneq by (auto simp: execute_locked_def ss_def)
  next
    case False
    obtain r st2 tr2 where l: "logout_sessions env (s_user_sub initiator) rid reason (map mark_terminating ss)
        (mark_all ss st) = (r, st2, tr2)" by (cases "logout_sessions env (s_user_sub initiator) rid reason
        (map mark_terminating ss) (mark_all ss st)") auto
    with run False have r: "r = Inr ()" and st': "st' = st2"
      and tr: "tr = map (\<lambda>s. SetTerminating (s_session_id s)) ss @ tr2" and h: "lr_had_session res"
      by (auto simp: execute_locked_def Let_def mark_all_def simp flip: ss_def split: sum.splits)
    note d = logout_sessions_done [OF l [unfolded r]]
    have "ss_sessions st' = filter (\<lambda>(i, s). i \<notin> set (map s_session_id ss)) (ss_sessions (mark_all ss st))"
      using d by (simp add: st' fold_delete_filter comp_def)
    then show ?thesis using d noneq mark_all_others [of ss st] False tr h by (simp add: st')
  qed
  then show "ss_sessions st' = filter (\<lambda>(i, s). s_user_sub s \<noteq> s_user_sub initiator) (ss_sessions st)"
    "tr = map (\<lambda>s. SetTerminating (s_session_id s)) ss
       @ concat (map (session_trace env (s_user_sub initiator) rid reason) (map mark_terminating ss))"
    "lr_had_session res \<longleftrightarrow> ss \<noteq> []" "ss_sid_to_user_sub st' = ss_sid_to_user_sub st"
    by blast+
qed

lemma execute_locked_succeeds:
  assumes "0 < ss_reasons_hard_cap st"
    and "\<forall>s \<in> set (find_sessions_for_user (s_user_sub initiator) st).
       \<exists>c. le_revoke env (s_session_id s) \<in> {RevokeStatus c, RevokeHttpError}"
  shows "\<exists>res st' tr. execute_locked cfg env initiator rid reason st = (Inr res, st', tr)"
proof -
  let ?ss = "find_sessions_for_user (s_user_sub initiator) st"
  have "\<forall>s \<in> set (map mark_terminating ?ss). \<exists>c. le_revoke env (s_session_id s) \<in> {RevokeStatus c, RevokeHttpError}"
    using assms(2) by simp
  from logout_sessions_succeeds [OF _ this, of "mark_all ?ss st" "s_user_sub initiator" rid reason] assms(1)
  obtain st' tr where "logout_sessions env (s_user_sub initiator) rid reason (map mark_terminating ?ss) (mark_all ?ss st)
      = (Inr (), st', tr)" by fastforce
  then show ?thesis by (auto simp: execute_locked_def Let_def mark_all_def)
qed

end
