(* ===== verification/Chat.thy ===== *)
theory Chat
  imports LlmRouter RenderResult Sse LogoutHandler
begin

text \<open>
  The chat loop (\<open>orchestrator/chat/routes.py\<close>): the two routes and the background task that
  runs the tool calls of a message one after the other, talks to the agents, reports to the
  browser and composes the reply.

  While the task waits for an agent, other handlers may work on the same session; what they
  do is a parameter of the task's world.  A route is one step.  The error events, the texts
  and the order of the effects are the code's; log lines and traces are left out.
\<close>

section \<open>The world of a fan-out\<close>

text \<open>
  The answers of the agents' clients, by the index of the call; what happens to the session
  during the waits; the clock; the text of a failure.
\<close>

record chat_world =
  cw_send :: "nat \<Rightarrow> string \<Rightarrow> py \<Rightarrow> string \<Rightarrow> pydict \<Rightarrow> string option \<Rightarrow> message_response a2a_res"
  cw_await :: "nat \<Rightarrow> string \<Rightarrow> py \<Rightarrow> string \<Rightarrow> message_response a2a_res"
  cw_during_send :: "nat \<Rightarrow> session \<Rightarrow> session"
  cw_during_await :: "nat \<Rightarrow> session \<Rightarrow> session"
  cw_during_compose :: "session \<Rightarrow> session"
  cw_now :: "nat \<Rightarrow> real"
  cw_str :: "a2a_failure \<Rightarrow> string"

record fan_state =
  fs_session :: session
  fs_outputs :: "py list"
  fs_outcomes :: "tool_outcome list"

definition on_session :: "(session \<Rightarrow> session) \<Rightarrow> fan_state \<Rightarrow> fan_state" where
  "on_session f st = st\<lparr>fs_session := f (fs_session st)\<rparr>"

text \<open>\<open>_record\<close>.\<close>

definition record_ok :: "tool_call \<Rightarrow> py \<Rightarrow> pydict \<Rightarrow> fan_state \<Rightarrow> fan_state" where
  "record_ok tc fragment data st = st\<lparr>fs_outputs := fs_outputs st @ [fragment],
     fs_outcomes := fs_outcomes st @ [\<lparr>to_agent_id = tc_agent tc, to_tool_id = tc_tool tc, to_ok = True,
       to_data = Some data, to_error_id = None, to_reason = None\<rparr>]\<rparr>"

definition record_failed :: "tool_call \<Rightarrow> string \<Rightarrow> string \<Rightarrow> string \<Rightarrow> fan_state \<Rightarrow> fan_state" where
  "record_failed tc fragment error_id reason st = st\<lparr>fs_outputs := fs_outputs st @ [PStr fragment],
     fs_outcomes := fs_outcomes st @ [\<lparr>to_agent_id = tc_agent tc, to_tool_id = tc_tool tc, to_ok = False,
       to_data = None, to_error_id = Some error_id, to_reason = Some reason\<rparr>]\<rparr>"

section \<open>One tool call\<close>

text \<open>Rendering may raise; then the exception leaves the task.\<close>

definition record_result :: "tool_call \<Rightarrow> string \<Rightarrow> result_payload \<Rightarrow> fan_state \<Rightarrow> exn option \<times> fan_state" where
  "record_result tc agent_label r st =
     (case render_result agent_label (tc_tool tc) r of
        Inl e \<Rightarrow> (Some e, st)
      | Inr fragment \<Rightarrow> (None, record_ok tc fragment (rp_data r) st))"

definition consent_event :: "string \<Rightarrow> tool_call \<Rightarrow> string \<Rightarrow> consent_required \<Rightarrow> sse_event" where
  "consent_event rid tc agent_label c = CibaUrlEvent
     \<lparr>cu_request_id = rid, cu_agent_id = tc_agent tc, cu_agent_label = agent_label, cu_action = cn_action c,
      cu_auth_url = cn_auth_url c, cu_binding_code = take 8 rid, cu_expires_in = cn_expires_in c, cu_scope = cn_scope c,
      cu_is_refresh = cn_is_refresh c, cu_prior_consent_at = cn_prior_consent_at c,
      cu_binding_message = Some (cn_binding_message c), cu_action_text = cn_action_text c\<rparr>"

definition register_pending :: "string \<Rightarrow> pending_ciba \<Rightarrow> session \<Rightarrow> session" where
  "register_pending a p s = s\<lparr>s_pending_ciba := AList.update a p (s_pending_ciba s)\<rparr>"

definition ack_pending :: "string \<Rightarrow> session \<Rightarrow> session" where
  "ack_pending a s = s\<lparr>s_pending_ciba := map (\<lambda>(k, p). (k, if k = a then p\<lparr>pc_cancelled_ack := True\<rparr> else p)) (s_pending_ciba s)\<rparr>"

definition pop_pending :: "string \<Rightarrow> session \<Rightarrow> session" where
  "pop_pending a s = s\<lparr>s_pending_ciba := AList.delete a (s_pending_ciba s)\<rparr>"

definition log_issued :: "issued_token_record \<Rightarrow> session \<Rightarrow> session" where
  "log_issued r s = s\<lparr>s_completed_ciba_log := s_completed_ciba_log s @ [r]\<rparr>"

definition issued_record :: "string \<Rightarrow> tool_call \<Rightarrow> result_payload \<Rightarrow> string \<Rightarrow> issued_token_record" where
  "issued_record session_id tc r auth_req_id =
     \<lparr>tr_session_id = session_id, tr_agent_id = tc_agent tc, tr_jti = rp_token_jti r, tr_exp = rp_token_exp r,
      tr_iat = rp_token_iat r, tr_auth_req_id = auth_req_id\<rparr>"

text \<open>Phase 2: the await and what follows it.\<close>

definition consent_outcome ::
  "string \<Rightarrow> tool_call \<Rightarrow> string \<Rightarrow> string \<Rightarrow> message_response \<Rightarrow> fan_state \<Rightarrow> exn option \<times> fan_state"
where
  "consent_outcome rid tc agent_label a second st =
     (case second of
        ResultReply r \<Rightarrow>
          record_result tc agent_label r
            (on_session (\<lambda>s. log_issued (issued_record (s_session_id s) tc r a) (publish (CibaStateChangeEvent rid ''DONE'' None) s)) st)
      | ErrorReply e \<Rightarrow>
          (None, record_failed tc (friendly_error (ep_error_id e) (ep_reason e) agent_label) (ep_error_id e) (ep_reason e)
                   (on_session (publish (CibaStateChangeEvent rid (state_from_error_id (ep_error_id e)) None)) st))
      | ConsentRequired c \<Rightarrow>
          (None, record_failed tc (''Received an unexpected response from '' @ agent_label @ ''.'') ''ERR-AGENT-UNEXPECTED''
                   ''unexpected payload type'' st))"

definition await_consent ::
  "chat_world \<Rightarrow> string \<Rightarrow> nat \<Rightarrow> tool_call \<Rightarrow> string \<Rightarrow> consent_required \<Rightarrow> fan_state \<Rightarrow> exn option \<times> fan_state"
where
  "await_consent w rid i tc agent_label c st =
     (let a = cn_auth_req_id c;
          st1 = on_session (\<lambda>s. register_pending a (new_pending_ciba a (tc_agent tc) rid (cw_now w i))
                  (publish (consent_event rid tc agent_label c) s)) st;
          second = cw_await w i (tc_agent tc) (access_token (s_token_a (fs_session st1))) a;
          st2 = on_session (cw_during_await w i) st1
      in case second of
           Inl e \<Rightarrow>
             (None, on_session (\<lambda>s. pop_pending a (ack_pending a s))
                (record_failed tc (''There was a problem completing consent for '' @ agent_label @ ''. Please try again.'')
                  ''ERR-CIBA-COMPLETE'' (take 200 (cw_str w e))
                  (on_session (publish (CibaStateChangeEvent rid ''ERROR'' (Some (cw_str w e)))) st2)))
         | Inr m \<Rightarrow>
             (case consent_outcome rid tc agent_label a m (on_session (ack_pending a) st2) of
                (Some e, st3) \<Rightarrow> (Some e, st3)
              | (None, st3) \<Rightarrow> (None, on_session (pop_pending a) st3)))"

text \<open>Phase 1.  The reason of the last logout goes along once.\<close>

definition send_tool ::
  "chat_world \<Rightarrow> string \<Rightarrow> nat \<Rightarrow> tool_call \<Rightarrow> string \<Rightarrow> fan_state \<Rightarrow> exn option \<times> fan_state"
where
  "send_tool w rid i tc agent_label st =
     (let reason = s_last_logout_reason (fs_session st);
          st1 = on_session (\<lambda>s. s\<lparr>s_last_logout_reason := None\<rparr>) st;
          first = cw_send w i (tc_agent tc) (access_token (s_token_a (fs_session st1))) (tc_tool tc) (tc_args tc) reason;
          st2 = on_session (cw_during_send w i) st1
      in case first of
           Inl e \<Rightarrow> (None, record_failed tc (''I could not reach '' @ agent_label @ ''. Please try again in a moment.'')
                              ''ERR-A2A-SEND'' (take 200 (cw_str w e)) st2)
         | Inr (ResultReply r) \<Rightarrow> record_result tc agent_label r st2
         | Inr (ErrorReply e) \<Rightarrow>
             (None, record_failed tc (friendly_error (ep_error_id e) (ep_reason e) agent_label) (ep_error_id e) (ep_reason e) st2)
         | Inr (ConsentRequired c) \<Rightarrow> await_consent w rid i tc agent_label c st2)"

definition fan_tool ::
  "llm_deps \<Rightarrow> chat_world \<Rightarrow> string \<Rightarrow> nat \<Rightarrow> nat \<Rightarrow> tool_call \<Rightarrow> fan_state \<Rightarrow> exn option \<times> fan_state"
where
  "fan_tool deps w rid n_tools i tc st =
     (let agent_id = tc_agent tc; quoted = [CHR 0x27] @ agent_id @ [CHR 0x27]
      in case registry_get (ld_registry deps) agent_id of
           None \<Rightarrow>
             (None, record_failed tc (''I could not reach the agent '' @ quoted @ '' '' @ dash @ '' it is not registered.'')
                ''ERR-AGENT-002'' ''agent_not_registered''
                (on_session (publish (SseErrorEvent ''ERR-AGENT-002'' (''Agent '' @ quoted @ '' is not registered.'') (Some rid))) st))
         | Some crd \<Rightarrow>
             (let st1 = on_session (publish (RoutingEvent rid agent_id (cd_label crd) i n_tools)) st
              in if agent_id \<notin> set (ld_a2a_agents deps) then
                   (None, record_failed tc (''I could not connect to the agent '' @ quoted @ ''.'') ''ERR-AGENT-002'' ''no_a2a_client''
                      (on_session (publish (SseErrorEvent ''ERR-AGENT-002'' (''No A2A client configured for agent '' @ quoted @ ''.'')
                         (Some rid))) st1))
                 else send_tool w rid i tc (cd_label crd) st1))"

fun fan_tools ::
  "llm_deps \<Rightarrow> chat_world \<Rightarrow> string \<Rightarrow> nat \<Rightarrow> nat \<Rightarrow> tool_call list \<Rightarrow> fan_state \<Rightarrow> exn option \<times> fan_state"
where
  "fan_tools deps w rid n_tools i [] st = (None, st)"
| "fan_tools deps w rid n_tools i (tc # tcs) st =
     (case fan_tool deps w rid n_tools i tc st of
        (Some e, st') \<Rightarrow> (Some e, st')
      | (None, st') \<Rightarrow> fan_tools deps w rid n_tools (Suc i) tcs st')"

section \<open>The fan-out\<close>

definition no_results_text :: string where
  "no_results_text = ''I was unable to retrieve any results. Please try again.''"

definition finish_fan_out ::
  "llm_deps \<Rightarrow> chat_world \<Rightarrow> string \<Rightarrow> string \<Rightarrow> chat_history \<Rightarrow> fan_state \<Rightarrow> exn option \<times> session"
where
  "finish_fan_out deps w rid user_message history st =
     (case (if fs_outputs st = [] then Inr no_results_text else py_join [CHR 0x0A, CHR 0x0A] (fs_outputs st)) of
        Inl e \<Rightarrow> (Some e, fs_session st)
      | Inr fallback_text \<Rightarrow>
         (let reply = compose_reply deps user_message (fs_outcomes st) fallback_text history
          in (None, record_chat_turn ''assistant'' reply
                (publish (ChatMessageEvent reply rid) (cw_during_compose w (fs_session st))))))"

definition run_serial_fan_out ::
  "llm_deps \<Rightarrow> chat_world \<Rightarrow> session \<Rightarrow> tool_call list \<Rightarrow> string \<Rightarrow> string \<Rightarrow> chat_history \<Rightarrow> exn option \<times> session"
where
  "run_serial_fan_out deps w s tool_calls rid user_message history =
     (case fan_tools deps w rid (length tool_calls) 0 tool_calls \<lparr>fs_session = s, fs_outputs = [], fs_outcomes = []\<rparr> of
        (Some e, st) \<Rightarrow> (Some e, fs_session st)
      | (None, st) \<Rightarrow> finish_fan_out deps w rid user_message history st)"

section \<open>The routes\<close>

text \<open>The session of a request, or the detail of the 401.\<close>

definition chat_session :: "string option \<Rightarrow> real \<Rightarrow> session_store \<Rightarrow> (string + session) \<times> session_store" where
  "chat_session cookie now st =
     (if or_empty cookie = [] then (Inl ''Missing session cookie'', st)
      else case session_get_or_404 (or_empty cookie) now st of
             (Inl e, st') \<Rightarrow> (Inl ''Invalid or expired session'', st')
           | (Inr s, st') \<Rightarrow> (if s_terminating s then Inl ''Session terminating'' else Inr s, st'))"

datatype chat_answer = ChatRefused string | ChatAck string

text \<open>The task a request spawns: its calls and the history before the message.\<close>

type_synonym chat_task = "tool_call list \<times> chat_history"

definition no_route_text :: string where
  "no_route_text = ''I don'' @ [CHR 0x27] @ ''t know how to help with that.''"

definition post_chat ::
  "llm_deps \<Rightarrow> string option \<Rightarrow> real \<Rightarrow> string \<Rightarrow> string \<Rightarrow> session_store \<Rightarrow> (chat_answer \<times> chat_task option) \<times> session_store"
where
  "post_chat deps cookie now rid message st =
     (case chat_session cookie now st of
        (Inl detail, st') \<Rightarrow> ((ChatRefused detail, None), st')
      | (Inr s, st') \<Rightarrow>
         (let history = history_snapshot s;
              calls = resolve_tool_calls deps message history
          in if calls = [] then
               (let reply = (if history \<noteq> [] then compose_reply deps message [] no_route_text history else no_route_text)
                in ((ChatAck rid, None),
                    put_session (record_chat_turn ''assistant'' reply (record_chat_turn ''user'' message
                      (publish (ChatMessageEvent reply rid) s))) st'))
             else ((ChatAck rid, Some (calls, history)), put_session (record_chat_turn ''user'' message s) st')))"

datatype cancel_answer = CancelRefused string | CancelReply bool "string option"

text \<open>The cancel route also calls the agent of the consent, if it has a client; the call's outcome is only logged.\<close>

definition post_ciba_cancel ::
  "string list \<Rightarrow> string option \<Rightarrow> real \<Rightarrow> string \<Rightarrow> session_store \<Rightarrow> (cancel_answer \<times> (string \<times> string) option) \<times> session_store"
where
  "post_ciba_cancel agents cookie now auth_req_id st =
     (case chat_session cookie now st of
        (Inl detail, st') \<Rightarrow> ((CancelRefused detail, None), st')
      | (Inr s, st') \<Rightarrow>
         (case map_of (s_pending_ciba s) auth_req_id of
            None \<Rightarrow> ((CancelReply False (Some ''not_found''), None), st')
          | Some p \<Rightarrow>
              ((CancelReply True None, if pc_agent_id p \<in> set agents then Some (pc_agent_id p, auth_req_id) else None),
               put_session (s\<lparr>s_pending_ciba := AList.update auth_req_id (p\<lparr>pc_cancel_event := True, pc_status := ''cancelled''\<rparr>)
                              (s_pending_ciba s)\<rparr>) st')))"

end
