(* ===== verification/Reports.thy ===== *)
theory Reports
  imports Chat
begin

text \<open>
  \<open>orchestrator/reports/\<close>: the pass-through of a browser's report request to the HR or the IT
  server with the session's own token (\<open>proxy.py\<close>), the six routes that use it, and the two
  that start an agent's consent flow for a review (\<open>routes.py\<close>).

  The backend is a parameter, a function from a URL and the request headers to a reply.  A
  route is one step; the fan-out task a review spawns is the one of the chat.
\<close>

section \<open>The proxy\<close>

text \<open>\<open>None\<close> as a body is one that is no JSON; an error of the transport is an \<open>HTTPError\<close>.\<close>

datatype upstream = UpstreamReply int "py option" | UpstreamHttpError | UpstreamRaised exn

type_synonym upstream_net = "string \<Rightarrow> (string \<times> string) list \<Rightarrow> upstream"

text \<open>An answer: an upstream status and body, an error envelope, or an exception (500).\<close>

datatype report_answer = Forwarded int py | ReportError int string | ReportRaised exn

text \<open>\<open>(token_a.scope or "").split()\<close>.\<close>

definition token_scopes :: "oauth_token \<Rightarrow> string list res" where
  "token_scopes t =
     (case token_scope t of PStr s \<Rightarrow> Inr (py_split s)
      | v \<Rightarrow> if truthy v then Inl (EPy ''AttributeError'') else Inr [])"

text \<open>The session of the cookie, unless a logout cascade is tearing it down.\<close>

definition report_session :: "string option \<Rightarrow> real \<Rightarrow> session_store \<Rightarrow> session option \<times> session_store" where
  "report_session cookie now st =
     (if or_empty cookie = [] then (None, st)
      else case session_get_or_404 (or_empty cookie) now st of
             (Inl e, st') \<Rightarrow> (None, st')
           | (Inr s, st') \<Rightarrow> (if s_terminating s then None else Some s, st'))"

definition forward_headers :: "oauth_token \<Rightarrow> string option \<Rightarrow> (string \<times> string) list" where
  "forward_headers t rid =
     [(''Authorization'', ''Bearer '' @ py_str (access_token t)), (''Accept'', ''application/json'')]
     @ (if or_empty rid \<noteq> [] then [(''X-Request-ID'', or_empty rid)] else [])"

definition pass_back :: "upstream \<Rightarrow> report_answer" where
  "pass_back u =
     (case u of
        UpstreamHttpError \<Rightarrow> ReportError 503 ''ERR-API-PROXY-001''
      | UpstreamRaised e \<Rightarrow> ReportRaised e
      | UpstreamReply status body \<Rightarrow>
          if 500 \<le> status then ReportError 503 ''ERR-API-PROXY-001''
          else (case body of None \<Rightarrow> ReportError 503 ''ERR-API-PROXY-001'' | Some b \<Rightarrow> Forwarded status b))"

definition forward_with_token_a ::
  "upstream_net \<Rightarrow> string option \<Rightarrow> string option \<Rightarrow> string \<Rightarrow> string \<Rightarrow> real \<Rightarrow> session_store
     \<Rightarrow> report_answer \<times> session_store"
where
  "forward_with_token_a net rid cookie target_url needed_scope now st =
     (case report_session cookie now st of
        (None, st') \<Rightarrow> (ReportError 401 ''ERR-AUTH-001'', st')
      | (Some s, st') \<Rightarrow>
         ((case token_scopes (s_token_a s) of
             Inl e \<Rightarrow> ReportRaised e
           | Inr ws \<Rightarrow>
               if needed_scope \<notin> set ws then ReportError 403 ''ERR-AUTH-scope-missing''
               else pass_back (net target_url (forward_headers (s_token_a s) rid))), st'))"

section \<open>The read-only routes\<close>

record reports_deps =
  rd_hr_server_url :: string
  rd_it_server_url :: string
  rd_wired :: bool

datatype report_call =
    MyLeavesPanel | MyCubiclePanel | MyAssetsPanel | LeaveRequestsReport string
  | CubicleAssignmentsReport | DeviceAssignmentsReport

definition rstrip_slash :: "string \<Rightarrow> string" where
  "rstrip_slash u = rev (dropWhile (\<lambda>c. c = CHR 0x2F) (rev u))"

text \<open>The query string of the leave report is handed on as it is.\<close>

fun report_target :: "reports_deps \<Rightarrow> report_call \<Rightarrow> string" where
  "report_target deps MyLeavesPanel = rstrip_slash (rd_hr_server_url deps) @ ''/api/me/leaves''"
| "report_target deps MyCubiclePanel = rstrip_slash (rd_hr_server_url deps) @ ''/api/me/cubicle''"
| "report_target deps MyAssetsPanel = rstrip_slash (rd_it_server_url deps) @ ''/api/me/assets''"
| "report_target deps (LeaveRequestsReport query) = rstrip_slash (rd_hr_server_url deps) @ ''/api/reports/leave-requests''
     @ (if query \<noteq> [] then ''?'' @ query else [])"
| "report_target deps CubicleAssignmentsReport =
     rstrip_slash (rd_hr_server_url deps) @ ''/api/reports/cubicle-assignments''"
| "report_target deps DeviceAssignmentsReport =
     rstrip_slash (rd_it_server_url deps) @ ''/api/reports/device-assignments''"

fun report_scope :: "report_call \<Rightarrow> string" where
  "report_scope MyLeavesPanel = ''hr_self_rest''"
| "report_scope MyCubiclePanel = ''hr_self_rest''"
| "report_scope MyAssetsPanel = ''it_assets_self_rest''"
| "report_scope (LeaveRequestsReport query) = ''hr_read_rest''"
| "report_scope CubicleAssignmentsReport = ''hr_read_rest''"
| "report_scope DeviceAssignmentsReport = ''it_assets_read_rest''"

definition report_get ::
  "reports_deps \<Rightarrow> upstream_net \<Rightarrow> report_call \<Rightarrow> string option \<Rightarrow> string option \<Rightarrow> real \<Rightarrow> session_store
     \<Rightarrow> report_answer \<times> session_store"
where
  "report_get deps net call rid cookie now st =
     forward_with_token_a net rid cookie (report_target deps call) (report_scope call) now st"

section \<open>The reviews\<close>

text \<open>\<open>ActionError\<close> carries the error id, or the detail of an \<open>HTTPException\<close>.\<close>

datatype action_answer = ActionError int string | ActionAck string string | ActionRaised exn

definition review_call :: "string \<Rightarrow> pydict \<Rightarrow> tool_call" where
  "review_call tool args = \<lparr>tc_agent = ''hr_agent'', tc_tool = tool, tc_args = args\<rparr>"

text \<open>The part the two share: session, scope, and the call the task is spawned with.\<close>

definition start_review ::
  "reports_deps \<Rightarrow> string \<Rightarrow> tool_call \<Rightarrow> string option \<Rightarrow> real \<Rightarrow> session_store
     \<Rightarrow> (action_answer \<times> (session \<times> tool_call list) option) \<times> session_store"
where
  "start_review deps rid tc cookie now st =
     (case report_session cookie now st of
        (None, st') \<Rightarrow> ((ActionError 401 ''ERR-AUTH-001'', None), st')
      | (Some s, st') \<Rightarrow>
         ((case token_scopes (s_token_a s) of
             Inl e \<Rightarrow> (ActionRaised e, None)
           | Inr ws \<Rightarrow>
               if ''hr_approve_rest'' \<notin> set ws then (ActionError 403 ''ERR-AUTH-scope-missing'', None)
               else if \<not> rd_wired deps then (ActionError 500 ''reports router not fully wired'', None)
               else (ActionAck rid ''hr_agent'', Some (s, [tc]))), st'))"

definition report_approve ::
  "reports_deps \<Rightarrow> string option \<Rightarrow> string \<Rightarrow> string option \<Rightarrow> real \<Rightarrow> session_store
     \<Rightarrow> (action_answer \<times> (session \<times> tool_call list) option) \<times> session_store"
where
  "report_approve deps rid_header request_id cookie now st =
     (if or_empty rid_header = [] then ((ActionError 400 ''X-Request-ID required'', None), st)
      else start_review deps (or_empty rid_header) (review_call ''hr.approve_leave'' [(''leave_id'', PStr request_id)])
             cookie now st)"

text \<open>A body without a text reason is refused by the framework before the handler runs.\<close>

definition report_reject ::
  "reports_deps \<Rightarrow> string option \<Rightarrow> string \<Rightarrow> string option \<Rightarrow> string option \<Rightarrow> real \<Rightarrow> session_store
     \<Rightarrow> (action_answer \<times> (session \<times> tool_call list) option) \<times> session_store"
where
  "report_reject deps rid_header request_id body_reason cookie now st =
     (case body_reason of
        None \<Rightarrow> ((ActionError 422 ''validation_error'', None), st)
      | Some reason \<Rightarrow>
         if or_empty rid_header = [] then ((ActionError 400 ''X-Request-ID required'', None), st)
         else if py_strip reason = [] then ((ActionError 400 ''ERR-VALIDATION-reason-empty'', None), st)
         else start_review deps (or_empty rid_header)
                (review_call ''hr.reject_leave'' [(''leave_id'', PStr request_id), (''reason'', PStr (py_strip reason))])
                cookie now st)"

end
