(* ===== verification/RestAuth.thy ===== *)
theory RestAuth
  imports ToolGuard UrlText McpClients
begin

text \<open>
  The authentication of the two REST surfaces: \<open>auth/jwt_validator.py\<close> of the HR and the IT
  server (the same class in both), and \<open>_AuthContext\<close>, \<open>_authenticate\<close> and
  \<open>_require_scope\<close> of their \<open>rest_api/server.py\<close>.

  PyJWT and the key endpoint are parameters.  An error reply is its status and its error
  value; the message texts, which repeat library messages, are left out.  The identity
  claims other than the subject are taken to be text when they are present: one of another
  type, which the code would carry into the store, ends the request here.
\<close>

section \<open>JWTValidator\<close>

text \<open>The exception classes of the library the handlers of \<open>validate_token\<close> tell apart.\<close>

datatype rest_jwt_err =
    RExpiredSignature | RInvalidAudience | RInvalidIssuer | RInvalidSignature | RDecodeError | ROtherError

record 'k rest_jwt =
  rj_header :: "string \<Rightarrow> rest_jwt_err + pydict"
  rj_from_jwk :: "py \<Rightarrow> 'k option"
  rj_decode :: "string \<Rightarrow> 'k \<Rightarrow> string \<Rightarrow> string list \<Rightarrow> rest_jwt_err + pydict"

text \<open>\<open>rv_fetches\<close> counts the requests to the key endpoint; \<open>net n\<close> answers the \<open>n\<close>-th.\<close>

record rest_validator =
  rv_issuer :: string
  rv_audience :: "string list"
  rv_jwks_cache :: py
  rv_fetches :: nat

definition new_rest_validator :: "string \<Rightarrow> string list \<Rightarrow> rest_validator" where
  "new_rest_validator issuer audience =
     \<lparr>rv_issuer = issuer, rv_audience = audience, rv_jwks_cache = PNone, rv_fetches = 0\<rparr>"

text \<open>The \<open>error_type\<close> of a \<open>TokenError\<close>, and the exceptions the last handler turns into one.\<close>

datatype token_failure = TokenError string | OtherFailure

definition rest_fetch_jwks :: "(nat \<Rightarrow> http_answer) \<Rightarrow> rest_validator \<Rightarrow> (token_failure + py) \<times> rest_validator" where
  "rest_fetch_jwks net v =
     (let n = rv_fetches v; v1 = v\<lparr>rv_fetches := Suc n\<rparr>
      in case net n of
           HttpReply status (Some body) \<Rightarrow>
             if 200 \<le> status \<and> status \<le> 299 then (Inr body, v1\<lparr>rv_jwks_cache := body\<rparr>) else (Inl OtherFailure, v1)
         | _ \<Rightarrow> (Inl OtherFailure, v1))"

definition rest_get_jwks :: "(nat \<Rightarrow> http_answer) \<Rightarrow> rest_validator \<Rightarrow> (token_failure + py) \<times> rest_validator" where
  "rest_get_jwks net v =
     (if rv_jwks_cache v = PNone then rest_fetch_jwks net v else (Inr (rv_jwks_cache v), v))"

text \<open>The loop of \<open>_find_key_for_kid\<close>: an entry that is no dictionary ends it with an exception.\<close>

fun rest_find_key :: "(py \<Rightarrow> 'k option) \<Rightarrow> py \<Rightarrow> py list \<Rightarrow> token_failure + 'k option" where
  "rest_find_key from_jwk kid [] = Inr None"
| "rest_find_key from_jwk kid (k # ks) =
     (case k of
        PDict d \<Rightarrow>
          if pyget d ''kid'' = kid
          then (case from_jwk k of None \<Rightarrow> Inl OtherFailure | Some key \<Rightarrow> Inr (Some key))
          else rest_find_key from_jwk kid ks
      | _ \<Rightarrow> Inl OtherFailure)"

text \<open>The entries of \<open>jwks.get("keys", [])\<close>; the elements of a text or a dictionary are texts.\<close>

definition rest_key_for_kid :: "(py \<Rightarrow> 'k option) \<Rightarrow> py \<Rightarrow> py \<Rightarrow> token_failure + 'k option" where
  "rest_key_for_kid from_jwk kid jwks =
     (case jwks of
        PDict d \<Rightarrow>
          (case pyget_or d ''keys'' (PList []) of
             PList ks \<Rightarrow> rest_find_key from_jwk kid ks
           | PStr s \<Rightarrow> rest_find_key from_jwk kid (map (\<lambda>c. PStr [c]) s)
           | PDict e \<Rightarrow> rest_find_key from_jwk kid (map (\<lambda>(k, _). PStr k) e)
           | _ \<Rightarrow> Inl OtherFailure)
      | _ \<Rightarrow> Inl OtherFailure)"

definition rest_signing_key ::
  "'k rest_jwt \<Rightarrow> (nat \<Rightarrow> http_answer) \<Rightarrow> pydict \<Rightarrow> rest_validator \<Rightarrow> (token_failure + 'k) \<times> rest_validator"
where
  "rest_signing_key J net header v =
     (let kid = pyget header ''kid''
      in if \<not> truthy kid then (Inl (TokenError ''invalid_token''), v)
         else (case rest_get_jwks net v of
                 (Inl e, v1) \<Rightarrow> (Inl e, v1)
               | (Inr jwks, v1) \<Rightarrow>
                  (case rest_key_for_kid (rj_from_jwk J) kid jwks of
                     Inl e \<Rightarrow> (Inl e, v1)
                   | Inr (Some key) \<Rightarrow> (Inr key, v1)
                   | Inr None \<Rightarrow>
                      (case rest_fetch_jwks net v1 of
                         (Inl e, v2) \<Rightarrow> (Inl e, v2)
                       | (Inr jwks2, v2) \<Rightarrow>
                          (case rest_key_for_kid (rj_from_jwk J) kid jwks2 of
                             Inl e \<Rightarrow> (Inl e, v2)
                           | Inr (Some key) \<Rightarrow> (Inr key, v2)
                           | Inr None \<Rightarrow> (Inl (TokenError ''invalid_token''), v2))))))"

text \<open>Which \<open>TokenError\<close> the handlers make of an exception.\<close>

fun jwt_error_type :: "rest_jwt_err \<Rightarrow> string" where
  "jwt_error_type RExpiredSignature = ''token_expired''"
| "jwt_error_type RInvalidAudience = ''invalid_token''"
| "jwt_error_type RInvalidIssuer = ''invalid_token''"
| "jwt_error_type RInvalidSignature = ''invalid_token''"
| "jwt_error_type RDecodeError = ''invalid_token''"
| "jwt_error_type ROtherError = ''invalid_token''"

fun failure_type :: "token_failure \<Rightarrow> string" where
  "failure_type (TokenError t) = t"
| "failure_type OtherFailure = ''invalid_token''"

definition rest_validate_token ::
  "'k rest_jwt \<Rightarrow> (nat \<Rightarrow> http_answer) \<Rightarrow> string \<Rightarrow> rest_validator \<Rightarrow> (string + pydict) \<times> rest_validator"
where
  "rest_validate_token J net token v =
     (case rj_header J token of
        Inl e \<Rightarrow> (Inl (jwt_error_type e), v)
      | Inr header \<Rightarrow>
         (case rest_signing_key J net header v of
            (Inl f, v1) \<Rightarrow> (Inl (failure_type f), v1)
          | (Inr key, v1) \<Rightarrow>
             (case rj_decode J token key (rv_issuer v) (rv_audience v) of
                Inl e \<Rightarrow> (Inl (jwt_error_type e), v1)
              | Inr payload \<Rightarrow> (Inr payload, v1))))"

section \<open>The accepted audiences\<close>

text \<open>\<open>build_audiences\<close> of the IT server; its cap is \<open>_AUDIENCE_CAP\<close>.\<close>

definition audience_cap :: nat where
  "audience_cap = 3"

fun add_audiences :: "string list \<Rightarrow> string list \<Rightarrow> string list" where
  "add_audiences audiences [] = audiences"
| "add_audiences audiences (raw # raws) =
     (let item = py_strip raw
      in if item = [] \<or> item \<in> set audiences then add_audiences audiences raws
         else add_audiences (audiences @ [item]) raws)"

definition build_audiences :: "string \<Rightarrow> string option \<Rightarrow> string list res" where
  "build_audiences expected_aud extras_env =
     (let audiences = add_audiences [expected_aud]
            (if or_empty extras_env = [] then [] else split_all (CHR '','') (or_empty extras_env))
      in if audience_cap < length audiences then Inl (EPy ''ValueError'') else Inr audiences)"

text \<open>\<open>build_validator_from_config\<close>, on the expected audience and issuer of the configuration.\<close>

definition it_rest_validator :: "string \<Rightarrow> string \<Rightarrow> string option \<Rightarrow> rest_validator res" where
  "it_rest_validator expected_aud issuer env_value =
     (let extras = py_strip (or_empty env_value)
      in map_sum id (new_rest_validator issuer)
           (build_audiences expected_aud (if extras = [] then None else Some extras)))"

text \<open>\<open>_resolve_rest_audiences\<close> of \<open>hr_server/main.py\<close>, written independently of the above.\<close>

fun add_new :: "string list \<Rightarrow> string list \<Rightarrow> string list" where
  "add_new audiences [] = audiences"
| "add_new audiences (e # es) = add_new (if e \<notin> set audiences then audiences @ [e] else audiences) es"

definition resolve_rest_audiences :: "string \<Rightarrow> string option \<Rightarrow> string list res" where
  "resolve_rest_audiences expected_aud env_value =
     (let raw = py_strip (or_empty env_value);
          extras = (if raw \<noteq> [] then map py_strip (filter (\<lambda>p. py_strip p \<noteq> []) (split_all (CHR '','') raw)) else []);
          audiences = add_new [expected_aud] extras
      in if 3 < length audiences then Inl (EPy ''ValueError'') else Inr audiences)"

definition hr_rest_validator :: "string \<Rightarrow> string \<Rightarrow> string option \<Rightarrow> rest_validator res" where
  "hr_rest_validator expected_aud issuer env_value =
     map_sum id (new_rest_validator issuer) (resolve_rest_audiences expected_aud env_value)"

section \<open>_AuthContext\<close>

record rest_ctx =
  rx_sub :: string
  rx_email :: "string option"
  rx_username :: "string option"
  rx_scopes :: "string list"
  rx_first_name :: string
  rx_last_name :: string
  rx_full_name :: string

text \<open>\<open>payload.get(k) or ""\<close>.\<close>

definition claim_text :: "pydict \<Rightarrow> string \<Rightarrow> string res" where
  "claim_text p k =
     (case pyget p k of PStr s \<Rightarrow> Inr s | v \<Rightarrow> if truthy v then Inl (EPy ''TypeError'') else Inr [])"

fun first_text :: "pydict \<Rightarrow> string list \<Rightarrow> string res" where
  "first_text p [] = Inr []"
| "first_text p (k # ks) =
     (case claim_text p k of Inl e \<Rightarrow> Inl e | Inr s \<Rightarrow> if s \<noteq> [] then Inr s else first_text p ks)"

text \<open>The two names, from their claims or else from the first of the claims \<open>keys\<close> that is there.\<close>

definition ctx_names :: "string list \<Rightarrow> pydict \<Rightarrow> (string \<times> string) res" where
  "ctx_names keys p =
     (case (claim_text p ''given_name'', claim_text p ''last_name'') of
        (Inr given, Inr family) \<Rightarrow>
          if given = [] \<and> family = [] then
            (case first_text p keys of
               Inl e \<Rightarrow> Inl e
             | Inr full \<Rightarrow>
                 if full \<noteq> [] then
                   (case split_once (CHR '' '') full of
                      a # b # _ \<Rightarrow> Inr (a, b) | [a] \<Rightarrow> Inr (a, []) | [] \<Rightarrow> Inr ([], []))
                 else Inr ([], []))
          else Inr (given, family)
      | (Inl e, _) \<Rightarrow> Inl e
      | (_, Inl e) \<Rightarrow> Inl e)"

definition ctx_scopes :: "pydict \<Rightarrow> string list res" where
  "ctx_scopes p = (if truthy (pyget p ''scope'') then scope_words (pyget p ''scope'') else Inr [])"

definition some_text :: "string \<Rightarrow> string option \<Rightarrow> string option" where
  "some_text s other = (if s \<noteq> [] then Some s else other)"

definition auth_context :: "string list \<Rightarrow> pydict \<Rightarrow> rest_ctx res" where
  "auth_context name_keys p =
     (case (claim_text p ''sub'', claim_text p ''email'', first_text p [''username'', ''preferred_username''],
            ctx_scopes p, ctx_names name_keys p) of
        (Inr sub, Inr email, Inr username, Inr ws, Inr (given, family)) \<Rightarrow>
          (let full = py_strip (given @ '' '' @ family); is_mail = (CHR ''@'' \<in> set sub)
           in Inr \<lparr>rx_sub = sub, rx_email = some_text email (if is_mail then Some sub else None),
                   rx_username = some_text username (if is_mail then Some (hd (split_once (CHR ''@'') sub)) else None),
                   rx_scopes = ws, rx_first_name = given, rx_last_name = family,
                   rx_full_name = (if full \<noteq> [] then full else ''User'')\<rparr>)
      | _ \<Rightarrow> Inl (EPy ''TypeError''))"

definition hr_auth_context :: "pydict \<Rightarrow> rest_ctx res" where
  "hr_auth_context = auth_context [''username'', ''name'', ''preferred_username'']"

definition it_auth_context :: "pydict \<Rightarrow> rest_ctx res" where
  "it_auth_context = auth_context [''name'', ''preferred_username'']"

section \<open>_authenticate and _require_scope\<close>

text \<open>A reply with its status and body, or an error reply; 500 is an exception no handler catches.\<close>

datatype 'a rest = RestOk nat 'a | RestErr nat string

type_synonym 'v rest_check = "string \<Rightarrow> 'v \<Rightarrow> (string + pydict) \<times> 'v"

definition rest_bearer :: "string option \<Rightarrow> string option" where
  "rest_bearer auth_header =
     (if prefix ''Bearer '' (or_empty auth_header) then Some (drop 7 (or_empty auth_header)) else None)"

text \<open>A user with a subject is registered on every authenticated request.\<close>

definition registered :: "(rest_ctx \<Rightarrow> 'd \<Rightarrow> 'd) \<Rightarrow> rest_ctx \<Rightarrow> 'd \<Rightarrow> 'd" where
  "registered register ctx d = (if rx_sub ctx \<noteq> [] then register ctx d else d)"

text \<open>\<open>register\<close> is the \<open>ensure_user\<close> of the store on the fields of the context.\<close>

definition rest_authenticate ::
  "'v rest_check \<Rightarrow> (pydict \<Rightarrow> rest_ctx res) \<Rightarrow> (rest_ctx \<Rightarrow> 'd \<Rightarrow> 'd) \<Rightarrow> string option \<Rightarrow> 'v \<Rightarrow> 'd
     \<Rightarrow> rest_ctx rest \<times> 'v \<times> 'd"
where
  "rest_authenticate check mk_ctx register h v d =
     (case rest_bearer h of
        None \<Rightarrow> (RestErr 401 ''missing_token'', v, d)
      | Some token \<Rightarrow>
         (case check token v of
            (Inl error_type, v1) \<Rightarrow> (RestErr 401 error_type, v1, d)
          | (Inr payload, v1) \<Rightarrow>
             (case mk_ctx payload of
                Inl e \<Rightarrow> (RestErr 500 (exn_id e), v1, d)
              | Inr ctx \<Rightarrow> (RestOk 200 ctx, v1, registered register ctx d))))"

definition rest_require_scope :: "rest_ctx \<Rightarrow> string list \<Rightarrow> bool" where
  "rest_require_scope ctx any_of = (\<exists>s \<in> set any_of. s \<in> set (rx_scopes ctx))"

text \<open>A handler: authentication, then its body on the context and the store.\<close>

definition rest_handler ::
  "'v rest_check \<Rightarrow> (pydict \<Rightarrow> rest_ctx res) \<Rightarrow> (rest_ctx \<Rightarrow> 'd \<Rightarrow> 'd) \<Rightarrow> string option
     \<Rightarrow> (rest_ctx \<Rightarrow> 'd \<Rightarrow> 'r rest \<times> 'd) \<Rightarrow> 'v \<Rightarrow> 'd \<Rightarrow> 'r rest \<times> 'v \<times> 'd"
where
  "rest_handler check mk_ctx register h body v d =
     (case rest_authenticate check mk_ctx register h v d of
        (RestErr s i, v1, d1) \<Rightarrow> (RestErr s i, v1, d1)
      | (RestOk _ ctx, v1, d1) \<Rightarrow> (let (r, d2) = body ctx d1 in (r, v1, d2)))"

definition rest_scoped ::
  "string list \<Rightarrow> (rest_ctx \<Rightarrow> 'd \<Rightarrow> 'r rest \<times> 'd) \<Rightarrow> rest_ctx \<Rightarrow> 'd \<Rightarrow> 'r rest \<times> 'd"
where
  "rest_scoped any_of body ctx d =
     (if rest_require_scope ctx any_of then body ctx d else (RestErr 403 ''insufficient_scope'', d))"

text \<open>A request body as \<open>request.json\<close> reads it; only a \<open>JSONDecodeError\<close> is handled.\<close>

datatype rest_body = JsonBody py | NotJson | NotText

text \<open>\<open>(v or "").strip()\<close>.\<close>

definition stripped_text :: "py \<Rightarrow> string res" where
  "stripped_text v =
     (case v of PStr s \<Rightarrow> Inr (py_strip s) | _ \<Rightarrow> if truthy v then Inl (EPy ''AttributeError'') else Inr [])"

section \<open>The contract of the REST handlers\<close>

locale rest_guard =
  fixes check :: "'v rest_check"
    and register :: "rest_ctx \<Rightarrow> 'd \<Rightarrow> 'd"
    and trust :: "'v \<Rightarrow> 't"
    and accepts :: "'t \<Rightarrow> string \<Rightarrow> pydict \<Rightarrow> bool"
    and keeps :: "'d \<Rightarrow> bool"
  assumes check_accepts: "check tok v = (Inr p, v') \<Longrightarrow> accepts (trust v) tok p"
    and check_keeps: "check tok v = (x, v') \<Longrightarrow> trust v' = trust v"
    and check_errors: "check tok v = (Inl e, v') \<Longrightarrow> e \<in> {''token_expired'', ''invalid_token''}"
    and register_keeps: "keeps d \<Longrightarrow> keeps (register c d)"
begin

text \<open>The body runs for an accepted token only; a refusal leaves the store as it was.\<close>

lemma handler_cases:
  assumes "rest_handler check mk_ctx register h body v d = (r, v', d')"
  obtains (refused) s i where "r = RestErr s i" "d' = d"
      "s = 401 \<and> i \<in> {''missing_token'', ''token_expired'', ''invalid_token''} \<or> s = 500"
    | (ran) tok p c where "rest_bearer h = Some tok" "accepts (trust v) tok p" "mk_ctx p = Inr c"
        "body c (registered register c d) = (r, d')" "check tok v = (Inr p, v')"
proof (cases "rest_bearer h")
  case None
  then show thesis using assms refused [of 401 "''missing_token''"]
    by (simp add: rest_handler_def rest_authenticate_def)
next
  case (Some tok)
  obtain x v1 where ck: "check tok v = (x, v1)" by force
  show thesis
  proof (cases x)
    case (Inl e)
    then show thesis using assms Some ck check_errors [of tok v e v1] refused [of 401 e]
      by (simp add: rest_handler_def rest_authenticate_def)
  next
    case (Inr p)
    note acc = check_accepts [of tok v p v1]
    show thesis
    proof (cases "mk_ctx p")
      case (Inl e)
      then show thesis using assms Some ck Inr refused [of 500 "exn_id e"]
        by (simp add: rest_handler_def rest_authenticate_def)
    next
      case c: (Inr c)
      then show thesis using assms Some ck Inr acc
        by (intro ran [of tok p c]) (auto simp: rest_handler_def rest_authenticate_def case_prod_beta Let_def)
    qed
  qed
qed

lemma handler_trust:
  "rest_handler check mk_ctx register h body v d = (r, v', d') \<Longrightarrow> trust v' = trust v"
  using check_keeps
  by (auto simp: rest_handler_def rest_authenticate_def Let_def split: option.splits prod.splits sum.splits)

lemma handler_keeps:
  assumes "rest_handler check mk_ctx register h body v d = (r, v', d')" "keeps d"
    and "\<And>c d. keeps d \<Longrightarrow> keeps (snd (body c d))"
  shows "keeps d'"
  using assms(1)
proof (cases rule: handler_cases)
  case (ran tok p c)
  have "keeps (registered register c d)" using assms(2) by (simp add: registered_def register_keeps)
  from assms(3) [OF this, of c] ran(4) show ?thesis by simp
qed (use assms(2) in simp)

text \<open>A handler behind a scope answers, or changes more than the register, only with the scope.\<close>

lemma scoped_handler:
  assumes "rest_handler check mk_ctx register h (rest_scoped any_of body) v d = (r, v', d')"
    and "(\<exists>n a. r = RestOk n a) \<or> (d' \<noteq> d \<and> (\<forall>c. d' \<noteq> register c d))"
  shows "\<exists>tok p c. rest_bearer h = Some tok \<and> accepts (trust v) tok p \<and> mk_ctx p = Inr c
    \<and> rest_require_scope c any_of \<and> body c (registered register c d) = (r, d')"
  using assms(1)
proof (cases rule: handler_cases)
  case (refused s i)
  then show ?thesis using assms(2) by simp
next
  case (ran tok p c)
  have "rest_require_scope c any_of"
    using ran(4) assms(2) by (auto simp: rest_scoped_def registered_def split: if_splits)
  then show ?thesis using ran by (auto simp: rest_scoped_def)
qed

end

section \<open>Facts\<close>

text \<open>The key endpoint is asked at most twice per token, and not at all for a cached key.\<close>

lemma rest_fetch_count: "rv_fetches (snd (rest_fetch_jwks net v)) = Suc (rv_fetches v)"
  by (auto simp: rest_fetch_jwks_def Let_def split: http_answer.splits option.splits)

lemma rest_fetch_trust:
  "rv_issuer (snd (rest_fetch_jwks net v)) = rv_issuer v" "rv_audience (snd (rest_fetch_jwks net v)) = rv_audience v"
  by (auto simp: rest_fetch_jwks_def Let_def split: http_answer.splits option.splits)

lemma rest_get_jwks_snd:
  "rest_get_jwks net v = (x, v') \<Longrightarrow> v' = v \<or> v' = snd (rest_fetch_jwks net v)"
  by (auto simp: rest_get_jwks_def split: if_splits)

lemma rest_signing_key_snd:
  assumes "rest_signing_key J net header v = (x, v')"
  shows "\<exists>v1. (v1 = v \<or> v1 = snd (rest_fetch_jwks net v)) \<and> (v' = v1 \<or> v' = snd (rest_fetch_jwks net v1))"
proof (cases "truthy (pyget header ''kid'')")
  case False
  then show ?thesis using assms by (auto simp: rest_signing_key_def)
next
  case True
  obtain y v1 where g: "rest_get_jwks net v = (y, v1)" by force
  have "v' = v1 \<or> v' = snd (rest_fetch_jwks net v1)"
    using assms True g
    by (auto simp: rest_signing_key_def Let_def split: sum.splits option.splits prod.splits)
  then show ?thesis using rest_get_jwks_snd [OF g] by auto
qed

lemma rest_signing_key_fetches:
  "rest_signing_key J net header v = (x, v') \<Longrightarrow> rv_fetches v' \<le> rv_fetches v + 2"
  by (drule rest_signing_key_snd) (auto simp: rest_fetch_count)

lemma rest_signing_key_trust:
  "rest_signing_key J net header v = (x, v') \<Longrightarrow> rv_issuer v' = rv_issuer v \<and> rv_audience v' = rv_audience v"
  by (drule rest_signing_key_snd) (auto simp: rest_fetch_trust)

lemma rest_validate_keeps:
  "rest_validate_token J net tok v = (x, v') \<Longrightarrow> rv_issuer v' = rv_issuer v \<and> rv_audience v' = rv_audience v"
  by (auto simp: rest_validate_token_def dest: rest_signing_key_trust split: sum.splits prod.splits)

text \<open>What an accepted payload passed: the decoder of the library, under the validator's values.\<close>

definition rest_accepts :: "'k rest_jwt \<Rightarrow> string \<times> string list \<Rightarrow> string \<Rightarrow> pydict \<Rightarrow> bool" where
  "rest_accepts J t tok p = (\<exists>key. rj_decode J tok key (fst t) (snd t) = Inr p)"

definition rest_trust :: "rest_validator \<Rightarrow> string \<times> string list" where
  "rest_trust v = (rv_issuer v, rv_audience v)"

lemma rest_validate_accepts:
  "rest_validate_token J net tok v = (Inr p, v') \<Longrightarrow> rest_accepts J (rest_trust v) tok p"
  by (auto simp: rest_validate_token_def rest_accepts_def rest_trust_def split: sum.splits prod.splits)

lemma rest_signing_key_error:
  "rest_signing_key J net header v = (Inl (TokenError t), v') \<Longrightarrow> t = ''invalid_token''"
proof -
  have k: "rest_find_key f kid ks \<noteq> Inl (TokenError t)" for f :: "py \<Rightarrow> 'a option" and kid ks
    by (induction ks) (auto split: py.splits option.splits)
  have k': "rest_key_for_kid f kid j \<noteq> Inl (TokenError t)" for f :: "py \<Rightarrow> 'a option" and kid j
    by (auto simp: rest_key_for_kid_def k split: py.splits)
  have f: "rest_fetch_jwks net v \<noteq> (Inl (TokenError t), v')" for v v'
    by (auto simp: rest_fetch_jwks_def Let_def split: http_answer.splits option.splits)
  assume "rest_signing_key J net header v = (Inl (TokenError t), v')"
  then show ?thesis
    by (auto simp: rest_signing_key_def rest_get_jwks_def Let_def f k' split: sum.splits option.splits prod.splits if_splits)
qed

lemma rest_validate_errors:
  assumes "rest_validate_token J net tok v = (Inl e, v')"
  shows "e \<in> {''token_expired'', ''invalid_token''}"
proof -
  have j: "jwt_error_type x \<in> {''token_expired'', ''invalid_token''}" for x by (cases x) simp_all
  have t: "rest_signing_key J net header v = (Inl f, v1) \<Longrightarrow> failure_type f = ''invalid_token''" for header f v1
    by (cases f) (auto dest: rest_signing_key_error)
  show ?thesis using assms j t
    by (fastforce simp: rest_validate_token_def split: sum.splits prod.splits)
qed

text \<open>
  The key of an accepted token: the one the key set has under the \<open>kid\<close> of the token's header,
  in a key set the validator held or the endpoint just served.
\<close>

definition held_key :: "'k rest_jwt \<Rightarrow> py \<Rightarrow> py \<Rightarrow> 'k \<Rightarrow> bool" where
  "held_key J jwks kid key \<longleftrightarrow>
     (case jwks of
        PDict d \<Rightarrow>
          (case pyget_or d ''keys'' (PList []) of
             PList ks \<Rightarrow> list_ex (\<lambda>k. case k of PDict e \<Rightarrow> pyget e ''kid'' = kid \<and> rj_from_jwk J k = Some key | _ \<Rightarrow> False) ks
           | _ \<Rightarrow> False)
      | _ \<Rightarrow> False)"

definition rest_keys_served :: "(nat \<Rightarrow> http_answer) \<Rightarrow> py \<Rightarrow> bool" where
  "rest_keys_served net jwks \<longleftrightarrow> (\<exists>n status. net n = HttpReply status (Some jwks) \<and> 200 \<le> status \<and> status \<le> 299)"

lemma rest_find_key_held: "rest_find_key f kid ks = Inr (Some key) \<Longrightarrow>
   list_ex (\<lambda>k. case k of PDict e \<Rightarrow> pyget e ''kid'' = kid \<and> f k = Some key | _ \<Rightarrow> False) ks"
  by (induction ks) (auto split: py.splits if_splits option.splits)

lemma rest_find_key_texts: "rest_find_key f kid (map (\<lambda>x. PStr (g x)) xs) \<noteq> Inr (Some key)"
  "rest_find_key f kid (map (\<lambda>(x, y). PStr x) ys) \<noteq> Inr (Some key)"
  by (cases xs, simp_all) (cases ys, auto)

lemma rest_key_for_kid_held: "rest_key_for_kid (rj_from_jwk J) kid jwks = Inr (Some key) \<Longrightarrow> held_key J jwks kid key"
  by (auto simp: rest_key_for_kid_def held_key_def rest_find_key_texts
      dest: rest_find_key_held split: py.splits)

lemma rest_fetch_served:
  "rest_fetch_jwks net v = (Inr jwks, v') \<Longrightarrow> rv_jwks_cache v' = jwks \<and> rest_keys_served net jwks"
  by (auto simp: rest_fetch_jwks_def rest_keys_served_def Let_def split: http_answer.splits option.splits if_splits)

lemma rest_get_jwks_served:
  "rest_get_jwks net v = (Inr jwks, v') \<Longrightarrow>
     rv_jwks_cache v' = jwks \<and> (jwks = rv_jwks_cache v \<or> rest_keys_served net jwks)"
  by (auto simp: rest_get_jwks_def dest: rest_fetch_served split: if_splits)

lemma rest_signing_key_held:
  assumes "rest_signing_key J net header v = (Inr key, v')"
  shows "truthy (pyget header ''kid'') \<and> held_key J (rv_jwks_cache v') (pyget header ''kid'') key
    \<and> (rv_jwks_cache v' = rv_jwks_cache v \<or> rest_keys_served net (rv_jwks_cache v'))"
proof -
  have t: "truthy (pyget header ''kid'')" using assms by (auto simp: rest_signing_key_def Let_def split: if_splits)
  obtain y v1 where g: "rest_get_jwks net v = (y, v1)" by force
  obtain jwks where y: "y = Inr jwks" using assms t g by (cases y) (auto simp: rest_signing_key_def)
  note s = rest_get_jwks_served [OF g [unfolded y]]
  show ?thesis
  proof (cases "rest_key_for_kid (rj_from_jwk J) (pyget header ''kid'') jwks")
    case (Inl e)
    then show ?thesis using assms t g y by (simp add: rest_signing_key_def)
  next
    case (Inr o_k)
    show ?thesis
    proof (cases o_k)
      case (Some k)
      then show ?thesis using assms t g y Inr s rest_key_for_kid_held [of J "pyget header ''kid''" jwks k]
        by (auto simp: rest_signing_key_def)
    next
      case None
      obtain z v2 where f: "rest_fetch_jwks net v1 = (z, v2)" by force
      obtain jwks2 where z: "z = Inr jwks2"
        using assms t g y Inr None f by (cases z) (auto simp: rest_signing_key_def)
      show ?thesis
        using assms t g y Inr None f z rest_fetch_served [OF f [unfolded z]]
          rest_key_for_kid_held [of J "pyget header ''kid''" jwks2 key]
        by (auto simp: rest_signing_key_def split: sum.splits option.splits)
    qed
  qed
qed

lemma rest_validate_key:
  assumes "rest_validate_token J net tok v = (Inr p, v')"
  obtains header key where "rj_header J tok = Inr header" "truthy (pyget header ''kid'')"
    "held_key J (rv_jwks_cache v') (pyget header ''kid'') key"
    "rv_jwks_cache v' = rv_jwks_cache v \<or> rest_keys_served net (rv_jwks_cache v')"
    "rj_decode J tok key (rv_issuer v) (rv_audience v) = Inr p"
proof -
  obtain header key where "rj_header J tok = Inr header" "rest_signing_key J net header v = (Inr key, v')"
    "rj_decode J tok key (rv_issuer v) (rv_audience v) = Inr p"
    using assms by (auto simp: rest_validate_token_def split: sum.splits prod.splits)
  with rest_signing_key_held [OF this(2)] show thesis using that by blast
qed

text \<open>Every token the REST handlers of a server see goes through this check.\<close>

lemma rest_guard_validator:
  assumes "\<And>c d. keeps d \<Longrightarrow> keeps (register c d)"
  shows "rest_guard (rest_validate_token J net) register rest_trust (rest_accepts J) keeps"
  by unfold_locales
     (auto simp: rest_trust_def intro: assms rest_validate_accepts dest: rest_validate_keeps rest_validate_errors,
       auto dest: rest_validate_accepts simp: rest_trust_def)

end
