(* ===== verification/HrRest.thy ===== *)
theory HrRest
  imports RestAuth HrTools
begin

text \<open>
  \<open>hr_server/rest_api/server.py\<close>: the twelve endpoints of the HR server's REST surface, each
  the authentication of \<open>RestAuth\<close> followed by its body over the same service and store the
  tool router uses.  \<open>today\<close> is the ordinal of the day; the path parameter, the query
  parameters and the body of a request are arguments of its call.
\<close>

section \<open>Handlers\<close>

definition hr_register :: "int \<Rightarrow> rest_ctx \<Rightarrow> hr_store \<Rightarrow> hr_store" where
  "hr_register today ctx st =
     snd (ensure_user (rx_sub ctx) (rx_first_name ctx) (rx_last_name ctx) (rx_username ctx) (rx_email ctx) today st)"

type_synonym 'r hr_body = "rest_ctx \<Rightarrow> hr_store \<Rightarrow> 'r rest \<times> hr_store"

fun rest_of_res :: "'a res \<Rightarrow> 'a rest" where
  "rest_of_res (Inl e) = RestErr 500 (exn_id e)"
| "rest_of_res (Inr a) = RestOk 200 a"

definition rest_get_holidays :: "(string \<times> string) list hr_body" where
  "rest_get_holidays = rest_scoped [''hr_basic_rest''] (\<lambda>ctx st. (RestOk 200 (get_holidays st), st))"

definition rest_get_leave_policy :: "policy_row list hr_body" where
  "rest_get_leave_policy = rest_scoped [''hr_basic_rest''] (\<lambda>ctx st. (RestOk 200 (get_leave_policy st), st))"

definition rest_get_leave_balance :: "int \<Rightarrow> balance_reply hr_body" where
  "rest_get_leave_balance today = rest_scoped [''hr_self_rest'']
     (\<lambda>ctx st. let (r, st1) = get_my_leave_balance (rx_sub ctx) (rx_first_name ctx) (rx_last_name ctx) today st
                in (rest_of_res r, st1))"

definition rest_get_my_leaves :: "int \<Rightarrow> (history_row list \<times> nat) hr_body" where
  "rest_get_my_leaves today = rest_scoped [''hr_self_rest'']
     (\<lambda>ctx st. let (leaves, st1) = get_my_leave_requests (rx_sub ctx) (rx_first_name ctx) (rx_last_name ctx) today st
                in (RestOk 200 (leaves, length leaves), st1))"

definition rest_get_my_cubicle :: "(string \<times> int \<times> string option) option hr_body" where
  "rest_get_my_cubicle = rest_scoped [''hr_self_rest'']
     (\<lambda>ctx st. if rx_sub ctx = [] then (RestErr 401 ''ERR-AUTH-claim-missing'', st)
                else (RestOk 200 (get_my_cubicle (rx_sub ctx) (rx_username ctx) st), st))"

text \<open>A row of the leave report: the requester appears by username and email.\<close>

record leave_report_row =
  lw_request_id :: string
  lw_employee_username :: string
  lw_employee_email :: string
  lw_leave_type :: string
  lw_days_requested :: int
  lw_start_date :: string
  lw_end_date :: string
  lw_status :: string

definition leave_report_row_of :: "hr_store \<Rightarrow> request_row \<Rightarrow> leave_report_row" where
  "leave_report_row_of st row =
     (let user_sub = (case map_of (hs_leave_requests st) (rq_request_id row) of None \<Rightarrow> [] | Some q \<Rightarrow> lr_user_sub q);
          user_record = (if user_sub \<noteq> [] then map_of (hs_users st) user_sub else None);
          username = (case user_record of None \<Rightarrow> [] | Some u \<Rightarrow> hu_username u)
      in \<lparr>lw_request_id = rq_request_id row,
          lw_employee_username = (if username \<noteq> [] then username else rq_employee row),
          lw_employee_email = (case user_record of None \<Rightarrow> [] | Some u \<Rightarrow> hu_email u),
          lw_leave_type = rq_type row, lw_days_requested = rq_days_requested row,
          lw_start_date = rq_start_date row, lw_end_date = rq_end_date row, lw_status = rq_status row\<rparr>)"

definition rest_get_pending_leave_requests :: "string option \<Rightarrow> (leave_report_row list \<times> nat) hr_body" where
  "rest_get_pending_leave_requests status = rest_scoped [''hr_read_rest'']
     (\<lambda>ctx st. let status_q = py_strip (if or_empty status \<noteq> [] then or_empty status else ''Pending'');
                    out = map (leave_report_row_of st) (get_all_leave_requests (Some status_q) None st)
                in (RestOk 200 (out, length out), st))"

definition rest_get_cubicle_assignments :: "(assignment_row list \<times> nat) hr_body" where
  "rest_get_cubicle_assignments = rest_scoped [''hr_read_rest'']
     (\<lambda>ctx st. let rows = get_all_cubicle_assignments st in (RestOk 200 (rows, length rows), st))"

definition rest_get_leaves :: "string option \<Rightarrow> string option \<Rightarrow> dashboard_row list hr_body" where
  "rest_get_leaves status employee_name ctx st =
     (if ''hr_read_rest'' \<in> set (rx_scopes ctx)
      then (RestOk 200 (get_leaves_for_dashboard None status employee_name st), st)
      else if ''hr_self_rest'' \<in> set (rx_scopes ctx) \<and> rx_sub ctx \<noteq> []
      then (RestOk 200 (get_leaves_for_dashboard (Some (rx_sub ctx)) None None st), st)
      else (RestErr 403 ''insufficient_scope'', st))"

definition rest_get_leave_details :: "string \<Rightarrow> details_reply hr_body" where
  "rest_get_leave_details request_id ctx st =
     (case get_leave_request_details request_id st of
        None \<Rightarrow> (RestErr 404 ''not_found'', st)
      | Some details \<Rightarrow>
         if ''hr_read_rest'' \<in> set (rx_scopes ctx) then (RestOk 200 details, st)
         else if ''hr_self_rest'' \<in> set (rx_scopes ctx) \<and> rx_sub ctx \<noteq> [] then
           (if map_option lr_user_sub (map_of (hs_leave_requests st) request_id) = Some (rx_sub ctx)
            then (RestOk 200 details, st) else (RestErr 403 ''forbidden'', st))
         else (RestErr 403 ''insufficient_scope'', st))"

text \<open>The four fields of the body of a new request, read in the order of the code.\<close>

definition field_or :: "pydict \<Rightarrow> string \<Rightarrow> string \<Rightarrow> py" where
  "field_or b k k' = (if truthy (pyget b k) then pyget b k else pyget b k')"

definition create_leave_fields :: "pydict \<Rightarrow> (string \<times> string \<times> string \<times> string) res" where
  "create_leave_fields b =
     (case (stripped_text (field_or b ''leave_type'' ''type''), stripped_text (pyget b ''start_date''),
            stripped_text (pyget b ''end_date''), stripped_text (pyget b ''reason'')) of
        (Inr t, Inr s, Inr e, Inr r) \<Rightarrow> Inr (t, s, e, r)
      | _ \<Rightarrow> Inl (EPy ''AttributeError''))"

definition rest_create_leave :: "int \<Rightarrow> rest_body \<Rightarrow> string hr_body" where
  "rest_create_leave today body = rest_scoped [''hr_self_rest'']
     (\<lambda>ctx st.
       case body of
         NotJson \<Rightarrow> (RestErr 400 ''invalid_body'', st)
       | NotText \<Rightarrow> (RestErr 500 ''UnicodeDecodeError'', st)
       | JsonBody (PDict b) \<Rightarrow>
          (case create_leave_fields b of
             Inl e \<Rightarrow> (RestErr 500 (exn_id e), st)
           | Inr (leave_type, start_date, end_date, reason) \<Rightarrow>
              if leave_type = [] \<or> start_date = [] \<or> end_date = [] \<or> reason = []
              then (RestErr 400 ''missing_fields'', st)
              else
               (let (result, st1) = apply_leave (rx_sub ctx) (rx_first_name ctx) (rx_last_name ctx)
                                      leave_type start_date end_date reason today st
                in (case result of
                      Inl e \<Rightarrow> RestErr 500 (exn_id e)
                    | Inr (SvcOk new_id) \<Rightarrow> RestOk 201 new_id
                    | Inr (SvcErr e m) \<Rightarrow> RestErr 400 e, st1)))
       | JsonBody _ \<Rightarrow> (RestErr 500 ''AttributeError'', st))"

text \<open>The reply to a review: 404 for an unknown request, 400 for every other refusal.\<close>

fun review_answer :: "review_reply svc res \<Rightarrow> review_reply rest" where
  "review_answer (Inl e) = RestErr 500 (exn_id e)"
| "review_answer (Inr (SvcOk a)) = RestOk 200 a"
| "review_answer (Inr (SvcErr e m)) = RestErr (if e = ''not_found'' then 404 else 400) e"

definition rest_approve_leave :: "string \<Rightarrow> review_reply hr_body" where
  "rest_approve_leave request_id = rest_scoped [''hr_approve_rest'']
     (\<lambda>ctx st. let (result, st1) = approve_leave_request request_id (rx_sub ctx) (rx_full_name ctx) st
                in (review_answer result, st1))"

definition rest_reject_leave :: "string \<Rightarrow> rest_body \<Rightarrow> review_reply hr_body" where
  "rest_reject_leave request_id body = rest_scoped [''hr_approve_rest'']
     (\<lambda>ctx st.
       case body of
         NotJson \<Rightarrow> (RestErr 400 ''invalid_body'', st)
       | NotText \<Rightarrow> (RestErr 500 ''UnicodeDecodeError'', st)
       | JsonBody (PDict b) \<Rightarrow>
          (case stripped_text (pyget b ''reason'') of
             Inl e \<Rightarrow> (RestErr 500 (exn_id e), st)
           | Inr reason \<Rightarrow>
              if reason = [] then (RestErr 400 ''missing_fields'', st)
              else (let (result, st1) = reject_leave_request request_id reason (rx_sub ctx) (rx_full_name ctx) st
                    in (review_answer result, st1)))
       | JsonBody _ \<Rightarrow> (RestErr 500 ''AttributeError'', st))"

definition rest_reset :: "unit hr_body" where
  "rest_reset = rest_scoped [''hr_approve_rest'', ''hr_approve_mcp''] (\<lambda>ctx st. (RestOk 200 (), reset_data))"

section \<open>The router\<close>

datatype hr_rest_call =
    RestHolidays | RestLeavePolicy | RestLeaveBalance | RestMyLeaves | RestMyCubicle
  | RestLeaveReport "string option" | RestCubicleReport
  | RestLeaves "string option" "string option" | RestLeaveDetails string
  | RestCreateLeave rest_body | RestApprove string | RestReject string rest_body | RestReset

datatype hr_rest_answer =
    WHolidays "(string \<times> string) list" | WPolicy "policy_row list" | WBalance balance_reply
  | WMyLeaves "history_row list \<times> nat" | WMyCubicle "(string \<times> int \<times> string option) option"
  | WLeaveReport "leave_report_row list \<times> nat" | WCubicleReport "assignment_row list \<times> nat"
  | WLeaves "dashboard_row list" | WDetails details_reply | WCreated string | WReviewed review_reply | WReset unit

fun map_rest :: "('a \<Rightarrow> 'b) \<Rightarrow> 'a rest \<Rightarrow> 'b rest" where
  "map_rest f (RestOk n a) = RestOk n (f a)"
| "map_rest f (RestErr n e) = RestErr n e"

definition as_answer :: "('a \<Rightarrow> hr_rest_answer) \<Rightarrow> 'a hr_body \<Rightarrow> hr_rest_answer hr_body" where
  "as_answer f body = (\<lambda>ctx st. apfst (map_rest f) (body ctx st))"

fun hr_rest_body :: "int \<Rightarrow> hr_rest_call \<Rightarrow> hr_rest_answer hr_body" where
  "hr_rest_body today RestHolidays = as_answer WHolidays rest_get_holidays"
| "hr_rest_body today RestLeavePolicy = as_answer WPolicy rest_get_leave_policy"
| "hr_rest_body today RestLeaveBalance = as_answer WBalance (rest_get_leave_balance today)"
| "hr_rest_body today RestMyLeaves = as_answer WMyLeaves (rest_get_my_leaves today)"
| "hr_rest_body today RestMyCubicle = as_answer WMyCubicle rest_get_my_cubicle"
| "hr_rest_body today (RestLeaveReport s) = as_answer WLeaveReport (rest_get_pending_leave_requests s)"
| "hr_rest_body today RestCubicleReport = as_answer WCubicleReport rest_get_cubicle_assignments"
| "hr_rest_body today (RestLeaves s n) = as_answer WLeaves (rest_get_leaves s n)"
| "hr_rest_body today (RestLeaveDetails i) = as_answer WDetails (rest_get_leave_details i)"
| "hr_rest_body today (RestCreateLeave b) = as_answer WCreated (rest_create_leave today b)"
| "hr_rest_body today (RestApprove i) = as_answer WReviewed (rest_approve_leave i)"
| "hr_rest_body today (RestReject i b) = as_answer WReviewed (rest_reject_leave i b)"
| "hr_rest_body today RestReset = as_answer WReset rest_reset"

definition hr_rest_route ::
  "'v rest_check \<Rightarrow> string option \<Rightarrow> int \<Rightarrow> hr_rest_call \<Rightarrow> 'v \<Rightarrow> hr_store \<Rightarrow> hr_rest_answer rest \<times> 'v \<times> hr_store"
where
  "hr_rest_route check h today call v st =
     rest_handler check hr_auth_context (hr_register today) h (hr_rest_body today call) v st"

text \<open>The scopes one of which each call needs.\<close>

fun rest_scopes_of :: "hr_rest_call \<Rightarrow> string list" where
  "rest_scopes_of RestHolidays = [''hr_basic_rest'']"
| "rest_scopes_of RestLeavePolicy = [''hr_basic_rest'']"
| "rest_scopes_of RestLeaveBalance = [''hr_self_rest'']"
| "rest_scopes_of RestMyLeaves = [''hr_self_rest'']"
| "rest_scopes_of RestMyCubicle = [''hr_self_rest'']"
| "rest_scopes_of (RestLeaveReport s) = [''hr_read_rest'']"
| "rest_scopes_of RestCubicleReport = [''hr_read_rest'']"
| "rest_scopes_of (RestLeaves s n) = [''hr_self_rest'', ''hr_read_rest'']"
| "rest_scopes_of (RestLeaveDetails i) = [''hr_self_rest'', ''hr_read_rest'']"
| "rest_scopes_of (RestCreateLeave b) = [''hr_self_rest'']"
| "rest_scopes_of (RestApprove i) = [''hr_approve_rest'']"
| "rest_scopes_of (RestReject i b) = [''hr_approve_rest'']"
| "rest_scopes_of RestReset = [''hr_approve_rest'', ''hr_approve_mcp'']"

section \<open>What the routes guarantee\<close>

lemmas hr_rest_defs =
  rest_get_holidays_def rest_get_leave_policy_def rest_get_leave_balance_def rest_get_my_leaves_def
  rest_get_my_cubicle_def rest_get_pending_leave_requests_def rest_get_cubicle_assignments_def
  rest_create_leave_def rest_approve_leave_def rest_reject_leave_def rest_reset_def

lemma as_answer_eq:
  "as_answer f body ctx st = (r, st') \<longleftrightarrow> (\<exists>r0. body ctx st = (r0, st') \<and> r = map_rest f r0)"
  by (cases "body ctx st") (auto simp: as_answer_def)

lemma map_rest_eq [simp]:
  "map_rest f r = RestOk n b \<longleftrightarrow> (\<exists>a. r = RestOk n a \<and> b = f a)"
  "RestOk n b = map_rest f r \<longleftrightarrow> (\<exists>a. r = RestOk n a \<and> b = f a)"
  by (cases r; auto)+

lemma rest_scoped_eq:
  "rest_scoped any_of b ctx st = (r, st') \<longleftrightarrow>
     (if rest_require_scope ctx any_of then b ctx st = (r, st') else r = RestErr 403 ''insufficient_scope'' \<and> st' = st)"
  by (auto simp: rest_scoped_def)

text \<open>A body answers, or changes the store, only for a caller with one of the scopes of the call.\<close>

lemma hr_rest_body_scope:
  assumes "hr_rest_body today call ctx st = (r, st')" "(\<exists>n a. r = RestOk n a) \<or> st' \<noteq> st"
  shows "rest_require_scope ctx (rest_scopes_of call)"
proof (cases call)
  case (RestLeaves s n)
  then show ?thesis using assms
    by (auto simp: as_answer_eq rest_get_leaves_def rest_require_scope_def split: if_splits)
next
  case (RestLeaveDetails i)
  then show ?thesis using assms
    by (auto simp: as_answer_eq rest_get_leave_details_def rest_require_scope_def split: if_splits option.splits)
qed (use assms in \<open>auto simp: as_answer_eq hr_rest_defs rest_scoped_eq split: if_splits\<close>)

text \<open>What a body does to the store is an operation of the service, or nothing.\<close>

lemma hr_rest_body_exec:
  assumes "hr_rest_body today call ctx st = (r, st')"
  shows "st' = st \<or> (\<exists>opr. st' = hr_exec today opr st)"
proof -
  have reset: "\<exists>opr. reset_data = hr_exec today opr st" by (rule exI [of _ OpReset]) simp
  show ?thesis using assms
    by (cases call)
       (auto simp: as_answer_eq hr_rest_defs rest_scoped_eq rest_get_leaves_def rest_get_leave_details_def
          case_prod_beta Let_def exec_images intro: reset
          split: if_splits option.splits rest_body.splits py.splits sum.splits)
qed

lemma hr_register_exec:
  "hr_register today c st =
     hr_exec today (OpEnsureUser (rx_sub c) (rx_first_name c) (rx_last_name c) (rx_username c) (rx_email c)) st"
  by (simp add: hr_register_def)

interpretation hr_rest: rest_guard "rest_validate_token J net" "hr_register today" rest_trust "rest_accepts J" hr_inv
  for J :: "'k rest_jwt" and net today
  by (rule rest_guard_validator) (simp add: hr_register_exec hr_inv_exec del: hr_exec.simps)

section \<open>What a caller without the read scope can tell\<close>

text \<open>The requests as a user may see them: the own ones, and of the others that they exist.\<close>

definition own_view :: "string \<Rightarrow> (string \<times> leave_request) list \<Rightarrow> (string \<times> leave_request option) list" where
  "own_view u reqs = map (\<lambda>(i, q). (i, if lr_user_sub q = u then Some q else None)) reqs"

text \<open>Two stores that differ, if at all, in the contents of others' requests and in others' balances.\<close>

definition same_own :: "string \<Rightarrow> hr_store \<Rightarrow> hr_store \<Rightarrow> bool" where
  "same_own u st1 st2 \<longleftrightarrow>
     own_view u (hs_leave_requests st1) = own_view u (hs_leave_requests st2)
     \<and> map_of (hs_leave_balances st1) u = map_of (hs_leave_balances st2) u
     \<and> hs_leave_policy st1 = hs_leave_policy st2 \<and> hs_holidays st1 = hs_holidays st2 \<and> hs_users st1 = hs_users st2
     \<and> hs_leave_request_counter st1 = hs_leave_request_counter st2 \<and> hs_cubicles st1 = hs_cubicles st2"

lemma own_view_filter:
  "filter (\<lambda>(i, q). lr_user_sub q = u) reqs = List.map_filter (\<lambda>(i, oq). map_option (Pair i) oq) (own_view u reqs)"
  by (induction reqs) (auto simp: own_view_def List.map_filter_def split: if_splits)

lemma own_view_of: "map_of (own_view u reqs) i = map_option (\<lambda>q. if lr_user_sub q = u then Some q else None) (map_of reqs i)"
  unfolding own_view_def map_of_map comp_def by (rule refl)

lemma own_view_update:
  "own_view u (AList.update i q reqs) = AList.update i (if lr_user_sub q = u then Some q else None) (own_view u reqs)"
  by (induction reqs) (auto simp: own_view_def)

lemma same_own_refl [simp]: "same_own u st st" by (simp add: same_own_def)

lemma same_own_filter: "same_own u st1 st2 \<Longrightarrow>
   filter (\<lambda>(i, q). lr_user_sub q = u) (hs_leave_requests st1) = filter (\<lambda>(i, q). lr_user_sub q = u) (hs_leave_requests st2)"
  by (simp add: same_own_def own_view_filter)

lemma same_own_find:
  assumes "same_own u st1 st2"
  obtains "map_of (hs_leave_requests st1) i = None" "map_of (hs_leave_requests st2) i = None"
  | q where "map_of (hs_leave_requests st1) i = Some q" "map_of (hs_leave_requests st2) i = Some q" "lr_user_sub q = u"
  | q1 q2 where "map_of (hs_leave_requests st1) i = Some q1" "map_of (hs_leave_requests st2) i = Some q2"
      "lr_user_sub q1 \<noteq> u" "lr_user_sub q2 \<noteq> u"
proof -
  have "map_of (own_view u (hs_leave_requests st1)) i = map_of (own_view u (hs_leave_requests st2)) i"
    using assms by (simp add: same_own_def)
  then show thesis using that
    by (cases "map_of (hs_leave_requests st1) i"; cases "map_of (hs_leave_requests st2) i")
       (auto simp: own_view_of split: if_splits)
qed

lemma same_own_ensure:
  assumes "same_own u st1 st2"
  shows "fst (ensure_user u a b c e today st1) = fst (ensure_user u a b c e today st2)"
    and "same_own u (snd (ensure_user u a b c e today st1)) (snd (ensure_user u a b c e today st2))"
  using assms by (auto simp: ensure_user_def same_own_def update_conv' Let_def split: option.splits)

lemma same_own_apply:
  assumes "same_own u st1 st2"
  shows "fst (apply_leave u a b t s e r today st1) = fst (apply_leave u a b t s e r today st2)"
    and "same_own u (snd (apply_leave u a b t s e r today st1)) (snd (apply_leave u a b t s e r today st2))"
proof -
  obtain us s1 s2 where e: "ensure_user u a b None None today st1 = (us, s1)" "ensure_user u a b None None today st2 = (us, s2)"
    and so: "same_own u s1 s2"
    using same_own_ensure [OF assms, of a b None None today] by (metis prod.collapse)
  have eqs: "hs_leave_policy s1 = hs_leave_policy s2" "map_of (hs_leave_balances s1) u = map_of (hs_leave_balances s2) u"
    "hs_leave_request_counter s1 = hs_leave_request_counter s2"
    using so by (simp_all add: same_own_def)
  show "fst (apply_leave u a b t s e r today st1) = fst (apply_leave u a b t s e r today st2)"
    unfolding apply_leave_def e Let_def prod.case eqs next_request_id_def
    by (auto split: option.splits)
  have "same_own u (s1\<lparr>hs_leave_request_counter := n, hs_leave_requests := AList.update i q (hs_leave_requests s1)\<rparr>)
      (s2\<lparr>hs_leave_request_counter := n, hs_leave_requests := AList.update i q (hs_leave_requests s2)\<rparr>)" for n i q
    using so by (simp add: same_own_def own_view_update)
  then show "same_own u (snd (apply_leave u a b t s e r today st1)) (snd (apply_leave u a b t s e r today st2))"
    using so unfolding apply_leave_def e Let_def prod.case eqs next_request_id_def
    by (auto split: option.splits)
qed

lemma same_own_balance:
  assumes "same_own u st1 st2"
  shows "fst (get_my_leave_balance u a b today st1) = fst (get_my_leave_balance u a b today st2)"
    and "same_own u (snd (get_my_leave_balance u a b today st1)) (snd (get_my_leave_balance u a b today st2))"
proof -
  obtain us s1 s2 where e: "ensure_user u a b None None today st1 = (us, s1)" "ensure_user u a b None None today st2 = (us, s2)"
    and so: "same_own u s1 s2"
    using same_own_ensure [OF assms, of a b None None today] by (metis prod.collapse)
  show "fst (get_my_leave_balance u a b today st1) = fst (get_my_leave_balance u a b today st2)"
    "same_own u (snd (get_my_leave_balance u a b today st1)) (snd (get_my_leave_balance u a b today st2))"
    using so by (simp_all add: get_my_leave_balance_def e same_own_def)
qed

lemma same_own_history:
  assumes "same_own u st1 st2"
  shows "fst (get_my_leave_requests u a b today st1) = fst (get_my_leave_requests u a b today st2)"
    and "same_own u (snd (get_my_leave_requests u a b today st1)) (snd (get_my_leave_requests u a b today st2))"
proof -
  obtain us s1 s2 where e: "ensure_user u a b None None today st1 = (us, s1)" "ensure_user u a b None None today st2 = (us, s2)"
    and so: "same_own u s1 s2"
    using same_own_ensure [OF assms, of a b None None today] by (metis prod.collapse)
  show "fst (get_my_leave_requests u a b today st1) = fst (get_my_leave_requests u a b today st2)"
    "same_own u (snd (get_my_leave_requests u a b today st1)) (snd (get_my_leave_requests u a b today st2))"
    using so by (simp_all add: get_my_leave_requests_def e same_own_filter)
qed

lemma same_own_dashboard: "same_own u st1 st2 \<Longrightarrow> u \<noteq> [] \<Longrightarrow>
   get_leaves_for_dashboard (Some u) None None st1 = get_leaves_for_dashboard (Some u) None None st2"
  using same_own_filter by (simp add: get_leaves_for_dashboard_def passes_filters_def)

lemma same_own_details:
  assumes "same_own (rx_sub ctx) st1 st2" "''hr_read_rest'' \<notin> set (rx_scopes ctx)"
  shows "fst (rest_get_leave_details i ctx st1) = fst (rest_get_leave_details i ctx st2)"
proof -
  have b: "map_of (hs_leave_balances st1) (rx_sub ctx) = map_of (hs_leave_balances st2) (rx_sub ctx)"
    using assms(1) by (simp add: same_own_def)
  show ?thesis
    using assms(1)
  proof (cases rule: same_own_find [where i = i])
    case 1
    then show ?thesis by (simp add: rest_get_leave_details_def get_leave_request_details_def)
  next
    case (2 q)
    then show ?thesis using b by (simp add: rest_get_leave_details_def get_leave_request_details_def Let_def)
  next
    case (3 q1 q2)
    then show ?thesis using assms(2) by (simp add: rest_get_leave_details_def get_leave_request_details_def Let_def)
  qed
qed

lemma same_own_create:
  assumes "same_own (rx_sub ctx) st1 st2"
  shows "fst (rest_create_leave today body ctx st1) = fst (rest_create_leave today body ctx st2)"
    and "same_own (rx_sub ctx) (snd (rest_create_leave today body ctx st1)) (snd (rest_create_leave today body ctx st2))"
  using assms same_own_apply [OF assms]
  by (auto simp: rest_create_leave_def rest_scoped_def case_prod_beta Let_def
      split: rest_body.splits py.splits sum.splits)

lemma same_own_body:
  assumes "same_own (rx_sub ctx) st1 st2"
    and "''hr_read_rest'' \<notin> set (rx_scopes ctx)" "''hr_approve_rest'' \<notin> set (rx_scopes ctx)"
  shows "fst (hr_rest_body today call ctx st1) = fst (hr_rest_body today call ctx st2)
    \<and> same_own (rx_sub ctx) (snd (hr_rest_body today call ctx st1)) (snd (hr_rest_body today call ctx st2))"
proof -
  have eqs: "get_holidays st1 = get_holidays st2" "get_leave_policy st1 = get_leave_policy st2"
    "get_my_cubicle s n st1 = get_my_cubicle s n st2" for s n
    using assms(1) by (simp_all add: same_own_def get_holidays_def get_leave_policy_def get_my_cubicle_def my_cubicle_needles_def Let_def)
  show ?thesis
  proof (cases call)
    case (RestLeaveDetails i)
    have "snd (rest_get_leave_details i ctx st) = st" for st
      by (simp add: rest_get_leave_details_def split: option.splits)
    with RestLeaveDetails show ?thesis
      using assms(1) same_own_details [OF assms(1,2)] by (simp add: as_answer_def apfst_def map_prod_def case_prod_beta)
  next
    case (RestLeaves s n)
    then show ?thesis using assms same_own_dashboard [OF assms(1)] by (simp add: as_answer_def rest_get_leaves_def)
  next
    case (RestCreateLeave b)
    then show ?thesis using same_own_create [OF assms(1)] by (simp add: as_answer_def apfst_def map_prod_def case_prod_beta)
  next
    case RestLeaveBalance
    then show ?thesis using assms(1) same_own_balance [OF assms(1)]
      by (simp add: as_answer_def rest_get_leave_balance_def rest_scoped_def case_prod_beta Let_def)
  next
    case RestMyLeaves
    then show ?thesis using assms(1) same_own_history [OF assms(1)]
      by (simp add: as_answer_def rest_get_my_leaves_def rest_scoped_def case_prod_beta Let_def)
  next
    case RestMyCubicle
    then show ?thesis using assms eqs
      by (cases "rx_sub ctx = []") (simp_all add: as_answer_def rest_get_my_cubicle_def rest_scoped_def)
  qed (use assms eqs in \<open>simp_all add: as_answer_def hr_rest_defs rest_scoped_def rest_require_scope_def\<close>)
qed

lemma same_own_registered:
  "same_own (rx_sub ctx) st1 st2 \<Longrightarrow>
     same_own (rx_sub ctx) (registered (hr_register today) ctx st1) (registered (hr_register today) ctx st2)"
  using same_own_ensure(2) [of "rx_sub ctx" st1 st2]
  by (cases "rx_sub ctx = []") (simp_all add: registered_def hr_register_def)

end
