(* ===== verification/ItRest.thy ===== *)
theory ItRest
  imports RestAuth ItService
begin

text \<open>
  \<open>it_server/rest_api/server.py\<close>: the liveness probe, the device report and the caller's own
  assets, over the store and service of the IT server.
\<close>

definition it_register :: "int \<Rightarrow> rest_ctx \<Rightarrow> it_store \<Rightarrow> it_store" where
  "it_register today ctx st =
     snd (it_ensure_user (rx_sub ctx) (rx_first_name ctx) (rx_last_name ctx) (rx_username ctx) (rx_email ctx) today st)"

type_synonym 'r it_body = "rest_ctx \<Rightarrow> it_store \<Rightarrow> 'r rest \<times> it_store"

definition rest_get_device_assignments :: "(device_row list \<times> nat) it_body" where
  "rest_get_device_assignments = rest_scoped [''it_assets_read_rest'']
     (\<lambda>ctx st. let rows = get_all_asset_assignments st in (RestOk 200 (rows, length rows), st))"

definition rest_get_my_assets :: "(asset_row list \<times> nat) it_body" where
  "rest_get_my_assets = rest_scoped [''it_assets_self_rest'']
     (\<lambda>ctx st. if rx_sub ctx = [] then (RestErr 401 ''ERR-AUTH-claim-missing'', st)
                else (RestOk 200 (get_my_assets (or_empty (rx_username ctx)) (rx_sub ctx) st), st))"

datatype it_rest_call = ItHealth | ItDeviceReport | ItMyAssets

datatype it_rest_answer =
    WHealth string | WDevices "device_row list \<times> nat" | WAssets "asset_row list \<times> nat"

definition as_it_answer :: "('a \<Rightarrow> it_rest_answer) \<Rightarrow> 'a rest \<times> 'v \<times> it_store \<Rightarrow> it_rest_answer rest \<times> 'v \<times> it_store" where
  "as_it_answer f = (\<lambda>(r, s). (case r of RestOk n a \<Rightarrow> RestOk n (f a) | RestErr n e \<Rightarrow> RestErr n e, s))"

fun it_rest_route ::
  "'v rest_check \<Rightarrow> string option \<Rightarrow> int \<Rightarrow> it_rest_call \<Rightarrow> 'v \<Rightarrow> it_store \<Rightarrow> it_rest_answer rest \<times> 'v \<times> it_store"
where
  "it_rest_route check h today ItHealth v st = (RestOk 200 (WHealth ''ok''), v, st)"
| "it_rest_route check h today ItDeviceReport v st =
     as_it_answer WDevices (rest_handler check it_auth_context (it_register today) h rest_get_device_assignments v st)"
| "it_rest_route check h today ItMyAssets v st =
     as_it_answer WAssets (rest_handler check it_auth_context (it_register today) h rest_get_my_assets v st)"

interpretation it_rest: rest_guard "rest_validate_token J net" "it_register today" rest_trust "rest_accepts J" it_inv
  for J :: "'k rest_jwt" and net today
  by (rule rest_guard_validator) (simp add: it_register_def it_inv_ensure)

lemma as_it_answer_eq:
  "as_it_answer f x = (r, v', st') \<longleftrightarrow>
     (\<exists>r0. x = (r0, v', st') \<and> r = (case r0 of RestOk n a \<Rightarrow> RestOk n (f a) | RestErr n e \<Rightarrow> RestErr n e))"
  by (cases x) (auto simp: as_it_answer_def)

text \<open>The REST surface never touches the assets or the catalogue.\<close>

lemma it_register_assets:
  "is_assets (it_register today c st) = is_assets st" "is_catalogue (it_register today c st) = is_catalogue st"
  by (simp_all add: it_register_def it_ensure_user_def Let_def)

lemma it_handler_assets:
  assumes "rest_handler (rest_validate_token J net) it_auth_context (it_register today) h body v st = (r, v', d')"
    and b: "\<And>c d. snd (body c d) = d"
  shows "is_assets d' = is_assets st \<and> is_catalogue d' = is_catalogue st"
  using assms(1)
proof (cases rule: it_rest.handler_cases)
  case (ran tok p c)
  from b [of c "registered (it_register today) c st"] ran(4) show ?thesis
    by (auto simp: registered_def it_register_assets)
qed simp

lemma it_rest_assets:
  assumes "it_rest_route (rest_validate_token J net) h today call v st = (r, v', st')"
  shows "is_assets st' = is_assets st \<and> is_catalogue st' = is_catalogue st"
proof -
  have b: "snd (rest_get_device_assignments c d) = d" "snd (rest_get_my_assets c d) = d" for c d
    by (simp_all add: rest_get_device_assignments_def rest_get_my_assets_def rest_scoped_def Let_def)
  show ?thesis using assms
    by (cases call) (auto simp: as_it_answer_eq dest: it_handler_assets [OF _ b(1)] it_handler_assets [OF _ b(2)])
qed

end
