(* ===== verification/RestProps.thy ===== *)
theory RestProps
  imports HrProps HrRest ItRest
begin

text \<open>
  The properties of the REST surfaces, and of the HR server with both of its surfaces
  mounted on the one store (\<open>create_app\<close> of \<open>hr_server/main.py\<close>).
\<close>

section \<open>Both surfaces on one store\<close>

datatype hr_request =
    ToolRequest "string option" hr_call string
  | RestRequest "string option" hr_rest_call

record ('v, 'w) hr_server =
  sv_tools :: 'v
  sv_rest :: 'w
  sv_store :: hr_store

fun hr_serve ::
  "'v checker \<Rightarrow> 'w rest_check \<Rightarrow> int \<Rightarrow> hr_request \<Rightarrow> ('v, 'w) hr_server \<Rightarrow> ('v, 'w) hr_server"
where
  "hr_serve check rest_check today (ToolRequest h call now_iso) srv =
     (let (r, v, st) = hr_route check h today now_iso call (sv_tools srv) (sv_store srv)
      in srv\<lparr>sv_tools := v, sv_store := st\<rparr>)"
| "hr_serve check rest_check today (RestRequest h call) srv =
     (let (r, w, st) = hr_rest_route rest_check h today call (sv_rest srv) (sv_store srv)
      in srv\<lparr>sv_rest := w, sv_store := st\<rparr>)"

definition hr_serve_all ::
  "'v checker \<Rightarrow> 'w rest_check \<Rightarrow> (int \<times> hr_request) list \<Rightarrow> ('v, 'w) hr_server \<Rightarrow> ('v, 'w) hr_server"
where
  "hr_serve_all check rest_check reqs srv = foldl (\<lambda>s (today, q). hr_serve check rest_check today q s) srv reqs"

text \<open>A handler changes the store by registering the caller and then by its body, or not at all.\<close>

lemma rest_handler_store:
  assumes "rest_handler check mk_ctx register h body v d = (r, v', d')"
  shows "d' = d \<or> (\<exists>c. d' = snd (body c (registered register c d)))"
  using assms
  by (auto simp: rest_handler_def rest_authenticate_def Let_def case_prod_beta split: option.splits prod.splits sum.splits)

lemma hr_run_Nil: "hr_run [] st = st"
  and hr_run_one: "hr_run [(t, opr)] st = hr_exec t opr st"
  by (simp_all add: hr_run_def del: hr_exec.simps)

lemma hr_run_append: "hr_run (xs @ ys) st = hr_run ys (hr_run xs st)"
  by (simp add: hr_run_def)

lemma hr_rest_route_run:
  assumes "hr_rest_route check h today call v st = (r, v', st')"
  shows "\<exists>ops. st' = hr_run ops st"
proof -
  consider "st' = st" | c where "st' = snd (hr_rest_body today call c (registered (hr_register today) c st))"
    using rest_handler_store [OF assms [unfolded hr_rest_route_def]] by blast
  then show ?thesis
  proof cases
    case 1
    then show ?thesis using hr_run_Nil by metis
  next
    case (2 c)
    obtain ops where ops: "registered (hr_register today) c st = hr_run ops st"
      by (cases "rx_sub c = []") (auto simp: registered_def hr_register_exec simp del: hr_exec.simps intro: hr_run_Nil [symmetric] hr_run_one [symmetric])
    have "\<exists>ops'. st' = hr_run ops' (hr_run ops st)"
      using hr_rest_body_exec [OF prod.collapse [symmetric], of today call c "hr_run ops st"] 2 ops
        hr_run_Nil hr_run_one by metis
    then show ?thesis using hr_run_append by metis
  qed
qed

lemma hr_serve_run: "\<exists>ops. sv_store (hr_serve check rest_check today q srv) = hr_run ops (sv_store srv)"
proof (cases q)
  case (ToolRequest h call now_iso)
  obtain r v st where s: "hr_route check h today now_iso call (sv_tools srv) (sv_store srv) = (r, v, st)"
    by (metis prod_cases3)
  with route_is_exec [OF s] ToolRequest hr_run_Nil hr_run_one show ?thesis
    by (metis (no_types, lifting) hr_serve.simps(1) case_prod_conv hr_server.select_convs(3) hr_server.surjective hr_server.update_convs(1,3))
next
  case (RestRequest h call)
  obtain r v st where s: "hr_rest_route rest_check h today call (sv_rest srv) (sv_store srv) = (r, v, st)"
    by (metis prod_cases3)
  with hr_rest_route_run [OF s] RestRequest show ?thesis by simp
qed

lemma hr_serve_all_run: "\<exists>ops. sv_store (hr_serve_all check rest_check reqs srv) = hr_run ops (sv_store srv)"
proof (induction reqs arbitrary: srv)
  case Nil
  then show ?case by (metis hr_run_Nil foldl_Nil hr_serve_all_def)
next
  case (Cons q reqs)
  obtain today q' where q: "q = (today, q')" by force
  have "hr_serve_all check rest_check (q # reqs) srv
      = hr_serve_all check rest_check reqs (hr_serve check rest_check today q' srv)"
    by (simp add: hr_serve_all_def q)
  then show ?case using Cons.IH hr_serve_run [of check rest_check today q' srv] hr_run_append by metis
qed

section \<open>The ledger\<close>

text \<open>
  C4. HR: over any sequence of requests to the tool routes and the REST routes, accepted or
  refused and in any order, every balance entry is non-negative, and together with the days
  of the approved requests of its owner and type it makes up exactly the yearly allowance.
\<close>

theorem ledger_over_requests:
  assumes "sv_store srv = reset_data"
    and "map_of (hs_leave_balances (sv_store (hr_serve_all check rest_check reqs srv))) sub = Some b"
    and "map_of default_leave_balance k = Some allowance"
  shows "\<exists>n. map_of b k = Some n \<and> 0 \<le> n
    \<and> n + approved_days sub k (hs_leave_requests (sv_store (hr_serve_all check rest_check reqs srv))) = allowance"
proof -
  obtain ops where ops: "sv_store (hr_serve_all check rest_check reqs srv) = hr_run ops reset_data"
    using hr_serve_all_run [of check rest_check reqs srv] assms(1) by metis
  show ?thesis unfolding ops
    using hr_invD(2) [OF hr_inv_run [OF hr_inv_reset] assms(2) [unfolded ops]] assms(3) by (blast elim: balance_ok_get)
qed

text \<open>A library instance for the REST validators, with the payloads of \<open>Samples\<close>.\<close>

definition sample_rest_jwt :: "unit rest_jwt" where
  "sample_rest_jwt =
     \<lparr>rj_header = \<lambda>t. if t = ''junk'' then Inl RDecodeError else Inr [(''kid'', PStr ''k1'')],
      rj_from_jwk = \<lambda>_. Some (),
      rj_decode = \<lambda>t key iss auds.
        if iss \<noteq> ''is'' then Inl RInvalidIssuer
        else if ''hr'' \<notin> set auds then Inl RInvalidAudience
        else (case sample_decode t of Inl e \<Rightarrow> Inl RInvalidSignature | Inr p \<Rightarrow> Inr p)\<rparr>"

definition sample_rest_net :: "nat \<Rightarrow> http_answer" where
  "sample_rest_net n = HttpReply 200 (Some (PDict [(''keys'', PList [PDict [(''kid'', PStr ''k1'')]])]))"

definition sample_rest_check :: "rest_validator rest_check" where
  "sample_rest_check = rest_validate_token sample_rest_jwt sample_rest_net"

definition sample_rest_validator :: rest_validator where
  "sample_rest_validator = new_rest_validator ''is'' [''hr'']"

definition sample_rest_warm :: rest_validator where
  "sample_rest_warm = sample_rest_validator
     \<lparr>rv_jwks_cache := PDict [(''keys'', PList [PDict [(''kid'', PStr ''k1'')]])], rv_fetches := 1\<rparr>"

lemma sample_rest_validate:
  assumes "sample_decode tok = Inr p" "tok \<noteq> ''junk''"
  shows "sample_rest_check tok sample_rest_validator = (Inr p, sample_rest_warm)"
    and "sample_rest_check tok sample_rest_warm = (Inr p, sample_rest_warm)"
  using assms
  by (simp_all add: sample_rest_check_def rest_validate_token_def sample_rest_jwt_def rest_signing_key_def
      rest_get_jwks_def rest_fetch_jwks_def sample_rest_net_def sample_rest_validator_def new_rest_validator_def
      rest_key_for_kid_def pyget_or_def sample_rest_warm_def Let_def del: sample_decode.simps)

definition sample_ctx :: "string \<Rightarrow> string list \<Rightarrow> rest_ctx" where
  "sample_ctx sub ws = \<lparr>rx_sub = sub, rx_email = None, rx_username = None, rx_scopes = ws,
     rx_first_name = [], rx_last_name = [], rx_full_name = ''User''\<rparr>"

lemma sample_hr_context:
  "hr_auth_context (sample_payload ''alice'' ''j1'' ''hr_self_rest'') = Inr (sample_ctx ''alice'' [''hr_self_rest''])"
  "hr_auth_context (sample_payload ''boss'' ''j2'' ''hr_approve_rest hr_read_rest'')
     = Inr (sample_ctx ''boss'' [''hr_approve_rest'', ''hr_read_rest''])"
  by (simp_all add: hr_auth_context_def auth_context_def claim_text_def sample_payload_def ctx_scopes_def
      scope_words_def sample_scopes ctx_names_def some_text_def sample_ctx_def Let_def
      py_strip_def py_rstrip_def py_lstrip_def)

text \<open>Alice files two days of sick leave over REST and the boss approves them through a tool.\<close>

definition sample_leave_body :: rest_body where
  "sample_leave_body = JsonBody (PDict [(''leave_type'', PStr ''Sick Leave''), (''start_date'', PStr ''2024-01-01''),
     (''end_date'', PStr ''2024-01-02''), (''reason'', PStr ''flu'')])"

definition sample_server :: "(mcp_validator, rest_validator) hr_server" where
  "sample_server = \<lparr>sv_tools = sample_validator [], sv_rest = sample_rest_validator, sv_store = reset_data\<rparr>"

definition sample_requests :: "(int \<times> hr_request) list" where
  "sample_requests =
     [(738885, RestRequest (Some ''Bearer alice'') (RestCreateLeave sample_leave_body)),
      (738885, ToolRequest (Some ''Bearer boss'') (ApproveLeave ''LR001'') ''now'')]"

definition sample_filed :: hr_store where
  "sample_filed = hr_run
     [(738885, OpEnsureUser ''alice'' [] [] None None),
      (738885, OpApply ''alice'' [] [] ''Sick Leave'' ''2024-01-01'' ''2024-01-02'' ''flu'')] reset_data"

lemma sample_filed_eq:
  "map_of (hs_leave_requests sample_filed) ''LR001''
     = Some (pending_request ''alice'' [] ''Sick Leave'' ''2024-01-01'' ''2024-01-02'' 2 ''flu'')"
  "map_of (hs_leave_balances sample_filed) ''alice'' = Some default_leave_balance"
  "hs_leave_requests sample_filed
     = [(''LR001'', pending_request ''alice'' [] ''Sick Leave'' ''2024-01-01'' ''2024-01-02'' 2 ''flu'')]"
  by (simp_all add: sample_filed_def hr_run_def apply_leave_def ensure_user_def reset_data_def Let_def
      sample_dates seed_leave_policy_def default_balance_def default_leave_balance_def balance_get_def
      next_request_id_def pad3_one pending_request_def new_user_def refresh_user_def
      py_strip_def py_rstrip_def py_lstrip_def)

lemma sample_strips:
  "py_strip ''Sick Leave'' = ''Sick Leave''" "py_strip ''2024-01-01'' = ''2024-01-01''"
  "py_strip ''2024-01-02'' = ''2024-01-02''" "py_strip ''flu'' = ''flu''"
  by (simp_all add: py_strip_def py_rstrip_def py_lstrip_def py_ws_def)

lemma sample_rest_bearer:
  "rest_bearer (Some ''Bearer alice'') = Some ''alice''" "rest_bearer (Some ''Bearer boss'') = Some ''boss''"
  by (simp_all add: rest_bearer_def)

lemma sample_create:
  "hr_rest_route sample_rest_check (Some ''Bearer alice'') 738885 (RestCreateLeave sample_leave_body)
       sample_rest_validator reset_data
     = (RestOk 201 (WCreated ''LR001''), sample_rest_warm, sample_filed)"
proof -
  have v: "sample_rest_check ''alice'' sample_rest_validator
      = (Inr (sample_payload ''alice'' ''j1'' ''hr_self_rest''), sample_rest_warm)"
    by (rule sample_rest_validate) simp_all
  have r: "registered (hr_register 738885) (sample_ctx ''alice'' [''hr_self_rest'']) reset_data
      = hr_exec 738885 (OpEnsureUser ''alice'' [] [] None None) reset_data"
    by (simp add: registered_def hr_register_def sample_ctx_def)
  let ?st = "hr_exec 738885 (OpEnsureUser ''alice'' [] [] None None) reset_data"
  have a: "apply_leave ''alice'' [] [] ''Sick Leave'' ''2024-01-01'' ''2024-01-02'' ''flu'' 738885 ?st
      = (Inr (SvcOk ''LR001''), sample_filed)"
    by (simp add: sample_filed_def hr_run_def apply_leave_def ensure_user_def reset_data_def Let_def
        sample_dates seed_leave_policy_def default_balance_def default_leave_balance_def balance_get_def
        next_request_id_def pad3_one)
  have "rest_create_leave 738885 sample_leave_body (sample_ctx ''alice'' [''hr_self_rest'']) ?st
      = (RestOk 201 ''LR001'', sample_filed)"
    using a by (simp add: rest_create_leave_def rest_scoped_def rest_require_scope_def sample_ctx_def sample_leave_body_def
        create_leave_fields_def stripped_text_def field_or_def sample_strips Let_def del: hr_exec.simps)
  then show ?thesis
    by (simp add: hr_rest_route_def rest_handler_def rest_authenticate_def sample_rest_bearer v sample_hr_context r
        as_answer_def del: hr_exec.simps)
qed

text \<open>The approval of the filed request, through either surface.\<close>

lemma sample_approve:
  assumes "map_of (hs_leave_requests st) ''LR001''
      = Some (pending_request ''alice'' [] ''Sick Leave'' ''2024-01-01'' ''2024-01-02'' 2 ''flu'')"
    and "map_of (hs_leave_balances st) ''alice'' = Some default_leave_balance"
  shows "fst (approve_leave_request ''LR001'' ''boss'' who st) = Inr (SvcOk (review_reply_of ''LR001'' ''Approved'' ''approved''
       (pending_request ''alice'' [] ''Sick Leave'' ''2024-01-01'' ''2024-01-02'' 2 ''flu'')))"
    and "map_of (hs_leave_balances (snd (approve_leave_request ''LR001'' ''boss'' who st))) ''alice''
     = Some [(''annual'', 20), (''sick'', 8), (''personal'', 5)]"
  using assms
  by (simp_all add: approve_leave_request_def find_pending_def pending_request_def deduct_balance_def
      default_leave_balance_def dict_simps)

lemma sample_approved_days:
  "approved_days ''alice'' ''sick'' (hs_leave_requests (snd (approve_leave_request ''LR001'' ''boss'' who sample_filed))) = 2"
  using sample_filed_eq
  by (simp add: approve_leave_request_def find_pending_def pending_request_def deduct_balance_def
      default_leave_balance_def approved_days_def approved_part_def dict_simps)

lemma sample_serve:
  "\<exists>who. sv_store (hr_serve_all sample_hr_check sample_rest_check sample_requests sample_server)
     = snd (approve_leave_request ''LR001'' ''boss'' who sample_filed)"
  by (simp add: hr_serve_all_def sample_requests_def sample_server_def sample_create
      tool_approve_leave_def with_guard_def tool_guard_def sample_bearer sample_boss answer_as_def
      case_prod_beta Let_def sample_claims_def username_for_def exI)

lemma ledger_over_requests_witness:
  "\<exists>n. map_of [(''annual'', 20), (''sick'', 8), (''personal'', 5)] ''sick'' = Some n \<and> 0 \<le> n
    \<and> n + approved_days ''alice'' ''sick'' (hs_leave_requests (sv_store
          (hr_serve_all sample_hr_check sample_rest_check sample_requests sample_server))) = (10 :: int)
    \<and> approved_days ''alice'' ''sick'' (hs_leave_requests (sv_store
          (hr_serve_all sample_hr_check sample_rest_check sample_requests sample_server))) = 2"
proof -
  have srv: "sv_store sample_server = reset_data" by (simp add: sample_server_def)
  obtain who where st: "sv_store (hr_serve_all sample_hr_check sample_rest_check sample_requests sample_server)
      = snd (approve_leave_request ''LR001'' ''boss'' who sample_filed)"
    using sample_serve by blast
  show ?thesis
    using ledger_over_requests [OF srv, of sample_hr_check sample_rest_check sample_requests "''alice''"
        "[(''annual'', 20), (''sick'', 8), (''personal'', 5)]" "''sick''" 10] sample_approve(2) [OF sample_filed_eq(1,2), of who] sample_approved_days [of who]
    by (simp add: st default_leave_balance_def)
qed

section \<open>Who reaches the REST routes\<close>

text \<open>
  C6. HR REST: a reply with a result, or any change of the store, comes only from a request
  whose Authorization header is Bearer and a token that the library decoded under the
  validator's issuer and audience list, with the key the validator's key set has for the key
  id of the token's header, a set it held or the key endpoint served. Without one of the
  scopes of the route the answer is an error and the store is changed by the registration of
  that token's caller only, which comes before the check of the scopes.
\<close>

theorem rest_route_authorised:
  assumes "hr_rest_route (rest_validate_token J net) h today call v st = (r, v', st')"
    and "(\<exists>n a. r = RestOk n a) \<or> st' \<noteq> st"
  shows "\<exists>tok header key p ctx. h = Some (''Bearer '' @ tok) \<and> rj_header J tok = Inr header
    \<and> truthy (pyget header ''kid'') \<and> held_key J (rv_jwks_cache v') (pyget header ''kid'') key
    \<and> (rv_jwks_cache v' = rv_jwks_cache v \<or> rest_keys_served net (rv_jwks_cache v'))
    \<and> rj_decode J tok key (rv_issuer v) (rv_audience v) = Inr p
    \<and> hr_auth_context p = Inr ctx
    \<and> (rest_require_scope ctx (rest_scopes_of call)
       \<or> (\<exists>s i. r = RestErr s i) \<and> st' = registered (hr_register today) ctx st)"
  using assms(1) [unfolded hr_rest_route_def]
proof (cases rule: hr_rest.handler_cases)
  case (refused s i)
  then show ?thesis using assms(2) by simp
next
  case (ran tok p c)
  have "prefix ''Bearer '' (or_empty h)" "tok = drop 7 (or_empty h)"
    using ran(1) by (auto simp: rest_bearer_def split: if_splits)
  then have h: "h = Some (''Bearer '' @ tok)" by (cases h) (auto simp: prefix_def)
  have "rest_require_scope c (rest_scopes_of call)
      \<or> (\<exists>s i. r = RestErr s i) \<and> st' = registered (hr_register today) c st"
    using hr_rest_body_scope [OF ran(4)] by (cases r) auto
  with h ran(3) rest_validate_key [OF ran(5)] show ?thesis by metis
qed

lemma rest_route_authorised_witness:
  "\<exists>tok header key p ctx. Some ''Bearer alice'' = Some (''Bearer '' @ tok) \<and> rj_header sample_rest_jwt tok = Inr header
    \<and> truthy (pyget header ''kid'') \<and> held_key sample_rest_jwt (rv_jwks_cache sample_rest_warm) (pyget header ''kid'') key
    \<and> (rv_jwks_cache sample_rest_warm = rv_jwks_cache sample_rest_validator
       \<or> rest_keys_served sample_rest_net (rv_jwks_cache sample_rest_warm))
    \<and> rj_decode sample_rest_jwt tok key (rv_issuer sample_rest_validator) (rv_audience sample_rest_validator) = Inr p
    \<and> hr_auth_context p = Inr ctx
    \<and> (rest_require_scope ctx (rest_scopes_of (RestCreateLeave sample_leave_body))
       \<or> (\<exists>s i. RestOk 201 (WCreated ''LR001'') = RestErr s i) \<and> sample_filed = registered (hr_register 738885) ctx reset_data)"
  by (rule rest_route_authorised [OF sample_create [unfolded sample_rest_check_def]]) simp

section \<open>Own data\<close>

text \<open>
  C7. HR REST: what a caller without the read and the approve scope is answered, on any route,
  depends on the caller's own requests and balance and on which request ids exist, not on the
  contents of others' requests nor on their balances: over any two stores that agree on the
  rest the answers are equal, and the stores after the call agree again, so this holds along
  any further calls of that caller.
\<close>

theorem rest_reads_own:
  assumes "rest_bearer h = Some tok" "check tok v = (Inr p, v1)" "hr_auth_context p = Inr ctx"
    and "''hr_read_rest'' \<notin> set (rx_scopes ctx)" "''hr_approve_rest'' \<notin> set (rx_scopes ctx)"
    and "same_own (rx_sub ctx) st1 st2"
  shows "fst (hr_rest_route check h today call v st1) = fst (hr_rest_route check h today call v st2)
    \<and> same_own (rx_sub ctx) (snd (snd (hr_rest_route check h today call v st1))) (snd (snd (hr_rest_route check h today call v st2)))"
proof -
  have "hr_rest_route check h today call v st
      = (fst (hr_rest_body today call ctx (registered (hr_register today) ctx st)), v1,
         snd (hr_rest_body today call ctx (registered (hr_register today) ctx st)))" for st
    using assms(1-3) by (simp add: hr_rest_route_def rest_handler_def rest_authenticate_def case_prod_beta Let_def)
  then show ?thesis using same_own_body [OF same_own_registered [OF assms(6)] assms(4,5)] by simp
qed

definition sample_bob_request :: "string \<Rightarrow> hr_store" where
  "sample_bob_request reason = reset_data\<lparr>hs_leave_requests :=
     [(''LR001'', pending_request ''bob'' [] ''Sick Leave'' ''2024-01-01'' ''2024-01-02'' 2 reason)]\<rparr>"

lemma rest_reads_own_witness:
  "fst (hr_rest_route sample_rest_check (Some ''Bearer alice'') 1 (RestLeaveDetails ''LR001'') sample_rest_warm (sample_bob_request ''flu''))
     = fst (hr_rest_route sample_rest_check (Some ''Bearer alice'') 1 (RestLeaveDetails ''LR001'') sample_rest_warm (sample_bob_request ''rest''))
   \<and> sample_bob_request ''flu'' \<noteq> sample_bob_request ''rest''"
proof -
  have v: "sample_rest_check ''alice'' sample_rest_warm
      = (Inr (sample_payload ''alice'' ''j1'' ''hr_self_rest''), sample_rest_warm)"
    by (rule sample_rest_validate(2)) simp_all
  have s: "same_own (rx_sub (sample_ctx ''alice'' [''hr_self_rest''])) (sample_bob_request ''flu'') (sample_bob_request ''rest'')"
    by (simp add: same_own_def own_view_def sample_bob_request_def sample_ctx_def pending_request_def)
  have "hs_leave_requests (sample_bob_request ''flu'') \<noteq> hs_leave_requests (sample_bob_request ''rest'')"
    by (simp add: sample_bob_request_def pending_request_def)
  then have d: "sample_bob_request ''flu'' \<noteq> sample_bob_request ''rest''" by metis
  have n: "''hr_read_rest'' \<notin> set (rx_scopes (sample_ctx ''alice'' [''hr_self_rest'']))"
    "''hr_approve_rest'' \<notin> set (rx_scopes (sample_ctx ''alice'' [''hr_self_rest'']))"
    by (simp_all add: sample_ctx_def)
  from rest_reads_own [where check = sample_rest_check and v = sample_rest_warm, OF sample_rest_bearer(1) v sample_hr_context(1) n s, of 1 "RestLeaveDetails ''LR001''"] d
  show ?thesis by blast
qed

text \<open>A request that does not exist is told apart from another user's, with no scope at all.\<close>

lemma leave_ids_revealed:
  "fst (hr_rest_body today (RestLeaveDetails ''LR001'') (sample_ctx ''bob'' []) sample_filed)
     = RestErr 403 ''insufficient_scope''"
  "fst (hr_rest_body today (RestLeaveDetails ''LR001'') (sample_ctx ''bob'' []) reset_data) = RestErr 404 ''not_found''"
  by (simp_all add: as_answer_def rest_get_leave_details_def get_leave_request_details_def sample_ctx_def
      sample_filed_eq reset_data_def Let_def)

section \<open>Revocation\<close>

lemma hr_validate_no_denylist:
  "hr_validate_token J net mt now tok (Some req) v = (Inr c, w) \<Longrightarrow>
     hr_validate_token J net mt now tok (Some req) (v\<lparr>mv_revocation := None\<rparr>) = (Inr c, w\<lparr>mv_revocation := None\<rparr>)"
  by (auto simp: hr_validate_token_def denylist_step_def Let_def split: prod.splits sum.splits)

lemma hr_validate_revoked:
  assumes "hr_validate_token J net mt now tok (Some req) (v\<lparr>mv_revocation := None\<rparr>) = (Inr c, w)"
    and "jti_revoked (mv_revocation v) (c_jti c)"
  shows "fst (hr_validate_token J net mt now tok (Some req) v) = Inl (raise_auth ScopeError ''ERR-MCP-002'')"
  using assms(1) denylist_step_revoked [OF assms(2)]
  by (auto simp: hr_validate_token_def Let_def split: prod.splits sum.splits)

lemma ctx_scopes_of: "hr_auth_context p = Inr ctx \<Longrightarrow> ctx_scopes p = Inr (rx_scopes ctx)"
  by (auto simp: hr_auth_context_def auth_context_def Let_def split: sum.splits prod.splits)

lemma registered_requests: "hs_leave_requests (registered (hr_register today) ctx st) = hs_leave_requests st"
  by (simp add: registered_def hr_register_def ensure_user_def Let_def split: option.splits)

lemma registered_balance:
  assumes "hr_inv st" "map_of (hs_leave_balances st) s = Some b"
  shows "map_of (hs_leave_balances (registered (hr_register today) ctx st)) s = Some b"
proof -
  have "map_of (hs_users st) s \<noteq> None" using hr_invD(3) [OF assms(1), of s] assms(2) by simp
  then show ?thesis using assms(2)
    by (auto simp: registered_def hr_register_def ensure_user_def Let_def update_conv' split: option.splits)
qed

lemma approve_affordable:
  assumes "map_of (hs_leave_requests st) i = Some q" "lr_status q = ''Pending''"
    and "map_of (hs_leave_balances st) (lr_user_sub q) = Some b" "balance_key (lr_leave_type q) = Some k"
    and "map_of b k = Some n" "lr_days_requested q \<le> n"
  obtains st' where "approve_leave_request i sub who st
      = (Inr (SvcOk (review_reply_of i ''Approved'' ''approved'' q)), st')"
    and "map_option lr_status (map_of (hs_leave_requests st') i) = Some ''Approved''"
    and "\<exists>b'. map_of (hs_leave_balances st') (lr_user_sub q) = Some b' \<and> map_of b' k = Some (n - lr_days_requested q)"
proof -
  have "b \<noteq> []" using assms(5) by auto
  then show thesis using assms that
    by (simp add: approve_leave_request_def find_pending_def deduct_balance_def update_conv')
qed

text \<open>
  C5. HR: the REST surface does not consult the denylist.  Take a bearer token the tool
  validator would accept for approving leave but for its denylist, on which the token's id is,
  and that the REST validator accepts with the same scope claim. In every consistent store
  with a pending request whose days the balance covers, the tool route answers ERR-MCP-002
  and leaves the store as it is, and the REST route, asked with the same token, approves the
  request and takes the days off the balance.
\<close>

theorem revoked_token_approves_over_rest:
  assumes token: "extract_bearer h = Some tok" "rest_bearer h = Some tok"
    and tool: "hr_validate_token J net mt now tok (Some {''hr_approve_rest''}) (vt\<lparr>mv_revocation := None\<rparr>) = (Inr c, w)"
    and revoked: "jti_revoked (mv_revocation vt) (c_jti c)"
    and rest: "rest_validate_token J' net' tok vr = (Inr p, vr')" "hr_auth_context p = Inr ctx" "pyget p ''scope'' = c_scope c"
    and request: "hr_inv st" "map_of (hs_leave_requests st) i = Some q" "lr_status q = ''Pending''"
      "map_of (hs_leave_balances st) (lr_user_sub q) = Some b" "balance_key (lr_leave_type q) = Some k"
      "map_of b k = Some n" "lr_days_requested q \<le> n"
  shows "\<exists>vt' st'. hr_route (\<lambda>tok req. hr_validate_token J net mt now tok req) h today now_iso (ApproveLeave i) vt st
        = (Fail 401 ''ERR-MCP-002'', vt', st)
    \<and> hr_rest_route (rest_validate_token J' net') h today (RestApprove i) vr st
        = (RestOk 200 (WReviewed (review_reply_of i ''Approved'' ''approved'' q)), vr', st')
    \<and> map_option lr_status (map_of (hs_leave_requests st') i) = Some ''Approved''
    \<and> (\<exists>b'. map_of (hs_leave_balances st') (lr_user_sub q) = Some b' \<and> map_of b' k = Some (n - lr_days_requested q))"
proof -
  obtain vt' where "hr_validate_token J net mt now tok (Some {''hr_approve_rest''}) vt
      = (Inl (raise_auth ScopeError ''ERR-MCP-002''), vt')"
    using hr_validate_revoked [OF tool revoked] by (metis prod.collapse)
  then have t: "hr_route (\<lambda>tok req. hr_validate_token J net mt now tok req) h today now_iso (ApproveLeave i) vt st
      = (Fail 401 ''ERR-MCP-002'', vt', st)"
    by (simp add: tool_approve_leave_def with_guard_def tool_guard_def token(1) answer_as_def
        auth_rejection_def exc_isinstance_def)
  have "claim_scopes c = ctx_scopes p" unfolding claim_scopes_def ctx_scopes_def rest(3) by (rule refl)
  then have s: "rest_require_scope ctx [''hr_approve_rest'']"
    using hr_validate_token_ok(3) [OF tool] ctx_scopes_of [OF rest(2)] by (auto simp: rest_require_scope_def)
  define st1 where "st1 = registered (hr_register today) ctx st"
  obtain st' where a: "approve_leave_request i (rx_sub ctx) (rx_full_name ctx) st1
        = (Inr (SvcOk (review_reply_of i ''Approved'' ''approved'' q)), st')"
    and e: "map_option lr_status (map_of (hs_leave_requests st') i) = Some ''Approved''"
      "\<exists>b'. map_of (hs_leave_balances st') (lr_user_sub q) = Some b' \<and> map_of b' k = Some (n - lr_days_requested q)"
    using approve_affordable [of st1 i q b k n] request registered_balance [OF request(1,4)] registered_requests
    unfolding st1_def by metis
  have "hr_rest_route (rest_validate_token J' net') h today (RestApprove i) vr st
      = (RestOk 200 (WReviewed (review_reply_of i ''Approved'' ''approved'' q)), vr', st')"
    by (simp add: hr_rest_route_def rest_handler_def rest_authenticate_def token(2) rest st1_def [symmetric]
        as_answer_def rest_approve_leave_def rest_scoped_def s a)
  with t e show ?thesis by blast
qed

lemma revoked_token_approves_over_rest_witness:
  "\<exists>vt' st'. hr_route sample_hr_check (Some ''Bearer boss'') 738885 ''now'' (ApproveLeave ''LR001'') (sample_validator [''j2'']) sample_filed
        = (Fail 401 ''ERR-MCP-002'', vt', sample_filed)
    \<and> hr_rest_route sample_rest_check (Some ''Bearer boss'') 738885 (RestApprove ''LR001'') sample_rest_warm sample_filed
        = (RestOk 200 (WReviewed (review_reply_of ''LR001'' ''Approved'' ''approved''
             (pending_request ''alice'' [] ''Sick Leave'' ''2024-01-01'' ''2024-01-02'' 2 ''flu''))), sample_rest_warm, st')
    \<and> map_option lr_status (map_of (hs_leave_requests st') ''LR001'') = Some ''Approved''
    \<and> (\<exists>b'. map_of (hs_leave_balances st') ''alice'' = Some b' \<and> map_of b' ''sick'' = Some 8)"
proof -
  let ?q = "pending_request ''alice'' [] ''Sick Leave'' ''2024-01-01'' ''2024-01-02'' 2 ''flu''"
  have n: "sample_validator [''j2'']\<lparr>mv_revocation := None\<rparr> = sample_validator []\<lparr>mv_revocation := None\<rparr>"
    by (simp add: sample_validator_def attach_revocation_def)
  have "hr_validate_token sample_jwt sample_net 4000 1500 ''boss'' (Some {''hr_approve_rest''}) (sample_validator []\<lparr>mv_revocation := None\<rparr>)
      = (Inr (sample_claims ''boss'' ''j2'' ''hr_approve_rest hr_read_rest''), sample_validator'\<lparr>mv_revocation := None\<rparr>)"
    by (rule hr_validate_no_denylist [OF sample_boss [of "''hr_approve_rest''", unfolded sample_hr_check_def]]) simp
  then have tool: "hr_validate_token sample_jwt sample_net 4000 1500 ''boss'' (Some {''hr_approve_rest''}) (sample_validator [''j2'']\<lparr>mv_revocation := None\<rparr>)
      = (Inr (sample_claims ''boss'' ''j2'' ''hr_approve_rest hr_read_rest''), sample_validator'\<lparr>mv_revocation := None\<rparr>)"
    by (simp only: n)
  have revoked: "jti_revoked (mv_revocation (sample_validator [''j2''])) (c_jti (sample_claims ''boss'' ''j2'' ''hr_approve_rest hr_read_rest''))"
    by (simp add: jti_revoked_def sample_validator_def attach_revocation_def sample_revocation_def sample_claims_def
        denylist_contains_def od_keys_def)
  have v: "sample_rest_check ''boss'' sample_rest_warm
      = (Inr (sample_payload ''boss'' ''j2'' ''hr_approve_rest hr_read_rest''), sample_rest_warm)"
    by (rule sample_rest_validate) simp_all
  have s: "pyget (sample_payload ''boss'' ''j2'' ''hr_approve_rest hr_read_rest'') ''scope''
      = c_scope (sample_claims ''boss'' ''j2'' ''hr_approve_rest hr_read_rest'')"
    by (simp add: sample_payload_def sample_claims_def)
  have inv: "hr_inv sample_filed" unfolding sample_filed_def by (rule hr_inv_run [OF hr_inv_reset])
  have q: "lr_status ?q = ''Pending''" "map_of (hs_leave_balances sample_filed) (lr_user_sub ?q) = Some default_leave_balance"
    "balance_key (lr_leave_type ?q) = Some ''sick''" "map_of default_leave_balance ''sick'' = Some 10" "lr_days_requested ?q \<le> 10"
    by (simp_all add: pending_request_def sample_filed_eq default_leave_balance_def)
  from revoked_token_approves_over_rest [OF sample_bearer(2) sample_rest_bearer(2) tool revoked
      v [unfolded sample_rest_check_def] sample_hr_context(2) s inv sample_filed_eq(1) q, of 738885 "''now''"]
  show ?thesis by (simp add: sample_hr_check_def sample_rest_check_def pending_request_def)
qed

section \<open>The audience lists\<close>

lemma add_new_audiences: "add_new auds (map py_strip (filter (\<lambda>p. py_strip p \<noteq> []) ps)) = add_audiences auds ps"
  by (induction ps arbitrary: auds) (auto simp: Let_def)

lemma add_audiences_props:
  "distinct auds \<Longrightarrow> distinct (add_audiences auds ps) \<and> prefix auds (add_audiences auds ps)
     \<and> set (add_audiences auds ps) \<subseteq> set auds \<union> py_strip ` set ps"
proof (induction ps arbitrary: auds)
  case Nil
  then show ?case by simp
next
  case (Cons p ps)
  show ?case
  proof (cases "py_strip p = [] \<or> py_strip p \<in> set auds")
    case True
    then show ?thesis using Cons by (auto simp: Let_def)
  next
    case False
    then have "distinct (auds @ [py_strip p])" using Cons.prems by simp
    from Cons.IH [OF this] show ?thesis using False by (auto simp: Let_def prefix_def)
  qed
qed

lemma resolve_eq_build:
  "resolve_rest_audiences aud env
     = build_audiences aud (if py_strip (or_empty env) = [] then None else Some (py_strip (or_empty env)))"
  by (simp add: resolve_rest_audiences_def build_audiences_def audience_cap_def add_new_audiences Let_def)

text \<open>
  The REST validators: for the same expected audience and environment value the two servers
  build the same validator or both refuse to start; a list that is built begins with the expected
  audience, has no duplicates and at most three entries, each the expected one or a trimmed piece
  of the environment value.
\<close>

theorem rest_audiences_capped:
  "hr_rest_validator aud issuer env = it_rest_validator aud issuer env
   \<and> (\<forall>v. hr_rest_validator aud issuer env = Inr v \<longrightarrow>
        rv_issuer v = issuer \<and> hd (rv_audience v) = aud \<and> distinct (rv_audience v) \<and> length (rv_audience v) \<le> 3
        \<and> set (rv_audience v) \<subseteq> insert aud (py_strip ` set (split_all (CHR '','') (py_strip (or_empty env)))))"
proof (intro conjI allI impI)
  show "hr_rest_validator aud issuer env = it_rest_validator aud issuer env"
    by (simp add: hr_rest_validator_def it_rest_validator_def resolve_eq_build Let_def)
next
  fix v
  assume "hr_rest_validator aud issuer env = Inr v"
  then obtain auds where v: "v = new_rest_validator issuer auds" and auds: "resolve_rest_audiences aud env = Inr auds"
    by (cases "resolve_rest_audiences aud env") (auto simp: hr_rest_validator_def)
  let ?ps = "if py_strip (or_empty env) = [] then [] else split_all (CHR '','') (py_strip (or_empty env))"
  have a: "auds = add_audiences [aud] ?ps" "length auds \<le> 3"
    using auds by (auto simp: resolve_eq_build build_audiences_def audience_cap_def Let_def split: if_splits)
  have p: "distinct auds" "prefix [aud] auds" "set auds \<subseteq> insert aud (py_strip ` set ?ps)"
    using add_audiences_props [of "[aud]" ?ps] by (auto simp: a(1))
  show "rv_issuer v = issuer" "distinct (rv_audience v)" "length (rv_audience v) \<le> 3"
    using p(1) a(2) by (simp_all add: v new_rest_validator_def)
  show "hd (rv_audience v) = aud" using p(2) by (auto simp: v new_rest_validator_def prefix_def)
  show "set (rv_audience v) \<subseteq> insert aud (py_strip ` set (split_all (CHR '','') (py_strip (or_empty env))))"
    using p(3) by (auto simp: v new_rest_validator_def split: if_splits)
qed

lemma rest_audiences_capped_witness:
  "hr_rest_validator ''hr'' ''is'' (Some ''spa, hr ,'') = Inr (new_rest_validator ''is'' [''hr'', ''spa''])
   \<and> length (rv_audience (new_rest_validator ''is'' [''hr'', ''spa''])) \<le> 3
   \<and> it_rest_validator ''hr'' ''is'' (Some ''a,b,c'') = Inl (EPy ''ValueError'')"
proof -
  have s: "py_strip ''spa, hr ,'' = ''spa, hr ,''" "py_strip ''spa'' = ''spa''" "py_strip '' hr '' = ''hr''"
    "py_strip ''a,b,c'' = ''a,b,c''" "py_strip ''a'' = ''a''" "py_strip ''b'' = ''b''" "py_strip ''c'' = ''c''"
    "py_strip [] = []"
    by (simp_all add: py_strip_def py_rstrip_def py_lstrip_def py_ws_def)
  have h: "hr_rest_validator ''hr'' ''is'' (Some ''spa, hr ,'') = Inr (new_rest_validator ''is'' [''hr'', ''spa''])"
    by (simp add: hr_rest_validator_def resolve_rest_audiences_def Let_def s)
  have "it_rest_validator ''hr'' ''is'' (Some ''a,b,c'') = Inl (EPy ''ValueError'')"
    by (simp add: it_rest_validator_def build_audiences_def audience_cap_def Let_def s)
  with h rest_audiences_capped [of "''hr''" "''is''" "Some ''spa, hr ,''"] show ?thesis by blast
qed

end
