(* ===== verification/AgentRuns.thy ===== *)
theory AgentRuns
  imports A2AServer
begin

text \<open>
  What holds in every state an agent process reaches: the in-flight states are well
  addressed, an answer waiting to be collected was left by the task of its own consent, and
  a cached token was obtained by a consent asked for exactly its user and scope.
\<close>

section \<open>What a handler does to the process\<close>

text \<open>The caller of a handler: a valid token whose only actor is a trusted orchestrator.\<close>

definition caller_accepted :: "'k token_world \<Rightarrow> a2a_config \<Rightarrow> string option \<Rightarrow> jwks_cache \<Rightarrow> jwt_claims \<Rightarrow> bool" where
  "caller_accepted tw cfg h cache claims \<longleftrightarrow>
     (\<exists>tok cache'. extract_bearer h = Some tok
        \<and> validate (tw_jwt tw) (tw_net tw) (tw_mono tw) (tw_now tw) tok (a2_validator cfg) cache = (Inr claims, cache'))
     \<and> (\<exists>a \<in> a2_trusted_orchestrator_subs cfg. act_chain claims = [a])"

lemma validate_token_and_peer_ok:
  "validate_token_and_peer tw cfg h i cache = (Inr (Inr claims), cache') \<Longrightarrow> caller_accepted tw cfg h cache claims"
  by (auto simp: validate_token_and_peer_def caller_accepted_def validate_chain_depth1 [symmetric]
      split: option.splits prod.splits sum.splits if_splits)

lemma make_error_no_result: "make_error i c d \<noteq> Inr (make_success j r)"
  by (auto simp: make_error_def make_success_def split: option.splits)

lemma validate_token_and_peer_error:
  "validate_token_and_peer tw cfg h i cache = (Inr (Inl r), cache') \<Longrightarrow> \<exists>c d. r = make_error i c d"
  by (auto simp: validate_token_and_peer_def split: option.splits prod.splits sum.splits if_splits)

lemma read_envelope_error: "read_envelope rq = Inl r \<Longrightarrow> \<exists>i c d. r = make_error i c d"
  by (auto simp: read_envelope_def split: option.splits)

text \<open>A send is refused, or its caller is accepted and the dispatcher runs for the caller's subject.\<close>

lemma message_send_cases:
  assumes "message_send disp tw cfg fresh rq s = (r, s')"
  shows "(\<exists>cache'. s' = s\<lparr>ag_cache := cache'\<rparr> \<and> (\<forall>i m. r \<noteq> Inr (make_success i m)))
    \<or> (\<exists>cache' claims (p :: send_params) rid out d' i. caller_accepted tw cfg (rq_authorization rq) (ag_cache s) claims
        \<and> disp (ag_denylist s) (sp_tool p) (sp_args p) (c_sub claims) rid (sp_last_logout_reason p) (ag_disp s) = (out, d')
        \<and> s' = install out (s\<lparr>ag_cache := cache', ag_disp := d'\<rparr>)
        \<and> r = (case do_response out of Inl e \<Rightarrow> Inl e | Inr m \<Rightarrow> Inr (make_success i m)))"
proof (cases "read_envelope rq")
  case (Inl x)
  then show ?thesis using assms read_envelope_error [OF Inl] make_error_no_result
    by (auto simp: message_send_def intro!: exI [of _ "ag_cache s"])
next
  case (Inr rpc)
  show ?thesis
  proof (cases "rr_method rpc = ''message/send''")
    case False
    then show ?thesis using assms Inr make_error_no_result
      by (auto simp: message_send_def intro!: exI [of _ "ag_cache s"])
  next
    case True
    obtain y cache' where v: "validate_token_and_peer tw cfg (rq_authorization rq) (rr_id rpc) (ag_cache s) = (y, cache')"
      by fastforce
    let ?p = "case rr_params rpc of PDict p \<Rightarrow> message_send_params p | _ \<Rightarrow> None"
    show ?thesis
    proof (cases "\<exists>claims p. y = Inr (Inr claims) \<and> ?p = Some p")
      case True
      then obtain claims p where y: "y = Inr (Inr claims)" and p: "?p = Some p" by blast
      obtain out d' where d: "disp (ag_denylist s) (sp_tool p) (sp_args p) (c_sub claims)
          (resolve_request_id fresh rq) (sp_last_logout_reason p) (ag_disp s) = (out, d')" by fastforce
      have "(r, s') = (case do_response out of Inl e \<Rightarrow> Inl e | Inr m \<Rightarrow> Inr (make_success (rr_id rpc) m),
          install out (s\<lparr>ag_cache := cache', ag_disp := d'\<rparr>))"
        using assms Inr \<open>rr_method rpc = ''message/send''\<close> v y p d
        by (simp add: message_send_def Let_def ag_denylist_def)
      then show ?thesis using validate_token_and_peer_ok [OF v [unfolded y]] d
        by (intro disjI2 exI [of _ cache'] exI [of _ claims] exI [of _ p] exI [of _ "resolve_request_id fresh rq"]
            exI [of _ out] exI [of _ d'] exI [of _ "rr_id rpc"] conjI) simp_all
    next
      case False
      have "s' = s\<lparr>ag_cache := cache'\<rparr>" "\<forall>i m. r \<noteq> Inr (make_success i m)"
        using assms Inr \<open>rr_method rpc = ''message/send''\<close> v False make_error_no_result
        by (auto simp: message_send_def Let_def split: sum.splits option.splits dest!: validate_token_and_peer_error)
      then show ?thesis by blast
    qed
  qed
qed

lemma message_send_accepted:
  assumes "read_envelope rq = Inr rpc" "rr_method rpc = ''message/send''"
    and "validate_token_and_peer tw cfg (rq_authorization rq) (rr_id rpc) (ag_cache s) = (Inr (Inr claims), cache')"
    and "rr_params rpc = PDict p0" "message_send_params p0 = Some p"
    and "disp (ag_denylist s) (sp_tool p) (sp_args p) (c_sub claims) (resolve_request_id fresh rq)
      (sp_last_logout_reason p) (ag_disp s) = (out, d')"
  shows "message_send disp tw cfg fresh rq s
    = (case do_response out of Inl e \<Rightarrow> Inl e | Inr m \<Rightarrow> Inr (make_success (rr_id rpc) m),
       install out (s\<lparr>ag_cache := cache', ag_disp := d'\<rparr>))"
  using assms by (simp add: message_send_def Let_def ag_denylist_def)

text \<open>An await request and a cancel: what they change, and for whom.\<close>

lemma await_begin_cases:
  assumes "await_begin tw cfg rq s = (r, s')"
  shows "(\<exists>cache'. s' = s\<lparr>ag_cache := cache'\<rparr>) \<and> (\<forall>wt. r \<noteq> Inr wt)
    \<or> (\<exists>cache' claims wt. caller_accepted tw cfg (rq_authorization rq) (ag_cache s) claims
        \<and> ag_pending s (wt_auth_req_id wt) = Some (wt_state wt) \<and> r = Inr wt
        \<and> s' = s\<lparr>ag_cache := cache', ag_waiters := wt # ag_waiters s\<rparr>)"
proof -
  have self: "\<exists>cache'. s = s\<lparr>ag_cache := cache'\<rparr>" by (rule exI [of _ "ag_cache s"]) simp
  then show ?thesis using assms
    by (auto simp: await_begin_def Let_def split: sum.splits prod.splits option.splits dest: validate_token_and_peer_ok)
qed

lemma a2a_cancel_cases:
  assumes "a2a_cancel tw cfg rq s = (r, s')"
  shows "(\<exists>cache'. s' = s\<lparr>ag_cache := cache'\<rparr>)
    \<or> (\<exists>cache' claims a i. caller_accepted tw cfg (rq_authorization rq) (ag_cache s) claims
        \<and> ag_pending s a = Some i
        \<and> s' = s\<lparr>ag_cache := cache', ag_states := (ag_states s)[i := (ag_states s ! i)\<lparr>pd_cancel := True\<rparr>]\<rparr>)"
proof -
  have self: "\<exists>cache'. s = s\<lparr>ag_cache := cache'\<rparr>" by (rule exI [of _ "ag_cache s"]) simp
  then show ?thesis using assms
    by (auto simp: a2a_cancel_def Let_def split: sum.splits prod.splits option.splits dest!: validate_token_and_peer_ok)
qed

lemma install_fields [simp]:
  "ag_disp (install out s) = ag_disp s" "ag_events (install out s) = ag_events s" "ag_waiters (install out s) = ag_waiters s"
  "ag_cache (install out s) = ag_cache s"
  by (auto simp: install_def Let_def split: option.split prod.split)

lemma install_started:
  assumes "do_started out = Some (st, job)"
  shows "ag_states (install out s) = ag_states s @ [st]" "ag_jobs (install out s) = (length (ag_states s), job) # ag_jobs s"
    "ag_pending (install out s) a = Some i \<Longrightarrow>
       ag_pending s a = Some i \<or> (i = length (ag_states s) \<and> pd_auth_req_id st = PStr a)"
  using assms by (auto simp: install_def Let_def split: bool.splits py.splits if_splits)

lemma job_end_cases:
  assumes "job_end lib deps w (i, job) s = Some s'"
  obtains st d' where "run_to_completion lib deps w job (ag_states s ! i) (ag_disp s) = Some (st, d')"
    "s' = s\<lparr>ag_states := (ag_states s)[i := st], ag_disp := d', ag_jobs := remove1 (i, job) (ag_jobs s)\<rparr>"
  using assms by (auto simp: job_end_def)

lemma agent_event_cases:
  assumes "agent_event body host secret now s = (a, s')"
  shows "\<exists>r d. s' = s\<lparr>ag_events := r, ag_disp := d\<rparr> \<and> (d = ag_disp s \<or> d = revoke_jti (ev_jti body) (ag_disp s))"
proof -
  obtain b r d where e: "receive_event (Some on_revoke) body host secret now (ag_events s) (ag_disp s) = (b, r, d)"
    by (metis prod_cases3)
  then have "d = ag_disp s \<or> d = revoke_jti (ev_jti body) (ag_disp s)"
    by (auto simp: receive_event_def Let_def on_revoke_def split: prod.splits if_splits option.splits)
  moreover have "s' = s\<lparr>ag_events := r, ag_disp := d\<rparr>" using assms e by (simp add: agent_event_def)
  ultimately show ?thesis by blast
qed

section \<open>The invariant\<close>

definition in_flight :: "pending_state list \<Rightarrow> nat \<Rightarrow> string \<Rightarrow> bool" where
  "in_flight sts i a = (i < length sts \<and> pd_auth_req_id (sts ! i) = PStr a)"

text \<open>A consent the identity server was asked for in some send of the trace.\<close>

definition requested :: "agent_setup \<Rightarrow> label list \<Rightarrow> dispatch_job \<Rightarrow> bool" where
  "requested su tr job \<longleftrightarrow> (\<exists>w. LSend w \<in> set tr \<and> asked (su_deps su) w (jb_cache_key job) (jb_request job))"

text \<open>The result and error of a state are those some finished task of its own request left.\<close>

definition left_by_task :: "agent_setup \<Rightarrow> label list \<Rightarrow> pending_state \<Rightarrow> bool" where
  "left_by_task su tr st \<longleftrightarrow>
     (\<exists>job w st0 d0 st1 d1. LJob job w \<in> set tr \<and> requested su tr job
        \<and> cr_auth_req_id (jb_request job) = pd_auth_req_id st
        \<and> run_to_completion (su_lib su) (su_deps su) w job st0 d0 = Some (st1, d1)
        \<and> pd_result st = pd_result st1 \<and> pd_error st = pd_error st1)"

text \<open>A cached token: the poll of a consent asked for that user and scope returned it.\<close>

definition consented :: "agent_setup \<Rightarrow> label list \<Rightarrow> cache_key \<Rightarrow> cached_token \<Rightarrow> bool" where
  "consented su tr key c \<longleftrightarrow>
     (\<exists>job w ts. LJob job w \<in> set tr \<and> requested su tr job \<and> jb_cache_key job = key
        \<and> poll_for_token (dd_ciba (su_deps su)) (rw_poll w) (rw_start w) (jb_request job)
            (Some (dd_max_poll_seconds (su_deps su))) = Some (Inr (ct_token c), ts)
        \<and> ct_expires_at c = expires_at (ct_token c))"

definition addresses_ok :: "agent_state \<Rightarrow> bool" where
  "addresses_ok s \<longleftrightarrow>
     (\<forall>a i. ag_pending s a = Some i \<longrightarrow> in_flight (ag_states s) i a)
     \<and> (\<forall>wt \<in> set (ag_waiters s). in_flight (ag_states s) (wt_state wt) (wt_auth_req_id wt))"

definition jobs_ok :: "agent_setup \<Rightarrow> label list \<Rightarrow> (nat \<times> dispatch_job) list \<Rightarrow> pending_state list \<Rightarrow> bool" where
  "jobs_ok su tr jobs sts \<longleftrightarrow>
     distinct (map fst jobs)
     \<and> (\<forall>i job. (i, job) \<in> set jobs \<longrightarrow> i < length sts \<and> pd_auth_req_id (sts ! i) = cr_auth_req_id (jb_request job)
          \<and> requested su tr job)
     \<and> (\<forall>i < length sts. if pd_completion (sts ! i) then left_by_task su tr (sts ! i) else i \<in> fst ` set jobs)"

definition cache_ok :: "agent_setup \<Rightarrow> label list \<Rightarrow> dispatcher \<Rightarrow> bool" where
  "cache_ok su tr d \<longleftrightarrow> dp_attached d \<and> (\<forall>key c. dp_token_cache d key = Some c \<longrightarrow> consented su tr key c)"

definition agent_inv :: "agent_setup \<Rightarrow> label list \<Rightarrow> agent_state \<Rightarrow> bool" where
  "agent_inv su tr s \<longleftrightarrow> addresses_ok s \<and> jobs_ok su tr (ag_jobs s) (ag_states s) \<and> cache_ok su tr (ag_disp s)"

lemma requested_mono: "requested su tr job \<Longrightarrow> requested su (l # tr) job"
  by (auto simp: requested_def)

lemma left_by_task_mono: "left_by_task su tr st \<Longrightarrow> left_by_task su (l # tr) st"
  unfolding left_by_task_def using requested_mono by (meson list.set_intros(2))

lemma consented_mono: "consented su tr key c \<Longrightarrow> consented su (l # tr) key c"
  unfolding consented_def by (metis list.set_intros(2) requested_mono)

lemma jobs_ok_mono: "jobs_ok su tr jobs sts \<Longrightarrow> jobs_ok su (l # tr) jobs sts"
  by (auto simp: jobs_ok_def requested_mono left_by_task_mono)

lemma cache_ok_mono:
  "cache_ok su tr d \<Longrightarrow> dp_attached d' = dp_attached d \<Longrightarrow>
     (\<And>key c. dp_token_cache d' key = Some c \<Longrightarrow> dp_token_cache d key = Some c) \<Longrightarrow> cache_ok su (l # tr) d'"
  by (simp add: cache_ok_def consented_mono)

lemma cache_ok_same: "cache_ok su tr d \<Longrightarrow> cache_ok su (l # tr) d"
  by (rule cache_ok_mono) simp_all

text \<open>Setting a state's cancel event, and finishing its task.\<close>

lemma in_flight_update:
  "pd_auth_req_id x = pd_auth_req_id (sts ! i) \<Longrightarrow> in_flight (sts[i := x]) j a \<longleftrightarrow> in_flight sts j a"
  by (cases "i = j") (auto simp: in_flight_def)

lemma jobs_ok_cancel:
  assumes "jobs_ok su tr jobs sts"
  shows "jobs_ok su (l # tr) jobs (sts[i := (sts ! i)\<lparr>pd_cancel := True\<rparr>])"
proof -
  have *: "left_by_task su tr (st\<lparr>pd_cancel := True\<rparr>) = left_by_task su tr st" for tr st
    by (simp add: left_by_task_def)
  show ?thesis
  proof (cases "i < length sts")
    case True
    then show ?thesis using jobs_ok_mono [OF assms, of l]
      by (simp add: jobs_ok_def nth_list_update *)
  next
    case False
    then show ?thesis using jobs_ok_mono [OF assms, of l] by (simp add: list_update_beyond)
  qed
qed

lemma jobs_ok_finish:
  assumes "jobs_ok su tr jobs sts" and "(i, job) \<in> set jobs"
    and "run_to_completion (su_lib su) (su_deps su) w job (sts ! i) d = Some (st, d')"
  shows "jobs_ok su (LJob job w # tr) (remove1 (i, job) jobs) (sts[i := st])"
proof -
  note m = jobs_ok_mono [OF assms(1), of "LJob job w"]
  have i: "i < length sts" "pd_auth_req_id (sts ! i) = cr_auth_req_id (jb_request job)" "requested su (LJob job w # tr) job"
    and d: "distinct (map fst jobs)"
    using m assms(2) by (auto simp: jobs_ok_def)
  have st: "pd_completion st" "pd_auth_req_id st = pd_auth_req_id (sts ! i)"
    using run_to_completion_state [OF assms(3)] by simp_all
  have "left_by_task su (LJob job w # tr) st"
    unfolding left_by_task_def using i assms(3) st(2) by (metis list.set_intros(1))
  moreover have "distinct jobs" using d by (simp add: distinct_map)
  then have r: "set (remove1 (i, job) jobs) = set jobs - {(i, job)}" by simp
  moreover have "k \<in> fst ` (set jobs - {(i, job)})" if "k \<in> fst ` set jobs" "k \<noteq> i" for k
    using that by force
  moreover have "distinct (map fst (remove1 (i, job) jobs))"
    using d by (metis distinct_map distinct_remove1 inj_on_subset set_remove1_subset)
  ultimately show ?thesis using m st i
    by (auto simp: jobs_ok_def nth_list_update)
qed

lemma jobs_ok_start:
  assumes "jobs_ok su tr jobs sts" and "requested su (l # tr) job"
    and "pd_auth_req_id st = cr_auth_req_id (jb_request job)" and "\<not> pd_completion st"
  shows "jobs_ok su (l # tr) ((length sts, job) # jobs) (sts @ [st])"
proof -
  note m = jobs_ok_mono [OF assms(1), of l]
  have "length sts \<notin> fst ` set jobs" using m by (fastforce simp: jobs_ok_def)
  then show ?thesis using m assms
    by (auto simp: jobs_ok_def nth_append less_Suc_eq)
qed

section \<open>Preservation\<close>

lemma inv_frame:
  assumes "agent_inv su tr s" and "ag_pending s' = ag_pending s" "ag_waiters s' = ag_waiters s" "ag_states s' = ag_states s"
    "ag_jobs s' = ag_jobs s" "dp_attached (ag_disp s') = dp_attached (ag_disp s)"
    "\<And>key c. dp_token_cache (ag_disp s') key = Some c \<Longrightarrow> dp_token_cache (ag_disp s) key = Some c"
  shows "agent_inv su (l # tr) s'"
  using assms jobs_ok_mono cache_ok_mono [of su tr "ag_disp s" "ag_disp s'" l]
  by (simp add: agent_inv_def addresses_ok_def)

lemma in_flight_append: "in_flight sts i a \<Longrightarrow> in_flight (sts @ [st]) i a"
  by (simp add: in_flight_def nth_append)

lemma inv_send:
  assumes inv: "agent_inv su tr s"
    and send: "message_send (agent_dispatch su w) (tw :: 'k token_world) (su_config su) fresh rq s = (r, s')"
  shows "agent_inv su (LSend w # tr) s'"
  using message_send_cases [OF send]
proof (elim disjE exE conjE)
  fix cache'
  assume "s' = s\<lparr>ag_cache := cache'\<rparr>"
  then show ?thesis using inv by (auto intro: inv_frame)
next
  fix cache' :: jwks_cache and claims :: jwt_claims and p :: send_params and rid out d' i
  assume d: "agent_dispatch su w (ag_denylist s) (sp_tool p) (sp_args p) (c_sub claims) rid
      (sp_last_logout_reason p) (ag_disp s) = (out, d')"
    and s': "s' = install out (s\<lparr>ag_cache := cache', ag_disp := d'\<rparr>)"
  note disp = d [unfolded agent_dispatch_def]
  note cache = dispatch_cache [OF disp]
  show ?thesis
  proof (cases "do_started out")
    case None
    then have "s' = s\<lparr>ag_cache := cache', ag_disp := d'\<rparr>" using s' by (simp add: install_def)
    then show ?thesis using inv cache by (auto intro: inv_frame)
  next
    case (Some sj)
    obtain st job where sj: "sj = (st, job)" by (cases sj)
    from dispatch_started [OF disp] Some sj
    have st: "asked (su_deps su) w (jb_cache_key job) (jb_request job)"
      "st = new_pending_state (cr_auth_req_id (jb_request job)) rid (dw_initiated_at w)" by auto
    have "jobs_ok su (LSend w # tr) ((length (ag_states s), job) # ag_jobs s) (ag_states s @ [st])"
    proof (rule jobs_ok_start)
      show "jobs_ok su tr (ag_jobs s) (ag_states s)" using inv by (simp add: agent_inv_def)
      show "requested su (LSend w # tr) job" using st(1) by (auto simp: requested_def)
    qed (simp_all add: st(2) new_pending_state_def)
    moreover have "cache_ok su (LSend w # tr) d'"
      using inv cache by (auto simp: agent_inv_def intro: cache_ok_mono)
    moreover have "in_flight (ag_states s @ [st]) j a" if "ag_pending s' a = Some j" for a j
    proof -
      from that s' install_started(3) [OF Some [unfolded sj]]
      have "ag_pending s a = Some j \<or> (j = length (ag_states s) \<and> pd_auth_req_id st = PStr a)" by fastforce
      then show ?thesis
      proof
        assume "ag_pending s a = Some j"
        then show ?thesis using inv by (simp add: agent_inv_def addresses_ok_def in_flight_append)
      qed (simp add: in_flight_def)
    qed
    moreover have "in_flight (ag_states s @ [st]) (wt_state wt) (wt_auth_req_id wt)" if "wt \<in> set (ag_waiters s')" for wt
      using that inv s' by (simp add: agent_inv_def addresses_ok_def in_flight_append)
    ultimately show ?thesis using install_started(1,2) [OF Some [unfolded sj]] s'
      by (simp add: agent_inv_def addresses_ok_def)
  qed
qed

lemma inv_job:
  assumes inv: "agent_inv su tr s" and "(i, job) \<in> set (ag_jobs s)"
    and "job_end (su_lib su) (su_deps su) w (i, job) s = Some s'"
  shows "agent_inv su (LJob job w # tr) s'"
  using assms(3)
proof (rule job_end_cases)
  fix st d'
  assume r: "run_to_completion (su_lib su) (su_deps su) w job (ag_states s ! i) (ag_disp s) = Some (st, d')"
    and s': "s' = s\<lparr>ag_states := (ag_states s)[i := st], ag_disp := d', ag_jobs := remove1 (i, job) (ag_jobs s)\<rparr>"
  have j: "jobs_ok su tr (ag_jobs s) (ag_states s)" and c: "cache_ok su tr (ag_disp s)"
    using inv by (simp_all add: agent_inv_def)
  have req: "requested su (LJob job w # tr) job"
    using j assms(2) by (auto simp: jobs_ok_def requested_mono)
  have "consented su (LJob job w # tr) key x" if "dp_token_cache d' key = Some x" for key x
  proof (cases "dp_token_cache (ag_disp s) key = Some x")
    case True
    then show ?thesis using c by (auto simp: cache_ok_def consented_mono simp del: split_paired_All)
  next
    case False
    from run_to_completion_cache [OF r that False] show ?thesis
      unfolding consented_def using req by (metis list.set_intros(1))
  qed
  moreover have "dp_attached d'" using run_to_completion_attached [OF r] c by (simp add: cache_ok_def)
  ultimately have "cache_ok su (LJob job w # tr) d'" by (simp add: cache_ok_def)
  then show ?thesis
    using inv jobs_ok_finish [OF j assms(2) r] run_to_completion_state(2) [OF r] s'
    by (simp add: agent_inv_def addresses_ok_def in_flight_update)
qed

lemma inv_step:
  assumes "agent_inv su tr s" and "agent_step su K s l s'"
  shows "agent_inv su (l # tr) s'"
  using assms(2)
proof cases
  case (send w tw fresh rq r)
  then show ?thesis using inv_send [OF assms(1)] by blast
next
  case (await_request tw rq r)
  from await_begin_cases [OF await_request(2)] show ?thesis
  proof (elim disjE exE conjE)
    fix cache'
    assume "s' = s\<lparr>ag_cache := cache'\<rparr>"
    then show ?thesis using assms(1) by (auto intro: inv_frame)
  next
    fix cache' wt
    assume "ag_pending s (wt_auth_req_id wt) = Some (wt_state wt)"
      "s' = s\<lparr>ag_cache := cache', ag_waiters := wt # ag_waiters s\<rparr>"
    then show ?thesis using assms(1) jobs_ok_mono cache_ok_same
      by (auto simp: agent_inv_def addresses_ok_def)
  qed
next
  case (await_wake wt timed_out r)
  then have "s' = s\<lparr>ag_pending := (ag_pending s)(wt_auth_req_id wt := None), ag_waiters := remove1 wt (ag_waiters s)\<rparr>"
    by (simp add: await_end_def Let_def)
  then show ?thesis using assms(1) jobs_ok_mono cache_ok_same
    by (auto simp: agent_inv_def addresses_ok_def dest: notin_set_remove1)
next
  case (cancel tw rq r)
  from a2a_cancel_cases [OF cancel(2)] show ?thesis
  proof (elim disjE exE conjE)
    fix cache'
    assume "s' = s\<lparr>ag_cache := cache'\<rparr>"
    then show ?thesis using assms(1) by (auto intro: inv_frame)
  next
    fix cache' a i
    assume "s' = s\<lparr>ag_cache := cache', ag_states := (ag_states s)[i := (ag_states s ! i)\<lparr>pd_cancel := True\<rparr>]\<rparr>"
    then show ?thesis using assms(1) jobs_ok_cancel cache_ok_same
      by (simp add: agent_inv_def addresses_ok_def in_flight_update)
  qed
next
  case (job i job w)
  then show ?thesis using inv_job [OF assms(1)] by blast
next
  case (event body host secret now a)
  from agent_event_cases [OF event(2)] obtain r d where
    s': "s' = s\<lparr>ag_events := r, ag_disp := d\<rparr>" and d: "d = ag_disp s \<or> d = revoke_jti (ev_jti body) (ag_disp s)" by blast
  have "dp_attached d = dp_attached (ag_disp s)" using d by (auto simp: revoke_jti_cache(2))
  moreover have "dp_token_cache d key = Some c \<Longrightarrow> dp_token_cache (ag_disp s) key = Some c" for key c
    using d by (auto dest: revoke_jti_cache(1))
  ultimately show ?thesis using s' by (intro inv_frame [OF assms(1)]) simp_all
next
  case (sweep now)
  then have "ag_disp s' = ag_disp s" by (auto simp: agent_sweep_def Let_def)
  moreover have "ag_pending s' = ag_pending s" "ag_waiters s' = ag_waiters s" "ag_states s' = ag_states s" "ag_jobs s' = ag_jobs s"
    using sweep by (auto simp: agent_sweep_def Let_def)
  ultimately show ?thesis by (intro inv_frame [OF assms(1)]) simp_all
qed

lemma inv_new: "new_agent cache secret = Inr s \<Longrightarrow> agent_inv su [] s"
  by (auto simp: new_agent_def agent_inv_def addresses_ok_def jobs_ok_def cache_ok_def new_dispatcher_def
      disp_attach_revocation_def split: sum.splits)

lemma inv_run:
  "agent_run su K s0 tr s \<Longrightarrow> new_agent cache secret = Inr s0 \<Longrightarrow> agent_inv su tr s"
  by (induction rule: agent_run.induct) (auto intro: inv_new inv_step)

end
