(* ===== verification/AgentProps.thy ===== *)
theory AgentProps
  imports BindingMessages Ciba ActorToken
begin

text \<open>
  The properties of the consent polling and of the actor token provider, with the sample
  worlds of their witnesses.
\<close>

section \<open>Polling\<close>

lemma interval_count:
  assumes "1 \<le> (i :: int)" and "0 \<le> budget"
  shows "(now + budget) - now \<le> real (nat \<lceil>budget / of_int i\<rceil>) * of_int i" and "0 \<le> \<lceil>budget / of_int i\<rceil>"
proof -
  have i: "1 \<le> real_of_int i" using assms(1) by simp
  have "0 \<le> budget / of_int i" using assms(2) i by simp
  then show k: "0 \<le> \<lceil>budget / of_int i\<rceil>" by (metis ceiling_mono ceiling_zero)
  have "budget / of_int i \<le> real (nat \<lceil>budget / of_int i\<rceil>)" using k by (simp add: of_nat_nat)
  then show "(now + budget) - now \<le> real (nat \<lceil>budget / of_int i\<rceil>) * of_int i" using i by (simp add: pos_divide_le_eq)
qed

lemma poll_returns_bounded:
  assumes "fair_world w" and "1 \<le> cr_interval_s req" and "0 \<le> budget"
  shows "\<exists>r ts. poll_for_token cfg w now req (Some budget) = Some (r, ts)
     \<and> int (length ts) \<le> \<lceil>budget / of_int (cr_interval_s req)\<rceil> \<and> list_all (\<lambda>s. now \<le> s \<and> s < now + budget) ts"
proof -
  note k = interval_count(1) [OF assms(2,3), of now] interval_count(2) [OF assms(2,3)]
  from poll_loop_returns [OF assms(1,2) k(1), of 1] obtain r ts where
    p: "poll_loop w (now + budget) 1 (cr_interval_s req) now = Some (r, ts)"
      "length ts \<le> nat \<lceil>budget / of_int (cr_interval_s req)\<rceil>" by blast
  from poll_loop_sends [OF assms(1,2) p(1)] have "list_all (\<lambda>s. now \<le> s \<and> s < now + budget) ts"
    by (auto simp: list_all_iff)
  with p k(2) show ?thesis by (auto simp: poll_for_token_def Let_def le_nat_iff)
qed

lemma poll_for_token_same:
  assumes "fair_world w" and "1 \<le> cr_interval_s req" and "0 \<le> budget"
    and "same_polls 1 (nat \<lceil>budget / of_int (cr_interval_s req)\<rceil>) w w'"
  shows "poll_for_token cfg w' now req (Some budget) = poll_for_token cfg w now req (Some budget)"
  using poll_loop_same [OF assms(1,2) interval_count(1) [OF assms(2,3), of now] assms(4)] by (simp add: poll_for_token_def)

text \<open>
  C34. A poll returns: with an interval of at least a second, and a clock that does not run
  backwards, it ends after at most as many requests as intervals fit into the budget, with
  a token or an exception.
\<close>

theorem poll_terminates:
  assumes "fair_world w" and "1 \<le> cr_interval_s req" and "0 \<le> budget"
  shows "\<exists>r ts. poll_for_token cfg w now req (Some budget) = Some (r, ts)
     \<and> int (length ts) \<le> \<lceil>budget / of_int (cr_interval_s req)\<rceil>"
  using poll_returns_bounded [OF assms, of cfg now] by blast

definition sample_poll :: poll_world where
  "sample_poll = \<lparr>pw_cancelled = \<lambda>n. False,
     pw_reply = \<lambda>n. if n = 1 then PollBody (PDict [(''error'', PStr ''authorization_pending'')])
       else if n = 2 then PollBody (PDict [(''error'', PStr ''slow_down'')])
       else PollBody (PDict [(''access_token'', PStr ''tb''), (''expires_in'', PInt 3600)]),
     pw_post_time = \<lambda>n. 0, pw_oversleep = \<lambda>n. 0\<rparr>"

definition sample_request :: ciba_request where
  "sample_request = \<lparr>cr_auth_req_id = PStr ''q1'', cr_auth_url = PStr ''url'', cr_interval_s = 2, cr_expires_in_s = 120,
     cr_issued_at = 1000\<rparr>"

definition sample_polled :: oauth_token where
  "sample_polled = \<lparr>access_token = PStr ''tb'', token_type = PStr ''Bearer'', expires_in = 3600, expires_at = 4609,
     refresh_token = PNone, token_scope = PStr [], id_token = PNone\<rparr>"

lemma sample_poll_run:
  "poll_for_token (new_ciba_client_config ''is'') sample_poll 1000 sample_request (Some 300)
     = Some (Inr sample_polled, [1000, 1002, 1009])"
proof -
  have s3: "poll_loop sample_poll 1300 3 7 1009 = Some (Inr sample_polled, [1009])"
    by (subst poll_loop.simps)
       (simp add: sample_poll_def poll_step_def body_of_def from_response_def pyget_or_def sample_polled_def)
  have s2: "poll_loop sample_poll 1300 2 2 1002 = Some (Inr sample_polled, [1002, 1009])"
    using s3 by (subst poll_loop.simps)
       (simp add: sample_poll_def poll_step_def body_of_def sleep_time_def numeral_3_eq_3 numeral_2_eq_2)
  show ?thesis
    unfolding poll_for_token_def Let_def
    using s2 by (subst poll_loop.simps)
       (simp add: sample_poll_def poll_step_def body_of_def sleep_time_def sample_request_def numeral_2_eq_2)
qed

lemma sample_poll_fair: "fair_world sample_poll"
  by (simp add: fair_world_def sample_poll_def)

lemma poll_terminates_witness:
  "\<exists>r ts. poll_for_token (new_ciba_client_config ''is'') sample_poll 1000 sample_request (Some 300) = Some (r, ts)
     \<and> int (length ts) \<le> 150"
  using poll_terminates [OF sample_poll_fair, of sample_request 300 "new_ciba_client_config ''is''" 1000]
  by (simp add: sample_request_def)

text \<open>
  A poll keeps its pace: every request is sent before the deadline, the gap after each is at least the interval plus five seconds for every slow-down answered so far, and
  no request is sent from the moment the cancel event is seen.
\<close>

theorem poll_pace:
  assumes "fair_world w" and "1 \<le> cr_interval_s req" and "poll_for_token cfg w now req (Some budget) = Some (r, ts)"
  shows "list_all (\<lambda>s. now \<le> s \<and> s < now + budget) ts
    \<and> (\<forall>i. Suc i < length ts \<longrightarrow>
         ts ! i + of_int (cr_interval_s req + (\<Sum>k \<le> i. backoff (pw_reply w (Suc k)))) \<le> ts ! Suc i)
    \<and> (\<forall>i < length ts. \<not> pw_cancelled w (Suc i))"
proof -
  have p: "poll_loop w (now + budget) 1 (cr_interval_s req) now = Some (r, ts)"
    using assms(3) by (simp add: poll_for_token_def)
  from poll_loop_sends [OF assms(1,2) p] poll_loop_backoff [OF assms(1,2) p] show ?thesis
    by (auto simp: list_all_iff)
qed

lemma poll_pace_witness:
  "list_all (\<lambda>s. 1000 \<le> s \<and> s < 1000 + 300) [1000, 1002, 1009 :: real]
    \<and> (1002 :: real) + of_int (2 + (\<Sum>k \<le> 1. backoff (pw_reply sample_poll (Suc k)))) \<le> 1009"
proof -
  have "1 \<le> cr_interval_s sample_request" by (simp add: sample_request_def)
  from poll_pace [OF sample_poll_fair this sample_poll_run] show ?thesis
    by (auto simp: sample_request_def dest: spec [of _ 1])
qed

text \<open>
  The outcome of a poll is the answer to its last request: a token only from an answer
  that carries one, a denial and an expiry only from the corresponding error, and every
  earlier answer was pending, a slow-down or a network error.
\<close>

theorem poll_outcome:
  assumes "poll_for_token cfg w now req max_wait = Some (r, ts)"
  shows "list_all (\<lambda>k. waits (pw_reply w (Suc k))) [0..<length ts - 1]
    \<and> (\<forall>tok. r = Inr tok \<longrightarrow> (\<exists>b. pw_reply w (length ts) = PollBody (PDict b)
          \<and> truthy (pyget b ''access_token'') \<and> access_token tok = pyget b ''access_token''))
    \<and> (r = Inl (raise_default CIBADeniedError) \<longrightarrow>
          (\<exists>b. pw_reply w (length ts) = PollBody (PDict b) \<and> pyget b ''error'' = PStr ''access_denied'')
          \<or> pw_reply w (length ts) = PollRaised (raise_default CIBADeniedError))
    \<and> (r = Inl (raise_default CIBAExpiredError) \<longrightarrow>
          (\<exists>b. pw_reply w (length ts) = PollBody (PDict b) \<and> pyget b ''error'' = PStr ''expired_token'')
          \<or> pw_reply w (length ts) = PollRaised (raise_default CIBAExpiredError))"
proof -
  obtain d where p: "poll_loop w d 1 (cr_interval_s req) now = Some (r, ts)"
    using assms by (simp add: poll_for_token_def Let_def split: option.splits)
  from poll_loop_outcome [OF p] show ?thesis
  proof (elim disjE exE conjE)
    fix m i t
    assume a: "length ts = Suc m" "\<forall>k<m. waits (pw_reply w (1 + k))" "poll_step (pw_reply w (1 + m)) i t = Inl r"
    then have s: "poll_step (pw_reply w (length ts)) i t = Inl r" by simp
    have "access_token tok = pyget b ''access_token''" if "from_response b t = Inr tok" for b tok
      using that by (auto simp: from_response_def pyget_def split: option.splits sum.splits)
    moreover have "from_response b t \<noteq> Inl (raise_default cl)" for b cl
      by (auto simp: from_response_def dest: py_int_error split: option.splits sum.splits)
    ultimately show ?thesis using s a(1,2)
      by (auto simp: poll_step_def body_of_def Let_def list_all_iff
          split: poll_reply.splits py.splits if_splits)
  next
    assume "r = Inl (raise_default CIBATimeoutError)" "\<forall>k<length ts. waits (pw_reply w (1 + k))"
    then show ?thesis by (auto simp: list_all_iff)
  qed
qed

lemma poll_outcome_witness:
  "\<exists>b. pw_reply sample_poll 3 = PollBody (PDict b) \<and> access_token sample_polled = pyget b ''access_token''"
  using poll_outcome [OF sample_poll_run] by (simp add: numeral_3_eq_3) blast

section \<open>The actor token\<close>

text \<open>
  Minting sends the agent's credentials to at most four authenticators, and, as long as
  every answer that lists authenticators offers a local one, only to local authenticators
  of those answers, never to a federated one.
\<close>

theorem credentials_stay_local:
  assumes "\<And>body. mw_authorize w (mw_challenge w) = Inr body \<Longrightarrow> offers_local body"
    and "\<And>n flow_id i body. mw_authn w n flow_id i = Inr body \<Longrightarrow> offers_local body"
  shows "length (snd (mint w)) \<le> 4
    \<and> (\<forall>i \<in> set (snd (mint w)).
        (\<exists>body. mw_authorize w (mw_challenge w) = Inr body \<and> local_id body i)
        \<or> (\<exists>n flow_id c body. mw_authn w n flow_id c = Inr body \<and> local_id body i))"
proof -
  have "(\<exists>body. mw_authorize w (mw_challenge w) = Inr body \<and> local_id body j)
      \<or> (\<exists>n flow_id c body. mw_authn w n flow_id c = Inr body \<and> local_id body j)"
    if "j \<in> set (snd (obtain_code w))" for j
    using obtain_code_loop [of w]
  proof (elim disjE exE conjE)
    assume "snd (obtain_code w) = []"
    then show ?thesis using that by simp
  next
    fix body flow_id v i
    assume b: "mw_authorize w (mw_challenge w) = Inr body" "sub_get body ''nextStep'' ''authenticators'' = Inr v"
      "pick_local_basic_authenticator v = Inr i" "truthy i"
      and l: "obtain_code w = authn_loop (\<lambda>n i. mw_authn w n flow_id i) max_authn_steps 0 i"
    have "local_id body i" using pick_offered [OF assms(1) [OF b(1)] b(2-4)] .
    moreover have "j \<in> set (snd (authn_loop (\<lambda>n i. mw_authn w n flow_id i) max_authn_steps 0 i))" using that l by simp
    then have "j = i \<or> (\<exists>n c body. mw_authn w n flow_id c = Inr body \<and> local_id body j)"
      by (rule authn_loop_local [rotated]) (rule assms(2))
    ultimately show ?thesis using b(1) by blast
  qed
  then show ?thesis using mint_sends_few [of w] by (simp add: mint_sent max_authn_steps_def)
qed

definition sample_authenticators :: py where
  "sample_authenticators = PDict [(''authenticators'', PList
     [PDict [(''idp'', PStr ''UAEPass''), (''authenticatorId'', PStr ''fed''), (''authenticator'', PStr ''OIDC'')],
      PDict [(''idp'', PStr ''LOCAL''), (''authenticatorId'', PStr ''basic''), (''authenticator'', PStr ''Basic'')]])]"

definition sample_mint :: mint_world where
  "sample_mint = \<lparr>mw_verifier = ''v'', mw_challenge = ''ch'',
     mw_authorize = \<lambda>_. Inr (PDict [(''flowId'', PStr ''f1''), (''nextStep'', sample_authenticators)]),
     mw_authn = \<lambda>n f i. Inr (PDict [(''authData'', PDict [(''code'', PStr ''c1'')])]),
     mw_exchange = \<lambda>c v. Inr \<lparr>access_token = PStr ''at'', token_type = PStr ''Bearer'', expires_in = 3600,
        expires_at = 4600, refresh_token = PNone, token_scope = PStr [], id_token = PNone\<rparr>,
     mw_done = 1000\<rparr>"

definition sample_actor_token :: oauth_token where
  "sample_actor_token = \<lparr>access_token = PStr ''at'', token_type = PStr ''Bearer'', expires_in = 3600,
        expires_at = 1010, refresh_token = PNone, token_scope = PStr [], id_token = PNone\<rparr>"

lemma sample_mint_run: "mint sample_mint = (Inr sample_actor_token, [PStr ''basic''])"
  by (simp add: mint_def obtain_code_def sample_mint_def obj_get_def sub_get_def or_dict_def sample_authenticators_def
      pick_local_basic_authenticator_def py_in_def prefix_def max_authn_steps_def authn_step_def
      has_len_def cap_expiry_def actor_token_cache_max_ttl_seconds_def sample_actor_token_def numeral_eq_Suc)

lemma credentials_stay_local_witness:
  "length (snd (mint sample_mint)) \<le> 4 \<and> snd (mint sample_mint) = [PStr ''basic'']"
proof -
  have "length (snd (mint sample_mint)) \<le> 4"
    by (rule conjunct1 [OF credentials_stay_local])
       (auto simp: sample_mint_def offers_local_def obj_get_def sub_get_def or_dict_def sample_authenticators_def is_local_def)
  then show ?thesis by (simp add: sample_mint_run)
qed

text \<open>
  C35. The deactivation lag is bounded: whatever calls were made before, a token
  the provider returns from its cache was minted less than eight seconds ago, and a
  token it mints is the one the identity server has just issued.
\<close>

theorem actor_token_recent:
  assumes "ensure_valid_token world now lock_time (provider_run world ops new_actor_provider) = (Inr tok, p')"
  shows "\<exists>n < ap_mints p'. fst (mint (world n)) = Inr tok
    \<and> (n = ap_mints (provider_run world ops new_actor_provider)
       \<or> now < mw_done (world n) + 8 \<or> lock_time < mw_done (world n) + 8)"
proof -
  let ?p = "provider_run world ops new_actor_provider"
  have inv: "provider_inv world ?p" by (rule provider_inv_run [OF provider_inv_new])
  have buf: "ap_buffer_seconds ?p = 2" by (simp add: new_actor_provider_def refresh_buffer_seconds_def)
  show ?thesis
  proof (cases "is_fresh ?p now \<or> is_fresh ?p lock_time")
    case True
    then have p': "p' = ?p" and tok: "ap_cached ?p = Some tok"
      using assms by (auto simp: ensure_valid_token_def ensure_locked_def is_fresh_def split: if_splits option.splits)
    from inv tok obtain n where n: "n < ap_mints ?p" "fst (mint (world n)) = Inr tok"
      unfolding provider_inv_def by blast
    have "expires_at tok \<le> mw_done (world n) + 10"
      using mint_cap [OF n(2)] by (simp add: actor_token_cache_max_ttl_seconds_def)
    then show ?thesis using True n tok p' buf by (auto simp: is_fresh_def)
  next
    case False
    then have "mint_into world ?p = (Inr tok, p')"
      using assms by (simp add: ensure_valid_token_def ensure_locked_def)
    from mint_into_cases [OF this] show ?thesis by auto
  qed
qed

lemma sample_provider:
  "provider_run (\<lambda>_. sample_mint) [Ensure 999 999] new_actor_provider
     = \<lparr>ap_buffer_seconds = 2, ap_cached = Some sample_actor_token, ap_mints = 1\<rparr>"
  by (simp add: provider_run_def ensure_valid_token_def ensure_locked_def is_fresh_def new_actor_provider_def
      mint_into_def sample_mint_run refresh_buffer_seconds_def)

lemma actor_token_recent_witness:
  "\<exists>n < ap_mints \<lparr>ap_buffer_seconds = 2, ap_cached = Some sample_actor_token, ap_mints = 1\<rparr>.
     fst (mint sample_mint) = Inr sample_actor_token \<and> (n = 1 \<or> 1007 < mw_done sample_mint + 8 \<or> 1007 < mw_done sample_mint + 8)"
proof -
  have e: "ensure_valid_token (\<lambda>_. sample_mint) 1007 1007 (provider_run (\<lambda>_. sample_mint) [Ensure 999 999] new_actor_provider)
     = (Inr sample_actor_token, \<lparr>ap_buffer_seconds = 2, ap_cached = Some sample_actor_token, ap_mints = 1\<rparr>)"
    unfolding sample_provider by (simp add: ensure_valid_token_def is_fresh_def sample_actor_token_def)
  from actor_token_recent [OF e] show ?thesis unfolding sample_provider by auto
qed

text \<open>
  One mint serves all waiters: when a caller that held the lock has just minted a token
  of at least ten seconds, every caller that gets the lock within the next eight seconds
  receives that token and mints nothing.
\<close>

theorem single_flight:
  assumes "ap_buffer_seconds p = 2"
    and "ensure_locked world t0 p = (Inr tok, p1)" and "ap_mints p1 \<noteq> ap_mints p"
    and "expires_at tok = mw_done (world (ap_mints p)) + 10"
    and "list_all (\<lambda>t. t < mw_done (world (ap_mints p)) + 8) later"
  shows "map (\<lambda>t. ensure_locked world t p1) later = replicate (length later) (Inr tok, p1)"
proof -
  have "mint_into world p = (Inr tok, p1)"
    using assms(2,3) by (auto simp: ensure_locked_def split: if_splits)
  from mint_into_cases [OF this] have "ap_cached p1 = Some tok" "ap_buffer_seconds p1 = 2" using assms(1) by auto
  then have "ensure_locked world t p1 = (Inr tok, p1)" if "t < mw_done (world (ap_mints p)) + 8" for t
    using that assms(4) by (simp add: ensure_locked_def is_fresh_def)
  then show ?thesis using assms(5) by (induction later) auto
qed

lemma single_flight_witness:
  "map (\<lambda>t. ensure_locked (\<lambda>_. sample_mint) t \<lparr>ap_buffer_seconds = 2, ap_cached = Some sample_actor_token, ap_mints = 1\<rparr>)
     [1001, 1004, 1007]
   = replicate 3 (Inr sample_actor_token, \<lparr>ap_buffer_seconds = 2, ap_cached = Some sample_actor_token, ap_mints = 1\<rparr>)"
proof -
  have e: "ensure_locked (\<lambda>_. sample_mint) 999 new_actor_provider
      = (Inr sample_actor_token, \<lparr>ap_buffer_seconds = 2, ap_cached = Some sample_actor_token, ap_mints = 1\<rparr>)"
    by (simp add: ensure_locked_def is_fresh_def new_actor_provider_def mint_into_def sample_mint_run refresh_buffer_seconds_def)
  have b: "ap_buffer_seconds new_actor_provider = 2" "ap_mints new_actor_provider = 0"
    by (simp_all add: new_actor_provider_def refresh_buffer_seconds_def)
  from single_flight [OF b(1) e, of "[1001, 1004, 1007]"] show ?thesis
    by (simp add: b(2) sample_mint_def sample_actor_token_def numeral_eq_Suc)
qed

end
