(* ===== verification/AgentFlowProps.thy ===== *)
theory AgentFlowProps
  imports AgentRuns AgentProps HrTools ItTools Samples
begin

text \<open>
  The properties of an agent process: what a caller gets, which consent a cached token comes
  from, what a revocation ends, and how the tools of the agents fit the routes of the
  servers.  The sample process of the witnesses reads the leave policy twice.
\<close>

section \<open>A sample process\<close>

definition sample_a2a_config :: a2a_config where
  "sample_a2a_config =
     \<lparr>a2_validator = \<lparr>vc_expected_iss = ''is'', vc_jwks_url = ''jwks'', vc_expected_aud = Some ''hr'',
        vc_required_scopes = {}, vc_leeway_seconds = 30, vc_insecure_tls = False\<rparr>,
      a2_trusted_orchestrator_subs = {''hr-agent''}\<rparr>"

definition sample_tw :: "unit token_world" where
  "sample_tw = \<lparr>tw_jwt = sample_jwt, tw_net = sample_net, tw_mono = 4000, tw_now = 1500\<rparr>"

definition sample_lib :: agent_lib where
  "sample_lib = \<lparr>al_unverified_claims = \<lambda>t. Some [(''jti'', PStr (t @ ''-jti''))], al_str_exn = exn_id\<rparr>"

definition sample_deps :: dispatcher_deps where
  "sample_deps = \<lparr>dd_ciba = new_ciba_client_config ''is'', dd_oauth_client_id = ''cid'', dd_oauth_client_secret = ''sec'',
     dd_agent_id = ''hr-agent'', dd_agent_label = ''HR Agent'', dd_ciba_scope = ''openid hr_self_rest'', dd_max_poll_seconds = 300\<rparr>"

definition sample_setup :: agent_setup where
  "sample_setup = \<lparr>su_kind = hr_agent None, su_lib = sample_lib, su_deps = sample_deps, su_config = sample_a2a_config\<rparr>"

definition sample_mcp :: mcp_client where
  "sample_mcp m tok rid kw = McpOk (PDict [(''leave_types'', PList [])])"

definition sample_ciba :: "string \<Rightarrow> string \<Rightarrow> (string \<times> py) list \<Rightarrow> ciba_reply" where
  "sample_ciba cid sec form = CibaBody (PDict [(''auth_req_id'', PStr ''q1''), (''auth_url'', PStr ''url'')])"

definition sample_dw :: "real \<Rightarrow> dispatch_world" where
  "sample_dw now = \<lparr>dw_now = now, dw_actor_now = 1000, dw_actor_lock = 1000, dw_initiated_at = 1000,
     dw_mcp = sample_mcp, dw_mint = \<lambda>_. sample_mint, dw_ciba = sample_ciba\<rparr>"

definition sample_send :: a2a_request where
  "sample_send = \<lparr>rq_authorization = Some ''Bearer alice'', rq_request_id = Some ''r1'',
     rq_body = Some (PDict [(''id'', PInt 1), (''method'', PStr ''message/send''),
       (''params'', PDict [(''tool'', PStr ''hr.read_policy''), (''args'', PDict [])])])\<rparr>"

definition sample_events :: events_router where
  "sample_events = \<lparr>er_state = new_revocation_state, er_shared_secret = ''s'', er_rate_buckets = []\<rparr>"

definition sample_s0 :: agent_state where
  "sample_s0 = \<lparr>ag_cache = new_jwks_cache ''jwks'' False, ag_disp = disp_attach_revocation new_dispatcher,
     ag_events = sample_events, ag_states = [], ag_pending = Map.empty, ag_jobs = [], ag_waiters = []\<rparr>"

definition sample_key :: cache_key where
  "sample_key = (''alice'', ''openid hr_basic_rest'')"

definition sample_job :: dispatch_job where
  "sample_job = \<lparr>jb_request = sample_request, jb_method = ''get_leave_policy'', jb_kwargs = [], jb_request_id = ''r1'',
     jb_cache_key = sample_key\<rparr>"

definition sample_disp1 :: dispatcher where
  "sample_disp1 = (disp_attach_revocation new_dispatcher)\<lparr>dp_provider :=
     \<lparr>ap_buffer_seconds = 2, ap_cached = Some sample_actor_token, ap_mints = 1\<rparr>\<rparr>"

definition sample_s1 :: agent_state where
  "sample_s1 = sample_s0\<lparr>ag_cache := sample_fetched (new_jwks_cache ''jwks'' False), ag_disp := sample_disp1,
     ag_states := [new_pending_state (PStr ''q1'') ''r1'' 1000], ag_pending := [''q1'' \<mapsto> 0], ag_jobs := [(0, sample_job)]\<rparr>"

definition sample_run :: run_world where
  "sample_run = \<lparr>rw_start = 1000, rw_poll = sample_poll, rw_cancel_set = False, rw_mcp = sample_mcp\<rparr>"

definition sample_result :: result_payload where
  "sample_result = \<lparr>rp_data = [(''leave_types'', PList [])], rp_token_jti = ''tb-jti'', rp_token_exp = 4609, rp_token_iat = 1009\<rparr>"

definition sample_s2 :: agent_state where
  "sample_s2 = sample_s1\<lparr>ag_disp := cache_issued sample_lib sample_key sample_polled sample_disp1,
     ag_states := [(new_pending_state (PStr ''q1'') ''r1'' 1000)\<lparr>pd_result := Some sample_result, pd_completion := True, pd_polling := False\<rparr>],
     ag_jobs := []\<rparr>"

lemma sample_new: "new_agent (new_jwks_cache ''jwks'' False) ''s'' = Inr sample_s0"
  by (simp add: new_agent_def build_internal_events_router_def sample_s0_def sample_events_def)

lemma sample_caller:
  "validate_token_and_peer sample_tw sample_a2a_config (Some ''Bearer alice'') i (new_jwks_cache ''jwks'' False)
     = (Inr (Inr (sample_claims ''alice'' ''j1'' ''hr_self_rest'')), sample_fetched (new_jwks_cache ''jwks'' False))"
proof -
  have "validate sample_jwt sample_net 4000 1500 ''alice'' (a2_validator sample_a2a_config) (new_jwks_cache ''jwks'' False)
     = (Inr (sample_claims ''alice'' ''j1'' ''hr_self_rest''), sample_fetched (new_jwks_cache ''jwks'' False))"
    by (rule sample_validate) (simp_all add: sample_a2a_config_def new_jwks_cache_def)
  moreover have "validate_chain (sample_claims ''alice'' ''j1'' ''hr_self_rest'') (a2_trusted_orchestrator_subs sample_a2a_config) True 1 = Inr ()"
    by (simp add: validate_chain_depth1 sample_act_chain sample_a2a_config_def)
  ultimately show ?thesis by (simp add: validate_token_and_peer_def sample_bearer sample_tw_def)
qed

lemma sample_caller_again:
  "validate_token_and_peer sample_tw sample_a2a_config (Some ''Bearer alice'') i (sample_fetched (new_jwks_cache ''jwks'' False))
     = (Inr (Inr (sample_claims ''alice'' ''j1'' ''hr_self_rest'')), sample_fetched (new_jwks_cache ''jwks'' False))"
proof -
  have "validate sample_jwt sample_net 4000 1500 ''alice'' (a2_validator sample_a2a_config) (sample_fetched (new_jwks_cache ''jwks'' False))
     = (Inr (sample_claims ''alice'' ''j1'' ''hr_self_rest''), sample_fetched (new_jwks_cache ''jwks'' False))"
    by (rule sample_validate_again) (simp_all add: sample_a2a_config_def new_jwks_cache_def)
  moreover have "validate_chain (sample_claims ''alice'' ''j1'' ''hr_self_rest'') (a2_trusted_orchestrator_subs sample_a2a_config) True 1 = Inr ()"
    by (simp add: validate_chain_depth1 sample_act_chain sample_a2a_config_def)
  ultimately show ?thesis by (simp add: validate_token_and_peer_def sample_bearer sample_tw_def)
qed

lemma sample_envelope:
  "read_envelope sample_send = Inr \<lparr>rr_id = PInt 1, rr_method = ''message/send'',
     rr_params = PDict [(''tool'', PStr ''hr.read_policy''), (''args'', PDict [])]\<rparr>"
  by (simp add: read_envelope_def sample_send_def parse_request_def pyget_or_def rpc_id_of_def)

lemma sample_check: "check_request (hr_agent None) ''hr.read_policy'' [] = Inr (Inr (entry ''View the company leave policy''
    ''get_leave_policy'' (\<lambda>args. []) (Some ''openid hr_basic_rest''), []))"
  by (simp add: check_request_def hr_agent_def hr_tool_registry_def entry_def hr_required_args_def)

lemma sample_dispatch1:
  "\<exists>c. dispatch (hr_agent None) sample_lib sample_deps (sample_dw 1000) dl ''hr.read_policy'' [] ''alice'' ''r1'' None
     (disp_attach_revocation new_dispatcher)
   = (\<lparr>do_response = Inr (ConsentRequired c), do_started = Some (new_pending_state (PStr ''q1'') ''r1'' 1000, sample_job),
       do_registered = True\<rparr>, sample_disp1)"
proof -
  let ?te = "entry ''View the company leave policy'' ''get_leave_policy'' (\<lambda>args. []) (Some ''openid hr_basic_rest'')"
  let ?d = "disp_attach_revocation new_dispatcher"
  have k: "effective_scope sample_deps ?te = ''openid hr_basic_rest''" by (simp add: effective_scope_def entry_def)
  have e: "ensure_valid_token (\<lambda>_. sample_mint) 1000 1000 (dp_provider ?d)
      = (Inr sample_actor_token, \<lparr>ap_buffer_seconds = 2, ap_cached = Some sample_actor_token, ap_mints = 1\<rparr>)"
    by (simp add: ensure_valid_token_def ensure_locked_def is_fresh_def disp_attach_revocation_def new_dispatcher_def
        new_actor_provider_def mint_into_def sample_mint_run refresh_buffer_seconds_def)
  have i: "initiate (dd_ciba sample_deps) sample_ciba 1000 cid sec user msg tok scope None = Inr sample_request" for cid sec user msg tok scope
    by (simp add: initiate_def sample_ciba_def read_ciba_reply_def pyget_or_def sample_request_def)
  have s: "serve_cached sample_lib dl sample_mcp 1000 (''alice'', ''openid hr_basic_rest'') (te_method ?te) [] ''r1'' ?d = (None, ?d)"
    by (simp add: serve_cached_def disp_attach_revocation_def new_dispatcher_def)
  have "\<exists>c. start_consent (hr_agent None) sample_lib sample_deps (sample_dw 1000) ''hr.read_policy'' [] ?te [] ''alice'' ''r1'' None None ?d
     = (\<lparr>do_response = Inr (ConsentRequired c), do_started = Some (new_pending_state (PStr ''q1'') ''r1'' 1000, sample_job),
       do_registered = True\<rparr>, sample_disp1)"
    by (simp add: start_consent_def Let_def k hr_agent_def hr_consent_texts_def sample_dw_def e i has_len_def sample_actor_token_def)
       (simp add: register_consent_def sample_request_def sample_job_def sample_key_def sample_disp1_def sample_actor_token_def entry_def)
  moreover have "map_option ct_iat (dp_token_cache ?d (''alice'', ''openid hr_basic_rest'')) = None"
    by (simp add: disp_attach_revocation_def new_dispatcher_def)
  moreover have "dispatch (hr_agent None) sample_lib sample_deps (sample_dw 1000) dl ''hr.read_policy'' [] ''alice'' ''r1'' None ?d
      = start_consent (hr_agent None) sample_lib sample_deps (sample_dw 1000) ''hr.read_policy'' [] ?te [] ''alice'' ''r1'' None
          (map_option ct_iat (dp_token_cache ?d (''alice'', ''openid hr_basic_rest''))) ?d"
    using s by (simp add: dispatch_def sample_check k sample_dw_def)
  ultimately show ?thesis by simp
qed

lemma sample_sent:
  assumes "ag_cache s = new_jwks_cache ''jwks'' False \<or> ag_cache s = sample_fetched (new_jwks_cache ''jwks'' False)"
    and "dispatch (hr_agent None) sample_lib sample_deps w (ag_denylist s) ''hr.read_policy'' [] ''alice'' ''r1'' None (ag_disp s)
      = (out, d')" and "do_response out = Inr m"
  shows "message_send (agent_dispatch sample_setup w) sample_tw (su_config sample_setup) ''f'' sample_send s
    = (Inr (make_success (PInt 1) m),
       install out (s\<lparr>ag_cache := sample_fetched (new_jwks_cache ''jwks'' False), ag_disp := d'\<rparr>))"
proof (subst message_send_accepted)
  show "read_envelope sample_send = Inr \<lparr>rr_id = PInt 1, rr_method = ''message/send'',
     rr_params = PDict [(''tool'', PStr ''hr.read_policy''), (''args'', PDict [])]\<rparr>" by (rule sample_envelope)
  show "message_send_params [(''tool'', PStr ''hr.read_policy''), (''args'', PDict [])]
     = Some \<lparr>sp_tool = ''hr.read_policy'', sp_args = [], sp_last_logout_reason = None\<rparr>"
    by (simp add: message_send_params_def)
  show "validate_token_and_peer sample_tw (su_config sample_setup) (rq_authorization sample_send) (rr_id \<lparr>rr_id = PInt 1, rr_method = ''message/send'',
     rr_params = PDict [(''tool'', PStr ''hr.read_policy''), (''args'', PDict [])]\<rparr>) (ag_cache s)
     = (Inr (Inr (sample_claims ''alice'' ''j1'' ''hr_self_rest'')), sample_fetched (new_jwks_cache ''jwks'' False))"
    using assms(1) sample_caller sample_caller_again by (auto simp: sample_setup_def sample_send_def)
  show "agent_dispatch sample_setup w (ag_denylist s) (sp_tool \<lparr>sp_tool = ''hr.read_policy'', sp_args = [], sp_last_logout_reason = None\<rparr>)
      (sp_args \<lparr>sp_tool = ''hr.read_policy'', sp_args = [], sp_last_logout_reason = None\<rparr>)
      (c_sub (sample_claims ''alice'' ''j1'' ''hr_self_rest'')) (resolve_request_id ''f'' sample_send)
      (sp_last_logout_reason \<lparr>sp_tool = ''hr.read_policy'', sp_args = [], sp_last_logout_reason = None\<rparr>) (ag_disp s) = (out, d')"
    using assms(2) by (simp add: agent_dispatch_def sample_setup_def sample_claims_def resolve_request_id_def sample_send_def)
qed (simp_all add: assms(3))

lemma sample_step1: "agent_step sample_setup TYPE(unit) sample_s0 (LSend (sample_dw 1000)) sample_s1"
proof -
  have "ag_disp sample_s0 = disp_attach_revocation new_dispatcher" by (simp add: sample_s0_def)
  then obtain c where d: "dispatch (hr_agent None) sample_lib sample_deps (sample_dw 1000) (ag_denylist sample_s0)
      ''hr.read_policy'' [] ''alice'' ''r1'' None (ag_disp sample_s0)
   = (\<lparr>do_response = Inr (ConsentRequired c), do_started = Some (new_pending_state (PStr ''q1'') ''r1'' 1000, sample_job),
       do_registered = True\<rparr>, sample_disp1)"
    using sample_dispatch1 [of "ag_denylist sample_s0"] by auto
  have "message_send (agent_dispatch sample_setup (sample_dw 1000)) sample_tw (su_config sample_setup) ''f'' sample_send sample_s0
      = (Inr (make_success (PInt 1) (ConsentRequired c)), sample_s1)"
    by (subst sample_sent [OF _ d])
       (simp_all add: sample_s0_def install_def sample_s1_def new_pending_state_def)
  then show ?thesis by (rule agent_step.send)
qed

lemma sample_step2: "agent_step sample_setup TYPE(unit) sample_s1 (LJob sample_job sample_run) sample_s2"
proof (rule agent_step.job)
  show "(0, sample_job) \<in> set (ag_jobs sample_s1)" by (simp add: sample_s1_def)
  have "run_to_completion sample_lib sample_deps sample_run sample_job (new_pending_state (PStr ''q1'') ''r1'' 1000) sample_disp1
    = Some ((new_pending_state (PStr ''q1'') ''r1'' 1000)\<lparr>pd_result := Some sample_result, pd_error := None,
        pd_completion := True, pd_polling := False\<rparr>, cache_issued sample_lib sample_key sample_polled sample_disp1)"
    using sample_poll_run
    by (simp add: run_to_completion_def sample_deps_def sample_run_def sample_job_def run_tool_def sample_mcp_def
        make_result_def sample_result_def jti_of_def sample_polled_def sample_lib_def trunc_real_def)
  then show "job_end (su_lib sample_setup) (su_deps sample_setup) sample_run (0, sample_job) sample_s1 = Some sample_s2"
    by (simp add: job_end_def sample_setup_def sample_s1_def sample_s2_def new_pending_state_def)
qed (simp_all add: sample_s1_def sample_run_def sample_poll_def new_pending_state_def)

lemma sample_reached: "agent_run sample_setup TYPE(unit) sample_s0 [LJob sample_job sample_run, LSend (sample_dw 1000)] sample_s2"
  by (rule agent_run.step [OF agent_run.step [OF agent_run.start sample_step1] sample_step2])

section \<open>What a caller gets\<close>

text \<open>
  C36. An answer served from the token cache of an agent: whenever an agent process replies
  to a send with a result at once, the caller's token was accepted and names a trusted
  orchestrator, and the result was fetched with a token that a consent gave which the
  identity server was asked for exactly the caller's subject and the scope of the tool;
  that token is not on the denylist and has more than thirty seconds left.
\<close>

theorem cached_reply_consented:
  assumes "new_agent cache secret = Inr s0" and "agent_run su (K :: 'k itself) s0 tr s"
    and "message_send (agent_dispatch su w) (tw :: 'k token_world) (su_config su) fresh rq s
      = (Inr (make_success i (ResultReply r)), s')"
  shows "\<exists>claims c te tool args kwargs v. caller_accepted tw (su_config su) (rq_authorization rq) (ag_cache s) claims
    \<and> check_request (su_kind su) tool args = Inr (Inr (te, kwargs))
    \<and> consented su tr (c_sub claims, effective_scope (su_deps su) te) c
    \<and> \<not> (jti_of (su_lib su) (ct_token c) \<noteq> [] \<and> denylist_contains (ag_denylist s) (jti_of (su_lib su) (ct_token c)))
    \<and> dw_now w < ct_expires_at c - 30
    \<and> (\<exists>rid. dw_mcp w (te_method te) (ct_token c) rid kwargs = McpOk (PDict v)) \<and> rp_data r = v"
proof -
  have inv: "agent_inv su tr s" by (rule inv_run [OF assms(2,1)])
  from message_send_cases [OF assms(3)] obtain claims and p :: send_params and rid out d' j where
    cl: "caller_accepted tw (su_config su) (rq_authorization rq) (ag_cache s) claims"
    and d: "dispatch (su_kind su) (su_lib su) (su_deps su) w (ag_denylist s) (sp_tool p) (sp_args p) (c_sub claims) rid
      (sp_last_logout_reason p) (ag_disp s) = (out, d')"
    and r: "Inr (make_success i (ResultReply r)) = (case do_response out of Inl e \<Rightarrow> Inl e | Inr m \<Rightarrow> Inr (make_success j m))"
    by (auto simp: agent_dispatch_def)
  have "do_response out = Inr (ResultReply r)" using r by (auto simp: make_success_def split: sum.splits)
  from dispatch_result [OF d this] obtain te kw where
    ck: "check_request (su_kind su) (sp_tool p) (sp_args p) = Inr (Inr (te, kw))"
    and sc: "serve_cached (su_lib su) (ag_denylist s) (dw_mcp w) (dw_now w) (c_sub claims, effective_scope (su_deps su) te)
      (te_method te) kw rid (ag_disp s) = (Some (Inr (ResultReply r)), ag_disp s)" by blast
  from serve_cached_result [OF sc] obtain c v where
    c: "dp_token_cache (ag_disp s) (c_sub claims, effective_scope (su_deps su) te) = Some c"
    "\<not> disp_denylist_contains (ag_denylist s) (ag_disp s) (jti_of (su_lib su) (ct_token c))" "dw_now w < ct_expires_at c - 30"
    "dw_mcp w (te_method te) (ct_token c) rid kw = McpOk (PDict v)" "rp_data r = v" by auto
  have "consented su tr (c_sub claims, effective_scope (su_deps su) te) c" "dp_attached (ag_disp s)"
    using inv c(1) by (simp_all add: agent_inv_def cache_ok_def del: split_paired_All)
  moreover from this have "\<not> (jti_of (su_lib su) (ct_token c) \<noteq> [] \<and> denylist_contains (ag_denylist s) (jti_of (su_lib su) (ct_token c)))"
    using c(2) by (auto simp: disp_denylist_contains_def)
  ultimately show ?thesis using cl ck c(3-5) by blast
qed

lemma sample_cached_send:
  "message_send (agent_dispatch sample_setup (sample_dw 2000)) sample_tw (su_config sample_setup) ''f'' sample_send sample_s2
     = (Inr (make_success (PInt 1) (ResultReply sample_result)), sample_s2)"
proof -
  let ?te = "entry ''View the company leave policy'' ''get_leave_policy'' (\<lambda>args. []) (Some ''openid hr_basic_rest'')"
  have dl: "\<not> denylist_contains (ag_denylist sample_s2) j" for j
    by (simp add: ag_denylist_def sample_s2_def sample_s1_def sample_s0_def sample_events_def new_revocation_state_def
        new_denylist_def denylist_contains_def od_keys_def)
  have k: "effective_scope sample_deps ?te = ''openid hr_basic_rest''" by (simp add: effective_scope_def entry_def)
  have m: "te_method ?te = ''get_leave_policy''" by (simp add: entry_def)
  have c: "dp_token_cache (ag_disp sample_s2) (''alice'', ''openid hr_basic_rest'')
      = Some \<lparr>ct_token = sample_polled, ct_iat = 1009, ct_expires_at = 4609\<rparr>"
    by (simp add: sample_s2_def cache_issued_def Let_def sample_key_def sample_polled_def)
  have "serve_cached sample_lib (ag_denylist sample_s2) sample_mcp 2000 (''alice'', ''openid hr_basic_rest'')
      ''get_leave_policy'' [] ''r1'' (ag_disp sample_s2) = (Some (Inr (ResultReply sample_result)), ag_disp sample_s2)"
    by (simp add: serve_cached_def Let_def c dl disp_denylist_contains_def is_near_expiry_def token_expiry_buffer_def sample_mcp_def
        make_result_def sample_result_def jti_of_def sample_polled_def sample_lib_def trunc_real_def)
  then have d: "dispatch (hr_agent None) sample_lib sample_deps (sample_dw 2000) (ag_denylist sample_s2) ''hr.read_policy'' []
      ''alice'' ''r1'' None (ag_disp sample_s2) = (replied (Inr (ResultReply sample_result)), ag_disp sample_s2)"
    by (simp add: dispatch_def Let_def sample_check k m sample_dw_def)
  show ?thesis
    by (subst sample_sent [OF _ d])
       (simp_all add: replied_def install_def sample_s2_def sample_s1_def)
qed

lemma cached_reply_consented_witness:
  "\<exists>claims c te. caller_accepted sample_tw sample_a2a_config (Some ''Bearer alice'') (ag_cache sample_s2) claims
    \<and> consented sample_setup [LJob sample_job sample_run, LSend (sample_dw 1000)]
        (c_sub claims, effective_scope sample_deps te) c \<and> 2000 < ct_expires_at c - 30"
  using cached_reply_consented [OF sample_new sample_reached sample_cached_send]
  by (auto simp: sample_setup_def sample_send_def sample_dw_def)

text \<open>
  C37. A revocation ends the use of a token at once: after a revocation event the agent
  acknowledged, a call whose cached token has the revoked id is handled without sending that
  token anywhere (its outcome is the same whatever the MCP server would answer), and no call
  is answered from the cache with it.
\<close>

theorem revoked_token_unused:
  assumes "new_agent cache secret = Inr s0" and "agent_run su (K :: 'k itself) s0 tr s"
    and "agent_event body host auth now s = (Acked note, s1)" and "ev_jti body \<noteq> []"
    and "\<And>c. dp_token_cache (ag_disp s1) (user, effective_scope (su_deps su) te) = Some c \<Longrightarrow>
          jti_of (su_lib su) (ct_token c) = ev_jti body"
    and "check_request (su_kind su) tool args = Inr (Inr (te, kwargs))"
  shows "agent_dispatch su (w\<lparr>dw_mcp := mcp'\<rparr>) (ag_denylist s1) tool args user rid reason (ag_disp s1)
       = agent_dispatch su w (ag_denylist s1) tool args user rid reason (ag_disp s1)
    \<and> do_response (fst (agent_dispatch su w (ag_denylist s1) tool args user rid reason (ag_disp s1))) \<noteq> Inr (ResultReply r)"
proof -
  have att: "dp_attached (ag_disp s1)"
    using inv_step [OF inv_run [OF assms(2,1)] agent_step.event [OF assms(3)]] by (simp add: agent_inv_def cache_ok_def)
  obtain e d where "receive_event (Some on_revoke) body host auth now (ag_events s) (ag_disp s) = (Acked note, e, d)"
    "s1 = s\<lparr>ag_events := e, ag_disp := d\<rparr>"
    using assms(3) by (auto simp: agent_event_def split: prod.splits)
  then have dl: "denylist_contains (ag_denylist s1) (ev_jti body)"
    using receive_event_acked by (auto simp: ag_denylist_def)
  have den: "disp_denylist_contains (ag_denylist s1) (ag_disp s1) (jti_of (su_lib su) (ct_token c))"
    if "dp_token_cache (ag_disp s1) (user, effective_scope (su_deps su) te) = Some c" for c
    using assms(4) assms(5) [OF that] att dl by (simp add: disp_denylist_contains_def)
  have "do_response (fst (agent_dispatch su w (ag_denylist s1) tool args user rid reason (ag_disp s1))) \<noteq> Inr (ResultReply r)"
  proof
    assume "do_response (fst (agent_dispatch su w (ag_denylist s1) tool args user rid reason (ag_disp s1))) = Inr (ResultReply r)"
    then obtain out d' where "dispatch (su_kind su) (su_lib su) (su_deps su) w (ag_denylist s1) tool args user rid reason (ag_disp s1)
        = (out, d')" "do_response out = Inr (ResultReply r)" by (auto simp: agent_dispatch_def) (metis prod.collapse)
    from dispatch_result [OF this] show False using assms(6) den by (auto dest!: serve_cached_result)
  qed
  then show ?thesis using assms(6) den by (auto simp: agent_dispatch_def intro!: dispatch_indifferent)
qed

definition sample_revoke :: revoke_event where
  "sample_revoke = \<lparr>ev_type = ''session-revoked'', ev_sub = ''alice'', ev_jti = ''tb-jti'', ev_exp = 4609, ev_reason = ''user_signed_out''\<rparr>"

lemma revoked_token_unused_witness:
  "\<exists>s1 note. agent_event sample_revoke ''host'' (Some ''s'') 1500 sample_s2 = (Acked note, s1)
    \<and> do_response (fst (agent_dispatch sample_setup (sample_dw 2000) (ag_denylist s1) ''hr.read_policy'' [] ''alice'' ''r2'' None
        (ag_disp s1))) \<noteq> Inr (ResultReply sample_result)"
proof -
  have "\<exists>s1. agent_event sample_revoke ''host'' (Some ''s'') 1500 sample_s2 = (Acked None, s1)
     \<and> dp_token_cache (ag_disp s1) (''alice'', ''openid hr_basic_rest'') = None"
    by (simp add: agent_event_def receive_event_def sample_revoke_def sample_s2_def sample_s1_def sample_s0_def sample_events_def
        rate_limit_check_def rate_max_def rate_window_def new_revocation_state_def new_denylist_def denylist_contains_def
        od_keys_def denylist_add_def on_revoke_def revoke_jti_def cache_issued_def sample_key_def
        jti_of_def sample_polled_def sample_lib_def move_update_spec Let_def)
  then obtain s1 where s1: "agent_event sample_revoke ''host'' (Some ''s'') 1500 sample_s2 = (Acked None, s1)"
    "dp_token_cache (ag_disp s1) (''alice'', ''openid hr_basic_rest'') = None" by blast
  have ck: "check_request (su_kind sample_setup) ''hr.read_policy'' [] = Inr (Inr (entry ''View the company leave policy''
    ''get_leave_policy'' (\<lambda>args. []) (Some ''openid hr_basic_rest''), []))"
    using sample_check by (simp add: sample_setup_def)
  have "ev_jti sample_revoke \<noteq> []" by (simp add: sample_revoke_def)
  from revoked_token_unused [OF sample_new sample_reached s1(1) this _ ck, where user = "''alice''" and w = "sample_dw 2000"] s1
  show ?thesis by (auto simp: effective_scope_def entry_def)
qed

section \<open>Consents and their answers\<close>

text \<open>
  An await gets the answer of its own consent: in any state a process reaches, an await
  that is woken by a completion answers with the result or error left by the background task
  of a consent the identity server was asked for under the very request id the await names.
\<close>

theorem await_answers_own_flow:
  assumes "new_agent cache secret = Inr s0" and "agent_run su (K :: 'k itself) s0 tr s"
    and "wt \<in> set (ag_waiters s)" and "pd_completion (ag_states s ! wt_state wt)"
  shows "\<exists>job w st0 d0 st1 d1. fst (await_end False wt s) = make_success (wt_id wt) (completion_reply st1)
    \<and> LJob job w \<in> set tr \<and> requested su tr job \<and> cr_auth_req_id (jb_request job) = PStr (wt_auth_req_id wt)
    \<and> run_to_completion (su_lib su) (su_deps su) w job st0 d0 = Some (st1, d1)"
proof -
  have inv: "agent_inv su tr s" by (rule inv_run [OF assms(2,1)])
  let ?st = "ag_states s ! wt_state wt"
  have f: "wt_state wt < length (ag_states s)" "pd_auth_req_id ?st = PStr (wt_auth_req_id wt)"
    using inv assms(3) by (auto simp: agent_inv_def addresses_ok_def in_flight_def)
  have "left_by_task su tr ?st" using inv f(1) assms(4) by (auto simp: agent_inv_def jobs_ok_def)
  then obtain job w st0 d0 st1 d1 where j: "LJob job w \<in> set tr" "requested su tr job"
    "cr_auth_req_id (jb_request job) = PStr (wt_auth_req_id wt)"
    "run_to_completion (su_lib su) (su_deps su) w job st0 d0 = Some (st1, d1)"
    "pd_result ?st = pd_result st1" "pd_error ?st = pd_error st1"
    using f(2) unfolding left_by_task_def by metis
  then have "fst (await_end False wt s) = make_success (wt_id wt) (completion_reply st1)"
    by (simp add: await_end_def Let_def completion_reply_def cong: option.case_cong)
  with j show ?thesis by blast
qed

definition sample_waiter :: waiter where
  "sample_waiter = \<lparr>wt_id = PInt 2, wt_auth_req_id = ''q1'', wt_state = 0\<rparr>"

definition sample_await :: a2a_request where
  "sample_await = \<lparr>rq_authorization = Some ''Bearer alice'', rq_request_id = Some ''r2'',
     rq_body = Some (PDict [(''id'', PInt 2), (''method'', PStr ''await''), (''params'', PDict [(''auth_req_id'', PStr ''q1'')])])\<rparr>"

lemma sample_await_begin:
  assumes "ag_cache s = sample_fetched (new_jwks_cache ''jwks'' False)" "ag_pending s ''q1'' = Some 0"
  shows "await_begin sample_tw sample_a2a_config sample_await s = (Inr sample_waiter, s\<lparr>ag_waiters := sample_waiter # ag_waiters s\<rparr>)"
proof -
  have e: "read_envelope sample_await = Inr \<lparr>rr_id = PInt 2, rr_method = ''await'', rr_params = PDict [(''auth_req_id'', PStr ''q1'')]\<rparr>"
    by (simp add: read_envelope_def sample_await_def parse_request_def pyget_or_def rpc_id_of_def)
  have "validate_token_and_peer sample_tw sample_a2a_config (rq_authorization sample_await) (PInt 2) (ag_cache s)
      = (Inr (Inr (sample_claims ''alice'' ''j1'' ''hr_self_rest'')), ag_cache s)"
    using sample_caller_again assms(1) by (simp add: sample_await_def)
  then show ?thesis
    using assms(2) by (simp add: await_begin_def Let_def e auth_req_param_def sample_waiter_def)
qed

lemma sample_await_step:
  assumes "ag_cache s = sample_fetched (new_jwks_cache ''jwks'' False)" "ag_pending s ''q1'' = Some 0"
  shows "agent_step sample_setup TYPE(unit) s LAwait (s\<lparr>ag_waiters := sample_waiter # ag_waiters s\<rparr>)"
  using sample_await_begin [OF assms] by (intro agent_step.await_request) (simp add: sample_setup_def)

lemma await_answers_own_flow_witness:
  "\<exists>st1. fst (await_end False sample_waiter (sample_s2\<lparr>ag_waiters := [sample_waiter]\<rparr>))
      = make_success (PInt 2) (completion_reply st1)"
proof -
  have "agent_step sample_setup TYPE(unit) sample_s2 LAwait (sample_s2\<lparr>ag_waiters := [sample_waiter]\<rparr>)"
    using sample_await_step [of sample_s2] by (simp add: sample_s2_def sample_s1_def sample_s0_def)
  note run = agent_run.step [OF sample_reached this]
  have "sample_waiter \<in> set (ag_waiters (sample_s2\<lparr>ag_waiters := [sample_waiter]\<rparr>))" by simp
  moreover have "pd_completion (ag_states (sample_s2\<lparr>ag_waiters := [sample_waiter]\<rparr>) ! wt_state sample_waiter)"
    by (simp add: sample_s2_def sample_waiter_def)
  ultimately show ?thesis using await_answers_own_flow [OF sample_new run, of sample_waiter]
    by (auto simp: sample_waiter_def)
qed

text \<open>
  C38. No await waits for nothing: in any state a process reaches, an await whose consent is
  still open has its background task running.  When that consent has an interval of at least a
  second and the clock does not run backwards, the task, whatever the identity and MCP servers
  answer, sends all its poll requests before its budget is over, at most one per interval of it,
  and then ends, whatever would be answered later; and its end lets the await be answered.
\<close>

theorem waiting_await_is_answered:
  assumes "new_agent cache secret = Inr s0" and "agent_run su (K :: 'k itself) s0 tr s"
    and "wt \<in> set (ag_waiters s)" and "\<not> pd_completion (ag_states s ! wt_state wt)"
    and "0 \<le> dd_max_poll_seconds (su_deps su)"
  shows "\<exists>job. (wt_state wt, job) \<in> set (ag_jobs s) \<and> cr_auth_req_id (jb_request job) = PStr (wt_auth_req_id wt)
    \<and> (\<forall>w. fair_world (rw_poll w) \<longrightarrow> 1 \<le> cr_interval_s (jb_request job) \<longrightarrow>
         rw_cancel_set w = pd_cancel (ag_states s ! wt_state wt) \<longrightarrow> (\<forall>n. pw_cancelled (rw_poll w) n \<longrightarrow> rw_cancel_set w) \<longrightarrow>
         (\<exists>polled sends. poll_for_token (dd_ciba (su_deps su)) (rw_poll w) (rw_start w) (jb_request job)
              (Some (dd_max_poll_seconds (su_deps su))) = Some (polled, sends)
            \<and> int (length sends) \<le> \<lceil>dd_max_poll_seconds (su_deps su) / of_int (cr_interval_s (jb_request job))\<rceil>
            \<and> list_all (\<lambda>t. rw_start w \<le> t \<and> t < rw_start w + dd_max_poll_seconds (su_deps su)) sends)
         \<and> (\<exists>s' s''. agent_step su K s (LJob job w) s' \<and> pd_completion (ag_states s' ! wt_state wt)
            \<and> (\<forall>pw. same_polls 1 (nat \<lceil>dd_max_poll_seconds (su_deps su) / of_int (cr_interval_s (jb_request job))\<rceil>) (rw_poll w) pw
                 \<longrightarrow> job_end (su_lib su) (su_deps su) (w\<lparr>rw_poll := pw\<rparr>) (wt_state wt, job) s = Some s')
            \<and> agent_step su K s' LAwait s''
            \<and> s'' = snd (await_end False wt s')))"
proof -
  have inv: "agent_inv su tr s" by (rule inv_run [OF assms(2,1)])
  let ?i = "wt_state wt"
  have f: "?i < length (ag_states s)" "pd_auth_req_id (ag_states s ! ?i) = PStr (wt_auth_req_id wt)"
    using inv assms(3) by (auto simp: agent_inv_def addresses_ok_def in_flight_def)
  have "?i \<in> fst ` set (ag_jobs s)" using inv assms(4) f(1) by (auto simp: agent_inv_def jobs_ok_def)
  then obtain job where j: "(?i, job) \<in> set (ag_jobs s)" by force
  have q: "cr_auth_req_id (jb_request job) = PStr (wt_auth_req_id wt)"
    using inv j f(2) by (auto simp: agent_inv_def jobs_ok_def)
  let ?n = "\<lambda>job. nat \<lceil>dd_max_poll_seconds (su_deps su) / of_int (cr_interval_s (jb_request job))\<rceil>"
  have "\<exists>s' s''. agent_step su K s (LJob job w) s' \<and> pd_completion (ag_states s' ! ?i)
      \<and> (\<forall>pw. same_polls 1 (?n job) (rw_poll w) pw
           \<longrightarrow> job_end (su_lib su) (su_deps su) (w\<lparr>rw_poll := pw\<rparr>) (?i, job) s = Some s')
      \<and> agent_step su K s' LAwait s'' \<and> s'' = snd (await_end False wt s')"
    if w: "fair_world (rw_poll w)" "1 \<le> cr_interval_s (jb_request job)" "rw_cancel_set w = pd_cancel (ag_states s ! ?i)"
      "\<forall>n. pw_cancelled (rw_poll w) n \<longrightarrow> rw_cancel_set w" for w
  proof -
    from run_to_completion_returns [OF w(1,2) assms(5)] obtain st d' where
      r: "run_to_completion (su_lib su) (su_deps su) w job (ag_states s ! ?i) (ag_disp s) = Some (st, d')" by blast
    let ?s = "s\<lparr>ag_states := (ag_states s)[?i := st], ag_disp := d', ag_jobs := remove1 (?i, job) (ag_jobs s)\<rparr>"
    have e: "job_end (su_lib su) (su_deps su) w (?i, job) s = Some ?s" using r by (simp add: job_end_def)
    then have "agent_step su K s (LJob job w) ?s" by (rule agent_step.job [OF j w(3,4)])
    moreover have "job_end (su_lib su) (su_deps su) (w\<lparr>rw_poll := pw\<rparr>) (?i, job) s = Some ?s"
      if "same_polls 1 (?n job) (rw_poll w) pw" for pw
    proof -
      have "run_to_completion (su_lib su) (su_deps su) (w\<lparr>rw_poll := pw\<rparr>) job (ag_states s ! ?i) (ag_disp s) = Some (st, d')"
        by (subst run_to_completion_polled [of _ w]) (simp_all add: r poll_for_token_same [OF w(1,2) assms(5) that])
      then show ?thesis by (simp add: job_end_def)
    qed
    moreover have c: "pd_completion (ag_states ?s ! ?i)" using run_to_completion_state(1) [OF r] f(1) by simp
    moreover have "agent_step su K ?s LAwait (snd (await_end False wt ?s))"
      by (rule agent_step.await_wake [of wt _ False]) (use assms(3) c in \<open>simp_all add: prod_eq_iff\<close>)
    ultimately show ?thesis by blast
  qed
  moreover note poll_returns_bounded [OF _ _ assms(5), where cfg = "dd_ciba (su_deps su)"]
  ultimately show ?thesis using j q by (intro exI [of _ job] conjI allI impI) blast+
qed

lemma sample_reached_waiting:
  "agent_run sample_setup TYPE(unit) sample_s0 [LAwait, LSend (sample_dw 1000)] (sample_s1\<lparr>ag_waiters := [sample_waiter]\<rparr>)"
proof -
  have "agent_step sample_setup TYPE(unit) sample_s1 LAwait (sample_s1\<lparr>ag_waiters := [sample_waiter]\<rparr>)"
    using sample_await_step [of sample_s1] by (simp add: sample_s1_def sample_s0_def)
  from agent_run.step [OF agent_run.step [OF agent_run.start sample_step1] this] show ?thesis .
qed

lemma waiting_await_is_answered_witness:
  "\<exists>s' s''. agent_step sample_setup TYPE(unit) (sample_s1\<lparr>ag_waiters := [sample_waiter]\<rparr>) (LJob sample_job sample_run) s'
     \<and> agent_step sample_setup TYPE(unit) s' LAwait s''"
proof -
  let ?s = "sample_s1\<lparr>ag_waiters := [sample_waiter]\<rparr>"
  have "sample_waiter \<in> set (ag_waiters ?s)" by simp
  moreover have "\<not> pd_completion (ag_states ?s ! wt_state sample_waiter)"
    by (simp add: sample_s1_def sample_waiter_def new_pending_state_def)
  moreover have "0 \<le> dd_max_poll_seconds (su_deps sample_setup)" by (simp add: sample_setup_def sample_deps_def)
  ultimately obtain job where j: "(wt_state sample_waiter, job) \<in> set (ag_jobs ?s)"
    and ex: "\<And>w. fair_world (rw_poll w) \<Longrightarrow> 1 \<le> cr_interval_s (jb_request job) \<Longrightarrow>
      rw_cancel_set w = pd_cancel (ag_states ?s ! wt_state sample_waiter) \<Longrightarrow> \<forall>n. pw_cancelled (rw_poll w) n \<longrightarrow> rw_cancel_set w \<Longrightarrow>
      \<exists>s' s''. agent_step sample_setup TYPE(unit) ?s (LJob job w) s' \<and> agent_step sample_setup TYPE(unit) s' LAwait s''"
    using waiting_await_is_answered [OF sample_new sample_reached_waiting, of sample_waiter] by blast
  have "job = sample_job" using j by (simp add: sample_s1_def)
  have "fair_world (rw_poll sample_run)" using sample_poll_fair by (simp add: sample_run_def)
  moreover have "1 \<le> cr_interval_s (jb_request job)" using \<open>job = sample_job\<close> by (simp add: sample_job_def sample_request_def)
  moreover have "rw_cancel_set sample_run = pd_cancel (ag_states ?s ! wt_state sample_waiter)"
    by (simp add: sample_run_def sample_s1_def sample_waiter_def new_pending_state_def)
  moreover have "\<forall>n. pw_cancelled (rw_poll sample_run) n \<longrightarrow> rw_cancel_set sample_run"
    by (simp add: sample_run_def sample_poll_def)
  ultimately show ?thesis using ex \<open>job = sample_job\<close> by blast
qed

section \<open>Who may act\<close>

text \<open>
  C39. Only a trusted orchestrator with a valid token moves an agent: a send, an await request
  or a cancel that changes anything but the key cache of the validation came with a bearer
  token that the validation accepted and whose actor chain is a single trusted actor.
\<close>

theorem a2a_authorised:
  assumes "message_send disp (tw :: 'k token_world) cfg fresh rq s = (r1, s')
    \<or> await_begin tw cfg rq s = (r2, s') \<or> a2a_cancel tw cfg rq s = (r3, s')"
    and "s' \<noteq> s\<lparr>ag_cache := ag_cache s'\<rparr>"
  shows "\<exists>claims. caller_accepted tw cfg (rq_authorization rq) (ag_cache s) claims"
  using assms message_send_cases [of disp tw cfg fresh rq s r1 s'] await_begin_cases [of tw cfg rq s r2 s']
    a2a_cancel_cases [of tw cfg rq s r3 s']
  by (elim disjE) (auto 0 3)

lemma a2a_authorised_witness:
  "\<exists>claims. caller_accepted sample_tw sample_a2a_config (Some ''Bearer alice'') (ag_cache sample_s1) claims"
proof -
  have b: "await_begin sample_tw sample_a2a_config sample_await sample_s1
      = (Inr sample_waiter, sample_s1\<lparr>ag_waiters := [sample_waiter]\<rparr>)"
    using sample_await_begin [of sample_s1] by (simp add: sample_s1_def sample_s0_def)
  have "sample_s1\<lparr>ag_waiters := [sample_waiter]\<rparr> \<noteq> sample_s1\<lparr>ag_cache := ag_cache (sample_s1\<lparr>ag_waiters := [sample_waiter]\<rparr>)\<rparr>"
    by (simp add: sample_s1_def sample_s0_def)
  from a2a_authorised [OF disjI2 [OF disjI1 [OF b]] this] show ?thesis by (simp add: sample_await_def)
qed

text \<open>
  An await is not tied to the user whose call started the consent: any accepted caller that
  names the request id is let to wait for the answer.
\<close>

lemma await_any_user:
  assumes "validate_token_and_peer tw cfg (rq_authorization rq) i (ag_cache s) = (Inr (Inr claims), cache')"
    and "read_envelope rq = Inr rpc" "rr_id rpc = i" "auth_req_param (rr_params rpc) = Some a" "ag_pending s a = Some k"
  shows "fst (await_begin tw cfg rq s) = Inr \<lparr>wt_id = i, wt_auth_req_id = a, wt_state = k\<rparr>"
  using assms by (simp add: await_begin_def Let_def)

section \<open>The tools and the routes\<close>

text \<open>The paths of the routes, and the scopes the agents ask for by default.\<close>

fun hr_call_name :: "hr_call \<Rightarrow> string" where
  "hr_call_name GetLeavePolicy = ''get_leave_policy''"
| "hr_call_name GetLeaveBalance = ''get_leave_balance''"
| "hr_call_name (GetLeaveHistory n) = ''get_leave_history''"
| "hr_call_name (ApproveLeave i) = ''approve_leave''"
| "hr_call_name (RejectLeave i w) = ''reject_leave''"
| "hr_call_name (ApplyLeave t s e w) = ''apply_leave''"
| "hr_call_name GetCubicleSummary = ''get_cubicle_summary''"
| "hr_call_name (GetVacantCubicles n) = ''get_vacant_cubicles_on_floor''"
| "hr_call_name GetMyCubicle = ''get_my_cubicle''"
| "hr_call_name (AssignCubicle c u e) = ''assign_cubicle''"
| "hr_call_name (LookupEmployee u) = ''lookup_employee''"
| "hr_call_name (GetAllLeaveRequests s n) = ''get_all_leave_requests''"

fun it_call_name :: "it_call \<Rightarrow> string" where
  "it_call_name (ListAvailableAssets t) = ''list_available_assets''"
| "it_call_name GetMyAssets = ''get_my_assets''"
| "it_call_name (IssueAsset a e) = ''issue_asset''"

definition hr_call_path :: "hr_call \<Rightarrow> string" where
  "hr_call_path c = tool_path (hr_call_name c)"

definition it_call_path :: "it_call \<Rightarrow> string" where
  "it_call_path c = tool_path (it_call_name c)"

definition hr_default_ciba_scope :: string where
  "hr_default_ciba_scope = ''openid hr_self_rest''"

definition it_default_ciba_scope :: string where
  "it_default_ciba_scope = ''openid it_assets_read_rest''"

lemma py_split_openid: "list_all (\<lambda>c. \<not> py_ws c) s \<Longrightarrow> s \<noteq> [] \<Longrightarrow> set (py_split (''openid '' @ s)) = {''openid'', s}"
  using py_split_join [of "[''openid'', s]"] by (auto simp: list_all_iff py_ws_def)

definition wide_enough :: "string \<Rightarrow> string \<Rightarrow> bool" where
  "wide_enough scope required = (required \<in> set (py_split scope))"

lemma wide_enough_openid [simp]:
  "list_all (\<lambda>c. \<not> py_ws c) s \<Longrightarrow> s \<noteq> [] \<Longrightarrow> wide_enough (CHR ''o'' # CHR ''p'' # CHR ''e'' # CHR ''n'' # CHR ''i'' # CHR ''d'' # CHR '' '' # s) s"
  using py_split_openid [of s] by (simp add: wide_enough_def)

lemma tool_path_inj [simp]: "tool_path a = tool_path b \<longleftrightarrow> a = b"
  by (simp add: tool_path_def)

lemma hr_registry_pairs:
  "hr_tool_registry tool = Some te \<Longrightarrow> (te_method te, te_scope te) \<in>
     {(''get_leave_policy'', Some ''openid hr_basic_rest''), (''get_leave_balance'', None), (''get_leave_history'', None),
      (''apply_leave'', Some ''openid hr_self_rest''), (''approve_leave'', Some ''openid hr_approve_rest''),
      (''reject_leave'', Some ''openid hr_approve_rest''), (''get_cubicle_summary'', Some ''openid hr_read_rest''),
      (''get_vacant_cubicles_on_floor'', Some ''openid hr_read_rest''), (''assign_cubicle'', Some ''openid hr_assets_write_rest''),
      (''lookup_employee'', Some ''openid hr_read_rest''), (''get_my_cubicle'', None), (''get_all_leaves'', Some ''openid hr_approve_rest'')}"
  unfolding hr_tool_registry_def entry_def by (drule sym) (simp split: if_splits)

lemma hr_request_path:
  "hr_mcp_request m kw = Inr (p, b) \<Longrightarrow> p = tool_path (if m = ''get_all_leaves'' then ''get_all_leave_requests'' else m)"
  by (simp add: hr_mcp_request_def call_method_def split: if_splits)

lemma hr_call_scope:
  "required_scope c = (if hr_call_name c = ''get_leave_policy'' then ''hr_basic_rest''
     else if hr_call_name c \<in> {''get_leave_balance'', ''get_leave_history'', ''apply_leave'', ''get_my_cubicle''} then ''hr_self_rest''
     else if hr_call_name c \<in> {''approve_leave'', ''reject_leave'', ''get_all_leave_requests''} then ''hr_approve_rest''
     else if hr_call_name c = ''assign_cubicle'' then ''hr_assets_write_rest'' else ''hr_read_rest'')"
  by (cases c) simp_all

lemma hr_scopes_fit:
  assumes "hr_tool_registry tool = Some te" "hr_mcp_request (te_method te) kwargs = Inr (hr_call_path call, body)"
    and "dd_ciba_scope deps = hr_default_ciba_scope"
  shows "wide_enough (effective_scope deps te) (required_scope call)"
proof -
  have n: "hr_call_name call = (if te_method te = ''get_all_leaves'' then ''get_all_leave_requests'' else te_method te)"
    using hr_request_path [OF assms(2)] by (simp only: hr_call_path_def tool_path_inj)
  show ?thesis
    using hr_registry_pairs [OF assms(1)] n assms(3)
    by (simp add: hr_call_scope effective_scope_def hr_default_ciba_scope_def)
       (elim disjE conjE; simp add: py_ws_def)
qed

lemma it_scopes_fit:
  assumes "it_tool_registry tool = Some te" "it_mcp_request (te_method te) kwargs = Inr (it_call_path call, body)"
    and "dd_ciba_scope deps = it_default_ciba_scope"
  shows "wide_enough (effective_scope deps te) (it_required_scope call)"
  using assms
  by (cases call)
     (auto simp: it_tool_registry_def entry_def it_mcp_request_def call_method_def it_call_path_def
        effective_scope_def it_default_ciba_scope_def py_ws_def split: if_splits)

text \<open>
  C40. The consents fit the servers: for every tool of the two agents, under their default
  scopes, the scope asked for at the identity server contains the scope that the route
  demands which the tool's MCP request is posted to.
\<close>

theorem agent_scopes_fit:
  "(hr_tool_registry tool = Some te \<longrightarrow> hr_mcp_request (te_method te) kwargs = Inr (hr_call_path call, body)
      \<longrightarrow> dd_ciba_scope deps = hr_default_ciba_scope \<longrightarrow> wide_enough (effective_scope deps te) (required_scope call))
   \<and> (it_tool_registry tool = Some te \<longrightarrow> it_mcp_request (te_method te) kwargs = Inr (it_call_path icall, body)
      \<longrightarrow> dd_ciba_scope deps = it_default_ciba_scope \<longrightarrow> wide_enough (effective_scope deps te) (it_required_scope icall))"
  using hr_scopes_fit [of tool te kwargs call body deps] it_scopes_fit [of tool te kwargs icall body deps] by blast

lemma agent_scopes_fit_witness:
  "wide_enough (effective_scope sample_deps (entry ''View your leave balance'' ''get_leave_balance'' (\<lambda>args. []) None))
     (required_scope GetLeaveBalance)"
  using agent_scopes_fit [of "''hr.read_balance''" "entry ''View your leave balance'' ''get_leave_balance'' (\<lambda>args. []) None"
      "[]" GetLeaveBalance "[]" sample_deps GetMyAssets]
  by (simp add: hr_tool_registry_def entry_def hr_mcp_request_def call_method_def pass_present_def pass_args_def hr_call_path_def
      sample_deps_def hr_default_ciba_scope_def)

end
