(* ===== verification/BclReceiver.thy ===== *)
theory BclReceiver
  imports Jwt LogoutHandler Denylist
begin

text \<open>
  \<open>orchestrator/auth/bcl_receiver.py\<close>: the back-channel logout receiver: the bounded set of
  seen logout tokens (the third provider of the \<open>fifo_store\<close> contract), the nine checks on
  a logout token, and the route that deduplicates, resolves the user and runs the
  cascade of \<open>LogoutHandler\<close>.
\<close>

section \<open>SeenLogoutTokens\<close>

record seen_tokens =
  sl_hard_cap :: int
  sl_sweep_interval_seconds :: int
  sl_iat_tolerance_seconds :: int
  sl_items :: "(string \<times> real) list"

definition iat_tolerance :: int where
  "iat_tolerance = 300"

definition new_seen_tokens :: seen_tokens where
  "new_seen_tokens =
     \<lparr>sl_hard_cap = 10000, sl_sweep_interval_seconds = 60, sl_iat_tolerance_seconds = iat_tolerance, sl_items = []\<rparr>"

definition seen_contains :: "seen_tokens \<Rightarrow> string \<Rightarrow> bool" where
  "seen_contains d jti = (jti \<in> set (od_keys (sl_items d)))"

definition seen_len :: "seen_tokens \<Rightarrow> nat" where
  "seen_len d = length (sl_items d)"

definition seen_add :: "seen_tokens \<Rightarrow> string \<Rightarrow> real \<Rightarrow> seen_tokens option" where
  "seen_add d jti iat =
     (if jti \<in> set (od_keys (sl_items d))
      then Some (d\<lparr>sl_items := AList.update jti iat (od_move_to_end jti (sl_items d))\<rparr>)
      else if sl_hard_cap d \<le> int (length (sl_items d))
      then (case od_popitem_first (sl_items d) of
              None \<Rightarrow> None
            | Some (_, rest) \<Rightarrow> Some (d\<lparr>sl_items := AList.update jti iat rest\<rparr>))
      else Some (d\<lparr>sl_items := AList.update jti iat (sl_items d)\<rparr>))"

definition seen_sweep_once :: "real \<Rightarrow> seen_tokens \<Rightarrow> seen_tokens \<times> nat" where
  "seen_sweep_once now d =
     (let cutoff = now - of_int (sl_iat_tolerance_seconds d);
          expired = map fst (filter (\<lambda>(j, iat). iat < cutoff) (sl_items d))
      in (d\<lparr>sl_items := fold AList.delete expired (sl_items d)\<rparr>, length expired))"

text \<open>\<open>sweep_loop\<close>, over the outcomes of its sleeps.\<close>

fun seen_sweep_loop :: "wake list \<Rightarrow> seen_tokens \<Rightarrow> seen_tokens \<times> bool" where
  "seen_sweep_loop [] d = (d, False)"
| "seen_sweep_loop (CancelledError # ws) d = (d, True)"
| "seen_sweep_loop (Woke now # ws) d = seen_sweep_loop ws (fst (seen_sweep_once now d))"

lemma seen_add_items:
  assumes "seen_add d k v = Some d'" "distinct (map fst (sl_items d))"
  shows "sl_items d' = fifo_spec (sl_hard_cap d) k v (sl_items d)"
proof (cases "k \<in> fst ` set (sl_items d)")
  case True
  with assms show ?thesis by (auto simp: seen_add_def od_keys_def fifo_spec_def move_update_spec)
next
  case False
  with assms show ?thesis
    by (auto simp: seen_add_def od_keys_def fifo_spec_def od_popitem_first_def update_new
        split: if_splits list.splits)
qed

lemma seen_add_frame:
  "seen_add d k v = Some d' \<Longrightarrow> sl_hard_cap d' = sl_hard_cap d
     \<and> sl_iat_tolerance_seconds d' = sl_iat_tolerance_seconds d"
  by (auto simp: seen_add_def split: if_splits option.splits)

lemma seen_add_total: "0 < sl_hard_cap d \<Longrightarrow> \<exists>d'. seen_add d k v = Some d'"
  by (auto simp: seen_add_def od_popitem_first_def split: list.splits)

lemma seen_sweep_items:
  "distinct (map fst (sl_items d)) \<Longrightarrow> sl_items (fst (seen_sweep_once t d)) =
     filter (\<lambda>(k, v). \<not> v < t - of_int (sl_iat_tolerance_seconds d)) (sl_items d)"
  using expired_keys_filter [of "sl_items d" "\<lambda>e. e < t - of_int (sl_iat_tolerance_seconds d)"]
  by (simp add: seen_sweep_once_def Let_def fold_delete_filter)

lemma seen_sweep_frame:
  "sl_hard_cap (fst (seen_sweep_once t d)) = sl_hard_cap d"
  "sl_iat_tolerance_seconds (fst (seen_sweep_once t d)) = sl_iat_tolerance_seconds d"
  by (simp_all add: seen_sweep_once_def Let_def)

lemma seen_sweep_count:
  "distinct (map fst (sl_items d)) \<Longrightarrow>
     length (filter (\<lambda>(k, v). \<not> v < t - of_int (sl_iat_tolerance_seconds d)) (sl_items d))
       + snd (seen_sweep_once t d) = length (sl_items d)"
  using length_filter_split [of "\<lambda>v. v < t - of_int (sl_iat_tolerance_seconds d)" "sl_items d"]
  by (simp add: seen_sweep_once_def Let_def)

interpretation seen: fifo_store seen_add seen_sweep_once sl_items sl_hard_cap
  "\<lambda>d t v. v < t - of_int (sl_iat_tolerance_seconds d)"
  by unfold_locales
     (auto simp: seen_add_items seen_sweep_items seen_add_total seen_sweep_count seen_sweep_frame
       dest: seen_add_frame)

lemma seen_contains_iff: "seen_contains d j \<longleftrightarrow> j \<in> fst ` set (sl_items d)"
  by (simp add: seen_contains_def od_keys_def)

section \<open>The nine checks\<close>

datatype bcl_exn = BclInvalid string | BclCrash string

record logout_claims =
  lt_jti :: string
  lt_iat :: real
  lt_iss :: string
  lt_aud :: string
  lt_sub :: "string option"
  lt_sid :: "string option"
  lt_raw :: pydict

definition bcl_events_uri :: string where
  "bcl_events_uri = ''http://schemas.openid.net/event/backchannel-logout''"

text \<open>The header checks, up to the \<open>kid\<close>.\<close>

definition bcl_header :: "jwt_err + pydict \<Rightarrow> bcl_exn + py" where
  "bcl_header h =
     (case h of
        Inl DecodeError \<Rightarrow> Inl (BclInvalid ''malformed_jwt_header'')
      | Inl InvalidSignatureError \<Rightarrow> Inl (BclInvalid ''malformed_jwt_header'')
      | Inl _ \<Rightarrow> Inl (BclCrash ''InvalidTokenError'')
      | Inr header \<Rightarrow>
          if pyget header ''alg'' \<noteq> PStr ''RS256'' then Inl (BclInvalid ''alg_not_allowed'')
          else if pyget header ''typ'' \<noteq> PNone \<and> pyget header ''typ'' \<noteq> PStr ''logout+jwt''
          then Inl (BclInvalid ''typ_not_logout_jwt'')
          else if \<not> truthy (pyget_or header ''kid'' (PStr [])) then Inl (BclInvalid ''missing_kid'')
          else Inr (pyget_or header ''kid'' (PStr [])))"

text \<open>\<open>{aud} if isinstance(aud, str) else set(aud or [])\<close>.\<close>

definition bcl_aud_set :: "py \<Rightarrow> bcl_exn + py list" where
  "bcl_aud_set aud =
     (case aud of
        PStr s \<Rightarrow> Inr [aud]
      | PList xs \<Rightarrow> if \<exists>x \<in> set xs. unhashable x then Inl (BclCrash ''TypeError'') else Inr xs
      | PDict d \<Rightarrow> Inr (map (PStr \<circ> fst) d)
      | _ \<Rightarrow> if truthy aud then Inl (BclCrash ''TypeError'') else Inr [])"

text \<open>\<open>isinstance(x, (int, float))\<close> with the value; a bool is an int.\<close>

definition as_number :: "py \<Rightarrow> real option" where
  "as_number v = (case v of PInt i \<Rightarrow> Some (of_int i) | PFloat r \<Rightarrow> Some r
     | PBool b \<Rightarrow> Some (if b then 1 else 0) | _ \<Rightarrow> None)"

definition nonempty_str :: "py \<Rightarrow> string option" where
  "nonempty_str v = (case v of PStr s \<Rightarrow> if s = [] then None else Some s | _ \<Rightarrow> None)"

text \<open>Checks 4 to 9 and the id, on the decoded payload.\<close>

definition bcl_payload :: "string \<Rightarrow> string \<Rightarrow> real \<Rightarrow> pydict \<Rightarrow> bcl_exn + logout_claims" where
  "bcl_payload expected_iss expected_aud now p =
     (if pyget p ''iss'' \<noteq> PStr expected_iss then Inl (BclInvalid ''iss_mismatch'')
      else case bcl_aud_set (pyget p ''aud'') of
        Inl e \<Rightarrow> Inl e
      | Inr auds \<Rightarrow>
         if PStr expected_aud \<notin> set auds then Inl (BclInvalid ''aud_mismatch'')
         else (case as_number (pyget p ''iat'') of
            None \<Rightarrow> Inl (BclInvalid ''iat_missing_or_invalid'')
          | Some iat \<Rightarrow>
             if now + 30 < iat then Inl (BclInvalid ''iat_in_future'')
             else if iat + of_int iat_tolerance < now then Inl (BclInvalid ''iat_too_old'')
             else if \<not> (case pyget p ''events'' of PDict ev \<Rightarrow> map_of ev bcl_events_uri \<noteq> None | _ \<Rightarrow> False)
             then Inl (BclInvalid ''events_claim_missing_bcl_uri'')
             else if map_of p ''nonce'' \<noteq> None then Inl (BclInvalid ''nonce_must_be_absent'')
             else
               (let sub = nonempty_str (pyget p ''sub''); sid = nonempty_str (pyget p ''sid'')
                in if sub = None \<and> sid = None then Inl (BclInvalid ''sub_and_sid_both_missing'')
                   else (case nonempty_str (pyget p ''jti'') of
                      None \<Rightarrow> Inl (BclInvalid ''jti_missing'')
                    | Some jti \<Rightarrow>
                        Inr \<lparr>lt_jti = jti, lt_iat = iat, lt_iss = expected_iss, lt_aud = expected_aud,
                             lt_sub = sub, lt_sid = sid, lt_raw = p\<rparr>))))"

text \<open>
  \<open>decode_logout\<close> is \<open>jwt.decode\<close> with the options of this module: the signature is
  verified, issuer, audience and times are not.
\<close>

definition validate_logout_token ::
  "'k pyjwt \<Rightarrow> (string \<Rightarrow> 'k \<Rightarrow> jwt_err + pydict) \<Rightarrow> jwks_net \<Rightarrow> real \<Rightarrow> real \<Rightarrow> string \<Rightarrow> string \<Rightarrow> string
     \<Rightarrow> jwks_cache \<Rightarrow> (bcl_exn + logout_claims) \<times> jwks_cache"
where
  "validate_logout_token J decode_logout net mt now raw_token expected_iss expected_aud cache =
     (case bcl_header (j_header J raw_token) of
        Inl e \<Rightarrow> (Inl e, cache)
      | Inr kid \<Rightarrow>
         (case jwks_get_key net mt kid cache of
            (Inl e, cache') \<Rightarrow>
              (Inl (if raised_as e JWTValidationError then BclInvalid ''unknown_kid'' else BclCrash (exn_id e)), cache')
          | (Inr jwk, cache') \<Rightarrow>
             (case j_from_jwk J jwk of
                None \<Rightarrow> (Inl (BclInvalid ''jwk_unparseable''), cache')
              | Some key \<Rightarrow>
                 (case decode_logout raw_token key of
                    Inl e \<Rightarrow> (Inl (BclInvalid (if e = InvalidSignatureError then ''bad_signature'' else ''jwt_decode_failed'')), cache')
                  | Inr p \<Rightarrow> (bcl_payload expected_iss expected_aud now p, cache')))))"

section \<open>The route\<close>

record bcl_config =
  bc_expected_iss :: string
  bc_expected_aud :: string
  bc_logout :: logout_config

record bcl_state =
  bs_cache :: jwks_cache
  bs_seen :: seen_tokens
  bs_store :: session_store

datatype bcl_reply =
    BclBadRequest string
  | BclDeduped
  | BclNoSession
  | BclOk bool
  | BclServerError

text \<open>\<open>form\<close> is the parsed body, \<open>None\<close> when the body is not UTF-8.\<close>

definition bcl_form_token :: "string \<Rightarrow> (string \<times> string) list option \<Rightarrow> string + string" where
  "bcl_form_token content_type form =
     (if py_lower (py_strip (hd (split_once (CHR '';'') content_type))) \<noteq> ''application/x-www-form-urlencoded''
      then Inl ''bad_content_type''
      else case form of
        None \<Rightarrow> Inl ''body_not_utf8''
      | Some f \<Rightarrow>
         (case map_of f ''logout_token'' of
            None \<Rightarrow> Inl ''missing_logout_token''
          | Some t \<Rightarrow> if t = [] then Inl ''missing_logout_token'' else Inr t))"

definition bcl_cascade ::
  "bcl_config \<Rightarrow> logout_env \<Rightarrow> string \<Rightarrow> string \<Rightarrow> bcl_state \<Rightarrow> bcl_reply \<times> bcl_state \<times> logout_action list"
where
  "bcl_cascade cfg env rid user_sub b =
     (case execute_for_user_sub (bc_logout cfg) env user_sub rid ''admin_terminated'' (bs_store b) of
        (Inl e, st, tr) \<Rightarrow> (BclServerError, b\<lparr>bs_store := st\<rparr>, tr)
      | (Inr r, st, tr) \<Rightarrow> (BclOk (lr_had_session r), b\<lparr>bs_store := st\<rparr>, tr))"

definition backchannel_logout ::
  "bcl_config \<Rightarrow> 'k pyjwt \<Rightarrow> (string \<Rightarrow> 'k \<Rightarrow> jwt_err + pydict) \<Rightarrow> jwks_net \<Rightarrow> real \<Rightarrow> logout_env \<Rightarrow> string
     \<Rightarrow> string \<Rightarrow> (string \<times> string) list option \<Rightarrow> bcl_state \<Rightarrow> bcl_reply \<times> bcl_state \<times> logout_action list"
where
  "backchannel_logout cfg J decode_logout net mt env rid content_type form b =
     (case bcl_form_token content_type form of
        Inl d \<Rightarrow> (BclBadRequest d, b, [])
      | Inr tok \<Rightarrow>
         (let (v, cache') = validate_logout_token J decode_logout net mt (le_now env) tok
                              (bc_expected_iss cfg) (bc_expected_aud cfg) (bs_cache b);
              b1 = b\<lparr>bs_cache := cache'\<rparr>
          in case v of
               Inl (BclInvalid reason) \<Rightarrow> (BclBadRequest reason, b1, [])
             | Inl (BclCrash n) \<Rightarrow> (BclServerError, b1, [])
             | Inr claims \<Rightarrow>
                if seen_contains (bs_seen b1) (lt_jti claims) then (BclDeduped, b1, [])
                else (case seen_add (bs_seen b1) (lt_jti claims) (lt_iat claims) of
                   None \<Rightarrow> (BclServerError, b1, [])
                 | Some seen' \<Rightarrow>
                    (let b2 = b1\<lparr>bs_seen := seen'\<rparr>
                     in case lt_sub claims of
                          Some user_sub \<Rightarrow> bcl_cascade cfg env rid user_sub b2
                        | None \<Rightarrow>
                           (case lt_sid claims of
                              None \<Rightarrow> (BclServerError, b2, [])
                            | Some sid \<Rightarrow>
                               (case resolve_sid sid (bs_store b2) of
                                  None \<Rightarrow> (BclNoSession, b2, [])
                                | Some user_sub \<Rightarrow> bcl_cascade cfg env rid user_sub b2))))))"

section \<open>Facts\<close>

definition bcl_events_ok :: "pydict \<Rightarrow> bool" where
  "bcl_events_ok p = (case pyget p ''events'' of PDict ev \<Rightarrow> map_of ev bcl_events_uri \<noteq> None | _ \<Rightarrow> False)"

lemma nonempty_str_iff: "nonempty_str v = Some s \<longleftrightarrow> v = PStr s \<and> s \<noteq> []"
  by (cases v) (auto simp: nonempty_str_def)

lemma bcl_payload_ok:
  assumes "bcl_payload iss aud now p = Inr c"
  shows "pyget p ''iss'' = PStr iss"
    and "\<exists>auds. bcl_aud_set (pyget p ''aud'') = Inr auds \<and> PStr aud \<in> set auds"
    and "as_number (pyget p ''iat'') = Some (lt_iat c)"
    and "lt_iat c \<le> now + 30" and "now \<le> lt_iat c + of_int iat_tolerance"
    and "bcl_events_ok p" and "map_of p ''nonce'' = None"
    and "lt_sub c \<noteq> None \<or> lt_sid c \<noteq> None"
    and "pyget p ''jti'' = PStr (lt_jti c)" and "lt_jti c \<noteq> []"
  using assms
  by (auto simp: bcl_payload_def bcl_events_ok_def Let_def nonempty_str_iff not_less
      split: if_splits sum.splits option.splits)

lemma validate_logout_token_ok:
  assumes "validate_logout_token J dl net mt now tok iss aud cache = (Inr c, cache')"
  obtains header kid jwk key p where
    "j_header J tok = Inr header" "pyget header ''alg'' = PStr ''RS256''"
    "pyget header ''typ'' \<in> {PNone, PStr ''logout+jwt''}"
    "map_of (jc_keys cache') kid = Some jwk" "j_from_jwk J jwk = Some key"
    "dl tok key = Inr p" "bcl_payload iss aud now p = Inr c"
    "truthy kid" "kid = pyget header ''kid''" "keys_served net cache cache'"
proof -
  have g: "pyget_or header ''kid'' (PStr []) = pyget header ''kid''" if "truthy (pyget_or header ''kid'' (PStr []))" for header
    using that by (auto simp: pyget_or_def pyget_def split: option.splits)
  obtain header where h: "j_header J tok = Inr header" "pyget header ''alg'' = PStr ''RS256''"
    "pyget header ''typ'' \<in> {PNone, PStr ''logout+jwt''}" "truthy (pyget_or header ''kid'' (PStr []))"
    and bh: "bcl_header (j_header J tok) = Inr (pyget_or header ''kid'' (PStr []))"
    using assms
    by (cases "j_header J tok")
       (auto simp: validate_logout_token_def bcl_header_def split: if_splits jwt_err.splits sum.splits)
  moreover obtain jwk key p where "jwks_get_key net mt (pyget_or header ''kid'' (PStr [])) cache = (Inr jwk, cache')"
    "j_from_jwk J jwk = Some key" "dl tok key = Inr p" "bcl_payload iss aud now p = Inr c"
    using assms unfolding validate_logout_token_def bh by (auto split: sum.splits prod.splits option.splits)
  ultimately show thesis
    using that [of header "pyget header ''kid''" jwk key p] jwks_get_key_found jwks_get_key_served g by metis
qed

text \<open>Whom a token names: its subject, or else the user its session id leads to.\<close>

definition bcl_user :: "logout_claims \<Rightarrow> session_store \<Rightarrow> string option" where
  "bcl_user c st = (case lt_sub c of Some u \<Rightarrow> Some u | None \<Rightarrow> Option.bind (lt_sid c) (\<lambda>sid. resolve_sid sid st))"

lemma bcl_payload_user:
  assumes "bcl_payload iss aud now p = Inr c" "bcl_user c st = Some u"
  shows "pyget p ''sub'' = PStr u \<and> u \<noteq> []
    \<or> nonempty_str (pyget p ''sub'') = None \<and> (\<exists>sid. sid \<noteq> [] \<and> pyget p ''sid'' = PStr sid \<and> resolve_sid sid st = Some u)"
proof -
  have "lt_sub c = nonempty_str (pyget p ''sub'')" "lt_sid c = nonempty_str (pyget p ''sid'')"
    using assms(1) by (auto simp: bcl_payload_def Let_def split: if_splits sum.splits option.splits)
  then show ?thesis using assms(2) by (auto simp: bcl_user_def nonempty_str_iff split: option.splits Option.bind_splits)
qed

text \<open>Only an accepted, new token reaches the sessions.\<close>

lemma backchannel_cases:
  assumes "backchannel_logout cfg J dl net mt env rid ct form b = (r, b', tr)"
  obtains (untouched) "bs_store b' = bs_store b" "tr = []"
      "bs_seen b' = bs_seen b" "\<forall>h. r \<noteq> BclOk h" "r \<noteq> BclNoSession"
    | (accepted) tok c cache' seen' b2 where "bcl_form_token ct form = Inr tok"
      "validate_logout_token J dl net mt (le_now env) tok (bc_expected_iss cfg) (bc_expected_aud cfg) (bs_cache b) = (Inr c, cache')"
      "\<not> seen_contains (bs_seen b) (lt_jti c)" "seen_add (bs_seen b) (lt_jti c) (lt_iat c) = Some seen'"
      "bs_seen b' = seen'" "b2 = b\<lparr>bs_cache := cache', bs_seen := seen'\<rparr>"
      "(r, b', tr) \<in> {(BclServerError, b2, []), (BclNoSession, b2, [])}
       \<or> (\<exists>u. bcl_user c (bs_store b) = Some u \<and> (r, b', tr) = bcl_cascade cfg env rid u b2)"
proof (cases "bcl_form_token ct form")
  case (Inl d)
  then show thesis using assms untouched by (auto simp: backchannel_logout_def)
next
  case (Inr tok)
  obtain v cache' where v: "validate_logout_token J dl net mt (le_now env) tok (bc_expected_iss cfg)
      (bc_expected_aud cfg) (bs_cache b) = (v, cache')" by force
  show thesis
  proof (cases v)
    case (Inl e)
    then show thesis using assms untouched Inr v by (cases e) (auto simp: backchannel_logout_def)
  next
    case c: (Inr c)
    show thesis
    proof (cases "seen_contains (bs_seen b) (lt_jti c) \<or> seen_add (bs_seen b) (lt_jti c) (lt_iat c) = None")
      case True
      then show thesis using assms untouched Inr v c
        by (auto simp: backchannel_logout_def Let_def split: if_splits)
    next
      case False
      then obtain seen' where s: "seen_add (bs_seen b) (lt_jti c) (lt_iat c) = Some seen'" by auto
      let ?b2 = "b\<lparr>bs_cache := cache', bs_seen := seen'\<rparr>"
      have "(r, b', tr) \<in> {(BclServerError, ?b2, []), (BclNoSession, ?b2, [])}
          \<or> (\<exists>u. bcl_user c (bs_store b) = Some u \<and> (r, b', tr) = bcl_cascade cfg env rid u ?b2)"
        using assms False s Inr v c
        by (auto simp: backchannel_logout_def bcl_user_def Let_def split: option.splits)
      moreover have "bs_seen bb = seen'" if "(rr, bb, t) = bcl_cascade cfg env rid u ?b2" for rr bb t u
        using that by (auto simp: bcl_cascade_def split: prod.splits sum.splits)
      then have "bs_seen b' = seen'" using calculation by auto
      ultimately show thesis using accepted Inr v [unfolded c] False s by blast
    qed
  qed
qed

text \<open>A repeated token is acknowledged without effect.\<close>

lemma backchannel_dedup:
  assumes "bcl_form_token ct form = Inr tok"
    and "validate_logout_token J dl net mt (le_now env) tok (bc_expected_iss cfg) (bc_expected_aud cfg) (bs_cache b) = (Inr c, cache')"
    and "seen_contains (bs_seen b) (lt_jti c)"
  shows "backchannel_logout cfg J dl net mt env rid ct form b = (BclDeduped, b\<lparr>bs_cache := cache'\<rparr>, [])"
  using assms by (simp add: backchannel_logout_def)

lemma seen_add_contains: "seen_add d k v = Some d' \<Longrightarrow> distinct (map fst (sl_items d)) \<Longrightarrow> seen_contains d' k"
  by (drule (1) seen.put_member, drule map_of_SomeD) (force simp: seen_contains_iff)

text \<open>The set keeps a token for as long as the freshness check accepts it.\<close>

lemma seen_kept_while_fresh:
  assumes "seen_add d k iat = Some d1" "distinct (map fst (sl_items d))" "sl_iat_tolerance_seconds d = iat_tolerance"
    and "fifo_run seen_add seen_sweep_once d1 ops = Some d2"
    and "int (length (filter is_put ops)) < sl_hard_cap d"
    and "\<And>t. FSweep t \<in> set ops \<Longrightarrow> t \<le> iat + of_int iat_tolerance"
    and "\<And>v. FPut k v \<in> set ops \<Longrightarrow> v = iat"
  shows "seen_contains d2 k"
  unfolding seen_contains_iff
proof (rule seen.put_retained [OF assms(1,2,4,5)])
  fix t assume "FSweep t \<in> set ops"
  then show "\<not> iat < t - of_int (sl_iat_tolerance_seconds d)" using assms(3) assms(6) [of t] by simp
next
  fix t v assume "FSweep t \<in> set ops" "FPut k v \<in> set ops"
  then show "\<not> v < t - of_int (sl_iat_tolerance_seconds d)" using assms(3) assms(6) [of t] assms(7) [of v] by simp
qed

end
