(* ===== verification/LogoutProps.thy ===== *)
theory LogoutProps
  imports BclReceiver
begin

text \<open>
  The properties of the logout cascade, of the store of logout reasons and of the
  back-channel logout receiver, with the sample data of their witnesses.
\<close>

section \<open>Samples\<close>

definition sample_token :: oauth_token where
  "sample_token = \<lparr>access_token = PStr ''ta'', token_type = PStr ''Bearer'', expires_in = 3600, expires_at = 5000,
     refresh_token = PNone, token_scope = PStr ''openid'', id_token = PStr ''idt''\<rparr>"

definition sample_session :: "string \<Rightarrow> string \<Rightarrow> session" where
  "sample_session i u = \<lparr>s_session_id = i, s_user_sub = u, s_user_label = u, s_token_a = sample_token,
     s_pkce_state = None, s_code_verifier = None, s_sse_queue = [],
     s_pending_ciba = [(''q1'', new_pending_ciba ''q1'' ''hr_agent'' ''r1'' 900)], s_cached_obo = [],
     s_completed_ciba_log = [\<lparr>tr_session_id = i, tr_agent_id = ''hr_agent'', tr_jti = ''j1'', tr_exp = 2000,
        tr_iat = 1000, tr_auth_req_id = ''q0''\<rparr>],
     s_created_at = 900, s_last_seen_at = 950, s_terminating = False, s_last_logout_reason = None, s_chat_history = []\<rparr>"

definition sample_store :: session_store where
  "sample_store = new_session_store\<lparr>ss_sessions := [(''s1'', sample_session ''s1'' ''alice''), (''s2'', sample_session ''s2'' ''bob'')]\<rparr>"

definition sample_env :: "revoke_reply \<Rightarrow> logout_env" where
  "sample_env r = \<lparr>le_revoke = \<lambda>_. r, le_has_client = True, le_now = 1000, le_state_nonce = ''n''\<rparr>"

definition sample_logout_config :: logout_config where
  "sample_logout_config = \<lparr>lc_is_base_url = ''is'', lc_mcp_client_id = ''mcp'', lc_post_logout_redirect_uri = ''home''\<rparr>"

lemma sample_store_ok: "store_ok sample_store" "0 < ss_reasons_hard_cap sample_store"
  by (simp_all add: sample_store_def store_ok_def sample_session_def new_session_store_def)

lemma sample_user_sessions:
  "find_sessions_for_user ''alice'' sample_store = [sample_session ''s1'' ''alice'']"
  by (simp add: find_sessions_for_user_def sample_store_def sample_session_def)

section \<open>The cascade\<close>

text \<open>
  C14. The logout cascade completes whenever every revocation at the identity server is
  answered by a status or an HTTP error, whatever the status; it then has removed exactly
  the sessions of the user.
\<close>

theorem logout_removes_user_sessions:
  assumes "store_ok st" and "0 < ss_reasons_hard_cap st"
    and "\<forall>s \<in> set (find_sessions_for_user (s_user_sub initiator) st).
       \<exists>c. le_revoke env (s_session_id s) \<in> {RevokeStatus c, RevokeHttpError}"
  shows "\<exists>res st' tr. logout_execute cfg env initiator rid reason st = (Inr res, st', tr)
    \<and> ss_sessions st' = filter (\<lambda>(i, s). s_user_sub s \<noteq> s_user_sub initiator) (ss_sessions st)
    \<and> find_sessions_for_user (s_user_sub initiator) st' = []
    \<and> (lr_had_session res \<longleftrightarrow> find_sessions_for_user (s_user_sub initiator) st \<noteq> [])"
proof -
  obtain res st' tr where r: "execute_locked cfg env initiator rid reason st = (Inr res, st', tr)"
    using execute_locked_succeeds [OF assms(2,3)] by blast
  note d = execute_locked_done [OF assms(1) r]
  have "find_sessions_for_user (s_user_sub initiator) st' = []"
    by (auto simp: find_sessions_for_user_def d(1) filter_empty_conv)
  with r d(1,3) show ?thesis by (simp add: logout_execute_def)
qed

lemma logout_removes_user_sessions_witness:
  "\<exists>res st' tr. logout_execute sample_logout_config (sample_env (RevokeStatus 503)) (sample_session ''s1'' ''alice'') ''r''
       ''user_signed_out'' sample_store = (Inr res, st', tr)
     \<and> ss_sessions st' = [(''s2'', sample_session ''s2'' ''bob'')]"
proof -
  have "\<forall>s \<in> set (find_sessions_for_user (s_user_sub (sample_session ''s1'' ''alice'')) sample_store).
       \<exists>c. le_revoke (sample_env (RevokeStatus 503)) (s_session_id s) \<in> {RevokeStatus c, RevokeHttpError}"
    by (simp add: sample_env_def)
  from logout_removes_user_sessions [OF sample_store_ok this, of sample_logout_config "''r''" "''user_signed_out''"]
  show ?thesis by (auto simp: sample_store_def sample_session_def)
qed

text \<open>
  The order of a completed cascade: first every session of the user is marked, then,
  session by session, its pending consents are cancelled, its own token is revoked, every
  logged token id is fanned out, the browser is told, the reason is kept, and only then the
  session is dropped.
\<close>

theorem logout_trace:
  assumes "store_ok st" and "logout_execute cfg env initiator rid reason st = (Inr res, st', tr)"
  shows "tr = map (\<lambda>s. SetTerminating (s_session_id s)) (find_sessions_for_user (s_user_sub initiator) st)
     @ concat (map (\<lambda>s.
         map (\<lambda>(k, p). SetCancelEvent (s_session_id s) (pc_auth_req_id p)) (s_pending_ciba s)
         @ [RevokeTokenA (s_session_id s) (access_token (s_token_a s))]
         @ (if le_has_client env
            then map (\<lambda>r. FanOutJti (s_session_id s) (tr_jti r) (s_user_sub initiator) (of_int (tr_exp r)) reason)
                   (s_completed_ciba_log s) else [])
         @ (if reason \<in> {''user_signed_out'', ''admin_terminated''}
            then [PushSse (s_session_id s) (SessionTerminatedEvent reason rid), RecordReason (s_user_sub initiator) reason]
            else [])
         @ [DropSession (s_session_id s)]) (find_sessions_for_user (s_user_sub initiator) st))"
proof -
  have "session_trace env (s_user_sub initiator) rid reason (mark_terminating s) =
     map (\<lambda>(k, p). SetCancelEvent (s_session_id s) (pc_auth_req_id p)) (s_pending_ciba s)
         @ [RevokeTokenA (s_session_id s) (access_token (s_token_a s))]
         @ (if le_has_client env
            then map (\<lambda>r. FanOutJti (s_session_id s) (tr_jti r) (s_user_sub initiator) (of_int (tr_exp r)) reason)
                   (s_completed_ciba_log s) else [])
         @ (if reason \<in> {''user_signed_out'', ''admin_terminated''}
            then [PushSse (s_session_id s) (SessionTerminatedEvent reason rid), RecordReason (s_user_sub initiator) reason]
            else [])
         @ [DropSession (s_session_id s)]"
    if "s \<in> set (find_sessions_for_user (s_user_sub initiator) st)" for s
    using that by (auto simp: session_trace_def mark_terminating_def fan_out_log_def known_reason_def
        find_sessions_for_user_iff)
  then show ?thesis
    unfolding execute_locked_done(2) [OF assms(1) assms(2) [unfolded logout_execute_def]] map_map comp_def
    by (intro arg_cong [where f = "\<lambda>x. _ @ concat x"] map_cong) auto
qed

lemma logout_trace_witness:
  "\<exists>res st'. logout_execute sample_logout_config (sample_env RevokeHttpError) (sample_session ''s1'' ''alice'') ''r''
     ''user_signed_out'' sample_store
   = (Inr res, st', [SetTerminating ''s1'', SetCancelEvent ''s1'' ''q1'', RevokeTokenA ''s1'' (PStr ''ta''),
        FanOutJti ''s1'' ''j1'' ''alice'' 2000 ''user_signed_out'',
        PushSse ''s1'' (SessionTerminatedEvent ''user_signed_out'' ''r''), RecordReason ''alice'' ''user_signed_out'',
        DropSession ''s1''])"
proof -
  have "\<forall>s \<in> set (find_sessions_for_user (s_user_sub (sample_session ''s1'' ''alice'')) sample_store).
       \<exists>c. le_revoke (sample_env RevokeHttpError) (s_session_id s) \<in> {RevokeStatus c, RevokeHttpError}"
    by (simp add: sample_env_def)
  then obtain res st' tr where e: "logout_execute sample_logout_config (sample_env RevokeHttpError) (sample_session ''s1'' ''alice'')
      ''r'' ''user_signed_out'' sample_store = (Inr res, st', tr)"
    using execute_locked_succeeds [OF sample_store_ok(2)] unfolding logout_execute_def by blast
  have u: "s_user_sub (sample_session ''s1'' ''alice'') = ''alice''" by (simp add: sample_session_def)
  have "tr = [SetTerminating ''s1'', SetCancelEvent ''s1'' ''q1'', RevokeTokenA ''s1'' (PStr ''ta''),
        FanOutJti ''s1'' ''j1'' ''alice'' 2000 ''user_signed_out'',
        PushSse ''s1'' (SessionTerminatedEvent ''user_signed_out'' ''r''), RecordReason ''alice'' ''user_signed_out'',
        DropSession ''s1'']"
    unfolding logout_trace [OF sample_store_ok(1) e] u sample_user_sessions
    by (simp add: sample_session_def sample_env_def sample_token_def new_pending_ciba_def)
  with e show ?thesis by blast
qed

text \<open>
  The store of pending logout reasons never holds more than its cap, each user once,
  over any sequence of recordings and sweeps; recording never fails.
\<close>

theorem logout_reasons_bounded:
  "\<exists>st. fifo_run (\<lambda>st k v. record_pending_logout_reason k (fst v) (snd v) st) sweep_pending_logout_reasons new_session_store ops = Some st
     \<and> length (ss_pending_logout_reasons st) \<le> 10000 \<and> distinct (map fst (ss_pending_logout_reasons st))"
proof -
  have n: "ss_reasons_hard_cap new_session_store = 10000" "ss_pending_logout_reasons new_session_store = []"
    by (simp_all add: new_session_store_def)
  obtain st where st: "fifo_run (\<lambda>st k v. record_pending_logout_reason k (fst v) (snd v) st) sweep_pending_logout_reasons
      new_session_store ops = Some st"
    using reasons.run_total [of new_session_store ops] n by auto
  then show ?thesis using reasons.run_bounded [OF st] n by auto
qed

end
