(* ===== verification/ReportProps.thy ===== *)
theory ReportProps
  imports Reports RestProps AgentFlowProps LogoutProps
begin

text \<open>
  The properties of the reports: what a browser gets is what the HR server answers for the
  session's own token, and a review it asks for becomes exactly one call of the HR agent.
\<close>

section \<open>The HR server as the backend of the proxy\<close>

text \<open>The GET routes of the HR server that the proxy uses, from the path and the query of a URL.\<close>

definition hr_get_call :: "string \<Rightarrow> hr_rest_call option" where
  "hr_get_call target =
     (let parts = split_once (CHR 0x3F) target; path = hd parts;
          query = (case parts of p # q # _ \<Rightarrow> q | _ \<Rightarrow> [])
      in if path = ''/api/me/leaves'' then Some RestMyLeaves
         else if path = ''/api/me/cubicle'' then Some RestMyCubicle
         else if path = ''/api/reports/leave-requests''
         then Some (RestLeaveReport (map_of (rev (parse_query query)) ''status''))
         else if path = ''/api/reports/cubicle-assignments'' then Some RestCubicleReport
         else None)"

text \<open>The reply on the wire; \<open>enc\<close> is the JSON of an answer, and a 500 of the framework is no JSON.\<close>

fun upstream_of :: "('a \<Rightarrow> py) \<Rightarrow> 'a rest \<Rightarrow> upstream" where
  "upstream_of enc (RestOk n a) = UpstreamReply (int n) (Some (enc a))"
| "upstream_of enc (RestErr n e) =
     (if n = 500 then UpstreamReply 500 None else UpstreamReply (int n) (Some (PDict [(''error'', PStr e)])))"

definition hr_backend ::
  "string \<Rightarrow> (hr_rest_answer \<Rightarrow> py) \<Rightarrow> 'v rest_check \<Rightarrow> int \<Rightarrow> 'v \<Rightarrow> hr_store \<Rightarrow> upstream_net"
where
  "hr_backend base enc check today v st url headers =
     (if \<not> prefix base url then UpstreamHttpError
      else (case hr_get_call (drop (length base) url) of
              None \<Rightarrow> UpstreamReply 404 (Some (PDict [(''detail'', PStr ''Not Found'')]))
            | Some call \<Rightarrow>
                upstream_of enc (fst (hr_rest_route check (map_of headers ''Authorization'') today call v st))))"

fun hr_report_call :: "report_call \<Rightarrow> hr_rest_call option" where
  "hr_report_call MyLeavesPanel = Some RestMyLeaves"
| "hr_report_call MyCubiclePanel = Some RestMyCubicle"
| "hr_report_call (LeaveRequestsReport query) = Some (RestLeaveReport (map_of (rev (parse_query query)) ''status''))"
| "hr_report_call CubicleAssignmentsReport = Some RestCubicleReport"
| "hr_report_call MyAssetsPanel = None"
| "hr_report_call DeviceAssignmentsReport = None"

lemma parse_query_empty: "map_of (rev (parse_query [])) ''status'' = None"
  by (simp add: parse_query_def read_pair_def unquote_plus_def)

lemma report_target_hr:
  "hr_report_call call = Some c \<Longrightarrow>
     \<exists>t. report_target deps call = rstrip_slash (rd_hr_server_url deps) @ t \<and> hr_get_call t = Some c"
  by (cases call) (auto simp: hr_get_call_def parse_query_empty)

text \<open>With the scope of the report, and a subject, the body of its route answers 200.\<close>

lemma report_body_ok:
  assumes "hr_report_call call = Some c" "report_scope call \<in> set (rx_scopes ctx)" "rx_sub ctx \<noteq> []"
  shows "\<exists>a. fst (hr_rest_body today c ctx st) = RestOk 200 a"
  using assms
  by (cases call)
     (auto simp: as_answer_def hr_rest_defs rest_scoped_def rest_require_scope_def case_prod_beta Let_def)

lemma auth_context_scopes: "auth_context ks p = Inr ctx \<Longrightarrow> ctx_scopes p = Inr (rx_scopes ctx)"
  by (auto simp: auth_context_def Let_def split: sum.splits prod.splits)

lemma ctx_scopes_token: "pyget p ''scope'' = token_scope t \<Longrightarrow> token_scopes t = Inr ws \<Longrightarrow> ctx_scopes p = Inr ws"
  by (auto simp: ctx_scopes_def token_scopes_def scope_words_def py_split_def split: py.splits if_splits)

text \<open>
  C8. Reports, end to end: for a live session whose token carries the scope of the report, when
  the HR server accepts that token as one of a user with the same scopes, the browser gets status
  200 with exactly the answer the HR server computes for that user, and the orchestrator's store
  changes by the lookup of the session only.
\<close>

theorem report_is_servers_answer:
  assumes "report_session cookie now st = (Some s, st')" "token_scopes (s_token_a s) = Inr ws"
    and "report_scope call \<in> set ws" "hr_report_call call = Some c" "access_token (s_token_a s) = PStr tok"
    and "check tok v = (Inr p, v')" "pyget p ''scope'' = token_scope (s_token_a s)"
    and "hr_auth_context p = Inr ctx" "rx_sub ctx \<noteq> []"
  shows "\<exists>a. report_get deps (hr_backend (rstrip_slash (rd_hr_server_url deps)) enc check today v store) call rid cookie now st
       = (Forwarded 200 (enc a), st')
    \<and> fst (hr_rest_body today c ctx (hr_register today ctx store)) = RestOk 200 a"
proof -
  let ?base = "rstrip_slash (rd_hr_server_url deps)"
  obtain t where t: "report_target deps call = ?base @ t" "hr_get_call t = Some c"
    using report_target_hr [OF assms(4)] by blast
  have "rx_scopes ctx = ws"
    using auth_context_scopes [OF assms(8) [unfolded hr_auth_context_def]] ctx_scopes_token [OF assms(7,2)] by simp
  then obtain a where a: "fst (hr_rest_body today c ctx (hr_register today ctx store)) = RestOk 200 a"
    using report_body_ok [OF assms(4) _ assms(9), of today "hr_register today ctx store"] assms(3) by blast
  have h: "map_of (forward_headers (s_token_a s) rid) ''Authorization'' = Some (''Bearer '' @ tok)"
    by (simp add: forward_headers_def assms(5))
  have "fst (hr_rest_route check (Some (''Bearer '' @ tok)) today c v store) = RestOk 200 a"
    using a assms(6,8,9)
    by (simp add: hr_rest_route_def rest_handler_def rest_authenticate_def rest_bearer_def registered_def case_prod_beta Let_def)
  then have "hr_backend ?base enc check today v store (?base @ t) (forward_headers (s_token_a s) rid)
      = UpstreamReply 200 (Some (enc a))"
    by (simp add: hr_backend_def t(2) h)
  then have "report_get deps (hr_backend ?base enc check today v store) call rid cookie now st = (Forwarded 200 (enc a), st')"
    using assms(1-3) by (simp add: report_get_def forward_with_token_a_def t(1) pass_back_def)
  with a show ?thesis by blast
qed
definition sample_report_token :: oauth_token where
  "sample_report_token = \<lparr>access_token = PStr ''alice'', token_type = PStr ''Bearer'', expires_in = 3600, expires_at = 4600,
     refresh_token = PNone, token_scope = PStr ''hr_self_rest'', id_token = PNone\<rparr>"

definition sample_report_session :: session where
  "sample_report_session = fst (session_create ''sid'' ''alice'' ''Alice'' sample_report_token 1000 new_session_store)"

definition sample_report_store :: session_store where
  "sample_report_store = snd (session_create ''sid'' ''alice'' ''Alice'' sample_report_token 1000 new_session_store)"

definition sample_reports_deps :: reports_deps where
  "sample_reports_deps = \<lparr>rd_hr_server_url = ''http://hr/'', rd_it_server_url = ''http://it'', rd_wired = True\<rparr>"

lemma sample_report_lookup:
  "report_session (Some ''sid'') 1000 sample_report_store = (Some sample_report_session, sample_report_store)"
  by (simp add: report_session_def session_get_or_404_def sample_report_store_def sample_report_session_def
      session_create_def session_touch_def new_session_store_def Let_def)

lemma sample_report_token_eq: "s_token_a sample_report_session = sample_report_token"
  by (simp add: sample_report_session_def session_create_def Let_def)

lemma report_is_servers_answer_witness:
  "\<exists>a. report_get sample_reports_deps
       (hr_backend (rstrip_slash ''http://hr/'') (\<lambda>a. PInt 1) sample_rest_check 738885 sample_rest_validator sample_filed)
       MyLeavesPanel None (Some ''sid'') 1000 sample_report_store = (Forwarded 200 (PInt 1), sample_report_store)
    \<and> fst (hr_rest_body 738885 RestMyLeaves (sample_ctx ''alice'' [''hr_self_rest''])
        (hr_register 738885 (sample_ctx ''alice'' [''hr_self_rest'']) sample_filed)) = RestOk 200 a"
  using report_is_servers_answer [of "Some ''sid''" 1000 sample_report_store sample_report_session sample_report_store
      "[''hr_self_rest'']" MyLeavesPanel RestMyLeaves "''alice''" sample_rest_check sample_rest_validator
      "sample_payload ''alice'' ''j1'' ''hr_self_rest''" sample_rest_warm "sample_ctx ''alice'' [''hr_self_rest'']"
      sample_reports_deps "\<lambda>a. PInt 1" 738885 sample_filed None]
    sample_rest_validate(1) [of "''alice''"] sample_hr_context(1) sample_report_lookup
  by (simp add: sample_report_token_eq sample_report_token_def token_scopes_def sample_scopes sample_payload_def
      sample_reports_deps_def sample_ctx_def)

section \<open>Reviews\<close>

lemma start_review_some:
  "start_review deps rid tc cookie now st = ((ans, Some (s, calls)), st') \<longleftrightarrow>
     report_session cookie now st = (Some s, st') \<and> (\<exists>ws. token_scopes (s_token_a s) = Inr ws \<and> ''hr_approve_rest'' \<in> set ws)
     \<and> rd_wired deps \<and> ans = ActionAck rid ''hr_agent'' \<and> calls = [tc]"
  by (auto simp: start_review_def split: option.splits prod.splits sum.splits if_splits)

lemma report_session_some:
  "report_session cookie now st = (Some s, st') \<longleftrightarrow>
     or_empty cookie \<noteq> [] \<and> session_get_or_404 (or_empty cookie) now st = (Inr s, st') \<and> \<not> s_terminating s"
  by (auto simp: report_session_def split: prod.splits sum.splits)

text \<open>A started review is one call that the agent turns into the request of the review's route.\<close>

definition reviews :: "tool_call \<Rightarrow> hr_call \<Rightarrow> pydict \<Rightarrow> bool" where
  "reviews tc call body \<longleftrightarrow> tc_agent tc = ''hr_agent''
     \<and> (\<exists>te kw. hr_tool_registry (tc_tool tc) = Some te \<and> te_kwargs te (tc_args tc) = Inr kw
          \<and> hr_mcp_request (te_method te) kw = Inr (hr_call_path call, body)
          \<and> (\<forall>deps. wide_enough (effective_scope deps te) (required_scope call)))"

lemma approve_reviews:
  "reviews (review_call ''hr.approve_leave'' [(''leave_id'', PStr i)]) (ApproveLeave i) [(''leave_id'', PStr i)]"
  by (simp add: reviews_def review_call_def hr_tool_registry_def entry_def hr_mcp_request_def call_method_def pass_args_def
      hr_call_path_def effective_scope_def py_ws_def)

lemma reject_reviews:
  "reviews (review_call ''hr.reject_leave'' [(''leave_id'', PStr i), (''reason'', PStr w)]) (RejectLeave i w)
     [(''leave_id'', PStr i), (''reason'', PStr w)]"
  by (simp add: reviews_def review_call_def hr_tool_registry_def entry_def hr_mcp_request_def call_method_def pass_args_def
      hr_call_path_def effective_scope_def py_ws_def pyget_or_def)

text \<open>
  Reports: a review task is started exactly for a request with a correlation id (and, for a
  rejection, a reason that is not blank) from a live session whose token has the approval scope; it
  is then one call of the HR agent, which the agent's own tables turn into the approval (or the
  rejection with the trimmed reason) of exactly that leave request at the HR server, under a consent
  whose scope contains the one that route demands.
\<close>

theorem review_reaches_route:
  "((\<exists>ans s calls. report_approve deps h i cookie now st = ((ans, Some (s, calls)), st'))
      \<longleftrightarrow> rd_wired deps \<and> or_empty h \<noteq> [] \<and> or_empty cookie \<noteq> []
        \<and> (\<exists>s ws. session_get_or_404 (or_empty cookie) now st = (Inr s, st') \<and> \<not> s_terminating s
              \<and> token_scopes (s_token_a s) = Inr ws \<and> ''hr_approve_rest'' \<in> set ws))
   \<and> ((\<exists>ans s calls. report_reject deps h i body cookie now st = ((ans, Some (s, calls)), st'))
      \<longleftrightarrow> rd_wired deps \<and> or_empty h \<noteq> [] \<and> or_empty cookie \<noteq> [] \<and> py_strip (or_empty body) \<noteq> []
        \<and> (\<exists>s ws. session_get_or_404 (or_empty cookie) now st = (Inr s, st') \<and> \<not> s_terminating s
              \<and> token_scopes (s_token_a s) = Inr ws \<and> ''hr_approve_rest'' \<in> set ws))
   \<and> (\<forall>ans s calls. report_approve deps h i cookie now st = ((ans, Some (s, calls)), st') \<longrightarrow>
        (\<exists>tc. calls = [tc] \<and> reviews tc (ApproveLeave i) [(''leave_id'', PStr i)]))
   \<and> (\<forall>ans s calls. report_reject deps h i body cookie now st = ((ans, Some (s, calls)), st') \<longrightarrow>
        (\<exists>tc. calls = [tc] \<and> reviews tc (RejectLeave i (py_strip (or_empty body)))
           [(''leave_id'', PStr i), (''reason'', PStr (py_strip (or_empty body)))]))"
proof (intro conjI allI impI)
  have e: "py_strip [] = []" by (simp add: py_strip_def py_rstrip_def py_lstrip_def)
  show "(\<exists>ans s calls. report_approve deps h i cookie now st = ((ans, Some (s, calls)), st'))
      \<longleftrightarrow> rd_wired deps \<and> or_empty h \<noteq> [] \<and> or_empty cookie \<noteq> []
        \<and> (\<exists>s ws. session_get_or_404 (or_empty cookie) now st = (Inr s, st') \<and> \<not> s_terminating s
              \<and> token_scopes (s_token_a s) = Inr ws \<and> ''hr_approve_rest'' \<in> set ws)"
    by (auto simp: report_approve_def start_review_some report_session_some)
  show "(\<exists>ans s calls. report_reject deps h i body cookie now st = ((ans, Some (s, calls)), st'))
      \<longleftrightarrow> rd_wired deps \<and> or_empty h \<noteq> [] \<and> or_empty cookie \<noteq> [] \<and> py_strip (or_empty body) \<noteq> []
        \<and> (\<exists>s ws. session_get_or_404 (or_empty cookie) now st = (Inr s, st') \<and> \<not> s_terminating s
              \<and> token_scopes (s_token_a s) = Inr ws \<and> ''hr_approve_rest'' \<in> set ws)"
    by (auto simp: report_reject_def start_review_some report_session_some e split: option.splits)
  fix ans s calls
  show "\<exists>tc. calls = [tc] \<and> reviews tc (ApproveLeave i) [(''leave_id'', PStr i)]"
    if "report_approve deps h i cookie now st = ((ans, Some (s, calls)), st')"
    using that by (auto simp: report_approve_def start_review_some approve_reviews split: if_splits)
  show "\<exists>tc. calls = [tc] \<and> reviews tc (RejectLeave i (py_strip (or_empty body)))
           [(''leave_id'', PStr i), (''reason'', PStr (py_strip (or_empty body)))]"
    if "report_reject deps h i body cookie now st = ((ans, Some (s, calls)), st')"
    using that by (auto simp: report_reject_def start_review_some reject_reviews split: if_splits option.splits)
qed

lemma review_reaches_route_witness:
  "\<exists>tc. snd (fst (report_approve sample_reports_deps (Some ''r1'') ''LR001'' (Some ''sid'') 1000
        (snd (session_create ''sid'' ''boss'' ''Boss'' (sample_report_token\<lparr>token_scope := PStr ''hr_approve_rest hr_read_rest''\<rparr>)
           1000 new_session_store)))) = Some (fst (session_create ''sid'' ''boss'' ''Boss''
           (sample_report_token\<lparr>token_scope := PStr ''hr_approve_rest hr_read_rest''\<rparr>) 1000 new_session_store), [tc])
     \<and> reviews tc (ApproveLeave ''LR001'') [(''leave_id'', PStr ''LR001'')]"
proof -
  define tok where "tok = sample_report_token\<lparr>token_scope := PStr ''hr_approve_rest hr_read_rest''\<rparr>"
  define st where "st = snd (session_create ''sid'' ''boss'' ''Boss'' tok 1000 new_session_store)"
  define s where "s = fst (session_create ''sid'' ''boss'' ''Boss'' tok 1000 new_session_store)"
  have l: "report_session (Some ''sid'') 1000 st = (Some s, st)"
    by (simp add: report_session_def session_get_or_404_def st_def s_def session_create_def session_touch_def
        new_session_store_def Let_def)
  have t: "token_scopes (s_token_a s) = Inr [''hr_approve_rest'', ''hr_read_rest'']"
    by (simp add: s_def session_create_def tok_def token_scopes_def sample_scopes Let_def)
  have r: "\<exists>ans calls. report_approve sample_reports_deps (Some ''r1'') ''LR001'' (Some ''sid'') 1000 st = ((ans, Some (s, calls)), st)"
    by (simp add: report_approve_def start_review_some l t sample_reports_deps_def)
  then obtain ans calls where a: "report_approve sample_reports_deps (Some ''r1'') ''LR001'' (Some ''sid'') 1000 st = ((ans, Some (s, calls)), st)"
    by blast
  have "\<exists>tc. calls = [tc] \<and> reviews tc (ApproveLeave ''LR001'') [(''leave_id'', PStr ''LR001'')]"
    using review_reaches_route [of sample_reports_deps "Some ''r1''" "''LR001''" "Some ''sid''" 1000 st st None] a by blast
  with a show ?thesis by (auto simp: st_def s_def tok_def)
qed

end
