(* ===== verification/FanOut.thy ===== *)
theory FanOut
  imports InternalEvents
begin

text \<open>
  \<open>orchestrator/agent_registry/revoke_client.py\<close>: the fan-out of one revocation to the
  receivers, each leg tried twice, and its report.

  The receivers are reached over HTTP: \<open>post t n s\<close> is the \<open>n\<close>-th attempt on target \<open>t\<close>,
  from and to the state \<open>s\<close> of the receiver.  The locale \<open>revocation_receiver\<close> is what the
  client relies on: a 2xx answer means the receiver denies the id, and a delivery never
  lifts a denial.  It is interpreted on the \<open>/internal/events\<close> route behind a network
  that may lose the request or the answer.
\<close>

section \<open>The client\<close>

record fan_out_target =
  ft_label :: string
  ft_url :: string

record fan_out_report =
  successes :: "string list"
  failures :: "(string \<times> string) list"

definition report_total :: "fan_out_report \<Rightarrow> nat" where
  "report_total r = length (successes r) + length (failures r)"

definition all_failed :: "fan_out_report \<Rightarrow> bool" where
  "all_failed r = (0 < report_total r \<and> successes r = [])"

record events_client =
  ec_targets :: "fan_out_target list"
  ec_shared_secret :: string
  ec_retry_once_after_ms :: real
  ec_timeout_seconds :: real

definition new_events_client :: "fan_out_target list \<Rightarrow> string \<Rightarrow> events_client res" where
  "new_events_client targets secret =
     (if secret = [] then Inl (EPy ''ValueError'')
      else Inr \<lparr>ec_targets = targets, ec_shared_secret = secret,
                ec_retry_once_after_ms = 200, ec_timeout_seconds = 5\<rparr>)"

datatype leg_reply = LegStatus int string | LegNetworkError string

definition leg_error :: "leg_reply \<Rightarrow> string option" where
  "leg_error r =
     (case r of
        LegStatus c txt \<Rightarrow>
          (if 200 \<le> c \<and> c < 300 then None
           else Some (''HTTP '' @ show_int c @ '' body='' @ repr_str (take 120 txt)))
      | LegNetworkError m \<Rightarrow> Some (''network error: '' @ m))"

text \<open>\<open>_call_one\<close>: the first attempt and, on an error, one retry.\<close>

definition call_one :: "(nat \<Rightarrow> 's \<Rightarrow> leg_reply \<times> 's) \<Rightarrow> 's \<Rightarrow> string option \<times> 's" where
  "call_one post s =
     (let (r1, s1) = post 1 s
      in case leg_error r1 of
           None \<Rightarrow> (None, s1)
         | Some _ \<Rightarrow> (let (r2, s2) = post 2 s1 in (leg_error r2, s2)))"

text \<open>The legs run concurrently, each on its own receiver.\<close>

fun gather_legs ::
  "(fan_out_target \<Rightarrow> nat \<Rightarrow> 's \<Rightarrow> leg_reply \<times> 's) \<Rightarrow> (fan_out_target \<times> 's) list
     \<Rightarrow> (fan_out_target \<times> string option) list \<times> (fan_out_target \<times> 's) list"
where
  "gather_legs post [] = ([], [])"
| "gather_legs post ((t, s) # ts) =
     (let (err, s') = call_one (post t) s; (rs, ts') = gather_legs post ts
      in ((t, err) # rs, (t, s') # ts'))"

definition report_leg :: "fan_out_report \<Rightarrow> fan_out_target \<times> string option \<Rightarrow> fan_out_report" where
  "report_leg r = (\<lambda>(t, err).
     case err of None \<Rightarrow> r\<lparr>successes := successes r @ [ft_label t]\<rparr>
     | Some e \<Rightarrow> r\<lparr>failures := failures r @ [(ft_label t, e)]\<rparr>)"

definition fan_out ::
  "(fan_out_target \<Rightarrow> nat \<Rightarrow> 's \<Rightarrow> leg_reply \<times> 's) \<Rightarrow> (fan_out_target \<times> 's) list
     \<Rightarrow> fan_out_report \<times> (fan_out_target \<times> 's) list"
where
  "fan_out post targets =
     (let (results, targets') = gather_legs post targets
      in (foldl report_leg \<lparr>successes = [], failures = []\<rparr> results, targets'))"

section \<open>The report\<close>

lemma gather_legs_targets:
  "map fst (fst (gather_legs post ts)) = map fst ts \<and> map fst (snd (gather_legs post ts)) = map fst ts"
  by (induction ts rule: list.induct) (auto simp: Let_def split: prod.splits)

lemma foldl_report:
  "foldl report_leg r results =
     \<lparr>successes = successes r @ map (ft_label \<circ> fst) (filter (\<lambda>(t, e). e = None) results),
      failures = failures r @ map (\<lambda>(t, e). (ft_label t, the e)) (filter (\<lambda>(t, e). e \<noteq> None) results)\<rparr>"
  by (induction results arbitrary: r) (auto simp: report_leg_def split: option.splits)

lemma fan_out_report:
  "fst (fan_out post ts) =
     \<lparr>successes = map (ft_label \<circ> fst) (filter (\<lambda>(t, e). e = None) (fst (gather_legs post ts))),
      failures = map (\<lambda>(t, e). (ft_label t, the e)) (filter (\<lambda>(t, e). e \<noteq> None) (fst (gather_legs post ts)))\<rparr>"
  by (simp add: fan_out_def Let_def foldl_report split: prod.splits)

lemma fan_out_total: "report_total (fst (fan_out post ts)) = length ts"
proof -
  have "length (fst (gather_legs post ts)) = length ts"
    using gather_legs_targets [of post ts] by (metis length_map)
  moreover have "length (filter (\<lambda>(t, e). e = None) rs) + length (filter (\<lambda>(t, e). e \<noteq> None) rs) = length rs"
    for rs :: "(fan_out_target \<times> string option) list"
    by (induction rs) auto
  ultimately show ?thesis by (simp add: fan_out_report report_total_def)
qed

section \<open>The receivers' contract\<close>

locale revocation_receiver =
  fixes post :: "fan_out_target \<Rightarrow> nat \<Rightarrow> 's \<Rightarrow> leg_reply \<times> 's"
    and denies :: "'s \<Rightarrow> bool"
  assumes post_denies: "post t n s = (LegStatus c txt, s') \<Longrightarrow> 200 \<le> c \<Longrightarrow> c < 300 \<Longrightarrow> denies s'"
    and post_keeps: "denies s \<Longrightarrow> denies (snd (post t n s))"
begin

lemma post_ok: "leg_error (fst (post t n s)) = None \<Longrightarrow> denies (snd (post t n s))"
  using post_denies [of t n s]
  by (cases "post t n s") (auto simp: leg_error_def split: leg_reply.splits if_splits)

lemma call_one_denies: "call_one (post t) s = (None, s') \<Longrightarrow> denies s'"
  using post_ok [of t 1 s] post_ok [of t 2 "snd (post t 1 s)"]
  by (auto simp: call_one_def Let_def split: prod.splits option.splits)

lemma call_one_keeps: "denies s \<Longrightarrow> denies (snd (call_one (post t) s))"
  using post_keeps [of s t 1] post_keeps [of "snd (post t 1 s)" t 2]
  by (auto simp: call_one_def Let_def split: prod.splits option.splits)

lemma gather_success_denies:
  "(t, None) \<in> set (fst (gather_legs post ts)) \<Longrightarrow> \<exists>s'. (t, s') \<in> set (snd (gather_legs post ts)) \<and> denies s'"
proof (induction ts rule: list.induct)
  case Nil
  then show ?case by simp
next
  case (Cons p ts)
  obtain a s where p: "p = (a, s)" by (cases p)
  obtain e s' where c: "call_one (post a) s = (e, s')" by force
  obtain rs ts' where g: "gather_legs post ts = (rs, ts')" by force
  from Cons.prems have "(t = a \<and> e = None) \<or> (t, None) \<in> set rs" by (auto simp: p c g)
  then show ?case
  proof
    assume "t = a \<and> e = None"
    then have "denies s'" using call_one_denies c by simp
    then show ?thesis using \<open>t = a \<and> e = None\<close> by (auto simp: p c g)
  next
    assume "(t, None) \<in> set rs"
    then obtain x where "(t, x) \<in> set ts'" "denies x" using Cons.IH g by auto
    then show ?thesis by (auto simp: p c g)
  qed
qed

text \<open>A label among the successes names a receiver that now denies the id.\<close>

lemma fan_out_success:
  assumes "fan_out post ts = (rep, ts')" and "l \<in> set (successes rep)"
  shows "\<exists>t s'. ft_label t = l \<and> (t, s') \<in> set ts' \<and> denies s'"
proof -
  have rep: "rep = fst (fan_out post ts)" and ts': "ts' = snd (gather_legs post ts)"
    using assms(1) by (auto simp: fan_out_def Let_def split: prod.splits)
  from assms(2) obtain t where "(t, None) \<in> set (fst (gather_legs post ts))" "l = ft_label t"
    by (auto simp: rep fan_out_report)
  then show ?thesis using gather_success_denies ts' by blast
qed

end

section \<open>The route as a receiver\<close>

text \<open>One request over the network: lost on the way, answered, or its answer lost.\<close>

datatype delivery = RequestLost string | Answered real | AnswerLost real string

fun ack_reply :: "ack \<Rightarrow> leg_reply" where
  "ack_reply (Acked note) = LegStatus 200 ''''"
| "ack_reply (Refused n i) = LegStatus (int n) i"

definition event_of :: "string \<Rightarrow> string \<Rightarrow> real \<Rightarrow> string \<Rightarrow> revoke_event" where
  "event_of jti user_sub expiry reason =
     \<lparr>ev_type = ''session-revoked'', ev_sub = user_sub, ev_jti = jti, ev_exp = expiry, ev_reason = reason\<rparr>"

definition route_post ::
  "'s revoke_callback option \<Rightarrow> string \<Rightarrow> revoke_event \<Rightarrow> string \<Rightarrow> (fan_out_target \<Rightarrow> nat \<Rightarrow> delivery)
     \<Rightarrow> fan_out_target \<Rightarrow> nat \<Rightarrow> events_router \<times> 's \<Rightarrow> leg_reply \<times> events_router \<times> 's"
where
  "route_post cb host ev secret net t n = (\<lambda>(r, s).
     case net t n of
       RequestLost m \<Rightarrow> (LegNetworkError m, r, s)
     | Answered now \<Rightarrow> (let (a, r', s') = receive_event cb ev host (Some secret) now r s in (ack_reply a, r', s'))
     | AnswerLost now m \<Rightarrow> (let (a, r', s') = receive_event cb ev host (Some secret) now r s in (LegNetworkError m, r', s')))"

definition router_denies :: "string \<Rightarrow> events_router \<times> 's \<Rightarrow> bool" where
  "router_denies jti = (\<lambda>(r, s). denylist_contains (revoked_jtis (er_state r)) jti)"

lemma refused_status: "receive_event cb ev host auth now r s = (Refused n i, r', s') \<Longrightarrow> n \<in> {429, 401, 400, 500}"
  by (auto simp: receive_event_def Let_def split: if_splits option.splits prod.splits)

lemma route_post_denies:
  assumes "route_post cb host ev secret net t n s = (LegStatus c txt, s')" and c: "200 \<le> c" "c < 300"
  shows "router_denies (ev_jti ev) s'"
proof -
  obtain r x where s: "s = (r, x)" by (cases s)
  from assms(1) obtain now a r' x' where re: "receive_event cb ev host (Some secret) now r x = (a, r', x')"
    and a: "ack_reply a = LegStatus c txt" and s': "s' = (r', x')"
    by (cases s') (auto simp: route_post_def s Let_def split: delivery.splits prod.splits)
  show ?thesis
  proof (cases a)
    case (Acked nt)
    then show ?thesis using receive_event_acked re by (simp add: s' router_denies_def)
  next
    case (Refused m i)
    then have "m \<in> {429, 401, 400, 500}" using refused_status [OF re [unfolded Refused]] by simp
    then show ?thesis using Refused a c by auto
  qed
qed

lemma route_post_keeps:
  assumes "router_denies (ev_jti ev) s"
  shows "router_denies (ev_jti ev) (snd (route_post cb host ev secret net t n s))"
proof -
  obtain r x where s: "s = (r, x)" by (cases s)
  have "router_denies (ev_jti ev) (snd (receive_event cb ev host (Some secret) now r x))" for now
    using assms receive_event_idempotent [of r ev cb host "Some secret" now x]
    by (cases "receive_event cb ev host (Some secret) now r x") (auto simp: s router_denies_def)
  then show ?thesis
    using assms by (auto simp: route_post_def s Let_def case_prod_beta split: delivery.splits)
qed

interpretation route: revocation_receiver "route_post cb host ev secret net" "router_denies (ev_jti ev)"
  by unfold_locales (auto intro: route_post_denies route_post_keeps)

end
