(* ===== verification/RevocationProps.thy ===== *)
theory RevocationProps
  imports Samples FanOut "HOL-Library.Multiset"
begin

text \<open>
  The properties of revocation: from the fan-out of a token id to the receivers, over the
  denylist, to the refusal of the token by an MCP server.
\<close>

section \<open>The denylist\<close>

lemma new_denylist_cap: "dl_hard_cap new_denylist = 10000" "dl_items new_denylist = []"
  by (simp_all add: new_denylist_def)

text \<open>
  The denylist is bounded and total: any sequence of insertions and sweeps on a fresh
  denylist succeeds and leaves at most 10000 entries, each id once.
\<close>

theorem denylist_bounded:
  "\<exists>d. fifo_run denylist_add denylist_sweep_once new_denylist ops = Some d
     \<and> denylist_len d \<le> 10000 \<and> distinct (od_keys (dl_items d))"
proof -
  obtain d where d: "fifo_run denylist_add denylist_sweep_once new_denylist ops = Some d"
    using dl.run_total [of new_denylist ops] by (auto simp: new_denylist_cap)
  then show ?thesis
    using dl.run_bounded [OF d] by (auto simp: new_denylist_cap denylist_len_def od_keys_def)
qed

text \<open>
  C21. A revoked id stays revoked until its token expires: after the insertion, fewer than
  cap further insertions and any sweeps run no later than the expiry (a repeated event for
  the id must not shorten it below a sweep) leave the id denied, and a validator on that
  denylist accepts no token with the id.
\<close>

theorem revoked_until_expiry:
  assumes "denylist_add d jti expiry = Some d1" and "distinct (od_keys (dl_items d))"
    and "fifo_run denylist_add denylist_sweep_once d1 ops = Some d2"
    and "int (length (filter is_put ops)) < dl_hard_cap d"
    and "\<And>t. FSweep t \<in> set ops \<Longrightarrow> t \<le> expiry"
    and "\<And>t e. FSweep t \<in> set ops \<Longrightarrow> FPut jti e \<in> set ops \<Longrightarrow> t \<le> e"
    and "mv_revocation v = Some \<lparr>revoked_jtis = d2\<rparr>" and "jti \<noteq> []"
  shows "denylist_contains d2 jti
    \<and> (hr_validate_token J net mt now tok req v = (Inr c, v') \<longrightarrow> c_jti c \<noteq> PStr jti)"
proof -
  have "jti \<in> fst ` set (dl_items d2)"
    by (rule dl.put_retained [OF assms(1) assms(2) [unfolded od_keys_def] assms(3,4)])
       (use assms(5,6) in \<open>auto simp: not_less\<close>)
  then have c: "denylist_contains d2 jti" by (simp add: denylist_contains_iff)
  then show ?thesis
    using hr_validate_token_denied [of v "\<lparr>revoked_jtis = d2\<rparr>" c jti J net mt now tok req v'] assms(7,8) by auto
qed

lemma revoked_until_expiry_witness:
  "\<exists>d1 d2. denylist_add new_denylist ''j1'' 2000 = Some d1
     \<and> fifo_run denylist_add denylist_sweep_once d1 [FPut ''j7'' 900, FSweep 1500] = Some d2
     \<and> denylist_contains d2 ''j1''"
proof -
  obtain d1 where d1: "denylist_add new_denylist ''j1'' 2000 = Some d1"
    using dl.put_total [of new_denylist] by (auto simp: new_denylist_cap)
  moreover have "dl_hard_cap d1 = 10000" using dl.put_cap [OF d1] by (simp add: new_denylist_cap)
  then obtain d2 where d2: "fifo_run denylist_add denylist_sweep_once d1 [FPut ''j7'' 900, FSweep 1500] = Some d2"
    using dl.run_total [of d1] by fastforce
  moreover have "mv_revocation (attach_revocation \<lparr>revoked_jtis = d2\<rparr> (sample_validator [])) = Some \<lparr>revoked_jtis = d2\<rparr>"
    by (simp add: attach_revocation_def)
  ultimately show ?thesis
    using revoked_until_expiry [OF d1 _ d2, of "attach_revocation \<lparr>revoked_jtis = d2\<rparr> (sample_validator [])"]
    by (simp add: new_denylist_cap od_keys_def) blast
qed

text \<open>
  The sweep drops an id at the expiry of its token, while the validation accepts the token
  for 30 more seconds: in between, a revoked token is accepted again.
\<close>

definition denied_until :: "real \<Rightarrow> jti_denylist" where
  "denied_until e = new_denylist\<lparr>dl_items := [(''j1'', e)]\<rparr>"

lemma sweep_drops: "e < now \<Longrightarrow> dl_items (fst (denylist_sweep_once now (denied_until e))) = []"
  by (simp add: denied_until_def denylist_sweep_items)

text \<open>
  C32. The window: a token of the sample issuer with expiry 2000 and a denylist entry with
  that expiry.  At any time between 2000 and 2030 the validator refuses the token while the
  entry is there, and accepts it once the sweep has run.
\<close>

theorem sweep_readmits_revoked:
  assumes "2000 < now" "now < 2030"
  shows "fst (hr_validate_token sample_jwt sample_net 4000 now ''alice'' (Some {''hr_self_rest''})
           (attach_revocation \<lparr>revoked_jtis = denied_until 2000\<rparr> (sample_validator [])))
         = Inl (raise_auth ScopeError ''ERR-MCP-002'')
    \<and> fst (hr_validate_token sample_jwt sample_net 4000 now ''alice'' (Some {''hr_self_rest''})
           (attach_revocation \<lparr>revoked_jtis = fst (denylist_sweep_once now (denied_until 2000))\<rparr> (sample_validator [])))
         = Inr (sample_claims ''alice'' ''j1'' ''hr_self_rest'')"
proof -
  have step: "fst (hr_validate_token sample_jwt sample_net 4000 now ''alice'' (Some {''hr_self_rest''})
      (attach_revocation st (sample_validator []))) =
      (if denylist_contains (revoked_jtis st) ''j1'' then Inl (raise_auth ScopeError ''ERR-MCP-002'')
       else Inr (sample_claims ''alice'' ''j1'' ''hr_self_rest''))" for st
    using sample_hr_step_at [of "''alice''" "''alice''" "''j1''" "''hr_self_rest''" now "[''hr_self_rest'']"
      "[''hr_self_rest'']" st "[]"] assms(2) by (simp add: sample_scopes)
  have "denylist_contains (denied_until 2000) ''j1''"
    by (simp add: denied_until_def denylist_contains_def od_keys_def)
  moreover have "\<not> denylist_contains (fst (denylist_sweep_once now (denied_until 2000))) ''j1''"
    using sweep_drops [OF assms(1)] by (simp add: denylist_contains_def od_keys_def)
  ultimately show ?thesis by (simp add: step)
qed

lemma sweep_readmits_revoked_witness:
  "fst (hr_validate_token sample_jwt sample_net 4000 2010 ''alice'' (Some {''hr_self_rest''})
      (attach_revocation \<lparr>revoked_jtis = fst (denylist_sweep_once 2010 (denied_until 2000))\<rparr> (sample_validator [])))
    = Inr (sample_claims ''alice'' ''j1'' ''hr_self_rest'')"
  using sweep_readmits_revoked [of 2010] by simp

section \<open>The receivers\<close>

text \<open>
  The route of a receiver acts on an event only under the shared secret, inside the
  rate limit and for the known event type; otherwise the denylist and the service are as
  they were.  An acknowledged event has its id on the denylist, and an event repeated for
  an id already there changes no membership.
\<close>

theorem receive_event_effect:
  assumes "receive_event cb body host auth now r s = (a, r', s')" and "er_shared_secret r \<noteq> []"
  shows "(\<exists>status i. a = Refused status i \<and> er_state r' = er_state r \<and> s' = s)
    \<or> (\<exists>m. a = Acked m \<and> auth = Some (er_shared_secret r) \<and> ev_type body = ''session-revoked''
        \<and> fst (rate_limit_check host now (er_rate_buckets r))
        \<and> denylist_contains (revoked_jtis (er_state r')) (ev_jti body)
        \<and> (m \<noteq> None \<longleftrightarrow> denylist_contains (revoked_jtis (er_state r)) (ev_jti body))
        \<and> (m \<noteq> None \<longrightarrow> (\<forall>k. denylist_contains (revoked_jtis (er_state r')) k
              \<longleftrightarrow> denylist_contains (revoked_jtis (er_state r)) k)))"
proof (cases a)
  case (Refused st i)
  then show ?thesis using receive_event_cases [OF assms(1)] by auto
next
  case (Acked m)
  have n: "m \<noteq> None \<longleftrightarrow> denylist_contains (revoked_jtis (er_state r)) (ev_jti body)"
    and l: "fst (rate_limit_check host now (er_rate_buckets r))"
    using assms(1) Acked by (auto simp: receive_event_def Let_def split: if_splits option.splits prod.splits)
  have "auth = Some (er_shared_secret r) \<and> ev_type body = ''session-revoked''"
    using receive_event_cases [OF assms(1)] Acked assms(2) by (cases auth) auto
  then show ?thesis
    using receive_event_acked [OF assms(1) [unfolded Acked]] receive_event_idempotent [OF _ assms(1)] n l Acked
    by blast
qed

definition sample_router :: events_router where
  "sample_router = \<lparr>er_state = new_revocation_state, er_shared_secret = ''s3cret'', er_rate_buckets = []\<rparr>"

lemma sample_receive:
  "receive_event None (event_of ''j1'' ''alice'' 2000 ''user_signed_out'') ''host'' auth now sample_router ()
     = (if or_empty auth = ''s3cret'' then Acked None else Refused 401 ''invalid_secret'',
        sample_router\<lparr>er_state := if or_empty auth = ''s3cret'' then \<lparr>revoked_jtis = denied_until 2000\<rparr> else new_revocation_state,
          er_rate_buckets := [(''host'', [now])]\<rparr>, ())"
  by (simp add: receive_event_def rate_limit_check_def rate_max_def sample_router_def event_of_def
      new_revocation_state_def denylist_contains_def od_keys_def new_denylist_def denylist_add_def denied_until_def)

lemma receive_event_effect_witness:
  "\<exists>m r'. receive_event None (event_of ''j1'' ''alice'' 2000 ''user_signed_out'') ''host'' (Some ''s3cret'') 5 sample_router ()
      = (Acked m, r', ()) \<and> denylist_contains (revoked_jtis (er_state r')) ''j1''"
proof -
  obtain r' where r: "receive_event None (event_of ''j1'' ''alice'' 2000 ''user_signed_out'') ''host'' (Some ''s3cret'') 5 sample_router ()
      = (Acked None, r', ())"
    by (simp add: sample_receive)
  have "er_shared_secret sample_router \<noteq> []" by (simp add: sample_router_def)
  from receive_event_effect [OF r this] r show ?thesis by (auto simp: event_of_def)
qed

text \<open>
  C31. The rate limit: of any calls in time order, at most 100 of one host are admitted in
  any window of 60 seconds.
\<close>

theorem rate_limit_window:
  assumes "sorted (map snd calls)"
  shows "length (filter (\<lambda>(h, a). h = host \<and> t - 60 \<le> a \<and> a \<le> t) (rate_run calls [])) \<le> 100"
proof -
  obtain lo where "sorted (lo # map snd calls)"
    using assms by (cases calls) (auto intro: that [of "snd (hd calls)"])
  from rate_run_window [OF rate_past_empty this, of t host]
  have "length (filter (in_window t) (map snd (filter (\<lambda>(h, a). h = host) (rate_run calls [])))) \<le> rate_max" by simp
  moreover have "filter (in_window t) (map snd (filter (\<lambda>(h, a). h = host) xs)) =
      map snd (filter (\<lambda>(h, a). h = host \<and> t - 60 \<le> a \<and> a \<le> t) xs)" for xs
    by (induction xs) (auto simp: in_window_def rate_window_def)
  ultimately show ?thesis by (simp add: rate_max_def)
qed

lemma rate_limit_window_witness:
  "length (filter (\<lambda>(h, a). h = ''x'' \<and> 40 - 60 \<le> a \<and> a \<le> 40)
     (rate_run (map (\<lambda>n. (''x'', real n / 4)) [0..<150]) [])) \<le> 100"
  by (rule rate_limit_window) (simp add: comp_def sorted_iff_nth_mono divide_right_mono)

section \<open>From the fan-out to the refusal\<close>

text \<open>
  C2. When the fan-out of a token id reports a receiver as a success, that receiver
  denies the id, and the HR validator that shares its revocation state accepts no token
  with the id, whatever the network did to the requests and answers.
\<close>

theorem fan_out_success_refuses:
  assumes "fan_out (route_post cb host ev secret deliver) targets = (rep, targets')"
    and "label \<in> set (successes rep)" and "ev_jti ev \<noteq> []"
  shows "\<exists>t router s. ft_label t = label \<and> (t, router, s) \<in> set targets'
    \<and> (\<forall>J net mt now tok req v c v'. mv_revocation v = Some (er_state router) \<longrightarrow> c_jti c = PStr (ev_jti ev) \<longrightarrow>
          hr_validate_token J net mt now tok req v \<noteq> (Inr c, v')
          \<and> it_validate_token J net mt now tok req v \<noteq> (Inr c, v'))"
proof -
  from route.fan_out_success [OF assms(1,2)] obtain t router s where t: "ft_label t = label"
    "(t, router, s) \<in> set targets'" and d: "denylist_contains (revoked_jtis (er_state router)) (ev_jti ev)"
    by (auto simp: router_denies_def)
  show ?thesis
    using t hr_validate_token_denied [OF _ _ assms(3) d] unfolding it_hr_validate_token by blast
qed

text \<open>One target whose first request is lost; the retry is answered.\<close>

definition sample_target :: fan_out_target where
  "sample_target = \<lparr>ft_label = ''hr_server'', ft_url = ''http://hr''\<rparr>"

definition sample_delivery :: "fan_out_target \<Rightarrow> nat \<Rightarrow> delivery" where
  "sample_delivery t n = (if n = 1 then RequestLost ''reset'' else Answered 7)"

lemma sample_fan_out:
  "fan_out (route_post None ''host'' (event_of ''j1'' ''alice'' 2000 ''user_signed_out'') ''s3cret'' sample_delivery)
     [(sample_target, sample_router, ())]
   = (\<lparr>successes = [''hr_server''], failures = []\<rparr>,
      [(sample_target, sample_router\<lparr>er_state := \<lparr>revoked_jtis = denied_until 2000\<rparr>,
          er_rate_buckets := [(''host'', [7])]\<rparr>, ())])"
  by (simp add: fan_out_def call_one_def route_post_def sample_delivery_def leg_error_def sample_receive
      report_leg_def Let_def sample_target_def)

lemma fan_out_success_refuses_witness:
  "\<exists>t router s. ft_label t = ''hr_server'' \<and>
     (t, router, s) \<in> set [(sample_target, sample_router\<lparr>er_state := \<lparr>revoked_jtis = denied_until 2000\<rparr>,
          er_rate_buckets := [(''host'', [7])]\<rparr>, ())]
     \<and> hr_validate_token sample_jwt sample_net 4000 1500 ''alice'' None (attach_revocation (er_state router) (sample_validator []))
        \<noteq> (Inr (sample_claims ''alice'' ''j1'' ''hr_self_rest''), sample_validator')"
proof -

  have "\<exists>t router s. ft_label t = ''hr_server'' \<and> (t, router, s) \<in> set [(sample_target, sample_router\<lparr>er_state := \<lparr>revoked_jtis = denied_until 2000\<rparr>,
          er_rate_buckets := [(''host'', [7])]\<rparr>, ())]
    \<and> (\<forall>(J :: unit pyjwt) net mt now tok req v c v'. mv_revocation v = Some (er_state router) \<longrightarrow>
          c_jti c = PStr (ev_jti (event_of ''j1'' ''alice'' 2000 ''user_signed_out'')) \<longrightarrow>
          hr_validate_token J net mt now tok req v \<noteq> (Inr c, v')
          \<and> it_validate_token J net mt now tok req v \<noteq> (Inr c, v'))"
    by (rule fan_out_success_refuses [OF sample_fan_out]) (simp_all add: event_of_def)
  then show ?thesis
    by - (elim exE conjE, intro exI conjI, assumption, assumption,
        auto simp: attach_revocation_def sample_claims_def event_of_def)
qed

text \<open>
  The fan-out is complete: every target is accounted for exactly once, under its label,
  as a success or as a failure with the error of its last attempt.
\<close>

theorem fan_out_accounts_all:
  "mset (successes (fst (fan_out post targets)) @ map fst (failures (fst (fan_out post targets))))
     = mset (map (\<lambda>(t, s). ft_label t) targets)"
proof -
  let ?rs = "fst (gather_legs post targets)"
  have split: "mset (map (ft_label \<circ> fst) (filter (\<lambda>(t, e). e = None) rs)
      @ map fst (map (\<lambda>(t, e). (ft_label t, the e)) (filter (\<lambda>(t, e). e \<noteq> None) rs)))
      = mset (map (ft_label \<circ> fst) rs)" for rs :: "(fan_out_target \<times> string option) list"
    by (induction rs) auto
  have "map (ft_label \<circ> fst) ?rs = map ft_label (map fst ?rs)" by simp
  also have "\<dots> = map (\<lambda>(t, s). ft_label t) targets"
    using gather_legs_targets [of post targets] by (simp add: case_prod_beta)
  finally show ?thesis using split [of ?rs] by (simp add: fan_out_report)
qed

end
