(* ===== verification/BclProps.thy ===== *)
theory BclProps
  imports LogoutProps
begin

text \<open>The properties of the back-channel logout receiver.\<close>

section \<open>Samples\<close>

definition sample_logout_payload :: pydict where
  "sample_logout_payload =
     [(''iss'', PStr ''is''), (''aud'', PStr ''mcp''), (''iat'', PInt 1000), (''sub'', PStr ''alice''), (''jti'', PStr ''L1''),
      (''events'', PDict [(bcl_events_uri, PDict [])])]"

definition sample_bcl_jwt :: "unit pyjwt" where
  "sample_bcl_jwt =
     \<lparr>j_header = \<lambda>t. Inr [(''alg'', PStr ''RS256''), (''typ'', PStr ''logout+jwt''), (''kid'', PStr ''k1'')],
      j_from_jwk = \<lambda>_. Some (), j_decode = \<lambda>t key iss leeway now. Inl OtherInvalidTokenError\<rparr>"

definition sample_decode_logout :: "string \<Rightarrow> unit \<Rightarrow> jwt_err + pydict" where
  "sample_decode_logout t k = (if t = ''lt'' then Inr sample_logout_payload else Inl InvalidSignatureError)"

definition sample_bcl_net :: jwks_net where
  "sample_bcl_net n = (JwksBody (PDict [(''keys'', PList [PDict [(''kid'', PStr ''k1'')]])]), 5000)"

definition sample_bcl_cache :: jwks_cache where
  "sample_bcl_cache = (new_jwks_cache ''jwks'' False)
     \<lparr>jc_keys := [(PStr ''k1'', PDict [(''kid'', PStr ''k1'')])], jc_fetched_at := 5000\<rparr>"

definition sample_bcl_state :: bcl_state where
  "sample_bcl_state = \<lparr>bs_cache = sample_bcl_cache, bs_seen = new_seen_tokens, bs_store = sample_store\<rparr>"

definition sample_bcl_config :: bcl_config where
  "sample_bcl_config = \<lparr>bc_expected_iss = ''is'', bc_expected_aud = ''mcp'', bc_logout = sample_logout_config\<rparr>"

definition sample_logout_claims :: logout_claims where
  "sample_logout_claims = \<lparr>lt_jti = ''L1'', lt_iat = 1000, lt_iss = ''is'', lt_aud = ''mcp'', lt_sub = Some ''alice'',
     lt_sid = None, lt_raw = sample_logout_payload\<rparr>"

definition sample_form :: "(string \<times> string) list option" where
  "sample_form = Some [(''logout_token'', ''lt'')]"

definition form_ct :: string where
  "form_ct = ''application/x-www-form-urlencoded''"

lemma sample_bcl_validate:
  assumes "970 \<le> now" "now \<le> 1300"
  shows "validate_logout_token sample_bcl_jwt sample_decode_logout sample_bcl_net 5001 now ''lt'' ''is'' ''mcp'' sample_bcl_cache
     = (Inr sample_logout_claims, sample_bcl_cache)"
proof -
  have "jwks_get_key sample_bcl_net 5001 (PStr ''k1'') sample_bcl_cache = (Inr (PDict [(''kid'', PStr ''k1'')]), sample_bcl_cache)"
    by (simp add: jwks_get_key_def jwks_is_stale_def jwks_lookup_def sample_bcl_cache_def new_jwks_cache_def)
  moreover have "bcl_payload ''is'' ''mcp'' now sample_logout_payload = Inr sample_logout_claims"
    using assms by (simp add: bcl_payload_def sample_logout_payload_def bcl_aud_set_def as_number_def iat_tolerance_def
        nonempty_str_def sample_logout_claims_def Let_def)
  ultimately show ?thesis
    by (simp add: validate_logout_token_def bcl_header_def sample_bcl_jwt_def pyget_or_def sample_decode_logout_def)
qed

lemma sample_form_token: "bcl_form_token form_ct sample_form = Inr ''lt''"
  by (simp add: bcl_form_token_def form_ct_def sample_form_def py_lower_def lower_char_def py_strip_def py_rstrip_def
      py_lstrip_def py_ws_def char_of_eq_iff)

section \<open>Properties\<close>

text \<open>
  C19. A back-channel request changes the sessions, or has any effect outside, only when it
  carries a logout token whose signature verifies under RS256 with the key that its key id has in
  the receiver's key set, a set the receiver held or the key endpoint served; the signed payload
  is for the expected issuer and audience, issued at most 300 seconds ago and at most 30 seconds
  ahead, with the logout event, without a nonce and with an id not seen before, which is
  then recorded; and the effect is the cascade over the user the payload names by its
  subject or, without one, by its session id.
\<close>

theorem backchannel_effect_only_if_valid:
  assumes "backchannel_logout cfg J dl net mt env rid ct form b = (r, b', tr)"
    and "bs_store b' \<noteq> bs_store b \<or> tr \<noteq> []"
  shows "\<exists>tok header jwk key p auds iat ev jti u res. bcl_form_token ct form = Inr tok
    \<and> j_header J tok = Inr header \<and> pyget header ''alg'' = PStr ''RS256''
    \<and> pyget header ''typ'' \<in> {PNone, PStr ''logout+jwt''}
    \<and> truthy (pyget header ''kid'') \<and> map_of (jc_keys (bs_cache b')) (pyget header ''kid'') = Some jwk
    \<and> keys_served net (bs_cache b) (bs_cache b') \<and> j_from_jwk J jwk = Some key \<and> dl tok key = Inr p
    \<and> pyget p ''iss'' = PStr (bc_expected_iss cfg)
    \<and> bcl_aud_set (pyget p ''aud'') = Inr auds \<and> PStr (bc_expected_aud cfg) \<in> set auds
    \<and> as_number (pyget p ''iat'') = Some iat \<and> iat \<le> le_now env + 30 \<and> le_now env \<le> iat + 300
    \<and> pyget p ''events'' = PDict ev \<and> map_of ev bcl_events_uri \<noteq> None \<and> map_of p ''nonce'' = None
    \<and> pyget p ''jti'' = PStr jti \<and> jti \<noteq> [] \<and> \<not> seen_contains (bs_seen b) jti
    \<and> (distinct (map fst (sl_items (bs_seen b))) \<longrightarrow> seen_contains (bs_seen b') jti)
    \<and> (pyget p ''sub'' = PStr u \<and> u \<noteq> []
       \<or> nonempty_str (pyget p ''sub'') = None
          \<and> (\<exists>sid. sid \<noteq> [] \<and> pyget p ''sid'' = PStr sid \<and> resolve_sid sid (bs_store b) = Some u))
    \<and> execute_for_user_sub (bc_logout cfg) env u rid ''admin_terminated'' (bs_store b) = (res, bs_store b', tr)"
  using assms(1)
proof (cases rule: backchannel_cases)
  case untouched
  then show ?thesis using assms(2) by simp
next
  case (accepted tok c cache' seen' b2)
  from accepted(2) obtain header kid jwk key p where
    v: "j_header J tok = Inr header" "pyget header ''alg'' = PStr ''RS256''"
    "pyget header ''typ'' \<in> {PNone, PStr ''logout+jwt''}"
    "map_of (jc_keys cache') kid = Some jwk" "j_from_jwk J jwk = Some key" "dl tok key = Inr p"
    "truthy kid" "kid = pyget header ''kid''" "keys_served net (bs_cache b) cache'"
    and p: "bcl_payload (bc_expected_iss cfg) (bc_expected_aud cfg) (le_now env) p = Inr c"
    by (rule validate_logout_token_ok)
  note q = bcl_payload_ok [OF p]
  from q(2,6) obtain auds ev where ae: "bcl_aud_set (pyget p ''aud'') = Inr auds" "PStr (bc_expected_aud cfg) \<in> set auds"
    "pyget p ''events'' = PDict ev" "map_of ev bcl_events_uri \<noteq> None"
    by (auto simp: bcl_events_ok_def split: py.splits)
  from accepted(7) assms(2) obtain u where u: "bcl_user c (bs_store b) = Some u" "(r, b', tr) = bcl_cascade cfg env rid u b2"
    by (auto simp: accepted(6))
  have e: "bs_cache b' = cache'"
    "execute_for_user_sub (bc_logout cfg) env u rid ''admin_terminated'' (bs_store b)
       = (fst (execute_for_user_sub (bc_logout cfg) env u rid ''admin_terminated'' (bs_store b)), bs_store b', tr)"
    using u(2) by (auto simp: bcl_cascade_def accepted(6) split: prod.splits sum.splits)
  have s: "distinct (map fst (sl_items (bs_seen b))) \<longrightarrow> seen_contains (bs_seen b') (lt_jti c)"
    using seen_add_contains [OF accepted(4)] accepted(5) by simp
  have t: "le_now env \<le> lt_iat c + 300" using q(5) by (simp add: iat_tolerance_def)
  show ?thesis
    by (rule exI [of _ tok], rule exI [of _ header], rule exI [of _ jwk], rule exI [of _ key], rule exI [of _ p],
        rule exI [of _ auds], rule exI [of _ "lt_iat c"], rule exI [of _ ev], rule exI [of _ "lt_jti c"], rule exI [of _ u],
        rule exI, intro conjI)
       (fact accepted(1,3) v(1-3) v(7) [unfolded v(8)] v(4) [unfolded v(8), folded e(1)] v(9) [folded e(1)] v(5,6)
          ae q(1,3,4,7,9,10) s t bcl_payload_user [OF p u(1)] e(2))+
qed

lemma sample_seen_add: "\<exists>d. seen_add new_seen_tokens ''L1'' 1000 = Some d"
  by (rule seen_add_total) (simp add: new_seen_tokens_def)

lemma sample_backchannel:
  assumes "970 \<le> le_now env" "le_now env \<le> 1300"
  obtains d where "seen_add new_seen_tokens ''L1'' 1000 = Some d"
    "backchannel_logout sample_bcl_config sample_bcl_jwt sample_decode_logout sample_bcl_net 5001 env ''r'' form_ct sample_form
       sample_bcl_state = bcl_cascade sample_bcl_config env ''r'' ''alice'' (sample_bcl_state\<lparr>bs_seen := d\<rparr>)"
proof -
  obtain d where d: "seen_add new_seen_tokens ''L1'' 1000 = Some d" using sample_seen_add by blast
  have "\<not> seen_contains new_seen_tokens ''L1''" by (simp add: seen_contains_def new_seen_tokens_def od_keys_def)
  with d show thesis
    by (intro that [OF d])
       (simp add: backchannel_logout_def sample_form_token sample_bcl_config_def sample_bcl_state_def
          sample_bcl_validate [OF assms] sample_logout_claims_def)
qed

lemma sample_cascade_done:
  assumes "\<And>i. le_revoke env i = RevokeHttpError"
  shows "\<exists>b' tr. bcl_cascade sample_bcl_config env ''r'' ''alice'' (sample_bcl_state\<lparr>bs_seen := d\<rparr>) = (BclOk True, b', tr)
     \<and> ss_sessions (bs_store b') = [(''s2'', sample_session ''s2'' ''bob'')]"
proof -
  have u: "s_user_sub (sample_session ''s1'' ''alice'') = ''alice''" by (simp add: sample_session_def)
  have "\<forall>s \<in> set (find_sessions_for_user (s_user_sub (sample_session ''s1'' ''alice'')) sample_store).
       \<exists>c. le_revoke env (s_session_id s) \<in> {RevokeStatus c, RevokeHttpError}"
    by (simp add: assms)
  from execute_locked_succeeds [OF sample_store_ok(2) this, of sample_logout_config "''r''" "''admin_terminated''"]
  obtain res st' tr where x: "execute_locked sample_logout_config env (sample_session ''s1'' ''alice'') ''r''
      ''admin_terminated'' sample_store = (Inr res, st', tr)" by blast
  from execute_locked_done(1,3) [OF sample_store_ok(1) x] have
    "ss_sessions st' = [(''s2'', sample_session ''s2'' ''bob'')]" "lr_had_session res"
    by (simp_all add: u sample_user_sessions) (simp add: sample_store_def sample_session_def)
  then show ?thesis
    by (simp add: bcl_cascade_def execute_for_user_sub_def sample_bcl_state_def sample_user_sessions
        sample_bcl_config_def x)
qed

lemma backchannel_effect_only_if_valid_witness:
  "\<exists>tok header key p ev jti. bcl_form_token form_ct sample_form = Inr tok \<and> j_header sample_bcl_jwt tok = Inr header
     \<and> pyget header ''alg'' = PStr ''RS256'' \<and> sample_decode_logout tok key = Inr p
     \<and> pyget p ''events'' = PDict ev \<and> map_of ev bcl_events_uri \<noteq> None \<and> pyget p ''jti'' = PStr jti"
proof -
  let ?env = "sample_env RevokeHttpError"
  obtain d where b: "backchannel_logout sample_bcl_config sample_bcl_jwt sample_decode_logout sample_bcl_net 5001 ?env ''r''
      form_ct sample_form sample_bcl_state = bcl_cascade sample_bcl_config ?env ''r'' ''alice'' (sample_bcl_state\<lparr>bs_seen := d\<rparr>)"
    by (rule sample_backchannel [of ?env]) (simp_all add: sample_env_def)
  obtain b' tr where c: "bcl_cascade sample_bcl_config ?env ''r'' ''alice'' (sample_bcl_state\<lparr>bs_seen := d\<rparr>) = (BclOk True, b', tr)"
    and s: "ss_sessions (bs_store b') = [(''s2'', sample_session ''s2'' ''bob'')]"
    using sample_cascade_done [of ?env d] by (auto simp: sample_env_def)
  have "bs_store b' \<noteq> bs_store sample_bcl_state"
    using s by (auto simp: sample_bcl_state_def sample_store_def)
  then have "bs_store b' \<noteq> bs_store sample_bcl_state \<or> tr \<noteq> []" ..
  from backchannel_effect_only_if_valid [OF b [unfolded c] this] show ?thesis
    by (elim exE conjE, intro exI conjI) assumption+
qed

text \<open>
  A logout token takes effect once: after it was recorded, any further recordings
  (fewer than the cap) and sweeps before now leave it recorded, and while its age still
  passes the freshness check a request carrying it is acknowledged without any effect.
\<close>

theorem logout_token_effective_once:
  assumes "seen_add d (lt_jti c) (lt_iat c) = Some d1" and "distinct (map fst (sl_items d))"
    and "sl_iat_tolerance_seconds d = iat_tolerance"
    and "fifo_run seen_add seen_sweep_once d1 ops = Some (bs_seen b)"
    and "int (length (filter is_put ops)) < sl_hard_cap d"
    and "\<And>t. FSweep t \<in> set ops \<Longrightarrow> t \<le> le_now env"
    and "\<And>v. FPut (lt_jti c) v \<in> set ops \<Longrightarrow> v = lt_iat c"
    and "bcl_form_token ct form = Inr tok"
    and "validate_logout_token J dl net mt (le_now env) tok (bc_expected_iss cfg) (bc_expected_aud cfg) (bs_cache b)
       = (Inr c, cache')"
  shows "backchannel_logout cfg J dl net mt env rid ct form b = (BclDeduped, b\<lparr>bs_cache := cache'\<rparr>, [])"
proof (rule backchannel_dedup [OF assms(8,9)])
  have "le_now env \<le> lt_iat c + of_int iat_tolerance"
    using assms(9) by (rule validate_logout_token_ok) (rule bcl_payload_ok(5))
  then show "seen_contains (bs_seen b) (lt_jti c)"
    using seen_kept_while_fresh [OF assms(1-5)] assms(6,7) by force
qed

lemma logout_token_effective_once_witness:
  "\<exists>d1 d2. seen_add new_seen_tokens ''L1'' 1000 = Some d1
     \<and> fifo_run seen_add seen_sweep_once d1 [FPut ''L2'' 990, FSweep 1200] = Some d2
     \<and> backchannel_logout sample_bcl_config sample_bcl_jwt sample_decode_logout sample_bcl_net 5001
         ((sample_env RevokeHttpError)\<lparr>le_now := 1250\<rparr>) ''r'' form_ct sample_form (sample_bcl_state\<lparr>bs_seen := d2\<rparr>)
       = (BclDeduped, sample_bcl_state\<lparr>bs_seen := d2\<rparr>, [])"
proof -
  obtain d1 where d1: "seen_add new_seen_tokens ''L1'' 1000 = Some d1" using sample_seen_add by blast
  have "sl_hard_cap d1 = 10000" using seen_add_frame [OF d1] by (simp add: new_seen_tokens_def)
  then obtain d2 where d2: "fifo_run seen_add seen_sweep_once d1 [FPut ''L2'' 990, FSweep 1200] = Some d2"
    using seen.run_total [of d1] by fastforce
  let ?env = "(sample_env RevokeHttpError)\<lparr>le_now := 1250\<rparr>" and ?b = "sample_bcl_state\<lparr>bs_seen := d2\<rparr>"
  have v: "validate_logout_token sample_bcl_jwt sample_decode_logout sample_bcl_net 5001 (le_now ?env) ''lt''
      (bc_expected_iss sample_bcl_config) (bc_expected_aud sample_bcl_config) (bs_cache ?b) = (Inr sample_logout_claims, sample_bcl_cache)"
    using sample_bcl_validate [of 1250] by (simp add: sample_bcl_config_def sample_bcl_state_def)
  have "backchannel_logout sample_bcl_config sample_bcl_jwt sample_decode_logout sample_bcl_net 5001 ?env ''r'' form_ct
      sample_form ?b = (BclDeduped, ?b\<lparr>bs_cache := sample_bcl_cache\<rparr>, [])"
    by (rule logout_token_effective_once [where d = new_seen_tokens and ?d1.0 = d1 and ops = "[FPut ''L2'' 990, FSweep 1200]",
          OF _ _ _ _ _ _ _ sample_form_token v])
       (use d1 d2 in \<open>auto simp: sample_logout_claims_def new_seen_tokens_def\<close>)
  with d1 d2 show ?thesis by (auto simp: sample_bcl_state_def)
qed

text \<open>
  C33. A cascade that crashes is not repaired by a retry: the token is recorded before the
  cascade runs, so the retry of the identity server is acknowledged as a duplicate and the
  session of the user stays.
\<close>

theorem crashed_cascade_not_retried:
  fixes env1 env2 :: logout_env
  assumes "970 \<le> le_now env1" "le_now env1 \<le> le_now env2" "le_now env2 \<le> 1300"
    and "le_revoke env1 ''s1'' = RevokeOther ''ValueError''"
  shows "\<exists>b1 tr1. backchannel_logout sample_bcl_config sample_bcl_jwt sample_decode_logout sample_bcl_net 5001 env1 ''r''
        form_ct sample_form sample_bcl_state = (BclServerError, b1, tr1)
    \<and> backchannel_logout sample_bcl_config sample_bcl_jwt sample_decode_logout sample_bcl_net 5001 env2 ''r''
        form_ct sample_form b1 = (BclDeduped, b1, [])
    \<and> map_of (ss_sessions (bs_store b1)) ''s1'' \<noteq> None"
proof -
  have t2: "970 \<le> le_now env2" "le_now env1 \<le> 1300" using assms by linarith+
  obtain d where d: "seen_add new_seen_tokens ''L1'' 1000 = Some d"
    and b: "backchannel_logout sample_bcl_config sample_bcl_jwt sample_decode_logout sample_bcl_net 5001 env1 ''r'' form_ct
        sample_form sample_bcl_state = bcl_cascade sample_bcl_config env1 ''r'' ''alice'' (sample_bcl_state\<lparr>bs_seen := d\<rparr>)"
    using sample_backchannel [OF assms(1) t2(2)] .
  obtain st tr where x: "execute_locked sample_logout_config env1 (sample_session ''s1'' ''alice'') ''r'' ''admin_terminated''
      sample_store = (Inl (EPy ''ValueError''), st, tr)" and s1: "map_of (ss_sessions st) ''s1'' \<noteq> None"
    using assms(4) sample_user_sessions
    by (simp add: execute_locked_def sample_session_def logout_one_def revoke_access_token_def cancel_pending_ciba_def
        mark_terminating_def dict_simps)
  let ?b1 = "sample_bcl_state\<lparr>bs_seen := d, bs_store := st\<rparr>"
  have c: "bcl_cascade sample_bcl_config env1 ''r'' ''alice'' (sample_bcl_state\<lparr>bs_seen := d\<rparr>) = (BclServerError, ?b1, tr)"
    by (simp add: bcl_cascade_def execute_for_user_sub_def sample_bcl_state_def sample_user_sessions
        sample_bcl_config_def x)
  have "validate_logout_token sample_bcl_jwt sample_decode_logout sample_bcl_net 5001 (le_now env2) ''lt''
      (bc_expected_iss sample_bcl_config) (bc_expected_aud sample_bcl_config) (bs_cache ?b1) = (Inr sample_logout_claims, sample_bcl_cache)"
    using sample_bcl_validate [OF t2(1) assms(3)] by (simp add: sample_bcl_config_def sample_bcl_state_def)
  moreover have "seen_contains (bs_seen ?b1) (lt_jti sample_logout_claims)"
    using seen_add_contains [OF d] by (simp add: sample_logout_claims_def new_seen_tokens_def)
  ultimately have "backchannel_logout sample_bcl_config sample_bcl_jwt sample_decode_logout sample_bcl_net 5001 env2 ''r''
        form_ct sample_form ?b1 = (BclDeduped, ?b1\<lparr>bs_cache := sample_bcl_cache\<rparr>, [])"
    by (rule backchannel_dedup [OF sample_form_token])
  then show ?thesis using b c s1 by (auto simp: sample_bcl_state_def)
qed

lemma crashed_cascade_not_retried_witness:
  "\<exists>b1 tr1. backchannel_logout sample_bcl_config sample_bcl_jwt sample_decode_logout sample_bcl_net 5001
       (sample_env (RevokeOther ''ValueError'')) ''r'' form_ct sample_form sample_bcl_state = (BclServerError, b1, tr1)
     \<and> backchannel_logout sample_bcl_config sample_bcl_jwt sample_decode_logout sample_bcl_net 5001
       (sample_env RevokeHttpError) ''r'' form_ct sample_form b1 = (BclDeduped, b1, [])
     \<and> map_of (ss_sessions (bs_store b1)) ''s1'' \<noteq> None"
  by (rule crashed_cascade_not_retried) (simp_all add: sample_env_def)

end
