(* ===== verification/IsClient.thy ===== *)
theory IsClient
  imports ActorToken McpClients UrlText
begin

text \<open>
  \<open>common/auth/wso2_is_client.py\<close>: the requests to the OAuth endpoints of the identity server
  and the reading of its answers, and the mint of \<open>actor_token_provider.py\<close> over this client.

  The network is a parameter, a function from a request to an answer (\<open>http_answer\<close> of
  McpClients).  The texts of the raised exceptions are left out, but the work the code does
  to build them is kept, since it can raise itself.
\<close>

section \<open>Requests\<close>

record is_config =
  ic_base_url :: string
  ic_insecure_tls :: bool

record is_request =
  iq_method :: string
  iq_url :: string
  iq_basic :: "(string \<times> string) option"
  iq_form :: "(string \<times> py) list"
  iq_json :: "py option"

type_synonym is_net = "is_request \<Rightarrow> http_answer"

definition authorize_url :: "is_config \<Rightarrow> string" where
  "authorize_url cfg = ic_base_url cfg @ ''/oauth2/authorize''"

definition authn_url :: "is_config \<Rightarrow> string" where
  "authn_url cfg = ic_base_url cfg @ ''/oauth2/authn''"

definition token_url :: "is_config \<Rightarrow> string" where
  "token_url cfg = ic_base_url cfg @ ''/oauth2/token''"

definition jwks_url :: "is_config \<Rightarrow> string" where
  "jwks_url cfg = ic_base_url cfg @ ''/oauth2/jwks''"

definition is_issuer :: "is_config \<Rightarrow> string" where
  "is_issuer cfg = token_url cfg"

definition form_post :: "string \<Rightarrow> string \<Rightarrow> string \<Rightarrow> (string \<times> py) list \<Rightarrow> is_request" where
  "form_post url client_id client_secret form =
     \<lparr>iq_method = ''POST'', iq_url = url, iq_basic = Some (client_id, client_secret), iq_form = form, iq_json = None\<rparr>"

definition json_post :: "string \<Rightarrow> py \<Rightarrow> is_request" where
  "json_post url body = \<lparr>iq_method = ''POST'', iq_url = url, iq_basic = None, iq_form = [], iq_json = Some body\<rparr>"

section \<open>Answers\<close>

text \<open>\<open>response.json()\<close> after the status check \<open>ok\<close>, which raises an exception of class \<open>cls\<close>.\<close>

definition read_json :: "(int \<Rightarrow> bool) \<Rightarrow> exc_class \<Rightarrow> http_answer \<Rightarrow> py res" where
  "read_json ok cls r =
     (case r of
        HttpRaised e \<Rightarrow> Inl e
      | HttpReply status body \<Rightarrow>
          if \<not> ok status then Inl (raise_default cls)
          else (case body of None \<Rightarrow> Inl (EPy ''JSONDecodeError'') | Some v \<Rightarrow> Inr v))"

definition is_success :: "int \<Rightarrow> bool" where
  "is_success status \<longleftrightarrow> 200 \<le> status \<and> status \<le> 299"

text \<open>\<open>OAuthToken.from_response\<close> of a decoded body; indexing another value by a string is a \<open>TypeError\<close>.\<close>

definition token_of_json :: "py \<Rightarrow> real \<Rightarrow> oauth_token res" where
  "token_of_json v now = (case v of PDict b \<Rightarrow> from_response b now | _ \<Rightarrow> Inl (EPy ''TypeError''))"

definition post_authorize ::
  "is_config \<Rightarrow> is_net \<Rightarrow> string \<Rightarrow> string \<Rightarrow> string \<Rightarrow> string \<Rightarrow> string \<Rightarrow> string \<Rightarrow> string \<Rightarrow> py res"
where
  "post_authorize cfg net client_id client_secret redirect_uri scope code_challenge code_challenge_method response_mode =
     read_json (\<lambda>c. c = 200) CIBAInitiationError
       (net (form_post (authorize_url cfg) client_id client_secret
          [(''client_id'', PStr client_id), (''response_type'', PStr ''code''), (''redirect_uri'', PStr redirect_uri),
           (''scope'', PStr scope), (''response_mode'', PStr response_mode), (''code_challenge'', PStr code_challenge),
           (''code_challenge_method'', PStr code_challenge_method)]))"

definition authn_body :: "py \<Rightarrow> py \<Rightarrow> pydict \<Rightarrow> py" where
  "authn_body flow_id authenticator_id params =
     PDict [(''flowId'', flow_id),
            (''selectedAuthenticator'', PDict [(''authenticatorId'', authenticator_id), (''params'', PDict params)])]"

definition post_authn_raw :: "is_config \<Rightarrow> is_net \<Rightarrow> py \<Rightarrow> py \<Rightarrow> pydict \<Rightarrow> py res" where
  "post_authn_raw cfg net flow_id authenticator_id params =
     read_json (\<lambda>c. c = 200) CIBAInitiationError
       (net (json_post (authn_url cfg) (authn_body flow_id authenticator_id params)))"

text \<open>What the error of an answer without a code reports: status, messages, and whether the
  credentials were refused.\<close>

definition authn_report :: "py \<Rightarrow> (py \<times> string list \<times> bool) res" where
  "authn_report body =
     (case body of
        PDict b \<Rightarrow>
         (let flow_status = pyget_or b ''flowStatus'' (PStr ''UNKNOWN'')
          in case sub_get body ''nextStep'' ''messages'' of
               Inl e \<Rightarrow> Inl e
             | Inr msgs \<Rightarrow>
                (case error_messages msgs of
                   Inl e \<Rightarrow> Inl e
                 | Inr errs \<Rightarrow>
                    Inr (flow_status, errs, flow_status = PStr ''FAIL_INCOMPLETE''
                       \<or> (\<exists>m \<in> set errs. str_in ''ABA-60003'' m \<or> str_in ''login.fail'' m))))
      | _ \<Rightarrow> Inl (EPy ''AttributeError''))"

definition read_code :: "py \<Rightarrow> py res" where
  "read_code body =
     (case sub_get body ''authData'' ''code'' of
        Inl e \<Rightarrow> Inl e
      | Inr c \<Rightarrow> if truthy c then Inr c else obj_get body ''code'')"

definition post_authn :: "is_config \<Rightarrow> is_net \<Rightarrow> py \<Rightarrow> py \<Rightarrow> pydict \<Rightarrow> py res" where
  "post_authn cfg net flow_id authenticator_id params =
     (case post_authn_raw cfg net flow_id authenticator_id params of
        Inl e \<Rightarrow> Inl e
      | Inr body \<Rightarrow>
         (case read_code body of
            Inl e \<Rightarrow> Inl e
          | Inr code \<Rightarrow>
              if truthy code then Inr code
              else (case authn_report body of Inl e \<Rightarrow> Inl e | Inr _ \<Rightarrow> Inl (raise_default CIBAInitiationError))))"

definition exchange_form :: "string \<Rightarrow> py \<Rightarrow> string \<Rightarrow> string \<Rightarrow> py option \<Rightarrow> (string \<times> py) list" where
  "exchange_form client_id code code_verifier redirect_uri actor_token =
     [(''grant_type'', PStr ''authorization_code''), (''client_id'', PStr client_id), (''code'', code),
      (''code_verifier'', PStr code_verifier), (''redirect_uri'', PStr redirect_uri)]
     @ (case actor_token of None \<Rightarrow> []
        | Some t \<Rightarrow> [(''actor_token'', t), (''actor_token_type'', PStr ''urn:ietf:params:oauth:token-type:access_token'')])"

definition exchange_code ::
  "is_config \<Rightarrow> is_net \<Rightarrow> real \<Rightarrow> string \<Rightarrow> string \<Rightarrow> py \<Rightarrow> string \<Rightarrow> string \<Rightarrow> py option \<Rightarrow> oauth_token res"
where
  "exchange_code cfg net now client_id client_secret code code_verifier redirect_uri actor_token =
     (case read_json is_success AuthError
             (net (form_post (token_url cfg) client_id client_secret
                (exchange_form client_id code code_verifier redirect_uri actor_token))) of
        Inl e \<Rightarrow> Inl e
      | Inr v \<Rightarrow> token_of_json v now)"

definition client_credentials ::
  "is_config \<Rightarrow> is_net \<Rightarrow> real \<Rightarrow> string \<Rightarrow> string \<Rightarrow> string option \<Rightarrow> oauth_token res"
where
  "client_credentials cfg net now client_id client_secret scope =
     (case read_json is_success AuthError
             (net (form_post (token_url cfg) client_id client_secret
                ((''grant_type'', PStr ''client_credentials'')
                  # (case scope of None \<Rightarrow> [] | Some s \<Rightarrow> [(''scope'', PStr s)])))) of
        Inl e \<Rightarrow> Inl e
      | Inr v \<Rightarrow> token_of_json v now)"

definition fetch_jwks :: "is_config \<Rightarrow> is_net \<Rightarrow> string option \<Rightarrow> py res" where
  "fetch_jwks cfg net url_arg =
     (let url = (if or_empty url_arg \<noteq> [] then or_empty url_arg else jwks_url cfg)
      in read_json is_success AuthError
           (net \<lparr>iq_method = ''GET'', iq_url = url, iq_basic = None, iq_form = [], iq_json = None\<rparr>))"

section \<open>PKCE\<close>

text \<open>
  \<open>_pkce_pair\<close> and \<open>make_pkce\<close>: \<open>rnd\<close> is what \<open>secrets.token_bytes(32)\<close> gave, \<open>sha\<close> the
  SHA-256 digest of \<open>hashlib\<close> on bytes.
\<close>

definition code_challenge_of :: "(nat list \<Rightarrow> nat list) \<Rightarrow> string \<Rightarrow> string" where
  "code_challenge_of sha code_verifier = rstrip_pad (urlsafe_b64encode (sha (concat (map utf8_bytes code_verifier))))"

definition make_pkce :: "(nat list \<Rightarrow> nat list) \<Rightarrow> nat list \<Rightarrow> string \<times> string" where
  "make_pkce sha rnd =
     (let verifier = rstrip_pad (urlsafe_b64encode rnd) in (verifier, code_challenge_of sha verifier))"

section \<open>The mint over this client\<close>

record agent_credentials =
  ac_agent_id :: string
  ac_agent_secret :: string
  ac_oauth_client_id :: string
  ac_oauth_client_secret :: string
  ac_redirect_uri :: string

text \<open>
  The world one mint meets: \<open>net n\<close> answers the \<open>n\<close>-th request to a URL, \<open>got\<close> is when the
  token arrives and \<open>done\<close> when the mint returns.
\<close>

definition is_mint_world ::
  "is_config \<Rightarrow> agent_credentials \<Rightarrow> string \<Rightarrow> (nat list \<Rightarrow> nat list) \<Rightarrow> nat list \<Rightarrow> (nat \<Rightarrow> is_net) \<Rightarrow> real \<Rightarrow> real \<Rightarrow> mint_world"
where
  "is_mint_world cfg cr scope sha rnd net got done =
     (let (verifier, challenge) = make_pkce sha rnd
      in \<lparr>mw_verifier = verifier, mw_challenge = challenge,
          mw_authorize = (\<lambda>ch. post_authorize cfg (net 0) (ac_oauth_client_id cr) (ac_oauth_client_secret cr)
             (ac_redirect_uri cr) scope ch ''S256'' ''direct''),
          mw_authn = (\<lambda>n flow_id i. post_authn_raw cfg (net n) flow_id i
             [(''username'', PStr (ac_agent_id cr)), (''password'', PStr (ac_agent_secret cr))]),
          mw_exchange = (\<lambda>code ver. exchange_code cfg (net 0) got (ac_oauth_client_id cr) (ac_oauth_client_secret cr)
             code ver (ac_redirect_uri cr) None),
          mw_done = done\<rparr>)"

section \<open>Facts\<close>

lemma exchange_code_ok:
  "exchange_code cfg net now ci cs code ver uri act = Inr tok \<Longrightarrow>
     \<exists>status b. net (form_post (token_url cfg) ci cs (exchange_form ci code ver uri act)) = HttpReply status (Some (PDict b))
       \<and> is_success status \<and> from_response b now = Inr tok"
  by (auto simp: exchange_code_def read_json_def token_of_json_def
      split: sum.splits http_answer.splits if_splits option.splits py.splits)

lemma exchange_code_class:
  "exchange_code cfg net now ci cs code ver uri act = Inl e \<Longrightarrow>
     e = raise_default AuthError \<or> (\<exists>n. e = EPy n) \<or> (\<exists>q. net q = HttpRaised e)"
  by (auto simp: exchange_code_def read_json_def token_of_json_def from_response_def
      split: sum.splits http_answer.splits if_splits option.splits py.splits dest: py_int_error)

text \<open>The verifier is 43 characters that need no quoting; the challenge encodes the digest of its bytes.\<close>

lemma make_pkce_shape:
  assumes "length rnd = 32" "\<forall>b \<in> set rnd. b < 256"
  shows "length (fst (make_pkce sha rnd)) = 43" "\<forall>c \<in> set (fst (make_pkce sha rnd)). url_safe c"
    "snd (make_pkce sha rnd) = code_challenge_of sha (fst (make_pkce sha rnd))"
  using assms b64_body_safe [OF assms(2)]
  by (simp_all add: make_pkce_def Let_def rstrip_urlsafe length_b64_body)

lemma code_challenge_decodes:
  "\<forall>b \<in> set (sha (concat (map utf8_bytes v))). b < 256 \<Longrightarrow>
     b64_decode (code_challenge_of sha v) = sha (concat (map utf8_bytes v))"
  by (simp add: code_challenge_of_def rstrip_urlsafe b64_decode_body)

end
