(* ===== verification/Login.thy ===== *)
theory Login
  imports IsClient Jwt LogoutHandler "HOL-Library.Char_ord" "HOL-Library.List_Lexorder"
begin

text \<open>
  \<open>orchestrator/auth/routes.py\<close> and \<open>orchestrator/auth/pattern_c.py\<close>: the login of a user.
  \<open>/auth/login\<close> notes a pending login under a fresh state and sends the browser to the identity
  server; \<open>/agent-callback\<close> returns a page that posts code and state; \<open>/auth/exchange\<close> takes the
  pending login out, exchanges the code together with the orchestrator's own token, and makes
  the session; \<open>/auth/logout\<close> runs the cascade.

  Random values, times and the network are arguments.  The exchange waits for the identity
  server between taking the pending login and making the session, so it is two definitions,
  \<open>exchange_start\<close> and \<open>exchange_finish\<close>.  Of the two pages only what the code puts into the
  fixed text is modelled.
\<close>

section \<open>The authorize URL\<close>

definition build_authorize_url ::
  "(nat list \<Rightarrow> nat list) \<Rightarrow> string \<Rightarrow> string \<Rightarrow> string \<Rightarrow> string \<Rightarrow> string \<Rightarrow> string \<Rightarrow> string \<Rightarrow> string \<times> string"
where
  "build_authorize_url sha endpoint client_id redirect_uri scope requested_actor state code_verifier =
     (let code_challenge = code_challenge_of sha code_verifier
      in (endpoint @ ''?'' @ urlencode
            [(''client_id'', client_id), (''response_type'', ''code''), (''redirect_uri'', redirect_uri),
             (''scope'', scope), (''state'', state), (''code_challenge'', code_challenge),
             (''code_challenge_method'', ''S256''), (''requested_actor'', requested_actor)],
          code_challenge))"

section \<open>The code exchange\<close>

record pattern_c_result =
  pr_token_a :: oauth_token
  pr_claims :: jwt_claims

record exchanger =
  ex_is :: is_config
  ex_client_id :: string
  ex_client_secret :: string
  ex_validator :: validator_config
  ex_provider :: actor_provider
  ex_cache :: jwks_cache

text \<open>What one exchange meets: the mints of the provider, the network, the clocks.\<close>

record exchange_world =
  ew_mints :: "nat \<Rightarrow> mint_world"
  ew_net :: is_net
  ew_jwks :: jwks_net
  ew_now :: real
  ew_lock_time :: real
  ew_got :: real
  ew_mono :: real
  ew_valid_now :: real

text \<open>\<open>validate\<close> on a decoded value: PyJWT refuses anything but a text as undecodable.\<close>

definition validate_py ::
  "'k pyjwt \<Rightarrow> jwks_net \<Rightarrow> real \<Rightarrow> real \<Rightarrow> py \<Rightarrow> validator_config \<Rightarrow> jwks_cache \<Rightarrow> jwt_claims res \<times> jwks_cache"
where
  "validate_py J net mt now token cfg cache =
     (case token of PStr t \<Rightarrow> validate J net mt now t cfg cache | _ \<Rightarrow> (Inl (header_error DecodeError), cache))"

text \<open>The last log line reads \<open>(claims.act or {}).get("sub")\<close>.\<close>

definition pattern_c_exchange ::
  "'k pyjwt \<Rightarrow> exchange_world \<Rightarrow> exchanger \<Rightarrow> string \<Rightarrow> string \<Rightarrow> string \<Rightarrow> pattern_c_result res \<times> exchanger"
where
  "pattern_c_exchange J w ex code code_verifier redirect_uri =
     (case ensure_valid_token (ew_mints w) (ew_now w) (ew_lock_time w) (ex_provider ex) of
        (Inl e, p) \<Rightarrow> (Inl e, ex\<lparr>ex_provider := p\<rparr>)
      | (Inr actor_token, p) \<Rightarrow>
         (let ex1 = ex\<lparr>ex_provider := p\<rparr>
          in case exchange_code (ex_is ex) (ew_net w) (ew_got w) (ex_client_id ex) (ex_client_secret ex)
                    (PStr code) code_verifier redirect_uri (Some (access_token actor_token)) of
               Inl e \<Rightarrow> (Inl e, ex1)
             | Inr token_a \<Rightarrow>
                (case validate_py J (ew_jwks w) (ew_mono w) (ew_valid_now w) (access_token token_a)
                        (ex_validator ex) (ex_cache ex) of
                   (Inl e, c) \<Rightarrow> (Inl e, ex1\<lparr>ex_cache := c\<rparr>)
                 | (Inr claims, c) \<Rightarrow>
                    (case obj_get (or_dict (c_act claims)) ''sub'' of
                       Inl e \<Rightarrow> (Inl e, ex1\<lparr>ex_cache := c\<rparr>)
                     | Inr _ \<Rightarrow> (Inr \<lparr>pr_token_a = token_a, pr_claims = claims\<rparr>, ex1\<lparr>ex_cache := c\<rparr>)))))"

section \<open>Pending logins\<close>

record pending_login =
  pl_code_verifier :: string
  pl_redirect_after_login :: string
  pl_created_at :: real

type_synonym pending_logins = "(string \<times> pending_login) list"

definition pending_logins_hard_cap :: nat where
  "pending_logins_hard_cap = 10000"

definition pending_logins_ttl_seconds :: int where
  "pending_logins_ttl_seconds = 600"

definition drop_expired_logins :: "real \<Rightarrow> pending_logins \<Rightarrow> pending_logins" where
  "drop_expired_logins now d =
     (let cutoff = now - of_int pending_logins_ttl_seconds;
          expired = map fst (filter (\<lambda>(k, v). pl_created_at v < cutoff) d)
      in fold AList.delete expired d)"

text \<open>The loop of \<open>popitem(last=False)\<close>; the dictionary is not empty while it is at the cap.\<close>

function evict_logins :: "pending_logins \<Rightarrow> pending_logins" where
  "evict_logins d = (if pending_logins_hard_cap \<le> length d then evict_logins (tl d) else d)"
  by pat_completeness auto
termination
  by (relation "measure length") (auto simp: pending_logins_hard_cap_def)

declare evict_logins.simps [simp del]

definition enforce_pending_logins_bounds :: "real \<Rightarrow> pending_logins \<Rightarrow> pending_logins" where
  "enforce_pending_logins_bounds now d = evict_logins (drop_expired_logins now d)"

section \<open>The routes\<close>

record login_config =
  lg_is_base_url :: string
  lg_mcp_client_id :: string
  lg_mcp_redirect_uri :: string
  lg_agent_id :: string
  lg_allowed_origins :: "string set"
  lg_cookie_name :: string
  lg_cookie_secure :: bool
  lg_session_ttl_seconds :: int

definition login_scope :: string where
  "login_scope = ''openid profile email hr_basic_rest hr_self_rest hr_read_rest hr_approve_rest hr_assets_write_rest it_assets_read_rest it_assets_self_rest it_assets_write_rest''"

text \<open>
  \<open>GET /auth/login\<close>: \<open>rnd_state\<close> and \<open>rnd_verifier\<close> are the 32 random bytes drawn for each,
  \<open>now\<close> the time of the sweep, \<open>created\<close> that of the record.
\<close>

definition login ::
  "login_config \<Rightarrow> (nat list \<Rightarrow> nat list) \<Rightarrow> nat list \<Rightarrow> nat list \<Rightarrow> real \<Rightarrow> real \<Rightarrow> string \<Rightarrow> pending_logins
     \<Rightarrow> string \<times> pending_logins"
where
  "login cfg sha rnd_state rnd_verifier now created next_url d =
     (let state = rstrip_pad (urlsafe_b64encode rnd_state);
          code_verifier = fst (make_pkce sha rnd_verifier);
          d1 = enforce_pending_logins_bounds now d;
          d2 = AList.update state
                 \<lparr>pl_code_verifier = code_verifier,
                  pl_redirect_after_login = (if next_url \<noteq> [] then next_url else ''/''),
                  pl_created_at = created\<rparr> d1
      in (fst (build_authorize_url sha (lg_is_base_url cfg @ ''/oauth2/authorize'') (lg_mcp_client_id cfg)
            (lg_mcp_redirect_uri cfg) login_scope (lg_agent_id cfg) state code_verifier), d2))"

text \<open>The first of the allowed origins in the order of strings.\<close>

definition spa_base_url :: "login_config \<Rightarrow> string res" where
  "spa_base_url cfg = (if lg_allowed_origins cfg = {} then Inl (EPy ''IndexError'') else Inr (Min (lg_allowed_origins cfg)))"

subsection \<open>The pages\<close>

text \<open>\<open>s.replace(c, t)\<close> for a character \<open>c\<close>, and the escaping of a text put between single quotes.\<close>

definition replace_char :: "char \<Rightarrow> string \<Rightarrow> string \<Rightarrow> string" where
  "replace_char c t s = concat (map (\<lambda>x. if x = c then t else [x]) s)"

definition js_escape :: "string \<Rightarrow> string" where
  "js_escape s = replace_char (CHR 0x27) [CHR 0x5C, CHR 0x27] (replace_char (CHR 0x5C) [CHR 0x5C, CHR 0x5C] s)"

text \<open>
  The relay page carries three texts between single quotes inside its script; the error page
  one in the \<open>content\<close> attribute of its \<open>meta\<close> element and one in its script.
\<close>

datatype page =
    RelayPage (page_code: string) (page_state: string) (page_redirect: string)
  | ErrorPage (page_meta_url: string) (page_script_url: string)

definition make_exchange_relay_html :: "string \<Rightarrow> string \<Rightarrow> string \<Rightarrow> page" where
  "make_exchange_relay_html code state redirect_after =
     RelayPage (js_escape code) (js_escape state) (js_escape redirect_after)"

definition make_error_redirect_html :: "string \<Rightarrow> page" where
  "make_error_redirect_html redirect_url = ErrorPage redirect_url (js_escape redirect_url)"

datatype 'a auth_answer = Answered 'a | Refused4xx int string | Crashed exn

definition callback :: "login_config \<Rightarrow> string option \<Rightarrow> string option \<Rightarrow> string option \<Rightarrow> pending_logins \<Rightarrow> page auth_answer" where
  "callback cfg state code err d =
     (if or_empty err \<noteq> [] then
        (case spa_base_url cfg of
           Inl e \<Rightarrow> Crashed e
         | Inr base \<Rightarrow> Answered (make_error_redirect_html (base @ ''/?error='' @ or_empty err)))
      else case map_of d (or_empty state) of
             None \<Rightarrow> Refused4xx 400 ''invalid_state''
           | Some pending \<Rightarrow>
              if or_empty state = [] then Refused4xx 400 ''invalid_state''
              else if or_empty code = [] then Refused4xx 400 ''missing_code''
              else Answered (make_exchange_relay_html (or_empty code) (or_empty state) (pl_redirect_after_login pending)))"

subsection \<open>The exchange\<close>

text \<open>PyJWT's decoding without a signature check; \<open>None\<close> is a \<open>PyJWTError\<close>.\<close>

type_synonym unverified = "py \<Rightarrow> pydict option"

definition extract_id_token_sid :: "unverified \<Rightarrow> py \<Rightarrow> string option" where
  "extract_id_token_sid dec idt =
     (if \<not> truthy idt then None
      else (case dec idt of
              None \<Rightarrow> None
            | Some payload \<Rightarrow> (case pyget payload ''sid'' of PStr s \<Rightarrow> if s \<noteq> [] then Some s else None | _ \<Rightarrow> None)))"

definition display_name_claims :: "string list" where
  "display_name_claims = [''given_name'', ''username'', ''preferred_username'', ''email'']"

fun first_name :: "pydict \<Rightarrow> string \<Rightarrow> string list \<Rightarrow> string" where
  "first_name payload fallback [] = fallback"
| "first_name payload fallback (c # cs) =
     (case pyget payload c of
        PStr s \<Rightarrow> if py_strip s \<noteq> [] then py_strip s else first_name payload fallback cs
      | _ \<Rightarrow> first_name payload fallback cs)"

definition extract_display_name :: "unverified \<Rightarrow> py \<Rightarrow> string \<Rightarrow> string" where
  "extract_display_name dec idt fallback_sub =
     (if \<not> truthy idt then fallback_sub
      else (case dec idt of None \<Rightarrow> fallback_sub | Some payload \<Rightarrow> first_name payload fallback_sub display_name_claims))"

record session_cookie =
  ck_name :: string
  ck_value :: string
  ck_httponly :: bool
  ck_secure :: bool
  ck_samesite :: string
  ck_max_age :: int

record exchange_response =
  er_user_label :: string
  er_session_id :: string
  er_user_display_name :: string
  er_scopes :: "string list"

definition scopes_list :: "py \<Rightarrow> string list res" where
  "scopes_list v = (if \<not> truthy v then Inr [] else case v of PStr s \<Rightarrow> Inr (py_split s) | _ \<Rightarrow> Inl (EPy ''AttributeError''))"

text \<open>Up to the wait: the pending login is taken out.\<close>

definition exchange_start :: "string \<Rightarrow> pending_logins \<Rightarrow> pending_login option \<times> pending_logins" where
  "exchange_start state d = (map_of d state, AList.delete state d)"

definition note_reason :: "session \<Rightarrow> string option \<Rightarrow> session_store \<Rightarrow> session_store" where
  "note_reason s reason st = (case reason of None \<Rightarrow> st | Some r \<Rightarrow> put_session (s\<lparr>s_last_logout_reason := Some r\<rparr>) st)"

text \<open>After it: the session, the carried-over logout reason, the sid, the cookie.\<close>

definition exchange_finish ::
  "login_config \<Rightarrow> unverified \<Rightarrow> string \<Rightarrow> real \<Rightarrow> pattern_c_result res \<Rightarrow> session_store
     \<Rightarrow> (exchange_response \<times> session_cookie) auth_answer \<times> session_store"
where
  "exchange_finish cfg dec session_id now r st =
     (case r of
        Inl e \<Rightarrow> (Refused4xx 502 ''token_exchange_failed'', st)
      | Inr result \<Rightarrow>
         (let sub = c_sub (pr_claims result); token_a = pr_token_a result;
              (s, st1) = session_create session_id sub (extract_display_name dec (id_token token_a) sub) token_a now st;
              (reason, st2) = consume_pending_logout_reason sub st1;
              st3 = note_reason s reason st2;
              st4 = (case extract_id_token_sid dec (id_token token_a) of None \<Rightarrow> st3 | Some sid \<Rightarrow> register_sid sid sub st3)
          in case scopes_list (token_scope token_a) of
               Inl e \<Rightarrow> (Crashed e, st4)
             | Inr scopes \<Rightarrow>
                 (Answered
                    (\<lparr>er_user_label = s_user_label s, er_session_id = s_session_id s,
                      er_user_display_name = s_user_label s, er_scopes = scopes\<rparr>,
                     \<lparr>ck_name = lg_cookie_name cfg, ck_value = s_session_id s, ck_httponly = True,
                      ck_secure = lg_cookie_secure cfg, ck_samesite = ''strict'',
                      ck_max_age = lg_session_ttl_seconds cfg\<rparr>), st4)))"

subsection \<open>Logout\<close>

text \<open>\<open>POST /auth/logout\<close>: the answer is the URL to go to; the cookie is cleared with it.\<close>

definition logout ::
  "logout_config \<Rightarrow> logout_env \<Rightarrow> string option \<Rightarrow> string option \<Rightarrow> session_store
     \<Rightarrow> string auth_answer \<times> session_store \<times> logout_action list"
where
  "logout cfg env request_id cookie st =
     (if or_empty request_id = [] then (Refused4xx 400 ''X-Request-ID required'', st, [])
      else case (if or_empty cookie = [] then None else session_get (or_empty cookie) st) of
             None \<Rightarrow> (Answered ''/'', st, [])
           | Some s \<Rightarrow>
              (case logout_execute cfg env s (or_empty request_id) ''user_signed_out'' st of
                 (Inl e, st', tr) \<Rightarrow> (Crashed e, st', tr)
               | (Inr result, st', tr) \<Rightarrow>
                   (Answered (if or_empty (lr_redirect_url result) \<noteq> [] then or_empty (lr_redirect_url result) else ''/''), st', tr)))"

end
