(* ===== verification/LoginProps.thy ===== *)
theory LoginProps
  imports Login LogoutProps Samples
begin

text \<open>
  What the login promises.  The routes are put together into a step relation in which other
  requests run while an exchange waits for the identity server; the exchange of a code is one
  step, the two halves of \<open>/auth/exchange\<close> around it are not.
\<close>

section \<open>The pending logins are bounded\<close>

lemma evict_logins_drop: "evict_logins d = drop (Suc (length d) - pending_logins_hard_cap) d"
proof (induction d rule: evict_logins.induct)
  case (1 d)
  show ?case
  proof (cases "pending_logins_hard_cap \<le> length d")
    case True
    then obtain x xs where "d = x # xs" by (cases d) (auto simp: pending_logins_hard_cap_def)
    with True 1 show ?thesis by (subst evict_logins.simps) (simp add: Suc_diff_le)
  next
    case False
    then show ?thesis by (subst evict_logins.simps) simp
  qed
qed

lemma drop_expired_logins_filter:
  "distinct (map fst d) \<Longrightarrow>
     drop_expired_logins now d = filter (\<lambda>(k, v). \<not> pl_created_at v < now - of_int pending_logins_ttl_seconds) d"
  using expired_keys_filter [of d "\<lambda>v. pl_created_at v < now - of_int pending_logins_ttl_seconds"]
  by (simp add: drop_expired_logins_def Let_def fold_delete_filter)

lemma enforce_bounds_length: "length (enforce_pending_logins_bounds now d) < pending_logins_hard_cap"
  by (simp add: enforce_pending_logins_bounds_def evict_logins_drop pending_logins_hard_cap_def)

lemma enforce_bounds_subseq:
  assumes "distinct (map fst d)"
  shows "subseq (enforce_pending_logins_bounds now d) d"
proof -
  have "subseq (drop_expired_logins now d) d" by (simp add: drop_expired_logins_filter assms subseq_filter_left)
  then show ?thesis
    unfolding enforce_pending_logins_bounds_def evict_logins_drop
    by (meson subseq_order.trans suffix_drop suffix_imp_subseq)
qed

lemma subseq_distinct_keys: "subseq d e \<Longrightarrow> distinct (map fst e) \<Longrightarrow> distinct (map fst d) \<and> set d \<subseteq> set e"
  by (induction rule: list_emb.induct) auto

lemma enforce_bounds_fresh:
  "distinct (map fst d) \<Longrightarrow> (k, v) \<in> set (enforce_pending_logins_bounds now d) \<Longrightarrow>
     now - of_int pending_logins_ttl_seconds \<le> pl_created_at v"
  by (auto simp: enforce_pending_logins_bounds_def evict_logins_drop drop_expired_logins_filter dest!: in_set_dropD)

section \<open>The routes as a step relation\<close>

record auth_system =
  sy_pending :: pending_logins
  sy_waiting :: "(string \<times> pending_login \<times> string) list"
  sy_exchanger :: exchanger
  sy_store :: session_store

datatype auth_label =
    LLogin string string
  | LRefused string
  | LStart string
  | LFinish string string pending_login "pattern_c_result res" "(exchange_response \<times> session_cookie) auth_answer"
  | LLogout

inductive auth_step ::
  "login_config \<Rightarrow> (nat list \<Rightarrow> nat list) \<Rightarrow> 'k pyjwt \<Rightarrow> unverified \<Rightarrow> auth_system \<Rightarrow> auth_label \<Rightarrow> auth_system \<Rightarrow> bool"
  for cfg sha J dec
where
  step_login: "login cfg sha r1 r2 now created next_url (sy_pending s) = (url, d) \<Longrightarrow>
     auth_step cfg sha J dec s (LLogin (rstrip_pad (urlsafe_b64encode r1)) (fst (make_pkce sha r2))) (s\<lparr>sy_pending := d\<rparr>)"
| step_refused: "exchange_start state (sy_pending s) = (None, d) \<Longrightarrow>
     auth_step cfg sha J dec s (LRefused state) (s\<lparr>sy_pending := d\<rparr>)"
| step_start: "exchange_start state (sy_pending s) = (Some p, d) \<Longrightarrow>
     auth_step cfg sha J dec s (LStart state) (s\<lparr>sy_pending := d, sy_waiting := sy_waiting s @ [(state, p, code)]\<rparr>)"
| step_finish: "sy_waiting s = xs @ (state, p, code) # ys \<Longrightarrow>
     pattern_c_exchange J w (sy_exchanger s) code (pl_code_verifier p) (lg_mcp_redirect_uri cfg) = (r, ex) \<Longrightarrow>
     exchange_finish cfg dec session_id now r (sy_store s) = (ans, st) \<Longrightarrow>
     auth_step cfg sha J dec s (LFinish state code p r ans)
       (s\<lparr>sy_waiting := xs @ ys, sy_exchanger := ex, sy_store := st\<rparr>)"
| step_logout: "logout lcfg env request_id cookie (sy_store s) = (ans, st, tr) \<Longrightarrow>
     auth_step cfg sha J dec s LLogout (s\<lparr>sy_store := st\<rparr>)"

inductive_cases auth_step_cases: "auth_step cfg sha J dec s l s'"

inductive auth_run ::
  "login_config \<Rightarrow> (nat list \<Rightarrow> nat list) \<Rightarrow> 'k pyjwt \<Rightarrow> unverified \<Rightarrow> auth_system \<Rightarrow> auth_label list \<Rightarrow> auth_system \<Rightarrow> bool"
  for cfg sha J dec s0
where
  run_nil: "auth_run cfg sha J dec s0 [] s0"
| run_step: "auth_run cfg sha J dec s0 ls s \<Longrightarrow> auth_step cfg sha J dec s l s' \<Longrightarrow> auth_run cfg sha J dec s0 (ls @ [l]) s'"

fun login_states :: "auth_label list \<Rightarrow> string list" where
  "login_states [] = []"
| "login_states (LLogin s v # ls) = s # login_states ls"
| "login_states (_ # ls) = login_states ls"

fun finished_states :: "auth_label list \<Rightarrow> string list" where
  "finished_states [] = []"
| "finished_states (LFinish s c p r a # ls) = s # finished_states ls"
| "finished_states (_ # ls) = finished_states ls"

lemma login_states_append [simp]: "login_states (xs @ ys) = login_states xs @ login_states ys"
  by (induction xs rule: login_states.induct) simp_all

lemma finished_states_append [simp]: "finished_states (xs @ ys) = finished_states xs @ finished_states ys"
  by (induction xs rule: finished_states.induct) simp_all

lemma login_states_mem: "LLogin s v \<in> set ls \<Longrightarrow> s \<in> set (login_states ls)"
  by (induction ls rule: login_states.induct) auto

text \<open>Every state is in one place: pending, waiting or finished; and it was handed out.\<close>

definition auth_inv :: "auth_label list \<Rightarrow> auth_system \<Rightarrow> bool" where
  "auth_inv ls s \<longleftrightarrow>
     distinct (map fst (sy_pending s) @ map fst (sy_waiting s) @ finished_states ls)
     \<and> (\<forall>(k, v) \<in> set (sy_pending s). LLogin k (pl_code_verifier v) \<in> set ls)
     \<and> (\<forall>(k, p, c) \<in> set (sy_waiting s). LLogin k (pl_code_verifier p) \<in> set ls)
     \<and> set (finished_states ls) \<subseteq> set (login_states ls)"

lemma distinct_replace:
  "distinct (K @ R) \<Longrightarrow> distinct K1 \<Longrightarrow> set K1 \<subseteq> set K \<Longrightarrow> k \<notin> set K \<union> set R \<Longrightarrow> distinct ((K1 @ [k]) @ R)"
  by auto

lemma auth_inv_login:
  assumes "auth_inv ls s" "login cfg sha r1 r2 now created u (sy_pending s) = (url, d)"
    and "rstrip_pad (urlsafe_b64encode r1) \<notin> set (login_states ls)"
  shows "auth_inv (ls @ [LLogin (rstrip_pad (urlsafe_b64encode r1)) (fst (make_pkce sha r2))]) (s\<lparr>sy_pending := d\<rparr>)"
proof -
  let ?k = "rstrip_pad (urlsafe_b64encode r1)"
  let ?d1 = "enforce_pending_logins_bounds now (sy_pending s)"
  have dist: "distinct (map fst (sy_pending s))" using assms(1) by (simp add: auth_inv_def)
  have sub: "set ?d1 \<subseteq> set (sy_pending s)" and sd: "distinct (map fst ?d1)"
    using enforce_bounds_subseq [OF dist, of now] dist
    by (auto dest: subseq_distinct_keys)
  have old: "?k \<notin> fst ` set (sy_pending s)" "?k \<notin> fst ` set (sy_waiting s)" "?k \<notin> set (finished_states ls)"
    using assms(1,3) login_states_mem by (fastforce simp: auth_inv_def)+
  have "?k \<notin> fst ` set ?d1" using old(1) sub by blast
  then have d: "d = ?d1 @ [(?k, \<lparr>pl_code_verifier = fst (make_pkce sha r2),
      pl_redirect_after_login = (if u \<noteq> [] then u else ''/''), pl_created_at = created\<rparr>)]"
    using assms(2) by (auto simp: login_def Let_def update_new)
  have "distinct ((map fst ?d1 @ [?k]) @ (map fst (sy_waiting s) @ finished_states ls))"
    using assms(1) old sd by (intro distinct_replace [where K = "map fst (sy_pending s)"]) (use sub in \<open>auto simp: auth_inv_def\<close>)
  then show ?thesis using assms(1) sub unfolding auth_inv_def d by auto
qed

lemma auth_inv_start:
  assumes "auth_inv ls s" "exchange_start state (sy_pending s) = (Some p, d)"
  shows "auth_inv (ls @ [LStart state]) (s\<lparr>sy_pending := d, sy_waiting := sy_waiting s @ [(state, p, c)]\<rparr>)"
proof -
  have p: "(state, p) \<in> set (sy_pending s)" and d: "d = AList.delete state (sy_pending s)"
    using assms(2) by (auto simp: exchange_start_def dest: map_of_SomeD)
  have "state \<notin> fst ` set d" "fst ` set d \<subseteq> fst ` set (sy_pending s)" "set d \<subseteq> set (sy_pending s)" "distinct (map fst d)"
    using assms(1) by (auto simp: d keys_delete auth_inv_def AList.delete_eq)
  moreover have "state \<in> fst ` set (sy_pending s)" using p by force
  ultimately show ?thesis using assms(1) p unfolding auth_inv_def by (simp add: disjoint_iff) blast
qed

lemma auth_inv_step:
  assumes "auth_inv ls s" "auth_step cfg sha J dec s l s'" "distinct (login_states (ls @ [l]))"
  shows "auth_inv (ls @ [l]) s'"
  using assms(2)
proof cases
  case (step_login r1 r2 now created u url d)
  then show ?thesis using auth_inv_login [OF assms(1) step_login(3)] assms(3) by auto
next
  case (step_refused state d)
  then have "d = sy_pending s" by (auto simp: exchange_start_def map_of_eq_None_iff delete_idem)
  then show ?thesis using step_refused assms(1) by (auto simp: auth_inv_def)
next
  case (step_start state p d c)
  then show ?thesis using auth_inv_start [OF assms(1)] by simp
next
  case (step_finish xs state p c ys w r ex i now ans st)
  have "state \<in> set (login_states ls)"
    using assms(1) step_finish(3) login_states_mem by (fastforce simp: auth_inv_def)
  then show ?thesis using assms(1) step_finish by (auto simp: auth_inv_def)
next
  case (step_logout lcfg env rid cookie ans st tr)
  then show ?thesis using assms(1) by (auto simp: auth_inv_def)
qed

lemma auth_inv_run:
  "auth_run cfg sha J dec s0 ls s \<Longrightarrow> sy_pending s0 = [] \<Longrightarrow> sy_waiting s0 = [] \<Longrightarrow> distinct (login_states ls) \<Longrightarrow>
     auth_inv ls s"
proof (induction rule: auth_run.induct)
  case run_nil
  then show ?case by (simp add: auth_inv_def)
next
  case (run_step ls s l s')
  then show ?case using auth_inv_step by fastforce
qed

text \<open>A finished exchange was waiting with the verifier of a login before it.\<close>

lemma auth_run_split:
  "auth_run cfg sha J dec s0 ls s' \<Longrightarrow> ls = pre @ l # post \<Longrightarrow>
     \<exists>s t. auth_run cfg sha J dec s0 pre s \<and> auth_step cfg sha J dec s l t"
proof (induction arbitrary: post rule: auth_run.induct)
  case run_nil
  then show ?case by simp
next
  case (run_step ls s l' s')
  show ?case
  proof (cases post rule: rev_cases)
    case Nil
    then show ?thesis using run_step by auto
  next
    case (snoc xs x)
    then have "ls = pre @ l # xs" using run_step.prems by simp
    then show ?thesis by (rule run_step.IH)
  qed
qed

section \<open>One session per login\<close>

text \<open>
  C16. Whatever requests run while exchanges wait, when the states drawn differ, no state
  yields two exchanges, and an exchange of a code happens only for a state handed out by an
  earlier login and with the verifier of that login.
\<close>

theorem login_single_use:
  assumes "auth_run cfg sha J dec s0 ls s" and "sy_pending s0 = []" "sy_waiting s0 = []"
    and "distinct (login_states ls)"
  shows "distinct (finished_states ls)
    \<and> (\<forall>pre state code p r ans post. ls = pre @ LFinish state code p r ans # post \<longrightarrow>
         LLogin state (pl_code_verifier p) \<in> set pre \<and> state \<notin> set (finished_states pre))"
proof (intro conjI allI impI)
  show d: "distinct (finished_states ls)" using auth_inv_run [OF assms] by (simp add: auth_inv_def)
  fix pre state code p r ans post assume ls: "ls = pre @ LFinish state code p r ans # post"
  then obtain u t where u: "auth_run cfg sha J dec s0 pre u" and t: "auth_step cfg sha J dec u (LFinish state code p r ans) t"
    using auth_run_split [OF assms(1)] by blast
  have "distinct (login_states pre)" using assms(4) ls by simp
  with auth_inv_run [OF u assms(2,3)] have "auth_inv pre u" by blast
  with t show "LLogin state (pl_code_verifier p) \<in> set pre" by (auto simp: auth_inv_def elim!: auth_step_cases)
  show "state \<notin> set (finished_states pre)" using d ls by simp
qed

section \<open>The session of an exchange\<close>

lemma register_sid_sessions [simp]: "ss_sessions (register_sid sid u st) = ss_sessions st"
  by (simp add: register_sid_def split: option.split)

lemma consume_sessions [simp]: "ss_sessions (snd (consume_pending_logout_reason u st)) = ss_sessions st"
  by (simp add: consume_pending_logout_reason_def)

lemma update_twice: "AList.update k v (AList.update k w d) = AList.update k v d"
  by (induction d) auto

lemma session_create_simps:
  "ss_sessions (snd (session_create i u l t now st)) = AList.update i (fst (session_create i u l t now st)) (ss_sessions st)"
  "s_session_id (fst (session_create i u l t now st)) = i" "s_user_sub (fst (session_create i u l t now st)) = u"
  "s_user_label (fst (session_create i u l t now st)) = l" "s_token_a (fst (session_create i u l t now st)) = t"
  "s_terminating (fst (session_create i u l t now st)) = False"
  "s_last_logout_reason (fst (session_create i u l t now st)) = None"
  "ss_pending_logout_reasons (snd (session_create i u l t now st)) = ss_pending_logout_reasons st"
  by (simp_all add: session_create_def Let_def)

lemma register_sid_reasons [simp]: "ss_pending_logout_reasons (register_sid sid u st) = ss_pending_logout_reasons st"
  by (simp add: register_sid_def split: option.split)

text \<open>The store after a successful exchange.\<close>

definition login_session :: "unverified \<Rightarrow> string \<Rightarrow> real \<Rightarrow> pattern_c_result \<Rightarrow> session_store \<Rightarrow> session" where
  "login_session dec session_id now result st =
     (fst (session_create session_id (c_sub (pr_claims result))
        (extract_display_name dec (id_token (pr_token_a result)) (c_sub (pr_claims result))) (pr_token_a result) now st))
      \<lparr>s_last_logout_reason := map_option fst (map_of (ss_pending_logout_reasons st) (c_sub (pr_claims result)))\<rparr>"

lemma login_session_fields [simp]:
  "s_session_id (login_session dec i now res st) = i" "s_user_sub (login_session dec i now res st) = c_sub (pr_claims res)"
  "s_token_a (login_session dec i now res st) = pr_token_a res" "s_terminating (login_session dec i now res st) = False"
  "s_last_logout_reason (login_session dec i now res st) = map_option fst (map_of (ss_pending_logout_reasons st) (c_sub (pr_claims res)))"
  by (simp_all add: login_session_def session_create_simps)

lemma exchange_finish_store:
  assumes "exchange_finish cfg dec i now (Inr res) st = (ans, st')"
  shows "ss_sessions st' = AList.update i (login_session dec i now res st) (ss_sessions st)"
    and "ss_pending_logout_reasons st' = AList.delete (c_sub (pr_claims res)) (ss_pending_logout_reasons st)"
proof -
  let ?c = "session_create i (c_sub (pr_claims res))
     (extract_display_name dec (id_token (pr_token_a res)) (c_sub (pr_claims res))) (pr_token_a res) now st"
  let ?r = "consume_pending_logout_reason (c_sub (pr_claims res)) (snd ?c)"
  have n: "ss_sessions (note_reason (fst ?c) (fst ?r) (snd ?r)) = AList.update i (login_session dec i now res st) (ss_sessions st)"
  proof (cases "fst ?r")
    case None
    then have "login_session dec i now res st = fst ?c"
      by (simp add: login_session_def consume_pending_logout_reason_def session_create_simps session_create_def Let_def)
    then show ?thesis using None by (simp add: note_reason_def session_create_simps)
  next
    case (Some r)
    then have "login_session dec i now res st = (fst ?c)\<lparr>s_last_logout_reason := Some r\<rparr>"
      by (simp add: login_session_def consume_pending_logout_reason_def session_create_simps)
    then show ?thesis using Some by (simp add: note_reason_def session_create_simps update_twice)
  qed
  have m: "ss_pending_logout_reasons (note_reason (fst ?c) (fst ?r) (snd ?r))
      = AList.delete (c_sub (pr_claims res)) (ss_pending_logout_reasons st)"
    by (simp add: note_reason_def consume_pending_logout_reason_def session_create_simps split: option.split)
  have st': "st' = (case extract_id_token_sid dec (id_token (pr_token_a res)) of
      None \<Rightarrow> note_reason (fst ?c) (fst ?r) (snd ?r)
    | Some sid \<Rightarrow> register_sid sid (c_sub (pr_claims res)) (note_reason (fst ?c) (fst ?r) (snd ?r)))"
    using assms by (simp add: exchange_finish_def Let_def case_prod_beta split: sum.splits)
  show "ss_sessions st' = AList.update i (login_session dec i now res st) (ss_sessions st)"
    unfolding st' by (simp add: n split: option.split)
  show "ss_pending_logout_reasons st' = AList.delete (c_sub (pr_claims res)) (ss_pending_logout_reasons st)"
    unfolding st' by (simp add: m split: option.split)
qed

lemma exchange_form_fields:
  "map_of (exchange_form ci code ver uri (Some act)) ''grant_type'' = Some (PStr ''authorization_code'')"
  "map_of (exchange_form ci code ver uri (Some act)) ''code'' = Some code"
  "map_of (exchange_form ci code ver uri (Some act)) ''code_verifier'' = Some (PStr ver)"
  "map_of (exchange_form ci code ver uri (Some act)) ''actor_token'' = Some act"
  by (simp_all add: exchange_form_def)

lemma pattern_c_exchange_ok:
  assumes "pattern_c_exchange J w ex code ver uri = (Inr res, ex')"
  obtains actor t body status cache' where
    "fst (ensure_valid_token (ew_mints w) (ew_now w) (ew_lock_time w) (ex_provider ex)) = Inr actor"
    "ew_net w (form_post (token_url (ex_is ex)) (ex_client_id ex) (ex_client_secret ex)
       (exchange_form (ex_client_id ex) (PStr code) ver uri (Some (access_token actor)))) = HttpReply status (Some (PDict body))"
    "is_success status" "from_response body (ew_got w) = Inr (pr_token_a res)"
    "access_token (pr_token_a res) = PStr t"
    "validate J (ew_jwks w) (ew_mono w) (ew_valid_now w) t (ex_validator ex) (ex_cache ex) = (Inr (pr_claims res), cache')"
  using assms
  by (auto simp: pattern_c_exchange_def validate_py_def Let_def split: prod.splits sum.splits py.splits
      dest!: exchange_code_ok)

text \<open>
  C15. A session comes only from an answered exchange: the identity server answered the code, the
  verifier and the orchestrator's own token in one form with a token that validate() accepts;
  the session is that token's user's, under the new id, which is what the HTTP-only cookie and the
  answer carry, and no other session changes.  A failed exchange changes no session.
\<close>

theorem login_session_sound:
  assumes "pattern_c_exchange J w ex code ver uri = (r, ex')"
    and "exchange_finish cfg dec i now r st = (ans, st')"
  shows "(case r of Inl e \<Rightarrow> st' = st \<and> ans = Refused4xx 502 ''token_exchange_failed''
     | Inr res \<Rightarrow>
        (\<exists>(actor :: oauth_token) form t body status cache'.
           fst (ensure_valid_token (ew_mints w) (ew_now w) (ew_lock_time w) (ex_provider ex)) = Inr actor
           \<and> map_of form ''grant_type'' = Some (PStr ''authorization_code'') \<and> map_of form ''code'' = Some (PStr code)
           \<and> map_of form ''code_verifier'' = Some (PStr ver) \<and> map_of form ''actor_token'' = Some (access_token actor)
           \<and> ew_net w (form_post (token_url (ex_is ex)) (ex_client_id ex) (ex_client_secret ex) form) = HttpReply status (Some (PDict body))
           \<and> is_success status \<and> from_response body (ew_got w) = Inr (pr_token_a res) \<and> access_token (pr_token_a res) = PStr t
           \<and> validate J (ew_jwks w) (ew_mono w) (ew_valid_now w) t (ex_validator ex) (ex_cache ex) = (Inr (pr_claims res), cache'))
        \<and> (\<exists>s. session_get i st' = Some s \<and> s_user_sub s = c_sub (pr_claims res) \<and> s_token_a s = pr_token_a res \<and> \<not> s_terminating s)
        \<and> (\<forall>j. j \<noteq> i \<longrightarrow> session_get j st' = session_get j st)
        \<and> (\<forall>resp ck. ans = Answered (resp, ck) \<longrightarrow> er_session_id resp = i \<and> ck_value ck = i \<and> ck_httponly ck))"
proof (cases r)
  case (Inl e)
  then show ?thesis using assms(2) by (simp add: exchange_finish_def)
next
  case (Inr res)
  note st = exchange_finish_store [OF assms(2) [unfolded Inr]]
  have ans: "\<forall>resp ck. ans = Answered (resp, ck) \<longrightarrow> er_session_id resp = i \<and> ck_value ck = i \<and> ck_httponly ck"
    using assms(2) Inr by (auto simp: exchange_finish_def Let_def case_prod_beta session_create_simps split: sum.splits)
  have "session_get i st' = Some (login_session dec i now res st)" "\<forall>j. j \<noteq> i \<longrightarrow> session_get j st' = session_get j st"
    by (simp_all add: session_get_def st dict_simps)
  moreover obtain actor :: oauth_token and t body status cache' where
    "fst (ensure_valid_token (ew_mints w) (ew_now w) (ew_lock_time w) (ex_provider ex)) = Inr actor"
    "ew_net w (form_post (token_url (ex_is ex)) (ex_client_id ex) (ex_client_secret ex)
       (exchange_form (ex_client_id ex) (PStr code) ver uri (Some (access_token actor)))) = HttpReply status (Some (PDict body))"
    "is_success status" "from_response body (ew_got w) = Inr (pr_token_a res)"
    "access_token (pr_token_a res) = PStr t"
    "validate J (ew_jwks w) (ew_mono w) (ew_valid_now w) t (ex_validator ex) (ex_cache ex) = (Inr (pr_claims res), cache')"
    by (rule pattern_c_exchange_ok [OF assms(1) [unfolded Inr]]) blast
  moreover note exchange_form_fields [of "ex_client_id ex" "PStr code" ver uri "access_token actor"]
  ultimately show ?thesis using ans unfolding Inr sum.case by (intro conjI exI) (assumption | simp)+
qed

section \<open>Samples\<close>

definition sample_login_config :: login_config where
  "sample_login_config = \<lparr>lg_is_base_url = ''https://is'', lg_mcp_client_id = ''mcp'', lg_mcp_redirect_uri = ''http://o/agent-callback'',
     lg_agent_id = ''orch'', lg_allowed_origins = {''http://a'', ''http://b''}, lg_cookie_name = ''orch_sid'',
     lg_cookie_secure = False, lg_session_ttl_seconds = 28800\<rparr>"

definition sample_actor_token :: oauth_token where
  "sample_actor_token = \<lparr>access_token = PStr ''agent'', token_type = PStr ''Bearer'', expires_in = 60, expires_at = 1060,
     refresh_token = PNone, token_scope = PStr [], id_token = PNone\<rparr>"

definition sample_exchanger :: exchanger where
  "sample_exchanger = \<lparr>ex_is = \<lparr>ic_base_url = ''https://is'', ic_insecure_tls = False\<rparr>, ex_client_id = ''mcp'', ex_client_secret = ''s'',
     ex_validator = \<lparr>vc_expected_iss = ''is'', vc_jwks_url = ''jwks'', vc_expected_aud = Some ''hr'', vc_required_scopes = {},
        vc_leeway_seconds = 30, vc_insecure_tls = False\<rparr>,
     ex_provider = new_actor_provider\<lparr>ap_cached := Some sample_actor_token\<rparr>,
     ex_cache = new_jwks_cache ''jwks'' False\<rparr>"

definition sample_exchange_world :: "http_answer \<Rightarrow> exchange_world" where
  "sample_exchange_world a = \<lparr>ew_mints = undefined, ew_net = \<lambda>_. a, ew_jwks = sample_net, ew_now = 1000, ew_lock_time = 1000,
     ew_got = 1001, ew_mono = 4000, ew_valid_now = 1002\<rparr>"

definition sample_token_answer :: http_answer where
  "sample_token_answer = HttpReply 200 (Some (PDict [(''access_token'', PStr ''alice''), (''expires_in'', PInt 3600),
     (''scope'', PStr ''openid hr_self_rest''), (''id_token'', PStr ''idt'')]))"

definition sample_token_a :: oauth_token where
  "sample_token_a = \<lparr>access_token = PStr ''alice'', token_type = PStr ''Bearer'', expires_in = 3600, expires_at = 4601,
     refresh_token = PNone, token_scope = PStr ''openid hr_self_rest'', id_token = PStr ''idt''\<rparr>"

definition sample_unverified :: unverified where
  "sample_unverified t = Some [(''sid'', PStr ''sid1''), (''given_name'', PStr '' Alice '')]"

definition sample_login_result :: pattern_c_result where
  "sample_login_result = \<lparr>pr_token_a = sample_token_a, pr_claims = sample_claims ''alice'' ''j1'' ''hr_self_rest''\<rparr>"

lemma sample_exchange:
  "pattern_c_exchange sample_jwt (sample_exchange_world sample_token_answer) sample_exchanger code ver uri
     = (Inr sample_login_result, sample_exchanger\<lparr>ex_cache := sample_fetched (new_jwks_cache ''jwks'' False)\<rparr>)"
proof -
  have f: "is_fresh (new_actor_provider\<lparr>ap_cached := Some sample_actor_token\<rparr>) 1000"
    by (simp add: is_fresh_def new_actor_provider_def refresh_buffer_seconds_def sample_actor_token_def)
  have e: "exchange_code (ex_is sample_exchanger) (\<lambda>_. sample_token_answer) 1001 ''mcp'' ''s'' (PStr code) ver uri (Some (PStr ''agent''))
      = Inr sample_token_a"
    by (simp add: exchange_code_def read_json_def sample_token_answer_def is_success_def token_of_json_def from_response_def
        pyget_or_def sample_token_a_def)
  have v: "validate sample_jwt sample_net 4000 1002 ''alice'' (ex_validator sample_exchanger) (new_jwks_cache ''jwks'' False)
      = (Inr (sample_claims ''alice'' ''j1'' ''hr_self_rest''), sample_fetched (new_jwks_cache ''jwks'' False))"
    by (rule sample_validate) (simp_all add: sample_exchanger_def new_jwks_cache_def)
  show ?thesis
    using ensure_fresh [OF f, of "undefined" 1000] e v
    by (simp add: pattern_c_exchange_def sample_exchange_world_def sample_exchanger_def validate_py_def Let_def
        sample_token_a_def sample_actor_token_def sample_login_result_def obj_get_def or_dict_def sample_claims_def)
qed

lemma login_session_sound_witness:
  "\<exists>resp ck st' s. exchange_finish sample_login_config sample_unverified ''i1'' 1003 (Inr sample_login_result) new_session_store
       = (Answered (resp, ck), st')
     \<and> session_get ''i1'' st' = Some s \<and> s_user_sub s = ''alice'' \<and> ck_value ck = ''i1''"
proof -
  obtain ans st' where f: "exchange_finish sample_login_config sample_unverified ''i1'' 1003 (Inr sample_login_result) new_session_store
      = (ans, st')" by force
  then obtain resp ck where a: "ans = Answered (resp, ck)"
    by (auto simp: exchange_finish_def Let_def case_prod_beta sample_login_result_def sample_token_a_def scopes_list_def split: prod.splits)
  have u: "c_sub (pr_claims sample_login_result) = ''alice''" by (simp add: sample_login_result_def sample_claims_def)
  from login_session_sound [OF sample_exchange [of "''c''" "''v''" "''u''"] f] have
    "\<exists>s. session_get ''i1'' st' = Some s \<and> s_user_sub s = ''alice''" "ck_value ck = ''i1''"
    unfolding sum.case u using a by blast+
  then show ?thesis using f a by blast
qed

text \<open>A run in which a login is started, its code is exchanged, and its state is used again.\<close>

definition sample_system :: auth_system where
  "sample_system = \<lparr>sy_pending = [], sy_waiting = [], sy_exchanger = sample_exchanger, sy_store = new_session_store\<rparr>"

lemma login_single_use_witness:
  "\<exists>ls s p r ans. auth_run sample_login_config id sample_jwt sample_unverified sample_system ls s
     \<and> ls = [LLogin ''AAAA'' ''AQEB'', LStart ''AAAA'', LFinish ''AAAA'' ''c'' p r ans, LRefused ''AAAA'']
     \<and> finished_states ls = [''AAAA''] \<and> pl_code_verifier p = ''AQEB''"
proof -
  let ?run = "auth_run sample_login_config id sample_jwt sample_unverified sample_system"
  have st: "rstrip_pad (urlsafe_b64encode [0, 0, 0]) = ''AAAA''" and ve: "fst (make_pkce id [1, 1, 1]) = ''AQEB''"
    by code_simp+
  let ?p = "\<lparr>pl_code_verifier = ''AQEB'', pl_redirect_after_login = ''/'', pl_created_at = 1000\<rparr>"
  let ?s1 = "sample_system\<lparr>sy_pending := [(''AAAA'', ?p)]\<rparr>"
  let ?s2 = "?s1\<lparr>sy_pending := [], sy_waiting := [(''AAAA'', ?p, ''c'')]\<rparr>"
  obtain url where l: "login sample_login_config id [0, 0, 0] [1, 1, 1] 1000 1000 [] [] = (url, [(''AAAA'', ?p)])"
    using st ve by (auto simp: login_def Let_def enforce_pending_logins_bounds_def drop_expired_logins_def evict_logins_drop)
  have l': "login sample_login_config id [0, 0, 0] [1, 1, 1] 1000 1000 [] (sy_pending sample_system) = (url, [(''AAAA'', ?p)])"
    unfolding sample_system_def using l by (simp only: auth_system.select_convs)
  note s1 = step_login [OF l', where J = sample_jwt and dec = sample_unverified, unfolded st ve]
  let ?step = "auth_step sample_login_config id sample_jwt sample_unverified"
  have s2: "?step ?s1 (LStart ''AAAA'') ?s2"
    using step_start [where s = ?s1 and state = "''AAAA''" and p = ?p and d = "[]" and code = "''c''"
        and cfg = sample_login_config and sha = id and J = sample_jwt and dec = sample_unverified]
    by (simp add: exchange_start_def sample_system_def)
  obtain r ans ex st' where f: "pattern_c_exchange sample_jwt (sample_exchange_world sample_token_answer) sample_exchanger ''c''
      ''AQEB'' (lg_mcp_redirect_uri sample_login_config) = (r, ex)"
    "exchange_finish sample_login_config sample_unverified ''i1'' 1003 r new_session_store = (ans, st')" by force
  let ?s3 = "?s2\<lparr>sy_waiting := [], sy_exchanger := ex, sy_store := st'\<rparr>"
  have s3: "?step ?s2 (LFinish ''AAAA'' ''c'' ?p r ans) ?s3"
    using step_finish [where s = ?s2 and xs = "[]" and ys = "[]" and state = "''AAAA''" and p = ?p and code = "''c''"
        and cfg = sample_login_config and sha = id and J = sample_jwt and dec = sample_unverified and r = r and ans = ans
        and ex = ex and st = st' and w = "sample_exchange_world sample_token_answer" and session_id = "''i1''" and now = 1003] f
    by (simp add: sample_system_def)
  have s4: "?step ?s3 (LRefused ''AAAA'') ?s3"
    using step_refused [where s = ?s3 and state = "''AAAA''" and d = "[]"
        and cfg = sample_login_config and sha = id and J = sample_jwt and dec = sample_unverified]
    by (simp add: exchange_start_def sample_system_def)
  note run = run_step [OF run_step [OF run_step [OF run_step [OF run_nil s1] s2] s3] s4]
  from login_single_use [OF run] run show ?thesis
    by (intro exI conjI) (auto simp: sample_system_def)
qed

section \<open>The authorize URL\<close>

text \<open>
  C17. Reading the query of the URL a login redirects to gives exactly the parameters of the
  request: the state under which the login is pending, the orchestrator as the requested
  actor, and a challenge that decodes to the digest of the verifier which the pending login keeps
  for the exchange.
\<close>

theorem login_url_roundtrip:
  assumes "login cfg sha r1 r2 now created u d = (url, d')"
    and "\<And>bs. \<forall>b \<in> set (sha bs). b < 256"
  shows "\<exists>q p. url = lg_is_base_url cfg @ ''/oauth2/authorize?'' @ q
    \<and> map_of d' (rstrip_pad (urlsafe_b64encode r1)) = Some p
    \<and> parse_query q =
        [(''client_id'', lg_mcp_client_id cfg), (''response_type'', ''code''), (''redirect_uri'', lg_mcp_redirect_uri cfg),
         (''scope'', login_scope), (''state'', rstrip_pad (urlsafe_b64encode r1)),
         (''code_challenge'', code_challenge_of sha (pl_code_verifier p)), (''code_challenge_method'', ''S256''),
         (''requested_actor'', lg_agent_id cfg)]
    \<and> b64_decode (code_challenge_of sha (pl_code_verifier p)) = sha (concat (map utf8_bytes (pl_code_verifier p)))"
proof -
  let ?k = "rstrip_pad (urlsafe_b64encode r1)"
  let ?v = "fst (make_pkce sha r2)"
  let ?q = "urlencode [(''client_id'', lg_mcp_client_id cfg), (''response_type'', ''code''), (''redirect_uri'', lg_mcp_redirect_uri cfg),
         (''scope'', login_scope), (''state'', ?k), (''code_challenge'', code_challenge_of sha ?v),
         (''code_challenge_method'', ''S256''), (''requested_actor'', lg_agent_id cfg)]"
  let ?p = "\<lparr>pl_code_verifier = ?v, pl_redirect_after_login = (if u \<noteq> [] then u else ''/''), pl_created_at = created\<rparr>"
  have "url = lg_is_base_url cfg @ ''/oauth2/authorize?'' @ ?q" and "map_of d' ?k = Some ?p"
    using assms(1) by (auto simp: login_def Let_def build_authorize_url_def dict_simps)
  moreover have "b64_decode (code_challenge_of sha ?v) = sha (concat (map utf8_bytes ?v))"
    by (rule code_challenge_decodes [OF assms(2)])
  ultimately show ?thesis by (intro exI [of _ ?q] exI [of _ ?p]) (simp add: parse_query_urlencode)
qed

lemma login_url_roundtrip_witness:
  "\<exists>url q p. login sample_login_config (\<lambda>_. [7, 8, 9]) [0, 0, 0] [1, 1, 1] 1000 1000 ''/home'' [] = (url, [(''AAAA'', p)])
     \<and> url = ''https://is/oauth2/authorize?'' @ q \<and> map_of (parse_query q) ''state'' = Some ''AAAA''
     \<and> map_of (parse_query q) ''requested_actor'' = Some ''orch''"
proof -
  have st: "rstrip_pad (urlsafe_b64encode [0, 0, 0]) = ''AAAA''" by code_simp
  obtain url d where l: "login sample_login_config (\<lambda>_. [7, 8, 9]) [0, 0, 0] [1, 1, 1] 1000 1000 ''/home'' [] = (url, d)" by force
  obtain p where d: "d = [(''AAAA'', p)]" using l st
    by (auto simp: login_def Let_def enforce_pending_logins_bounds_def drop_expired_logins_def evict_logins_drop)
  have "\<forall>b \<in> set ((\<lambda>_. [7, 8, 9 :: nat]) bs). b < 256" for bs :: "nat list" by simp
  from login_url_roundtrip [OF l this] obtain q where q: "url = lg_is_base_url sample_login_config @ ''/oauth2/authorize?'' @ q"
    "map_of (parse_query q) ''state'' = Some ''AAAA''"
    "map_of (parse_query q) ''requested_actor'' = Some (lg_agent_id sample_login_config)"
    unfolding st by auto
  then have "url = ''https://is/oauth2/authorize?'' @ q" "map_of (parse_query q) ''requested_actor'' = Some ''orch''"
    by (simp_all add: sample_login_config_def)
  then show ?thesis using l d q by blast
qed

section \<open>The relay page\<close>

text \<open>
  What a browser reads after the opening quote of a single-quoted literal, up to the closing
  one: the text and what follows it.  A line break ends the script in an error, \<open>None\<close>; other
  escapes than the two the code writes are left out.
\<close>

fun js_read :: "string \<Rightarrow> (string \<times> string) option" where
  "js_read [] = None"
| "js_read (c # cs) =
     (if c = CHR 0x27 then Some ([], cs)
      else if c = CHR 0x0A \<or> c = CHR 0x0D then None
      else if c = CHR 0x5C then
        (case cs of d # r \<Rightarrow> if d = CHR 0x27 \<or> d = CHR 0x5C then map_option (\<lambda>(s, t). (d # s, t)) (js_read r) else None
         | [] \<Rightarrow> None)
      else map_option (\<lambda>(s, t). (c # s, t)) (js_read cs))"

lemma js_escape_Cons:
  "js_escape (c # s) = (if c = CHR 0x5C then [CHR 0x5C, CHR 0x5C] else if c = CHR 0x27 then [CHR 0x5C, CHR 0x27] else [c]) @ js_escape s"
  by (simp add: js_escape_def replace_char_def)

lemma js_escape_Nil [simp]: "js_escape [] = []"
  by (simp add: js_escape_def replace_char_def)

lemma js_read_escape:
  "js_read (js_escape s @ CHR 0x27 # rest) = (if CHR 0x0A \<in> set s \<or> CHR 0x0D \<in> set s then None else Some (s, rest))"
  by (induction s) (auto simp: js_escape_Cons)

text \<open>
  The relay page of a callback posts back exactly the code and the state it was called with
  and goes on to exactly the address of the login, provided none of them has a line break;
  with one the script does not run.
\<close>

theorem callback_page_faithful:
  assumes "callback cfg state code err d = Answered (RelayPage c s u)"
  shows "\<exists>p. map_of d (or_empty state) = Some p \<and> or_empty err = []
    \<and> (\<forall>lit txt. (lit, txt) \<in> {(c, or_empty code), (s, or_empty state), (u, pl_redirect_after_login p)} \<longrightarrow>
         js_read (lit @ CHR 0x27 # rest) = (if CHR 0x0A \<in> set txt \<or> CHR 0x0D \<in> set txt then None else Some (txt, rest)))"
proof -
  obtain p where "map_of d (or_empty state) = Some p" "or_empty err = []"
    "c = js_escape (or_empty code)" "s = js_escape (or_empty state)" "u = js_escape (pl_redirect_after_login p)"
    using assms by (auto simp: callback_def make_exchange_relay_html_def make_error_redirect_html_def
        split: if_splits sum.splits option.splits)
  then show ?thesis using js_read_escape by auto
qed

lemma callback_page_faithful_witness:
  "callback sample_login_config (Some ''AAAA'') (Some [CHR 0x27, CHR ''x'']) None
       [(''AAAA'', \<lparr>pl_code_verifier = ''v'', pl_redirect_after_login = ''/'', pl_created_at = 0\<rparr>)]
     = Answered (RelayPage [CHR 0x5C, CHR 0x27, CHR ''x''] ''AAAA'' ''/'')
   \<and> js_read [CHR 0x5C, CHR 0x27, CHR ''x'', CHR 0x27, CHR '';''] = Some ([CHR 0x27, CHR ''x''], '';'')"
proof -
  have c: "callback sample_login_config (Some ''AAAA'') (Some [CHR 0x27, CHR ''x'']) None
       [(''AAAA'', \<lparr>pl_code_verifier = ''v'', pl_redirect_after_login = ''/'', pl_created_at = 0\<rparr>)]
     = Answered (RelayPage [CHR 0x5C, CHR 0x27, CHR ''x''] ''AAAA'' ''/'')"
    by (simp add: callback_def make_exchange_relay_html_def js_escape_Cons)
  from callback_page_faithful [OF c, of "'';''"] show ?thesis using c by auto
qed

text \<open>
  Neither page escapes for HTML: a code that closes the script element, and an error that closes
  the attribute, come through unchanged, and the address after the login may be any URL.
\<close>

lemma relay_page_not_html_safe:
  "js_escape ''</script><script src=//evil>'' = ''</script><script src=//evil>''"
  by (simp add: js_escape_Cons)

lemma error_page_not_html_safe:
  "callback sample_login_config None None (Some [CHR 0x22, CHR ''>'']) d
     = Answered (ErrorPage (''http://a/?error='' @ [CHR 0x22, CHR ''>'']) (js_escape (''http://a/?error='' @ [CHR 0x22, CHR ''>''])))"
proof -
  have "''http://a'' \<le> ''http://b''" by (simp add: less_eq_list_code)
  then have "spa_base_url sample_login_config = Inr ''http://a''"
    by (simp add: spa_base_url_def sample_login_config_def min_def)
  then show ?thesis by (simp add: callback_def make_error_redirect_html_def)
qed

lemma next_url_unchecked:
  "login cfg sha r1 r2 now created u d = (url, d') \<Longrightarrow> u \<noteq> [] \<Longrightarrow>
     \<exists>p. map_of d' (rstrip_pad (urlsafe_b64encode r1)) = Some p \<and> pl_redirect_after_login p = u"
  by (auto simp: login_def Let_def dict_simps)

lemma no_origins_crash: "lg_allowed_origins cfg = {} \<Longrightarrow> callback cfg state code (Some (c # e)) d = Crashed (EPy ''IndexError'')"
  by (simp add: callback_def spa_base_url_def)

section \<open>The reason of the last logout\<close>

definition reasons_keys :: "session_store \<Rightarrow> bool" where
  "reasons_keys st \<longleftrightarrow> distinct (map fst (ss_pending_logout_reasons st))"

lemma logout_one_reason:
  assumes "logout_one env u rid reason s st = (Inr (), st', tr)" "known_reason reason" "reasons_keys st"
  shows "map_of (ss_pending_logout_reasons st') (s_user_sub s) = Some (reason, le_now env) \<and> reasons_keys st'"
proof -
  obtain s1 t1 where c: "cancel_pending_ciba s = (s1, t1)" by force
  obtain st1 t2 where f: "logout_finish env u rid reason s1 (put_session s1 st) = (Inr (), st1, t2)" "st' = st1"
    using assms(1) c by (auto simp: logout_one_def Let_def split: prod.splits if_splits)
  have u: "s_user_sub s1 = s_user_sub s" using c by (auto simp: cancel_pending_ciba_def)
  let ?st = "put_session (s1\<lparr>s_sse_queue := s_sse_queue s1 @ [Some (SessionTerminatedEvent reason rid)]\<rparr>) (put_session s1 st)"
  obtain st2 where r: "record_pending_logout_reason (s_user_sub s) reason (le_now env) ?st = Some st2"
    and d: "st1 = snd (session_delete (s_session_id s1) st2)"
    using f(1) assms(2) u by (auto simp: logout_finish_def Let_def split: option.splits)
  have k: "distinct (map fst (ss_pending_logout_reasons ?st))" using assms(3) by (simp add: reasons_keys_def)
  have e: "ss_pending_logout_reasons st1 = ss_pending_logout_reasons st2" by (simp add: d session_delete_def)
  show ?thesis
    using reasons.put_member [where s = ?st and k = "s_user_sub s" and v = "(reason, le_now env)" and s' = st2]
      reasons.put_distinct [where s = ?st and k = "s_user_sub s" and v = "(reason, le_now env)" and s' = st2] r k
    by (simp add: f(2) e reasons_keys_def)
qed

lemma logout_sessions_reason:
  "logout_sessions env u rid reason ss st = (Inr (), st', tr) \<Longrightarrow> known_reason reason \<Longrightarrow> reasons_keys st \<Longrightarrow>
     \<forall>s \<in> set ss. s_user_sub s = v \<Longrightarrow>
     reasons_keys st' \<and> (ss \<noteq> [] \<longrightarrow> map_of (ss_pending_logout_reasons st') v = Some (reason, le_now env))"
proof (induction ss arbitrary: st tr)
  case Nil
  then show ?case by simp
next
  case (Cons s ss)
  then obtain st1 tr1 tr2 where o: "logout_one env u rid reason s st = (Inr (), st1, tr1)"
    and r: "logout_sessions env u rid reason ss st1 = (Inr (), st', tr2)"
    by (auto simp: Let_def split: prod.splits sum.splits)
  note one = logout_one_reason [OF o Cons.prems(2,3)]
  show ?case
  proof (cases ss)
    case Nil
    then show ?thesis using one r Cons.prems(4) by simp
  next
    case (Cons x xs)
    then show ?thesis using Cons.IH [OF r Cons.prems(2)] one Cons.prems(4) by simp
  qed
qed

lemma mark_all_reasons: "ss_pending_logout_reasons (mark_all ss st) = ss_pending_logout_reasons st"
  by (induction ss arbitrary: st) (simp_all add: mark_all_def)

lemma execute_reason:
  assumes "logout_execute cfg env initiator rid reason st = (Inr res, st', tr)" "lr_had_session res"
    and "known_reason reason" "reasons_keys st"
  shows "map_of (ss_pending_logout_reasons st') (s_user_sub initiator) = Some (reason, le_now env)"
proof -
  let ?ss = "find_sessions_for_user (s_user_sub initiator) st"
  have ne: "?ss \<noteq> []" using assms(1,2) by (auto simp: logout_execute_def execute_locked_def)
  obtain r st2 tr2 where l: "logout_sessions env (s_user_sub initiator) rid reason (map mark_terminating ?ss)
      (mark_all ?ss st) = (r, st2, tr2)" by (metis prod_cases3)
  with assms(1) ne have r: "r = Inr ()" and st': "st' = st2"
    by (auto simp: logout_execute_def execute_locked_def Let_def mark_all_def split: sum.splits)
  have "\<forall>s \<in> set (map mark_terminating ?ss). s_user_sub s = s_user_sub initiator"
    by (auto simp: mark_terminating_def find_sessions_for_user_iff)
  moreover have "reasons_keys (mark_all ?ss st)" using assms(4) by (simp add: reasons_keys_def mark_all_reasons)
  ultimately have "map mark_terminating ?ss \<noteq> [] \<longrightarrow>
      map_of (ss_pending_logout_reasons st2) (s_user_sub initiator) = Some (reason, le_now env)"
    using logout_sessions_reason [OF l [unfolded r] assms(3)] by blast
  then show ?thesis using ne st' by simp
qed

text \<open>
  The reason of a logout reaches the next login and only that one: after a cascade that
  ended the sessions of a user for a reported reason, the session of the next exchange for
  that user carries the reason, and the one after it carries none.
\<close>

theorem logout_reason_carried_once:
  assumes "logout_execute lcfg env initiator rid reason st = (Inr res, st1, tr)" "lr_had_session res"
    and "reason = ''user_signed_out'' \<or> reason = ''admin_terminated''"
    and "distinct (map fst (ss_pending_logout_reasons st))"
    and "c_sub (pr_claims r1) = s_user_sub initiator" "c_sub (pr_claims r2) = s_user_sub initiator"
    and "exchange_finish cfg dec i1 t1 (Inr r1) st1 = (a1, st2)"
    and "exchange_finish cfg dec i2 t2 (Inr r2) st2 = (a2, st3)" and "i1 \<noteq> i2"
  shows "\<exists>s1 s2. session_get i1 st2 = Some s1 \<and> s_last_logout_reason s1 = Some reason
    \<and> session_get i2 st3 = Some s2 \<and> s_last_logout_reason s2 = None"
proof -
  have m: "map_of (ss_pending_logout_reasons st1) (s_user_sub initiator) = Some (reason, le_now env)"
    using execute_reason [OF assms(1,2)] assms(3,4) by (simp add: known_reason_def reasons_keys_def)
  note e1 = exchange_finish_store [OF assms(7)] and e2 = exchange_finish_store [OF assms(8)]
  have "session_get i1 st2 = Some (login_session dec i1 t1 r1 st1)" "session_get i2 st3 = Some (login_session dec i2 t2 r2 st2)"
    by (simp_all add: session_get_def e1 e2 dict_simps)
  moreover have "map_of (ss_pending_logout_reasons st2) (s_user_sub initiator) = None"
    using e1(2) assms(5) by (simp add: dict_simps)
  ultimately show ?thesis using m assms(5,6) by (intro exI conjI) (assumption | simp)+
qed

text \<open>Alice signs out and signs in twice.\<close>

lemma logout_reason_carried_once_witness:
  "\<exists>res st1 tr a1 st2 a2 st3 s1 s2.
     logout_execute sample_logout_config (sample_env (RevokeStatus 200)) (sample_session ''s1'' ''alice'') ''r''
        ''user_signed_out'' sample_store = (Inr res, st1, tr)
   \<and> exchange_finish sample_login_config sample_unverified ''i1'' 1003 (Inr sample_login_result) st1 = (a1, st2)
   \<and> exchange_finish sample_login_config sample_unverified ''i2'' 1004 (Inr sample_login_result) st2 = (a2, st3)
   \<and> session_get ''i1'' st2 = Some s1 \<and> s_last_logout_reason s1 = Some ''user_signed_out''
   \<and> session_get ''i2'' st3 = Some s2 \<and> s_last_logout_reason s2 = None"
proof -
  have "\<forall>s \<in> set (find_sessions_for_user (s_user_sub (sample_session ''s1'' ''alice'')) sample_store).
       \<exists>c. le_revoke (sample_env (RevokeStatus 200)) (s_session_id s) \<in> {RevokeStatus c, RevokeHttpError}"
    by (simp add: sample_env_def)
  then obtain res st1 tr where e: "logout_execute sample_logout_config (sample_env (RevokeStatus 200)) (sample_session ''s1'' ''alice'')
      ''r'' ''user_signed_out'' sample_store = (Inr res, st1, tr)"
    using execute_locked_succeeds [OF sample_store_ok(2)] unfolding logout_execute_def by blast
  have u: "s_user_sub (sample_session ''s1'' ''alice'') = ''alice''" by (simp add: sample_session_def)
  have h: "lr_had_session res"
    using execute_locked_done(3) [OF sample_store_ok(1) e [unfolded logout_execute_def]] sample_user_sessions u by simp
  have d: "distinct (map fst (ss_pending_logout_reasons sample_store))" by (simp add: sample_store_def new_session_store_def)
  have c: "c_sub (pr_claims sample_login_result) = s_user_sub (sample_session ''s1'' ''alice'')"
    by (simp add: sample_login_result_def sample_claims_def sample_session_def)
  obtain a1 st2 where f1: "exchange_finish sample_login_config sample_unverified ''i1'' 1003 (Inr sample_login_result) st1 = (a1, st2)"
    by force
  obtain a2 st3 where f2: "exchange_finish sample_login_config sample_unverified ''i2'' 1004 (Inr sample_login_result) st2 = (a2, st3)"
    by force
  from logout_reason_carried_once [OF e h _ d c c f1 f2] show ?thesis using e f1 f2 by simp
qed

end
