(* ===== verification/WireProps.thy ===== *)
theory WireProps
  imports A2AClient AgentFlowProps
begin

text \<open>
  The two ends of the agent protocol together: the orchestrator's client over a network that
  hands each post to the agent's handler.  What a call carries over is exact, with two
  exceptions the last two properties state: a consent that renews an earlier one, and the
  answer to a cancellation.
\<close>

section \<open>The client over the agent's handlers\<close>

text \<open>An unhandled exception of a handler is answered with status 500.\<close>

definition serve :: "('r \<Rightarrow> py) \<Rightarrow> 'r res \<Rightarrow> http_answer" where
  "serve dump r = (case r of Inl e \<Rightarrow> HttpReply 500 None | Inr x \<Rightarrow> HttpReply 200 (Some (dump x)))"

definition request_of :: "a2a_headers \<Rightarrow> py \<Rightarrow> a2a_request" where
  "request_of h body = \<lparr>rq_authorization = Some (ah_authorization h), rq_request_id = Some (ah_request_id h), rq_body = Some body\<rparr>"

definition send_net ::
  "(real \<Rightarrow> string) \<Rightarrow> string \<Rightarrow> dispatch_fn \<Rightarrow> 'k token_world \<Rightarrow> a2a_config \<Rightarrow> string \<Rightarrow> agent_state \<Rightarrow> a2a_net"
where
  "send_net isotime msg disp tw cfg fresh s url h body =
     serve (dump_response isotime msg) (fst (message_send disp tw cfg fresh (request_of h body) s))"

definition cancel_net :: "'k token_world \<Rightarrow> a2a_config \<Rightarrow> agent_state \<Rightarrow> a2a_net" where
  "cancel_net tw cfg s url h body = serve dump_cancel (fst (a2a_cancel tw cfg (request_of h body) s))"

lemma read_envelope_dump:
  "read_envelope (request_of h (dump_request (make_request mth params rid))) = Inr (make_request mth params rid)"
  by (simp add: read_envelope_def request_of_def parse_request_dump)

lemma send_answer:
  assumes "validate_token_and_peer tw cfg (Some (''Bearer '' @ token)) (PStr rid) (ag_cache s) = (Inr (Inr claims), cache')"
    and "rid \<noteq> []"
    and "disp (ag_denylist s) tool args (c_sub claims) rid reason (ag_disp s) = (out, d')" and "do_response out = Inr r"
  shows "client_message_send lx (send_net isotime msg disp tw cfg fresh s) base token tool args rid reason
    = (if readable r then Inr r else Inl protocol_mismatch)"
proof -
  let ?p = "\<lparr>sp_tool = tool, sp_args = args, sp_last_logout_reason = reason\<rparr> :: send_params"
  let ?rpc = "make_request ''message/send'' (dump_send_params ?p) rid"
  let ?h = "a2a_build_headers token rid"
  let ?rq = "request_of ?h (dump_request ?rpc)"
  have "message_send disp tw cfg fresh ?rq s
      = (case do_response out of Inl e \<Rightarrow> Inl e | Inr m \<Rightarrow> Inr (make_success (rr_id ?rpc) m),
         install out (s\<lparr>ag_cache := cache', ag_disp := d'\<rparr>))"
  proof (rule message_send_accepted [OF read_envelope_dump _ _ _ send_params_dump])
    show "validate_token_and_peer tw cfg (rq_authorization ?rq) (rr_id ?rpc) (ag_cache s) = (Inr (Inr claims), cache')"
      using assms(1) by (simp add: request_of_def a2a_build_headers_def make_request_def)
    show "disp (ag_denylist s) (sp_tool ?p) (sp_args ?p) (c_sub claims) (resolve_request_id fresh ?rq)
        (sp_last_logout_reason ?p) (ag_disp s) = (out, d')"
      using assms(2,3) by (simp add: resolve_request_id_def request_of_def a2a_build_headers_def)
  qed (simp_all add: make_request_def)
  then have "send_net isotime msg disp tw cfg fresh s (base @ ''/a2a/message/send'') ?h (dump_request ?rpc)
      = HttpReply 200 (Some (dump_response isotime msg (make_success (PStr rid) r)))"
    using assms(4) by (simp add: send_net_def serve_def make_request_def)
  then show ?thesis
    using parse_response_dump [of "make_success (PStr rid) r" rid r lx isotime msg]
    by (simp add: client_message_send_def a2a_post_def make_success_def)
qed

text \<open>
  C12. A call arrives as it was made and its answer comes back as it was given: when the agent
  accepts the orchestrator's token, its dispatcher gets exactly the tool, the arguments, the
  logout reason and the request id the client was called with and the subject of the token,
  and the client returns exactly the dispatcher's answer, unless that is a consent with the
  time of an earlier one.
\<close>

theorem a2a_call_roundtrip:
  assumes "validate_token_and_peer tw cfg (Some (''Bearer '' @ token)) (PStr rid) (ag_cache s) = (Inr (Inr claims), cache')"
    and "rid \<noteq> []"
    and "disp (ag_denylist s) tool args (c_sub claims) rid reason (ag_disp s) = (out, d')" and "do_response out = Inr r"
  shows "client_message_send lx (send_net isotime msg disp tw cfg fresh s) base token tool args rid reason
    = (if readable r then Inr r else Inl protocol_mismatch)"
  by (rule send_answer [where disp = disp, OF assms])

definition sample_lax :: lax where
  "sample_lax = \<lparr>lax_int = \<lambda>s. None, lax_bool = \<lambda>v. None\<rparr>"

definition sample_time :: "real \<Rightarrow> string" where
  "sample_time t = ''2026-01-05T10:00:00Z''"

lemma sample_cached_dispatch:
  "agent_dispatch sample_setup (sample_dw 2000) (ag_denylist sample_s2) ''hr.read_policy'' [] ''alice'' ''r1'' None (ag_disp sample_s2)
    = (replied (Inr (ResultReply sample_result)), ag_disp sample_s2)"
proof -
  let ?te = "entry ''View the company leave policy'' ''get_leave_policy'' (\<lambda>args. []) (Some ''openid hr_basic_rest'')"
  have dl: "\<not> denylist_contains (ag_denylist sample_s2) j" for j
    by (simp add: ag_denylist_def sample_s2_def sample_s1_def sample_s0_def sample_events_def new_revocation_state_def
        new_denylist_def denylist_contains_def od_keys_def)
  have k: "effective_scope sample_deps ?te = ''openid hr_basic_rest''" by (simp add: effective_scope_def entry_def)
  have m: "te_method ?te = ''get_leave_policy''" by (simp add: entry_def)
  have c: "dp_token_cache (ag_disp sample_s2) (''alice'', ''openid hr_basic_rest'')
      = Some \<lparr>ct_token = sample_polled, ct_iat = 1009, ct_expires_at = 4609\<rparr>"
    by (simp add: sample_s2_def cache_issued_def Let_def sample_key_def sample_polled_def)
  have "serve_cached sample_lib (ag_denylist sample_s2) sample_mcp 2000 (''alice'', ''openid hr_basic_rest'')
      ''get_leave_policy'' [] ''r1'' (ag_disp sample_s2) = (Some (Inr (ResultReply sample_result)), ag_disp sample_s2)"
    by (simp add: serve_cached_def Let_def c dl disp_denylist_contains_def is_near_expiry_def token_expiry_buffer_def sample_mcp_def
        make_result_def sample_result_def jti_of_def sample_polled_def sample_lib_def trunc_real_def)
  then show ?thesis
    by (simp add: agent_dispatch_def sample_setup_def dispatch_def Let_def sample_check k m sample_dw_def)
qed

lemma a2a_call_roundtrip_witness:
  "client_message_send sample_lax (send_net sample_time ''m'' (agent_dispatch sample_setup (sample_dw 2000)) sample_tw sample_a2a_config ''f'' sample_s2)
     ''http://hr'' ''alice'' ''hr.read_policy'' [] ''r1'' None = Inr (ResultReply sample_result)"
proof -
  have v: "validate_token_and_peer sample_tw sample_a2a_config (Some (''Bearer '' @ ''alice'')) (PStr ''r1'') (ag_cache sample_s2)
     = (Inr (Inr (sample_claims ''alice'' ''j1'' ''hr_self_rest'')), sample_fetched (new_jwks_cache ''jwks'' False))"
    using sample_caller_again [of "PStr ''r1''"] by (simp add: sample_s2_def sample_s1_def)
  have d: "agent_dispatch sample_setup (sample_dw 2000) (ag_denylist sample_s2) ''hr.read_policy'' []
      (c_sub (sample_claims ''alice'' ''j1'' ''hr_self_rest'')) ''r1'' None (ag_disp sample_s2)
    = (replied (Inr (ResultReply sample_result)), ag_disp sample_s2)"
    using sample_cached_dispatch by (simp add: sample_claims_def)
  show ?thesis
    using a2a_call_roundtrip [where disp = "agent_dispatch sample_setup (sample_dw 2000)" and lx = sample_lax and isotime = sample_time and msg = "''m''"
        and fresh = "''f''" and base = "''http://hr''", OF v _ d]
    by (simp add: replied_def readable_def)
qed

section \<open>A consent that renews an earlier one\<close>

lemma register_consent_prior:
  "do_response (register_consent job now f) = Inr r \<Longrightarrow> \<exists>a u. r = ConsentRequired (f a u)"
  by (auto simp: register_consent_def Let_def replied_def split: py.splits)

lemma start_consent_prior:
  assumes "start_consent k lib deps w tool args te kw user rid reason (Some t) d = (out, d')" and "do_response out = Inr r"
  shows "(\<exists>e. r = ErrorReply e) \<or> \<not> readable r"
  using assms
  by (auto simp: start_consent_def Let_def replied_def readable_def split: sum.splits prod.splits if_splits
      dest!: register_consent_prior)

lemma start_consent_cache:
  "start_consent k lib deps w tool args te kw user rid reason prior d = (out, d') \<Longrightarrow> dp_token_cache d' = dp_token_cache d"
  using start_consent_cases(1) [of k lib deps w tool args te kw user rid reason prior d out d'] by auto

text \<open>
  C22. A cached token that is about to expire blocks its tool: from thirty seconds before its
  expiry on, every call of that user and tool that reaches the agent is answered by an error
  or by a consent the orchestrator's client rejects (its strict model does not take the text
  of the earlier consent's time), and the cache entry stays, so the next call ends the same way.
\<close>

theorem expired_entry_blocks_tool:
  assumes "validate_token_and_peer tw cfg (Some (''Bearer '' @ token)) (PStr rid) (ag_cache s) = (Inr (Inr claims), cache')"
    and "rid \<noteq> []" and "check_request k tool args = Inr (Inr (te, kw))"
    and "dp_token_cache (ag_disp s) (c_sub claims, effective_scope deps te) = Some cached"
    and "\<not> disp_denylist_contains (ag_denylist s) (ag_disp s) (jti_of lib (ct_token cached))"
    and "ct_expires_at cached - 30 \<le> dw_now w"
    and "dispatch k lib deps w (ag_denylist s) tool args (c_sub claims) rid reason (ag_disp s) = (out, d')"
    and "do_response out = Inr r"
  shows "client_message_send lx (send_net isotime msg (dispatch k lib deps w) tw cfg fresh s) base token tool args rid reason
      \<in> {Inl protocol_mismatch} \<union> range (\<lambda>e. Inr (ErrorReply e))
    \<and> dp_token_cache d' (c_sub claims, effective_scope deps te) = Some cached"
proof -
  let ?key = "(c_sub claims, effective_scope deps te)"
  have "is_near_expiry cached (dw_now w)" using assms(6) by (simp add: is_near_expiry_def token_expiry_buffer_def)
  then have "serve_cached lib (ag_denylist s) (dw_mcp w) (dw_now w) ?key (te_method te) kw rid (ag_disp s) = (None, ag_disp s)"
    using assms(4,5) by (simp add: serve_cached_def Let_def)
  then have st: "start_consent k lib deps w tool args te kw (c_sub claims) rid reason (Some (ct_iat cached)) (ag_disp s) = (out, d')"
    using assms(3,4,7) by (simp add: dispatch_def Let_def)
  have "client_message_send lx (send_net isotime msg (dispatch k lib deps w) tw cfg fresh s) base token tool args rid reason
      = (if readable r then Inr r else Inl protocol_mismatch)"
    by (rule send_answer [where disp = "dispatch k lib deps w", OF assms(1,2,7,8)])
  with start_consent_prior [OF st assms(8)] start_consent_cache [OF st] assms(4) show ?thesis by auto
qed

lemma sample_late_dispatch:
  "\<exists>c out d'. dispatch (hr_agent None) sample_lib sample_deps (sample_dw 4600) (ag_denylist sample_s2) ''hr.read_policy'' []
     ''alice'' ''r1'' None (ag_disp sample_s2) = (out, d') \<and> do_response out = Inr (ConsentRequired c)"
proof -
  let ?te = "entry ''View the company leave policy'' ''get_leave_policy'' (\<lambda>args. []) (Some ''openid hr_basic_rest'')"
  let ?d = "ag_disp sample_s2"
  have k: "effective_scope sample_deps ?te = ''openid hr_basic_rest''" by (simp add: effective_scope_def entry_def)
  have c: "dp_token_cache ?d (''alice'', ''openid hr_basic_rest'')
      = Some \<lparr>ct_token = sample_polled, ct_iat = 1009, ct_expires_at = 4609\<rparr>"
    by (simp add: sample_s2_def cache_issued_def Let_def sample_key_def sample_polled_def)
  have dl: "\<not> denylist_contains (ag_denylist sample_s2) j" for j
    by (simp add: ag_denylist_def sample_s2_def sample_s1_def sample_s0_def sample_events_def new_revocation_state_def
        new_denylist_def denylist_contains_def od_keys_def)
  have i: "initiate (dd_ciba sample_deps) sample_ciba 1000 cid sec user msg tok scope None = Inr sample_request" for cid sec user msg tok scope
    by (simp add: initiate_def sample_ciba_def read_ciba_reply_def pyget_or_def sample_request_def)
  have p: "dp_provider ?d = \<lparr>ap_buffer_seconds = 2, ap_cached = Some sample_actor_token, ap_mints = 1\<rparr>"
    by (simp add: sample_s2_def cache_issued_def Let_def sample_disp1_def)
  have e: "ensure_valid_token (\<lambda>_. sample_mint) 1000 1000 (dp_provider ?d)
      = (Inr sample_actor_token, \<lparr>ap_buffer_seconds = 2, ap_cached = Some sample_actor_token, ap_mints = 1\<rparr>)"
    by (simp add: p ensure_valid_token_def is_fresh_def sample_actor_token_def)
  have "serve_cached sample_lib (ag_denylist sample_s2) sample_mcp 4600 (''alice'', ''openid hr_basic_rest'') (te_method ?te) [] ''r1'' ?d
      = (None, ?d)"
    by (simp add: serve_cached_def c dl Let_def disp_denylist_contains_def is_near_expiry_def token_expiry_buffer_def)
  then have "dispatch (hr_agent None) sample_lib sample_deps (sample_dw 4600) (ag_denylist sample_s2) ''hr.read_policy'' [] ''alice'' ''r1'' None ?d
      = start_consent (hr_agent None) sample_lib sample_deps (sample_dw 4600) ''hr.read_policy'' [] ?te [] ''alice'' ''r1'' None (Some 1009) ?d"
    by (simp add: dispatch_def sample_check k sample_dw_def c)
  moreover have "\<exists>c. do_response (fst (start_consent (hr_agent None) sample_lib sample_deps (sample_dw 4600) ''hr.read_policy'' [] ?te []
      ''alice'' ''r1'' None (Some 1009) ?d)) = Inr (ConsentRequired c)"
    by (simp add: start_consent_def Let_def k hr_agent_def hr_consent_texts_def sample_dw_def e i has_len_def sample_actor_token_def)
       (simp add: register_consent_def sample_request_def)
  ultimately show ?thesis by (metis fst_conv surj_pair)
qed

lemma expired_entry_blocks_tool_witness:
  "client_message_send sample_lax (send_net sample_time ''m'' (dispatch (hr_agent None) sample_lib sample_deps (sample_dw 4600)) sample_tw
       sample_a2a_config ''f'' sample_s2) ''http://hr'' ''alice'' ''hr.read_policy'' [] ''r1'' None
     \<in> {Inl protocol_mismatch} \<union> range (\<lambda>e. Inr (ErrorReply e))"
proof -
  let ?te = "entry ''View the company leave policy'' ''get_leave_policy'' (\<lambda>args. []) (Some ''openid hr_basic_rest'')"
  obtain c out d' where d: "dispatch (hr_agent None) sample_lib sample_deps (sample_dw 4600) (ag_denylist sample_s2) ''hr.read_policy'' []
     ''alice'' ''r1'' None (ag_disp sample_s2) = (out, d')" and r: "do_response out = Inr (ConsentRequired c)"
    using sample_late_dispatch by blast
  let ?cl = "sample_claims ''alice'' ''j1'' ''hr_self_rest''"
  have v: "validate_token_and_peer sample_tw sample_a2a_config (Some (''Bearer '' @ ''alice'')) (PStr ''r1'') (ag_cache sample_s2)
     = (Inr (Inr ?cl), sample_fetched (new_jwks_cache ''jwks'' False))"
    using sample_caller_again [of "PStr ''r1''"] by (simp add: sample_s2_def sample_s1_def)
  have c: "dp_token_cache (ag_disp sample_s2) (c_sub ?cl, effective_scope sample_deps ?te)
      = Some \<lparr>ct_token = sample_polled, ct_iat = 1009, ct_expires_at = 4609\<rparr>"
    by (simp add: sample_s2_def cache_issued_def Let_def sample_key_def sample_polled_def sample_claims_def effective_scope_def entry_def)
  have n: "\<not> disp_denylist_contains (ag_denylist sample_s2) (ag_disp sample_s2)
      (jti_of sample_lib (ct_token \<lparr>ct_token = sample_polled, ct_iat = 1009, ct_expires_at = 4609\<rparr>))"
    by (simp add: disp_denylist_contains_def ag_denylist_def sample_s2_def sample_s1_def sample_s0_def sample_events_def
        new_revocation_state_def new_denylist_def denylist_contains_def od_keys_def)
  show ?thesis
    using expired_entry_blocks_tool [where lx = sample_lax and isotime = sample_time and msg = "''m''" and fresh = "''f''" and base = "''http://hr''"
        and k = "hr_agent None" and lib = sample_lib and deps = sample_deps and w = "sample_dw 4600" and out = out and d' = d'
        and reason = None, OF v _ sample_check c n _ _ r] d
    by (simp add: sample_claims_def sample_dw_def)
qed

section \<open>A cancellation\<close>

text \<open>
  The orchestrator never learns that an agent cancelled: whatever an agent's cancel
  endpoint answers, the client raises, because the answer has no JSON-RPC envelope.
\<close>

theorem cancel_answer_unreadable:
  "\<exists>e. client_cancel lx (cancel_net tw cfg s) base token auth_req_id rid = Inl e"
proof (cases "fst (a2a_cancel tw cfg (request_of (a2a_build_headers token rid)
    (dump_request (make_request ''a2a/cancel'' [(''auth_req_id'', PStr auth_req_id)] rid))) s)")
  case (Inl e)
  then show ?thesis by (simp add: client_cancel_def a2a_post_def cancel_net_def serve_def)
next
  case (Inr r)
  then show ?thesis by (simp add: client_cancel_def a2a_post_def cancel_net_def serve_def parse_cancel_dump)
qed

end
