(* ===== verification/ChatProps.thy ===== *)
theory ChatProps
  imports Chat LogoutProps
begin

text \<open>
  Properties of the chat loop: a fan-out ends with one reply that covers every call, the
  tokens it obtained are in the session's log, nothing of it stays pending, the routes act
  only for a live session, and what may leave through the model and the stream.
\<close>

section \<open>What the other handlers may do meanwhile\<close>

definition replies_to :: "string \<Rightarrow> sse_event option list \<Rightarrow> nat" where
  "replies_to rid q = length (filter (\<lambda>x. case x of Some (ChatMessageEvent c r) \<Rightarrow> r = rid | _ \<Rightarrow> False) q)"

definition pending_ids :: "session \<Rightarrow> string set" where
  "pending_ids s = fst ` set (s_pending_ciba s)"

text \<open>They send no reply for this request and start no consent in the session.\<close>

definition stands_aside :: "string \<Rightarrow> (session \<Rightarrow> session) \<Rightarrow> bool" where
  "stands_aside rid f \<longleftrightarrow>
     (\<forall>s. replies_to rid (s_sse_queue (f s)) = replies_to rid (s_sse_queue s) \<and> pending_ids (f s) \<subseteq> pending_ids s)"

definition others_stand_aside :: "string \<Rightarrow> chat_world \<Rightarrow> bool" where
  "others_stand_aside rid w \<longleftrightarrow>
     (\<forall>i. stands_aside rid (cw_during_send w i) \<and> stands_aside rid (cw_during_await w i)) \<and> stands_aside rid (cw_during_compose w)"

text \<open>The text of a result exists.\<close>

definition displayable :: "string \<Rightarrow> result_payload \<Rightarrow> bool" where
  "displayable tool r \<longleftrightarrow> (\<forall>label. \<exists>t. render_result label tool r = Inr (PStr t))"

definition shaped_answers :: "chat_world \<Rightarrow> tool_call list \<Rightarrow> bool" where
  "shaped_answers w calls \<longleftrightarrow>
     (\<forall>i. \<forall>tc \<in> set calls.
        (\<forall>tok reason r. cw_send w i (tc_agent tc) tok (tc_tool tc) (tc_args tc) reason = Inr (ResultReply r) \<longrightarrow> displayable (tc_tool tc) r)
      \<and> (\<forall>tok a r. cw_await w i (tc_agent tc) tok a = Inr (ResultReply r) \<longrightarrow> displayable (tc_tool tc) r))"

section \<open>One call\<close>

text \<open>What a call leaves: one outcome and one text, no reply yet, nothing pending.\<close>

definition call_done :: "string \<Rightarrow> tool_call \<Rightarrow> fan_state \<Rightarrow> fan_state \<Rightarrow> bool" where
  "call_done rid tc st st' \<longleftrightarrow>
     (\<exists>out t. fs_outcomes st' = fs_outcomes st @ [out] \<and> fs_outputs st' = fs_outputs st @ [PStr t]
        \<and> to_agent_id out = tc_agent tc \<and> to_tool_id out = tc_tool tc)
     \<and> replies_to rid (s_sse_queue (fs_session st')) = replies_to rid (s_sse_queue (fs_session st))
     \<and> pending_ids (fs_session st') \<subseteq> pending_ids (fs_session st)"

lemma replies_to_append [simp]: "replies_to rid (q @ q') = replies_to rid q + replies_to rid q'"
  by (simp add: replies_to_def)

lemma replies_to_more [simp]: "replies_to rid (x # y # q) = replies_to rid [x] + replies_to rid (y # q)"
  by (simp add: replies_to_def)

lemma replies_to_one [simp]:
  "replies_to rid [Some (ChatMessageEvent c r)] = (if r = rid then 1 else 0)"
  "replies_to rid [Some (SseErrorEvent x y z)] = 0" "replies_to rid [Some (RoutingEvent a b c d e)] = 0"
  "replies_to rid [Some (CibaStateChangeEvent x y z)] = 0" "replies_to rid [Some (consent_event p q l u)] = 0"
  by (simp_all add: replies_to_def consent_event_def)

lemma publish_simps [simp]:
  "s_sse_queue (publish e s) = s_sse_queue s @ [Some e]" "s_pending_ciba (publish e s) = s_pending_ciba s"
  "s_completed_ciba_log (publish e s) = s_completed_ciba_log s" "s_session_id (publish e s) = s_session_id s"
  "s_token_a (publish e s) = s_token_a s" "s_last_logout_reason (publish e s) = s_last_logout_reason s"
  "s_chat_history (publish e s) = s_chat_history s"
  by (simp_all add: publish_def)

lemma pending_simps [simp]:
  "s_sse_queue (register_pending a p s) = s_sse_queue s" "s_sse_queue (ack_pending a s) = s_sse_queue s"
  "s_sse_queue (pop_pending a s) = s_sse_queue s" "s_sse_queue (log_issued r s) = s_sse_queue s"
  "s_completed_ciba_log (register_pending a p s) = s_completed_ciba_log s"
  "s_completed_ciba_log (ack_pending a s) = s_completed_ciba_log s"
  "s_completed_ciba_log (pop_pending a s) = s_completed_ciba_log s"
  "s_completed_ciba_log (log_issued r s) = s_completed_ciba_log s @ [r]"
  "s_session_id (register_pending a p s) = s_session_id s" "s_session_id (ack_pending a s) = s_session_id s"
  "s_token_a (register_pending a p s) = s_token_a s"
  by (simp_all add: register_pending_def ack_pending_def pop_pending_def log_issued_def)

lemma pending_ids_simps [simp]:
  "pending_ids (publish e s) = pending_ids s" "pending_ids (register_pending a p s) = insert a (pending_ids s)"
  "pending_ids (ack_pending a s) = pending_ids s" "pending_ids (pop_pending a s) = pending_ids s - {a}"
  "pending_ids (log_issued r s) = pending_ids s" "pending_ids (s\<lparr>s_last_logout_reason := x\<rparr>) = pending_ids s"
  by (force simp: pending_ids_def publish_def register_pending_def ack_pending_def pop_pending_def log_issued_def
      dict_simps)+

lemma on_session_simps [simp]:
  "fs_session (on_session f st) = f (fs_session st)" "fs_outputs (on_session f st) = fs_outputs st"
  "fs_outcomes (on_session f st) = fs_outcomes st"
  "fs_session (record_failed tc x y z st) = fs_session st" "fs_session (record_ok tc frag d st) = fs_session st"
  by (simp_all add: on_session_def record_failed_def record_ok_def)

lemma record_outputs [simp]:
  "fs_outputs (record_failed tc x y z st) = fs_outputs st @ [PStr x]" "fs_outputs (record_ok tc frag d st) = fs_outputs st @ [frag]"
  by (simp_all add: record_failed_def record_ok_def)

lemma record_outcomes:
  "\<exists>out. fs_outcomes (record_failed tc x y z st) = fs_outcomes st @ [out] \<and> to_agent_id out = tc_agent tc \<and> to_tool_id out = tc_tool tc"
  "\<exists>out. fs_outcomes (record_ok tc frag d st) = fs_outcomes st @ [out] \<and> to_agent_id out = tc_agent tc \<and> to_tool_id out = tc_tool tc"
  by (simp_all add: record_failed_def record_ok_def)

lemma aside_replies: "stands_aside rid f \<Longrightarrow> replies_to rid (s_sse_queue (f s)) = replies_to rid (s_sse_queue s)"
  and aside_pending: "stands_aside rid f \<Longrightarrow> pending_ids (f s) \<subseteq> pending_ids s"
  by (simp_all add: stands_aside_def)

text \<open>A failed call, and a call whose result has a text.\<close>

lemma failed_done:
  assumes "replies_to rid (s_sse_queue (fs_session st1)) = replies_to rid (s_sse_queue (fs_session st))"
    and "pending_ids (fs_session st1) \<subseteq> pending_ids (fs_session st)"
    and "fs_outputs st1 = fs_outputs st" and "fs_outcomes st1 = fs_outcomes st"
  shows "call_done rid tc st (record_failed tc x y z st1)"
  using assms record_outcomes(1) [of tc x y z st1] by (auto simp: call_done_def)

lemma result_done:
  assumes "replies_to rid (s_sse_queue (fs_session st1)) = replies_to rid (s_sse_queue (fs_session st))"
    and "pending_ids (fs_session st1) \<subseteq> pending_ids (fs_session st)"
    and "fs_outputs st1 = fs_outputs st" and "fs_outcomes st1 = fs_outcomes st" and "displayable (tc_tool tc) r"
  shows "\<exists>st'. record_result tc label r st1 = (None, st') \<and> call_done rid tc st st'"
proof -
  obtain t where "render_result label (tc_tool tc) r = Inr (PStr t)" using assms(5) by (auto simp: displayable_def)
  then show ?thesis
    using assms(1-4) record_outcomes(2) [of tc "PStr t" "rp_data r" st1] by (auto simp: record_result_def call_done_def)
qed

lemma await_consent_done:
  assumes "others_stand_aside rid w" and "\<And>tok a r. cw_await w i (tc_agent tc) tok a = Inr (ResultReply r) \<Longrightarrow> displayable (tc_tool tc) r"
  shows "\<exists>st'. await_consent w rid i tc label c st = (None, st') \<and> call_done rid tc st st'"
proof -
  let ?a = "cn_auth_req_id c"
  have aside: "stands_aside rid (cw_during_await w i)" using assms(1) by (simp add: others_stand_aside_def)
  define st1 where "st1 = on_session (\<lambda>s. register_pending ?a (new_pending_ciba ?a (tc_agent tc) rid (cw_now w i))
      (publish (consent_event rid tc label c) s)) st"
  define st2 where "st2 = on_session (cw_during_await w i) st1"
  have eq: "await_consent w rid i tc label c st =
      (case cw_await w i (tc_agent tc) (access_token (s_token_a (fs_session st1))) ?a of
         Inl e \<Rightarrow> (None, on_session (\<lambda>s. pop_pending ?a (ack_pending ?a s))
            (record_failed tc (''There was a problem completing consent for '' @ label @ ''. Please try again.'')
              ''ERR-CIBA-COMPLETE'' (take 200 (cw_str w e))
              (on_session (publish (CibaStateChangeEvent rid ''ERROR'' (Some (cw_str w e)))) st2)))
       | Inr m \<Rightarrow> (case consent_outcome rid tc label ?a m (on_session (ack_pending ?a) st2) of
            (Some e, st3) \<Rightarrow> (Some e, st3)
          | (None, st3) \<Rightarrow> (None, on_session (pop_pending ?a) st3)))"
    unfolding await_consent_def Let_def st1_def st2_def by (rule refl)
  have f: "fs_outputs st2 = fs_outputs st" "fs_outcomes st2 = fs_outcomes st"
    "replies_to rid (s_sse_queue (fs_session st2)) = replies_to rid (s_sse_queue (fs_session st))"
    "pending_ids (fs_session st2) \<subseteq> insert ?a (pending_ids (fs_session st))"
    using aside_replies [OF aside] aside_pending [OF aside, of "fs_session st1"]
    by (simp_all add: st2_def) (simp_all add: st1_def)
  have popped: "call_done rid tc (on_session (register_pending ?a p) st) st' \<Longrightarrow> call_done rid tc st (on_session (pop_pending ?a) st')" for st' p
    by (auto simp: call_done_def)
  have popped2: "call_done rid tc (on_session (register_pending ?a p) st) st' \<Longrightarrow>
      call_done rid tc st (on_session (\<lambda>s. pop_pending ?a (ack_pending ?a s)) st')" for st' p
    by (auto simp: call_done_def)
  let ?st0 = "on_session (register_pending ?a undefined) st"
  show ?thesis
  proof (cases "cw_await w i (tc_agent tc) (access_token (s_token_a (fs_session st1))) ?a")
    case (Inl e)
    have "call_done rid tc ?st0 (record_failed tc x y z (on_session (publish (CibaStateChangeEvent rid ''ERROR'' (Some msg))) st2))" for x y z msg
      using f by (intro failed_done) auto
    then have "call_done rid tc st (on_session (\<lambda>s. pop_pending ?a (ack_pending ?a s))
        (record_failed tc x y z (on_session (publish (CibaStateChangeEvent rid ''ERROR'' (Some msg))) st2)))" for x y z msg
      by (rule popped2)
    then show ?thesis by (simp add: eq Inl)
  next
    case (Inr m)
    have "\<exists>st3. consent_outcome rid tc label ?a m (on_session (ack_pending ?a) st2) = (None, st3) \<and> call_done rid tc ?st0 st3"
    proof (cases m)
      case (ConsentRequired d)
      then show ?thesis using f by (auto simp: consent_outcome_def intro!: failed_done)
    next
      case (ResultReply r)
      with Inr have "displayable (tc_tool tc) r" using assms(2) by simp
      with ResultReply show ?thesis using f by (auto simp: consent_outcome_def intro!: result_done)
    next
      case (ErrorReply e)
      then show ?thesis using f by (auto simp: consent_outcome_def intro!: failed_done)
    qed
    then obtain st3 where "consent_outcome rid tc label ?a m (on_session (ack_pending ?a) st2) = (None, st3)"
      and "call_done rid tc ?st0 st3" by blast
    then show ?thesis using popped by (simp add: eq Inr)
  qed
qed

lemma send_tool_done:
  assumes "others_stand_aside rid w" and "shaped_answers w calls" and "tc \<in> set calls"
  shows "\<exists>st'. send_tool w rid i tc label st = (None, st') \<and> call_done rid tc st st'"
proof -
  have sh: "\<And>tok reason r. cw_send w i (tc_agent tc) tok (tc_tool tc) (tc_args tc) reason = Inr (ResultReply r) \<Longrightarrow> displayable (tc_tool tc) r"
    "\<And>tok a r. cw_await w i (tc_agent tc) tok a = Inr (ResultReply r) \<Longrightarrow> displayable (tc_tool tc) r"
    using assms(2,3) by (auto simp: shaped_answers_def)
  define st1 where "st1 = on_session (\<lambda>s. s\<lparr>s_last_logout_reason := None\<rparr>) st"
  define st2 where "st2 = on_session (cw_during_send w i) st1"
  have aside: "stands_aside rid (cw_during_send w i)" using assms(1) by (simp add: others_stand_aside_def)
  have f: "fs_outputs st2 = fs_outputs st" "fs_outcomes st2 = fs_outcomes st"
    "replies_to rid (s_sse_queue (fs_session st2)) = replies_to rid (s_sse_queue (fs_session st))"
    "pending_ids (fs_session st2) \<subseteq> pending_ids (fs_session st)"
    using aside_replies [OF aside] aside_pending [OF aside, of "fs_session st1"]
    by (simp_all add: st2_def) (simp_all add: st1_def)
  define first where "first = cw_send w i (tc_agent tc) (access_token (s_token_a (fs_session st1))) (tc_tool tc) (tc_args tc)
      (s_last_logout_reason (fs_session st))"
  have eq: "send_tool w rid i tc label st =
      (case first of
           Inl e \<Rightarrow> (None, record_failed tc (''I could not reach '' @ label @ ''. Please try again in a moment.'')
                              ''ERR-A2A-SEND'' (take 200 (cw_str w e)) st2)
         | Inr (ResultReply r) \<Rightarrow> record_result tc label r st2
         | Inr (ErrorReply e) \<Rightarrow>
             (None, record_failed tc (friendly_error (ep_error_id e) (ep_reason e) label) (ep_error_id e) (ep_reason e) st2)
         | Inr (ConsentRequired c) \<Rightarrow> await_consent w rid i tc label c st2)"
    unfolding send_tool_def Let_def st1_def st2_def first_def by (rule refl)
  have through: "call_done rid tc st2 st' \<Longrightarrow> call_done rid tc st st'" for st'
    using f by (auto simp: call_done_def)
  show ?thesis
  proof (cases first)
    case (Inl e)
    then show ?thesis using f by (auto simp: eq intro!: failed_done)
  next
    case (Inr m)
    show ?thesis
    proof (cases m)
      case (ConsentRequired c)
      with Inr eq have "send_tool w rid i tc label st = await_consent w rid i tc label c st2" by simp
      moreover obtain st' where "await_consent w rid i tc label c st2 = (None, st')" "call_done rid tc st2 st'"
        using await_consent_done [of rid w i tc label c st2, OF assms(1)] sh(2) by blast
      ultimately show ?thesis using through by auto
    next
      case (ResultReply r)
      with Inr have "displayable (tc_tool tc) r" using sh(1) by (simp add: first_def)
      with ResultReply Inr f show ?thesis by (simp add: eq result_done)
    next
      case (ErrorReply e)
      with Inr f show ?thesis by (auto simp: eq intro!: failed_done)
    qed
  qed
qed

lemma fan_tool_done:
  assumes "others_stand_aside rid w" and "shaped_answers w calls" and "tc \<in> set calls"
  shows "\<exists>st'. fan_tool deps w rid n i tc st = (None, st') \<and> call_done rid tc st st'"
proof (cases "registry_get (ld_registry deps) (tc_agent tc)")
  case None
  then show ?thesis by (auto simp: fan_tool_def Let_def intro!: failed_done)
next
  case (Some crd)
  let ?st1 = "on_session (publish (RoutingEvent rid (tc_agent tc) (cd_label crd) i n)) st"
  show ?thesis
  proof (cases "tc_agent tc \<in> set (ld_a2a_agents deps)")
    case False
    with Some show ?thesis by (auto simp: fan_tool_def Let_def intro!: failed_done)
  next
    case True
    have "call_done rid tc ?st1 st' \<Longrightarrow> call_done rid tc st st'" for st' by (auto simp: call_done_def)
    with send_tool_done [OF assms, of i "cd_label crd" ?st1] True Some show ?thesis by (auto simp: fan_tool_def Let_def)
  qed
qed

section \<open>The whole fan-out\<close>

definition covers :: "tool_call list \<Rightarrow> tool_outcome list \<Rightarrow> bool" where
  "covers calls outcomes \<longleftrightarrow>
     map (\<lambda>out. (to_agent_id out, to_tool_id out)) outcomes = map (\<lambda>tc. (tc_agent tc, tc_tool tc)) calls"

lemma fan_tools_done:
  assumes "others_stand_aside rid w" and "shaped_answers w calls" and "set tcs \<subseteq> set calls"
  shows "\<exists>st'. fan_tools deps w rid n i tcs st = (None, st')
    \<and> (\<exists>outs. fs_outcomes st' = fs_outcomes st @ outs \<and> covers tcs outs)
    \<and> (\<exists>ts. fs_outputs st' = fs_outputs st @ map PStr ts)
    \<and> replies_to rid (s_sse_queue (fs_session st')) = replies_to rid (s_sse_queue (fs_session st))
    \<and> pending_ids (fs_session st') \<subseteq> pending_ids (fs_session st)"
  using assms(3)
proof (induction tcs arbitrary: i st)
  case Nil
  then show ?case by (auto simp: covers_def intro: exI [where x = "[]"])
next
  case (Cons tc tcs)
  from fan_tool_done [OF assms(1,2), of tc deps n i st] Cons.prems obtain st1 where
    t: "fan_tool deps w rid n i tc st = (None, st1)" and d: "call_done rid tc st st1" by auto
  from Cons.IH [of "Suc i" st1] Cons.prems obtain st' outs ts where
    r: "fan_tools deps w rid n (Suc i) tcs st1 = (None, st')" "fs_outcomes st' = fs_outcomes st1 @ outs" "covers tcs outs"
      "fs_outputs st' = fs_outputs st1 @ map PStr ts"
      "replies_to rid (s_sse_queue (fs_session st')) = replies_to rid (s_sse_queue (fs_session st1))"
      "pending_ids (fs_session st') \<subseteq> pending_ids (fs_session st1)" by auto
  from d obtain out x where
    "fs_outcomes st1 = fs_outcomes st @ [out]" "fs_outputs st1 = fs_outputs st @ [PStr x]" "to_agent_id out = tc_agent tc"
    "to_tool_id out = tc_tool tc" by (auto simp: call_done_def)
  with r d t show ?case
    by (auto simp: covers_def call_done_def intro: exI [where x = "out # outs"] exI [where x = "x # ts"])
qed

text \<open>
  C10. A chat message is answered: when every result an agent gives has a text and the other
  handlers send no reply for this request and start no consent, the background task ends
  without an exception after publishing exactly one reply for the request, composed from one
  outcome per tool call in the order of the calls; the reply is the last event and the last
  turn of the history, and no consent of the task stays pending.
\<close>

theorem fan_out_answers:
  assumes "others_stand_aside rid w" and "shaped_answers w calls"
  shows "\<exists>s' outcomes fallback. run_serial_fan_out deps w s calls rid user_message history = (None, s')
    \<and> covers calls outcomes
    \<and> replies_to rid (s_sse_queue s') = Suc (replies_to rid (s_sse_queue s))
    \<and> last (s_sse_queue s') = Some (ChatMessageEvent (compose_reply deps user_message outcomes fallback history) rid)
    \<and> last (s_chat_history s') = (''assistant'', compose_reply deps user_message outcomes fallback history)
    \<and> pending_ids s' \<subseteq> pending_ids s"
proof -
  let ?st0 = "\<lparr>fs_session = s, fs_outputs = [], fs_outcomes = []\<rparr>"
  from fan_tools_done [OF assms order_refl, of deps "length calls" 0 ?st0] obtain st outs ts where
    t: "fan_tools deps w rid (length calls) 0 calls ?st0 = (None, st)" "fs_outcomes st = outs" "covers calls outs"
      "fs_outputs st = map PStr ts" "replies_to rid (s_sse_queue (fs_session st)) = replies_to rid (s_sse_queue s)"
      "pending_ids (fs_session st) \<subseteq> pending_ids s" by auto
  have aside: "stands_aside rid (cw_during_compose w)" using assms(1) by (simp add: others_stand_aside_def)
  obtain fallback where fb: "(if fs_outputs st = [] then Inr no_results_text else py_join [CHR 0x0A, CHR 0x0A] (fs_outputs st)) = Inr fallback"
    using t(4) that by (cases "ts = []") (auto simp: py_join_def list_all_iff)
  let ?reply = "compose_reply deps user_message outs fallback history"
  let ?s1 = "publish (ChatMessageEvent ?reply rid) (cw_during_compose w (fs_session st))"
  have run: "run_serial_fan_out deps w s calls rid user_message history = (None, record_chat_turn ''assistant'' ?reply ?s1)"
    using t(1,2) fb by (simp add: run_serial_fan_out_def finish_fan_out_def Let_def)
  have h: "last (s_chat_history (record_chat_turn r x y)) = (r, x)" for r x y
    by (simp add: record_chat_turn_def Let_def max_chat_history_def)
  have q: "s_sse_queue (record_chat_turn r x y) = s_sse_queue y" "pending_ids (record_chat_turn r x y) = pending_ids y" for r x y
    by (simp_all add: record_chat_turn_def Let_def pending_ids_def)
  show ?thesis
    using run t h q aside_replies [OF aside, of "fs_session st"] aside_pending [OF aside, of "fs_session st"]
    by (intro exI [where x = "record_chat_turn ''assistant'' ?reply ?s1"] exI [where x = outs] exI [where x = fallback]) auto
qed

definition sample_chat_session :: session where
  "sample_chat_session = fst (session_create ''sid'' ''alice'' ''Alice'' sample_token 1000 new_session_store)"

definition sample_chat_call :: tool_call where
  "sample_chat_call = \<lparr>tc_agent = ''hr_agent'', tc_tool = ''hr.apply_leave'', tc_args = []\<rparr>"

definition sample_consent :: consent_required where
  "sample_consent = \<lparr>cn_auth_req_id = ''q1'', cn_auth_url = ''url'', cn_agent_label = ''HR Agent'', cn_action = ''Apply'',
     cn_scope = ''openid hr_self_rest'', cn_binding_message = ''m'', cn_expires_in = 300, cn_is_refresh = False,
     cn_prior_consent_at = None, cn_action_text = None\<rparr>"

definition sample_applied :: result_payload where
  "sample_applied = \<lparr>rp_data = [(''success'', PBool True), (''request_id'', PStr ''LR007'')], rp_token_jti = ''j1'',
     rp_token_exp = 4600, rp_token_iat = 1000\<rparr>"

definition sample_chat_world :: chat_world where
  "sample_chat_world = \<lparr>cw_send = \<lambda>i a tok t args reason. Inr (ConsentRequired sample_consent),
     cw_await = \<lambda>i a tok q. Inr (ResultReply sample_applied), cw_during_send = \<lambda>i s. s, cw_during_await = \<lambda>i s. s,
     cw_during_compose = \<lambda>s. s, cw_now = \<lambda>i. 1001, cw_str = \<lambda>e. ''failed''\<rparr>"

definition sample_card :: agent_card where
  "sample_card = \<lparr>cd_id = ''hr_agent'', cd_label = ''HR Agent'', cd_base_url = ''http://hr_agent:8001'', cd_oauth_client_id = ''cid'',
     cd_api_version = ''1.0'', cd_skills = []\<rparr>"

definition sample_llm_deps :: llm_deps where
  "sample_llm_deps = \<lparr>ld_fallback_mode = ''keyword'', ld_client = None, ld_rules = [],
     ld_registry = registry_add sample_card [], ld_a2a_agents = [''hr_agent'']\<rparr>"

lemma sample_displayable: "displayable ''hr.apply_leave'' sample_applied"
  by (simp add: displayable_def render_result_def sample_applied_def render_apply_def dropped_entry_def uuid_value_def
      is_sensitive_key_def sensitive_keys_exact_def py_lower_def lower_char_def Let_def suffix_def looks_like_uuid_def uuid_shape_def)

lemma sample_aside: "others_stand_aside rid sample_chat_world"
  by (simp add: others_stand_aside_def stands_aside_def sample_chat_world_def)

lemma sample_shaped: "shaped_answers sample_chat_world [sample_chat_call]"
  using sample_displayable by (simp add: shaped_answers_def sample_chat_world_def sample_chat_call_def)

lemma fan_out_answers_witness:
  "\<exists>s' outcomes reply. run_serial_fan_out sample_llm_deps sample_chat_world sample_chat_session [sample_chat_call] ''r1'' ''hi'' []
      = (None, s') \<and> covers [sample_chat_call] outcomes \<and> replies_to ''r1'' (s_sse_queue s') = 1
      \<and> last (s_sse_queue s') = Some (ChatMessageEvent reply ''r1'') \<and> pending_ids s' = {}"
proof -
  have "replies_to ''r1'' (s_sse_queue sample_chat_session) = 0" "pending_ids sample_chat_session = {}"
    by (simp_all add: sample_chat_session_def session_create_def replies_to_def pending_ids_def Let_def)
  with fan_out_answers [OF sample_aside sample_shaped, where deps = sample_llm_deps and rid = "''r1''"
      and s = sample_chat_session and user_message = "''hi''" and history = "[]"]
  show ?thesis by auto
qed

section \<open>The log of issued tokens\<close>

text \<open>What a call hands over to the log: the token of a result that came by a consent.\<close>

definition handed_over :: "llm_deps \<Rightarrow> chat_world \<Rightarrow> nat \<Rightarrow> tool_call \<Rightarrow> session \<Rightarrow> issued_token_record list" where
  "handed_over deps w i tc s =
     (let tok = access_token (s_token_a s)
      in if registry_get (ld_registry deps) (tc_agent tc) = None \<or> tc_agent tc \<notin> set (ld_a2a_agents deps) then []
         else (case cw_send w i (tc_agent tc) tok (tc_tool tc) (tc_args tc) (s_last_logout_reason s) of
                 Inr (ConsentRequired c) \<Rightarrow>
                   (case cw_await w i (tc_agent tc) tok (cn_auth_req_id c) of
                      Inr (ResultReply r) \<Rightarrow> [issued_record (s_session_id s) tc r (cn_auth_req_id c)]
                    | _ \<Rightarrow> [])
               | _ \<Rightarrow> []))"

definition keeps_identity :: "(session \<Rightarrow> session) \<Rightarrow> bool" where
  "keeps_identity f \<longleftrightarrow> (\<forall>s. s_completed_ciba_log (f s) = s_completed_ciba_log s \<and> s_session_id (f s) = s_session_id s
     \<and> s_user_sub (f s) = s_user_sub s \<and> access_token (s_token_a (f s)) = access_token (s_token_a s))"

lemma record_result_session: "record_result tc label r st = (x, st') \<Longrightarrow> fs_session st' = fs_session st"
  by (auto simp: record_result_def split: sum.splits)

lemma await_consent_log:
  assumes "keeps_identity (cw_during_await w i)" and "await_consent w rid i tc label c st = (x, st')"
  shows "s_completed_ciba_log (fs_session st') = s_completed_ciba_log (fs_session st) @
    (case cw_await w i (tc_agent tc) (access_token (s_token_a (fs_session st))) (cn_auth_req_id c) of
       Inr (ResultReply r) \<Rightarrow> [issued_record (s_session_id (fs_session st)) tc r (cn_auth_req_id c)] | _ \<Rightarrow> [])"
proof (cases "cw_await w i (tc_agent tc) (access_token (s_token_a (fs_session st))) (cn_auth_req_id c)")
  case (Inl e)
  with assms show ?thesis by (auto simp: await_consent_def Let_def keeps_identity_def)
next
  case (Inr m)
  with assms show ?thesis
    by (cases m) (auto simp: await_consent_def Let_def keeps_identity_def consent_outcome_def
        split: option.splits prod.splits dest!: record_result_session)
qed

text \<open>
  A token obtained by a consent is known to the session: whatever comes of the call
  afterwards, also when its result cannot be shown, the log of issued tokens grows by exactly
  the token of a result that came by a consent, under the session, the agent and the request
  of that consent; a result the agent had at once adds nothing.
\<close>

theorem consented_token_logged:
  assumes "keeps_identity (cw_during_send w i)" and "keeps_identity (cw_during_await w i)"
    and "fan_tool deps w rid n i tc st = (x, st')"
  shows "s_completed_ciba_log (fs_session st') = s_completed_ciba_log (fs_session st) @ handed_over deps w i tc (fs_session st)"
proof (cases "registry_get (ld_registry deps) (tc_agent tc) = None \<or> tc_agent tc \<notin> set (ld_a2a_agents deps)")
  case True
  with assms(3) show ?thesis by (auto simp: fan_tool_def handed_over_def Let_def split: option.splits)
next
  case False
  then obtain crd where crd: "registry_get (ld_registry deps) (tc_agent tc) = Some crd" by auto
  define st1 where "st1 = on_session (publish (RoutingEvent rid (tc_agent tc) (cd_label crd) i n)) st"
  have send: "send_tool w rid i tc (cd_label crd) st1 = (x, st')"
    using assms(3) False crd by (simp add: fan_tool_def Let_def st1_def)
  define st2 where "st2 = on_session (cw_during_send w i) (on_session (\<lambda>s. s\<lparr>s_last_logout_reason := None\<rparr>) st1)"
  have f: "s_completed_ciba_log (fs_session st2) = s_completed_ciba_log (fs_session st)"
    "s_session_id (fs_session st2) = s_session_id (fs_session st)"
    "access_token (s_token_a (fs_session st2)) = access_token (s_token_a (fs_session st))"
    using assms(1) by (simp_all add: st2_def st1_def keeps_identity_def)
  let ?first = "cw_send w i (tc_agent tc) (access_token (s_token_a (fs_session st))) (tc_tool tc) (tc_args tc)
      (s_last_logout_reason (fs_session st))"
  have eq: "(x, st') = (case ?first of
           Inl e \<Rightarrow> (None, record_failed tc (''I could not reach '' @ cd_label crd @ ''. Please try again in a moment.'')
                              ''ERR-A2A-SEND'' (take 200 (cw_str w e)) st2)
         | Inr (ResultReply r) \<Rightarrow> record_result tc (cd_label crd) r st2
         | Inr (ErrorReply e) \<Rightarrow>
             (None, record_failed tc (friendly_error (ep_error_id e) (ep_reason e) (cd_label crd)) (ep_error_id e) (ep_reason e) st2)
         | Inr (ConsentRequired c) \<Rightarrow> await_consent w rid i tc (cd_label crd) c st2)"
    unfolding send [symmetric] send_tool_def Let_def st2_def by (simp add: st1_def)
  show ?thesis
  proof (cases ?first)
    case (Inl e)
    with eq False f show ?thesis by (simp add: handed_over_def Let_def)
  next
    case (Inr m)
    show ?thesis
    proof (cases m)
      case (ConsentRequired c)
      with Inr eq have "await_consent w rid i tc (cd_label crd) c st2 = (x, st')" by simp
      from await_consent_log [OF assms(2) this] ConsentRequired Inr False f show ?thesis
        by (auto simp: handed_over_def Let_def split: sum.splits message_response.splits)
    next
      case (ResultReply r)
      with Inr eq have "record_result tc (cd_label crd) r st2 = (x, st')" by simp
      from record_result_session [OF this] ResultReply Inr False f show ?thesis by (simp add: handed_over_def Let_def)
    next
      case (ErrorReply e)
      with Inr eq False f show ?thesis by (simp add: handed_over_def Let_def)
    qed
  qed
qed

lemma consented_token_logged_witness:
  "s_completed_ciba_log (fs_session (snd (fan_tool sample_llm_deps sample_chat_world ''r1'' 1 0 sample_chat_call
      \<lparr>fs_session = sample_chat_session, fs_outputs = [], fs_outcomes = []\<rparr>)))
    = [\<lparr>tr_session_id = ''sid'', tr_agent_id = ''hr_agent'', tr_jti = ''j1'', tr_exp = 4600, tr_iat = 1000, tr_auth_req_id = ''q1''\<rparr>]"
proof -
  let ?st = "\<lparr>fs_session = sample_chat_session, fs_outputs = [], fs_outcomes = []\<rparr>"
  obtain x st' where f: "fan_tool sample_llm_deps sample_chat_world ''r1'' 1 0 sample_chat_call ?st = (x, st')" by fastforce
  have k: "keeps_identity (cw_during_send sample_chat_world 0)" "keeps_identity (cw_during_await sample_chat_world 0)"
    by (simp_all add: keeps_identity_def sample_chat_world_def)
  have "registry_get (ld_registry sample_llm_deps) ''hr_agent'' = Some sample_card"
    by (simp add: sample_llm_deps_def registry_get_add sample_card_def)
  then have "handed_over sample_llm_deps sample_chat_world 0 sample_chat_call sample_chat_session
    = [\<lparr>tr_session_id = ''sid'', tr_agent_id = ''hr_agent'', tr_jti = ''j1'', tr_exp = 4600, tr_iat = 1000, tr_auth_req_id = ''q1''\<rparr>]"
    by (simp add: handed_over_def sample_chat_call_def sample_chat_world_def Let_def issued_record_def sample_applied_def sample_consent_def
        sample_chat_session_def session_create_def sample_llm_deps_def)
  moreover have "s_completed_ciba_log sample_chat_session = []" by (simp add: sample_chat_session_def session_create_def Let_def)
  ultimately show ?thesis using consented_token_logged [OF k f] f by simp
qed

section \<open>The routes\<close>

lemma put_session_other: "j \<noteq> s_session_id s \<Longrightarrow> map_of (ss_sessions (put_session s st)) j = map_of (ss_sessions st) j"
  by (simp add: put_session_def dict_simps)

lemma chat_session_cases:
  assumes "chat_session cookie now st = (r, st')"
  shows "(\<exists>d. r = Inl d \<and> st' \<in> {st, snd (session_get_or_404 (or_empty cookie) now st)})
    \<or> (\<exists>s. r = Inr (session_touch now s) \<and> or_empty cookie \<noteq> [] \<and> map_of (ss_sessions st) (or_empty cookie) = Some s
        \<and> \<not> s_terminating s \<and> st' = snd (session_get_or_404 (or_empty cookie) now st))"
  using assms
  by (auto simp: chat_session_def session_get_or_404_def Let_def session_touch_def split: if_splits option.splits)

lemma get_or_404_other: "j \<noteq> i \<Longrightarrow> map_of (ss_sessions (snd (session_get_or_404 i now st))) j = map_of (ss_sessions st) j"
  by (auto simp: session_get_or_404_def Let_def dict_simps split: option.splits)

lemma session_id_turn [simp]:
  "s_session_id (record_chat_turn r t s) = s_session_id s" "s_session_id (session_touch now s) = s_session_id s"
  by (simp_all add: record_chat_turn_def Let_def session_touch_def)

lemma post_chat_effect:
  assumes "store_ok st" and "post_chat deps cookie now rid message st = ((answer, task), st')"
  shows "(\<exists>d. answer = ChatRefused d \<and> task = None \<and> st' \<in> {st, snd (session_get_or_404 (or_empty cookie) now st)})
    \<or> (\<exists>s. or_empty cookie \<noteq> [] \<and> map_of (ss_sessions st) (or_empty cookie) = Some s \<and> \<not> s_terminating s
        \<and> (\<forall>j. j \<noteq> or_empty cookie \<longrightarrow> map_of (ss_sessions st') j = map_of (ss_sessions st) j))"
proof -
  obtain r st1 where c: "chat_session cookie now st = (r, st1)" by fastforce
  from chat_session_cases [OF c] show ?thesis
  proof (elim disjE exE conjE)
    fix d assume "r = Inl d" "st1 \<in> {st, snd (session_get_or_404 (or_empty cookie) now st)}"
    with assms(2) c show ?thesis by (auto simp: post_chat_def)
  next
    fix s assume s: "r = Inr (session_touch now s)" "or_empty cookie \<noteq> []" "map_of (ss_sessions st) (or_empty cookie) = Some s"
      "\<not> s_terminating s" "st1 = snd (session_get_or_404 (or_empty cookie) now st)"
    have "s_session_id s = or_empty cookie" using assms(1) map_of_SomeD [OF s(3)] by (auto simp: store_ok_def)
    then have "map_of (ss_sessions st') j = map_of (ss_sessions st) j" if "j \<noteq> or_empty cookie" for j
      using assms(2) c s(1,5) that
      by (auto simp: post_chat_def Let_def dict_simps get_or_404_other split: if_splits)
    with s show ?thesis by blast
  qed
qed

lemma post_cancel_effect:
  assumes "store_ok st" and "post_ciba_cancel agents cookie now a st = ((answer, call), st')"
  shows "(\<exists>d. answer = CancelRefused d \<and> call = None \<and> st' \<in> {st, snd (session_get_or_404 (or_empty cookie) now st)})
    \<or> (\<exists>s. or_empty cookie \<noteq> [] \<and> map_of (ss_sessions st) (or_empty cookie) = Some s \<and> \<not> s_terminating s
        \<and> (\<forall>j. j \<noteq> or_empty cookie \<longrightarrow> map_of (ss_sessions st') j = map_of (ss_sessions st) j)
        \<and> (\<forall>x. call = Some x \<longrightarrow> snd x = a \<and> (\<exists>p. map_of (s_pending_ciba s) a = Some p \<and> fst x = pc_agent_id p)))"
proof -
  obtain r st1 where c: "chat_session cookie now st = (r, st1)" by fastforce
  from chat_session_cases [OF c] show ?thesis
  proof (elim disjE exE conjE)
    fix d assume "r = Inl d" "st1 \<in> {st, snd (session_get_or_404 (or_empty cookie) now st)}"
    with assms(2) c show ?thesis by (auto simp: post_ciba_cancel_def)
  next
    fix s assume s: "r = Inr (session_touch now s)" "or_empty cookie \<noteq> []" "map_of (ss_sessions st) (or_empty cookie) = Some s"
      "\<not> s_terminating s" "st1 = snd (session_get_or_404 (or_empty cookie) now st)"
    have i: "s_session_id s = or_empty cookie" using assms(1) map_of_SomeD [OF s(3)] by (auto simp: store_ok_def)
    have p: "s_pending_ciba (session_touch now s) = s_pending_ciba s" by (simp add: session_touch_def)
    have "map_of (ss_sessions st') j = map_of (ss_sessions st) j" if "j \<noteq> or_empty cookie" for j
      using assms(2) c s(1,5) that i
      by (auto simp: post_ciba_cancel_def dict_simps get_or_404_other split: option.splits)
    moreover have "snd x = a \<and> (\<exists>p. map_of (s_pending_ciba s) a = Some p \<and> fst x = pc_agent_id p)" if "call = Some x" for x
      using assms(2) c s(1) that p by (auto simp: post_ciba_cancel_def split: option.splits if_splits)
    ultimately show ?thesis using s by blast
  qed
qed

definition live_session :: "string option \<Rightarrow> session_store \<Rightarrow> session \<Rightarrow> bool" where
  "live_session cookie st s \<longleftrightarrow>
     or_empty cookie \<noteq> [] \<and> map_of (ss_sessions st) (or_empty cookie) = Some s \<and> \<not> s_terminating s"

text \<open>
  The chat routes act only for a live session: a message is taken, or a consent cancelled,
  only when the cookie names a session of the store that is not being torn down; an agent is
  asked to cancel only a pending consent of that session.  No other session changes, and a
  refused request at most renews the time of last use of the session it names.
\<close>

theorem chat_needs_live_session:
  assumes "store_ok st"
    and "post_chat deps cookie now rid message st = ((answer, task), st1)"
    and "post_ciba_cancel agents cookie now a st = ((answer', call), st2)"
  shows "(answer = ChatAck r \<or> task = Some t \<longrightarrow> (\<exists>s. live_session cookie st s))
    \<and> (answer' = CancelReply b why \<or> call = Some x \<longrightarrow>
         (\<exists>s. live_session cookie st s \<and> (call = Some x \<longrightarrow> snd x = a \<and> (\<exists>p. map_of (s_pending_ciba s) a = Some p \<and> fst x = pc_agent_id p))))
    \<and> (j \<noteq> or_empty cookie \<longrightarrow> map_of (ss_sessions st1) j = map_of (ss_sessions st) j
         \<and> map_of (ss_sessions st2) j = map_of (ss_sessions st) j)
    \<and> ((\<nexists>s. live_session cookie st s) \<longrightarrow> {st1, st2} \<subseteq> {st, snd (session_get_or_404 (or_empty cookie) now st)})"
proof -
  have c: "(\<exists>d. answer = ChatRefused d \<and> task = None \<and> st1 \<in> {st, snd (session_get_or_404 (or_empty cookie) now st)})
    \<or> (\<exists>s. live_session cookie st s \<and> (\<forall>j. j \<noteq> or_empty cookie \<longrightarrow> map_of (ss_sessions st1) j = map_of (ss_sessions st) j))"
    using post_chat_effect [OF assms(1,2)] unfolding live_session_def by blast
  have k: "(\<exists>d. answer' = CancelRefused d \<and> call = None \<and> st2 \<in> {st, snd (session_get_or_404 (or_empty cookie) now st)})
    \<or> (\<exists>s. live_session cookie st s \<and> (\<forall>j. j \<noteq> or_empty cookie \<longrightarrow> map_of (ss_sessions st2) j = map_of (ss_sessions st) j)
        \<and> (\<forall>x. call = Some x \<longrightarrow> snd x = a \<and> (\<exists>p. map_of (s_pending_ciba s) a = Some p \<and> fst x = pc_agent_id p)))"
    using post_cancel_effect [OF assms(1,3)] unfolding live_session_def by blast
  have o: "j \<noteq> or_empty cookie \<Longrightarrow> map_of (ss_sessions (snd (session_get_or_404 (or_empty cookie) now st))) j = map_of (ss_sessions st) j"
    by (rule get_or_404_other)
  have 1: "answer = ChatAck r \<or> task = Some t \<longrightarrow> (\<exists>s. live_session cookie st s)" using c by auto
  have 2: "answer' = CancelReply b why \<or> call = Some x \<longrightarrow> (\<exists>s. live_session cookie st s
      \<and> (call = Some x \<longrightarrow> snd x = a \<and> (\<exists>p. map_of (s_pending_ciba s) a = Some p \<and> fst x = pc_agent_id p)))"
    using k by (auto simp del: split_paired_All)
  have 3: "j \<noteq> or_empty cookie \<longrightarrow> map_of (ss_sessions st1) j = map_of (ss_sessions st) j
      \<and> map_of (ss_sessions st2) j = map_of (ss_sessions st) j"
    using c k o by auto
  have 4: "(\<nexists>s. live_session cookie st s) \<longrightarrow> {st1, st2} \<subseteq> {st, snd (session_get_or_404 (or_empty cookie) now st)}"
    using c k by auto
  show ?thesis using 1 2 3 4 by blast
qed

lemma chat_needs_live_session_witness:
  "let st = snd (session_create ''sid'' ''alice'' ''Alice'' sample_token 1000 new_session_store)
   in (\<exists>s. live_session (Some ''sid'') st s)
      \<and> fst (post_chat sample_llm_deps (Some ''sid'') 1001 ''r1'' ''hello'' st) = (ChatAck ''r1'', None)
      \<and> fst (post_chat sample_llm_deps (Some ''other'') 1001 ''r1'' ''hello'' st) = (ChatRefused ''Invalid or expired session'', None)"
proof -
  let ?st = "snd (session_create ''sid'' ''alice'' ''Alice'' sample_token 1000 new_session_store)"
  have ok: "store_ok ?st" by (rule store_ok_create [OF store_ok_new])
  have k: "keyword_route [] ''hello'' = []" by (simp add: keyword_route_def)
  have a: "fst (post_chat sample_llm_deps (Some ''sid'') 1001 ''r1'' ''hello'' ?st) = (ChatAck ''r1'', None)"
    by (simp add: post_chat_def chat_session_def session_get_or_404_def session_create_def Let_def new_session_store_def session_touch_def
        history_snapshot_def resolve_tool_calls_def use_llm_def sample_llm_deps_def k)
  have b: "fst (post_chat sample_llm_deps (Some ''other'') 1001 ''r1'' ''hello'' ?st) = (ChatRefused ''Invalid or expired session'', None)"
    by (simp add: post_chat_def chat_session_def session_get_or_404_def session_create_def Let_def new_session_store_def)
  obtain st1 where p: "post_chat sample_llm_deps (Some ''sid'') 1001 ''r1'' ''hello'' ?st = ((ChatAck ''r1'', None), st1)"
    using a by (metis prod.collapse)
  obtain an call st2 where q: "post_ciba_cancel [] (Some ''sid'') 1001 ''q'' ?st = ((an, call), st2)" by (metis prod.collapse)
  from chat_needs_live_session [OF ok p q] a b show ?thesis by (auto simp: Let_def)
qed

section \<open>What reaches the model, the reply and the browser\<close>

text \<open>
  C23. Secrets do not reach a reply: in the value a reply or the model's prompt is made from, no
  dictionary at any depth has an entry whose key is, in any case, sub, act, issued_by
  or ends in _sub or contains token, secret or password, nor one whose value is a
  UUID (five groups of 8, 4, 4, 4 and 12 hexadecimal digits, and at most a newline after them). Nothing else is dropped: a value
  without such entries is shown as it is, and of a dictionary exactly the other entries stay,
  in order. Neither the text of a result nor the prompt depends on what was dropped. (A UUID
  that is an element of a list is not an entry and stays.)
\<close>

theorem secrets_not_shown:
  "\<not> list_ex exposing (entries_in (strip_sensitive v))
   \<and> (strip_sensitive v = v \<longleftrightarrow> \<not> list_ex exposing (entries_in v))
   \<and> strip_sensitive (PDict d) = PDict (map (\<lambda>(k, w). (k, strip_sensitive w)) (filter (\<lambda>kv. \<not> exposing kv) d))
   \<and> render_result label tool r = render_result label tool (r\<lparr>rp_data := strip_entries (rp_data r)\<rparr>)
   \<and> render_outcomes outs = render_outcomes (map (\<lambda>out. out\<lparr>to_data := map_option strip_entries (to_data out)\<rparr>) outs)"
proof -
  have i: "strip_entries (strip_entries d) = strip_entries d" for d
    by (rule strip_entries_fixed [OF strip_entries_hides])
  have "render_outcome out = render_outcome (out\<lparr>to_data := map_option strip_entries (to_data out)\<rparr>)" for out
    by (cases "to_data out") (simp_all add: render_outcome_def i)
  then have "map render_outcome outs = map render_outcome (map (\<lambda>out. out\<lparr>to_data := map_option strip_entries (to_data out)\<rparr>) outs)"
    by simp
  then have o: "render_outcomes outs = render_outcomes (map (\<lambda>out. out\<lparr>to_data := map_option strip_entries (to_data out)\<rparr>) outs)"
    by (simp only: render_outcomes_def) simp
  have f: "strip_sensitive v = v \<longleftrightarrow> \<not> list_ex exposing (entries_in v)"
    using strip_hides [of v] strip_fixed [of v] by metis
  have d: "strip_sensitive (PDict d) = PDict (map (\<lambda>(k, w). (k, strip_sensitive w)) (filter (\<lambda>kv. \<not> exposing kv) d))"
    by (simp add: strip_entries_filter)
  have r: "render_result label tool r = render_result label tool (r\<lparr>rp_data := strip_entries (rp_data r)\<rparr>)"
    using i by (simp add: render_result_def Let_def)
  from strip_hides f d r o show ?thesis by blast
qed

text \<open>
  C24. The language model cannot add capabilities: the calls of a message are those of the
  keyword router, or each of them was proposed by the model, names a tool of the card of a
  connected agent that is not internal, and carries only arguments the card lists, with
  plain values.
\<close>

theorem model_calls_registered:
  "resolve_tool_calls deps m h = keyword_route (ld_rules deps) m
   \<or> (\<exists>lm routed. use_llm deps = Some lm \<and> lm_route lm m (build_catalogue (ld_registry deps)) h = Inr routed
        \<and> (\<forall>t \<in> set (resolve_tool_calls deps m h). registered_call deps t
             \<and> (\<exists>rc \<in> set routed. tc_agent t = rc_agent_id rc \<and> tc_tool t = rc_tool_id rc \<and> set (tc_args t) \<subseteq> set (rc_args rc))))"
proof -
  from resolve_cases [of deps m h] show ?thesis
  proof (elim disjE exE conjE)
    fix lm routed assume "use_llm deps = Some lm" "lm_route lm m (build_catalogue (ld_registry deps)) h = Inr routed"
      "resolve_tool_calls deps m h = validate_routed deps routed"
    then show ?thesis using validate_routed_registered [of _ deps routed] by (intro disjI2 exI conjI) auto
  qed simp
qed

definition sample_model :: llm_client where
  "sample_model = \<lparr>lm_route = \<lambda>m c h. Inr [\<lparr>rc_agent_id = ''hr_agent'', rc_tool_id = ''hr.apply_leave'',
       rc_args = [(''leave_type'', PStr ''Annual Leave''), (''admin'', PBool True)]\<rparr>],
     lm_compose = \<lambda>m outs h. Inr ''ok''\<rparr>"

definition sample_model_deps :: llm_deps where
  "sample_model_deps = \<lparr>ld_fallback_mode = ''llm'', ld_client = Some sample_model, ld_rules = [],
     ld_registry = registry_add (sample_card\<lparr>cd_skills := [\<lparr>sk_tool_id = ''hr.apply_leave'', sk_label = ''Apply'', sk_description = ''d'',
       sk_scope = ''s'', sk_args = [''leave_type'']\<rparr>]\<rparr>) [], ld_a2a_agents = [''hr_agent'']\<rparr>"

lemma model_calls_registered_witness:
  "resolve_tool_calls sample_model_deps ''hello'' [] = [\<lparr>tc_agent = ''hr_agent'', tc_tool = ''hr.apply_leave'',
      tc_args = [(''leave_type'', PStr ''Annual Leave'')]\<rparr>]
   \<and> registered_call sample_model_deps \<lparr>tc_agent = ''hr_agent'', tc_tool = ''hr.apply_leave'',
      tc_args = [(''leave_type'', PStr ''Annual Leave'')]\<rparr>"
proof -
  let ?t = "\<lparr>tc_agent = ''hr_agent'', tc_tool = ''hr.apply_leave'', tc_args = [(''leave_type'', PStr ''Annual Leave'')]\<rparr>"
  have r: "resolve_tool_calls sample_model_deps ''hello'' [] = [?t]"
    by (simp add: resolve_tool_calls_def use_llm_def sample_model_deps_def sample_model_def validate_routed_def List.map_filter_simps
        validate_call_def internal_only_tools_def registry_get_add sample_card_def)
  have k: "keyword_route (ld_rules sample_model_deps) ''hello'' = []" by (simp add: sample_model_deps_def keyword_route_def)
  have "\<forall>t \<in> set (resolve_tool_calls sample_model_deps ''hello'' []). registered_call sample_model_deps t"
    using model_calls_registered [of sample_model_deps "''hello''" "[]"] r k
    by (metis not_Cons_self2)
  then show ?thesis using r by (metis list.set_intros(1))
qed

text \<open>
  The event stream is a queue: while a stream is open, what it has sent and what is still
  queued is what was queued and put, in order, none lost and none repeated; a stream that
  ended has sent everything before the closing mark and left everything after it.
\<close>

theorem stream_in_order:
  "(stream_run q acts = (fs, q', True) \<longrightarrow> q @ put_by acts = map Some (events_of fs) @ q')
   \<and> (stream_run q acts = (fs, q', False) \<longrightarrow> q @ put_by acts = map Some (events_of fs) @ None # q')"
  using stream_open_order stream_closed_order by blast

lemma stream_in_order_witness:
  "[Some (ChatMessageEvent ''hi'' ''r1'')] @ put_by [Waited, Published None, Waited]
     = map Some (events_of [DataFrame (ChatMessageEvent ''hi'' ''r1'')]) @ None # []"
proof -
  have "stream_run [Some (ChatMessageEvent ''hi'' ''r1'')] [Waited, Published None, Waited]
      = ([DataFrame (ChatMessageEvent ''hi'' ''r1'')], [], False)" by simp
  then show ?thesis using stream_in_order by blast
qed

section \<open>Observations\<close>

text \<open>A result the code cannot show ends the task without a reply.\<close>

lemma unshown_result_silences:
  assumes "fan_tools deps w rid (length calls) 0 calls \<lparr>fs_session = s, fs_outputs = [], fs_outcomes = []\<rparr> = (Some e, st)"
  shows "run_serial_fan_out deps w s calls rid msg h = (Some e, fs_session st)"
  using assms by (simp add: run_serial_fan_out_def)

lemma odd_floor_list_raises:
  "render_result ''HR Agent'' ''hr.cubicle_list_floor''
     \<lparr>rp_data = [(''vacant'', PList [PInt 1])], rp_token_jti = j, rp_token_exp = x, rp_token_iat = y\<rparr> = Inl (EPy ''TypeError'')"
  by (simp add: render_result_def render_list_floor_def dropped_entry_def uuid_value_def is_sensitive_key_def
      sensitive_keys_exact_def py_lower_def lower_char_def Let_def py_iter_def py_join_def suffix_def)

text \<open>The number of days of a history entry has another name at the server, so the reply shows a question mark.\<close>

lemma history_days_missing:
  "history_line [(''request_id'', i), (''type'', t), (''start_date'', s), (''end_date'', e), (''days_requested'', n),
      (''status'', u), (''reason'', w)]
   = py_str s @ '' to '' @ py_str e @ '' '' @ dash @ '' ? day(s), '' @ py_str t @ '' ('' @ py_str u @ '')''"
  by (simp add: history_line_def shown_def)

end
