(* ===== verification/RouterProps.thy ===== *)
theory RouterProps
  imports KeywordRouter
begin

text \<open>
  Facts about the keyword router: at most one call per agent, decided by the first rule
  of the agent that matches; the cubicle ids it reads are canonical, and a request that
  names a cubicle and a recipient is read back exactly.
\<close>

section \<open>Digits and the patterns\<close>

lemmas char_eval = lower_char_def upper_char_def word_char_def ascii_letter_def is_digit_def py_ws_def

lemma digit_facts:
  assumes "is_digit d"
  shows "lower_char d = d" "upper_char d = d" "word_char d" "\<not> py_ws d" "in_class NonSpace d"
  using assms by (auto simp: char_eval Let_def)

lemma digit_not: "is_digit d \<Longrightarrow> d \<noteq> CHR ''t'' \<and> d \<noteq> CHR ''f''"
  by (auto simp: is_digit_def)

lemma show_nat_digits: "c \<in> set (show_nat n) \<Longrightarrow> is_digit c"
proof (induction n rule: show_nat.induct)
  case (1 n)
  then show ?case
    by (simp only: show_nat.simps [of n]) (auto simp: digit_char_def is_digit_def Let_def split: if_splits)
qed

lemma show_nat_length: "n < 1000 \<Longrightarrow> length (show_nat n) \<le> 3"
  by (subst show_nat.simps, subst show_nat.simps, subst show_nat.simps) auto

lemma pad3_digits:
  assumes "n < 1000"
  obtains a b c where "pad3 n = [a, b, c]" "is_digit a" "is_digit b" "is_digit c"
proof -
  have l: "length (pad3 n) = 3" using show_nat_length [OF assms] by (simp add: pad3_def Let_def)
  have d: "\<forall>c \<in> set (pad3 n). is_digit c"
    using show_nat_digits [of _ n] by (auto simp: pad3_def Let_def is_digit_def)
  from l obtain a b c where "pad3 n = [a, b, c]" by (auto simp: numeral_3_eq_3 length_Suc_conv)
  with d that show ?thesis by simp
qed

lemmas re_eval = re_search_def match_at_def r_word_def r_many_def r_times_def at_boundary_def
  run_length_def Let_def

lemma lower_eval:
  "lower_char (CHR ''a'') = CHR ''a''" "lower_char (CHR ''s'') = CHR ''s''" "lower_char (CHR ''i'') = CHR ''i''"
  "lower_char (CHR ''g'') = CHR ''g''" "lower_char (CHR ''n'') = CHR ''n''" "lower_char (CHR ''C'') = CHR ''c''"
  "lower_char (CHR ''t'') = CHR ''t''" "lower_char (CHR ''o'') = CHR ''o''" "lower_char (CHR ''f'') = CHR ''f''"
  "lower_char (CHR ''r'') = CHR ''r''" "lower_char (CHR '' '') = CHR '' ''" "lower_char (CHR ''-'') = CHR ''-''"
  by code_simp+

lemma cubicle_search:
  assumes d: "is_digit a" "is_digit b" "is_digit c"
  shows "re_search cubicle_id_re (''assign C-'' @ [a, b, c] @ '' to '' @ u) = Some (''C-'' @ [a, b, c], None)"
  using d by (simp add: re_eval cubicle_id_re_def digit_facts char_eval numeral_eq_Suc)



lemma re_matches_run:
  "re_matches (RRun p lo hi) (b, a, g) =
    (let n = run_length p hi a in if lo \<le> n then advance n (b, a, g) # map (\<lambda>k. advance k (b, a, g)) (rev [lo ..< n]) else [])"
  by (simp add: Let_def)

lemma recipient_match:
  assumes u: "u \<noteq> []" "\<forall>x \<in> set u. \<not> py_ws x"
  shows "match_at recipient_re (CHR '' '' # b) (''to '' @ u) = Some (''to '' @ u, Some u)"
proof -
  have tw: "takeWhile (in_class NonSpace) u = u" using u by (simp add: takeWhile_eq_all_conv)
  obtain x v where x: "u = x # v" "\<not> py_ws x" using u by (cases u) auto
  have n: "run_length NonSpace None u = length u" by (simp add: run_length_def tw)
  have s: "run_length Space None (CHR '' '' # u) = 1" using x by (simp add: run_length_def)
  have g: "Suc 0 \<le> length u" using x by simp
  show ?thesis
    using g by (simp add: match_at_def recipient_re_def r_many_def at_boundary_def re_matches_run n s Let_def word_char_def ascii_letter_def is_digit_def
       lower_char_def del: re_matches.simps(2))
qed

lemma recipient_search:
  assumes d: "is_digit a" "is_digit b" "is_digit c"
    and u: "u \<noteq> []" "\<forall>x \<in> set u. \<not> py_ws x"
  shows "re_search recipient_re (''assign C-'' @ [a, b, c] @ '' to '' @ u) = Some (''to '' @ u, Some u)"
proof -
  let ?p = "''assign C-'' @ [a, b, c] @ '' ''"
  have "search_from recipient_re [] (?p @ ''to '' @ u) = search_from recipient_re (rev ?p @ []) (''to '' @ u)"
  proof (rule search_skip)
    fix i assume "i < length ?p"
    then have "i < 13" by simp
    then have "i \<in> {0,1,2,3,4,5,6,7,8,9,10,11,12}" by (simp only: insert_iff empty_iff) arith
    then show "match_at recipient_re (rev (take i ?p) @ []) (drop i ?p @ ''to '' @ u) = None"
      by (elim insertE emptyE) (simp_all add: match_at_def recipient_re_def lower_eval at_boundary_def
        digit_facts digit_not d)
  qed
  also have "\<dots> = Some (''to '' @ u, Some u)"
    using search_hit [OF recipient_match [OF u, of "rev (''assign C-'' @ [a, b, c])"]] by simp
  finally show ?thesis by (simp add: re_search_def)
qed

lemma strip_recipient_id: "u \<noteq> [] \<Longrightarrow> last u \<notin> set trailing_punctuation \<Longrightarrow> strip_recipient u = u"
  by (cases u rule: rev_cases) (simp_all add: strip_recipient_def)

text \<open>
  Reading back an assignment: from the message "assign C-nnn to u", for a cubicle number of
  three digits and a user name without white space that does not end in punctuation, the router
  extracts exactly that cubicle id and that user name.
\<close>

theorem assign_request_read:
  assumes "n < 1000" and "u \<noteq> []" and "\<forall>c \<in> set u. \<not> py_ws c" and "last u \<notin> set trailing_punctuation"
  shows "extract_inline_args ''hr.cubicle_assign'' (''assign C-'' @ pad3 n @ '' to '' @ u)
    = [(''cubicle_id'', PStr (''C-'' @ pad3 n)), (''employee_username'', PStr u)]"
proof -
  obtain a b c where n: "pad3 n = [a, b, c]" and d: "is_digit a" "is_digit b" "is_digit c"
    using pad3_digits [OF assms(1)] .
  have "py_upper (''C-'' @ [a, b, c]) = ''C-'' @ [a, b, c]"
    by (simp add: py_upper_def digit_facts d) (simp add: upper_char_def)
  then show ?thesis
    using cubicle_search [OF d, of u] recipient_search [OF d assms(2,3)] strip_recipient_id [OF assms(2,4)]
    by (simp add: n extract_inline_args_def cubicle_arg_def recipient_arg_def)
qed

lemma assign_request_read_witness:
  "extract_inline_args ''hr.cubicle_assign'' ''assign C-027 to jane.doe''
    = [(''cubicle_id'', PStr ''C-027''), (''employee_username'', PStr ''jane.doe'')]"
proof -
  have "pad3 27 = ''027''" by code_simp
  then show ?thesis
    using assign_request_read [of 27 "''jane.doe''"] by (simp add: py_ws_def trailing_punctuation_def)
qed

section \<open>One call per agent\<close>

lemma route_rules_seen: "t \<in> set (route_rules seen rules m) \<Longrightarrow> tc_agent t \<notin> set seen"
  by (induction seen rules m rule: route_rules.induct) (auto simp: call_of_rule_def split: if_splits)

lemma route_rules_distinct: "distinct (map tc_agent (route_rules seen rules m))"
  by (induction seen rules m rule: route_rules.induct)
    (auto simp: call_of_rule_def dest: route_rules_seen)

definition first_for_agent :: "keyword_rule list \<Rightarrow> string \<Rightarrow> string \<Rightarrow> keyword_rule option" where
  "first_for_agent rules m a = List.find (\<lambda>r. rule_agent r = a \<and> rule_matches r m) rules"

lemma route_rules_mem:
  "t \<in> set (route_rules seen rules m) \<longleftrightarrow>
   tc_agent t \<notin> set seen \<and> (\<exists>r. first_for_agent rules m (tc_agent t) = Some r \<and> t = call_of_rule r m)"
proof (induction seen rules m rule: route_rules.induct)
  case (1 seen m)
  then show ?case by (simp add: first_for_agent_def)
next
  case (2 seen r rs m)
  let ?f = "first_for_agent rs m (tc_agent t)"
  have f: "first_for_agent (r # rs) m (tc_agent t)
      = (if rule_agent r = tc_agent t \<and> rule_matches r m then Some r else ?f)"
    by (simp add: first_for_agent_def)
  have a: "t = call_of_rule r m \<Longrightarrow> tc_agent t = rule_agent r" by (simp add: call_of_rule_def)
  consider "rule_agent r \<in> set seen" | "rule_agent r \<notin> set seen" "rule_matches r m"
    | "rule_agent r \<notin> set seen" "\<not> rule_matches r m" by blast
  then show ?case
  proof cases
    case 1
    with 2(1) f show ?thesis by auto
  next
    case 2
    with \<open>rule_matches r m\<close> show ?thesis using "2.IH"(2) f a by (cases "tc_agent t = rule_agent r") auto
  next
    case 3
    with 2(3) f show ?thesis by auto
  qed
qed


lemma route_rules_order:
  "\<exists>chosen. subseq chosen rules \<and> route_rules seen rules m = map (\<lambda>r. call_of_rule r m) chosen"
proof (induction seen rules m rule: route_rules.induct)
  case (1 seen m)
  then show ?case by simp
next
  case (2 seen r rs m)
  consider "rule_agent r \<in> set seen" | "rule_agent r \<notin> set seen" "rule_matches r m"
    | "rule_agent r \<notin> set seen" "\<not> rule_matches r m" by blast
  then show ?case
  proof cases
    case 1
    with 2(1) show ?thesis by (auto intro: list_emb_Cons)
  next
    case m: 2
    with 2(2) obtain ch where "subseq ch rs" "route_rules (rule_agent r # seen) rs m = map (\<lambda>r. call_of_rule r m) ch"
      by auto
    with m show ?thesis by (intro exI [where x = "r # ch"]) simp
  next
    case 3
    with 2(3) show ?thesis by (auto intro: list_emb_Cons)
  qed
qed

lemma search_from_at: "search_from r b a = Some x \<Longrightarrow> \<exists>b' a'. match_at r b' a' = Some x"
  by (induction r b a rule: search_from.induct) (auto split: option.splits)

lemma run_three:
  "re_matches (RRun p 3 (Some 3)) (b, a, g) =
     (if 3 \<le> length (takeWhile (in_class p) a) then [advance 3 (b, a, g)] else [])"
  by (simp add: re_matches_run run_length_def Let_def)

lemma lower_char_cases:
  "lower_char c = d \<Longrightarrow> c = d \<or> ((of_char c :: nat) + 32 = of_char d \<and> (of_char c :: nat) \<noteq> 215)"
  by (auto simp: lower_char_def Let_def split: if_splits)

lemma lower_eq_upper:
  "lower_char c = CHR ''c'' \<Longrightarrow> upper_char c = CHR ''C''"
  "lower_char c = CHR ''-'' \<Longrightarrow> upper_char c = CHR ''-''"
proof -
  have u: "upper_char (CHR ''c'') = CHR ''C''" "upper_char (CHR ''-'') = CHR ''-''" "upper_char (CHR ''C'') = CHR ''C''"
    by code_simp+
  show "lower_char c = CHR ''c'' \<Longrightarrow> upper_char c = CHR ''C''"
  proof (drule lower_char_cases, elim disjE conjE)
    assume "(of_char c :: nat) + 32 = of_char (CHR ''c'')"
    then have "(of_char c :: nat) = of_char (CHR ''C'')" by simp
    then show "upper_char c = CHR ''C''" using u by (metis of_char_eq_iff)
  qed (simp add: u)
  assume a: "lower_char c = CHR ''-''"
  show "upper_char c = CHR ''-''"
  proof (cases "c = CHR ''-''")
    case False
    with a have "(of_char c :: nat) = 13" by (auto dest: lower_char_cases)
    with a show ?thesis by (simp add: lower_char_def) 
  qed (simp add: u)
qed

lemma cubicle_match_shape:
  assumes "match_at cubicle_id_re b t = Some (w, g)"
  shows "\<exists>x y z. is_digit x \<and> is_digit y \<and> is_digit z \<and> py_upper w = ''C-'' @ [x, y, z]"
proof -
  consider (short) "length t < 5" | (long) c e x y z v where "t = c # e # x # y # z # v"
    by (cases "length t < 5") (auto simp: not_less numeral_eq_Suc Suc_le_length_iff)
  then show ?thesis
  proof cases
    case short
    have few: "\<not> 3 \<le> length (takeWhile P (drop (Suc (Suc 0)) t))" for P
      using length_takeWhile_le [of P "drop (Suc (Suc 0)) t"] short by simp
    show ?thesis using assms few
      by (simp add: match_at_def cubicle_id_re_def r_word_def r_times_def run_three del: re_matches.simps(2) split: if_splits)
  next
    case long
    have m: "lower_char c = CHR ''c''" "lower_char e = CHR ''-''" "is_digit x" "is_digit y" "is_digit z"
      "w = [c, e, x, y, z]"
      using assms long
      by (auto simp: match_at_def cubicle_id_re_def r_word_def r_times_def run_three lower_eval
          simp del: re_matches.simps(2) split: if_splits)
    show ?thesis using m by (simp add: py_upper_def lower_eq_upper digit_facts)
  qed
qed


lemma pad3_shape:
  assumes "n < 1000"
  shows "\<exists>x y z. is_digit x \<and> is_digit y \<and> is_digit z \<and> pad3 n = [x, y, z]"
  using pad3_digits [OF assms] by metis

text \<open>
  Whatever the user writes, the cubicle argument the router reads from it is missing or one
  id of the canonical form: "C-" and three digits.
\<close>

theorem inline_cubicle_canonical:
  "\<exists>x y z. is_digit x \<and> is_digit y \<and> is_digit z
     \<and> cubicle_arg m \<in> {[], [(''cubicle_id'', PStr (''C-'' @ [x, y, z]))]}"
proof (cases "re_search cubicle_id_re m")
  case None
  have z: "is_digit (CHR ''0'')" by (simp add: is_digit_def)
  show ?thesis
  proof (cases "re_search seat_num_re m")
    case None
    with \<open>re_search cubicle_id_re m = None\<close> z show ?thesis by (auto simp: cubicle_arg_def)
  next
    case (Some r)
    with None z show ?thesis
      using pad3_shape [of "nat_of_digits (or_empty (snd r))"]
      by (auto simp: cubicle_arg_def Let_def split: prod.splits)
  qed
next
  case (Some r)
  then obtain b a where "match_at cubicle_id_re b a = Some (fst r, snd r)"
    unfolding re_search_def by (auto dest: search_from_at)
  from cubicle_match_shape [OF this] Some show ?thesis
    by (auto simp: cubicle_arg_def split: prod.splits)
qed

section \<open>The routing of a message\<close>

text \<open>
  C26. The router answers exactly what its rule table says: a call is in the answer if and only if
  it is the call of the first rule of its agent that matches the message.  The calls follow the
  order of the rules and name distinct agents.
\<close>

theorem keyword_route_first_rules:
  "(t \<in> set (keyword_route rules m) \<longleftrightarrow>
      (\<exists>r. first_for_agent rules m (tc_agent t) = Some r \<and> t = call_of_rule r m))
   \<and> distinct (map tc_agent (keyword_route rules m))
   \<and> (\<exists>chosen. subseq chosen rules \<and> keyword_route rules m = map (\<lambda>r. call_of_rule r m) chosen)"
  unfolding keyword_route_def
  using route_rules_distinct [of "[]" rules m] route_rules_order [of rules "[]" m]
    route_rules_mem [of t "[]" rules m] by simp

end
