(* ===== verification/ModelClient.thy ===== *)
theory ModelClient
  imports LlmRouter PublicChat
begin

text \<open>
  The client of the language model (\<open>orchestrator/llm/amp_client.py\<close>) and the two system
  prompts (\<open>orchestrator/llm/prompts.py\<close>).

  The model behind \<open>ChatOpenAI\<close> is a parameter: a call with a handle, the tools bound to it,
  the messages and the time limit answers with a content and tool calls, or raises an exception
  (the expiry of \<open>asyncio.wait_for\<close> included).  Spans and log lines are left out.
\<close>

section \<open>The prompts\<close>

definition router_bind_system :: "string \<Rightarrow> string" where
  "router_bind_system today = text_lines
     [''You are the routing layer of an internal HR/IT employee assistant.'',
      ''Select the tool(s) needed to fully satisfy the user's request and extract each tool's arguments.'',
      ''Rules:'',
      ''- Dates must be ISO format YYYY-MM-DD. Today is '' @ today @ ''.'',
      ''- leave_type must be exactly one of: Annual Leave, Sick Leave, Personal Leave.'',
      ''- If the message maps to more than one tool, list them in the order they should run.'',
      ''- If the message doesn't map to any tool (chit-chat, off-topic, or a question you can't answer with a tool), '' @
       ''return [].'',
      ''- CRITICAL leave routing: any message that expresses intent to submit, apply for, request, book, or take '' @
       ''leave '' @
       [CHR 0xE2, CHR 0x80, CHR 0x94] @
       '' even partially (e.g. only dates given, or only type given, or a follow-up like 'go ahead') '' @
       [CHR 0xE2, CHR 0x80, CHR 0x94] @
       '' MUST use hr.apply_leave. NEVER use hr.read_policy when the user wants to create a leave request. hr.read_policy '' @
       ''is ONLY for purely informational questions about what the leave policy is, with no intent to apply.'']"

definition composer_system :: string where
  "composer_system = text_lines
    [''You are the reply layer of an internal HR/IT employee assistant.'',
     ''Given the user's message and the outcome of each tool that ran, write ONE short, friendly reply in plain '' @
      ''text '' @
      [CHR 0xE2, CHR 0x80, CHR 0x94] @
      '' no markdown, no HTML, no code fences, no headings. Address the user as \"you\"; first person for the assistant.'',
     ''Rules:'',
     ''- Mention the outcome of every tool listed. Don't drop any.'',
     ''- If the body says '(no tools ran)', no tool was called for this turn. Answer from the conversation history: '' @
      ''if the user's message is a short reply, affirmation, or clarification to your last question (e.g. 'I can'' @
      [CHR 0x27] @
      '', 'yes', 'go ahead', 'sure'), interpret it against that question and ask for the next specific piece of '' @
      ''information you still need to act. If you genuinely can't see what the user wants from history, briefly '' @
      ''say so and offer one or two concrete things you can help with (HR leave, cubicle/seat allocation, IT devices). '' @
      ''Never say 'I don't know how to help' verbatim.'',
     ''- If a tool failed with error_id ERR-CIBA-005, say plainly that the user declined that action and it wasn'' @
      [CHR 0x27] @
      ''t done.'',
     ''- If a tool failed with error_id ERR-AGENT-002, ask the user for the specific missing information (the reason '' @
      ''text names it). Don't say \"something went wrong\".'',
     ''- If the failure reason mentions 'Failed to obtain actor token', 'ERR-CIBA-009', 'login.fail.message', or '' @
      [CHR 0x27] @
      ''agent authentication FAILED', the agent has been denied access by the identity provider (typically because '' @
      ''the agent was deactivated in the IS Console, or its credentials were rotated). Say plainly that the agent '' @
      ''doesn't have permission to perform this action right now, and suggest the user check with their administrator. '' @
      ''Do NOT quote the raw error or mention tokens, OAuth, CIBA, or IS by name.'',
     ''- For any other failure, give a brief, non-technical apology and (if useful) what the user could try.'',
     ''- NEVER quote raw error text, HTTP status codes, JSON, identifier strings, or internal/IdP wording from '' @
      ''a failure reason '' @
      [CHR 0xE2, CHR 0x80, CHR 0x94] @
      '' translate the problem into plain language (\"I couldn't start the approval step just now '' @
      [CHR 0xE2, CHR 0x80, CHR 0x94] @
      '' please try again\"), not the verbatim message.'',
     ''- State only facts present in the tool outputs. Never invent request ids, balances, cubicle numbers, asset '' @
      ''ids, or dates.'',
     ''- If a leave-policy result is present, list each leave type with its minimum notice period, and '' @
      [CHR 0xE2, CHR 0x80, CHR 0x94] @
      '' if the result includes a 'to_apply' list '' @
      [CHR 0xE2, CHR 0x80, CHR 0x94] @
      '' tell the user exactly what they need to provide to apply for leave (the leave type, the start and end dates, '' @
      ''and an optional reason).'',
     ''- If a tool result has a 'leave_requests' array (the HR-admin list of leave requests), show EACH request '' @
      ''on its own line '' @
      [CHR 0xE2, CHR 0x80, CHR 0x94] @
      '' even if there's only one '' @
      [CHR 0xE2, CHR 0x80, CHR 0x94] @
      '' with: the request id, the employee who applied (use the 'employee' field '' @
      [CHR 0xE2, CHR 0x80, CHR 0x94] @
      '' do NOT write \"you\" / \"for you\" unless that employee is literally the person asking), the leave type, '' @
      ''the start and end dates, the number of days, and the status. Don't compress it into a single sentence. If '' @
      ''the array is empty, say there are no matching leave requests.'',
     ''- If an approve or reject of a leave request succeeded, confirm the action you just took: \"You approved '' @
      ''leave request <request_id> for <employee>.\" (or \"You rejected '' @
      [CHR 0xE2, CHR 0x80, CHR 0xA6] @
      ''\") '' @
      [CHR 0xE2, CHR 0x80, CHR 0x94] @
      '' use the 'request_id' and 'employee' fields from the result; include the rejection reason if one is present.'',
     ''- 'Cubicle', 'seat' and 'seating (arrangement)' all mean the same thing '' @
      [CHR 0xE2, CHR 0x80, CHR 0x94] @
      '' mirror whichever word the user used.'',
     ''- Cubicle/seat allocation is a guided flow '' @
      [CHR 0xE2, CHR 0x80, CHR 0x94] @
      '' keep it moving: after a per-floor cubicle vacancy summary, end by asking which floor they want to allocate '' @
      ''on. After a floor's vacant-seat list, end by asking which seat (and for which employee). After a successful '' @
      ''assignment, confirm '<cubicle_id> on floor <floor> is now assigned to <employee>.' If the message already '' @
      ''named a floor or a seat, skip straight ahead.'',
     ''- Issuing an IT device is a guided flow too: if the admin asked to issue a device but only named a TYPE '' @
      ''('a laptop', 'a phone') so all you have is the available-device catalogue, list the matching devices (model '' @
      ''+ catalogue id + how many in stock) and end by asking which one (the catalogue id) to issue and to whom '' @
      [CHR 0xE2, CHR 0x80, CHR 0x94] @
      '' do NOT claim anything has been issued yet, and never invent a catalogue id. Only after a specific id has '' @
      ''been issued (a successful it.issue_asset result) say 'Issued <asset_id> to <employee>.' If the message already '' @
      ''named a specific catalogue id and a recipient, skip straight to the issuance.'',
     ''- Onboarding a new hire (a seat AND a laptop/phone/monitor in one request) is just the cubicle flow and '' @
      ''the device flow at the same time '' @
      [CHR 0xE2, CHR 0x80, CHR 0x94] @
      '' handle them together in ONE reply: present the seat options and the device options side by side and ask '' @
      ''for all the picks at once (which floor for the seat, which laptop/phone), or '' @
      [CHR 0xE2, CHR 0x80, CHR 0x94] @
      '' if everything was named specifically '' @
      [CHR 0xE2, CHR 0x80, CHR 0x94] @
      '' confirm all the assignments in one reply.'',
     ''- Use a bullet list (\"- \") only when listing 3 or more items (EXCEPT the leave-requests list above, which '' @
      ''is always one line per request); otherwise prose.'',
     ''- Keep it under about 6 sentences for simple cases.'']"

section \<open>Tools and messages\<close>

record tool_spec =
  ts_name :: string
  ts_description :: string
  ts_properties :: "(string \<times> string) list"

text \<open>A name of a tool for the model has no dot; the map back is a dictionary, so the last tool of a name stays.\<close>

definition safe_tool_name :: "string \<Rightarrow> string" where
  "safe_tool_name tool_id = map (\<lambda>c. if c = CHR ''.'' then CHR ''_'' else c) tool_id"

definition tool_spec_of :: "catalogue_entry \<Rightarrow> tool_spec" where
  "tool_spec_of e =
     \<lparr>ts_name = safe_tool_name (ce_tool_id e), ts_description = ''['' @ ce_agent_id e @ ''] '' @ ce_description e,
      ts_properties = fold (\<lambda>a. AList.update a a) (ce_args e) []\<rparr>"

type_synonym tool_names = "(string \<times> (string \<times> string)) list"

definition catalogue_to_tools :: "catalogue_entry list \<Rightarrow> tool_spec list \<times> tool_names" where
  "catalogue_to_tools catalogue =
     (map tool_spec_of catalogue,
      fold (\<lambda>e. AList.update (safe_tool_name (ce_tool_id e)) (ce_agent_id e, ce_tool_id e)) catalogue [])"

datatype model_message = SystemMessage string | HumanMessage string | AIMessage string

definition history_message :: "string \<times> string \<Rightarrow> model_message option" where
  "history_message turn =
     (let body = py_strip (snd turn)
      in if body = [] then None else Some (if fst turn = ''assistant'' then AIMessage body else HumanMessage body))"

definition history_messages :: "chat_history \<Rightarrow> model_message list" where
  "history_messages history = List.map_filter history_message history"

section \<open>The client\<close>

record chat_handle =
  ch_base_url :: "string option"
  ch_api_key :: string
  ch_headers :: "(string \<times> string) list"
  ch_model :: string
  ch_max_tokens :: int
  ch_max_retries :: int
  ch_temperature :: real

record model_call =
  ml_name :: "string option"
  ml_args :: "pydict option"

datatype model_answer = ModelRaised string string | ModelAnswered py "model_call list"

type_synonym chat_model = "chat_handle \<Rightarrow> tool_spec list \<Rightarrow> model_message list \<Rightarrow> real \<Rightarrow> model_answer"

record openai_client =
  oa_router :: chat_handle
  oa_composer :: chat_handle
  oa_timeout_s :: real
  oa_public_timeout_s :: real

text \<open>The handle for a gateway carries the key in a header, the one for OpenAI itself as its bearer key.\<close>

definition new_chat_handle :: "string option \<Rightarrow> string \<Rightarrow> string \<Rightarrow> string \<Rightarrow> int \<Rightarrow> real \<Rightarrow> chat_handle" where
  "new_chat_handle base_url api_header api_key model max_tokens temperature =
     (if or_empty base_url \<noteq> [] then
        \<lparr>ch_base_url = base_url, ch_api_key = ''not-used'', ch_headers = [(api_header, api_key)], ch_model = model,
         ch_max_tokens = max_tokens, ch_max_retries = 5, ch_temperature = temperature\<rparr>
      else \<lparr>ch_base_url = None, ch_api_key = api_key, ch_headers = [], ch_model = model, ch_max_tokens = max_tokens,
            ch_max_retries = 5, ch_temperature = temperature\<rparr>)"

definition new_openai_client ::
  "string \<Rightarrow> string \<Rightarrow> real \<Rightarrow> int \<Rightarrow> int option \<Rightarrow> real option \<Rightarrow> string option \<Rightarrow> string \<Rightarrow> openai_client"
where
  "new_openai_client api_key model timeout_s max_output_tokens composer_max public_timeout_s base_url api_header =
     \<lparr>oa_router = new_chat_handle base_url api_header api_key model max_output_tokens 0,
      oa_composer = new_chat_handle base_url api_header api_key model
        (case composer_max of None \<Rightarrow> max_output_tokens | Some n \<Rightarrow> n) (3 / 10),
      oa_timeout_s = timeout_s,
      oa_public_timeout_s = (case public_timeout_s of None \<Rightarrow> timeout_s | Some t \<Rightarrow> t)\<rparr>"

datatype llm_error = LLMError string

definition call_failed :: "string \<Rightarrow> string \<Rightarrow> string \<Rightarrow> llm_error" where
  "call_failed what name txt = LLMError (what @ '' call failed: '' @ describe_llm_exc name txt)"

section \<open>Routing\<close>

text \<open>A call with a name that is not in the map is passed over.\<close>

definition routed_of :: "tool_names \<Rightarrow> model_call \<Rightarrow> routed_call option" where
  "routed_of names tc =
     (case map_of names (or_empty (ml_name tc)) of
        None \<Rightarrow> None
      | Some (agent_id, tool_id) \<Rightarrow>
          Some \<lparr>rc_agent_id = agent_id, rc_tool_id = tool_id, rc_args = (case ml_args tc of None \<Rightarrow> [] | Some d \<Rightarrow> d)\<rparr>)"

definition router_messages :: "string \<Rightarrow> string \<Rightarrow> chat_history \<Rightarrow> model_message list" where
  "router_messages today user_message history =
     SystemMessage (router_bind_system today) # history_messages history @ [HumanMessage user_message]"

definition openai_route ::
  "openai_client \<Rightarrow> chat_model \<Rightarrow> string \<Rightarrow> string \<Rightarrow> catalogue_entry list \<Rightarrow> chat_history \<Rightarrow> llm_error + routed_call list"
where
  "openai_route c model today user_message catalogue history =
     (let (specs, names) = catalogue_to_tools catalogue
      in case model (oa_router c) specs (router_messages today user_message history) (oa_timeout_s c) of
           ModelRaised name txt \<Rightarrow> Inl (call_failed ''router'' name txt)
         | ModelAnswered content calls \<Rightarrow> Inr (List.map_filter (routed_of names) calls))"

section \<open>Composition\<close>

definition read_text :: "string \<Rightarrow> string \<Rightarrow> model_answer \<Rightarrow> llm_error + string" where
  "read_text what who answer =
     (case answer of
        ModelRaised name txt \<Rightarrow> Inl (call_failed what name txt)
      | ModelAnswered content calls \<Rightarrow>
          (let txt = py_strip (coerce_text content)
           in if txt = [] then Inl (LLMError (who @ '' returned empty text'')) else Inr txt))"

definition composer_messages :: "string \<Rightarrow> tool_outcome list \<Rightarrow> chat_history \<Rightarrow> model_message list" where
  "composer_messages user_message outcomes history =
     SystemMessage composer_system # history_messages history
       @ [HumanMessage (render_outcomes outcomes @ [CHR 0x0A, CHR 0x0A] @ ''The user just said: '' @ user_message)]"

definition openai_compose ::
  "openai_client \<Rightarrow> chat_model \<Rightarrow> string \<Rightarrow> tool_outcome list \<Rightarrow> chat_history \<Rightarrow> llm_error + string"
where
  "openai_compose c model user_message outcomes history =
     read_text ''composer'' ''composer'' (model (oa_composer c) [] (composer_messages user_message outcomes history) (oa_timeout_s c))"

definition openai_compose_public :: "openai_client \<Rightarrow> chat_model \<Rightarrow> string \<Rightarrow> string \<Rightarrow> llm_error + string" where
  "openai_compose_public c model system_prompt user_msg =
     read_text ''compose_public'' ''compose_public''
       (model (oa_composer c) [] [SystemMessage system_prompt, HumanMessage (''<user_message>'' @ user_msg @ ''</user_message>'')]
          (oa_public_timeout_s c))"

text \<open>The client as the chat routes see it.\<close>

definition raise_llm :: "llm_error + 'a \<Rightarrow> 'a res" where
  "raise_llm r = (case r of Inl e \<Rightarrow> Inl (EPy ''LLMError'') | Inr v \<Rightarrow> Inr v)"

definition llm_client_of :: "openai_client \<Rightarrow> chat_model \<Rightarrow> string \<Rightarrow> llm_client" where
  "llm_client_of c model today =
     \<lparr>lm_route = (\<lambda>m cat h. raise_llm (openai_route c model today m cat h)),
      lm_compose = (\<lambda>m os h. raise_llm (openai_compose c model m os h))\<rparr>"

end
