(* ===== verification/Discovery.thy ===== *)
theory Discovery
  imports AgentCards
begin

text \<open>
  The fetching of agent cards over HTTP from an allowlist of addresses
  (\<open>orchestrator/agent_registry/discovery.py\<close>).  The network is a parameter with a state of its
  own, so that a request can be seen in it; reading a body is the parameter of
  \<open>AgentCard.model_validate_json\<close>, with the validators the code adds to it.

  No entry point uses the class at present: the orchestrator reads its cards from files.
\<close>

record discovery_config =
  dy_allowed_card_urls :: "string list"
  dy_timeout_seconds :: real
  dy_insecure_tls :: bool

text \<open>The field is a frozenset; the list has its elements in the order of iteration.\<close>

definition new_discovery_config :: "string list \<Rightarrow> discovery_config" where
  "new_discovery_config urls = \<lparr>dy_allowed_card_urls = urls, dy_timeout_seconds = 10, dy_insecure_tls = False\<rparr>"

datatype card_reply = CardStatus int string | CardHttpError

datatype discovery_error = NotAllowlisted string | TransportError string | BadStatus int | BadCard string

definition read_agent_card :: "(string \<Rightarrow> agent_card option) \<Rightarrow> string \<Rightarrow> agent_card option" where
  "read_agent_card parse body =
     (case parse body of None \<Rightarrow> None | Some c \<Rightarrow> if card_valid c then Some c else None)"

definition discovery_fetch ::
  "(string \<Rightarrow> agent_card option) \<Rightarrow> (string \<Rightarrow> real \<Rightarrow> 's \<Rightarrow> card_reply \<times> 's) \<Rightarrow> discovery_config \<Rightarrow> string \<Rightarrow> 's
     \<Rightarrow> (discovery_error + agent_card) \<times> 's"
where
  "discovery_fetch parse get cfg url s =
     (if url \<notin> set (dy_allowed_card_urls cfg) then (Inl (NotAllowlisted url), s)
      else (case get url (dy_timeout_seconds cfg) s of
              (CardHttpError, s') \<Rightarrow> (Inl (TransportError url), s')
            | (CardStatus status body, s') \<Rightarrow>
                (if status \<noteq> 200 then Inl (BadStatus status)
                 else case read_agent_card parse body of None \<Rightarrow> Inl (BadCard url) | Some c \<Rightarrow> Inr c, s')))"

fun fetch_each ::
  "(string \<Rightarrow> agent_card option) \<Rightarrow> (string \<Rightarrow> real \<Rightarrow> 's \<Rightarrow> card_reply \<times> 's) \<Rightarrow> discovery_config \<Rightarrow> string list
     \<Rightarrow> agent_registry \<Rightarrow> 's \<Rightarrow> agent_registry \<times> 's"
where
  "fetch_each parse get cfg [] result s = (result, s)"
| "fetch_each parse get cfg (url # urls) result s =
     (case discovery_fetch parse get cfg url s of
        (Inl e, s') \<Rightarrow> fetch_each parse get cfg urls result s'
      | (Inr c, s') \<Rightarrow> fetch_each parse get cfg urls (AList.update (cd_id c) c result) s')"

definition fetch_all ::
  "(string \<Rightarrow> agent_card option) \<Rightarrow> (string \<Rightarrow> real \<Rightarrow> 's \<Rightarrow> card_reply \<times> 's) \<Rightarrow> discovery_config \<Rightarrow> string list option \<Rightarrow> 's
     \<Rightarrow> agent_registry \<times> 's"
where
  "fetch_all parse get cfg urls s =
     fetch_each parse get cfg (case urls of None \<Rightarrow> dy_allowed_card_urls cfg | Some us \<Rightarrow> us) [] s"

section \<open>Facts\<close>

text \<open>A network that logs the addresses it is asked for and answers as \<open>answer\<close> says.\<close>

definition logged_get :: "(string \<Rightarrow> card_reply) \<Rightarrow> string \<Rightarrow> real \<Rightarrow> string list \<Rightarrow> card_reply \<times> string list" where
  "logged_get answer url t reqs = (answer url, reqs @ [url])"

definition card_at :: "(string \<Rightarrow> agent_card option) \<Rightarrow> (string \<Rightarrow> card_reply) \<Rightarrow> string \<Rightarrow> agent_card option" where
  "card_at parse answer url =
     (case answer url of CardStatus status body \<Rightarrow> if status = 200 then read_agent_card parse body else None
      | CardHttpError \<Rightarrow> None)"

lemma fetch_asks:
  "url \<in> set (dy_allowed_card_urls cfg) \<Longrightarrow> snd (discovery_fetch parse (logged_get answer) cfg url reqs) = reqs @ [url]"
  by (simp add: discovery_fetch_def logged_get_def split: card_reply.splits)

lemma fetch_card:
  "url \<in> set (dy_allowed_card_urls cfg) \<Longrightarrow>
     fst (discovery_fetch parse (logged_get answer) cfg url reqs) = Inr c \<longleftrightarrow> card_at parse answer url = Some c"
  by (auto simp: discovery_fetch_def logged_get_def card_at_def split: card_reply.splits option.splits)

lemma fetch_each_char:
  "fetch_each parse (logged_get answer) cfg urls result reqs =
     (fold (\<lambda>c. AList.update (cd_id c) c)
        (List.map_filter (card_at parse answer) (filter (\<lambda>u. u \<in> set (dy_allowed_card_urls cfg)) urls)) result,
      reqs @ filter (\<lambda>u. u \<in> set (dy_allowed_card_urls cfg)) urls)"
proof (induction urls arbitrary: result reqs)
  case Nil
  then show ?case by (simp add: List.map_filter_def)
next
  case (Cons u urls)
  show ?case
  proof (cases "u \<in> set (dy_allowed_card_urls cfg)")
    case False
    then show ?thesis using Cons by (simp add: discovery_fetch_def)
  next
    case True
    obtain r where r: "discovery_fetch parse (logged_get answer) cfg u reqs = (r, reqs @ [u])"
      using fetch_asks [OF True, of parse answer reqs] by (metis prod.collapse)
    have c: "card_at parse answer u = (case r of Inl e \<Rightarrow> None | Inr c \<Rightarrow> Some c)"
      using fetch_card [OF True, of parse answer reqs] r by (cases "card_at parse answer u"; cases r) auto
    show ?thesis using True Cons r c by (simp add: List.map_filter_def split: sum.splits)
  qed
qed

end
