(* ===== verification/ModelProps.thy ===== *)
theory ModelProps
  imports ModelClient Discovery ItService HrStore
begin

text \<open>
  The properties of the language model's client, of the public assistant and of the fetching of
  cards.
\<close>

section \<open>Names of tools\<close>

lemma map_of_fold_update:
  "distinct (map f es) \<Longrightarrow> e \<in> set es \<Longrightarrow> map_of (fold (\<lambda>e. AList.update (f e) (g e)) es d) (f e) = Some (g e)"
proof (induction es arbitrary: d)
  case Nil
  then show ?case by simp
next
  case (Cons x es)
  have keep: "k \<notin> set (map f es) \<Longrightarrow> map_of (fold (\<lambda>e. AList.update (f e) (g e)) es d) k = map_of d k" for k d
    by (induction es arbitrary: d) (simp_all add: dict_simps)
  show ?case
  proof (cases "e = x")
    case True
    then show ?thesis using Cons.prems keep [of "f x" "AList.update (f x) (g x) d"] by (simp add: dict_simps)
  next
    case False
    then show ?thesis using Cons by simp
  qed
qed

lemma map_of_fold_mem:
  "map_of (fold (\<lambda>e. AList.update (f e) (g e)) es d) k = Some v \<Longrightarrow> map_of d k = Some v \<or> (\<exists>e \<in> set es. k = f e \<and> v = g e)"
proof (induction es arbitrary: d)
  case Nil
  then show ?case by simp
next
  case (Cons x es)
  from Cons.IH [of "AList.update (f x) (g x) d"] Cons.prems show ?case
    by (auto simp: dict_simps split: if_splits)
qed

text \<open>A name the model may use leads to a tool of the catalogue with that name.\<close>

lemma routed_in_catalogue:
  assumes "routed_of (snd (catalogue_to_tools cat)) tc = Some rc"
  shows "\<exists>e \<in> set cat. safe_tool_name (ce_tool_id e) = or_empty (ml_name tc) \<and> rc_agent_id rc = ce_agent_id e
    \<and> rc_tool_id rc = ce_tool_id e"
  using assms map_of_fold_mem [of "\<lambda>e. safe_tool_name (ce_tool_id e)" "\<lambda>e. (ce_agent_id e, ce_tool_id e)" cat "[]"]
  by (fastforce simp: routed_of_def catalogue_to_tools_def split: option.splits)

text \<open>Two tools that differ in a dot only share a name, and the earlier one cannot be called.\<close>

lemma tool_names_collide:
  "routed_of (snd (catalogue_to_tools
      [\<lparr>ce_agent_id = a, ce_tool_id = ''hr.leave.apply'', ce_label = l, ce_description = d, ce_args = []\<rparr>,
       \<lparr>ce_agent_id = a, ce_tool_id = ''hr.leave_apply'', ce_label = l, ce_description = d, ce_args = []\<rparr>]))
     \<lparr>ml_name = Some (safe_tool_name ''hr.leave.apply''), ml_args = None\<rparr>
   = Some \<lparr>rc_agent_id = a, rc_tool_id = ''hr.leave_apply'', rc_args = []\<rparr>"
  by (simp add: routed_of_def catalogue_to_tools_def safe_tool_name_def)

text \<open>What the model may pick: a skill of the card of a connected agent that is not internal.\<close>

definition callable :: "llm_deps \<Rightarrow> string \<times> skill \<times> pydict \<Rightarrow> bool" where
  "callable deps p = (case p of (a, sk, args) \<Rightarrow>
     a \<in> set (ld_a2a_agents deps) \<and> sk_tool_id sk \<notin> set internal_only_tools
     \<and> (case registry_get (ld_registry deps) a of None \<Rightarrow> False | Some crd \<Rightarrow> sk \<in> set (cd_skills crd)))"

definition listing_of :: "agent_card \<Rightarrow> skill \<Rightarrow> tool_listing" where
  "listing_of c s = \<lparr>tl_tool = \<lparr>td_tool_id = sk_tool_id s, td_label = sk_label s, td_description = sk_description s,
     td_scope = sk_scope s, td_args = sk_args s\<rparr>, tl_agent_id = cd_id c, tl_agent_label = cd_label c\<rparr>"

lemma listing_inj: "listing_of c s = listing_of c s' \<Longrightarrow> s = s'"
  by (cases s; cases s') (simp add: listing_of_def)

definition listing_name :: "tool_listing \<Rightarrow> string" where
  "listing_name l = safe_tool_name (td_tool_id (tl_tool l))"

lemma registered_listing:
  "registry_get reg a = Some crd \<Longrightarrow> s \<in> set (cd_skills crd) \<Longrightarrow> listing_of crd s \<in> set (llm_tool_list reg)"
  unfolding llm_tool_list_mem registry_get_def registry_all_def listing_of_def
  by (metis (no_types, lifting) image_eqI list.set_map map_of_SomeD snd_conv)

lemma skill_found:
  assumes "distinct (map listing_name (llm_tool_list reg))" "registry_get reg a = Some crd" "sk \<in> set (cd_skills crd)"
  shows "List.find (\<lambda>s. sk_tool_id s = sk_tool_id sk) (cd_skills crd) = Some sk"
proof -
  obtain s where s: "List.find (\<lambda>s. sk_tool_id s = sk_tool_id sk) (cd_skills crd) = Some s"
    using assms(3) by (metis (mono_tags, lifting) find_None_iff2 option.exhaust)
  then have "s \<in> set (cd_skills crd)" "sk_tool_id s = sk_tool_id sk" by (auto simp: find_Some_iff)
  moreover have "listing_name (listing_of crd s) = listing_name (listing_of crd sk)"
    using \<open>sk_tool_id s = sk_tool_id sk\<close> by (simp add: listing_name_def listing_of_def)
  ultimately have "listing_of crd s = listing_of crd sk"
    using assms registered_listing [OF assms(2)] by (metis distinct_map inj_onD)
  then show ?thesis using s listing_inj by metis
qed

definition model_pick :: "string \<times> skill \<times> pydict \<Rightarrow> model_call" where
  "model_pick p = (case p of (a, sk, args) \<Rightarrow> \<lparr>ml_name = Some (safe_tool_name (sk_tool_id sk)), ml_args = Some args\<rparr>)"

definition picked_call :: "string \<times> skill \<times> pydict \<Rightarrow> tool_call" where
  "picked_call p = (case p of (a, sk, args) \<Rightarrow>
     \<lparr>tc_agent = a, tc_tool = sk_tool_id sk, tc_args = filter (\<lambda>(k, v). k \<in> set (sk_args sk) \<and> json_scalar v) args\<rparr>)"

lemma pick_routed:
  assumes "registry_ok reg" "distinct (map listing_name (llm_tool_list reg))" "registry_get reg a = Some crd" "sk \<in> set (cd_skills crd)"
  shows "routed_of (snd (catalogue_to_tools (build_catalogue reg))) (model_pick (a, sk, args))
    = Some \<lparr>rc_agent_id = a, rc_tool_id = sk_tool_id sk, rc_args = args\<rparr>"
proof -
  let ?entry = "\<lambda>l. \<lparr>ce_agent_id = tl_agent_id l, ce_tool_id = td_tool_id (tl_tool l), ce_label = td_label (tl_tool l),
      ce_description = td_description (tl_tool l), ce_args = td_args (tl_tool l)\<rparr>"
  have "cd_id crd = a" using assms(1,3) by (auto simp: registry_ok_def registry_get_def dest: map_of_SomeD)
  moreover have "?entry (listing_of crd sk) \<in> set (build_catalogue reg)"
    using registered_listing [OF assms(3,4)] by (simp add: build_catalogue_def)
  moreover have "map (\<lambda>e. safe_tool_name (ce_tool_id e)) (build_catalogue reg) = map listing_name (llm_tool_list reg)"
    by (simp add: build_catalogue_def listing_name_def)
  ultimately show ?thesis
    using map_of_fold_update [of "\<lambda>e. safe_tool_name (ce_tool_id e)" "build_catalogue reg" "?entry (listing_of crd sk)"
        "\<lambda>e. (ce_agent_id e, ce_tool_id e)" "[]"] assms(2)
    by (simp add: routed_of_def catalogue_to_tools_def model_pick_def listing_of_def)
qed

text \<open>
  C25. The model's choice is executed: when no two tools of the registry get the same name for the
  model, every non-empty answer that picks tools the model may use becomes exactly those calls, in
  order, at the agents that offer them, with the arguments their cards list.
\<close>

theorem model_choice_executed:
  assumes "ld_fallback_mode deps = ''llm''" "ld_client deps = Some (llm_client_of c model today)"
    and "registry_ok (ld_registry deps)" "distinct (map listing_name (llm_tool_list (ld_registry deps)))"
    and "model (oa_router c) (fst (catalogue_to_tools (build_catalogue (ld_registry deps)))) (router_messages today m h) (oa_timeout_s c)
      = ModelAnswered content (map model_pick picks)"
    and "picks \<noteq> []" "list_all (callable deps) picks"
  shows "resolve_tool_calls deps m h = map picked_call picks"
proof -
  let ?names = "snd (catalogue_to_tools (build_catalogue (ld_registry deps)))"
  have step: "\<exists>rc. routed_of ?names (model_pick p) = Some rc \<and> validate_call deps rc = Some (picked_call p)" if "p \<in> set picks" for p
  proof -
    obtain a sk args where p: "p = (a, sk, args)" by (cases p) auto
    have "callable deps (a, sk, args)" using assms(7) that p by (auto simp: list_all_iff)
    then obtain crd where c: "registry_get (ld_registry deps) a = Some crd" "sk \<in> set (cd_skills crd)" "a \<in> set (ld_a2a_agents deps)"
      "sk_tool_id sk \<notin> set internal_only_tools"
      by (auto simp: callable_def split: option.splits)
    show ?thesis
      using pick_routed [OF assms(3,4) c(1,2), of args] skill_found [OF assms(4) c(1,2)] c p
      by (simp add: validate_call_def picked_call_def)
  qed
  have "validate_routed deps (List.map_filter (routed_of ?names) (map model_pick picks)) = map picked_call picks"
    using step unfolding validate_routed_def
    by (induction picks) (auto simp: List.map_filter_simps split: option.splits, force+)
  moreover have "lm_route (llm_client_of c model today) m (build_catalogue (ld_registry deps)) h
      = Inr (List.map_filter (routed_of ?names) (map model_pick picks))"
    using assms(5) by (simp add: llm_client_of_def raise_llm_def openai_route_def split_beta)
  ultimately show ?thesis
    using assms(1,2,6) by (simp add: resolve_tool_calls_def use_llm_def Let_def)
qed

definition sample_skill :: "string \<Rightarrow> skill" where
  "sample_skill tool = \<lparr>sk_tool_id = tool, sk_label = ''l'', sk_description = ''d'', sk_scope = ''s'', sk_args = [''leave_type'']\<rparr>"

definition sample_hr_card :: agent_card where
  "sample_hr_card = \<lparr>cd_id = ''hr_agent'', cd_label = ''HR'', cd_base_url = ''http://hr'', cd_oauth_client_id = ''c'',
     cd_api_version = ''v1'', cd_skills = [sample_skill ''hr.apply_leave'', sample_skill ''hr.read_policy'']\<rparr>"

definition sample_openai :: openai_client where
  "sample_openai = new_openai_client ''sk'' ''gpt-4o'' 8 256 (Some 1024) (Some 5) None ''api-key''"

definition sample_picks :: "(string \<times> skill \<times> pydict) list" where
  "sample_picks = [(''hr_agent'', sample_skill ''hr.apply_leave'', [(''leave_type'', PStr ''Sick Leave''), (''x'', PInt 1)])]"

definition sample_chat_model :: chat_model where
  "sample_chat_model h tools msgs t = ModelAnswered PNone (map model_pick sample_picks)"

definition sample_routing :: llm_deps where
  "sample_routing = \<lparr>ld_fallback_mode = ''llm'', ld_client = Some (llm_client_of sample_openai sample_chat_model ''2026-01-05''),
     ld_rules = [], ld_registry = registry_add sample_hr_card [], ld_a2a_agents = [''hr_agent'']\<rparr>"

lemma model_choice_executed_witness:
  "resolve_tool_calls sample_routing ''sick today'' []
    = [\<lparr>tc_agent = ''hr_agent'', tc_tool = ''hr.apply_leave'', tc_args = [(''leave_type'', PStr ''Sick Leave'')]\<rparr>]"
proof -
  have 1: "registry_ok (ld_registry sample_routing)" by (simp add: sample_routing_def registry_ok_add registry_ok_empty)
  have 2: "distinct (map listing_name (llm_tool_list (ld_registry sample_routing)))" by code_simp
  have 3: "list_all (callable sample_routing) sample_picks"
    by (simp add: callable_def sample_routing_def sample_picks_def sample_hr_card_def sample_skill_def registry_add_def registry_get_def
        internal_only_tools_def)
  have "resolve_tool_calls sample_routing ''sick today'' [] = map picked_call sample_picks"
    by (rule model_choice_executed [where c = sample_openai and model = sample_chat_model and today = "''2026-01-05''" and content = PNone,
          OF _ _ 1 2 _ _ 3]) (simp_all add: sample_routing_def sample_chat_model_def sample_picks_def)
  then show ?thesis by (simp add: picked_call_def sample_picks_def sample_skill_def)
qed

section \<open>The public assistant\<close>

lemma text_lines_nonempty: "l \<noteq> [] \<Longrightarrow> text_lines (l # ls) \<noteq> []"
  by (cases ls) (simp_all add: text_lines_def)

lemma static_nonempty: "static_fallback m \<noteq> []"
  by (simp add: static_fallback_def Let_def holidays_answer_def leave_answer_def hardware_answer_def decline_answer_def
      text_lines_nonempty)

definition static_answers :: "string set" where
  "static_answers = {holidays_answer, leave_answer, hardware_answer, decline_answer}"

lemma static_among: "static_fallback m \<in> static_answers"
  by (simp add: static_fallback_def static_answers_def Let_def)

definition public_message :: "nat \<Rightarrow> py option \<Rightarrow> string option" where
  "public_message n body =
     (case body of
        Some (PDict d) \<Rightarrow>
          (case map_of d ''message'' of Some (PStr m) \<Rightarrow> if 1 \<le> length m \<and> length m \<le> n then Some m else None | _ \<Rightarrow> None)
      | _ \<Rightarrow> None)"

lemma public_chat_char:
  "public_chat llm n body = (case public_message n body of None \<Rightarrow> Unprocessable | Some m \<Rightarrow> PublicReply (public_answer llm (py_strip m)))"
  by (simp add: public_chat_def public_message_def split: option.splits py.splits)

lemma read_text_nonempty: "read_text what who a = Inr t \<Longrightarrow> t \<noteq> []"
  by (auto simp: read_text_def Let_def split: model_answer.splits if_splits)

text \<open>
  C27. The public assistant answers: a request is refused exactly when it is no message of one to the
  allowed number of characters; every other request gets a non-empty reply, which is one of the four
  fixed texts unless the model answered the fixed prompt and the message with it.
\<close>

theorem public_chat_answers:
  fixes c :: openai_client
  assumes "llm \<in> {None, Some (openai_compose_public c model)}"
  shows "case public_chat llm n body of
      Unprocessable \<Rightarrow> public_message n body = None
    | PublicReply r \<Rightarrow> \<exists>m. public_message n body = Some m \<and> r \<noteq> []
        \<and> (r \<in> static_answers \<or> openai_compose_public c model public_system_prompt (py_strip m) = Inr r)"
  using assms static_nonempty static_among
  by (auto simp: public_chat_char public_answer_def openai_compose_public_def dest: read_text_nonempty
      split: option.splits sum.splits)

lemma public_chat_answers_witness:
  "public_chat (Some (openai_compose_public sample_openai (\<lambda>h ts ms t. ModelRaised ''TimeoutError'' []))) 500
      (Some (PDict [(''message'', PStr '' Laptop? '')])) = PublicReply hardware_answer
   \<and> hardware_answer \<noteq> []"
proof -
  let ?m = "\<lambda>h ts ms t. ModelRaised ''TimeoutError'' []"
  have s: "static_fallback ''Laptop?'' = hardware_answer" by code_simp
  have p: "py_strip '' Laptop? '' = ''Laptop?''" by code_simp
  have r: "public_chat (Some (openai_compose_public sample_openai ?m)) 500 (Some (PDict [(''message'', PStr '' Laptop? '')]))
      = PublicReply hardware_answer"
    by (simp add: public_chat_def public_answer_def openai_compose_public_def read_text_def s p)
  show ?thesis
    using public_chat_answers [of "Some (openai_compose_public sample_openai ?m)" sample_openai ?m 500
        "Some (PDict [(''message'', PStr '' Laptop? '')])"] r by auto
qed

text \<open>A message of blanks passes the length check and is answered by the refusal.\<close>

lemma blank_message_answered: "public_chat None 500 (Some (PDict [(''message'', PStr '' '')])) = PublicReply decline_answer"
  by code_simp

text \<open>
  The public knowledge base agrees with the servers' data: its holidays are the rendering of
  the HR server's, each leave type is listed with the days and the notice of the HR server's
  policy, and the kits of the IT server's hardware policy are lines of its text.
\<close>

definition py_field :: "py \<Rightarrow> string \<Rightarrow> py" where
  "py_field v k = (case v of PDict d \<Rightarrow> (case map_of d k of Some x \<Rightarrow> x | None \<Rightarrow> PNone) | _ \<Rightarrow> PNone)"

definition kit_lines :: "string \<Rightarrow> py \<Rightarrow> string list" where
  "kit_lines indent kit = map (\<lambda>(k, label). indent @ label @ (case py_field kit k of PStr v \<Rightarrow> v | _ \<Rightarrow> []))
     [(''laptop'', ''Laptop:      ''), (''phone'', ''Phone:       ''), (''monitor'', ''Monitor:     ''), (''peripherals'', ''Peripherals: '')]"

definition role_kits :: "py list" where
  "role_kits = (case py_field get_hardware_policy ''role_overrides'' of PDict d \<Rightarrow> map snd d | _ \<Rightarrow> [])"

definition default_kit :: py where
  "default_kit = py_field (py_field get_hardware_policy ''standard_allocation'') ''default_kit''"

definition leave_line_agrees :: "(string \<times> leave_rule) \<times> string \<Rightarrow> bool" where
  "leave_line_agrees x = (case x of ((name, rule), line) \<Rightarrow>
     prefix (name @ '':'') line \<and> str_in ('' '' @ show_int (lp_max_days_per_year rule) @ '' days per year'') line
     \<and> str_in (if lp_min_notice_days rule = 0 then ''no advance notice''
               else ''('' @ show_int (lp_min_notice_days rule) @ '' days'' @ [CHR 0x27] @ '' notice'') line)"

lemma kb_holidays_agree: "kb_holidays_lines = ''UAE Public Holidays 2026'' # map (\<lambda>(d, n). ''- '' @ d @ '': '' @ n) seed_holidays"
  by code_simp

lemma kb_leave_policy_agrees:
  "length kb_leave_policy_lines = length seed_leave_policy \<and> list_all leave_line_agrees (zip seed_leave_policy kb_leave_policy_lines)"
  by code_simp

lemma kb_kits_agree:
  "set (kit_lines ''  '' default_kit) \<union> \<Union> (set ` kit_lines ''    '' ` set role_kits) \<subseteq> set kb_hardware_policy_lines"
  by code_simp

section \<open>Cards over HTTP\<close>

text \<open>
  Cards are fetched only from the allowlist: the addresses asked for are exactly the listed
  ones of the request, in order and before anything else is known of them, and the cards kept are
  those a registry loaded from the readable answers would hold, one per agent.
\<close>

theorem discovery_allowlisted:
  "fetch_all parse (logged_get answer) cfg urls [] =
     (let asked_for = filter (\<lambda>u. u \<in> set (dy_allowed_card_urls cfg)) (case urls of None \<Rightarrow> dy_allowed_card_urls cfg | Some us \<Rightarrow> us)
      in (registry_from_files (\<lambda>u. case answer u of CardStatus status body \<Rightarrow> if status = 200 then parse body else None
                                    | CardHttpError \<Rightarrow> None) asked_for, asked_for))"
proof -
  let ?load = "\<lambda>u. case answer u of CardStatus status body \<Rightarrow> if status = 200 then parse body else None | CardHttpError \<Rightarrow> None"
  have c: "card_at parse answer u = (case ?load u of Some c \<Rightarrow> if card_valid c then Some c else None | None \<Rightarrow> None)" for u
    by (simp add: card_at_def read_agent_card_def split: card_reply.splits)
  have "fold (\<lambda>c. AList.update (cd_id c) c) (List.map_filter (card_at parse answer) us) reg
      = fold (\<lambda>p reg. case ?load p of Some c \<Rightarrow> if card_valid c then registry_add c reg else reg | None \<Rightarrow> reg) us reg" for us reg
    by (induction us arbitrary: reg) (simp_all add: List.map_filter_simps c registry_add_def split: option.split)
  then show ?thesis by (simp add: fetch_all_def fetch_each_char registry_from_files_def Let_def)
qed

end
