(* ===== verification/Logging.thy ===== *)
theory Logging
  imports Regex
begin

text \<open>
  \<open>common/logging/\<close>: the redaction of log texts by regular expressions (\<open>redaction.py\<close>), and
  the correlation id of a request with its middleware, log filter and the installation of the
  root logger (\<open>correlation.py\<close>).

  Of Python's \<open>logging\<close> the model has what the services rely on: the filters of a logger see
  the records logged through that logger only; a record then goes to the handlers of the logger
  and of its ancestors, each with filters of its own; a filter may change the record.  Levels
  are left out: a record is one that passes them.
\<close>

section \<open>Redaction\<close>

definition jwt_pattern :: re where
  "jwt_pattern = r_seq [RExact ''eyJ'', RRun TokenChar 10 None, RExact ''.'', r_many TokenChar, RExact ''.'', r_many TokenChar]"

definition bearer_pattern :: re where
  "bearer_pattern = r_seq [RLit ''Bearer'', r_many Space, r_many DottedToken]"

text \<open>A key with its separators, captured, and the value.\<close>

definition key_pattern :: "string \<Rightarrow> char_class \<Rightarrow> nat \<Rightarrow> re" where
  "key_pattern key p n = RThen (RGroup (RThen (RLit key) (r_many KeySep))) (RRun p n None)"

definition openai_api_key_pattern :: re where
  "openai_api_key_pattern = RThen (RExact ''sk-'') (RRun TokenChar 20 None)"

definition keep_key :: "re_match \<Rightarrow> string" where
  "keep_key m = or_empty (snd m) @ ''<REDACTED>''"

definition redaction_patterns :: "(re \<times> (re_match \<Rightarrow> string)) list" where
  "redaction_patterns =
     [(bearer_pattern, \<lambda>m. ''Bearer <REDACTED>''),
      (key_pattern ''auth_req_id'' IdChar 20, keep_key),
      (key_pattern ''actor_token'' DottedToken 1, keep_key),
      (key_pattern ''client_secret'' DottedToken 1, keep_key),
      (key_pattern ''x-internal-auth'' NonSpace 1, keep_key),
      (key_pattern ''password'' NonSpace 1, keep_key),
      (openai_api_key_pattern, \<lambda>m. ''<REDACTED_API_KEY>''),
      (jwt_pattern, \<lambda>m. ''<JWT>'')]"

definition redact :: "string \<Rightarrow> string" where
  "redact text = foldl (\<lambda>t (pattern, replacement). re_sub pattern replacement t) text redaction_patterns"

section \<open>Records and filters\<close>

datatype log_args = NoArgs | TupleArgs "py list" | DictArgs pydict

record log_record =
  rec_msg :: py
  rec_args :: log_args
  rec_request_id :: "string option"

text \<open>\<open>RedactionFilter.filter\<close>; empty arguments are left as they are.\<close>

definition redact_args :: "log_args \<Rightarrow> log_args" where
  "redact_args a =
     (case a of
        NoArgs \<Rightarrow> NoArgs
      | TupleArgs vs \<Rightarrow> TupleArgs (map (\<lambda>v. PStr (redact (py_str v))) vs)
      | DictArgs d \<Rightarrow> DictArgs (map (\<lambda>(k, v). (k, PStr (redact (py_str v)))) d))"

definition redaction_filter :: "log_record \<Rightarrow> log_record" where
  "redaction_filter r = r\<lparr>rec_msg := PStr (redact (py_str (rec_msg r))), rec_args := redact_args (rec_args r)\<rparr>"

text \<open>\<open>CorrelationIdLogFilter.filter\<close>, under the value of the context variable.\<close>

definition correlation_filter :: "string option \<Rightarrow> log_record \<Rightarrow> log_record" where
  "correlation_filter rid r = r\<lparr>rec_request_id := Some (if or_empty rid \<noteq> [] then or_empty rid else ''-'')\<rparr>"

section \<open>Loggers\<close>

datatype log_filter = RedactionFilter | CorrelationIdLogFilter

fun run_filter :: "string option \<Rightarrow> log_filter \<Rightarrow> log_record \<Rightarrow> log_record" where
  "run_filter rid RedactionFilter r = redaction_filter r"
| "run_filter rid CorrelationIdLogFilter r = correlation_filter rid r"

definition run_filters :: "string option \<Rightarrow> log_filter list \<Rightarrow> log_record \<Rightarrow> log_record" where
  "run_filters rid fs r = foldl (\<lambda>r f. run_filter rid f r) r fs"

text \<open>The filters of the named loggers and the handlers (their filters) attached to them; the root is the empty name.\<close>

record log_config =
  lg_filters :: "(string \<times> log_filter list) list"
  lg_handlers :: "(string \<times> log_filter list list) list"
  lg_level :: string
  lg_httpx_level :: "string option"
  lg_installed :: bool

definition filters_at :: "log_config \<Rightarrow> string \<Rightarrow> log_filter list" where
  "filters_at c name = (case map_of (lg_filters c) name of None \<Rightarrow> [] | Some fs \<Rightarrow> fs)"

definition handlers_at :: "log_config \<Rightarrow> string \<Rightarrow> log_filter list list" where
  "handlers_at c name = (case map_of (lg_handlers c) name of None \<Rightarrow> [] | Some hs \<Rightarrow> hs)"

text \<open>\<open>a.b.c\<close>, then \<open>a.b\<close>, \<open>a\<close> and the root.\<close>

fun parent_names :: "string \<Rightarrow> string list" where
  "parent_names [] = [[]]"
| "parent_names (c # cs) = (if c = CHR ''.'' then rev cs # parent_names cs else parent_names cs)"

definition logger_chain :: "string \<Rightarrow> string list" where
  "logger_chain name = (if name = [] then [[]] else name # parent_names (rev name))"

text \<open>The handlers run one after the other on the one record, which their filters may change.\<close>

fun run_handlers :: "string option \<Rightarrow> log_filter list list \<Rightarrow> log_record \<Rightarrow> log_record list" where
  "run_handlers rid [] r = []"
| "run_handlers rid (fs # hs) r = (let r' = run_filters rid fs r in r' # run_handlers rid hs r')"

definition log_emit :: "log_config \<Rightarrow> string option \<Rightarrow> string \<Rightarrow> log_record \<Rightarrow> log_record list" where
  "log_emit c rid name r =
     run_handlers rid (concat (map (handlers_at c) (logger_chain name))) (run_filters rid (filters_at c name) r)"

section \<open>Installation\<close>

text \<open>\<open>getattr(logging, name, INFO)\<close> on the names of levels; another attribute of the module is not considered.\<close>

definition level_name :: "string \<Rightarrow> string" where
  "level_name s = (if s \<in> {''DEBUG'', ''INFO'', ''WARNING'', ''WARN'', ''ERROR'', ''CRITICAL'', ''FATAL'', ''NOTSET''} then s else ''INFO'')"

definition install_logging :: "string option \<Rightarrow> string \<Rightarrow> log_config \<Rightarrow> log_config" where
  "install_logging env_level level c =
     (if lg_installed c then c
      else (let named = py_upper (py_strip (case env_level of None \<Rightarrow> level | Some e \<Rightarrow> e));
                effective = (if named \<noteq> [] then named else level)
            in c\<lparr>lg_handlers := AList.update [] [[CorrelationIdLogFilter]] (lg_handlers c),
                 lg_level := level_name effective,
                 lg_httpx_level := (if effective \<noteq> ''DEBUG'' then Some ''WARNING'' else lg_httpx_level c),
                 lg_installed := True\<rparr>))"

definition install_redaction_filter :: "string \<Rightarrow> log_config \<Rightarrow> log_config" where
  "install_redaction_filter name c =
     c\<lparr>lg_filters := AList.update name (filters_at c name @ [RedactionFilter]) (lg_filters c)\<rparr>"

text \<open>The first lines of \<open>create_app\<close> of the orchestrator, the HR agent and both servers.\<close>

definition service_logging :: "string option \<Rightarrow> log_config \<Rightarrow> log_config" where
  "service_logging env_level c = install_redaction_filter [] (install_logging env_level ''INFO'' c)"

section \<open>The correlation middleware\<close>

definition no_warn_paths :: "string list" where
  "no_warn_paths = [''/'', ''/app.js'', ''/styles.css'', ''/favicon.ico'', ''/healthz'', ''/auth/login'', ''/agent-callback'']"

definition should_warn_on_missing_rid :: "string \<Rightarrow> bool" where
  "should_warn_on_missing_rid path = (path \<notin> set no_warn_paths \<and> \<not> prefix ''/events/'' path)"

text \<open>
  One request: the id in scope while the handler runs, whether a warning is logged, the
  response with the echoed header or the exception, and the context variable afterwards.
\<close>

record 'r correlated =
  co_rid :: string
  co_warned :: bool
  co_response :: "string + ('r \<times> string)"
  co_context_after :: "string option"

definition correlation_dispatch ::
  "string option \<Rightarrow> string \<Rightarrow> string \<Rightarrow> string option \<Rightarrow> (string \<Rightarrow> string + 'r) \<Rightarrow> 'r correlated"
where
  "correlation_dispatch incoming path fresh_uuid context call_next =
     (let generated = (or_empty incoming = []); rid = (if generated then fresh_uuid else or_empty incoming)
      in \<lparr>co_rid = rid, co_warned = (generated \<and> should_warn_on_missing_rid path),
          co_response = map_sum id (\<lambda>r. (r, rid)) (call_next rid), co_context_after = context\<rparr>)"

end
