(* ===== verification/LoggingProps.thy ===== *)
theory LoggingProps
  imports Logging
begin

text \<open>
  The properties of the log redaction: what it removes from a text, and which records it
  does not see.
\<close>

section \<open>Ways of matching\<close>

lemma exact_way: "(rev s @ b, a, g) \<in> set (re_matches (RExact s) (b, s @ a, g))"
  by simp

lemma run_way:
  assumes "lo \<le> length h" "\<forall>c \<in> set h. in_class p c"
  shows "(rev h @ b, a, g) \<in> set (re_matches (RRun p lo None) (b, h @ a, g))"
proof -
  have "length h \<le> length (takeWhile (in_class p) (h @ a))"
    using assms(2) by (simp add: takeWhile_append2)
  then have "length h \<in> set (rev [lo ..< Suc (run_length p None (h @ a))])"
    using assms(1) by (auto simp: run_length_def)
  then have "advance (length h) (b, h @ a, g) \<in> (\<lambda>k. advance k (b, h @ a, g)) ` set (rev [lo ..< Suc (run_length p None (h @ a))])"
    by (rule imageI)
  then show ?thesis by (simp only: re_matches.simps set_map) simp
qed

lemma then_way: "s1 \<in> set (re_matches r s) \<Longrightarrow> s2 \<in> set (re_matches q s1) \<Longrightarrow> s2 \<in> set (re_matches (RThen r q) s)"
  by (cases s) auto

section \<open>Tokens\<close>

text \<open>A compact token: three runs of url-safe characters, the first with its fixed start.\<close>

definition jwt_shaped :: "string \<Rightarrow> bool" where
  "jwt_shaped s \<longleftrightarrow> (\<exists>h p g. s = ''eyJ'' @ h @ ''.'' @ p @ ''.'' @ g \<and> 10 \<le> length h \<and> p \<noteq> [] \<and> g \<noteq> []
     \<and> (\<forall>c \<in> set (h @ p @ g). in_class TokenChar c))"

lemma jwt_matched:
  assumes "jwt_shaped s"
  shows "match_at jwt_pattern b (s @ a) \<noteq> None"
proof -
  obtain h p g where s: "s = ''eyJ'' @ h @ ''.'' @ p @ ''.'' @ g" and l: "10 \<le> length h" "1 \<le> length p" "1 \<le> length g"
    and c: "\<forall>c \<in> set h. in_class TokenChar c" "\<forall>c \<in> set p. in_class TokenChar c" "\<forall>c \<in> set g. in_class TokenChar c"
    using assms by (auto simp: jwt_shaped_def Suc_le_eq)
  have "\<exists>x. x \<in> set (re_matches jwt_pattern (b, ''eyJ'' @ h @ ''.'' @ p @ ''.'' @ g @ a, None))"
    unfolding jwt_pattern_def r_seq.simps r_many_def
    by (rule exI, rule then_way [OF exact_way], rule then_way [OF run_way [OF l(1) c(1)]], rule then_way [OF exact_way],
        rule then_way [OF run_way [OF l(2) c(2)]], rule then_way [OF exact_way], rule run_way [OF l(3) c(3)])
  then have "re_matches jwt_pattern (b, s @ a, None) \<noteq> []" by (auto simp: s)
  then show ?thesis by (auto simp: match_at_def split: list.splits)
qed

lemma jwt_shaped_chars: "jwt_shaped s \<Longrightarrow> CHR ''<'' \<notin> set s \<and> s \<noteq> [] \<and> hd s = CHR ''e''"
proof -
  have no: "\<not> in_class TokenChar (CHR ''<'')" by (simp add: ascii_letter_def is_digit_def)
  assume "jwt_shaped s"
  then obtain h p g where s: "s = ''eyJ'' @ h @ ''.'' @ p @ ''.'' @ g" and c: "\<forall>c \<in> set (h @ p @ g). in_class TokenChar c"
    by (auto simp: jwt_shaped_def)
  have "CHR ''<'' \<notin> set (h @ p @ g)" using c no by blast
  then show ?thesis by (simp add: s)
qed

text \<open>What a substitution whose replacements begin with an angle bracket leaves was there before.\<close>

lemma sub_keeps_prefix:
  assumes "\<And>m. \<exists>w. f m = CHR ''<'' # w" "CHR ''<'' \<notin> set s" "prefix s (sub_from r f 0 b a)"
  shows "prefix s a"
  using assms(2,3)
proof (induction a arbitrary: s b)
  case Nil
  then show ?case by simp
next
  case (Cons c a)
  show ?case
  proof (cases "match_at r b (c # a)")
    case None
    then show ?thesis using Cons by (cases s) auto
  next
    case (Some m)
    obtain x g where m: "m = (x, g)" by force
    obtain w where "f (x, g) = CHR ''<'' # w" using assms(1) by blast
    then show ?thesis using Some m Cons.prems by (cases s) auto
  qed
qed

lemma jwt_sub_clean:
  assumes "suffix u (sub_from jwt_pattern (\<lambda>m. ''<JWT>'') k b a)" "prefix s u" "jwt_shaped s"
  shows False
  using assms(1)
proof (induction jwt_pattern "\<lambda>m::re_match. ''<JWT>''" k b a rule: sub_from.induct)
  case (1 k b)
  then show ?case using assms(2) jwt_shaped_chars [OF assms(3)] by simp
next
  case (2 k b c cs)
  then show ?case by simp
next
  case (3 b c cs)
  show ?case
  proof (cases "match_at jwt_pattern b (c # cs)")
    case None
    let ?rest = "sub_from jwt_pattern (\<lambda>m. ''<JWT>'') 0 (c # b) cs"
    have "suffix u (c # ?rest)" using 3(3) None by simp
    then consider "u = c # ?rest" | "suffix u ?rest" by (auto simp: suffix_Cons)
    then show ?thesis
    proof cases
      case 1
      have pre: "prefix s (sub_from jwt_pattern (\<lambda>m. ''<JWT>'') 0 b (c # cs))" using assms(2) 1 None by simp
      have "prefix s (c # cs)"
        by (rule sub_keeps_prefix [OF _ conjunct1 [OF jwt_shaped_chars [OF assms(3)]] pre]) simp
      then obtain a' where "c # cs = s @ a'" by (auto simp: prefix_def)
      then show ?thesis using jwt_matched [OF assms(3), of b a'] None by simp
    next
      case 2
      then show ?thesis using 3(1) [OF None] by simp
    qed
  next
    case (Some m)
    obtain x g where m: "m = (x, g)" by force
    let ?rest = "sub_from jwt_pattern (\<lambda>m. ''<JWT>'') (length x - 1) (c # b) cs"
    have "suffix u (''<JWT>'' @ ?rest)" using 3(3) Some m by simp
    then have "suffix u ?rest \<or> hd u \<in> set ''<JWT>''" by (auto simp: suffix_Cons)
    moreover have "hd u = CHR ''e''" using assms(2) jwt_shaped_chars [OF assms(3)] by (cases u; cases s) auto
    ultimately have "suffix u ?rest" by auto
    then show ?thesis using 3(2) [OF Some m [symmetric]] by simp
  qed
qed

text \<open>
  C28. Redaction: no part of a redacted text has the shape of a compact token (the fixed start and
  ten or more characters, a dot, a run, a dot, a run, all of the url-safe alphabet), whatever the
  text was and whatever the other patterns made of it.
\<close>

theorem redact_removes_tokens:
  assumes "sublist s (redact text)"
  shows "\<not> jwt_shaped s"
proof
  assume j: "jwt_shaped s"
  obtain t where t: "redact text = sub_from jwt_pattern (\<lambda>m. ''<JWT>'') 0 [] t"
    by (simp add: redact_def redaction_patterns_def re_sub_def)
  obtain p q where "redact text = p @ s @ q" using assms by (auto simp: sublist_def)
  then have "suffix (s @ q) (redact text)" by (auto simp: suffix_def)
  then show False unfolding t using j by (rule jwt_sub_clean [OF _ prefixI [OF refl]])
qed

definition sample_log_text :: string where
  "sample_log_text = ''t eyJ0123456789.p.s''"

lemma sample_redacted: "redact sample_log_text = ''t <JWT>''"
  by code_simp

lemma redact_removes_tokens_witness:
  "redact sample_log_text = ''t <JWT>'' \<and> sublist ''<JWT>'' (redact sample_log_text) \<and> \<not> jwt_shaped ''<JWT>''
    \<and> jwt_shaped ''eyJ0123456789.p.s''"
proof -
  have s: "sublist ''<JWT>'' (redact sample_log_text)"
    unfolding sample_redacted by (simp add: sublist_Cons_right)
  have "jwt_shaped ''eyJ0123456789.p.s''"
    unfolding jwt_shaped_def
    by (rule exI [of _ "''0123456789''"], rule exI [of _ "''p''"], rule exI [of _ "''s''"])
       (simp add: ascii_letter_def is_digit_def)
  then show ?thesis using redact_removes_tokens [OF s] s sample_redacted by simp
qed

text \<open>An opaque bearer token keeps its tail when it has a character outside the class of the pattern.\<close>

lemma bearer_tail_kept:
  "re_sub bearer_pattern (\<lambda>m. ''Bearer <REDACTED>'') ''Bearer ab+secret'' = ''Bearer <REDACTED>+secret''"
  by code_simp

section \<open>The root filter\<close>

definition fresh_logging :: log_config where
  "fresh_logging = \<lparr>lg_filters = [], lg_handlers = [], lg_level = ''WARNING'', lg_httpx_level = None, lg_installed = False\<rparr>"

lemma parent_handlers:
  assumes "\<And>n. n \<noteq> [] \<Longrightarrow> handlers_at c n = []" "s \<noteq> [] \<Longrightarrow> last s \<noteq> CHR ''.''"
  shows "concat (map (handlers_at c) (parent_names s)) = handlers_at c []"
  using assms(2)
proof (induction s)
  case Nil
  then show ?case by simp
next
  case (Cons ch s)
  then show ?case using assms(1) [of "rev s"] by (cases "s = []") auto
qed

lemma service_logging_parts:
  "handlers_at (service_logging env fresh_logging) n = (if n = [] then [[CorrelationIdLogFilter]] else [])"
  "filters_at (service_logging env fresh_logging) n = (if n = [] then [RedactionFilter] else [])"
  by (auto simp: service_logging_def install_redaction_filter_def install_logging_def fresh_logging_def handlers_at_def
      filters_at_def Let_def)

text \<open>
  Logging: with the logging set up as the services set it up, a record of any logger below the
  root is written with its message and arguments as they are; only records logged through the root
  logger itself are redacted.
\<close>

theorem child_records_unredacted:
  assumes "name \<noteq> []" "hd name \<noteq> CHR ''.''"
  shows "log_emit (service_logging env fresh_logging) rid name r = [correlation_filter rid r]
    \<and> log_emit (service_logging env fresh_logging) rid [] r = [correlation_filter rid (redaction_filter r)]"
proof -
  let ?c = "service_logging env fresh_logging"
  have "concat (map (handlers_at ?c) (parent_names (rev name))) = handlers_at ?c []"
    using assms by (intro parent_handlers) (simp_all add: service_logging_parts last_rev)
  then have "concat (map (handlers_at ?c) (logger_chain name)) = [[CorrelationIdLogFilter]]"
    using assms(1) by (simp add: logger_chain_def service_logging_parts)
  moreover have "concat (map (handlers_at ?c) (logger_chain [])) = [[CorrelationIdLogFilter]]"
    by (simp add: logger_chain_def service_logging_parts)
  ultimately show ?thesis using assms(1)
    by (simp add: log_emit_def service_logging_parts run_filters_def Let_def)
qed

lemma child_records_unredacted_witness:
  "log_emit (service_logging None fresh_logging) (Some ''r1'') ''hr_agent.main''
      \<lparr>rec_msg = PStr sample_log_text, rec_args = NoArgs, rec_request_id = None\<rparr>
     = [\<lparr>rec_msg = PStr sample_log_text, rec_args = NoArgs, rec_request_id = Some ''r1''\<rparr>]"
  using child_records_unredacted [of "''hr_agent.main''" None "Some ''r1''"
      "\<lparr>rec_msg = PStr sample_log_text, rec_args = NoArgs, rec_request_id = None\<rparr>"]
  by (simp add: correlation_filter_def)

end
