(* ===== verification/Settings.thy ===== *)
theory Settings
  imports IsClient
begin

text \<open>
  The configuration of the five services from the environment: \<open>config.py\<close> of the HR and the IT
  server, of the two agents and of the orchestrator, each a frozen dataclass with a
  \<open>from_env\<close>.  The files of a pair differ in the prefix of the variables and in defaults,
  which are arguments here.

  Every rejection is a \<open>ValueError\<close>, so the order of the checks does not show.  Reading a
  decimal fraction is a parameter (\<open>None\<close> is a text that is no float; a float that is no
  number, which Python's comparison lets through, is not considered).
\<close>

section \<open>Reading a variable\<close>

type_synonym environ = "(string \<times> string) list"

definition env_get :: "environ \<Rightarrow> string \<Rightarrow> string \<Rightarrow> string" where
  "env_get env name dflt = (case map_of env name of None \<Rightarrow> dflt | Some v \<Rightarrow> v)"

definition value_error :: exn where
  "value_error = EPy ''ValueError''"

definition require_env :: "environ \<Rightarrow> string \<Rightarrow> string res" where
  "require_env env name = (let v = py_strip (env_get env name []) in if v = [] then Inl value_error else Inr v)"

text \<open>\<open>^https?://[^/]+(:\d+)?$\<close>: the class already takes in the port, so what is asked for is
  a scheme and then at least one character, none of them a slash.\<close>

definition bare_url :: "string \<Rightarrow> bool" where
  "bare_url v =
     (let rest = (if prefix ''http://'' v then drop 7 v else if prefix ''https://'' v then drop 8 v else [])
      in rest \<noteq> [] \<and> CHR 0x2F \<notin> set rest)"

definition validate_url :: "string \<Rightarrow> string res" where
  "validate_url v = (if bare_url v then Inr v else Inl value_error)"

definition require_url :: "environ \<Rightarrow> string \<Rightarrow> string res" where
  "require_url env name = (case require_env env name of Inl e \<Rightarrow> Inl e | Inr v \<Rightarrow> validate_url v)"

definition parse_bool :: "string \<Rightarrow> bool" where
  "parse_bool v = (py_lower (py_strip v) \<in> {''true'', ''1'', ''yes''})"

definition parse_frozenset :: "string \<Rightarrow> string set" where
  "parse_frozenset v = set (filter (\<lambda>x. x \<noteq> []) (map py_strip (split_all (CHR '','') v)))"

definition parse_port :: "string \<Rightarrow> int res" where
  "parse_port v =
     (case int_of_string v of None \<Rightarrow> Inl value_error
      | Some n \<Rightarrow> if 1 \<le> n \<and> n \<le> 65535 then Inr n else Inl value_error)"

definition parse_positive_int :: "string \<Rightarrow> int res" where
  "parse_positive_int v =
     (case int_of_string v of None \<Rightarrow> Inl value_error | Some n \<Rightarrow> if n < 1 then Inl value_error else Inr n)"

definition parse_float :: "(string \<Rightarrow> real option) \<Rightarrow> string \<Rightarrow> real \<Rightarrow> real res" where
  "parse_float read_float v minimum =
     (case read_float v of None \<Rightarrow> Inl value_error | Some r \<Rightarrow> if r < minimum then Inl value_error else Inr r)"

text \<open>\<open>s or d\<close> on texts.\<close>

definition or_else :: "string \<Rightarrow> string \<Rightarrow> string" where
  "or_else s d = (if s \<noteq> [] then s else d)"

text \<open>The identity server's address, whether its certificate is checked, the issuer and the key endpoint.\<close>

record is_settings =
  ss_base_url :: string
  ss_insecure_tls :: bool
  ss_issuer :: string
  ss_jwks_url :: string

definition read_is_settings :: "environ \<Rightarrow> string \<Rightarrow> string \<Rightarrow> string \<Rightarrow> is_settings res" where
  "read_is_settings env tls_name issuer_name jwks_name =
     (case require_url env ''WSO2_IS_BASE_URL'' of
        Inl e \<Rightarrow> Inl e
      | Inr base \<Rightarrow>
          Inr \<lparr>ss_base_url = base, ss_insecure_tls = parse_bool (env_get env tls_name ''false''),
               ss_issuer = or_else (py_strip (env_get env issuer_name [])) (base @ ''/oauth2/token''),
               ss_jwks_url = or_else (py_strip (env_get env jwks_name [])) (base @ ''/oauth2/jwks'')\<rparr>)"

definition is_client_config :: "is_settings \<Rightarrow> is_config" where
  "is_client_config s = \<lparr>ic_base_url = ss_base_url s, ic_insecure_tls = ss_insecure_tls s\<rparr>"

definition allowed_origins_of :: "environ \<Rightarrow> string set" where
  "allowed_origins_of env = parse_frozenset (env_get env ''ALLOWED_ORIGINS'' ''http://localhost:3001,http://127.0.0.1:3001'')"

definition shared_secret_of :: "environ \<Rightarrow> string" where
  "shared_secret_of env = py_strip (env_get env ''INTERNAL_REVOKE_SHARED_SECRET'' [])"

section \<open>The MCP servers\<close>

record server_config =
  sc_is :: is_settings
  sc_expected_aud :: string
  sc_trusted_act_subs :: "string set"
  sc_required_scopes :: "string set"
  sc_allowed_origins :: "string set"
  sc_host :: string
  sc_port :: int
  sc_introspect_enabled :: bool
  sc_introspect_url :: string
  sc_internal_revoke_shared_secret :: string

definition server_from_env :: "string \<Rightarrow> string \<Rightarrow> string \<Rightarrow> environ \<Rightarrow> server_config res" where
  "server_from_env p default_scopes default_port env =
     (case (read_is_settings env ''DISABLE_SSL_VERIFY'' ''AUTH_ISSUER'' ''JWKS_URL'', require_env env (p @ ''_EXPECTED_AUD''),
            parse_port (env_get env (p @ ''_PORT'') default_port)) of
        (Inr s, Inr aud, Inr port) \<Rightarrow>
          Inr \<lparr>sc_is = s, sc_expected_aud = aud,
               sc_trusted_act_subs = parse_frozenset (env_get env (p @ ''_TRUSTED_PEER_AGENTS'') []),
               sc_required_scopes = parse_frozenset (env_get env (p @ ''_REQUIRED_SCOPES'') default_scopes),
               sc_allowed_origins = allowed_origins_of env,
               sc_host = py_strip (env_get env (p @ ''_HOST'') ''0.0.0.0''), sc_port = port,
               sc_introspect_enabled = parse_bool (env_get env (p @ ''_INTROSPECT_ENABLED'') ''true''),
               sc_introspect_url = py_strip (env_get env ''WSO2_IS_INTROSPECT_URL'' []),
               sc_internal_revoke_shared_secret = shared_secret_of env\<rparr>
      | _ \<Rightarrow> Inl value_error)"

definition hr_server_from_env :: "environ \<Rightarrow> server_config res" where
  "hr_server_from_env = server_from_env ''HR_SERVER'' ''hr_self_rest'' ''8000''"

definition it_server_from_env :: "environ \<Rightarrow> server_config res" where
  "it_server_from_env = server_from_env ''IT_SERVER'' ''it_assets_read_rest'' ''8004''"

section \<open>The agents\<close>

record agent_config =
  ag_is :: is_settings
  ag_agent :: agent_credentials
  ag_server_url :: string
  ag_trusted_orchestrator_subs :: "string set"
  ag_expected_inbound_aud :: string
  ag_host :: string
  ag_port :: int
  ag_ciba_scope :: string
  ag_max_poll_seconds :: int
  ag_canonical_url :: string
  ag_internal_revoke_shared_secret :: string

definition read_credentials :: "string \<Rightarrow> string \<Rightarrow> environ \<Rightarrow> agent_credentials res" where
  "read_credentials p redirect_uri env =
     (case (require_env env (p @ ''_AGENT_ID''), require_env env (p @ ''_AGENT_SECRET''),
            require_env env (p @ ''_AGENT_OAUTH_CLIENT_ID''), require_env env (p @ ''_AGENT_OAUTH_CLIENT_SECRET'')) of
        (Inr i, Inr s, Inr c, Inr cs) \<Rightarrow>
          Inr \<lparr>ac_agent_id = i, ac_agent_secret = s, ac_oauth_client_id = c, ac_oauth_client_secret = cs,
               ac_redirect_uri = redirect_uri\<rparr>
      | _ \<Rightarrow> Inl value_error)"

text \<open>\<open>int(raw)\<close>, without a lower bound.\<close>

definition parse_any_int :: "string \<Rightarrow> int res" where
  "parse_any_int v = (case int_of_string v of None \<Rightarrow> Inl value_error | Some n \<Rightarrow> Inr n)"

definition agent_from_env :: "string \<Rightarrow> string \<Rightarrow> string \<Rightarrow> string \<Rightarrow> environ \<Rightarrow> agent_config res" where
  "agent_from_env p default_port default_scope default_url env =
     (case (read_is_settings env ''IDP_INSECURE_TLS'' ''WSO2_IS_ISSUER'' ''WSO2_IS_JWKS_URL'',
            read_credentials p (py_strip (env_get env (p @ ''_AGENT_REDIRECT_URI'') ''http://localhost:9999/agent-callback'')) env,
            require_url env (p @ ''_MCP_SERVER_URL''), require_env env (p @ ''_EXPECTED_INBOUND_AUD''),
            parse_port (env_get env (p @ ''_AGENT_PORT'') default_port),
            parse_any_int (env_get env (p @ ''_MAX_POLL_SECONDS'') ''240'')) of
        (Inr s, Inr cr, Inr url, Inr aud, Inr port, Inr secs) \<Rightarrow>
          Inr \<lparr>ag_is = s, ag_agent = cr, ag_server_url = url,
               ag_trusted_orchestrator_subs = parse_frozenset (env_get env (p @ ''_TRUSTED_PEER_AGENTS'') []),
               ag_expected_inbound_aud = aud, ag_host = py_strip (env_get env (p @ ''_AGENT_HOST'') ''0.0.0.0''),
               ag_port = port, ag_ciba_scope = py_strip (env_get env (p @ ''_CIBA_SCOPE'') default_scope),
               ag_max_poll_seconds = secs,
               ag_canonical_url = py_strip (env_get env (p @ ''_AGENT_CANONICAL_URL'') default_url),
               ag_internal_revoke_shared_secret = shared_secret_of env\<rparr>
      | _ \<Rightarrow> Inl value_error)"

definition hr_agent_from_env :: "environ \<Rightarrow> agent_config res" where
  "hr_agent_from_env = agent_from_env ''HR'' ''8001'' ''openid hr_self_rest'' ''http://hr_agent:8001/a2a''"

definition it_agent_from_env :: "environ \<Rightarrow> agent_config res" where
  "it_agent_from_env = agent_from_env ''IT'' ''8002'' ''openid it_assets_read_rest'' ''http://it_agent:8002/a2a''"

section \<open>The orchestrator\<close>

record llm_settings =
  ls_fallback_mode :: string
  ls_base_url :: "string option"
  ls_api_header :: string
  ls_api_key :: "string option"
  ls_model :: string
  ls_timeout_s :: real
  ls_public_timeout_s :: real
  ls_max_output_tokens :: int
  ls_composer_max_output_tokens :: int

definition read_llm_settings :: "(string \<Rightarrow> real option) \<Rightarrow> environ \<Rightarrow> llm_settings res" where
  "read_llm_settings read_float env =
     (let opt = (\<lambda>n. let v = py_strip (env_get env n []) in if v = [] then None else Some v)
      in case (parse_float read_float (or_else (env_get env ''LLM_TIMEOUT_S'' ''8'') ''8'') (1 / 10),
               parse_float read_float (or_else (env_get env ''PUBLIC_CHAT_LLM_TIMEOUT_S'' ''5'') ''5'') (1 / 10),
               parse_positive_int (or_else (env_get env ''LLM_MAX_OUTPUT_TOKENS'' ''256'') ''256''),
               parse_positive_int (or_else (env_get env ''LLM_COMPOSER_MAX_OUTPUT_TOKENS'' ''1024'') ''1024'')) of
           (Inr t, Inr pt, Inr n, Inr m) \<Rightarrow>
             Inr \<lparr>ls_fallback_mode = or_else (py_strip (env_get env ''LLM_FALLBACK_MODE'' ''keyword'')) ''keyword'',
                  ls_base_url = opt ''OPENAI_BASE_URL'',
                  ls_api_header = or_else (py_strip (env_get env ''OPENAI_API_HEADER'' ''api-key'')) ''api-key'',
                  ls_api_key = opt ''OPENAI_API_KEY'',
                  ls_model = or_else (py_strip (env_get env ''OPENAI_MODEL'' ''gpt-4o'')) ''gpt-4o'',
                  ls_timeout_s = t, ls_public_timeout_s = pt, ls_max_output_tokens = n,
                  ls_composer_max_output_tokens = m\<rparr>
         | _ \<Rightarrow> Inl value_error)"

record orchestrator_config =
  oc_is :: is_settings
  oc_mcp_client_id :: string
  oc_mcp_client_secret :: string
  oc_mcp_redirect_uri :: string
  oc_orchestrator_agent :: agent_credentials
  oc_hr_agent_url :: string
  oc_it_agent_url :: string
  oc_hr_server_url :: string
  oc_it_server_url :: string
  oc_hr_agent_oauth_client_id :: string
  oc_it_agent_oauth_client_id :: string
  oc_trusted_specialist_subs :: "string set"
  oc_allowed_origins :: "string set"
  oc_host :: string
  oc_port :: int
  oc_session_cookie_name :: string
  oc_session_ttl_seconds :: int
  oc_internal_revoke_shared_secret :: string
  oc_post_logout_redirect_uri :: string
  oc_llm :: llm_settings
  oc_cookie_secure :: bool

text \<open>The three clients must be distinct (F-15).\<close>

definition distinct_clients :: "string \<Rightarrow> string \<Rightarrow> string \<Rightarrow> bool" where
  "distinct_clients a b c = (length (remdups [a, b, c]) = 3)"

definition orchestrator_from_env :: "(string \<Rightarrow> real option) \<Rightarrow> environ \<Rightarrow> orchestrator_config res" where
  "orchestrator_from_env read_float env =
     (let redirect = py_strip (env_get env ''ORCHESTRATOR_MCP_CLIENT_REDIRECT_URI'' ''http://localhost:8090/agent-callback'')
      in case (read_is_settings env ''IDP_INSECURE_TLS'' ''WSO2_IS_ISSUER'' ''WSO2_IS_JWKS_URL'',
               require_env env ''ORCHESTRATOR_MCP_CLIENT_ID'', require_env env ''ORCHESTRATOR_MCP_CLIENT_SECRET'',
               read_credentials ''ORCHESTRATOR'' redirect env) of
           (Inr s, Inr client_id, Inr client_secret, Inr cr) \<Rightarrow>
            (case (require_url env ''HR_AGENT_URL'', require_url env ''IT_AGENT_URL'',
                   require_env env ''HR_AGENT_OAUTH_CLIENT_ID'', require_env env ''IT_AGENT_OAUTH_CLIENT_ID'') of
               (Inr hr_url, Inr it_url, Inr hr_client, Inr it_client) \<Rightarrow>
                 if \<not> distinct_clients (ac_oauth_client_id cr) hr_client it_client then Inl value_error
                 else
                  (case (parse_port (env_get env ''ORCHESTRATOR_PORT'' ''8080''),
                         parse_port (env_get env ''SESSION_TTL_SECONDS'' ''28800''), read_llm_settings read_float env) of
                     (Inr port, Inr ttl, Inr llm) \<Rightarrow>
                       Inr \<lparr>oc_is = s, oc_mcp_client_id = client_id, oc_mcp_client_secret = client_secret,
                            oc_mcp_redirect_uri = redirect, oc_orchestrator_agent = cr,
                            oc_hr_agent_url = hr_url, oc_it_agent_url = it_url,
                            oc_hr_server_url = py_strip (env_get env ''HR_SERVER_URL'' ''http://hr_server:8000''),
                            oc_it_server_url = py_strip (env_get env ''IT_SERVER_URL'' ''http://it_server:8004''),
                            oc_hr_agent_oauth_client_id = hr_client, oc_it_agent_oauth_client_id = it_client,
                            oc_trusted_specialist_subs = parse_frozenset (env_get env ''TRUSTED_SPECIALIST_SUBS'' []),
                            oc_allowed_origins = allowed_origins_of env,
                            oc_host = py_strip (env_get env ''ORCHESTRATOR_HOST'' ''0.0.0.0''), oc_port = port,
                            oc_session_cookie_name = py_strip (env_get env ''SESSION_COOKIE_NAME'' ''orch_sid''),
                            oc_session_ttl_seconds = ttl, oc_internal_revoke_shared_secret = shared_secret_of env,
                            oc_post_logout_redirect_uri = py_strip (env_get env ''POST_LOGOUT_REDIRECT_URI'' ''http://localhost:8090/''),
                            oc_llm = llm, oc_cookie_secure = parse_bool (env_get env ''COOKIE_SECURE'' ''false'')\<rparr>
                   | _ \<Rightarrow> Inl value_error)
             | _ \<Rightarrow> Inl value_error)
         | _ \<Rightarrow> Inl value_error)"

end
