(* ===== verification/Deployment.thy ===== *)
theory Deployment
  imports Settings A2AServer RestAuth
begin

text \<open>
  The assembly of the two agents and the two servers from their configurations:
  \<open>create_app\<close> of \<open>hr_agent/main.py\<close>, \<open>it_agent/main.py\<close>, \<open>hr_server/main.py\<close> and
  \<open>it_server/main.py\<close>, with the A2A binding of \<open>hr_agent/a2a/handler.py\<close> and
  \<open>it_agent/a2a/handler.py\<close>.

  Objects that are shared (the denylist of a service) appear in each part that holds them.
  HTTP clients, middleware, health checks and instrumentation are left out.
\<close>

section \<open>One worker\<close>

text \<open>\<open>int(os.getenv("UVICORN_WORKERS", "1"))\<close> and the assertion on it.\<close>

definition single_worker :: "environ \<Rightarrow> unit res" where
  "single_worker env =
     (case int_of_string (env_get env ''UVICORN_WORKERS'' ''1'') of
        None \<Rightarrow> Inl value_error
      | Some workers \<Rightarrow> if workers = 1 then Inr () else Inl (EPy ''AssertionError''))"

text \<open>The event route is mounted only with a secret.\<close>

definition mount_events :: "revocation_state \<Rightarrow> string \<Rightarrow> events_router option res" where
  "mount_events state secret =
     (if secret = [] then Inr None
      else case build_internal_events_router state secret of Inl e \<Rightarrow> Inl e | Inr r \<Rightarrow> Inr (Some r))"

section \<open>The MCP servers\<close>

text \<open>\<open>from_config\<close> of the validators.\<close>

definition mcp_config_of :: "server_config \<Rightarrow> mcp_config" where
  "mcp_config_of cfg =
     \<lparr>mc_expected_iss = ss_issuer (sc_is cfg), mc_jwks_url = ss_jwks_url (sc_is cfg), mc_expected_aud = sc_expected_aud cfg,
      mc_trusted_act_subs = sc_trusted_act_subs cfg, mc_required_scopes = sc_required_scopes cfg,
      mc_insecure_tls = ss_insecure_tls (sc_is cfg)\<rparr>"

record server_app =
  sp_validator :: mcp_validator
  sp_rest_validator :: rest_validator
  sp_events :: "events_router option"

definition hr_server_app :: "environ \<Rightarrow> server_config \<Rightarrow> server_app res" where
  "hr_server_app env cfg =
     (case single_worker env of
        Inl e \<Rightarrow> Inl e
      | Inr _ \<Rightarrow>
         (let validator = attach_revocation new_revocation_state (hr_validator_init (mcp_config_of cfg) None)
          in case hr_rest_validator (sc_expected_aud cfg) (ss_issuer (sc_is cfg))
                    (map_of env ''HR_SERVER_REST_VALID_AUDIENCES'') of
               Inl e \<Rightarrow> Inl e
             | Inr rest \<Rightarrow>
                (case mount_events new_revocation_state (sc_internal_revoke_shared_secret cfg) of
                   Inl e \<Rightarrow> Inl e
                 | Inr events \<Rightarrow> Inr \<lparr>sp_validator = validator, sp_rest_validator = rest, sp_events = events\<rparr>)))"

definition it_server_app :: "environ \<Rightarrow> server_config \<Rightarrow> server_app res" where
  "it_server_app env cfg =
     (case single_worker env of
        Inl e \<Rightarrow> Inl e
      | Inr _ \<Rightarrow>
         (let validator = attach_revocation new_revocation_state (it_validator_init (mcp_config_of cfg) None)
          in case it_rest_validator (sc_expected_aud cfg) (ss_issuer (sc_is cfg))
                    (map_of env ''IT_SERVER_REST_VALID_AUDIENCES'') of
               Inl e \<Rightarrow> Inl e
             | Inr rest \<Rightarrow>
                (case mount_events new_revocation_state (sc_internal_revoke_shared_secret cfg) of
                   Inl e \<Rightarrow> Inl e
                 | Inr events \<Rightarrow> Inr \<lparr>sp_validator = validator, sp_rest_validator = rest, sp_events = events\<rparr>)))"

section \<open>The agents\<close>

text \<open>\<open>build_hr_a2a_router\<close> and \<open>build_it_a2a_router\<close>: the configuration of the A2A endpoints.\<close>

definition hr_a2a_config :: "agent_config \<Rightarrow> a2a_config" where
  "hr_a2a_config cfg =
     \<lparr>a2_validator = \<lparr>vc_expected_iss = ss_issuer (ag_is cfg), vc_jwks_url = ss_jwks_url (ag_is cfg),
        vc_expected_aud = Some (ag_expected_inbound_aud cfg), vc_required_scopes = {}, vc_leeway_seconds = 30,
        vc_insecure_tls = ss_insecure_tls (ag_is cfg)\<rparr>,
      a2_trusted_orchestrator_subs = ag_trusted_orchestrator_subs cfg\<rparr>"

definition it_a2a_config :: "agent_config \<Rightarrow> a2a_config" where
  "it_a2a_config cfg =
     \<lparr>a2_validator = \<lparr>vc_expected_iss = ss_issuer (ag_is cfg), vc_jwks_url = ss_jwks_url (ag_is cfg),
        vc_expected_aud = Some (ag_expected_inbound_aud cfg), vc_required_scopes = {}, vc_leeway_seconds = 30,
        vc_insecure_tls = ss_insecure_tls (ag_is cfg)\<rparr>,
      a2_trusted_orchestrator_subs = ag_trusted_orchestrator_subs cfg\<rparr>"

definition agent_ciba_config :: "agent_config \<Rightarrow> ciba_client_config" where
  "agent_ciba_config cfg = (new_ciba_client_config (ss_base_url (ag_is cfg)))\<lparr>cc_insecure_tls := ss_insecure_tls (ag_is cfg)\<rparr>"

text \<open>The HR agent's provider gets credentials built without the configured redirect address.\<close>

definition default_redirect_uri :: string where
  "default_redirect_uri = ''http://localhost:9999/agent-callback''"

definition hr_agent_credentials :: "agent_config \<Rightarrow> agent_credentials" where
  "hr_agent_credentials cfg =
     \<lparr>ac_agent_id = ac_agent_id (ag_agent cfg), ac_agent_secret = ac_agent_secret (ag_agent cfg),
      ac_oauth_client_id = ac_oauth_client_id (ag_agent cfg), ac_oauth_client_secret = ac_oauth_client_secret (ag_agent cfg),
      ac_redirect_uri = default_redirect_uri\<rparr>"

definition it_agent_credentials :: "agent_config \<Rightarrow> agent_credentials" where
  "it_agent_credentials cfg = ag_agent cfg"

definition agent_dispatcher_deps :: "string \<Rightarrow> agent_config \<Rightarrow> dispatcher_deps" where
  "agent_dispatcher_deps label cfg =
     \<lparr>dd_ciba = agent_ciba_config cfg, dd_oauth_client_id = ac_oauth_client_id (ag_agent cfg),
      dd_oauth_client_secret = ac_oauth_client_secret (ag_agent cfg), dd_agent_id = ac_agent_id (ag_agent cfg),
      dd_agent_label = label, dd_ciba_scope = ag_ciba_scope cfg, dd_max_poll_seconds = of_int (ag_max_poll_seconds cfg)\<rparr>"

text \<open>The parts of an agent before its first request.\<close>

record agent_app =
  ap_a2a :: a2a_config
  ap_cache :: jwks_cache
  ap_credentials :: agent_credentials
  ap_deps :: dispatcher_deps
  ap_disp :: dispatcher
  ap_events :: "events_router option"

definition agent_app_of :: "environ \<Rightarrow> agent_config \<Rightarrow> a2a_config \<Rightarrow> agent_credentials \<Rightarrow> string \<Rightarrow> agent_app res" where
  "agent_app_of env cfg a2a creds label =
     (case single_worker env of
        Inl e \<Rightarrow> Inl e
      | Inr _ \<Rightarrow>
         (case mount_events new_revocation_state (ag_internal_revoke_shared_secret cfg) of
            Inl e \<Rightarrow> Inl e
          | Inr events \<Rightarrow>
              Inr \<lparr>ap_a2a = a2a, ap_cache = new_jwks_cache (ss_jwks_url (ag_is cfg)) (ss_insecure_tls (ag_is cfg)),
                   ap_credentials = creds, ap_deps = agent_dispatcher_deps label cfg,
                   ap_disp = disp_attach_revocation new_dispatcher, ap_events = events\<rparr>))"

definition hr_agent_app :: "environ \<Rightarrow> agent_config \<Rightarrow> agent_app res" where
  "hr_agent_app env cfg = agent_app_of env cfg (hr_a2a_config cfg) (hr_agent_credentials cfg) ''HR Agent''"

definition it_agent_app :: "environ \<Rightarrow> agent_config \<Rightarrow> agent_app res" where
  "it_agent_app env cfg = agent_app_of env cfg (it_a2a_config cfg) (it_agent_credentials cfg) ''IT Agent''"

section \<open>Facts\<close>

lemma mount_events_some:
  "secret \<noteq> [] \<Longrightarrow> mount_events st secret = Inr (Some \<lparr>er_state = st, er_shared_secret = secret, er_rate_buckets = []\<rparr>)"
  by (simp add: mount_events_def build_internal_events_router_def)

lemma mounted:
  "hr_server_app env cfg = Inr s \<Longrightarrow> mount_events new_revocation_state (sc_internal_revoke_shared_secret cfg) = Inr (sp_events s)"
  "it_server_app env cfg = Inr s \<Longrightarrow> mount_events new_revocation_state (sc_internal_revoke_shared_secret cfg) = Inr (sp_events s)"
  "agent_app_of env acfg a2a cr l = Inr a \<Longrightarrow> mount_events new_revocation_state (ag_internal_revoke_shared_secret acfg) = Inr (ap_events a)"
  by (auto simp: hr_server_app_def it_server_app_def agent_app_of_def Let_def split: sum.splits)

text \<open>The agent with its event route is the process of \<open>A2AServer\<close>.\<close>

lemma agent_app_process:
  assumes "agent_app_of env cfg a2a cr l = Inr a" "ag_internal_revoke_shared_secret cfg \<noteq> []"
  shows "\<exists>s r. new_agent (ap_cache a) (ag_internal_revoke_shared_secret cfg) = Inr s \<and> ap_events a = Some r
    \<and> ag_events s = r \<and> ag_disp s = ap_disp a"
  using assms by (auto simp: agent_app_of_def new_agent_def mount_events_some build_internal_events_router_def split: sum.splits)

lemma hr_redirect_ignored: "ac_redirect_uri (hr_agent_credentials cfg) = default_redirect_uri"
  by (simp add: hr_agent_credentials_def)

end
