(* ===== verification/OrchestratorApp.thy ===== *)
theory OrchestratorApp
  imports Deployment ModelClient FanOut Login BclReceiver Reports
begin

text \<open>
  The assembly of the orchestrator (\<open>orchestrator/main.py\<close>): the agent registry from the first
  card directory that exists, the optional clients (language model, revocation fan-out), the
  configuration of each router, and the parts that exist only once the lifespan has started and
  are reached through late-binding cells.

  The file system is a parameter: which paths are directories, the \<open>*.json\<close> files of one, and
  the reading of a card.  HTTP clients, middleware, instrumentation and the static files of the
  page are left out.
\<close>

section \<open>The agent registry\<close>

definition agent_cards_candidates :: "string \<Rightarrow> string list" where
  "agent_cards_candidates repo_root =
     [repo_root @ ''/tests/fixtures/agent_cards'', repo_root @ ''/orchestrator/agent_cards'']"

definition resolve_agent_cards_dir :: "(string \<Rightarrow> bool) \<Rightarrow> string \<Rightarrow> environ \<Rightarrow> string option" where
  "resolve_agent_cards_dir is_dir repo_root env =
     (let env_override = py_strip (env_get env ''AGENT_CARDS_DIR'' [])
      in if env_override \<noteq> [] \<and> is_dir env_override then Some env_override
         else List.find is_dir (agent_cards_candidates repo_root))"

record card_files =
  cf_is_dir :: "string \<Rightarrow> bool"
  cf_json_files :: "string \<Rightarrow> string list"
  cf_load :: "string \<Rightarrow> agent_card option"

definition load_agent_registry :: "card_files \<Rightarrow> string \<Rightarrow> environ \<Rightarrow> agent_registry" where
  "load_agent_registry files repo_root env =
     (case resolve_agent_cards_dir (cf_is_dir files) repo_root env of
        None \<Rightarrow> []
      | Some d \<Rightarrow> registry_from_files (cf_load files) (sort (cf_json_files files d)))"

section \<open>The application\<close>

text \<open>The client of \<open>/oauth2/revoke\<close>.\<close>

record revoke_client =
  rk_is_base_url :: string
  rk_client_id :: string
  rk_client_secret :: string
  rk_verify_tls :: bool

record orchestrator_app =
  op_login :: login_config
  op_logout :: logout_config
  op_bcl :: bcl_config
  op_bcl_state :: bcl_state
  op_pending_logins :: pending_logins
  op_registry :: agent_registry
  op_a2a_urls :: "(string \<times> string) list"
  op_fallback_mode :: string
  op_llm_client :: "openai_client option"
  op_public_max_chars :: nat
  op_revoke :: revoke_client
  op_events :: "events_client option"
  op_reports :: reports_deps
  op_pattern_c :: "exchanger option"
  op_reports_http :: bool

definition orchestrator_llm_client :: "bool \<Rightarrow> orchestrator_config \<Rightarrow> openai_client option" where
  "orchestrator_llm_client importable cfg =
     (let ls = oc_llm cfg
      in if ls_fallback_mode ls = ''llm'' \<and> or_empty (ls_api_key ls) \<noteq> [] \<and> importable
         then Some (new_openai_client (or_empty (ls_api_key ls)) (ls_model ls) (ls_timeout_s ls) (ls_max_output_tokens ls)
                      (Some (ls_composer_max_output_tokens ls)) (Some (ls_public_timeout_s ls)) (ls_base_url ls) (ls_api_header ls))
         else None)"

definition fan_out_targets :: "orchestrator_config \<Rightarrow> fan_out_target list" where
  "fan_out_targets cfg =
     [\<lparr>ft_label = ''hr_agent'', ft_url = oc_hr_agent_url cfg\<rparr>, \<lparr>ft_label = ''it_agent'', ft_url = oc_it_agent_url cfg\<rparr>,
      \<lparr>ft_label = ''hr_server'', ft_url = oc_hr_server_url cfg\<rparr>, \<lparr>ft_label = ''it_server'', ft_url = oc_it_server_url cfg\<rparr>]"

definition orchestrator_events_client :: "orchestrator_config \<Rightarrow> events_client option res" where
  "orchestrator_events_client cfg =
     (if oc_internal_revoke_shared_secret cfg = [] then Inr None
      else case new_events_client (fan_out_targets cfg) (oc_internal_revoke_shared_secret cfg) of
             Inl e \<Rightarrow> Inl e
           | Inr c \<Rightarrow> Inr (Some c))"

definition logout_config_of :: "orchestrator_config \<Rightarrow> logout_config" where
  "logout_config_of cfg =
     \<lparr>lc_is_base_url = ss_base_url (oc_is cfg), lc_mcp_client_id = oc_mcp_client_id cfg,
      lc_post_logout_redirect_uri = oc_post_logout_redirect_uri cfg\<rparr>"

definition login_config_of :: "orchestrator_config \<Rightarrow> login_config" where
  "login_config_of cfg =
     \<lparr>lg_is_base_url = ss_base_url (oc_is cfg), lg_mcp_client_id = oc_mcp_client_id cfg,
      lg_mcp_redirect_uri = oc_mcp_redirect_uri cfg, lg_agent_id = ac_agent_id (oc_orchestrator_agent cfg),
      lg_allowed_origins = oc_allowed_origins cfg, lg_cookie_name = oc_session_cookie_name cfg,
      lg_cookie_secure = oc_cookie_secure cfg, lg_session_ttl_seconds = oc_session_ttl_seconds cfg\<rparr>"

definition orchestrator_create_app ::
  "card_files \<Rightarrow> string \<Rightarrow> environ \<Rightarrow> bool \<Rightarrow> orchestrator_config \<Rightarrow> orchestrator_app res"
where
  "orchestrator_create_app files repo_root env importable cfg =
     (case orchestrator_events_client cfg of
        Inl e \<Rightarrow> Inl e
      | Inr events \<Rightarrow>
          Inr \<lparr>op_login = login_config_of cfg, op_logout = logout_config_of cfg,
               op_bcl = \<lparr>bc_expected_iss = ss_issuer (oc_is cfg), bc_expected_aud = oc_mcp_client_id cfg,
                         bc_logout = logout_config_of cfg\<rparr>,
               op_bcl_state = \<lparr>bs_cache = new_jwks_cache (ss_jwks_url (oc_is cfg)) (ss_insecure_tls (oc_is cfg)),
                               bs_seen = new_seen_tokens, bs_store = new_session_store\<rparr>,
               op_pending_logins = [], op_registry = load_agent_registry files repo_root env,
               op_a2a_urls = [(''hr_agent'', oc_hr_agent_url cfg), (''it_agent'', oc_it_agent_url cfg)],
               op_fallback_mode = ls_fallback_mode (oc_llm cfg), op_llm_client = orchestrator_llm_client importable cfg,
               op_public_max_chars = 500,
               op_revoke = \<lparr>rk_is_base_url = ss_base_url (oc_is cfg), rk_client_id = oc_mcp_client_id cfg,
                            rk_client_secret = oc_mcp_client_secret cfg, rk_verify_tls = False\<rparr>,
               op_events = events,
               op_reports = \<lparr>rd_hr_server_url = oc_hr_server_url cfg, rd_it_server_url = oc_it_server_url cfg, rd_wired = True\<rparr>,
               op_pattern_c = None, op_reports_http = False\<rparr>)"

text \<open>The dependencies of the chat routes at one message.\<close>

definition chat_deps_of :: "orchestrator_app \<Rightarrow> chat_model \<Rightarrow> string \<Rightarrow> llm_deps" where
  "chat_deps_of app model today =
     \<lparr>ld_fallback_mode = op_fallback_mode app,
      ld_client = (case op_llm_client app of None \<Rightarrow> None | Some c \<Rightarrow> Some (llm_client_of c model today)),
      ld_rules = default_rules, ld_registry = op_registry app, ld_a2a_agents = map fst (op_a2a_urls app)\<rparr>"

text \<open>The public route: the same model client, mounted at \<open>/public/chat\<close>.\<close>

definition app_public_chat :: "orchestrator_app \<Rightarrow> chat_model \<Rightarrow> py option \<Rightarrow> public_response" where
  "app_public_chat app model body =
     public_chat (case op_llm_client app of None \<Rightarrow> None | Some c \<Rightarrow> Some (openai_compose_public c model))
       (op_public_max_chars app) body"

section \<open>The lifespan and the late-binding cells\<close>

definition orchestrator_exchanger :: "orchestrator_config \<Rightarrow> exchanger" where
  "orchestrator_exchanger cfg =
     \<lparr>ex_is = is_client_config (oc_is cfg), ex_client_id = oc_mcp_client_id cfg, ex_client_secret = oc_mcp_client_secret cfg,
      ex_validator = \<lparr>vc_expected_iss = ss_issuer (oc_is cfg), vc_jwks_url = ss_jwks_url (oc_is cfg), vc_expected_aud = None,
        vc_required_scopes = {}, vc_leeway_seconds = 30, vc_insecure_tls = ss_insecure_tls (oc_is cfg)\<rparr>,
      ex_provider = new_actor_provider,
      ex_cache = new_jwks_cache (ss_jwks_url (oc_is cfg)) (ss_insecure_tls (oc_is cfg))\<rparr>"

definition orchestrator_startup :: "orchestrator_config \<Rightarrow> orchestrator_app \<Rightarrow> orchestrator_app" where
  "orchestrator_startup cfg app = app\<lparr>op_pattern_c := Some (orchestrator_exchanger cfg), op_reports_http := True\<rparr>"

text \<open>\<open>_LateBindingPatternC.exchange\<close> and \<open>_LateBindingHttpClient.get\<close>.\<close>

definition late_exchange ::
  "'k pyjwt \<Rightarrow> exchange_world \<Rightarrow> string \<Rightarrow> string \<Rightarrow> string \<Rightarrow> orchestrator_app \<Rightarrow> pattern_c_result res \<times> orchestrator_app"
where
  "late_exchange J w code code_verifier redirect_uri app =
     (case op_pattern_c app of
        None \<Rightarrow> (Inl (EPy ''RuntimeError''), app)
      | Some real_ex \<Rightarrow>
         (let (r, ex') = pattern_c_exchange J w real_ex code code_verifier redirect_uri
          in (r, app\<lparr>op_pattern_c := Some ex'\<rparr>)))"

definition late_http_get :: "orchestrator_app \<Rightarrow> ('u \<Rightarrow> 'h \<Rightarrow> 'r) \<Rightarrow> 'u \<Rightarrow> 'h \<Rightarrow> 'r res" where
  "late_http_get app get url headers = (if op_reports_http app then Inr (get url headers) else Inl (EPy ''RuntimeError''))"

end
