(* ===== verification/SettingsProps.thy ===== *)
theory SettingsProps
  imports Settings
begin

text \<open>
  What the five configurations guarantee together when all services are started from one
  environment.
\<close>

lemma parse_port_range: "parse_port v = Inr n \<Longrightarrow> 1 \<le> n \<and> n \<le> 65535"
  by (auto simp: parse_port_def split: option.splits if_splits)

lemma distinct_clients_iff: "distinct_clients a b c \<longleftrightarrow> distinct [a, b, c]"
  by (auto simp: distinct_clients_def)

lemma read_is_base:
  "read_is_settings env t i j = Inr s \<Longrightarrow> require_url env ''WSO2_IS_BASE_URL'' = Inr (ss_base_url s)"
  by (auto simp: read_is_settings_def split: sum.splits)

lemma orchestrator_parts:
  assumes "orchestrator_from_env rf env = Inr oc"
  shows "read_is_settings env ''IDP_INSECURE_TLS'' ''WSO2_IS_ISSUER'' ''WSO2_IS_JWKS_URL'' = Inr (oc_is oc)"
    and "require_env env ''HR_AGENT_OAUTH_CLIENT_ID'' = Inr (oc_hr_agent_oauth_client_id oc)"
    and "require_env env ''IT_AGENT_OAUTH_CLIENT_ID'' = Inr (oc_it_agent_oauth_client_id oc)"
    and "distinct [ac_oauth_client_id (oc_orchestrator_agent oc), oc_hr_agent_oauth_client_id oc, oc_it_agent_oauth_client_id oc]"
    and "parse_port (env_get env ''SESSION_TTL_SECONDS'' ''28800'') = Inr (oc_session_ttl_seconds oc)"
    and "oc_internal_revoke_shared_secret oc = shared_secret_of env"
  using assms
  by (auto simp: orchestrator_from_env_def Let_def distinct_clients_iff split: sum.splits prod.splits if_splits)

lemma agent_parts:
  assumes "agent_from_env p port scope url env = Inr a"
  shows "read_is_settings env ''IDP_INSECURE_TLS'' ''WSO2_IS_ISSUER'' ''WSO2_IS_JWKS_URL'' = Inr (ag_is a)"
    and "require_env env (p @ ''_AGENT_OAUTH_CLIENT_ID'') = Inr (ac_oauth_client_id (ag_agent a))"
    and "ag_internal_revoke_shared_secret a = shared_secret_of env"
  using assms by (auto simp: agent_from_env_def read_credentials_def split: sum.splits prod.splits)

lemma server_parts:
  assumes "server_from_env p scopes port env = Inr s"
  shows "read_is_settings env ''DISABLE_SSL_VERIFY'' ''AUTH_ISSUER'' ''JWKS_URL'' = Inr (sc_is s)"
    and "sc_internal_revoke_shared_secret s = shared_secret_of env"
  using assms by (auto simp: server_from_env_def split: sum.splits prod.splits)

text \<open>
  C18. Configuration: when the five services accept one environment, the OAuth clients of the
  orchestrator's agent and of the two specialist agents are pairwise distinct and are the ones the
  orchestrator knows them by; all services use the same identity server and the same secret of the
  revocation fan-out; the orchestrator and the agents agree on issuer, key endpoint and certificate
  check, and so do the two servers.
\<close>

theorem deployment_consistent:
  assumes "orchestrator_from_env rf env = Inr oc"
    and "hr_agent_from_env env = Inr ha" "it_agent_from_env env = Inr ia"
    and "hr_server_from_env env = Inr hs" "it_server_from_env env = Inr its"
  shows "distinct [ac_oauth_client_id (oc_orchestrator_agent oc), ac_oauth_client_id (ag_agent ha), ac_oauth_client_id (ag_agent ia)]
    \<and> oc_hr_agent_oauth_client_id oc = ac_oauth_client_id (ag_agent ha)
    \<and> oc_it_agent_oauth_client_id oc = ac_oauth_client_id (ag_agent ia)
    \<and> {ag_is ha, ag_is ia} = {oc_is oc} \<and> sc_is its = sc_is hs \<and> ss_base_url (sc_is hs) = ss_base_url (oc_is oc)
    \<and> {ag_internal_revoke_shared_secret ha, ag_internal_revoke_shared_secret ia,
        sc_internal_revoke_shared_secret hs, sc_internal_revoke_shared_secret its} = {oc_internal_revoke_shared_secret oc}
    \<and> 1 \<le> oc_session_ttl_seconds oc \<and> oc_session_ttl_seconds oc \<le> 65535"
proof -
  note o = orchestrator_parts [OF assms(1)]
  note h = agent_parts [OF assms(2) [unfolded hr_agent_from_env_def]]
  note i = agent_parts [OF assms(3) [unfolded it_agent_from_env_def]]
  note s = server_parts [OF assms(4) [unfolded hr_server_from_env_def]]
  note t = server_parts [OF assms(5) [unfolded it_server_from_env_def]]
  have ids: "oc_hr_agent_oauth_client_id oc = ac_oauth_client_id (ag_agent ha)"
    "oc_it_agent_oauth_client_id oc = ac_oauth_client_id (ag_agent ia)"
    using o(2,3) h(2) i(2) by simp_all
  have is_same: "ag_is ha = oc_is oc" "ag_is ia = oc_is oc" "sc_is its = sc_is hs"
    using o(1) h(1) i(1) s(1) t(1) by simp_all
  have base: "ss_base_url (sc_is hs) = ss_base_url (oc_is oc)"
    using read_is_base [OF o(1)] read_is_base [OF s(1)] by simp
  show ?thesis
    using o(4) ids is_same base o(6) h(3) i(3) s(2) t(2) parse_port_range [OF o(5)] by simp
qed

lemma strip_no_space: "list_all (\<lambda>c. \<not> py_ws c) v \<Longrightarrow> py_strip v = v"
proof -
  assume v: "list_all (\<lambda>c. \<not> py_ws c) v"
  then have "dropWhile py_ws v = v" by (cases v) auto
  moreover have "dropWhile py_ws (rev v) = rev v"
    using v last_in_set [of v] by (auto simp: dropWhile_eq_self_iff list_all_iff hd_rev)
  ultimately show ?thesis by (simp add: py_strip_def py_lstrip_def py_rstrip_def)
qed

definition sample_environ :: environ where
  "sample_environ =
     [(''WSO2_IS_BASE_URL'', ''https://is:9443''), (''ORCHESTRATOR_MCP_CLIENT_ID'', ''mcp''),
      (''ORCHESTRATOR_MCP_CLIENT_SECRET'', ''s''), (''ORCHESTRATOR_AGENT_ID'', ''a''), (''ORCHESTRATOR_AGENT_SECRET'', ''s''),
      (''ORCHESTRATOR_AGENT_OAUTH_CLIENT_ID'', ''orch''), (''ORCHESTRATOR_AGENT_OAUTH_CLIENT_SECRET'', ''s''),
      (''HR_AGENT_URL'', ''http://hr''), (''IT_AGENT_URL'', ''http://it''), (''HR_AGENT_OAUTH_CLIENT_ID'', ''hr''),
      (''IT_AGENT_OAUTH_CLIENT_ID'', ''it''), (''HR_AGENT_ID'', ''h''), (''HR_AGENT_SECRET'', ''s''),
      (''HR_AGENT_OAUTH_CLIENT_SECRET'', ''s''), (''IT_AGENT_ID'', ''i''), (''IT_AGENT_SECRET'', ''s''),
      (''IT_AGENT_OAUTH_CLIENT_SECRET'', ''s''), (''HR_MCP_SERVER_URL'', ''http://h''), (''IT_MCP_SERVER_URL'', ''http://i''),
      (''HR_EXPECTED_INBOUND_AUD'', ''mcp''), (''IT_EXPECTED_INBOUND_AUD'', ''mcp''), (''HR_SERVER_EXPECTED_AUD'', ''hr''),
      (''IT_SERVER_EXPECTED_AUD'', ''it''), (''INTERNAL_REVOKE_SHARED_SECRET'', ''k'')]"

lemma sample_numbers:
  "parse_port ''8080'' = Inr 8080" "parse_port ''28800'' = Inr 28800" "parse_port ''8000'' = Inr 8000"
  "parse_port ''8004'' = Inr 8004" "parse_port ''8001'' = Inr 8001" "parse_port ''8002'' = Inr 8002"
  "parse_any_int ''240'' = Inr 240" "parse_positive_int ''256'' = Inr 256" "parse_positive_int ''1024'' = Inr 1024"
  by (simp_all add: parse_port_def parse_any_int_def parse_positive_int_def int_of_string_def strip_no_space py_ws_def
      is_digit_def digits_int_def nat_of_digits_def digit_val_def Let_def)

lemma sample_accepted_settings:
  "\<not> isl (hr_server_from_env sample_environ)" "\<not> isl (it_server_from_env sample_environ)"
  "\<not> isl (hr_agent_from_env sample_environ)" "\<not> isl (it_agent_from_env sample_environ)"
  by code_simp+

lemma sample_variables:
  "require_env sample_environ ''ORCHESTRATOR_MCP_CLIENT_ID'' = Inr ''mcp''"
  "require_env sample_environ ''ORCHESTRATOR_MCP_CLIENT_SECRET'' = Inr ''s''"
  "require_env sample_environ ''ORCHESTRATOR_AGENT_ID'' = Inr ''a''"
  "require_env sample_environ ''ORCHESTRATOR_AGENT_SECRET'' = Inr ''s''"
  "require_env sample_environ ''ORCHESTRATOR_AGENT_OAUTH_CLIENT_ID'' = Inr ''orch''"
  "require_env sample_environ ''ORCHESTRATOR_AGENT_OAUTH_CLIENT_SECRET'' = Inr ''s''"
  "require_env sample_environ ''HR_AGENT_OAUTH_CLIENT_ID'' = Inr ''hr''"
  "require_env sample_environ ''IT_AGENT_OAUTH_CLIENT_ID'' = Inr ''it''"
  "require_url sample_environ ''WSO2_IS_BASE_URL'' = Inr ''https://is:9443''"
  "require_url sample_environ ''HR_AGENT_URL'' = Inr ''http://hr''"
  "require_url sample_environ ''IT_AGENT_URL'' = Inr ''http://it''"
  "env_get sample_environ ''ORCHESTRATOR_PORT'' ''8080'' = ''8080''"
  "env_get sample_environ ''SESSION_TTL_SECONDS'' ''28800'' = ''28800''"
  by code_simp+

lemma sample_llm_settings: "\<exists>llm. read_llm_settings (\<lambda>s. Some 8) sample_environ = Inr llm"
  by (simp add: read_llm_settings_def parse_float_def or_else_def env_get_def sample_environ_def sample_numbers Let_def)

lemma sample_orchestrator: "\<not> isl (orchestrator_from_env (\<lambda>s. Some 8) sample_environ)"
proof -
  obtain llm where "read_llm_settings (\<lambda>s. Some 8) sample_environ = Inr llm" using sample_llm_settings by blast
  then show ?thesis
    by (simp add: orchestrator_from_env_def read_is_settings_def read_credentials_def sample_variables sample_numbers
        distinct_clients_def Let_def)
qed

lemma deployment_consistent_witness:
  "\<exists>(oc :: orchestrator_config) (ha :: agent_config) (ia :: agent_config).
     orchestrator_from_env (\<lambda>s. Some 8) sample_environ = Inr oc
     \<and> distinct [ac_oauth_client_id (oc_orchestrator_agent oc), ac_oauth_client_id (ag_agent ha), ac_oauth_client_id (ag_agent ia)]
     \<and> oc_hr_agent_oauth_client_id oc = ac_oauth_client_id (ag_agent ha)"
proof -
  obtain oc ha ia hs its where "orchestrator_from_env (\<lambda>s. Some 8) sample_environ = Inr oc"
    "hr_agent_from_env sample_environ = Inr ha" "it_agent_from_env sample_environ = Inr ia"
    "hr_server_from_env sample_environ = Inr hs" "it_server_from_env sample_environ = Inr its"
    using sample_accepted_settings sample_orchestrator by (metis isl_def obj_sumE)
  with deployment_consistent [OF this] show ?thesis by blast
qed

text \<open>A session of a day is refused, and a port that is no number is not.\<close>

lemma long_session_refused: "parse_port ''86400'' = Inl value_error"
proof -
  have "int_of_string ''86400'' = Some 86400"
    by (simp add: int_of_string_def strip_no_space py_ws_def is_digit_def digits_int_def nat_of_digits_def digit_val_def Let_def)
  then show ?thesis by (simp add: parse_port_def)
qed

lemma port_text_accepted: "validate_url ''http://host:port'' = Inr ''http://host:port''"
  by (simp add: validate_url_def bare_url_def)

end
