(* ===== verification/DeploymentProps.thy ===== *)
theory DeploymentProps
  imports OrchestratorApp SettingsProps
begin

text \<open>
  What the assembled services do together: the revocation fan-out between them, the optional
  parts of the orchestrator, and the parts that are not there before its lifespan has started.
\<close>

section \<open>The fan-out between the services\<close>

definition fresh_router :: "string \<Rightarrow> events_router" where
  "fresh_router secret = \<lparr>er_state = new_revocation_state, er_shared_secret = secret, er_rate_buckets = []\<rparr>"

lemma mount_events_char:
  "mount_events new_revocation_state secret = Inr e \<Longrightarrow> e = (if secret = [] then None else Some (fresh_router secret))"
  by (cases "secret = []") (auto simp: mount_events_some fresh_router_def, simp add: mount_events_def)

lemma fresh_router_accepts:
  assumes "ev_type ev = ''session-revoked''" "secret \<noteq> []"
  shows "\<exists>m r' s'. receive_event cb ev host (Some secret) now (fresh_router secret) s = (Acked m, r', s')"
  using assms
  by (simp add: receive_event_def fresh_router_def rate_limit_check_def new_revocation_state_def new_denylist_def denylist_add_def
      rate_max_def od_keys_def Let_def)

lemma answered_leg:
  assumes "ev_type ev = ''session-revoked''" "secret \<noteq> []"
    and "net t 1 = delivery.Answered now \<or> (\<exists>m. net t 1 = RequestLost m) \<and> net t 2 = delivery.Answered now"
  shows "\<exists>r' s'. call_one (route_post cb host ev secret net t) (fresh_router secret, s) = (None, r', s')
    \<and> denylist_contains (revoked_jtis (er_state r')) (ev_jti ev)"
proof -
  obtain m r' s' where re: "receive_event cb ev host (Some secret) now (fresh_router secret) s = (Acked m, r', s')"
    using fresh_router_accepts [OF assms(1,2), of cb host now s] by blast
  have "call_one (route_post cb host ev secret net t) (fresh_router secret, s) = (None, r', s')"
    using assms(3) by (auto simp: call_one_def route_post_def re leg_error_def)
  then show ?thesis using receive_event_acked [OF re] by blast
qed

lemma orchestrator_app_events:
  assumes "orchestrator_create_app files repo_root env importable cfg = Inr app"
  shows "op_events app = (if oc_internal_revoke_shared_secret cfg = [] then None
    else Some \<lparr>ec_targets = fan_out_targets cfg, ec_shared_secret = oc_internal_revoke_shared_secret cfg,
               ec_retry_once_after_ms = 200, ec_timeout_seconds = 5\<rparr>)"
  using assms by (auto simp: orchestrator_create_app_def orchestrator_events_client_def new_events_client_def split: if_splits)

text \<open>
  C13. Revocation works across the deployment: when the five services start from one environment,
  either none of them takes part in the revocation fan-out, or the orchestrator has a client for
  exactly the two agents and the two servers, and each of these accepts its first event: if one of the
  two attempts is answered (and nothing came of an earlier one), the leg succeeds and the service denies the token id.
\<close>

theorem deployment_revokes:
  assumes "orchestrator_from_env rf env = Inr oc"
    and "hr_agent_from_env env = Inr ha" "it_agent_from_env env = Inr ia"
    and "hr_server_from_env env = Inr hs" "it_server_from_env env = Inr its"
    and "orchestrator_create_app files repo_root env importable oc = Inr app"
    and "hr_agent_app env ha = Inr hap" "it_agent_app env ia = Inr iap"
    and "hr_server_app env hs = Inr hsp" "it_server_app env its = Inr isp"
  shows "case op_events app of
      None \<Rightarrow> {ap_events hap, ap_events iap, sp_events hsp, sp_events isp} = {None}
    | Some ec \<Rightarrow>
        map ft_label (ec_targets ec) = [''hr_agent'', ''it_agent'', ''hr_server'', ''it_server'']
        \<and> (\<forall>e \<in> {ap_events hap, ap_events iap, sp_events hsp, sp_events isp}. \<exists>r. e = Some r
            \<and> (\<forall>cb host ev net t s now. ev_type ev = ''session-revoked''
                 \<and> (net t 1 = delivery.Answered now \<or> (\<exists>m. net t 1 = RequestLost m) \<and> net t 2 = delivery.Answered now) \<longrightarrow>
               (\<exists>r' s'. call_one (route_post cb host ev (ec_shared_secret ec) net t) (r, s) = (None, r', s')
                  \<and> denylist_contains (revoked_jtis (er_state r')) (ev_jti ev))))"
proof -
  let ?k = "oc_internal_revoke_shared_secret oc"
  note o = orchestrator_parts(6) [OF assms(1)]
  have same: "ag_internal_revoke_shared_secret ha = ?k" "ag_internal_revoke_shared_secret ia = ?k"
    "sc_internal_revoke_shared_secret hs = ?k" "sc_internal_revoke_shared_secret its = ?k"
    using o agent_parts(3) [OF assms(2) [unfolded hr_agent_from_env_def]] agent_parts(3) [OF assms(3) [unfolded it_agent_from_env_def]]
      server_parts(2) [OF assms(4) [unfolded hr_server_from_env_def]] server_parts(2) [OF assms(5) [unfolded it_server_from_env_def]]
    by simp_all
  note mounts = mounted(3) [OF assms(7) [unfolded hr_agent_app_def], THEN mount_events_char]
    mounted(3) [OF assms(8) [unfolded it_agent_app_def], THEN mount_events_char]
    mounted(1) [OF assms(9), THEN mount_events_char] mounted(2) [OF assms(10), THEN mount_events_char]
  show ?thesis
  proof (cases "?k = []")
    case True
    then show ?thesis using mounts same orchestrator_app_events [OF assms(6)] by simp
  next
    case False
    then have r: "e = Some (fresh_router ?k)" if "e \<in> {ap_events hap, ap_events iap, sp_events hsp, sp_events isp}" for e
      using mounts same that by auto
    have leg: "\<forall>cb host ev net t s now. ev_type ev = ''session-revoked''
        \<and> (net t 1 = delivery.Answered now \<or> (\<exists>m. net t 1 = RequestLost m) \<and> net t 2 = delivery.Answered now) \<longrightarrow>
      (\<exists>r' s'. call_one (route_post cb host ev ?k net t) (fresh_router ?k, s) = (None, r', s')
         \<and> denylist_contains (revoked_jtis (er_state r')) (ev_jti ev))"
      by (intro allI impI, elim conjE) (rule answered_leg [OF _ False])
    have each: "\<forall>e \<in> {ap_events hap, ap_events iap, sp_events hsp, sp_events isp}. \<exists>r. e = Some r
        \<and> (\<forall>cb host ev net t s now. ev_type ev = ''session-revoked''
             \<and> (net t 1 = delivery.Answered now \<or> (\<exists>m. net t 1 = RequestLost m) \<and> net t 2 = delivery.Answered now) \<longrightarrow>
           (\<exists>r' s'. call_one (route_post cb host ev ?k net t) (r, s) = (None, r', s')
              \<and> denylist_contains (revoked_jtis (er_state r')) (ev_jti ev)))"
      by (intro ballI exI conjI, erule r, rule leg)
    have ec: "op_events app = Some \<lparr>ec_targets = fan_out_targets oc, ec_shared_secret = ?k, ec_retry_once_after_ms = 200, ec_timeout_seconds = 5\<rparr>"
      using False orchestrator_app_events [OF assms(6)] by simp
    show ?thesis unfolding ec option.case events_client.select_convs
      by (rule conjI [OF _ each]) (simp add: fan_out_targets_def)
  qed
qed

lemma sample_single_worker: "single_worker sample_environ = Inr ()"
  by code_simp

lemma mount_events_total: "\<not> isl (mount_events st secret)"
  by (cases "secret = []") (simp_all add: mount_events_def build_internal_events_router_def)

lemma agent_starts: "single_worker env = Inr () \<Longrightarrow> \<not> isl (agent_app_of env cfg a2a cr l)"
  using mount_events_total [of new_revocation_state "ag_internal_revoke_shared_secret cfg"]
  by (auto simp: agent_app_of_def split: sum.split)

lemma servers_start:
  "single_worker env = Inr () \<Longrightarrow> map_of env ''HR_SERVER_REST_VALID_AUDIENCES'' = None \<Longrightarrow> \<not> isl (hr_server_app env cfg)"
  "single_worker env = Inr () \<Longrightarrow> map_of env ''IT_SERVER_REST_VALID_AUDIENCES'' = None \<Longrightarrow> \<not> isl (it_server_app env cfg)"
  using mount_events_total [of new_revocation_state "sc_internal_revoke_shared_secret cfg"]
  by (auto simp: hr_server_app_def it_server_app_def hr_rest_validator_def it_rest_validator_def resolve_rest_audiences_def
      build_audiences_def audience_cap_def py_strip_def py_lstrip_def py_rstrip_def Let_def split: sum.split)

lemma orchestrator_starts: "\<not> isl (orchestrator_create_app files repo_root env importable cfg)"
  by (simp add: orchestrator_create_app_def orchestrator_events_client_def new_events_client_def)

definition no_card_files :: card_files where
  "no_card_files = \<lparr>cf_is_dir = (\<lambda>p. False), cf_json_files = (\<lambda>d. []), cf_load = (\<lambda>f. None)\<rparr>"

definition sample_revocation_event :: revoke_event where
  "sample_revocation_event = event_of ''j1'' ''alice'' 2000 ''user_signed_out''"

lemma sample_secret: "orchestrator_from_env rf sample_environ = Inr oc \<Longrightarrow> oc_internal_revoke_shared_secret oc \<noteq> []"
proof -
  assume "orchestrator_from_env rf sample_environ = Inr oc"
  then have "oc_internal_revoke_shared_secret oc = shared_secret_of sample_environ" by (rule orchestrator_parts(6))
  moreover have "shared_secret_of sample_environ = ''k''" by code_simp
  ultimately show ?thesis by simp
qed

lemma deployment_revokes_witness:
  "\<exists>(app :: orchestrator_app) (ec :: events_client) (isp :: server_app) (r :: events_router) r' s'.
     op_events app = Some ec \<and> sp_events isp = Some r
     \<and> call_one (route_post (None :: unit revoke_callback option) ''host'' sample_revocation_event (ec_shared_secret ec)
          (\<lambda>t n. delivery.Answered 7) \<lparr>ft_label = ''it_server'', ft_url = []\<rparr>) (r, ()) = (None, r', s')
     \<and> denylist_contains (revoked_jtis (er_state r')) ''j1''"
proof -
  obtain oc ha ia hs its where cfgs: "orchestrator_from_env (\<lambda>s. Some 8) sample_environ = Inr oc"
    "hr_agent_from_env sample_environ = Inr ha" "it_agent_from_env sample_environ = Inr ia"
    "hr_server_from_env sample_environ = Inr hs" "it_server_from_env sample_environ = Inr its"
    using sample_accepted_settings sample_orchestrator by (metis isl_def obj_sumE)
  have hr_none: "map_of sample_environ ''HR_SERVER_REST_VALID_AUDIENCES'' = None"
    and it_none: "map_of sample_environ ''IT_SERVER_REST_VALID_AUDIENCES'' = None" by code_simp+
  obtain app where app: "orchestrator_create_app no_card_files [] sample_environ False oc = Inr app"
    using orchestrator_starts by (metis isl_def obj_sumE)
  obtain hap iap where agents: "hr_agent_app sample_environ ha = Inr hap" "it_agent_app sample_environ ia = Inr iap"
    using agent_starts [OF sample_single_worker] unfolding hr_agent_app_def it_agent_app_def by (metis isl_def obj_sumE)
  obtain hsp isp where servers: "hr_server_app sample_environ hs = Inr hsp" "it_server_app sample_environ its = Inr isp"
    using servers_start(1) [OF sample_single_worker hr_none] servers_start(2) [OF sample_single_worker it_none]
    by (metis isl_def obj_sumE)
  obtain ec where ec: "op_events app = Some ec"
    using orchestrator_app_events [OF app] sample_secret [OF cfgs(1)] by simp
  have "\<exists>r. sp_events isp = Some r \<and> (\<forall>(cb :: unit revoke_callback option) host ev net t s now. ev_type ev = ''session-revoked''
      \<and> (net t 1 = delivery.Answered now \<or> (\<exists>m. net t 1 = RequestLost m) \<and> net t 2 = delivery.Answered now) \<longrightarrow>
    (\<exists>r' s'. call_one (route_post cb host ev (ec_shared_secret ec) net t) (r, s) = (None, r', s')
       \<and> denylist_contains (revoked_jtis (er_state r')) (ev_jti ev)))"
    by (rule bspec [OF conjunct2 [OF deployment_revokes [OF cfgs app agents servers, unfolded ec option.case]]]) simp
  then obtain r where r: "sp_events isp = Some r" and leg: "\<forall>(cb :: unit revoke_callback option) host ev net t s now. ev_type ev = ''session-revoked''
      \<and> (net t 1 = delivery.Answered now \<or> (\<exists>m. net t 1 = RequestLost m) \<and> net t 2 = delivery.Answered now) \<longrightarrow>
    (\<exists>r' s'. call_one (route_post cb host ev (ec_shared_secret ec) net t) (r, s) = (None, r', s')
       \<and> denylist_contains (revoked_jtis (er_state r')) (ev_jti ev))"
    by (elim exE conjE)
  have jti: "ev_jti sample_revocation_event = ''j1''" by (simp add: sample_revocation_event_def event_of_def)
  have "\<exists>r' s'. call_one (route_post (None :: unit revoke_callback option) ''host'' sample_revocation_event (ec_shared_secret ec)
        (\<lambda>t n. delivery.Answered 7) \<lparr>ft_label = ''it_server'', ft_url = []\<rparr>) (r, ()) = (None, r', s')
      \<and> denylist_contains (revoked_jtis (er_state r')) (ev_jti sample_revocation_event)"
    by (rule leg [rule_format]) (simp add: sample_revocation_event_def event_of_def)
  then show ?thesis unfolding jti
    by (elim exE) (rule exI [of _ app], rule exI [of _ ec], rule exI [of _ isp], rule exI [of _ r], blast intro: ec r)
qed

section \<open>The optional parts\<close>

text \<open>Without the mode, the key or the library, every message is routed by the keywords.\<close>

lemma keyword_only:
  assumes "orchestrator_create_app files repo_root env importable cfg = Inr app"
    and "ls_fallback_mode (oc_llm cfg) \<noteq> ''llm'' \<or> ls_api_key (oc_llm cfg) = None \<or> \<not> importable"
  shows "resolve_tool_calls (chat_deps_of app model today) m h = keyword_route default_rules m"
  using assms by (auto simp: orchestrator_create_app_def orchestrator_llm_client_def chat_deps_of_def resolve_tool_calls_def use_llm_def Let_def
      split: sum.splits)

text \<open>The client that revokes tokens at the identity server never checks its certificate.\<close>

lemma revoke_tls_unverified:
  "orchestrator_create_app files repo_root env importable cfg = Inr app \<Longrightarrow> \<not> rk_verify_tls (op_revoke app)"
  by (auto simp: orchestrator_create_app_def split: sum.splits)

lemma registry_from_directory: "registry_ok (load_agent_registry files repo_root env)"
  by (simp add: load_agent_registry_def registry_ok_from_files registry_ok_empty split: option.split)

text \<open>A login that comes back before the lifespan has started fails, and nothing changes.\<close>

lemma exchange_before_startup:
  "orchestrator_create_app files repo_root env importable cfg = Inr app \<Longrightarrow> late_exchange J w code v uri app = (Inl (EPy ''RuntimeError''), app)"
  by (auto simp: orchestrator_create_app_def late_exchange_def split: sum.splits)

end
