(* ===== verification/Cascade.thy ===== *)
theory Cascade
  imports ChatProps FanOut Samples
begin

text \<open>
  The logout cascade with its receivers: the fan-outs it orders
  (\<open>orchestrator/auth/logout_handler.py\<close>, step 6) are carried out by the client of
  \<open>orchestrator/agent_registry/revoke_client.py\<close> at the event routes of the services
  (\<open>common/revocation/internal_events.py\<close>), one after the other; and the whole of a chat
  message's log, which the cascade works from.
\<close>

section \<open>The receivers as one provider\<close>

text \<open>A receiver is its event route with the state its callback changes; only the agents have a callback.\<close>

type_synonym 's receivers = "(fan_out_target \<times> events_router \<times> 's) list"

definition service_post ::
  "(fan_out_target \<Rightarrow> 's revoke_callback option) \<Rightarrow> string \<Rightarrow> string \<Rightarrow> (fan_out_target \<Rightarrow> nat \<Rightarrow> delivery) \<Rightarrow> revoke_event
     \<Rightarrow> fan_out_target \<Rightarrow> nat \<Rightarrow> events_router \<times> 's \<Rightarrow> leg_reply \<times> events_router \<times> 's"
where
  "service_post cb host secret net ev t n = route_post (cb t) host ev secret net t n"

interpretation services: revocation_receiver "service_post cb host secret net ev" "router_denies (ev_jti ev)"
  unfolding service_post_def by unfold_locales (auto intro: route_post_denies route_post_keeps)

text \<open>The fan-outs of a trace, in order; the network of each is that of its number.\<close>

fun carry_out ::
  "(fan_out_target \<Rightarrow> 's revoke_callback option) \<Rightarrow> string \<Rightarrow> string \<Rightarrow> (nat \<Rightarrow> fan_out_target \<Rightarrow> nat \<Rightarrow> delivery) \<Rightarrow> nat
     \<Rightarrow> logout_action list \<Rightarrow> 's receivers \<Rightarrow> (string \<times> fan_out_report) list \<times> 's receivers"
where
  "carry_out cb host secret nets i [] rs = ([], rs)"
| "carry_out cb host secret nets i (FanOutJti sid jti user_sub expiry reason # tr) rs =
     (let (rep, rs1) = fan_out (service_post cb host secret (nets i) (event_of jti user_sub expiry reason)) rs;
          (reps, rs2) = carry_out cb host secret nets (Suc i) tr rs1
      in ((jti, rep) # reps, rs2))"
| "carry_out cb host secret nets i (a # tr) rs = carry_out cb host secret nets i tr rs"

section \<open>What a fan-out does to a denylist\<close>

definition denied_ids :: "events_router \<Rightarrow> string set" where
  "denied_ids r = fst ` set (dl_items (revoked_jtis (er_state r)))"

definition sound_denylist :: "events_router \<Rightarrow> bool" where
  "sound_denylist r \<longleftrightarrow> distinct (map fst (dl_items (revoked_jtis (er_state r))))"

definition free_places :: "events_router \<Rightarrow> int" where
  "free_places r = dl_hard_cap (revoked_jtis (er_state r)) - int (card (denied_ids r))"

text \<open>A receiver takes an id: it forgets none and learns at most that one.\<close>

definition takes :: "string \<Rightarrow> events_router \<Rightarrow> events_router \<Rightarrow> bool" where
  "takes j r r' \<longleftrightarrow> sound_denylist r' \<and> dl_hard_cap (revoked_jtis (er_state r')) = dl_hard_cap (revoked_jtis (er_state r))
     \<and> denied_ids r \<subseteq> denied_ids r' \<and> denied_ids r' \<subseteq> insert j (denied_ids r)"

definition has_place :: "string \<Rightarrow> events_router \<Rightarrow> bool" where
  "has_place j r \<longleftrightarrow> sound_denylist r \<and> (0 < free_places r \<or> j \<in> denied_ids r)"

lemma takes_refl: "sound_denylist r \<Longrightarrow> takes j r r"
  by (auto simp: takes_def)

lemma takes_trans: "takes j r r' \<Longrightarrow> takes j r' r'' \<Longrightarrow> takes j r r''"
  by (auto simp: takes_def)

lemma finite_denied: "finite (denied_ids r)"
  by (simp add: denied_ids_def)

lemma takes_place: "takes j r r' \<Longrightarrow> has_place j r \<Longrightarrow> has_place j r'"
proof -
  assume t: "takes j r r'" and h: "has_place j r"
  show ?thesis
  proof (cases "j \<in> denied_ids r'")
    case False
    then have "denied_ids r' = denied_ids r" using t by (auto simp: takes_def)
    then show ?thesis using t h by (auto simp: has_place_def free_places_def takes_def)
  qed (use t in \<open>auto simp: has_place_def takes_def\<close>)
qed

lemma takes_places_left: "takes j r r' \<Longrightarrow> free_places r - 1 \<le> free_places r'"
proof -
  assume t: "takes j r r'"
  then have "card (denied_ids r') \<le> card (insert j (denied_ids r))"
    by (intro card_mono) (auto simp: takes_def finite_denied)
  also have "\<dots> \<le> Suc (card (denied_ids r))" by (simp add: card_insert_if finite_denied)
  finally show ?thesis using t by (simp add: free_places_def takes_def)
qed

lemma add_takes:
  assumes "denylist_add (revoked_jtis (er_state r)) j v = Some d" and "has_place j r" and "revoked_jtis (er_state r') = d"
  shows "takes j r r'"
proof -
  let ?d = "revoked_jtis (er_state r)"
  have dist: "distinct (map fst (dl_items ?d))" using assms(2) by (simp add: has_place_def sound_denylist_def)
  then have len: "card (denied_ids r) = length (dl_items ?d)"
    unfolding denied_ids_def using distinct_card [of "map fst (dl_items ?d)"] by simp
  have items: "dl_items d = fifo_spec (dl_hard_cap ?d) j v (dl_items ?d)"
    by (rule denylist_add_items [OF assms(1) dist])
  have "int (length (dl_items ?d)) < dl_hard_cap ?d \<or> j \<in> denied_ids r"
    using assms(2) len by (auto simp: has_place_def free_places_def)
  then have keys: "fst ` set (dl_items d) = insert j (denied_ids r)"
    unfolding items fifo_spec_def denied_ids_def by (auto simp: keys_delete split: if_splits)
  show ?thesis
    using assms(3) dl.put_distinct [OF assms(1) dist] dl.put_cap [OF assms(1)] keys
    by (auto simp: takes_def sound_denylist_def denied_ids_def)
qed

lemma receive_takes:
  assumes "has_place (ev_jti ev) r" and "receive_event cb ev host auth now r x = (a, r', x')"
  shows "takes (ev_jti ev) r r'"
  using receive_event_cases [OF assms(2)] assms(1)
proof (elim disjE exE conjE)
  fix n i assume "er_state r' = er_state r"
  then show ?thesis using assms(1) by (auto simp: takes_def has_place_def sound_denylist_def denied_ids_def)
next
  fix m d assume "denylist_add (revoked_jtis (er_state r)) (ev_jti ev) (ev_exp ev) = Some d" "revoked_jtis (er_state r') = d"
  then show ?thesis using add_takes assms(1) by blast
qed

lemma post_takes:
  assumes "has_place (ev_jti ev) r" and "service_post cb host secret net ev t n (r, x) = (a, r', x')"
  shows "takes (ev_jti ev) r r'"
  using assms
  by (auto simp: service_post_def route_post_def has_place_def takes_refl split: delivery.splits prod.splits
      dest: receive_takes [OF assms(1)])

lemma leg_takes:
  assumes "has_place (ev_jti ev) r" and "call_one (service_post cb host secret net ev t) (r, x) = (e, r', x')"
  shows "takes (ev_jti ev) r r'"
proof -
  obtain a1 r1 x1 where p1: "service_post cb host secret net ev t 1 (r, x) = (a1, r1, x1)" by (metis prod.collapse)
  note t1 = post_takes [OF assms(1) p1]
  obtain a2 r2 x2 where p2: "service_post cb host secret net ev t 2 (r1, x1) = (a2, r2, x2)" by (metis prod.collapse)
  note t2 = post_takes [OF takes_place [OF t1 assms(1)] p2]
  show ?thesis
    using assms(2) t1 takes_trans [OF t1 t2]
    by (auto simp: call_one_def Let_def p1 [unfolded One_nat_def] p2 split: option.splits)
qed

section \<open>What a run of fan-outs does\<close>

definition places :: "nat \<Rightarrow> 's receivers \<Rightarrow> bool" where
  "places n rs \<longleftrightarrow> (\<forall>(t, r, x) \<in> set rs. sound_denylist r \<and> int n \<le> free_places r)"

text \<open>The same receivers, none of which forgot an id.\<close>

definition kept :: "'s receivers \<Rightarrow> 's receivers \<Rightarrow> bool" where
  "kept rs rs' \<longleftrightarrow> list_all2 (\<lambda>(t, r, x) (t', r', x'). t' = t \<and> denied_ids r \<subseteq> denied_ids r') rs rs'"

lemma kept_simps [simp]:
  "kept [] []" "kept ((t, r, x) # rs) ((t', r', x') # rs') \<longleftrightarrow> t' = t \<and> denied_ids r \<subseteq> denied_ids r' \<and> kept rs rs'"
  by (simp_all add: kept_def)

lemma places_simps [simp]:
  "places n []" "places n ((t, r, x) # rs) \<longleftrightarrow> sound_denylist r \<and> int n \<le> free_places r \<and> places n rs"
  by (simp_all add: places_def)

lemma kept_refl: "kept rs rs"
  by (auto simp: kept_def intro: list_all2_refl)

lemma kept_trans: "kept rs rs' \<Longrightarrow> kept rs' rs'' \<Longrightarrow> kept rs rs''"
  unfolding kept_def by (erule (1) list_all2_trans [rotated]) auto

lemma kept_member:
  assumes "kept rs rs'" "(t, r, x) \<in> set rs"
  shows "\<exists>r' x'. (t, r', x') \<in> set rs' \<and> denied_ids r \<subseteq> denied_ids r'"
proof -
  obtain i where i: "i < length rs" "rs ! i = (t, r, x)" using assms(2) by (auto simp: in_set_conv_nth)
  obtain t' r' x' where n: "rs' ! i = (t', r', x')" by (metis prod.collapse)
  have "i < length rs'" using assms(1) i list_all2_lengthD unfolding kept_def by fastforce
  moreover have "t' = t \<and> denied_ids r \<subseteq> denied_ids r'"
    using list_all2_nthD [OF assms(1) [unfolded kept_def] i(1)] by (simp add: i(2) n)
  ultimately show ?thesis using n nth_mem by metis
qed

lemma fan_out_places:
  assumes "places (Suc n) rs"
  shows "places n (snd (fan_out (service_post cb host secret net ev) rs)) \<and> kept rs (snd (fan_out (service_post cb host secret net ev) rs))"
proof -
  let ?post = "service_post cb host secret net ev"
  have "places n (snd (gather_legs ?post rs)) \<and> kept rs (snd (gather_legs ?post rs))"
    using assms
  proof (induction rs rule: list.induct)
    case Nil
    then show ?case by simp
  next
    case (Cons p rs)
    obtain t r x where p: "p = (t, r, x)" by (cases p) auto
    obtain e r' x' where c: "call_one (?post t) (r, x) = (e, r', x')" by (metis prod.collapse)
    have "has_place (ev_jti ev) r" using Cons.prems by (simp add: p has_place_def)
    then have tk: "takes (ev_jti ev) r r'" using c by (rule leg_takes)
    then have "sound_denylist r'" "denied_ids r \<subseteq> denied_ids r'" by (auto simp: takes_def)
    moreover have "int n \<le> free_places r'" using takes_places_left [OF tk] Cons.prems by (simp add: p)
    moreover have "places (Suc n) rs" using Cons.prems by (simp add: p)
    moreover obtain es rs' where "gather_legs ?post rs = (es, rs')" by force
    ultimately show ?case using Cons.IH c by (simp add: p Let_def)
  qed
  then show ?thesis by (simp add: fan_out_def Let_def case_prod_beta)
qed

definition ordered :: "logout_action list \<Rightarrow> string list" where
  "ordered tr = List.map_filter (\<lambda>a. case a of FanOutJti sid jti user_sub expiry reason \<Rightarrow> Some jti | _ \<Rightarrow> None) tr"

lemma ordered_simps [simp]:
  "ordered [] = []" "ordered (FanOutJti sid jti user_sub expiry reason # tr) = jti # ordered tr"
  "ordered (SetTerminating sid # tr) = ordered tr" "ordered (SetCancelEvent sid a # tr) = ordered tr"
  "ordered (RevokeTokenA sid tok # tr) = ordered tr" "ordered (PushSse sid e # tr) = ordered tr"
  "ordered (RecordReason u reason # tr) = ordered tr" "ordered (DropSession sid # tr) = ordered tr"
  by (simp_all add: ordered_def List.map_filter_simps)

lemma ordered_append: "ordered (xs @ ys) = ordered xs @ ordered ys"
  by (simp add: ordered_def List.map_filter_def)

lemma carry_out_done:
  assumes "carry_out cb host secret nets i tr rs = (reps, rs')" "places (length (ordered tr)) rs"
  shows "map fst reps = ordered tr \<and> kept rs rs'
    \<and> (\<forall>(jti, rep) \<in> set reps. \<forall>l \<in> set (successes rep). \<exists>t r x. (t, r, x) \<in> set rs' \<and> ft_label t = l \<and> jti \<in> denied_ids r)"
  using assms
proof (induction cb host secret nets i tr rs arbitrary: reps rs' rule: carry_out.induct)
  case (1 cb host secret nets i rs)
  then show ?case by (simp add: kept_refl)
next
  case (2 cb host secret nets i sid jti user_sub expiry reason tr rs)
  let ?ev = "event_of jti user_sub expiry reason"
  obtain rep rs1 where f: "fan_out (service_post cb host secret (nets i) ?ev) rs = (rep, rs1)" by force
  obtain reps2 where c: "carry_out cb host secret nets (Suc i) tr rs1 = (reps2, rs')" and reps: "reps = (jti, rep) # reps2"
    using 2(2) f by (auto simp: Let_def split: prod.splits)
  have p: "places (length (ordered tr)) rs1 \<and> kept rs rs1"
    using fan_out_places [of "length (ordered tr)" rs cb host secret "nets i" ?ev] 2(3) f by simp
  note ih = 2(1) [OF f [symmetric] refl c conjunct1 [OF p]]
  have "\<exists>t r x. (t, r, x) \<in> set rs' \<and> ft_label t = l \<and> jti \<in> denied_ids r" if l: "l \<in> set (successes rep)" for l
  proof -
    obtain t s where "ft_label t = l" "(t, s) \<in> set rs1" "router_denies (ev_jti ?ev) s"
      using services.fan_out_success [OF f l] by blast
    then obtain r x where "ft_label t = l" "(t, r, x) \<in> set rs1" and d: "router_denies jti (r, x)"
      by (cases s) (auto simp: event_of_def)
    moreover have "jti \<in> denied_ids r" using d by (simp add: router_denies_def denied_ids_def denylist_contains_iff)
    ultimately show ?thesis using kept_member [of rs1 rs' t r x] ih by blast
  qed
  then show ?case using ih p kept_trans [of rs rs1 rs'] by (auto simp: reps)
qed simp_all

end
