(* ===== verification/EndToEnd.thy ===== *)
theory EndToEnd
  imports Cascade RevocationProps
begin

text \<open>
  From the chat to the refusal: the tokens a chat message obtained
  (\<open>orchestrator/chat/routes.py\<close>) are in the log the logout cascade works from
  (\<open>orchestrator/auth/logout_handler.py\<close>), its fan-outs reach the receivers, and a receiver
  that answered makes the validators that share its denylist refuse them.
\<close>

section \<open>The log of a whole message\<close>

definition others_keep :: "chat_world \<Rightarrow> bool" where
  "others_keep w \<longleftrightarrow> keeps_identity (cw_during_compose w)
     \<and> (\<forall>i. keeps_identity (cw_during_send w i) \<and> keeps_identity (cw_during_await w i))"

text \<open>The session is the same one, and its log has forgotten nothing.\<close>

definition same_session :: "session \<Rightarrow> session \<Rightarrow> bool" where
  "same_session s s' \<longleftrightarrow> s_session_id s' = s_session_id s \<and> s_user_sub s' = s_user_sub s
     \<and> set (s_completed_ciba_log s) \<subseteq> set (s_completed_ciba_log s')"

lemma same_session_trans: "same_session s s' \<Longrightarrow> same_session s' s'' \<Longrightarrow> same_session s s''"
  by (auto simp: same_session_def)

lemma chat_owner_simps [simp]:
  "s_user_sub (publish e s) = s_user_sub s" "s_user_sub (register_pending a p s) = s_user_sub s"
  "s_user_sub (ack_pending a s) = s_user_sub s" "s_user_sub (pop_pending a s) = s_user_sub s"
  "s_user_sub (log_issued r s) = s_user_sub s" "s_session_id (pop_pending a s) = s_session_id s"
  "s_session_id (log_issued r s) = s_session_id s" "s_user_sub (record_chat_turn role t s) = s_user_sub s"
  "s_completed_ciba_log (record_chat_turn role t s) = s_completed_ciba_log s"
  by (simp_all add: publish_def register_pending_def ack_pending_def pop_pending_def log_issued_def record_chat_turn_def Let_def)

lemma await_consent_owner:
  assumes "keeps_identity (cw_during_await w i)" and "await_consent w rid i tc label c st = (x, st')"
  shows "s_session_id (fs_session st') = s_session_id (fs_session st) \<and> s_user_sub (fs_session st') = s_user_sub (fs_session st)"
  using assms
  by (auto simp: await_consent_def Let_def keeps_identity_def consent_outcome_def
      split: sum.splits message_response.splits option.splits prod.splits dest!: record_result_session)

lemma fan_tool_owner:
  assumes "keeps_identity (cw_during_send w i)" "keeps_identity (cw_during_await w i)"
    and "fan_tool deps w rid n i tc st = (x, st')"
  shows "same_session (fs_session st) (fs_session st')"
proof -
  have "s_session_id (fs_session st') = s_session_id (fs_session st) \<and> s_user_sub (fs_session st') = s_user_sub (fs_session st)"
    using assms(3) assms(1) [unfolded keeps_identity_def]
    by (auto simp: fan_tool_def send_tool_def Let_def split: option.splits if_splits sum.splits message_response.splits
        dest!: record_result_session await_consent_owner [OF assms(2)])
  then show ?thesis using consented_token_logged [OF assms] by (auto simp: same_session_def)
qed

lemma fan_tools_owner:
  assumes "others_keep w" "fan_tools deps w rid n i tcs st = (x, st')"
  shows "same_session (fs_session st) (fs_session st')"
  using assms(2)
proof (induction tcs arbitrary: i st)
  case Nil
  then show ?case by (simp add: same_session_def)
next
  case (Cons tc tcs)
  obtain y st1 where t: "fan_tool deps w rid n i tc st = (y, st1)" by force
  have o: "same_session (fs_session st) (fs_session st1)"
    using assms(1) t by (intro fan_tool_owner [of w i deps rid n tc st y st1]) (auto simp: others_keep_def)
  show ?case
    using Cons.prems t o Cons.IH [of "Suc i" st1] same_session_trans [OF o] by (cases y) auto
qed

lemma fan_tools_logs:
  assumes "others_keep w" "k < length tcs" "fan_tools deps w rid n i (take k tcs) st = (None, stk)"
    and "fan_tools deps w rid n i tcs st = (x, st')"
  shows "set (handed_over deps w (i + k) (tcs ! k) (fs_session stk)) \<subseteq> set (s_completed_ciba_log (fs_session st'))"
  using assms(2-4)
proof (induction k arbitrary: tcs i st)
  case 0
  then obtain tc rest where tcs: "tcs = tc # rest" by (cases tcs) auto
  obtain y st1 where t: "fan_tool deps w rid n i tc st = (y, st1)" by force
  have "set (handed_over deps w i tc (fs_session st)) \<subseteq> set (s_completed_ciba_log (fs_session st1))"
    using assms(1) consented_token_logged [of w i deps rid n tc st y st1] t by (simp add: others_keep_def)
  moreover have "same_session (fs_session st1) (fs_session st')"
    using 0 t fan_tools_owner [OF assms(1), of deps rid n "Suc i" rest st1 x st'] by (cases y) (auto simp: tcs same_session_def)
  ultimately show ?case using 0 by (auto simp: tcs same_session_def)
next
  case (Suc k)
  then obtain tc rest where tcs: "tcs = tc # rest" by (cases tcs) auto
  obtain y st1 where t: "fan_tool deps w rid n i tc st = (y, st1)" by force
  then have "y = None" using Suc.prems(2) by (cases y) (auto simp: tcs)
  then show ?case using Suc.IH [of rest "Suc i" st1] Suc.prems t by (simp add: tcs)
qed

lemma run_logs:
  assumes "others_keep w" "run_serial_fan_out deps w s calls rid m h = (x, s')" "k < length calls"
    and "fan_tools deps w rid (length calls) 0 (take k calls) \<lparr>fs_session = s, fs_outputs = [], fs_outcomes = []\<rparr> = (None, stk)"
  shows "set (handed_over deps w k (calls ! k) (fs_session stk)) \<subseteq> set (s_completed_ciba_log s') \<and> same_session s s'"
proof -
  let ?st0 = "\<lparr>fs_session = s, fs_outputs = [], fs_outcomes = []\<rparr>"
  obtain y st where t: "fan_tools deps w rid (length calls) 0 calls ?st0 = (y, st)" by force
  have f: "same_session (fs_session st) s'"
    using assms(1,2) t
    by (auto simp: run_serial_fan_out_def finish_fan_out_def Let_def same_session_def others_keep_def keeps_identity_def
        split: option.splits sum.splits if_splits)
  from fan_tools_logs [OF assms(1,3,4) t] fan_tools_owner [OF assms(1) t] f show ?thesis
    by (auto simp: same_session_def)
qed

section \<open>The fan-outs of a cascade\<close>

definition logged_ids :: "session list \<Rightarrow> string list" where
  "logged_ids ss = concat (map (\<lambda>s. map tr_jti (s_completed_ciba_log s)) ss)"

lemma ordered_fan_out_log: "ordered (fan_out_log u reason s) = map tr_jti (s_completed_ciba_log s)"
  by (simp add: ordered_def fan_out_log_def List.map_filter_def comp_def filter_map)

lemma ordered_others: "ordered (map (\<lambda>(k, p). SetCancelEvent x (f p)) ps) = []" "ordered (map (\<lambda>s. SetTerminating (g s)) ss) = []"
  by (auto simp: ordered_def List.map_filter_def filter_empty_conv)

lemma ordered_session_trace:
  "le_has_client env \<Longrightarrow> ordered (session_trace env u rid reason s) = map tr_jti (s_completed_ciba_log s)"
  by (simp add: session_trace_def ordered_append ordered_fan_out_log ordered_others)

lemma cascade_orders_log:
  assumes "store_ok st" "le_has_client env" "logout_execute cfg env initiator rid reason st = (Inr res, st', tr)"
  shows "ordered tr = logged_ids (find_sessions_for_user (s_user_sub initiator) st)"
proof -
  have c: "ordered (concat (map (session_trace env u rid reason) (map mark_terminating ss))) = logged_ids ss" for u ss
    by (induction ss) (simp_all add: ordered_append ordered_session_trace assms(2) logged_ids_def mark_terminating_def)
  show ?thesis
    unfolding execute_locked_done(2) [OF assms(1) assms(3) [unfolded logout_execute_def]] ordered_append ordered_others c
    by simp
qed

section \<open>The tokens of a chat message after the logout\<close>

text \<open>
  C1. A logout reaches the tokens of the chat: whatever token a call of a chat message obtained
  by a consent, also when the message failed later, a completed logout of the session's user in
  any later store that holds the session orders its fan-out, and each receiver the fan-out
  reports as a success ends up, after the whole cascade, refusing the token at the HR and the IT
  validator, provided that every denylist has a free place for each logged token.
\<close>

theorem logout_revokes_chat_tokens:
  assumes "others_keep w" "run_serial_fan_out deps w s calls rid m h = (x, s')" "k < length calls"
    and "fan_tools deps w rid (length calls) 0 (take k calls) \<lparr>fs_session = s, fs_outputs = [], fs_outcomes = []\<rparr> = (None, stk)"
    and "t \<in> set (handed_over deps w k (calls ! k) (fs_session stk))" "tr_jti t \<noteq> []"
    and "store_ok st" "map_of (ss_sessions st) (s_session_id s) = Some s'" "s_user_sub initiator = s_user_sub s"
    and "le_has_client env" "logout_execute cfg env initiator rid' reason st = (Inr res, st', tr)"
    and "places (length (logged_ids (find_sessions_for_user (s_user_sub s) st))) rs"
    and "carry_out cb host secret nets i tr rs = (reps, rs')"
  shows "\<exists>rep. (tr_jti t, rep) \<in> set reps \<and> (\<forall>l \<in> set (successes rep).
     \<exists>tgt router y. (tgt, router, y) \<in> set rs' \<and> ft_label tgt = l
       \<and> (\<forall>J net mt now tok req v c v'. mv_revocation v = Some (er_state router) \<longrightarrow> c_jti c = PStr (tr_jti t) \<longrightarrow>
            hr_validate_token J net mt now tok req v \<noteq> (Inr c, v') \<and> it_validate_token J net mt now tok req v \<noteq> (Inr c, v')))"
proof -
  from run_logs [OF assms(1-4)] assms(5) have t: "t \<in> set (s_completed_ciba_log s')" and u: "s_user_sub s' = s_user_sub s"
    by (auto simp: same_session_def)
  have "s' \<in> set (find_sessions_for_user (s_user_sub s) st)"
    using map_of_SomeD [OF assms(8)] u by (auto simp: find_sessions_for_user_iff)
  then have l: "tr_jti t \<in> set (logged_ids (find_sessions_for_user (s_user_sub s) st))" using t by (auto simp: logged_ids_def)
  have o: "ordered tr = logged_ids (find_sessions_for_user (s_user_sub s) st)"
    using cascade_orders_log [OF assms(7,10,11)] assms(9) by simp
  have p: "places (length (ordered tr)) rs" using assms(12) by (simp only: o)
  note cd = carry_out_done [OF assms(13) p]
  note m = conjunct1 [OF cd] and c = conjunct2 [OF conjunct2 [OF cd]]
  have "tr_jti t \<in> set (map fst reps)" unfolding m o by (rule l)
  then obtain rep where rep: "(tr_jti t, rep) \<in> set reps" by auto
  have d: "hr_validate_token J net mt now tok req v \<noteq> (Inr c, v') \<and> it_validate_token J net mt now tok req v \<noteq> (Inr c, v')"
    if "tr_jti t \<in> denied_ids router" "mv_revocation v = Some (er_state router)" "c_jti c = PStr (tr_jti t)" for J net mt now tok req v c v' router
    using that hr_validate_token_denied [OF that(2,3) assms(6)]
    by (simp add: it_hr_validate_token denied_ids_def denylist_contains_iff)
  have "\<exists>tgt router y. (tgt, router, y) \<in> set rs' \<and> ft_label tgt = l \<and> tr_jti t \<in> denied_ids router"
    if "l \<in> set (successes rep)" for l
    using bspec [OF c rep] that by blast
  then show ?thesis using rep d by blast
qed

text \<open>One message, its logout, and one receiver whose first request is lost.\<close>

definition sample_short_world :: chat_world where
  "sample_short_world = sample_chat_world\<lparr>cw_await := \<lambda>i a tok q. Inr (ResultReply (sample_applied\<lparr>rp_token_exp := 2000\<rparr>))\<rparr>"

definition sample_left_store :: "session \<Rightarrow> session_store" where
  "sample_left_store s = new_session_store\<lparr>ss_sessions := [(''sid'', s)]\<rparr>"

definition sample_record :: issued_token_record where
  "sample_record = \<lparr>tr_session_id = ''sid'', tr_agent_id = ''hr_agent'', tr_jti = ''j1'', tr_exp = 2000, tr_iat = 1000, tr_auth_req_id = ''q1''\<rparr>"

lemma sample_short_keep: "others_keep sample_short_world"
  by (simp add: others_keep_def keeps_identity_def sample_short_world_def sample_chat_world_def)

lemma sample_handed: "handed_over sample_llm_deps sample_short_world 0 sample_chat_call sample_chat_session = [sample_record]"
proof -
  have "registry_get (ld_registry sample_llm_deps) ''hr_agent'' = Some sample_card"
    by (simp add: sample_llm_deps_def registry_get_add sample_card_def)
  then show ?thesis
    by (simp add: handed_over_def sample_chat_call_def sample_short_world_def sample_chat_world_def Let_def issued_record_def
        sample_applied_def sample_consent_def sample_chat_session_def session_create_def sample_llm_deps_def sample_record_def)
qed

lemma sample_chat_run:
  "\<exists>x s'. run_serial_fan_out sample_llm_deps sample_short_world sample_chat_session [sample_chat_call] ''r1'' ''hi'' [] = (x, s')
     \<and> s_completed_ciba_log s' = [sample_record] \<and> s_session_id s' = ''sid'' \<and> s_user_sub s' = ''alice''"
proof -
  let ?st0 = "\<lparr>fs_session = sample_chat_session, fs_outputs = [], fs_outcomes = []\<rparr>"
  obtain y st1 where t: "fan_tool sample_llm_deps sample_short_world ''r1'' 1 0 sample_chat_call ?st0 = (y, st1)" by force
  note k = sample_short_keep [unfolded others_keep_def]
  have s0: "s_completed_ciba_log sample_chat_session = []" "s_session_id sample_chat_session = ''sid''" "s_user_sub sample_chat_session = ''alice''"
    by (simp_all add: sample_chat_session_def session_create_def Let_def)
  have "s_completed_ciba_log (fs_session st1) = [sample_record]"
    using consented_token_logged [OF _ _ t] k s0 sample_handed by simp
  moreover have "s_session_id (fs_session st1) = ''sid''" "s_user_sub (fs_session st1) = ''alice''"
    using fan_tool_owner [OF _ _ t] k s0 by (simp_all add: same_session_def)
  moreover obtain x s' where run: "run_serial_fan_out sample_llm_deps sample_short_world sample_chat_session [sample_chat_call] ''r1'' ''hi'' []
      = (x, s')" by force
  ultimately show ?thesis
    using t k by (auto simp: run_serial_fan_out_def finish_fan_out_def keeps_identity_def Let_def split: option.splits sum.splits)
qed

lemma carry_out_cancels:
  "carry_out cb host secret nets i (map (\<lambda>(k, p). SetCancelEvent x (f p)) ps @ tr) rs = carry_out cb host secret nets i tr rs"
  by (induction ps) auto

lemma sample_service_fan_out:
  "fan_out (service_post (\<lambda>_. None) ''host'' ''s3cret'' sample_delivery (event_of ''j1'' ''alice'' 2000 ''user_signed_out''))
     [(sample_target, sample_router, ())]
   = (\<lparr>successes = [''hr_server''], failures = []\<rparr>,
      [(sample_target, sample_router\<lparr>er_state := \<lparr>revoked_jtis = denied_until 2000\<rparr>, er_rate_buckets := [(''host'', [7])]\<rparr>, ())])"
  by (simp add: fan_out_def call_one_def service_post_def route_post_def sample_delivery_def leg_error_def sample_receive
      report_leg_def Let_def sample_target_def)

lemma sample_logout:
  assumes "s_completed_ciba_log s = [sample_record]" "s_session_id s = ''sid''" "s_user_sub s = ''alice''"
  shows "\<exists>res st' tr. logout_execute sample_logout_config (sample_env (RevokeStatus 200)) s ''r2'' ''user_signed_out'' (sample_left_store s)
      = (Inr res, st', tr)
    \<and> carry_out (\<lambda>_. None) ''host'' ''s3cret'' (\<lambda>i. sample_delivery) 0 tr [(sample_target, sample_router, ())]
      = ([(''j1'', \<lparr>successes = [''hr_server''], failures = []\<rparr>)],
         [(sample_target, sample_router\<lparr>er_state := \<lparr>revoked_jtis = denied_until 2000\<rparr>, er_rate_buckets := [(''host'', [7])]\<rparr>, ())])"
proof -
  have ok: "store_ok (sample_left_store s)" "0 < ss_reasons_hard_cap (sample_left_store s)"
    using assms by (simp_all add: sample_left_store_def store_ok_def new_session_store_def)
  have f: "find_sessions_for_user ''alice'' (sample_left_store s) = [s]"
    using assms by (simp add: find_sessions_for_user_def sample_left_store_def)
  obtain res st' tr where e: "execute_locked sample_logout_config (sample_env (RevokeStatus 200)) s ''r2'' ''user_signed_out'' (sample_left_store s)
      = (Inr res, st', tr)"
    using execute_locked_succeeds [OF ok(2), of s "sample_env (RevokeStatus 200)" sample_logout_config "''r2''" "''user_signed_out''"]
    by (force simp: sample_env_def)
  have "tr = SetTerminating ''sid'' # session_trace (sample_env (RevokeStatus 200)) ''alice'' ''r2'' ''user_signed_out'' (mark_terminating s)"
    using execute_locked_done(2) [OF ok(1) e] f assms by simp
  then have "carry_out (\<lambda>_. None) ''host'' ''s3cret'' (\<lambda>i. sample_delivery) 0 tr [(sample_target, sample_router, ())]
      = ([(''j1'', \<lparr>successes = [''hr_server''], failures = []\<rparr>)],
         [(sample_target, sample_router\<lparr>er_state := \<lparr>revoked_jtis = denied_until 2000\<rparr>, er_rate_buckets := [(''host'', [7])]\<rparr>, ())])"
    using assms
    by (simp add: session_trace_def carry_out_cancels mark_terminating_def sample_env_def fan_out_log_def sample_record_def
        sample_service_fan_out known_reason_def)
  with e show ?thesis by (auto simp: logout_execute_def)
qed

lemma logout_revokes_chat_tokens_witness:
  "\<exists>x s' res st' tr router. run_serial_fan_out sample_llm_deps sample_short_world sample_chat_session [sample_chat_call] ''r1'' ''hi'' [] = (x, s')
     \<and> logout_execute sample_logout_config (sample_env (RevokeStatus 200)) s' ''r2'' ''user_signed_out'' (sample_left_store s') = (Inr res, st', tr)
     \<and> carry_out (\<lambda>_. None) ''host'' ''s3cret'' (\<lambda>i. sample_delivery) 0 tr [(sample_target, sample_router, ())]
       = ([(''j1'', \<lparr>successes = [''hr_server''], failures = []\<rparr>)], [(sample_target, router, ())])
     \<and> hr_validate_token sample_jwt sample_net 4000 1500 ''alice'' None (attach_revocation (er_state router) (sample_validator []))
        \<noteq> (Inr (sample_claims ''alice'' ''j1'' ''hr_self_rest''), sample_validator')"
proof -
  obtain x s' where run: "run_serial_fan_out sample_llm_deps sample_short_world sample_chat_session [sample_chat_call] ''r1'' ''hi'' [] = (x, s')"
    and s': "s_completed_ciba_log s' = [sample_record]" "s_session_id s' = ''sid''" "s_user_sub s' = ''alice''"
    using sample_chat_run by blast
  obtain res st' tr router where lo: "logout_execute sample_logout_config (sample_env (RevokeStatus 200)) s' ''r2'' ''user_signed_out'' (sample_left_store s')
      = (Inr res, st', tr)"
    and c: "carry_out (\<lambda>_. None) ''host'' ''s3cret'' (\<lambda>i. sample_delivery) 0 tr [(sample_target, sample_router, ())]
      = ([(''j1'', \<lparr>successes = [''hr_server''], failures = []\<rparr>)], [(sample_target, router, ())])"
    using sample_logout [OF s'] by blast
  have s0: "s_session_id sample_chat_session = ''sid''" "s_user_sub sample_chat_session = ''alice''"
    by (simp_all add: sample_chat_session_def session_create_def Let_def)
  have pl: "places (length (logged_ids (find_sessions_for_user (s_user_sub sample_chat_session) (sample_left_store s')))) [(sample_target, sample_router, ())]"
    using s' by (simp add: s0 logged_ids_def find_sessions_for_user_def sample_left_store_def sample_router_def new_revocation_state_def
        sound_denylist_def free_places_def denied_ids_def new_denylist_def)
  have h: "sample_record \<in> set (handed_over sample_llm_deps sample_short_world 0 ([sample_chat_call] ! 0)
      (fs_session \<lparr>fs_session = sample_chat_session, fs_outputs = [], fs_outcomes = []\<rparr>))" by (simp add: sample_handed)
  have "\<exists>rep. (tr_jti sample_record, rep) \<in> set [(''j1'', \<lparr>successes = [''hr_server''], failures = []\<rparr>)] \<and> (\<forall>l \<in> set (successes rep).
     \<exists>tgt r y. (tgt, r, y) \<in> set [(sample_target, router, ())] \<and> ft_label tgt = l
       \<and> (\<forall>(J :: unit pyjwt) net mt now tok req v c v'. mv_revocation v = Some (er_state r) \<longrightarrow> c_jti c = PStr (tr_jti sample_record) \<longrightarrow>
            hr_validate_token J net mt now tok req v \<noteq> (Inr c, v') \<and> it_validate_token J net mt now tok req v \<noteq> (Inr c, v')))"
    by (rule logout_revokes_chat_tokens [OF sample_short_keep run _ _ h _ _ _ _ _ lo pl c])
      (use s' in \<open>simp_all add: s0 sample_left_store_def store_ok_def new_session_store_def sample_record_def sample_env_def\<close>)
  then have "\<forall>(J :: unit pyjwt) net mt now tok req v c v'. mv_revocation v = Some (er_state router) \<longrightarrow> c_jti c = PStr ''j1'' \<longrightarrow>
      hr_validate_token J net mt now tok req v \<noteq> (Inr c, v')" by (simp add: sample_record_def)
  then have "hr_validate_token sample_jwt sample_net 4000 1500 ''alice'' None (attach_revocation (er_state router) (sample_validator []))
        \<noteq> (Inr (sample_claims ''alice'' ''j1'' ''hr_self_rest''), sample_validator')"
    by (simp add: attach_revocation_def sample_claims_def)
  with run lo c show ?thesis by blast
qed

end
