(* ===== verification/IsAudit.thy ===== *)
theory IsAudit
  imports Settings
begin

text \<open>
  The readiness audit of the identity server (\<open>scripts/check-is-config.py\<close>): the inventory of
  scopes and roles the services need, and the sections that compare it with the answers of the
  management API.

  The network, the JSON reader, \<open>re.fullmatch\<close> and the random bytes are parameters; the network
  may answer the same request differently later.  A section is a function on the audit's state
  (the counters, the printed lines, the number of requests made) that may raise.  A printed line
  keeps the name of its check; the hints that follow the name are left out, but the work done to
  build them is kept where it can raise.
\<close>

section \<open>The inventory\<close>

definition hr_scopes :: "string list" where
  "hr_scopes = [''hr_basic_rest'', ''hr_self_rest'', ''hr_read_rest'', ''hr_approve_rest'', ''hr_assets_write_rest'']"

definition it_scopes :: "string list" where
  "it_scopes = [''it_assets_read_rest'', ''it_assets_self_rest'', ''it_assets_write_rest'']"

definition demo_users :: "string list" where
  "demo_users = [''employee@example.com'', ''hradmin@example.com'']"

definition demo_roles :: "string list" where
  "demo_roles = [''employee'', ''HR Admin'']"

definition demo_agents :: "string list" where
  "demo_agents = [''orchestrator-agent'', ''hr-agent'', ''it-agent'']"

definition expected_role_scopes :: "(string \<times> string list) list" where
  "expected_role_scopes =
     [(''employee'', [''hr_basic_rest'', ''hr_self_rest'', ''it_assets_read_rest'', ''it_assets_self_rest'']),
      (''HR Admin'', [''hr_basic_rest'', ''hr_self_rest'', ''it_assets_read_rest'', ''it_assets_self_rest'',
         ''hr_read_rest'', ''hr_approve_rest'', ''it_assets_write_rest'', ''hr_assets_write_rest''])]"

section \<open>The state and what a section does with it\<close>

datatype audit_line = HeaderLine string | PassLine string | FailLine string | WarnLine string

record counters =
  co_passes :: nat
  co_fails :: nat
  co_warns :: nat
  co_failed_checks :: "string list"

record audit =
  au_counters :: counters
  au_printed :: "audit_line list"
  au_asked :: nat

definition new_audit :: audit where
  "new_audit = \<lparr>au_counters = \<lparr>co_passes = 0, co_fails = 0, co_warns = 0, co_failed_checks = []\<rparr>, au_printed = [], au_asked = 0\<rparr>"

type_synonym 'a act = "audit \<Rightarrow> 'a res \<times> audit"

definition give :: "'a \<Rightarrow> 'a act" where
  "give x a = (Inr x, a)"

definition raises :: "exn \<Rightarrow> 'a act" where
  "raises e a = (Inl e, a)"

definition and_then :: "'a act \<Rightarrow> ('a \<Rightarrow> 'b act) \<Rightarrow> 'b act" where
  "and_then m k a = (case m a of (Inl e, a') \<Rightarrow> (Inl e, a') | (Inr x, a') \<Rightarrow> k x a')"

definition lift_res :: "'a res \<Rightarrow> 'a act" where
  "lift_res r a = (r, a)"

fun each :: "('a \<Rightarrow> unit act) \<Rightarrow> 'a list \<Rightarrow> unit act" where
  "each f [] = give ()"
| "each f (x # xs) = and_then (f x) (\<lambda>_. each f xs)"

definition print_line :: "audit_line \<Rightarrow> unit act" where
  "print_line l a = (Inr (), a\<lparr>au_printed := au_printed a @ [l]\<rparr>)"

definition count_check :: "(counters \<Rightarrow> counters) \<Rightarrow> unit act" where
  "count_check f a = (Inr (), a\<lparr>au_counters := f (au_counters a)\<rparr>)"

definition hdr :: "string \<Rightarrow> unit act" where
  "hdr title = print_line (HeaderLine title)"

definition ok :: "string \<Rightarrow> unit act" where
  "ok label = and_then (print_line (PassLine label)) (\<lambda>_. count_check (\<lambda>c. c\<lparr>co_passes := co_passes c + 1\<rparr>))"

definition bad :: "string \<Rightarrow> unit act" where
  "bad label = and_then (print_line (FailLine label))
     (\<lambda>_. count_check (\<lambda>c. c\<lparr>co_fails := co_fails c + 1, co_failed_checks := co_failed_checks c @ [label]\<rparr>))"

definition warn :: "string \<Rightarrow> unit act" where
  "warn label = and_then (print_line (WarnLine label)) (\<lambda>_. count_check (\<lambda>c. c\<lparr>co_warns := co_warns c + 1\<rparr>))"

section \<open>HTTP\<close>

datatype audit_body = NoBody | FormBody "(string \<times> py) list" | JsonBody py

record audit_request =
  rq_url :: string
  rq_headers :: "(string \<times> string) list"
  rq_body :: audit_body

text \<open>A status with its body, also of an \<open>HTTPError\<close>; or the text of another exception.\<close>

datatype audit_reply = Replied int string | NetFailed string

record audit_world =
  aw_net :: "nat \<Rightarrow> audit_request \<Rightarrow> audit_reply"
  aw_json :: "string \<Rightarrow> py option"
  aw_fullmatch :: "string \<Rightarrow> string \<Rightarrow> bool option"
  aw_random :: "nat \<Rightarrow> nat list"
  aw_sha :: "nat list \<Rightarrow> nat list"

definition reply_pair :: "audit_reply \<Rightarrow> int \<times> string" where
  "reply_pair r = (case r of Replied c b \<Rightarrow> (c, b) | NetFailed m \<Rightarrow> (0, ''<network-error: '' @ m @ ''>''))"

definition ask :: "audit_world \<Rightarrow> audit_request \<Rightarrow> (int \<times> string) act" where
  "ask w rq a = (Inr (reply_pair (aw_net w (au_asked a) rq)), a\<lparr>au_asked := Suc (au_asked a)\<rparr>)"

definition http_get :: "audit_world \<Rightarrow> string \<Rightarrow> (string \<times> string) list \<Rightarrow> (int \<times> string) act" where
  "http_get w url headers = ask w \<lparr>rq_url = url, rq_headers = headers, rq_body = NoBody\<rparr>"

definition http_post_form :: "audit_world \<Rightarrow> string \<Rightarrow> (string \<times> py) list \<Rightarrow> (string \<times> string) list \<Rightarrow> (int \<times> string) act" where
  "http_post_form w url form headers =
     ask w \<lparr>rq_url = url, rq_headers = headers @ [(''Content-Type'', ''application/x-www-form-urlencoded'')], rq_body = FormBody form\<rparr>"

definition http_post_json :: "audit_world \<Rightarrow> string \<Rightarrow> py \<Rightarrow> (int \<times> string) act" where
  "http_post_json w url payload =
     ask w \<lparr>rq_url = url, rq_headers = [(''Content-Type'', ''application/json''), (''Accept'', ''application/json'')], rq_body = JsonBody payload\<rparr>"

text \<open>\<open>base64.b64encode\<close> and \<open>urllib.parse.quote\<close> beside their variants in \<open>UrlText\<close>.\<close>

definition std_b64encode :: "nat list \<Rightarrow> string" where
  "std_b64encode bs = map (\<lambda>c. if c = CHR ''-'' then CHR ''+'' else if c = CHR ''_'' then CHR 0x2F else c) (urlsafe_b64encode bs)"

definition basic_auth_header :: "string \<Rightarrow> string \<Rightarrow> string" where
  "basic_auth_header user pw = ''Basic '' @ std_b64encode (concat (map utf8_bytes (user @ '':'' @ pw)))"

definition url_quote :: "string \<Rightarrow> string" where
  "url_quote s = concat (map (\<lambda>c. if c = CHR 0x2F then [c] else if c = CHR '' '' then ''%20'' else quote_char c) s)"

definition accept_json :: "string \<Rightarrow> (string \<times> string) list" where
  "accept_json auth = [(''Authorization'', auth), (''Accept'', ''application/json'')]"

definition accept_scim :: "string \<Rightarrow> (string \<times> string) list" where
  "accept_scim auth = [(''Authorization'', auth), (''Accept'', ''application/scim+json'')]"

section \<open>Reading a body\<close>

definition load_json :: "audit_world \<Rightarrow> string \<Rightarrow> py res" where
  "load_json w body = (case aw_json w body of None \<Rightarrow> Inl (EPy ''JSONDecodeError'') | Some v \<Rightarrow> Inr v)"

definition or_list :: "py \<Rightarrow> py" where
  "or_list v = (if truthy v then v else PList [])"

definition member_or_list :: "py \<Rightarrow> string \<Rightarrow> py res" where
  "member_or_list v k = map_sum id or_list (obj_get v k)"

definition load_member :: "audit_world \<Rightarrow> string \<Rightarrow> string \<Rightarrow> py res" where
  "load_member w body k = (case load_json w body of Inl e \<Rightarrow> Inl e | Inr v \<Rightarrow> member_or_list v k)"

text \<open>\<open>v[0]\<close>.\<close>

definition first_item :: "py \<Rightarrow> py res" where
  "first_item v = (case v of PList (x # xs) \<Rightarrow> Inr x | PStr (c # cs) \<Rightarrow> Inr (PStr [c]) | PDict d \<Rightarrow> Inl (EPy ''KeyError'')
     | PList [] \<Rightarrow> Inl (EPy ''IndexError'') | PStr [] \<Rightarrow> Inl (EPy ''IndexError'') | _ \<Rightarrow> Inl (EPy ''TypeError''))"

text \<open>The truthy \<open>name\<close> members of a list, as the set comprehensions gather them.\<close>

fun names_of :: "py list \<Rightarrow> py list res" where
  "names_of [] = Inr []"
| "names_of (s # ss) =
     (case obj_get s ''name'' of
        Inl e \<Rightarrow> Inl e
      | Inr n \<Rightarrow> if \<not> truthy n then names_of ss
                else if unhashable n then Inl (EPy ''TypeError'') else map_sum id ((#) n) (names_of ss))"

definition missing_from :: "string list \<Rightarrow> py list \<Rightarrow> string list" where
  "missing_from expected have_these = filter (\<lambda>s. PStr s \<notin> set have_these) expected"

definition audit_scopes :: "string \<Rightarrow> string list \<Rightarrow> py list \<Rightarrow> unit act" where
  "audit_scopes label expected have_these = (if missing_from expected have_these = [] then ok label else bad label)"

section \<open>Sections 1 to 4: the keys, the management API, the applications\<close>

definition check_connectivity :: "audit_world \<Rightarrow> string \<Rightarrow> unit act" where
  "check_connectivity w base_url =
     and_then (hdr ''Section 1'') (\<lambda>_.
     and_then (http_get w (base_url @ ''/oauth2/jwks'') []) (\<lambda>(code, body).
       if code = 200 then ok (''JWKS reachable at '' @ base_url @ ''/oauth2/jwks'') else bad ''JWKS reachable''))"

definition check_jwks :: "audit_world \<Rightarrow> string \<Rightarrow> unit act" where
  "check_jwks w base_url =
     and_then (hdr ''Section 2'') (\<lambda>_.
     and_then (http_get w (base_url @ ''/oauth2/jwks'') []) (\<lambda>(code, body).
       if code \<noteq> 200 then bad ''JWKS payload''
       else case load_member w body ''keys'' of
              Inl e \<Rightarrow> bad ''JWKS payload''
            | Inr ks \<Rightarrow> if \<not> truthy ks then bad ''JWKS payload''
                        else if has_len ks then ok ''JWKS keys[] populated'' else raises (EPy ''TypeError'')))"

definition check_mgmt_api_auth :: "audit_world \<Rightarrow> string \<Rightarrow> string \<Rightarrow> bool act" where
  "check_mgmt_api_auth w base_url auth =
     and_then (hdr ''Section 3'') (\<lambda>_.
     and_then (http_get w (base_url @ ''/api/server/v1/api-resources'') (accept_json auth)) (\<lambda>(code, body).
       if code = 200 then and_then (ok ''admin credentials accepted on /api/server/v1/api-resources'') (\<lambda>_. give True)
       else and_then (bad ''admin credentials'') (\<lambda>_. give False)))"

definition app_filter_url :: "string \<Rightarrow> string \<Rightarrow> string" where
  "app_filter_url base_url client_id = base_url @ ''/api/server/v1/applications?filter=clientId+eq+'' @ url_quote client_id"

fun any_client :: "string \<Rightarrow> py list \<Rightarrow> bool res" where
  "any_client client_id [] = Inr False"
| "any_client client_id (a # as) =
     (case obj_get a ''clientId'' of
        Inl e \<Rightarrow> Inl e | Inr c \<Rightarrow> if c = PStr client_id then Inr True else any_client client_id as)"

text \<open>With a match the first application is a dictionary, so reading its name does not raise.\<close>

definition check_application :: "audit_world \<Rightarrow> string \<Rightarrow> string \<Rightarrow> string \<times> string \<Rightarrow> unit act" where
  "check_application w base_url auth = (\<lambda>(label, client_id).
     if client_id = [] then warn label
     else and_then (http_get w (app_filter_url base_url client_id) (accept_json auth)) (\<lambda>(code, body).
       if code \<noteq> 200 then warn label
       else case load_member w body ''applications'' of
              Inl e \<Rightarrow> bad label
            | Inr apps \<Rightarrow>
               if \<not> truthy apps then bad label
               else and_then (lift_res (py_iter apps)) (\<lambda>as.
                    and_then (lift_res (any_client client_id as)) (\<lambda>found.
                      if found then ok (label @ '' registered'') else bad label))))"

definition check_applications :: "audit_world \<Rightarrow> string \<Rightarrow> string \<Rightarrow> (string \<times> string) list \<Rightarrow> unit act" where
  "check_applications w base_url auth expected_client_ids =
     and_then (hdr ''Section 4'') (\<lambda>_.
       if expected_client_ids = [] then warn ''applications''
       else each (check_application w base_url auth) expected_client_ids)"

section \<open>Section 4b and 4c: subscriptions\<close>

text \<open>The id of the application of a client; \<open>None\<close> after a warning or a failure.\<close>

definition find_app :: "audit_world \<Rightarrow> string \<Rightarrow> string \<Rightarrow> string \<Rightarrow> string \<Rightarrow> py option act" where
  "find_app w base_url auth client_id label =
     and_then (http_get w (app_filter_url base_url client_id) (accept_json auth)) (\<lambda>(code, body).
       if code \<noteq> 200 then and_then (warn label) (\<lambda>_. give None)
       else case load_member w body ''applications'' of
              Inl e \<Rightarrow> and_then (bad label) (\<lambda>_. give None)
            | Inr apps \<Rightarrow>
               if \<not> truthy apps then and_then (bad label) (\<lambda>_. give None)
               else and_then (lift_res (first_item apps)) (\<lambda>a. and_then (lift_res (obj_get a ''id'')) (\<lambda>i. give (Some i))))"

definition authorized_apis :: "audit_world \<Rightarrow> string \<Rightarrow> string \<Rightarrow> py \<Rightarrow> string \<Rightarrow> py option act" where
  "authorized_apis w base_url auth app_id label =
     and_then (http_get w (base_url @ ''/api/server/v1/applications/'' @ py_str app_id @ ''/authorized-apis'') (accept_json auth))
       (\<lambda>(code, body).
       if code \<noteq> 200 then and_then (bad label) (\<lambda>_. give None)
       else case load_json w body of
              Inl e \<Rightarrow> and_then (bad label) (\<lambda>_. give None)
            | Inr subs \<Rightarrow> give (Some subs))"

text \<open>API name to its scopes.\<close>

type_synonym subscriptions = "(py \<times> py list) list"

definition subscription_of :: "py \<Rightarrow> (py \<times> py list) res" where
  "subscription_of entry =
     (case (obj_get entry ''displayName'', obj_get entry ''identifier'', member_or_list entry ''authorizedScopes'') of
        (Inr d, Inr i, Inr scopes) \<Rightarrow>
          (let name = (if truthy d then d else if truthy i then i else PStr [])
           in case py_iter scopes of
                Inl e \<Rightarrow> Inl e
              | Inr ss \<Rightarrow> (case names_of ss of
                             Inl e \<Rightarrow> Inl e
                           | Inr ns \<Rightarrow> if unhashable name then Inl (EPy ''TypeError'') else Inr (name, ns)))
      | _ \<Rightarrow> Inl (EPy ''AttributeError''))"

fun subscriptions_of :: "subscriptions \<Rightarrow> py list \<Rightarrow> subscriptions res" where
  "subscriptions_of m [] = Inr m"
| "subscriptions_of m (x # xs) =
     (case subscription_of x of Inl e \<Rightarrow> Inl e | Inr (name, scopes) \<Rightarrow> subscriptions_of (AList.update name scopes m) xs)"

definition api_scopes :: "subscriptions \<Rightarrow> string \<Rightarrow> string \<Rightarrow> py list" where
  "api_scopes m display_name identifier =
     (case map_of m (PStr display_name) of
        Some (x # xs) \<Rightarrow> x # xs
      | _ \<Rightarrow> (case map_of m (PStr identifier) of Some xs \<Rightarrow> xs | None \<Rightarrow> []))"

text \<open>\<open>(v.get(k1) or {}).get(k2, dflt)\<close>.\<close>

definition sub_get_or :: "py \<Rightarrow> string \<Rightarrow> string \<Rightarrow> py \<Rightarrow> py res" where
  "sub_get_or v k1 k2 dflt =
     (case obj_get v k1 of
        Inl e \<Rightarrow> Inl e
      | Inr x \<Rightarrow> (case or_dict x of PDict d \<Rightarrow> Inr (pyget_or d k2 dflt) | _ \<Rightarrow> Inl (EPy ''AttributeError'')))"

text \<open>A document of the application: \<open>None\<close> after a warning, and also for a JSON null.\<close>

definition app_document :: "audit_world \<Rightarrow> string \<Rightarrow> string \<Rightarrow> string \<Rightarrow> py option act" where
  "app_document w url auth label =
     and_then (http_get w url (accept_json auth)) (\<lambda>(code, body).
       if code \<noteq> 200 then and_then (warn label) (\<lambda>_. give None)
       else case load_json w body of
              Inl e \<Rightarrow> and_then (warn label) (\<lambda>_. give None)
            | Inr doc \<Rightarrow> give (if doc = PNone then None else Some doc))"

definition check_role_audience :: "audit_world \<Rightarrow> string \<Rightarrow> string \<Rightarrow> py \<Rightarrow> unit act" where
  "check_role_audience w base_url auth app_id =
     and_then (app_document w (base_url @ ''/api/server/v1/applications/'' @ py_str app_id) auth ''role-audience'') (\<lambda>r.
       case r of
         None \<Rightarrow> give ()
       | Some doc \<Rightarrow>
          and_then (lift_res (sub_get_or doc ''associatedRoles'' ''allowedAudience'' (PStr ''APPLICATION''))) (\<lambda>audience.
            case audience of
              PStr s \<Rightarrow> if py_upper s = ''ORGANIZATION'' then ok ''orchestrator-mcp-client Role Audience = ORGANIZATION''
                        else bad ''role-audience''
            | _ \<Rightarrow> raises (EPy ''AttributeError'')))"

fun callback_covered :: "audit_world \<Rightarrow> string \<Rightarrow> py list \<Rightarrow> bool res" where
  "callback_covered w uri [] = Inr False"
| "callback_covered w uri (PStr x # xs) =
     (if prefix ''regexp='' x
      then (if aw_fullmatch w (drop 7 x) uri = Some True then Inr True else callback_covered w uri xs)
      else if x = uri then Inr True else callback_covered w uri xs)"
| "callback_covered w uri (v # xs) = Inl (EPy ''AttributeError'')"

definition check_oidc_config :: "audit_world \<Rightarrow> string \<Rightarrow> string \<Rightarrow> py \<Rightarrow> string \<Rightarrow> unit act" where
  "check_oidc_config w base_url auth app_id post_logout_uri =
     and_then (app_document w (base_url @ ''/api/server/v1/applications/'' @ py_str app_id @ ''/inbound-protocols/oidc'') auth ''oidc-config'')
       (\<lambda>r. case r of
         None \<Rightarrow> give ()
       | Some oidc \<Rightarrow>
          and_then (lift_res (sub_get_or oidc ''logout'' ''backChannelLogoutUrl'' (PStr []))) (\<lambda>bcl_url.
          and_then (if truthy bcl_url then ok (''orchestrator-mcp-client backChannelLogoutUrl = '' @ py_str bcl_url) else bad ''bcl-url'') (\<lambda>_.
          and_then (lift_res (member_or_list oidc ''callbackURLs'')) (\<lambda>callbacks.
          and_then (lift_res (py_iter callbacks)) (\<lambda>entries.
          and_then (lift_res (callback_covered w post_logout_uri entries)) (\<lambda>covered.
            if covered then ok ''orchestrator-mcp-client callbackURLs covers post_logout_redirect_uri'' else bad ''post-logout-uri''))))))"

definition check_orchestrator_subscriptions :: "audit_world \<Rightarrow> string \<Rightarrow> string \<Rightarrow> string \<Rightarrow> string \<Rightarrow> unit act" where
  "check_orchestrator_subscriptions w base_url auth mcp_client_id post_logout_uri =
     and_then (hdr ''Section 4b'') (\<lambda>_.
       if mcp_client_id = [] then warn ''subscriptions''
       else and_then (find_app w base_url auth mcp_client_id ''subscriptions'') (\<lambda>found.
         case found of
           None \<Rightarrow> give ()
         | Some app_id \<Rightarrow>
            and_then (authorized_apis w base_url auth app_id ''subscriptions'') (\<lambda>r.
              case r of
                None \<Rightarrow> give ()
              | Some (PList (x # xs)) \<Rightarrow>
                  and_then (lift_res (subscriptions_of [] (x # xs))) (\<lambda>m.
                  and_then (audit_scopes ''HR API subscription'' hr_scopes (api_scopes m ''HR API'' ''urn:hr:api'')) (\<lambda>_.
                  and_then (audit_scopes ''IT API subscription'' it_scopes (api_scopes m ''IT API'' ''urn:it:api'')) (\<lambda>_.
                  and_then (check_role_audience w base_url auth app_id) (\<lambda>_.
                    check_oidc_config w base_url auth app_id post_logout_uri))))
              | Some _ \<Rightarrow> bad ''subscriptions'')))"

definition app_authorized_scopes_by_api :: "audit_world \<Rightarrow> string \<Rightarrow> string \<Rightarrow> string \<Rightarrow> string \<Rightarrow> subscriptions option act" where
  "app_authorized_scopes_by_api w base_url auth client_id label =
     (if client_id = [] then and_then (warn (label @ '' subscriptions'')) (\<lambda>_. give None)
      else and_then (find_app w base_url auth client_id (label @ '' subscriptions'')) (\<lambda>found.
        case found of
          None \<Rightarrow> give None
        | Some app_id \<Rightarrow>
           and_then (authorized_apis w base_url auth app_id (label @ '' subscriptions'')) (\<lambda>r.
             case r of
               None \<Rightarrow> give None
             | Some subs \<Rightarrow>
                and_then (lift_res (py_iter (or_list subs))) (\<lambda>xs.
                and_then (lift_res (subscriptions_of [] xs)) (\<lambda>m. give (Some m))))))"

definition check_agent_app_subscriptions :: "audit_world \<Rightarrow> string \<Rightarrow> string \<Rightarrow> string \<Rightarrow> string \<Rightarrow> unit act" where
  "check_agent_app_subscriptions w base_url auth hr_agent_client_id it_agent_client_id =
     and_then (hdr ''Section 4c'') (\<lambda>_.
     and_then (app_authorized_scopes_by_api w base_url auth hr_agent_client_id ''hr-agent'') (\<lambda>hr_subs.
     and_then (case hr_subs of None \<Rightarrow> give ()
       | Some m \<Rightarrow> audit_scopes ''hr-agent HR API subscription'' hr_scopes (api_scopes m ''HR API'' ''urn:hr:api'')) (\<lambda>_.
     and_then (app_authorized_scopes_by_api w base_url auth it_agent_client_id ''it-agent'') (\<lambda>it_subs.
       case it_subs of None \<Rightarrow> give ()
       | Some m \<Rightarrow> audit_scopes ''it-agent IT API subscription'' it_scopes (api_scopes m ''IT API'' ''urn:it:api'')))))"

section \<open>Section 4d: the agents' own login\<close>

record audit_agent =
  aa_label :: string
  aa_agent_id :: string
  aa_agent_secret :: string
  aa_oauth_client_id :: string
  aa_oauth_client_secret :: string
  aa_redirect_uri :: string

text \<open>The first local authenticator, or the first one; \<open>next\<close> evaluates its default first.\<close>

fun first_local :: "py \<Rightarrow> py list \<Rightarrow> py res" where
  "first_local dflt [] = Inr dflt"
| "first_local dflt (a # as) =
     (case obj_get a ''idp'' of Inl e \<Rightarrow> Inl e | Inr i \<Rightarrow> if i = PStr ''LOCAL'' then Inr a else first_local dflt as)"

definition pick_authenticator_id :: "py \<Rightarrow> py res" where
  "pick_authenticator_id authenticators =
     (case (if truthy authenticators then first_item authenticators else Inr PNone) of
        Inl e \<Rightarrow> Inl e
      | Inr dflt \<Rightarrow>
         (case py_iter authenticators of
            Inl e \<Rightarrow> Inl e
          | Inr as \<Rightarrow> (case first_local dflt as of
                         Inl e \<Rightarrow> Inl e
                       | Inr a \<Rightarrow> if truthy a then obj_get a ''authenticatorId'' else Inr PNone)))"

definition flow_start :: "py \<Rightarrow> (py \<times> py) res" where
  "flow_start doc =
     (case (obj_get doc ''flowId'', sub_get doc ''nextStep'' ''authenticators'') of
        (Inl e, _) \<Rightarrow> Inl e
      | (_, Inl e) \<Rightarrow> Inl e
      | (Inr flow_id, Inr as) \<Rightarrow> map_sum id (Pair flow_id) (pick_authenticator_id (or_list as)))"

text \<open>The three steps; \<open>True\<close> is a token.  The detail of a failure is left out.\<close>

definition probe_token ::
  "audit_world \<Rightarrow> string \<Rightarrow> audit_agent \<Rightarrow> string \<Rightarrow> (string \<times> string) list \<Rightarrow> py \<Rightarrow> bool act"
where
  "probe_token w base_url ag verifier client_auth auth_code =
     and_then (http_post_form w (base_url @ ''/oauth2/token'')
       [(''grant_type'', PStr ''authorization_code''), (''client_id'', PStr (aa_oauth_client_id ag)), (''code'', auth_code),
        (''code_verifier'', PStr verifier), (''redirect_uri'', PStr (aa_redirect_uri ag))] client_auth) (\<lambda>(code, body).
       if code \<noteq> 200 then give False
       else case load_json w body of
              Inl e \<Rightarrow> give False
            | Inr tok \<Rightarrow> and_then (lift_res (obj_get tok ''access_token'')) (\<lambda>t. give (truthy t)))"

definition probe_authn ::
  "audit_world \<Rightarrow> string \<Rightarrow> audit_agent \<Rightarrow> string \<Rightarrow> (string \<times> string) list \<Rightarrow> py \<Rightarrow> py \<Rightarrow> bool act"
where
  "probe_authn w base_url ag verifier client_auth flow_id authenticator_id =
     and_then (http_post_json w (base_url @ ''/oauth2/authn'')
       (authn_body flow_id authenticator_id [(''username'', PStr (aa_agent_id ag)), (''password'', PStr (aa_agent_secret ag))]))
       (\<lambda>(code, body).
       if code \<noteq> 200 then give False
       else case load_json w body of
              Inl e \<Rightarrow> give False
            | Inr doc \<Rightarrow>
               and_then (lift_res (read_code doc)) (\<lambda>auth_code.
                 if truthy auth_code then probe_token w base_url ag verifier client_auth auth_code
                 else and_then (lift_res (authn_report doc)) (\<lambda>_. give False)))"

definition appnative_auth_probe :: "audit_world \<Rightarrow> string \<Rightarrow> audit_agent \<Rightarrow> nat list \<Rightarrow> bool act" where
  "appnative_auth_probe w base_url ag rnd =
     (let (verifier, challenge) = make_pkce (aw_sha w) rnd;
          client_auth = [(''Authorization'', basic_auth_header (aa_oauth_client_id ag) (aa_oauth_client_secret ag))]
      in and_then (http_post_form w (base_url @ ''/oauth2/authorize'')
           [(''client_id'', PStr (aa_oauth_client_id ag)), (''response_type'', PStr ''code''),
            (''redirect_uri'', PStr (aa_redirect_uri ag)), (''scope'', PStr ''openid internal_login''),
            (''response_mode'', PStr ''direct''), (''code_challenge'', PStr challenge),
            (''code_challenge_method'', PStr ''S256'')] client_auth) (\<lambda>(code, body).
           if code \<noteq> 200 then give False
           else case load_json w body of
                  Inl e \<Rightarrow> give False
                | Inr doc \<Rightarrow>
                   and_then (lift_res (flow_start doc)) (\<lambda>(flow_id, authenticator_id).
                     if \<not> truthy flow_id \<or> \<not> truthy authenticator_id then give False
                     else probe_authn w base_url ag verifier client_auth flow_id authenticator_id)))"

definition check_agent_auth :: "audit_world \<Rightarrow> string \<Rightarrow> audit_agent \<times> nat list \<Rightarrow> unit act" where
  "check_agent_auth w base_url = (\<lambda>(ag, rnd).
     if [] \<in> {aa_agent_id ag, aa_agent_secret ag, aa_oauth_client_id ag, aa_oauth_client_secret ag} then warn (aa_label ag @ '' auth'')
     else and_then (appnative_auth_probe w base_url
              (ag\<lparr>aa_redirect_uri := or_else (aa_redirect_uri ag) ''http://localhost:9999/agent-callback''\<rparr>) rnd) (\<lambda>success.
            if success then ok (aa_label ag) else bad (aa_label ag @ '' auth'')))"

text \<open>The \<open>i\<close>-th probe draws the \<open>i\<close>-th random bytes.\<close>

definition check_agent_appnative_auth :: "audit_world \<Rightarrow> string \<Rightarrow> audit_agent list \<Rightarrow> unit act" where
  "check_agent_appnative_auth w base_url agents =
     and_then (hdr ''Section 4d'') (\<lambda>_.
       if agents = [] then warn ''agent auth''
       else each (check_agent_auth w base_url) (zip agents (map (aw_random w) [0..<length agents])))"

section \<open>Sections 5 and 6: API resources and scopes\<close>

text \<open>The resource named by one of the specs: its id.\<close>

fun find_resource :: "string list \<Rightarrow> py list \<Rightarrow> py option res" where
  "find_resource specs [] = Inr None"
| "find_resource specs (r # rs) =
     (case r of
        PDict d \<Rightarrow>
          (let name = (if truthy (pyget d ''name'') then pyget d ''name'' else PStr []);
               ident = (if truthy (pyget d ''identifier'') then pyget d ''identifier'' else PStr [])
           in if \<exists>s \<in> set specs. s \<noteq> [] \<and> (PStr s = name \<or> PStr s = ident) then Inr (Some (pyget d ''id'')) else find_resource specs rs)
      | _ \<Rightarrow> Inl (EPy ''AttributeError''))"

definition match_resource :: "string \<Rightarrow> string \<Rightarrow> string list \<Rightarrow> py list \<Rightarrow> (string \<times> py) list \<Rightarrow> (string \<times> py) list act" where
  "match_resource grp label specs rs out =
     and_then (lift_res (find_resource specs rs)) (\<lambda>found.
       case found of
         Some i \<Rightarrow> and_then (ok label) (\<lambda>_. give (out @ [(grp, i)]))
       | None \<Rightarrow> and_then (bad label) (\<lambda>_. give out))"

definition check_api_resources :: "audit_world \<Rightarrow> string \<Rightarrow> string \<Rightarrow> string list \<Rightarrow> string list \<Rightarrow> (string \<times> py) list act" where
  "check_api_resources w base_url auth hr_specs it_specs =
     and_then (hdr ''Section 5'') (\<lambda>_.
     and_then (http_get w (base_url @ ''/api/server/v1/api-resources?limit=200'') (accept_json auth)) (\<lambda>(code, body).
       if code \<noteq> 200 then and_then (bad ''API resources list'') (\<lambda>_. give [])
       else case load_member w body ''apiResources'' of
              Inl e \<Rightarrow> and_then (bad ''API resources list'') (\<lambda>_. give [])
            | Inr resources \<Rightarrow>
               and_then (lift_res (py_iter resources)) (\<lambda>rs.
               and_then (match_resource ''HR'' ''HR API resource'' hr_specs rs []) (\<lambda>out.
                 match_resource ''IT'' ''IT API resource'' it_specs rs out))))"

definition audit_resource :: "audit_world \<Rightarrow> string \<Rightarrow> string \<Rightarrow> (string \<times> py) list \<Rightarrow> string \<Rightarrow> string list \<Rightarrow> unit act" where
  "audit_resource w base_url auth resources grp expected =
     (let label = grp @ '' API scopes''; rid = pyget resources grp
      in if \<not> truthy rid then warn label
         else and_then (http_get w (base_url @ ''/api/server/v1/api-resources/'' @ py_str rid @ ''/scopes'') (accept_json auth))
           (\<lambda>(code, body).
           if code \<noteq> 200 then warn label
           else case load_json w body of
                  Inl e \<Rightarrow> bad label
                | Inr v \<Rightarrow>
                   (case py_iter v of
                      Inl e \<Rightarrow> bad label
                    | Inr xs \<Rightarrow> (case names_of xs of Inl e \<Rightarrow> bad label | Inr scopes \<Rightarrow> audit_scopes label expected scopes))))"

definition check_scopes :: "audit_world \<Rightarrow> string \<Rightarrow> string \<Rightarrow> (string \<times> py) list \<Rightarrow> unit act" where
  "check_scopes w base_url auth resources =
     and_then (hdr ''Section 6'') (\<lambda>_.
     and_then (audit_resource w base_url auth resources ''HR'' hr_scopes) (\<lambda>_.
       audit_resource w base_url auth resources ''IT'' it_scopes))"

section \<open>Sections 7 and 8: users, agents, roles\<close>

definition user_url :: "string \<Rightarrow> string \<Rightarrow> string" where
  "user_url base_url username = base_url @ ''/scim2/Users?filter='' @ url_quote (''userName eq '' @ username)"

definition total_results :: "audit_world \<Rightarrow> string \<Rightarrow> int" where
  "total_results w body =
     (case load_json w body of
        Inr (PDict d) \<Rightarrow> (case py_int (pyget_or d ''totalResults'' (PInt 0)) of Inr n \<Rightarrow> n | Inl e \<Rightarrow> 0)
      | _ \<Rightarrow> 0)"

definition check_user :: "audit_world \<Rightarrow> string \<Rightarrow> string \<Rightarrow> string \<Rightarrow> unit act" where
  "check_user w base_url auth username =
     and_then (http_get w (user_url base_url username) (accept_scim auth)) (\<lambda>(code, body).
       if code \<noteq> 200 then warn (''user '' @ username)
       else if 1 \<le> total_results w body then ok (''user '' @ username @ '' exists'') else bad (''user '' @ username))"

definition check_users :: "audit_world \<Rightarrow> string \<Rightarrow> string \<Rightarrow> unit act" where
  "check_users w base_url auth = and_then (hdr ''Section 7'') (\<lambda>_. each (check_user w base_url auth) demo_users)"

text \<open>The names an agent's record carries.\<close>

definition agent_schema :: string where
  "agent_schema = ''urn:scim:wso2:agent:schema''"

definition agent_names :: "py \<Rightarrow> py list res" where
  "agent_names r =
     (case r of
        PDict d \<Rightarrow>
          (let dn = (case or_dict (pyget d agent_schema) of PDict s \<Rightarrow> pyget s ''DisplayName'' | _ \<Rightarrow> PNone);
               names = filter truthy [dn, pyget d ''displayName'', pyget d ''name'']
           in if \<exists>n \<in> set names. unhashable n then Inl (EPy ''TypeError'') else Inr names)
      | _ \<Rightarrow> Inl (EPy ''AttributeError''))"

fun gather :: "('a \<Rightarrow> 'b list res) \<Rightarrow> 'a list \<Rightarrow> 'b list res" where
  "gather f [] = Inr []"
| "gather f (x # xs) = (case f x of Inl e \<Rightarrow> Inl e | Inr ys \<Rightarrow> map_sum id ((@) ys) (gather f xs))"

definition check_agents :: "audit_world \<Rightarrow> string \<Rightarrow> string \<Rightarrow> unit act" where
  "check_agents w base_url auth =
     and_then (hdr ''Section 7b'') (\<lambda>_.
     and_then (http_get w (base_url @ ''/scim2/Agents'') (accept_scim auth)) (\<lambda>(code, body).
       if code \<noteq> 200 then warn ''SCIM2 Agents''
       else case load_member w body ''Resources'' of
              Inl e \<Rightarrow> bad ''SCIM2 Agents''
            | Inr resources \<Rightarrow>
               and_then (lift_res (py_iter resources)) (\<lambda>rs.
               and_then (lift_res (gather agent_names rs)) (\<lambda>present.
                 each (\<lambda>a. if PStr a \<in> set present then ok (''agent '' @ a @ '' registered (SCIM2)'') else bad (''agent '' @ a)) demo_agents))))"

definition role_list_url :: "string \<Rightarrow> string \<Rightarrow> string" where
  "role_list_url base_url role = base_url @ ''/scim2/v2/Roles?filter='' @ url_quote (''displayName eq '' @ role)"

text \<open>The first record found for a role, or \<open>None\<close>.\<close>

definition check_role :: "audit_world \<Rightarrow> string \<Rightarrow> string \<Rightarrow> string \<Rightarrow> py option act" where
  "check_role w base_url auth role =
     and_then (http_get w (role_list_url base_url role) (accept_scim auth)) (\<lambda>(code, body).
       if code \<noteq> 200 then and_then (warn (''role '' @ role)) (\<lambda>_. give None)
       else case load_member w body ''Resources'' of
              Inl e \<Rightarrow> and_then (bad (''role '' @ role)) (\<lambda>_. give None)
            | Inr resources \<Rightarrow>
               if \<not> truthy resources then and_then (bad (''role '' @ role)) (\<lambda>_. give None)
               else and_then (ok (''role '' @ role @ '' exists'')) (\<lambda>_.
                    and_then (lift_res (first_item resources)) (\<lambda>r. give (Some r))))"

fun check_role_list :: "audit_world \<Rightarrow> string \<Rightarrow> string \<Rightarrow> string list \<Rightarrow> (string \<times> py) list act" where
  "check_role_list w base_url auth [] = give []"
| "check_role_list w base_url auth (role # roles) =
     and_then (check_role w base_url auth role) (\<lambda>r.
     and_then (check_role_list w base_url auth roles) (\<lambda>found.
       give ((case r of None \<Rightarrow> [] | Some v \<Rightarrow> [(role, v)]) @ found)))"

definition check_roles :: "audit_world \<Rightarrow> string \<Rightarrow> string \<Rightarrow> (string \<times> py) list act" where
  "check_roles w base_url auth = and_then (hdr ''Section 8'') (\<lambda>_. check_role_list w base_url auth demo_roles)"

section \<open>Section 8b: the scopes of the roles\<close>

text \<open>Permissions are plain names or dictionaries, depending on the version of the server.\<close>

definition attached_name :: "py \<Rightarrow> py list res" where
  "attached_name x =
     (case x of
        PStr s \<Rightarrow> Inr [x]
      | PDict d \<Rightarrow>
         (let v = (if truthy (pyget d ''value'') then pyget d ''value''
                   else if truthy (pyget d ''display'') then pyget d ''display'' else pyget d ''name'')
          in if \<not> truthy v then Inr [] else if unhashable v then Inl (EPy ''TypeError'') else Inr [v])
      | _ \<Rightarrow> Inr [])"

text \<open>\<open>sorted\<close> on a set compares its members, which raises for a text and a number.\<close>

definition sortable :: "py list \<Rightarrow> bool" where
  "sortable xs \<longleftrightarrow> length (remdups xs) \<le> 1 \<or> (\<forall>x \<in> set xs. is_str x) \<or> (\<forall>x \<in> set xs. \<not> is_str x)"

text \<open>The full record when it can be fetched and read, else the one of the listing.\<close>

definition full_record :: "audit_world \<Rightarrow> string \<Rightarrow> string \<Rightarrow> py \<Rightarrow> py act" where
  "full_record w base_url auth record =
     and_then (lift_res (obj_get record ''id'')) (\<lambda>rid.
       if \<not> truthy rid then give record
       else and_then (http_get w (base_url @ ''/scim2/v2/Roles/'' @ py_str rid) (accept_scim auth)) (\<lambda>(code, body).
         give (if code = 200 then (case load_json w body of Inr v \<Rightarrow> v | Inl e \<Rightarrow> record) else record)))"

definition check_role_binding :: "audit_world \<Rightarrow> string \<Rightarrow> string \<Rightarrow> (string \<times> py) list \<Rightarrow> string \<times> string list \<Rightarrow> unit act" where
  "check_role_binding w base_url auth roles = (\<lambda>(role, expected).
     let listed = pyget roles role; label = ''role '' @ role @ '' bindings''
     in if \<not> truthy listed then warn label
        else and_then (full_record w base_url auth listed) (\<lambda>record.
             and_then (lift_res (member_or_list record ''permissions'')) (\<lambda>permissions.
             and_then (lift_res (py_iter permissions)) (\<lambda>xs.
             and_then (lift_res (gather attached_name xs)) (\<lambda>attached.
               let extra = filter (\<lambda>v. v \<notin> set (map PStr expected)) attached
               in if missing_from expected attached \<noteq> [] then bad label
                  else and_then (ok (''role '' @ role)) (\<lambda>_.
                    if extra = [] then give ()
                    else if sortable extra then warn (''role '' @ role @ '' extras'') else raises (EPy ''TypeError'')))))))"

definition check_role_scope_bindings :: "audit_world \<Rightarrow> string \<Rightarrow> string \<Rightarrow> (string \<times> py) list \<Rightarrow> unit act" where
  "check_role_scope_bindings w base_url auth roles =
     and_then (hdr ''Section 8b'') (\<lambda>_. each (check_role_binding w base_url auth roles) expected_role_scopes)"

section \<open>Section 9: the attributes of the users\<close>

definition email_entry :: "py \<Rightarrow> bool" where
  "email_entry e = (case e of PDict d \<Rightarrow> truthy (pyget d ''value'') | PStr s \<Rightarrow> s \<noteq> [] | _ \<Rightarrow> False)"

text \<open>Whether the record has a name and an email; the split of the name raises on another truthy value.\<close>

definition user_attributes :: "py \<Rightarrow> (bool \<times> bool) res" where
  "user_attributes u =
     (case (obj_get u ''userName'', member_or_list u ''emails'') of
        (Inr uname, Inr emails) \<Rightarrow>
          (if truthy uname \<and> \<not> is_str uname then Inl (EPy ''AttributeError'')
           else case py_iter emails of Inl e \<Rightarrow> Inl e | Inr xs \<Rightarrow> Inr (truthy uname, \<exists>x \<in> set xs. email_entry x))
      | _ \<Rightarrow> Inl (EPy ''AttributeError''))"

definition check_user_attribute :: "audit_world \<Rightarrow> string \<Rightarrow> string \<Rightarrow> string \<Rightarrow> unit act" where
  "check_user_attribute w base_url auth username =
     (let label = ''user '' @ username @ '' attributes''
      in and_then (http_get w (user_url base_url username) (accept_scim auth)) (\<lambda>(code, body).
           if code \<noteq> 200 then warn label
           else case load_member w body ''Resources'' of
                  Inl e \<Rightarrow> bad label
                | Inr resources \<Rightarrow>
                   if \<not> truthy resources then bad label
                   else and_then (lift_res (first_item resources)) (\<lambda>u.
                        and_then (lift_res (user_attributes u)) (\<lambda>(has_username, has_email).
                          if has_username \<and> has_email then ok (''user '' @ username @ '' has userName + email set'') else bad label))))"

definition check_user_attributes :: "audit_world \<Rightarrow> string \<Rightarrow> string \<Rightarrow> unit act" where
  "check_user_attributes w base_url auth =
     and_then (hdr ''Section 9'') (\<lambda>_. each (check_user_attribute w base_url auth) demo_users)"

section \<open>Environment files\<close>

text \<open>\<open>str.splitlines\<close> on the line ends of code points 0 to 255.\<close>

definition line_end :: "char \<Rightarrow> bool" where
  "line_end c = (let n = (of_char c :: nat) in (10 \<le> n \<and> n \<le> 13) \<or> (28 \<le> n \<and> n \<le> 30) \<or> n = 133)"

fun lines_acc :: "string \<Rightarrow> string \<Rightarrow> string list" where
  "lines_acc acc [] = (if acc = [] then [] else [rev acc])"
| "lines_acc acc [c] = (if line_end c then [rev acc] else [rev (c # acc)])"
| "lines_acc acc (c # d # cs) =
     (if c = CHR 0x0D \<and> d = CHR 0x0A then rev acc # lines_acc [] cs
      else if line_end c then rev acc # lines_acc [] (d # cs) else lines_acc (c # acc) (d # cs))"

definition splitlines :: "string \<Rightarrow> string list" where
  "splitlines s = lines_acc [] s"

definition strip_chars :: "char \<Rightarrow> string \<Rightarrow> string" where
  "strip_chars c s = rev (dropWhile (\<lambda>x. x = c) (rev (dropWhile (\<lambda>x. x = c) s)))"

definition env_line :: "string \<Rightarrow> (string \<times> string) option" where
  "env_line raw =
     (let l = py_strip raw
      in if l = [] \<or> prefix ''#'' l \<or> CHR ''='' \<notin> set l then None
         else Some (py_strip (takeWhile (\<lambda>c. c \<noteq> CHR ''='') l),
                    strip_chars (CHR 0x27) (strip_chars (CHR 0x22) (py_strip (tl (dropWhile (\<lambda>c. c \<noteq> CHR ''='') l))))))"

definition load_env_file :: "(string \<Rightarrow> string option) \<Rightarrow> string \<Rightarrow> environ" where
  "load_env_file files path =
     (case files path of
        None \<Rightarrow> []
      | Some content \<Rightarrow> fold (\<lambda>(k, v). AList.update k v) (List.map_filter env_line (splitlines content)) [])"

definition resolved :: "environ \<Rightarrow> string \<Rightarrow> environ \<Rightarrow> string \<Rightarrow> string" where
  "resolved env name env_file dflt = or_else (or_empty (map_of env name)) (or_else (or_empty (map_of env_file name)) dflt)"

section \<open>The whole audit\<close>

definition summarise :: "int act" where
  "summarise = and_then (hdr ''Summary'') (\<lambda>_ a. (Inr (if 0 < co_fails (au_counters a) then 1 else 0), a))"

definition audit_client_ids :: "environ \<Rightarrow> environ \<Rightarrow> (string \<times> string) list" where
  "audit_client_ids env env_file =
     filter (\<lambda>(k, v). v \<noteq> [])
       [(''orchestrator-mcp-client'', resolved env ''ORCHESTRATOR_MCP_CLIENT_ID'' env_file []),
        (''orchestrator-agent-oauth'', resolved env ''ORCHESTRATOR_AGENT_OAUTH_CLIENT_ID'' env_file []),
        (''hr_agent OAuth App'', resolved env ''HR_AGENT_OAUTH_CLIENT_ID'' env_file []),
        (''it_agent OAuth App'', resolved env ''IT_AGENT_OAUTH_CLIENT_ID'' env_file [])]"

text \<open>The credentials of one agent from the variables with its prefix.\<close>

definition audit_agent_of :: "environ \<Rightarrow> environ \<Rightarrow> string \<Rightarrow> string \<Rightarrow> string \<Rightarrow> string \<Rightarrow> audit_agent" where
  "audit_agent_of env env_file label p redirect_name redirect_default =
     \<lparr>aa_label = label,
      aa_agent_id = resolved env (p @ ''_AGENT_ID'') env_file [],
      aa_agent_secret = resolved env (p @ ''_AGENT_SECRET'') env_file [],
      aa_oauth_client_id = resolved env (p @ ''_AGENT_OAUTH_CLIENT_ID'') env_file [],
      aa_oauth_client_secret = resolved env (p @ ''_AGENT_OAUTH_CLIENT_SECRET'') env_file [],
      aa_redirect_uri = resolved env redirect_name env_file redirect_default\<rparr>"

definition audit_agents :: "environ \<Rightarrow> environ \<Rightarrow> environ \<Rightarrow> environ \<Rightarrow> audit_agent list" where
  "audit_agents env env_file hr_env it_env =
     filter (\<lambda>a. \<exists>x \<in> {aa_agent_id a, aa_agent_secret a, aa_oauth_client_id a, aa_oauth_client_secret a}. x \<noteq> [])
       [audit_agent_of env env_file ''orchestrator-agent'' ''ORCHESTRATOR'' ''ORCHESTRATOR_MCP_CLIENT_REDIRECT_URI''
          ''http://localhost:8090/agent-callback'',
        audit_agent_of env hr_env ''hr-agent'' ''HR'' ''HR_AGENT_REDIRECT_URI'' ''http://localhost:9999/agent-callback'',
        audit_agent_of env it_env ''it-agent'' ''IT'' ''IT_AGENT_REDIRECT_URI'' ''http://localhost:9999/agent-callback'']"

text \<open>The sections after the third, in order.\<close>

definition audit_sections ::
  "audit_world \<Rightarrow> environ \<Rightarrow> environ \<Rightarrow> audit_agent list \<Rightarrow> string \<Rightarrow> string \<Rightarrow> unit act"
where
  "audit_sections w env env_file agents base_url auth =
     and_then (check_applications w base_url auth (audit_client_ids env env_file)) (\<lambda>_.
     and_then (check_orchestrator_subscriptions w base_url auth (resolved env ''ORCHESTRATOR_MCP_CLIENT_ID'' env_file [])
       (resolved env ''POST_LOGOUT_REDIRECT_URI'' env_file ''http://localhost:8090/'')) (\<lambda>_.
     and_then (check_agent_app_subscriptions w base_url auth (resolved env ''HR_AGENT_OAUTH_CLIENT_ID'' env_file [])
       (resolved env ''IT_AGENT_OAUTH_CLIENT_ID'' env_file [])) (\<lambda>_.
     and_then (check_agent_appnative_auth w base_url agents) (\<lambda>_.
     and_then (check_api_resources w base_url auth
       [env_get env ''HR_API_RESOURCE_NAME'' ''hr_server-api'', ''HR API'', ''urn:hr:api'']
       [env_get env ''IT_API_RESOURCE_NAME'' ''it_server-api'', ''IT API'', ''urn:it:api'']) (\<lambda>resources.
     and_then (check_scopes w base_url auth resources) (\<lambda>_.
     and_then (check_users w base_url auth) (\<lambda>_.
     and_then (check_agents w base_url auth) (\<lambda>_.
     and_then (check_roles w base_url auth) (\<lambda>roles.
     and_then (check_role_scope_bindings w base_url auth roles) (\<lambda>_.
       check_user_attributes w base_url auth))))))))))"

definition audit_base_url :: "environ \<Rightarrow> string option \<Rightarrow> string" where
  "audit_base_url env base_arg = or_else (or_empty base_arg) (or_else (or_empty (map_of env ''IS_BASE_URL'')) ''https://13.60.190.47:9443'')"

definition audit_auth :: "environ \<Rightarrow> string" where
  "audit_auth env = basic_auth_header (env_get env ''IS_ADMIN_USER'' ''admin'') (env_get env ''IS_ADMIN_PASS'' ''admin'')"

text \<open>
  \<open>main\<close>: the options of the command line are \<open>base_arg\<close> and \<open>env_path\<close>; \<open>hr_path\<close> and \<open>it_path\<close>
  are the environment files of the two agents.
\<close>

definition audit_main ::
  "audit_world \<Rightarrow> environ \<Rightarrow> (string \<Rightarrow> string option) \<Rightarrow> string option \<Rightarrow> string \<Rightarrow> string \<Rightarrow> string \<Rightarrow> int act"
where
  "audit_main w env files base_arg env_path hr_path it_path =
     (let env_file = load_env_file files env_path;
          base_url = audit_base_url env base_arg;
          auth = audit_auth env;
          agents = audit_agents env env_file (load_env_file files hr_path) (load_env_file files it_path)
      in and_then (check_connectivity w base_url) (\<lambda>_.
         and_then (check_jwks w base_url) (\<lambda>_.
         and_then (check_mgmt_api_auth w base_url auth) (\<lambda>accepted.
           if \<not> accepted then and_then summarise (\<lambda>_. give 1)
           else and_then (audit_sections w env env_file agents base_url auth) (\<lambda>_. summarise)))))"

end
