(* ===== verification/IsAuditProps.thy ===== *)
theory IsAuditProps
  imports IsAudit ItTools Reports
begin

text \<open>
  What a run of the audit says about the identity server: the status agrees with the printed
  lines, and a run without a failure or a warning has seen the two roles carry exactly the
  scopes the inventory gives them, which are the ones the routes of the services demand.
\<close>

section \<open>Every section is regular\<close>

fun fail_label :: "audit_line \<Rightarrow> string option" where
  "fail_label (FailLine l) = Some l"
| "fail_label _ = None"

fun is_pass :: "audit_line \<Rightarrow> bool" where
  "is_pass (PassLine l) = True"
| "is_pass _ = False"

fun is_warn :: "audit_line \<Rightarrow> bool" where
  "is_warn (WarnLine l) = True"
| "is_warn _ = False"

text \<open>The counters are those of the printed lines.\<close>

definition counts :: "audit_line list \<Rightarrow> counters" where
  "counts ls = \<lparr>co_passes = length (filter is_pass ls), co_fails = length (List.map_filter fail_label ls),
     co_warns = length (filter is_warn ls), co_failed_checks = List.map_filter fail_label ls\<rparr>"

definition tally :: "audit \<Rightarrow> bool" where
  "tally a \<longleftrightarrow> au_counters a = counts (au_printed a)"

text \<open>It only prints further lines, keeps the tally, and asks no less than before.\<close>

definition regular :: "'a act \<Rightarrow> bool" where
  "regular m \<longleftrightarrow> (\<forall>a. prefix (au_printed a) (au_printed (snd (m a))) \<and> (tally a \<longrightarrow> tally (snd (m a))))"

named_theorems regular_intros

lemma regular_give [regular_intros]: "regular (give x)"
  and regular_raises [regular_intros]: "regular (raises e)"
  and regular_lift [regular_intros]: "regular (lift_res r)"
  and regular_ask [regular_intros]: "regular (ask w rq)"
  by (simp_all add: regular_def give_def raises_def lift_res_def ask_def tally_def)

lemma regularI:
  assumes "\<And>a r a'. m a = (r, a') \<Longrightarrow> prefix (au_printed a) (au_printed a') \<and> (tally a \<longrightarrow> tally a')"
  shows "regular m"
  using assms [OF prod.collapse [symmetric]] by (simp add: regular_def)

lemma regularD: "regular m \<Longrightarrow> m a = (r, a') \<Longrightarrow> prefix (au_printed a) (au_printed a') \<and> (tally a \<longrightarrow> tally a')"
  unfolding regular_def by (metis snd_conv)

lemma regular_and_then [regular_intros]:
  assumes "regular m" "\<And>x. regular (k x)"
  shows "regular (and_then m k)"
proof (rule regularI)
  fix a r a' assume run: "and_then m k a = (r, a')"
  obtain r1 a1 where m: "m a = (r1, a1)" by force
  note d = regularD [OF assms(1) m]
  show "prefix (au_printed a) (au_printed a') \<and> (tally a \<longrightarrow> tally a')"
  proof (cases r1)
    case (Inl e)
    with run m d show ?thesis by (auto simp: and_then_def)
  next
    case (Inr x)
    with run m have "k x a1 = (r, a')" by (simp add: and_then_def)
    from regularD [OF assms(2) this] d show ?thesis using prefix_order.trans by blast
  qed
qed

lemma regular_lines [regular_intros]: "regular (hdr l)" "regular (ok l)" "regular (bad l)" "regular (warn l)"
  by (auto simp: regular_def hdr_def ok_def bad_def warn_def and_then_def print_line_def count_check_def tally_def counts_def
      List.map_filter_def)

lemma regular_each [regular_intros]: "(\<And>x. regular (f x)) \<Longrightarrow> regular (each f xs)"
  by (induction xs) (auto intro: regular_intros)

lemma regular_cases [regular_intros]:
  "regular m \<Longrightarrow> regular m' \<Longrightarrow> regular (if c then m else m')"
  "(\<And>x y. regular (f x y)) \<Longrightarrow> regular (case_prod f p)"
  "(\<And>e. regular (g e)) \<Longrightarrow> (\<And>x. regular (h x)) \<Longrightarrow> regular (case_sum g h s)"
  "regular m \<Longrightarrow> (\<And>x. regular (h x)) \<Longrightarrow> regular (case_option m h r)"
  for h :: "_ \<Rightarrow> _ act"
  by (simp_all split: prod.splits sum.splits option.splits)

lemma regular_http [regular_intros]:
  "regular (http_get w url hs)" "regular (http_post_form w url form hs)" "regular (http_post_json w url v)"
  by (simp_all add: http_get_def http_post_form_def http_post_json_def regular_intros)

lemma regular_sections [regular_intros]:
  "regular (check_connectivity w base_url)" "regular (check_jwks w base_url)" "regular (check_mgmt_api_auth w base_url auth)"
  "regular (check_applications w base_url auth ids)"
  unfolding check_connectivity_def check_jwks_def check_mgmt_api_auth_def check_applications_def check_application_def
  by (intro regular_intros)+

lemma regular_subscriptions [regular_intros]:
  "regular (audit_scopes label expected xs)" "regular (find_app w base_url auth client_id label)"
  "regular (authorized_apis w base_url auth app_id label)" "regular (app_document w url auth label)"
  "regular (app_authorized_scopes_by_api w base_url auth client_id label)"
  unfolding audit_scopes_def find_app_def authorized_apis_def app_document_def app_authorized_scopes_by_api_def
  by (intro regular_intros)+

lemma regular_py_cases [regular_intros]:
  "(\<And>s. regular (f s)) \<Longrightarrow> regular (g) \<Longrightarrow> regular (case v of PStr s \<Rightarrow> f s | _ \<Rightarrow> g)"
  "(\<And>x xs. regular (h x xs)) \<Longrightarrow> regular g \<Longrightarrow> regular (case v of PList (x # xs) \<Rightarrow> h x xs | _ \<Rightarrow> g)"
  by (simp_all split: py.splits list.splits)

lemma regular_client [regular_intros]:
  "regular (check_role_audience w base_url auth app_id)" "regular (check_oidc_config w base_url auth app_id uri)"
  unfolding check_role_audience_def check_oidc_config_def by (intro regular_intros)+

lemma regular_login_client [regular_intros]: "regular (check_orchestrator_subscriptions w base_url auth client_id uri)"
  unfolding check_orchestrator_subscriptions_def
  by (intro regular_intros)

lemma regular_agents [regular_intros]:
  "regular (check_agent_app_subscriptions w base_url auth hr it)" "regular (check_agent_appnative_auth w base_url agents)"
  unfolding check_agent_app_subscriptions_def check_agent_appnative_auth_def check_agent_auth_def appnative_auth_probe_def
    probe_authn_def probe_token_def Let_def
  by (intro regular_intros)+

lemma regular_resources [regular_intros]:
  "regular (check_api_resources w base_url auth hr it)" "regular (check_scopes w base_url auth rs)"
  unfolding check_api_resources_def match_resource_def check_scopes_def audit_resource_def Let_def by (intro regular_intros)+

lemma regular_role [regular_intros]: "regular (check_role w base_url auth role)"
  unfolding check_role_def by (intro regular_intros)

lemma regular_role_list [regular_intros]: "regular (check_role_list w base_url auth roles)"
  by (induction roles) (auto intro!: regular_intros)

lemma regular_binding [regular_intros]:
  "regular (full_record w base_url auth record)" "regular (check_role_binding w base_url auth roles p)"
  unfolding full_record_def check_role_binding_def Let_def by (intro regular_intros)+

lemma regular_users [regular_intros]:
  "regular (check_users w base_url auth)" "regular (check_agents w base_url auth)" "regular (check_roles w base_url auth)"
  "regular (check_role_scope_bindings w base_url auth roles)" "regular (check_user_attributes w base_url auth)"
  unfolding check_users_def check_user_def check_agents_def check_roles_def check_role_scope_bindings_def
    check_user_attributes_def check_user_attribute_def Let_def
  by (intro regular_intros)+

lemma regular_audit [regular_intros]: "regular (audit_sections w env env_file agents base_url auth)"
  unfolding audit_sections_def by (intro regular_intros)

section \<open>The status\<close>

text \<open>
  The status tells the truth about what was printed: a run of the audit that returns gives 0
  exactly when no check printed a failure, else 1, and its counters and its list of failed
  checks are those of the printed lines, in order.
\<close>

lemma summarise_run: "summarise a = (r, a') \<Longrightarrow> r = Inr (if 0 < co_fails (au_counters a) then 1 else 0)
    \<and> au_counters a' = au_counters a \<and> au_printed a' = au_printed a @ [HeaderLine ''Summary'']"
  by (auto simp: summarise_def and_then_def hdr_def print_line_def)

lemma regular_summarise [regular_intros]: "regular summarise"
  by (rule regularI) (auto dest!: summarise_run simp: tally_def counts_def List.map_filter_def)

lemma mgmt_refused: "check_mgmt_api_auth w base_url auth a = (Inr False, a') \<Longrightarrow> \<exists>l. FailLine l \<in> set (au_printed a')"
  by (auto simp: check_mgmt_api_auth_def and_then_def hdr_def http_get_def ask_def bad_def ok_def print_line_def count_check_def
      give_def split: prod.splits if_splits)

lemma no_fails: "List.map_filter fail_label ls = [] \<longleftrightarrow> (\<forall>l. FailLine l \<notin> set ls)"
proof
  assume "List.map_filter fail_label ls = []"
  then show "\<forall>l. FailLine l \<notin> set ls" by (induction ls) (auto simp: List.map_filter_simps split: option.splits)
next
  assume "\<forall>l. FailLine l \<notin> set ls"
  then show "List.map_filter fail_label ls = []"
  proof (induction ls)
    case (Cons x ls)
    then show ?case by (cases x) (auto simp: List.map_filter_simps)
  qed (simp add: List.map_filter_simps)
qed

lemma audit_tail_status:
  assumes "and_then m (\<lambda>_. summarise) a = (Inr s, a')" "regular m" "tally a"
  shows "s = (if List.map_filter fail_label (au_printed a') = [] then 0 else 1) \<and> tally a'"
proof -
  obtain x a1 where m: "m a = (Inr x, a1)" and f: "summarise a1 = (Inr s, a')"
    using assms(1) by (auto simp: and_then_def split: prod.splits sum.splits)
  have t: "tally a1" using regularD [OF assms(2) m] assms(3) by blast
  have "List.map_filter fail_label (au_printed a') = List.map_filter fail_label (au_printed a1)"
    using summarise_run [OF f] by (simp add: List.map_filter_def)
  then show ?thesis
    using summarise_run [OF f] t regularD [OF regular_summarise f] by (auto simp: tally_def counts_def)
qed

text \<open>How \<open>main\<close> gets to its status.\<close>

lemma audit_main_run:
  assumes "audit_main w env files base_arg env_path hr_path it_path a = (Inr s, a')" and "tally a"
  shows "\<exists>a3 agents. tally a3 \<and>
    (((\<exists>l. FailLine l \<in> set (au_printed a3)) \<and> and_then summarise (\<lambda>_. give 1) a3 = (Inr s, a'))
     \<or> and_then (audit_sections w env (load_env_file files env_path) agents (audit_base_url env base_arg) (audit_auth env)) (\<lambda>_. summarise) a3
       = (Inr s, a'))"
proof -
  let ?b = "audit_base_url env base_arg" and ?u = "audit_auth env"
  obtain a1 a2 acc a3 where c: "check_connectivity w ?b a = (Inr (), a1)" "check_jwks w ?b a1 = (Inr (), a2)"
    "check_mgmt_api_auth w ?b ?u a2 = (Inr acc, a3)"
    and r: "(if \<not> acc then and_then summarise (\<lambda>_. give 1)
       else and_then (audit_sections w env (load_env_file files env_path)
         (audit_agents env (load_env_file files env_path) (load_env_file files hr_path) (load_env_file files it_path)) ?b ?u) (\<lambda>_. summarise)) a3
       = (Inr s, a')"
    using assms(1) by (auto simp: audit_main_def Let_def and_then_def [of "check_connectivity w ?b"] and_then_def [of "check_jwks w ?b"]
        and_then_def [of "check_mgmt_api_auth w ?b ?u"] split: prod.splits sum.splits)
  note g = regularD [OF regular_sections(1) c(1)] regularD [OF regular_sections(2) c(2)] regularD [OF regular_sections(3) c(3)]
  have "tally a3" using g assms(2) by blast
  then show ?thesis using r mgmt_refused [of w ?b ?u a2 a3] c(3) by (cases acc) auto
qed

theorem audit_status:
  assumes "audit_main w env files base_arg env_path hr_path it_path new_audit = (Inr s, a)"
  shows "(s = 0 \<longleftrightarrow> (\<forall>l. FailLine l \<notin> set (au_printed a))) \<and> s \<in> {0, 1} \<and> tally a"
proof -
  have t0: "tally new_audit" by (simp add: tally_def new_audit_def counts_def List.map_filter_simps)
  from audit_main_run [OF assms t0] obtain a3 agents where t: "tally a3"
    and r: "((\<exists>l. FailLine l \<in> set (au_printed a3)) \<and> and_then summarise (\<lambda>_. give 1) a3 = (Inr s, a))
     \<or> and_then (audit_sections w env (load_env_file files env_path) agents (audit_base_url env base_arg) (audit_auth env)) (\<lambda>_. summarise) a3
       = (Inr s, a)" by blast
  from r show ?thesis
  proof
    assume early: "(\<exists>l. FailLine l \<in> set (au_printed a3)) \<and> and_then summarise (\<lambda>_. give 1) a3 = (Inr s, a)"
    then obtain x a4 where f: "summarise a3 = (Inr x, a4)" and "s = 1" "a = a4"
      by (auto simp: and_then_def give_def split: prod.splits sum.splits)
    then show ?thesis using early t summarise_run [OF f] regularD [OF regular_summarise f] by auto
  next
    assume "and_then (audit_sections w env (load_env_file files env_path) agents (audit_base_url env base_arg) (audit_auth env)) (\<lambda>_. summarise) a3
       = (Inr s, a)"
    from audit_tail_status [OF this regular_audit t] show ?thesis by (auto simp: no_fails)
  qed
qed

section \<open>Clean runs\<close>

definition quiet :: "audit_line list \<Rightarrow> bool" where
  "quiet ls \<longleftrightarrow> (\<forall>l. FailLine l \<notin> set ls \<and> WarnLine l \<notin> set ls)"

text \<open>A run that returns and has printed neither a failure nor a warning, then or before.\<close>

definition clean_run :: "'a act \<Rightarrow> audit \<Rightarrow> 'a \<Rightarrow> audit \<Rightarrow> bool" where
  "clean_run m a x a' \<longleftrightarrow> m a = (Inr x, a') \<and> quiet (au_printed a')"

lemma quiet_prefix: "prefix ls ls' \<Longrightarrow> quiet ls' \<Longrightarrow> quiet ls"
  by (auto simp: quiet_def prefix_def)

lemma clean_and_then:
  assumes "clean_run (and_then m k) a y a''" "\<And>x. regular (k x)"
  obtains x a' where "clean_run m a x a'" "clean_run (k x) a' y a''"
proof -
  obtain x a' where m: "m a = (Inr x, a')" and k: "k x a' = (Inr y, a'')"
    using assms(1) by (auto simp: clean_run_def and_then_def split: prod.splits sum.splits)
  have "quiet (au_printed a')"
    using regularD [OF assms(2) k] quiet_prefix assms(1) by (auto simp: clean_run_def)
  with m k that assms(1) show thesis by (simp add: clean_run_def)
qed

lemma clean_each:
  "clean_run (each f xs) a y a' \<Longrightarrow> (\<And>x. regular (f x)) \<Longrightarrow> x \<in> set xs \<Longrightarrow> \<exists>b b'. clean_run (f x) b () b'"
proof (induction xs arbitrary: a)
  case (Cons z zs)
  from Cons.prems(1) [unfolded each.simps] obtain u b where b: "clean_run (f z) a u b" "clean_run (each f zs) b y a'"
    by (rule clean_and_then) (auto intro: regular_intros Cons.prems(2))
  then show ?case using Cons.IH [OF b(2) Cons.prems(2)] Cons.prems(3) by auto
qed simp

lemma not_clean [simp]: "\<not> clean_run (bad l) a x a'" "\<not> clean_run (warn l) a x a'" "\<not> clean_run (raises e) a x a'"
  by (auto simp: clean_run_def bad_def warn_def raises_def and_then_def print_line_def count_check_def quiet_def)

lemma clean_lift [simp]: "clean_run (lift_res r) a x a' \<longleftrightarrow> r = Inr x \<and> a' = a \<and> quiet (au_printed a)"
  and clean_give [simp]: "clean_run (give v) a x a' \<longleftrightarrow> x = v \<and> a' = a \<and> quiet (au_printed a)"
  by (auto simp: clean_run_def lift_res_def give_def)

lemma clean_not_then [simp]:
  "\<not> clean_run (and_then (bad l) (\<lambda>_. give y)) a x a'" "\<not> clean_run (and_then (warn l) (\<lambda>_. give y)) a x a'"
  by (auto elim!: clean_and_then intro: regular_intros)

lemma clean_get: "clean_run (http_get w url hs) a (c, body) a' \<Longrightarrow>
    reply_pair (aw_net w (au_asked a) \<lparr>rq_url = url, rq_headers = hs, rq_body = NoBody\<rparr>) = (c, body)"
  by (simp add: clean_run_def http_get_def ask_def)

section \<open>What a clean_run run has seen of the roles\<close>

definition answered :: "audit_world \<Rightarrow> string \<Rightarrow> string \<Rightarrow> string \<Rightarrow> bool" where
  "answered w auth url body \<longleftrightarrow>
     (\<exists>n. reply_pair (aw_net w n \<lparr>rq_url = url, rq_headers = accept_scim auth, rq_body = NoBody\<rparr>) = (200, body))"

text \<open>The first record an answer lists for a role.\<close>

definition listed_role :: "audit_world \<Rightarrow> string \<Rightarrow> string \<Rightarrow> string \<Rightarrow> py \<Rightarrow> bool" where
  "listed_role w base_url auth role listed \<longleftrightarrow>
     (\<exists>body rs. answered w auth (role_list_url base_url role) body \<and> load_member w body ''Resources'' = Inr rs \<and> first_item rs = Inr listed)"

text \<open>The scopes an answered record of the role carries.\<close>

definition role_scopes_seen :: "audit_world \<Rightarrow> string \<Rightarrow> string \<Rightarrow> string \<Rightarrow> py list \<Rightarrow> bool" where
  "role_scopes_seen w base_url auth role attached \<longleftrightarrow>
     (\<exists>listed record permissions xs. listed_role w base_url auth role listed
        \<and> (record = listed \<or> (\<exists>i body. obj_get listed ''id'' = Inr i
             \<and> answered w auth (base_url @ ''/scim2/v2/Roles/'' @ py_str i) body \<and> load_json w body = Inr record))
        \<and> member_or_list record ''permissions'' = Inr permissions \<and> py_iter permissions = Inr xs
        \<and> gather attached_name xs = Inr attached)"

lemma clean_answered: "clean_run (http_get w url (accept_scim auth)) a (200, body) a' \<Longrightarrow> answered w auth url body"
  using clean_get by (fastforce simp: answered_def)

lemma clean_check_role:
  assumes "clean_run (check_role w b u role) a r a'"
  shows "\<exists>listed. r = Some listed \<and> listed_role w b u role listed"
proof -
  from assms [unfolded check_role_def] obtain p a1 where g: "clean_run (http_get w (role_list_url b role) (accept_scim u)) a p a1"
    and c: "clean_run (case p of (code, body) \<Rightarrow> if code \<noteq> 200 then and_then (warn (''role '' @ role)) (\<lambda>_. give None)
       else case load_member w body ''Resources'' of
              Inl e \<Rightarrow> and_then (bad (''role '' @ role)) (\<lambda>_. give None)
            | Inr resources \<Rightarrow>
               if \<not> truthy resources then and_then (bad (''role '' @ role)) (\<lambda>_. give None)
               else and_then (ok (''role '' @ role @ '' exists'')) (\<lambda>_.
                    and_then (lift_res (first_item resources)) (\<lambda>r. give (Some r)))) a1 r a'"
    by (rule clean_and_then) (intro regular_intros)
  obtain body where p: "p = (200, body)" using c by (cases p) (auto split: if_splits)
  obtain rs where rs: "load_member w body ''Resources'' = Inr rs" using c by (auto simp: p split: sum.splits)
  have "clean_run (and_then (ok (''role '' @ role @ '' exists'')) (\<lambda>_. and_then (lift_res (first_item rs)) (\<lambda>r. give (Some r)))) a1 r a'"
    using c by (auto simp: p rs split: if_splits)
  then obtain x a2 where "clean_run (and_then (lift_res (first_item rs)) (\<lambda>r. give (Some r))) a2 r a'"
    by (rule clean_and_then) (intro regular_intros)
  then obtain listed a3 where "first_item rs = Inr listed" "r = Some listed"
    by (rule clean_and_then) (auto intro: regular_intros)
  then show ?thesis using clean_answered [OF g [unfolded p]] rs by (auto simp: listed_role_def)
qed

lemma clean_role_list:
  "clean_run (check_role_list w b u roles) a out a' \<Longrightarrow> role \<in> set roles \<Longrightarrow>
     \<exists>listed. map_of out role = Some listed \<and> listed_role w b u role listed"
proof (induction roles arbitrary: a a' out)
  case (Cons x xs)
  from Cons.prems(1) [unfolded check_role_list.simps] obtain r a1 where c: "clean_run (check_role w b u x) a r a1"
    and k: "clean_run (and_then (check_role_list w b u xs) (\<lambda>found. give ((case r of None \<Rightarrow> [] | Some v \<Rightarrow> [(x, v)]) @ found))) a1 out a'"
    by (rule clean_and_then) (intro regular_intros)
  from k obtain found a2 where l: "clean_run (check_role_list w b u xs) a1 found a2"
    and o: "clean_run (give ((case r of None \<Rightarrow> [] | Some v \<Rightarrow> [(x, v)]) @ found)) a2 out a'"
    by (rule clean_and_then) (intro regular_intros)
  show ?case
    using clean_check_role [OF c] Cons.IH [OF l] Cons.prems(2) o by (cases "role = x") auto
qed simp

lemma clean_full_record:
  assumes "clean_run (full_record w b u listed) a record a'"
  shows "record = listed \<or> (\<exists>i body. obj_get listed ''id'' = Inr i
             \<and> answered w u (b @ ''/scim2/v2/Roles/'' @ py_str i) body \<and> load_json w body = Inr record)"
proof -
  from assms [unfolded full_record_def] obtain i a1 where i: "clean_run (lift_res (obj_get listed ''id'')) a i a1"
    and c: "clean_run (if \<not> truthy i then give listed
       else and_then (http_get w (b @ ''/scim2/v2/Roles/'' @ py_str i) (accept_scim u)) (\<lambda>(code, body).
         give (if code = 200 then (case load_json w body of Inr v \<Rightarrow> v | Inl e \<Rightarrow> listed) else listed))) a1 record a'"
    by (rule clean_and_then) (intro regular_intros)
  show ?thesis
  proof (cases "truthy i")
    case True
    with c have "clean_run (and_then (http_get w (b @ ''/scim2/v2/Roles/'' @ py_str i) (accept_scim u)) (\<lambda>(code, body).
         give (if code = 200 then (case load_json w body of Inr v \<Rightarrow> v | Inl e \<Rightarrow> listed) else listed))) a1 record a'" by simp
    then obtain p a2 where g: "clean_run (http_get w (b @ ''/scim2/v2/Roles/'' @ py_str i) (accept_scim u)) a1 p a2"
      and r: "clean_run (case p of (code, body) \<Rightarrow>
         give (if code = 200 then (case load_json w body of Inr v \<Rightarrow> v | Inl e \<Rightarrow> listed) else listed)) a2 record a'"
      by (rule clean_and_then) (intro regular_intros)
    then show ?thesis using i clean_answered by (cases p) (auto split: if_splits sum.splits)
  qed (use c in simp)
qed

lemma clean_binding:
  assumes "clean_run (check_role_binding w b u roles (role, expected)) a () a'" and "map_of roles role = Some listed"
    and "listed_role w b u role listed"
  shows "\<exists>attached. role_scopes_seen w b u role attached \<and> set attached = PStr ` set expected"
proof -
  let ?last = "\<lambda>attached. if missing_from expected attached \<noteq> [] then bad (''role '' @ role @ '' bindings'')
     else and_then (ok (''role '' @ role)) (\<lambda>_. if filter (\<lambda>v. v \<notin> set (map PStr expected)) attached = [] then give ()
        else if sortable (filter (\<lambda>v. v \<notin> set (map PStr expected)) attached) then warn (''role '' @ role @ '' extras'')
        else raises (EPy ''TypeError''))"
  have "pyget roles role = listed" using assms(2) by (simp add: pyget_def)
  then have "clean_run (and_then (full_record w b u listed) (\<lambda>record. and_then (lift_res (member_or_list record ''permissions'')) (\<lambda>permissions.
      and_then (lift_res (py_iter permissions)) (\<lambda>xs. and_then (lift_res (gather attached_name xs)) ?last)))) a () a'"
    using assms(1) by (simp only: check_role_binding_def Let_def prod.case append_assoc split: if_splits) simp
  then obtain rcd a1 where full: "clean_run (full_record w b u listed) a rcd a1"
    and "clean_run (and_then (lift_res (member_or_list rcd ''permissions'')) (\<lambda>permissions.
      and_then (lift_res (py_iter permissions)) (\<lambda>xs. and_then (lift_res (gather attached_name xs)) ?last))) a1 () a'"
    by (rule clean_and_then) (intro regular_intros)
  then obtain permissions a2 where per: "clean_run (lift_res (member_or_list rcd ''permissions'')) a1 permissions a2"
    and "clean_run (and_then (lift_res (py_iter permissions)) (\<lambda>xs. and_then (lift_res (gather attached_name xs)) ?last)) a2 () a'"
    by - (erule clean_and_then, intro regular_intros)
  then obtain xs a3 where xs: "clean_run (lift_res (py_iter permissions)) a2 xs a3"
    and "clean_run (and_then (lift_res (gather attached_name xs)) ?last) a3 () a'"
    by - (erule clean_and_then, intro regular_intros)
  then obtain attached a4 where at: "clean_run (lift_res (gather attached_name xs)) a3 attached a4" and l: "clean_run (?last attached) a4 () a'"
    by - (erule clean_and_then, intro regular_intros)
  have m: "missing_from expected attached = []" using l by (auto split: if_splits)
  with l have "clean_run (and_then (ok (''role '' @ role)) (\<lambda>_. if filter (\<lambda>v. v \<notin> set (map PStr expected)) attached = [] then give ()
        else if sortable (filter (\<lambda>v. v \<notin> set (map PStr expected)) attached) then warn (''role '' @ role @ '' extras'')
        else raises (EPy ''TypeError''))) a4 () a'" by simp
  then obtain y a5 where e: "clean_run (if filter (\<lambda>v. v \<notin> set (map PStr expected)) attached = [] then give ()
        else if sortable (filter (\<lambda>v. v \<notin> set (map PStr expected)) attached) then warn (''role '' @ role @ '' extras'')
        else raises (EPy ''TypeError'')) a5 () a'" by (rule clean_and_then) (intro regular_intros)
  have "filter (\<lambda>v. v \<notin> set (map PStr expected)) attached = []" by (rule ccontr) (use e in \<open>simp split: if_splits\<close>)
  then have "set attached = PStr ` set expected" using m by (auto simp: missing_from_def filter_empty_conv)
  then show ?thesis
    using clean_full_record [OF full] per xs at assms(3) unfolding role_scopes_seen_def clean_lift by blast
qed

lemma clean_sections:
  assumes "clean_run (audit_sections w env env_file agents base_url auth) a x a'"
  shows "\<exists>roles b b' c c'. clean_run (check_roles w base_url auth) b roles b'
    \<and> clean_run (check_role_scope_bindings w base_url auth roles) c () c'"
  using assms unfolding audit_sections_def
  by (elim clean_and_then, (intro regular_intros)+) auto

lemma clean_main:
  assumes "audit_main w env files base_arg env_path hr_path it_path new_audit = (Inr 0, a)" and "\<forall>l. WarnLine l \<notin> set (au_printed a)"
  shows "\<exists>b agents b'. clean_run (audit_sections w env (load_env_file files env_path) agents (audit_base_url env base_arg) (audit_auth env)) b () b'"
proof -
  have t0: "tally new_audit" by (simp add: tally_def new_audit_def counts_def List.map_filter_simps)
  from audit_main_run [OF assms(1) t0] obtain a3 agents where t: "tally a3"
    and r: "((\<exists>l. FailLine l \<in> set (au_printed a3)) \<and> and_then summarise (\<lambda>_. give (1 :: int)) a3 = (Inr 0, a))
     \<or> and_then (audit_sections w env (load_env_file files env_path) agents (audit_base_url env base_arg) (audit_auth env)) (\<lambda>_. summarise) a3
       = (Inr 0, a)" by blast
  then have run: "and_then (audit_sections w env (load_env_file files env_path) agents (audit_base_url env base_arg) (audit_auth env)) (\<lambda>_. summarise) a3
       = (Inr 0, a)" using r by (auto simp: and_then_def give_def split: prod.splits sum.splits)
  from audit_tail_status [OF this regular_audit t] have "List.map_filter fail_label (au_printed a) = []" by (simp split: if_splits)
  then have "quiet (au_printed a)" using assms(2) by (simp add: quiet_def no_fails)
  with run have "clean_run (and_then (audit_sections w env (load_env_file files env_path) agents (audit_base_url env base_arg) (audit_auth env))
      (\<lambda>_. summarise)) a3 0 a" by (simp add: clean_run_def)
  then show ?thesis by (rule clean_and_then) (auto intro: regular_intros)
qed

lemma clean_roles:
  assumes "clean_run (audit_sections w env env_file agents base_url auth) a x a'" and "(role, expected) \<in> set expected_role_scopes"
  shows "\<exists>attached. role_scopes_seen w base_url auth role attached \<and> set attached = PStr ` set expected"
proof -
  from clean_sections [OF assms(1)] obtain roles b b' c c' where r: "clean_run (check_roles w base_url auth) b roles b'"
    and s: "clean_run (check_role_scope_bindings w base_url auth roles) c () c'" by blast
  from r [unfolded check_roles_def] obtain y d where "clean_run (check_role_list w base_url auth demo_roles) d roles b'"
    by (rule clean_and_then) (intro regular_intros)
  moreover have "role \<in> set demo_roles" using assms(2) by (auto simp: expected_role_scopes_def demo_roles_def)
  ultimately obtain listed where l: "map_of roles role = Some listed" "listed_role w base_url auth role listed"
    using clean_role_list by blast
  from s [unfolded check_role_scope_bindings_def] obtain z e where "clean_run (each (check_role_binding w base_url auth roles) expected_role_scopes) e () c'"
    by (rule clean_and_then) (intro regular_intros)
  from clean_each [OF this regular_binding(2) assms(2)] obtain f f' where
    "clean_run (check_role_binding w base_url auth roles (role, expected)) f () f'" by blast
  from clean_binding [OF this l] show ?thesis .
qed

text \<open>
  C30. A passed audit means that the roles fit the routes: after a run with status 0 and without a
  warning, the identity server has answered with records in which HR Admin carries the scope every
  tool route of the two servers and every report of the orchestrator demands, and the role
  employee carries those of the HR tools for one's own data and no other HR tool's, and not the
  one that issues assets.
\<close>

theorem clean_audit_roles:
  assumes "audit_main w env files base_arg env_path hr_path it_path new_audit = (Inr 0, a)"
    and "\<forall>l. WarnLine l \<notin> set (au_printed a)"
  shows "\<exists>admin employee. role_scopes_seen w (audit_base_url env base_arg) (audit_auth env) ''HR Admin'' admin
    \<and> role_scopes_seen w (audit_base_url env base_arg) (audit_auth env) ''employee'' employee
    \<and> (\<forall>c. PStr (required_scope c) \<in> set admin) \<and> (\<forall>c. PStr (it_required_scope c) \<in> set admin)
    \<and> (\<forall>c. PStr (report_scope c) \<in> set admin)
    \<and> (\<forall>c. PStr (required_scope c) \<in> set employee \<longleftrightarrow>
         c \<in> {GetLeavePolicy, GetLeaveBalance, GetMyCubicle} \<or> (\<exists>n. c = GetLeaveHistory n) \<or> (\<exists>t s e r. c = ApplyLeave t s e r))
    \<and> (\<forall>x u. PStr (it_required_scope (IssueAsset x u)) \<notin> set employee)"
proof -
  obtain b agents b' where c: "clean_run (audit_sections w env (load_env_file files env_path) agents (audit_base_url env base_arg) (audit_auth env)) b () b'"
    using clean_main [OF assms] by blast
  obtain admin where a: "role_scopes_seen w (audit_base_url env base_arg) (audit_auth env) ''HR Admin'' admin"
    "set admin = PStr ` {''hr_basic_rest'', ''hr_self_rest'', ''it_assets_read_rest'', ''it_assets_self_rest'',
         ''hr_read_rest'', ''hr_approve_rest'', ''it_assets_write_rest'', ''hr_assets_write_rest''}"
    using clean_roles [OF c, of "''HR Admin''"] by (auto simp: expected_role_scopes_def)
  obtain employee where e: "role_scopes_seen w (audit_base_url env base_arg) (audit_auth env) ''employee'' employee"
    "set employee = PStr ` {''hr_basic_rest'', ''hr_self_rest'', ''it_assets_read_rest'', ''it_assets_self_rest''}"
    using clean_roles [OF c, of "''employee''"] by (auto simp: expected_role_scopes_def)
  have "PStr (required_scope k) \<in> set admin" for k by (cases k) (simp_all add: a(2))
  moreover have "PStr (it_required_scope k) \<in> set admin" for k by (cases k) (simp_all add: a(2))
  moreover have "PStr (report_scope k) \<in> set admin" for k by (cases k) (simp_all add: a(2))
  moreover have "PStr (required_scope k) \<in> set employee \<longleftrightarrow>
      k \<in> {GetLeavePolicy, GetLeaveBalance, GetMyCubicle} \<or> (\<exists>n. k = GetLeaveHistory n) \<or> (\<exists>t s e r. k = ApplyLeave t s e r)" for k
    by (cases k) (simp_all add: e(2))
  moreover have "PStr (it_required_scope (IssueAsset x u)) \<notin> set employee" for x u by (simp add: e(2))
  ultimately show ?thesis using a(1) e(1) by blast
qed

text \<open>
  An identity server that passes: it answers by the number of the request, most of them with one
  document that has every member the sections read.
\<close>

definition sample_names :: "string list \<Rightarrow> py" where
  "sample_names ns = PList (map (\<lambda>n. PDict [(''name'', PStr n)]) ns)"

definition sample_document :: py where
  "sample_document = PDict
     [(''keys'', PList [PInt 1]), (''applications'', PList [PDict [(''clientId'', PStr ''c''), (''id'', PStr ''i'')]]),
      (''associatedRoles'', PDict [(''allowedAudience'', PStr ''ORGANIZATION'')]),
      (''logout'', PDict [(''backChannelLogoutUrl'', PStr ''u'')]), (''callbackURLs'', PList [PStr ''http://localhost:8090/'']),
      (''flowId'', PStr ''f''), (''nextStep'', PDict [(''authenticators'', PList [PDict [(''idp'', PStr ''LOCAL''), (''authenticatorId'', PStr ''b'')]])]),
      (''code'', PStr ''k''), (''access_token'', PStr ''t''),
      (''apiResources'', PList [PDict [(''name'', PStr ''HR API''), (''id'', PStr ''h'')], PDict [(''name'', PStr ''IT API''), (''id'', PStr ''j'')]]),
      (''totalResults'', PInt 1),
      (''Resources'', PList [PDict [(''id'', PStr ''r''), (''userName'', PStr ''n''), (''emails'', PList [PStr ''e'']),
          (''displayName'', PStr ''orchestrator-agent'')],
         PDict [(''displayName'', PStr ''hr-agent'')], PDict [(''displayName'', PStr ''it-agent'')]])]"

definition sample_list :: py where
  "sample_list = PList
     ([PDict [(''displayName'', PStr ''HR API''), (''authorizedScopes'', sample_names hr_scopes)],
       PDict [(''displayName'', PStr ''IT API''), (''authorizedScopes'', sample_names it_scopes)]]
      @ map (\<lambda>n. PDict [(''name'', PStr n)]) (hr_scopes @ it_scopes))"

definition sample_role :: "string \<Rightarrow> py" where
  "sample_role role = PDict [(''permissions'', PList (map PStr (the (map_of expected_role_scopes role))))]"

definition sample_tag :: "nat \<Rightarrow> string" where
  "sample_tag n = (if n \<in> {7, 11, 13, 21, 22} then ''L'' else if n = 28 then ''E'' else if n = 29 then ''A'' else ''U'')"

definition sample_is :: audit_world where
  "sample_is = \<lparr>aw_net = \<lambda>n rq. Replied 200 (sample_tag n),
     aw_json = \<lambda>body. if body = ''L'' then Some sample_list else if body = ''E'' then Some (sample_role ''employee'')
       else if body = ''A'' then Some (sample_role ''HR Admin'') else Some sample_document,
     aw_fullmatch = \<lambda>p s. None, aw_random = \<lambda>n. [], aw_sha = \<lambda>bs. []\<rparr>"

definition sample_is_env :: environ where
  "sample_is_env = [(''ORCHESTRATOR_MCP_CLIENT_ID'', ''c''), (''HR_AGENT_ID'', ''a''), (''HR_AGENT_SECRET'', ''s''),
     (''HR_AGENT_OAUTH_CLIENT_ID'', ''c''), (''HR_AGENT_OAUTH_CLIENT_SECRET'', ''d''), (''IT_AGENT_ID'', ''a''),
     (''IT_AGENT_SECRET'', ''s''), (''IT_AGENT_OAUTH_CLIENT_ID'', ''c''), (''IT_AGENT_OAUTH_CLIENT_SECRET'', ''d'')]"

definition passes :: "nat \<Rightarrow> 'a act \<Rightarrow> 'a \<Rightarrow> nat \<Rightarrow> bool" where
  "passes k m x n \<longleftrightarrow> (\<forall>a. au_asked a = k \<and> quiet (au_printed a) \<and> tally a \<longrightarrow>
     (\<exists>a'. m a = (Inr x, a') \<and> au_asked a' = n \<and> quiet (au_printed a') \<and> tally a'))"

named_theorems passes_intros

lemma passes_then [passes_intros]: "passes k m x n \<Longrightarrow> passes n (f x) y n' \<Longrightarrow> passes k (and_then m f) y n'"
  by (fastforce simp: passes_def and_then_def)

lemma passes_lines [passes_intros]: "k = n \<Longrightarrow> passes k (hdr l) () n" "k = n \<Longrightarrow> passes k (ok l) () n" "k = n \<Longrightarrow> passes k (give x) x n"
  by (simp_all add: passes_def hdr_def ok_def and_then_def print_line_def count_check_def give_def quiet_def tally_def counts_def
      List.map_filter_def)

lemma passes_lift: "r = Inr x \<Longrightarrow> passes k (lift_res r) x k"
  by (simp add: passes_def lift_res_def)

lemma passes_http [passes_intros]:
  "passes k (http_get sample_is url hs) (200, sample_tag k) (Suc k)"
  "passes k (http_post_form sample_is url form hs) (200, sample_tag k) (Suc k)"
  "passes k (http_post_json sample_is url v) (200, sample_tag k) (Suc k)"
  by (simp_all add: passes_def http_get_def http_post_form_def http_post_json_def ask_def reply_pair_def sample_is_def tally_def)

lemma passes_summarise: "passes k summarise 0 k"
proof -
  have "List.map_filter fail_label ls = []" if "quiet ls" for ls using that by (simp add: no_fails quiet_def)
  then show ?thesis
    by (auto simp: passes_def summarise_def and_then_def hdr_def print_line_def tally_def counts_def quiet_def
        List.map_filter_def)
qed

lemma sample_json: "load_json sample_is ''U'' = Inr sample_document" "load_json sample_is ''L'' = Inr sample_list"
  "load_json sample_is ''E'' = Inr (sample_role ''employee'')" "load_json sample_is ''A'' = Inr (sample_role ''HR Admin'')"
  by (simp_all add: load_json_def sample_is_def)

lemma sample_member: "load_member sample_is ''U'' k = Inr (or_list (case sample_document of PDict d \<Rightarrow> pyget d k | _ \<Rightarrow> PNone))"
  by (simp add: load_member_def sample_json member_or_list_def obj_get_def sample_document_def)

lemma passes_start: "passes 0 (check_connectivity sample_is b) () 1" "passes 1 (check_jwks sample_is b) () 2"
  "passes 2 (check_mgmt_api_auth sample_is b u) True 3"
  unfolding check_connectivity_def check_jwks_def check_mgmt_api_auth_def
  by (rule passes_intros refl | simp add: sample_tag_def sample_member sample_document_def or_list_def has_len_def)+

text \<open>Section by section.\<close>

lemma passes_lifted [passes_intros]: "r = Inr x \<Longrightarrow> k = n \<Longrightarrow> passes k (lift_res r) x n"
  by (simp add: passes_lift)

lemmas sample_reads = sample_tag_def sample_member sample_json sample_document_def sample_list_def sample_names_def sample_role_def or_list_def
  or_dict_def obj_get_def py_iter_def first_item_def map_of_update hr_scopes_def it_scopes_def expected_role_scopes_def

lemma passes_applications: "passes 3 (check_applications sample_is b u (audit_client_ids sample_is_env [])) () 6"
proof -
  have ids: "audit_client_ids sample_is_env [] = [(''orchestrator-mcp-client'', ''c''), (''hr_agent OAuth App'', ''c''), (''it_agent OAuth App'', ''c'')]"
    by (simp add: audit_client_ids_def resolved_def or_else_def sample_is_env_def)
  show ?thesis
    unfolding check_applications_def ids check_application_def
    by (rule passes_intros refl | simp add: sample_reads)+
qed

lemma passes_scopes: "missing_from expected xs = [] \<Longrightarrow> passes k (audit_scopes label expected xs) () k"
  by (simp add: audit_scopes_def passes_lines)

lemma sample_subscriptions:
  "\<exists>m. subscriptions_of [] (case sample_list of PList xs \<Rightarrow> xs | _ \<Rightarrow> []) = Inr m
    \<and> missing_from hr_scopes (api_scopes m ''HR API'' ''urn:hr:api'') = [] \<and> missing_from it_scopes (api_scopes m ''IT API'' ''urn:it:api'') = []"
  by (simp add: sample_reads subscription_of_def member_or_list_def api_scopes_def missing_from_def)

lemma passes_find_app: "sample_tag k = ''U'' \<Longrightarrow> passes k (find_app sample_is b u ''c'' lbl) (Some (PStr ''i'')) (Suc k)"
  unfolding find_app_def
  by (rule passes_intros refl | simp add: sample_member sample_document_def or_list_def first_item_def obj_get_def)+

lemma passes_apis: "sample_tag k = ''L'' \<Longrightarrow> passes k (authorized_apis sample_is b u i lbl) (Some sample_list) (Suc k)"
  unfolding authorized_apis_def by (rule passes_intros refl | simp add: sample_json)+

lemma passes_login_client: "passes 6 (check_orchestrator_subscriptions sample_is b u ''c'' ''http://localhost:8090/'') () 10"
proof -
  obtain m where m: "subscriptions_of [] (case sample_list of PList xs \<Rightarrow> xs | _ \<Rightarrow> []) = Inr m"
    "missing_from hr_scopes (api_scopes m ''HR API'' ''urn:hr:api'') = []" "missing_from it_scopes (api_scopes m ''IT API'' ''urn:it:api'') = []"
    using sample_subscriptions by blast
  obtain x xs where l: "sample_list = PList (x # xs)" by (simp add: sample_list_def)
  have s: "subscriptions_of [] (x # xs) = Inr m" using m(1) by (simp add: l)
  have f: "passes 6 (find_app sample_is b u ''c'' lbl) (Some (PStr ''i'')) 7" for lbl
    using passes_find_app [of 6] by (simp add: sample_tag_def)
  have a: "passes 7 (authorized_apis sample_is b u i lbl) (Some (PList (x # xs))) 8" for i lbl
    using passes_apis [of 7] by (simp add: sample_tag_def l)
  have r: "passes 8 (check_role_audience sample_is b u i) () 9" for i
    unfolding check_role_audience_def app_document_def
    by (rule passes_intros refl | simp add: sample_reads sub_get_or_def pyget_or_def py_upper_def upper_char_def)+
  have o: "passes 9 (check_oidc_config sample_is b u i ''http://localhost:8090/'') () 10" for i
    unfolding check_oidc_config_def app_document_def
    by (rule passes_intros refl | simp add: sample_reads sub_get_or_def pyget_or_def member_or_list_def)+
  show ?thesis
    unfolding check_orchestrator_subscriptions_def
    by (rule passes_intros refl f a r o passes_scopes s | simp add: m del: subscriptions_of.simps)+
qed

lemma passes_agent_apps: "passes 10 (check_agent_app_subscriptions sample_is b u ''c'' ''c'') () 14"
proof -
  obtain m where m: "subscriptions_of [] (case sample_list of PList xs \<Rightarrow> xs | _ \<Rightarrow> []) = Inr m"
    "missing_from hr_scopes (api_scopes m ''HR API'' ''urn:hr:api'') = []" "missing_from it_scopes (api_scopes m ''IT API'' ''urn:it:api'') = []"
    using sample_subscriptions by blast
  obtain xs where l: "sample_list = PList xs" "xs \<noteq> []" by (simp add: sample_list_def)
  have p: "passes k (app_authorized_scopes_by_api sample_is b u ''c'' lbl) (Some m) (Suc (Suc k))"
    if "sample_tag k = ''U''" "sample_tag (Suc k) = ''L''" for k lbl
  proof -
    have "py_iter (or_list sample_list) = Inr xs" "subscriptions_of [] xs = Inr m" using m(1) l(2) unfolding l(1) by (simp_all add: or_list_def py_iter_def)
    with that show ?thesis
      unfolding app_authorized_scopes_by_api_def
      by - (rule passes_intros refl passes_find_app passes_apis | simp del: subscriptions_of.simps)+
  qed
  have p1: "passes 10 (app_authorized_scopes_by_api sample_is b u ''c'' lbl) (Some m) 12" for lbl using p [of 10 lbl] by (simp add: sample_tag_def)
  have p2: "passes 12 (app_authorized_scopes_by_api sample_is b u ''c'' lbl) (Some m) 14" for lbl using p [of 12 lbl] by (simp add: sample_tag_def)
  show ?thesis
    unfolding check_agent_app_subscriptions_def by (rule passes_intros refl p1 p2 passes_scopes | simp add: m)+
qed

definition sample_agents :: "audit_agent list" where
  "sample_agents = audit_agents sample_is_env [] [] []"

lemma sample_probe:
  "passes k (appnative_auth_probe sample_is b ag rnd) True (Suc (Suc (Suc k)))" if "14 \<le> k" "k \<le> 17"
proof -
  have t: "sample_tag k = ''U''" "sample_tag (Suc k) = ''U''" "sample_tag (Suc (Suc k)) = ''U''" using that by (simp_all add: sample_tag_def)
  obtain v c where p: "make_pkce (aw_sha sample_is) rnd = (v, c)" by force
  show ?thesis
    unfolding appnative_auth_probe_def probe_authn_def probe_token_def p Let_def prod.case
    by (rule passes_intros refl | simp add: t sample_json sample_document_def flow_start_def sub_get_def obj_get_def or_dict_def
        pick_authenticator_id_def or_list_def py_iter_def first_item_def read_code_def)+
qed

lemma passes_agent_auth: "passes 14 (check_agent_appnative_auth sample_is b sample_agents) () 20"
proof -
  have ags: "sample_agents = [\<lparr>aa_label = l, aa_agent_id = ''a'', aa_agent_secret = ''s'', aa_oauth_client_id = ''c'', aa_oauth_client_secret = ''d'',
       aa_redirect_uri = ''http://localhost:9999/agent-callback''\<rparr>. l \<leftarrow> [''hr-agent'', ''it-agent'']]"
    by (simp add: sample_agents_def audit_agents_def audit_agent_of_def resolved_def or_else_def sample_is_env_def)
  have p: "passes 14 (appnative_auth_probe sample_is b ag rnd) True 17" "passes 17 (appnative_auth_probe sample_is b ag rnd) True 20" for ag rnd
    using sample_probe [of 14 b ag rnd] sample_probe [of 17 b ag rnd] by simp_all
  show ?thesis
    unfolding check_agent_appnative_auth_def ags
    by (rule passes_intros refl p | simp add: check_agent_auth_def or_else_def)+
qed

lemma passes_resources:
  "passes 20 (check_api_resources sample_is b u [''hr_server-api'', ''HR API'', ''urn:hr:api''] [''it_server-api'', ''IT API'', ''urn:it:api''])
     [(''HR'', PStr ''h''), (''IT'', PStr ''j'')] 21"
  unfolding check_api_resources_def match_resource_def
  by (rule passes_intros refl | simp add: sample_tag_def sample_member sample_document_def or_list_def py_iter_def Let_def)+

lemma passes_check_scopes: "passes 21 (check_scopes sample_is b u [(''HR'', PStr ''h''), (''IT'', PStr ''j'')]) () 23"
proof -
  define ns where "ns = map PStr (hr_scopes @ it_scopes)"
  obtain xs where xs: "py_iter sample_list = Inr xs" by (simp add: sample_list_def py_iter_def)
  then have n: "names_of xs = Inr ns" by (auto simp: sample_list_def py_iter_def obj_get_def hr_scopes_def it_scopes_def ns_def)
  have ns: "missing_from hr_scopes ns = []" "missing_from it_scopes ns = []" by (auto simp: missing_from_def ns_def)
  show ?thesis
    unfolding check_scopes_def audit_resource_def Let_def
    by (rule passes_intros refl passes_scopes | simp add: sample_tag_def sample_json xs n ns)+
qed

lemma passes_users: "passes 23 (check_users sample_is b u) () 25" "passes 25 (check_agents sample_is b u) () 26"
  unfolding check_users_def check_user_def demo_users_def check_agents_def demo_agents_def
  by (rule passes_intros refl | simp add: sample_tag_def sample_member sample_json sample_document_def or_list_def py_iter_def or_dict_def
      total_results_def pyget_or_def agent_names_def agent_schema_def Let_def)+

definition sample_listed :: py where
  "sample_listed = PDict [(''id'', PStr ''r''), (''userName'', PStr ''n''), (''emails'', PList [PStr ''e'']),
     (''displayName'', PStr ''orchestrator-agent'')]"

lemma passes_roles: "passes 26 (check_roles sample_is b u) [(''employee'', sample_listed), (''HR Admin'', sample_listed)] 28"
proof -
  have r: "passes k (check_role sample_is b u role) (Some sample_listed) (Suc k)" if "sample_tag k = ''U''" for k role
    using that unfolding check_role_def
    by - (rule passes_intros refl | simp add: sample_member sample_document_def or_list_def first_item_def sample_listed_def)+
  have r2: "passes 26 (check_role sample_is b u role) (Some sample_listed) 27" "passes 27 (check_role sample_is b u role) (Some sample_listed) 28" for role
    using r [of 26 role] r [of 27 role] by (simp_all add: sample_tag_def)
  show ?thesis
    unfolding check_roles_def demo_roles_def by (rule passes_intros refl r2 | simp)+
qed

lemma gather_names: "gather attached_name (map PStr ns) = Inr (map PStr ns)"
  by (induction ns) (simp_all add: attached_name_def)

lemma passes_bindings:
  "passes 28 (check_role_scope_bindings sample_is b u [(''employee'', sample_listed), (''HR Admin'', sample_listed)]) () 30"
proof -
  have f: "passes 28 (full_record sample_is b u sample_listed) (sample_role ''employee'') 29"
    "passes 29 (full_record sample_is b u sample_listed) (sample_role ''HR Admin'') 30"
    unfolding full_record_def
    by (rule passes_intros refl | simp add: sample_tag_def sample_json sample_listed_def obj_get_def)+
  have m: "member_or_list (sample_role role) ''permissions'' = Inr (PList (map PStr (the (map_of expected_role_scopes role))))" for role
    by (cases "the (map_of expected_role_scopes role) = []") (simp_all add: member_or_list_def sample_role_def obj_get_def or_list_def)
  have b: "passes k (check_role_binding sample_is b u [(''employee'', sample_listed), (''HR Admin'', sample_listed)] (role, expected)) () n"
    if "passes k (full_record sample_is b u sample_listed) (sample_role role) n" "map_of expected_role_scopes role = Some expected"
      "role \<in> {''employee'', ''HR Admin''}" for k n role expected
  proof -
    have "pyget [(''employee'', sample_listed), (''HR Admin'', sample_listed)] role = sample_listed" using that(3) by auto
    moreover have "truthy sample_listed" by (simp add: sample_listed_def)
    moreover have "missing_from expected (map PStr expected) = []" by (simp add: missing_from_def)
    moreover have "py_iter (PList xs) = Inr xs" for xs by (simp add: py_iter_def)
    ultimately show ?thesis
      unfolding check_role_binding_def Let_def prod.case
      using that(2) by - (rule passes_intros refl that(1) | simp add: m gather_names)+
  qed
  have e: "map_of expected_role_scopes ''employee'' = Some [''hr_basic_rest'', ''hr_self_rest'', ''it_assets_read_rest'', ''it_assets_self_rest'']"
    "map_of expected_role_scopes ''HR Admin'' = Some [''hr_basic_rest'', ''hr_self_rest'', ''it_assets_read_rest'', ''it_assets_self_rest'',
         ''hr_read_rest'', ''hr_approve_rest'', ''it_assets_write_rest'', ''hr_assets_write_rest'']"
    by (simp_all add: expected_role_scopes_def)
  show ?thesis
    unfolding check_role_scope_bindings_def expected_role_scopes_def
    by (rule passes_intros refl b [OF f(1) e(1)] b [OF f(2) e(2)] | simp)+
qed

lemma passes_attributes: "passes 30 (check_user_attributes sample_is b u) () 32"
  unfolding check_user_attributes_def demo_users_def check_user_attribute_def Let_def
  by (rule passes_intros refl | simp add: sample_tag_def sample_member sample_document_def or_list_def first_item_def user_attributes_def
      obj_get_def member_or_list_def py_iter_def email_entry_def)+

lemma passes_audit:
  "passes 0 (audit_main sample_is sample_is_env (\<lambda>p. None) None p1 p2 p3) 0 32"
proof -
  have e: "load_env_file (\<lambda>p. None) p = []" for p by (simp add: load_env_file_def)
  have i: "resolved sample_is_env ''ORCHESTRATOR_MCP_CLIENT_ID'' [] [] = ''c''" "resolved sample_is_env ''HR_AGENT_OAUTH_CLIENT_ID'' [] [] = ''c''"
    "resolved sample_is_env ''IT_AGENT_OAUTH_CLIENT_ID'' [] [] = ''c''"
    "resolved sample_is_env ''POST_LOGOUT_REDIRECT_URI'' [] ''http://localhost:8090/'' = ''http://localhost:8090/''"
    "env_get sample_is_env ''HR_API_RESOURCE_NAME'' d = d" "env_get sample_is_env ''IT_API_RESOURCE_NAME'' d = d" for d
    by (simp_all add: env_get_def resolved_def or_else_def sample_is_env_def)
  have s: "passes 3 (audit_sections sample_is sample_is_env [] sample_agents b u) () 32" for b u
    unfolding audit_sections_def i
    by (rule passes_then passes_applications passes_login_client passes_agent_apps passes_agent_auth passes_resources passes_check_scopes
        passes_users passes_roles passes_bindings passes_attributes)+
  show ?thesis
    unfolding audit_main_def Let_def e sample_agents_def [symmetric]
    by (rule passes_then passes_start s passes_summarise | simp)+
qed

lemma clean_audit_roles_witness:
  "\<exists>a admin. audit_main sample_is sample_is_env (\<lambda>p. None) None ''orchestrator/.env'' ''hr_agent/.env'' ''it_agent/.env'' new_audit = (Inr 0, a)
     \<and> (\<forall>l. WarnLine l \<notin> set (au_printed a))
     \<and> role_scopes_seen sample_is (audit_base_url sample_is_env None) (audit_auth sample_is_env) ''HR Admin'' admin
     \<and> PStr (required_scope (ApproveLeave ''LR001'')) \<in> set admin"
proof -
  have "quiet (au_printed new_audit)" "tally new_audit" "au_asked new_audit = 0"
    by (simp_all add: quiet_def tally_def new_audit_def counts_def List.map_filter_simps)
  with passes_audit [of "''orchestrator/.env''" "''hr_agent/.env''" "''it_agent/.env''"] obtain a where
    a: "audit_main sample_is sample_is_env (\<lambda>p. None) None ''orchestrator/.env'' ''hr_agent/.env'' ''it_agent/.env'' new_audit = (Inr 0, a)"
      "quiet (au_printed a)" unfolding passes_def by blast
  then have w: "\<forall>l. WarnLine l \<notin> set (au_printed a)" by (simp add: quiet_def)
  from clean_audit_roles [OF a(1) w] a w show ?thesis by blast
qed

section \<open>The probe and the agents' own login\<close>

text \<open>
  The probe of Section 4d picks the first local authenticator, the agents the first local one
  that takes a name and a password; and a second step, which the agents take when the first one
  leaves the flow incomplete, is a failure of the probe.
\<close>

definition two_authenticators :: py where
  "two_authenticators = PList
     [PDict [(''idp'', PStr ''LOCAL''), (''authenticator'', PStr ''Passkey''), (''authenticatorId'', PStr ''p'')],
      PDict [(''idp'', PStr ''LOCAL''), (''authenticator'', PStr ''Username and Password''), (''authenticatorId'', PStr ''b'')]]"

lemma probe_picks_other_authenticator:
  "pick_authenticator_id two_authenticators = Inr (PStr ''p'') \<and> pick_local_basic_authenticator two_authenticators = Inr (PStr ''b'')"
  by (simp add: two_authenticators_def pick_authenticator_id_def first_item_def py_iter_def obj_get_def
      pick_local_basic_authenticator_def py_in_def)

lemma probe_stops_at_incomplete:
  assumes "load_json w body = Inr (PDict d)" "read_code (PDict d) = Inr PNone" "pyget d ''flowStatus'' = PStr ''INCOMPLETE''"
    and "aw_net w (au_asked a) \<lparr>rq_url = base_url @ ''/oauth2/authn'', rq_headers = [(''Content-Type'', ''application/json''), (''Accept'', ''application/json'')],
       rq_body = JsonBody (authn_body flow_id i [(''username'', PStr (aa_agent_id ag)), (''password'', PStr (aa_agent_secret ag))])\<rparr> = Replied 200 body"
  shows "fst (probe_authn w base_url ag verifier client_auth flow_id i a) \<noteq> Inr True"
  using assms
  by (auto simp: probe_authn_def and_then_def http_post_json_def ask_def reply_pair_def lift_res_def give_def split: sum.splits prod.splits)

end
