(* ===== verification/SynthBcl.thy ===== *)
theory SynthBcl
  imports BclProps ActorToken
begin

text \<open>
  The minting of a synthesized logout token and its delivery to the orchestrator
  (\<open>scripts/synth-bcl.py\<close>), by which an operator plays the identity server.

  \<open>jwt.encode\<close>, the network, the file system, the random id and the clock are parameters.
  What is printed is left out, except the token.  The receiver accepts a synthesized token and ends
  exactly the user's sessions.
\<close>

section \<open>The key id\<close>

definition sig_key :: "py \<Rightarrow> bool res" where
  "sig_key k =
     (case k of
        PDict d \<Rightarrow> Inr (pyget_or d ''use'' (PStr ''sig'') = PStr ''sig'' \<and> pyget_or d ''alg'' (PStr ''RS256'') = PStr ''RS256'')
      | _ \<Rightarrow> Inl (EPy ''AttributeError''))"

fun sig_keys :: "py list \<Rightarrow> py list res" where
  "sig_keys [] = Inr []"
| "sig_keys (k # ks) =
     (case sig_key k of
        Inl e \<Rightarrow> Inl e
      | Inr b \<Rightarrow> (case sig_keys ks of Inl e \<Rightarrow> Inl e | Inr r \<Rightarrow> Inr (if b then k # r else r)))"

text \<open>\<open>fetch_kid\<close> on the decoded document.\<close>

definition fetch_kid :: "py res \<Rightarrow> py res" where
  "fetch_kid answer =
     (case answer of
        Inl e \<Rightarrow> Inl e
      | Inr (PDict doc) \<Rightarrow>
         (case pyget doc ''keys'' of
            PList (k # ks) \<Rightarrow>
              (case sig_keys (k # ks) of
                 Inl e \<Rightarrow> Inl e
               | Inr sigs \<Rightarrow>
                  (case (case sigs of s # ss \<Rightarrow> s | [] \<Rightarrow> k) of
                     PDict d \<Rightarrow> if truthy (pyget d ''kid'') then Inr (pyget d ''kid'') else Inl (EPy ''RuntimeError'')
                   | _ \<Rightarrow> Inl (EPy ''AttributeError'')))
          | v \<Rightarrow> if \<not> truthy v then Inl (EPy ''RuntimeError'')
                 else Inl (EPy (if has_len v then ''AttributeError'' else ''TypeError'')))
      | Inr v \<Rightarrow> Inl (EPy ''AttributeError''))"

section \<open>The token\<close>

text \<open>\<open>jwt.encode(payload, key, algorithm="RS256", headers=headers)\<close>.\<close>

type_synonym encoder = "pydict \<Rightarrow> string \<Rightarrow> pydict \<Rightarrow> string res"

definition logout_payload :: "string \<Rightarrow> string \<Rightarrow> string option \<Rightarrow> string option \<Rightarrow> real \<Rightarrow> string \<Rightarrow> pydict" where
  "logout_payload issuer audience sub sid now uuid =
     [(''iss'', PStr issuer), (''aud'', PStr audience), (''iat'', PInt \<lfloor>now\<rfloor>), (''jti'', PStr uuid),
      (''events'', PDict [(bcl_events_uri, PDict [])])]
     @ (case sub of None \<Rightarrow> [] | Some s \<Rightarrow> [(''sub'', PStr s)])
     @ (case sid of None \<Rightarrow> [] | Some s \<Rightarrow> [(''sid'', PStr s)])"

definition build_logout_token ::
  "encoder \<Rightarrow> string \<Rightarrow> string \<Rightarrow> string \<Rightarrow> py \<Rightarrow> string option \<Rightarrow> string option \<Rightarrow> real \<Rightarrow> string \<Rightarrow> string res"
where
  "build_logout_token enc pem issuer audience kid sub sid now uuid =
     (if sub = None \<and> sid = None then Inl (EPy ''ValueError'')
      else enc (logout_payload issuer audience sub sid now uuid) pem [(''typ'', PStr ''logout+jwt''), (''kid'', kid)])"

section \<open>The delivery\<close>

text \<open>
  The server at the other end is a function on its state; it is given the URL, the body and the
  \<open>X-Request-ID\<close> header.  An \<open>HTTPError\<close> is a status, any other exception ends the script.
\<close>

datatype post_reply = PostStatus int | PostRaised exn

type_synonym 's poster = "string \<Rightarrow> string \<Rightarrow> string option \<Rightarrow> 's \<Rightarrow> post_reply \<times> 's"

definition post_logout_token :: "'s poster \<Rightarrow> string \<Rightarrow> string \<Rightarrow> string \<Rightarrow> 's \<Rightarrow> post_reply \<times> 's" where
  "post_logout_token post orchestrator_url logout_token rid s =
     post (rev (dropWhile (\<lambda>c. c = CHR 0x2F) (rev orchestrator_url)) @ ''/backchannel-logout'')
       (urlencode [(''logout_token'', logout_token)]) (if rid = [] then None else Some rid) s"

record synth_args =
  sy_key :: string
  sy_sub :: "string option"
  sy_sid :: "string option"
  sy_issuer :: string
  sy_aud :: string
  sy_jwks_url :: string
  sy_kid :: "string option"
  sy_orchestrator :: string
  sy_rid :: "string option"
  sy_print_only :: bool

definition default_synth_args :: "string \<Rightarrow> synth_args" where
  "default_synth_args k =
     \<lparr>sy_key = k, sy_sub = None, sy_sid = None, sy_issuer = ''https://13.60.190.47:9443/oauth2/token'',
      sy_aud = ''Ry9Wx_Q7w2FSi27miUpYr3O0xR4a'', sy_jwks_url = ''https://13.60.190.47:9443/oauth2/jwks'', sy_kid = None,
      sy_orchestrator = ''http://localhost:8090'', sy_rid = None, sy_print_only = False\<rparr>"

record synth_world =
  yw_files :: "string \<Rightarrow> string option"
  yw_jwks :: "string \<Rightarrow> py res"
  yw_encode :: encoder
  yw_now :: real
  yw_uuid :: string

text \<open>The exit status or the uncaught exception, the printed token, and the server's state.\<close>

definition synth_main :: "synth_world \<Rightarrow> 's poster \<Rightarrow> synth_args \<Rightarrow> 's \<Rightarrow> int res \<times> string option \<times> 's" where
  "synth_main w post args s =
     (case yw_files w (sy_key args) of
        None \<Rightarrow> (Inr 2, None, s)
      | Some pem \<Rightarrow>
         (case (if or_empty (sy_kid args) \<noteq> [] then Inr (PStr (or_empty (sy_kid args))) else fetch_kid (yw_jwks w (sy_jwks_url args))) of
            Inl e \<Rightarrow> (Inr 2, None, s)
          | Inr kid \<Rightarrow>
             (case build_logout_token (yw_encode w) pem (sy_issuer args) (sy_aud args) kid (sy_sub args) (sy_sid args) (yw_now w) (yw_uuid w) of
                Inl e \<Rightarrow> (Inr 2, None, s)
              | Inr token \<Rightarrow>
                  if sy_print_only args then (Inr 0, Some token, s)
                  else
                    (let rid = (if or_empty (sy_rid args) \<noteq> [] then or_empty (sy_rid args)
                                else ''bcl-synth-'' @ show_int \<lfloor>yw_now w\<rfloor>)
                     in case post_logout_token post (sy_orchestrator args) token rid s of
                          (PostRaised e, s') \<Rightarrow> (Inl e, Some token, s')
                        | (PostStatus c, s') \<Rightarrow> (Inr (if 200 \<le> c \<and> c < 300 then 0 else 1), Some token, s')))))"

section \<open>The receiver at the other end\<close>

fun bcl_status :: "bcl_reply \<Rightarrow> int" where
  "bcl_status (BclBadRequest d) = 400"
| "bcl_status BclDeduped = 200"
| "bcl_status BclNoSession = 200"
| "bcl_status (BclOk had_session) = 200"
| "bcl_status BclServerError = 500"

text \<open>The route of the orchestrator as the server: it parses the body; the header is only its log's.\<close>

definition bcl_poster ::
  "bcl_config \<Rightarrow> 'k pyjwt \<Rightarrow> (string \<Rightarrow> 'k \<Rightarrow> jwt_err + pydict) \<Rightarrow> jwks_net \<Rightarrow> real \<Rightarrow> logout_env \<Rightarrow> (string option \<Rightarrow> string)
     \<Rightarrow> bcl_state poster"
where
  "bcl_poster cfg J decode_logout net mt env rid_of url body rid b =
     (let (r, b', tr) = backchannel_logout cfg J decode_logout net mt env (rid_of rid) ''application/x-www-form-urlencoded''
                          (Some (parse_query body)) b
      in (PostStatus (bcl_status r), b'))"

section \<open>What the library promises\<close>

text \<open>
  The key pair, for one payload and its headers: what is encoded with the private key carries the
  headers and the algorithm, and decodes with the public key of \<open>jwk\<close> to the payload.
\<close>

definition key_pair ::
  "encoder \<Rightarrow> 'k pyjwt \<Rightarrow> (string \<Rightarrow> 'k \<Rightarrow> jwt_err + pydict) \<Rightarrow> string \<Rightarrow> py \<Rightarrow> pydict \<Rightarrow> pydict \<Rightarrow> bool"
where
  "key_pair enc J decode_logout pem jwk p h \<longleftrightarrow>
     (\<exists>key t. j_from_jwk J jwk = Some key \<and> enc p pem h = Inr t \<and> t \<noteq> []
        \<and> j_header J t = Inr ((''alg'', PStr ''RS256'') # h) \<and> decode_logout t key = Inr p)"

text \<open>The payload and the headers the script encodes.\<close>

definition synth_payload :: "synth_world \<Rightarrow> synth_args \<Rightarrow> pydict" where
  "synth_payload w args = logout_payload (sy_issuer args) (sy_aud args) (sy_sub args) (sy_sid args) (yw_now w) (yw_uuid w)"

definition synth_headers :: "string \<Rightarrow> pydict" where
  "synth_headers kid = [(''typ'', PStr ''logout+jwt''), (''kid'', PStr kid)]"

section \<open>The receiver accepts it\<close>

lemma synth_payload_ok:
  assumes "sub = Some u" "u \<noteq> []" "uuid \<noteq> []" "real_of_int \<lfloor>t\<rfloor> \<le> now + 30" "now \<le> real_of_int \<lfloor>t\<rfloor> + of_int iat_tolerance"
  shows "\<exists>c. bcl_payload iss aud now (logout_payload iss aud sub sid t uuid) = Inr c \<and> lt_sub c = Some u \<and> lt_jti c = uuid"
  using assms
  by (auto simp: bcl_payload_def logout_payload_def bcl_aud_set_def as_number_def nonempty_str_def Let_def split: option.splits)

lemma form_token:
  "t \<noteq> [] \<Longrightarrow> bcl_form_token form_ct (Some (parse_query (urlencode [(''logout_token'', t)]))) = Inr t"
  using sample_form_token by (simp add: bcl_form_token_def parse_query_urlencode sample_form_def split: if_splits)

lemma cascade_ends_sessions:
  assumes "store_ok (bs_store b)" "0 < ss_reasons_hard_cap (bs_store b)"
    and "\<forall>s \<in> set (find_sessions_for_user u (bs_store b)). \<exists>c. le_revoke env (s_session_id s) \<in> {RevokeStatus c, RevokeHttpError}"
  shows "\<exists>h b' tr. bcl_cascade cfg env rid u b = (BclOk h, b', tr)
    \<and> ss_sessions (bs_store b') = filter (\<lambda>(i, s). s_user_sub s \<noteq> u) (ss_sessions (bs_store b))"
proof (cases "find_sessions_for_user u (bs_store b)")
  case Nil
  then have "filter (\<lambda>(i, s). s_user_sub s \<noteq> u) (ss_sessions (bs_store b)) = ss_sessions (bs_store b)"
    by (auto simp: find_sessions_for_user_def filter_empty_conv filter_id_conv)
  with Nil show ?thesis by (auto simp: bcl_cascade_def execute_for_user_sub_def intro: exI [where x = False])
next
  case (Cons s ss)
  then have u: "s_user_sub s = u" by (metis find_sessions_for_user_iff list.set_intros(1))
  obtain res st' tr where e: "execute_locked (bc_logout cfg) env s rid ''admin_terminated'' (bs_store b) = (Inr res, st', tr)"
    using execute_locked_succeeds [OF assms(2), of s env] assms(3) u by blast
  note d = execute_locked_done [OF assms(1) e, unfolded u]
  show ?thesis using Cons e d by (auto simp: bcl_cascade_def execute_for_user_sub_def intro: exI [where x = True])
qed

text \<open>
  C20. A synthesized logout token does what the identity server's would: when the script's key is
  the one the receiver knows under the key id, its issuer and audience are the receiver's, the
  clocks agree to half a minute and the tolerance, and the id is new, the script exits with 0
  and the receiver has ended exactly the sessions of the named user.
\<close>

theorem synth_logout_ends_sessions:
  assumes "yw_files w (sy_key args) = Some pem" "sy_kid args = Some kid" "kid \<noteq> []" "sy_print_only args = False"
    and "sy_sub args = Some u" "u \<noteq> []" "yw_uuid w \<noteq> []"
    and "sy_issuer args = bc_expected_iss cfg" "sy_aud args = bc_expected_aud cfg"
    and "jwks_get_key net mt (PStr kid) (bs_cache b) = (Inr jwk, cache')" "key_pair (yw_encode w) J dl pem jwk (synth_payload w args) (synth_headers kid)"
    and "real_of_int \<lfloor>yw_now w\<rfloor> \<le> le_now env + 30" "le_now env \<le> real_of_int \<lfloor>yw_now w\<rfloor> + of_int iat_tolerance"
    and "\<not> seen_contains (bs_seen b) (yw_uuid w)" "0 < sl_hard_cap (bs_seen b)"
    and "store_ok (bs_store b)" "0 < ss_reasons_hard_cap (bs_store b)"
    and "\<forall>s \<in> set (find_sessions_for_user u (bs_store b)). \<exists>c. le_revoke env (s_session_id s) \<in> {RevokeStatus c, RevokeHttpError}"
  shows "\<exists>token b'. synth_main w (bcl_poster cfg J dl net mt env rid_of) args b = (Inr 0, Some token, b')
    \<and> ss_sessions (bs_store b') = filter (\<lambda>(i, s). s_user_sub s \<noteq> u) (ss_sessions (bs_store b))"
proof -
  let ?p = "logout_payload (sy_issuer args) (sy_aud args) (sy_sub args) (sy_sid args) (yw_now w) (yw_uuid w)"
  let ?h = "[(''typ'', PStr ''logout+jwt''), (''kid'', PStr kid)]"
  from assms(11) obtain key tok where key: "j_from_jwk J jwk = Some key" and t: "yw_encode w ?p pem ?h = Inr tok" "tok \<noteq> []"
    "j_header J tok = Inr ((''alg'', PStr ''RS256'') # ?h)" "dl tok key = Inr ?p" unfolding key_pair_def synth_payload_def synth_headers_def by blast
  from synth_payload_ok [OF assms(5,6,7,12,13)] obtain c where
    c: "bcl_payload (bc_expected_iss cfg) (bc_expected_aud cfg) (le_now env) ?p = Inr c" "lt_sub c = Some u" "lt_jti c = yw_uuid w"
    unfolding assms(8,9) by blast
  have iat: "lt_iat c = of_int \<lfloor>yw_now w\<rfloor>"
    using bcl_payload_ok(3) [OF c(1)] by (simp add: logout_payload_def as_number_def)
  have v: "validate_logout_token J dl net mt (le_now env) tok (bc_expected_iss cfg) (bc_expected_aud cfg) (bs_cache b) = (Inr c, cache')"
    using assms(3) by (simp add: validate_logout_token_def t bcl_header_def pyget_or_def assms(10) key c(1))
  obtain seen' where s: "seen_add (bs_seen b) (yw_uuid w) (of_int \<lfloor>yw_now w\<rfloor>) = Some seen'"
    using seen_add_total [OF assms(15)] by blast
  define b2 where "b2 = b\<lparr>bs_cache := cache', bs_seen := seen'\<rparr>"
  let ?rid = "if or_empty (sy_rid args) \<noteq> [] then or_empty (sy_rid args) else ''bcl-synth-'' @ show_int \<lfloor>yw_now w\<rfloor>"
  obtain had b' tr where e: "bcl_cascade cfg env (rid_of (Some ?rid)) u b2 = (BclOk had, b', tr)"
    and f: "ss_sessions (bs_store b') = filter (\<lambda>(i, s). s_user_sub s \<noteq> u) (ss_sessions (bs_store b))"
    using cascade_ends_sessions [of b2 u env cfg "rid_of (Some ?rid)"] assms(16-18) by (auto simp: b2_def)
  have r: "backchannel_logout cfg J dl net mt env (rid_of (Some ?rid)) ''application/x-www-form-urlencoded''
      (Some (parse_query (urlencode [(''logout_token'', tok)]))) b = (BclOk had, b', tr)"
    using form_token [OF t(2)] v assms(14) s e
    by (simp add: backchannel_logout_def form_ct_def c b2_def iat)
  have n: "?rid \<noteq> []" by simp
  have m: "build_logout_token (yw_encode w) pem (sy_issuer args) (sy_aud args) (PStr kid) (sy_sub args) (sy_sid args) (yw_now w) (yw_uuid w) = Inr tok"
    using t(1) by (simp add: build_logout_token_def assms(5))
  have "post_logout_token (bcl_poster cfg J dl net mt env rid_of) (sy_orchestrator args) tok ?rid b = (PostStatus 200, b')"
    unfolding post_logout_token_def bcl_poster_def using n by (simp only: if_False r prod.case Let_def bcl_status.simps)
  then have "synth_main w (bcl_poster cfg J dl net mt env rid_of) args b = (Inr 0, Some tok, b')"
    using m assms(1-4) by (simp add: synth_main_def Let_def)
  with f show ?thesis by blast
qed

section \<open>A run\<close>

definition sample_synth_payload :: pydict where
  "sample_synth_payload =
     [(''iss'', PStr ''is''), (''aud'', PStr ''mcp''), (''iat'', PInt 1000), (''jti'', PStr ''L1''),
      (''events'', PDict [(bcl_events_uri, PDict [])]), (''sub'', PStr ''alice'')]"

definition sample_synth_decode :: "string \<Rightarrow> unit \<Rightarrow> jwt_err + pydict" where
  "sample_synth_decode t k = (if t = ''lt'' then Inr sample_synth_payload else Inl InvalidSignatureError)"

definition sample_synth_world :: synth_world where
  "sample_synth_world =
     \<lparr>yw_files = [''key.pem'' \<mapsto> ''pem''], yw_jwks = \<lambda>u. Inl (EPy ''URLError''), yw_encode = \<lambda>p k h. Inr ''lt'',
      yw_now = 1000, yw_uuid = ''L1''\<rparr>"

definition sample_synth_args :: synth_args where
  "sample_synth_args = (default_synth_args ''key.pem'')
     \<lparr>sy_sub := Some ''alice'', sy_issuer := ''is'', sy_aud := ''mcp'', sy_kid := Some ''k1''\<rparr>"

lemma sample_key_pair:
  "key_pair (yw_encode sample_synth_world) sample_bcl_jwt sample_synth_decode ''pem'' (PDict [(''kid'', PStr ''k1'')])
     (synth_payload sample_synth_world sample_synth_args) (synth_headers ''k1'')"
  by (simp add: key_pair_def sample_synth_world_def sample_bcl_jwt_def sample_synth_decode_def synth_payload_def
      sample_synth_args_def default_synth_args_def logout_payload_def sample_synth_payload_def synth_headers_def)

lemma synth_logout_ends_sessions_witness:
  "\<exists>token b'. synth_main sample_synth_world (bcl_poster sample_bcl_config sample_bcl_jwt sample_synth_decode sample_bcl_net 5001
       (sample_env RevokeHttpError) (\<lambda>r. ''r'')) sample_synth_args sample_bcl_state = (Inr 0, Some token, b')
     \<and> ss_sessions (bs_store b') = filter (\<lambda>(i, s). s_user_sub s \<noteq> ''alice'') (ss_sessions (bs_store sample_bcl_state))"
proof -
  have j: "jwks_get_key sample_bcl_net 5001 (PStr ''k1'') (bs_cache sample_bcl_state)
      = (Inr (PDict [(''kid'', PStr ''k1'')]), sample_bcl_cache)"
    by (simp add: jwks_get_key_def jwks_is_stale_def jwks_lookup_def sample_bcl_cache_def new_jwks_cache_def sample_bcl_state_def)
  have w: "yw_files sample_synth_world (sy_key sample_synth_args) = Some ''pem''" "yw_uuid sample_synth_world = ''L1''"
    "yw_now sample_synth_world = 1000"
    by (simp_all add: sample_synth_world_def sample_synth_args_def default_synth_args_def)
  have a: "sy_kid sample_synth_args = Some ''k1''" "sy_print_only sample_synth_args = False"
    "sy_sub sample_synth_args = Some ''alice''" "sy_issuer sample_synth_args = bc_expected_iss sample_bcl_config"
    "sy_aud sample_synth_args = bc_expected_aud sample_bcl_config"
    by (simp_all add: sample_synth_args_def default_synth_args_def sample_bcl_config_def)
  have s: "\<not> seen_contains (bs_seen sample_bcl_state) ''L1''" "0 < sl_hard_cap (bs_seen sample_bcl_state)"
    "store_ok (bs_store sample_bcl_state)" "0 < ss_reasons_hard_cap (bs_store sample_bcl_state)"
    using sample_store_ok by (simp_all add: sample_bcl_state_def seen_contains_def new_seen_tokens_def od_keys_def)
  show ?thesis
    by (rule synth_logout_ends_sessions [OF w(1) a(1) _ a(2,3) _ _ a(4,5) j sample_key_pair])
       (use s in \<open>auto simp: w sample_env_def iat_tolerance_def\<close>)
qed

end
