(* ===== verification/HrMcp.thy ===== *)
theory HrMcp
  imports RestAuth HrLedger BindingMessages
begin

text \<open>
  The earlier MCP surface of the HR server: \<open>mcp_server/server.py\<close> with \<open>auth/context.py\<close> and
  \<open>auth/scopes.py\<close>.  A verifier fills per-request context variables from the token; nine tools
  read them.  No entry point of the present deployment mounts it; it shares the service and the
  store with the two surfaces that are.

  The library runs a tool only after \<open>verify_token\<close> returned an access token, in the context it
  left.  As in \<open>RestAuth\<close>, identity claims are texts when they are present.  The audit lines of
  the two reviews are part of the model, all other log lines are not.
\<close>

section \<open>The context variables\<close>

text \<open>\<open>None\<close> and the empty text are one value: every reader tests for truth.\<close>

record legacy_ctx =
  lx_scopes :: "string list"
  lx_act :: py
  lx_user_sub :: string
  lx_first_name :: string
  lx_last_name :: string

definition default_legacy_ctx :: legacy_ctx where
  "default_legacy_ctx = \<lparr>lx_scopes = [], lx_act = PNone, lx_user_sub = [], lx_first_name = [], lx_last_name = []\<rparr>"

section \<open>The guards\<close>

datatype legacy_error =
    InsufficientScope string "string list"
  | UnknownUser
  | LeaveNotFound string

definition legacy_require_scope :: "string \<Rightarrow> legacy_ctx \<Rightarrow> legacy_error option" where
  "legacy_require_scope scope c = (if scope \<notin> set (lx_scopes c) then Some (InsufficientScope scope (lx_scopes c)) else None)"

definition legacy_require_user :: "legacy_ctx \<Rightarrow> legacy_error option" where
  "legacy_require_user c = (if lx_user_sub c = [] then Some UnknownUser else None)"

definition first_or_unknown :: "legacy_ctx \<Rightarrow> string" where
  "first_or_unknown c = (if lx_first_name c \<noteq> [] then lx_first_name c else ''Unknown'')"

definition ensure_current_user :: "legacy_ctx \<Rightarrow> int \<Rightarrow> hr_store \<Rightarrow> hr_store" where
  "ensure_current_user c today st =
     (if lx_user_sub c \<noteq> []
      then snd (ensure_user (lx_user_sub c) (first_or_unknown c) (lx_last_name c) None None today st) else st)"

definition current_full_name :: "legacy_ctx \<Rightarrow> string" where
  "current_full_name c =
     (let n = py_strip (lx_first_name c @ '' '' @ lx_last_name c) in if n \<noteq> [] then n else ''Unknown'')"

definition get_actor_description :: "legacy_ctx \<Rightarrow> string" where
  "get_actor_description c =
     (if truthy (lx_act c)
      then ''Agent '' @ py_str (case lx_act c of PDict d \<Rightarrow> pyget d ''sub'' | v \<Rightarrow> v)
             @ '' (on behalf of '' @ current_full_name c @ '')''
      else ''AI Agent ('' @ current_full_name c @ '')'')"

section \<open>JWTTokenVerifier\<close>

record access_grant =
  ag_token :: string
  ag_client_id :: string
  ag_scopes :: "string list"
  ag_expires_at :: "int option"

definition legacy_validator :: "string \<Rightarrow> string \<Rightarrow> rest_validator" where
  "legacy_validator issuer client_id = new_rest_validator issuer [client_id]"

text \<open>The names of a user without a first name in the token, from the store or else the subject.\<close>

definition legacy_names :: "hr_store \<Rightarrow> py \<Rightarrow> string \<Rightarrow> string \<Rightarrow> string \<times> string" where
  "legacy_names st subject first_name last_name =
     (if first_name \<noteq> [] then (first_name, last_name)
      else case subject of
             PStr s \<Rightarrow> (case map_of (hs_users st) s of Some u \<Rightarrow> (hu_first_name u, hu_last_name u) | None \<Rightarrow> (s, last_name))
           | _ \<Rightarrow> ([], last_name))"

definition legacy_context :: "hr_store \<Rightarrow> pydict \<Rightarrow> legacy_ctx res" where
  "legacy_context st p =
     (case (ctx_scopes p, claim_text p ''sub'', ctx_names [''name'', ''preferred_username'', ''username''] p) of
        (Inr scopes, Inr sub, Inr (given, family)) \<Rightarrow>
          (let (first_name, last_name) = legacy_names st (pyget p ''sub'') given family
           in Inr \<lparr>lx_scopes = scopes, lx_act = pyget p ''act'', lx_user_sub = sub,
                   lx_first_name = first_name, lx_last_name = last_name\<rparr>)
      | _ \<Rightarrow> Inl (EPy ''AttributeError''))"

text \<open>
  \<open>lax_int\<close> is pydantic's reading of the text of \<open>expires_at\<close>; a model it rejects is an exception
  after the context has been set.
\<close>

definition verify_token ::
  "'k rest_jwt \<Rightarrow> (nat \<Rightarrow> http_answer) \<Rightarrow> (string \<Rightarrow> int option) \<Rightarrow> hr_store \<Rightarrow> string \<Rightarrow> rest_validator \<Rightarrow> legacy_ctx
     \<Rightarrow> access_grant option \<times> rest_validator \<times> legacy_ctx"
where
  "verify_token J net lax_int st token v c =
     (case rest_validate_token J net token v of
        (Inl e, v1) \<Rightarrow> (None, v1, c)
      | (Inr p, v1) \<Rightarrow>
         (case legacy_context st p of
            Inl e \<Rightarrow> (None, v1, c)
          | Inr c1 \<Rightarrow>
             (let client_id = (case pyget p ''aud'' of PStr a \<Rightarrow> a | _ \<Rightarrow> hd (rv_audience v1))
              in if truthy (pyget p ''exp'') then
                   (case lax_int (py_str (pyget p ''exp'')) of
                      None \<Rightarrow> (None, v1, c1)
                    | Some n \<Rightarrow> (Some \<lparr>ag_token = token, ag_client_id = client_id, ag_scopes = lx_scopes c1, ag_expires_at = Some n\<rparr>, v1, c1))
                 else (Some \<lparr>ag_token = token, ag_client_id = client_id, ag_scopes = lx_scopes c1, ag_expires_at = None\<rparr>, v1, c1))))"

section \<open>The tools\<close>

datatype legacy_answer =
    AHolidays "(string \<times> string) list" | APolicy "policy_row list" | ABalance balance_reply
  | ARequests "history_row list" | AApplied "string svc" | AAll "request_row list" | ADetails details_reply
  | AReviewed "review_reply svc"

datatype legacy_reply = LegacyRefused legacy_error | LegacyRaised exn | LegacyAnswer legacy_answer

fun legacy_res :: "('a \<Rightarrow> legacy_answer) \<Rightarrow> 'a res \<Rightarrow> legacy_reply" where
  "legacy_res f (Inl e) = LegacyRaised e"
| "legacy_res f (Inr a) = LegacyAnswer (f a)"

text \<open>A tool returns its reply, the audit lines and the store.\<close>

type_synonym legacy_tool = "legacy_ctx \<Rightarrow> hr_store \<Rightarrow> legacy_reply \<times> string list \<times> hr_store"

definition legacy_scoped :: "string \<Rightarrow> legacy_tool \<Rightarrow> legacy_tool" where
  "legacy_scoped scope body c st =
     (case legacy_require_scope scope c of Some e \<Rightarrow> (LegacyRefused e, [], st) | None \<Rightarrow> body c st)"

definition legacy_for_user :: "legacy_tool \<Rightarrow> legacy_tool" where
  "legacy_for_user body c st =
     (case legacy_require_user c of Some e \<Rightarrow> (LegacyRefused e, [], st) | None \<Rightarrow> body c st)"

definition legacy_get_company_holidays :: legacy_tool where
  "legacy_get_company_holidays = legacy_scoped ''hr_basic_mcp'' (\<lambda>c st. (LegacyAnswer (AHolidays (get_holidays st)), [], st))"

definition legacy_get_leave_policy :: legacy_tool where
  "legacy_get_leave_policy = legacy_scoped ''hr_basic_mcp'' (\<lambda>c st. (LegacyAnswer (APolicy (get_leave_policy st)), [], st))"

definition legacy_get_my_leave_balance :: "int \<Rightarrow> legacy_tool" where
  "legacy_get_my_leave_balance today = legacy_scoped ''hr_self_mcp'' (legacy_for_user
     (\<lambda>c st. let (r, st1) = get_my_leave_balance (lx_user_sub c) (first_or_unknown c) (lx_last_name c) today st
              in (legacy_res ABalance r, [], st1)))"

definition legacy_get_my_leave_requests :: "int \<Rightarrow> legacy_tool" where
  "legacy_get_my_leave_requests today = legacy_scoped ''hr_self_mcp'' (legacy_for_user
     (\<lambda>c st. let (rows, st1) = get_my_leave_requests (lx_user_sub c) (first_or_unknown c) (lx_last_name c) today st
              in (LegacyAnswer (ARequests rows), [], st1)))"

definition legacy_apply_leave :: "int \<Rightarrow> string \<Rightarrow> string \<Rightarrow> string \<Rightarrow> string \<Rightarrow> legacy_tool" where
  "legacy_apply_leave today leave_type start_date end_date reason = legacy_scoped ''hr_self_mcp'' (legacy_for_user
     (\<lambda>c st. let (r, st1) = apply_leave (lx_user_sub c) (first_or_unknown c) (lx_last_name c)
                              leave_type start_date end_date reason today st
              in (legacy_res AApplied r, [], st1)))"

definition legacy_get_all_leave_requests :: "string \<Rightarrow> string \<Rightarrow> legacy_tool" where
  "legacy_get_all_leave_requests status employee_name = legacy_scoped ''hr_read_mcp''
     (\<lambda>c st. (LegacyAnswer (AAll (get_all_leave_requests (if status = [] then None else Some status)
                (if employee_name = [] then None else Some employee_name) st)), [], st))"

definition legacy_get_leave_request_details :: "string \<Rightarrow> legacy_tool" where
  "legacy_get_leave_request_details request_id = legacy_scoped ''hr_read_mcp''
     (\<lambda>c st. (case get_leave_request_details request_id st of
                 None \<Rightarrow> LegacyRefused (LeaveNotFound request_id)
               | Some d \<Rightarrow> LegacyAnswer (ADetails d), [], st))"

text \<open>The audit line of a review that went through.\<close>

definition audit_review :: "review_reply svc res \<Rightarrow> string \<Rightarrow> string list" where
  "audit_review r line = (case r of Inr (SvcOk a) \<Rightarrow> [line] | _ \<Rightarrow> [])"

definition legacy_approve_leave_request :: "int \<Rightarrow> string \<Rightarrow> legacy_tool" where
  "legacy_approve_leave_request today request_id = legacy_scoped ''hr_approve_mcp'' (legacy_for_user
     (\<lambda>c st. let (r, st1) = approve_leave_request request_id (lx_user_sub c) (current_full_name c) (ensure_current_user c today st)
              in (legacy_res AReviewed r,
                  audit_review r (''[AUDIT] Leave '' @ request_id @ '' approved by '' @ get_actor_description c), st1)))"

text \<open>\<open>log_reasons\<close> is \<open>LOG_REJECT_REASONS\<close>.\<close>

definition legacy_reject_leave_request :: "bool \<Rightarrow> int \<Rightarrow> string \<Rightarrow> string \<Rightarrow> legacy_tool" where
  "legacy_reject_leave_request log_reasons today request_id reason = legacy_scoped ''hr_approve_mcp'' (legacy_for_user
     (\<lambda>c st. let (r, st1) = reject_leave_request request_id reason (lx_user_sub c) (current_full_name c)
                              (ensure_current_user c today st)
              in (legacy_res AReviewed r,
                  audit_review r (''[AUDIT] Leave '' @ request_id @ '' rejected by '' @ get_actor_description c
                    @ (if log_reasons then '' '' @ dash @ '' reason: '' @ reason else [])), st1)))"

section \<open>A call\<close>

datatype legacy_call =
    CHolidays | CPolicy | CBalance | CRequests | CApply string string string string
  | CAll string string | CDetails string | CApprove string | CReject string string

fun legacy_tool_of :: "bool \<Rightarrow> int \<Rightarrow> legacy_call \<Rightarrow> legacy_tool" where
  "legacy_tool_of lr today CHolidays = legacy_get_company_holidays"
| "legacy_tool_of lr today CPolicy = legacy_get_leave_policy"
| "legacy_tool_of lr today CBalance = legacy_get_my_leave_balance today"
| "legacy_tool_of lr today CRequests = legacy_get_my_leave_requests today"
| "legacy_tool_of lr today (CApply t s e r) = legacy_apply_leave today t s e r"
| "legacy_tool_of lr today (CAll s n) = legacy_get_all_leave_requests s n"
| "legacy_tool_of lr today (CDetails i) = legacy_get_leave_request_details i"
| "legacy_tool_of lr today (CApprove i) = legacy_approve_leave_request today i"
| "legacy_tool_of lr today (CReject i r) = legacy_reject_leave_request lr today i r"

definition legacy_request ::
  "'k rest_jwt \<Rightarrow> (nat \<Rightarrow> http_answer) \<Rightarrow> (string \<Rightarrow> int option) \<Rightarrow> bool \<Rightarrow> int \<Rightarrow> string \<Rightarrow> legacy_call
     \<Rightarrow> rest_validator \<Rightarrow> hr_store \<Rightarrow> legacy_reply option \<times> string list \<times> rest_validator \<times> hr_store"
where
  "legacy_request J net lax_int lr today token call v st =
     (case verify_token J net lax_int st token v default_legacy_ctx of
        (None, v1, c) \<Rightarrow> (None, [], v1, st)
      | (Some g, v1, c) \<Rightarrow>
         (let (r, audit, st1) = legacy_tool_of lr today call c st in (Some r, audit, v1, st1)))"

text \<open>The scope of each tool, and the tools that act for a user.\<close>

fun legacy_scope :: "legacy_call \<Rightarrow> string" where
  "legacy_scope CHolidays = ''hr_basic_mcp''"
| "legacy_scope CPolicy = ''hr_basic_mcp''"
| "legacy_scope (CAll s n) = ''hr_read_mcp''"
| "legacy_scope (CDetails i) = ''hr_read_mcp''"
| "legacy_scope (CApprove i) = ''hr_approve_mcp''"
| "legacy_scope (CReject i r) = ''hr_approve_mcp''"
| "legacy_scope _ = ''hr_self_mcp''"

section \<open>What the surface guarantees\<close>

lemmas legacy_defs =
  legacy_get_company_holidays_def legacy_get_leave_policy_def legacy_get_my_leave_balance_def
  legacy_get_my_leave_requests_def legacy_apply_leave_def legacy_get_all_leave_requests_def
  legacy_get_leave_request_details_def legacy_approve_leave_request_def legacy_reject_leave_request_def

lemma legacy_scoped_eq:
  "legacy_scoped scope body c st =
     (if scope \<in> set (lx_scopes c) then body c st else (LegacyRefused (InsufficientScope scope (lx_scopes c)), [], st))"
  by (simp add: legacy_scoped_def legacy_require_scope_def)

lemma legacy_for_user_eq:
  "legacy_for_user body c st = (if lx_user_sub c \<noteq> [] then body c st else (LegacyRefused UnknownUser, [], st))"
  by (simp add: legacy_for_user_def legacy_require_user_def)

text \<open>A tool answers, or has an effect, only with its scope.\<close>

lemma legacy_tool_scope:
  assumes "legacy_tool_of lr today call c st = (r, audit, st')" "(\<exists>a. r = LegacyAnswer a) \<or> st' \<noteq> st \<or> audit \<noteq> []"
  shows "legacy_scope call \<in> set (lx_scopes c)"
  using assms by (cases call) (auto simp: legacy_defs legacy_scoped_eq split: if_splits)

text \<open>Only a caller with a subject changes the store.\<close>

lemma legacy_tool_user:
  assumes "legacy_tool_of lr today call c st = (r, audit, st')" "st' \<noteq> st"
  shows "lx_user_sub c \<noteq> []"
  using assms by (cases call) (auto simp: legacy_defs legacy_scoped_eq legacy_for_user_eq split: if_splits)

text \<open>A tool runs operations of the service, all of them in the name of the caller.\<close>

fun hr_op_by :: "string \<Rightarrow> hr_op \<Rightarrow> bool" where
  "hr_op_by u (OpEnsureUser s f l un em) = (s = u)"
| "hr_op_by u (OpBalance s f l) = (s = u)"
| "hr_op_by u (OpHistory s f l) = (s = u)"
| "hr_op_by u (OpApply s f l t sd ed rs) = (s = u)"
| "hr_op_by u (OpApprove i s n) = (s = u)"
| "hr_op_by u (OpReject i why s n) = (s = u)"
| "hr_op_by u _ = False"

definition runs_by :: "int \<Rightarrow> string \<Rightarrow> hr_store \<Rightarrow> hr_store \<Rightarrow> bool" where
  "runs_by today u st st' = (\<exists>ops. st' = hr_run (map (Pair today) ops) st \<and> list_all (hr_op_by u) ops)"

lemma runs_by_none [simp]: "runs_by today u st st"
  unfolding runs_by_def by (rule exI [of _ "[]"]) (simp add: hr_run_def)

lemma runs_by_step: "runs_by today u st st1 \<Longrightarrow> hr_op_by u p \<Longrightarrow> runs_by today u st (hr_exec today p st1)"
  unfolding runs_by_def by (clarify, rule_tac x = "ops @ [p]" in exI) (simp add: hr_run_def)

lemma runs_by_service [simp]:
  "runs_by today u st (snd (get_my_leave_balance u f l today st))"
  "runs_by today u st (snd (get_my_leave_requests u f l today st))"
  "runs_by today u st (snd (apply_leave u f l t s e w today st))"
  "runs_by today u st st1 \<Longrightarrow> runs_by today u st (snd (approve_leave_request i u n st1))"
  "runs_by today u st st1 \<Longrightarrow> runs_by today u st (snd (reject_leave_request i w u n st1))"
  using runs_by_step [of today u st st "OpBalance u f l"] runs_by_step [of today u st st "OpHistory u f l"]
    runs_by_step [of today u st st "OpApply u f l t s e w"] runs_by_step [of today u st st1 "OpApprove i u n"]
    runs_by_step [of today u st st1 "OpReject i w u n"]
  by simp_all

lemma runs_by_registered [simp]: "runs_by today (lx_user_sub c) st (ensure_current_user c today st)"
  using runs_by_step [of today "lx_user_sub c" st st "OpEnsureUser (lx_user_sub c) (first_or_unknown c) (lx_last_name c) None None"]
  by (simp add: ensure_current_user_def)

lemma legacy_tool_run:
  assumes "legacy_tool_of lr today call c st = (r, audit, st')"
  shows "runs_by today (lx_user_sub c) st st'"
  using assms
  by (cases call) (auto simp: legacy_defs legacy_scoped_eq legacy_for_user_eq case_prod_beta Let_def split: if_splits)

text \<open>
  An answer or an effect of a call comes from a token the validator's decoder accepted, whose scopes
  hold the tool's; what changes is done by operations in the name of its subject, which is not
  empty, and the ledger stays in order.
\<close>

theorem legacy_request_authorised:
  assumes "legacy_request J net lax_int lr today token call v st = (r, audit, v', st')"
    and "(\<exists>a. r = Some (LegacyAnswer a)) \<or> st' \<noteq> st \<or> audit \<noteq> []"
  obtains p scopes sub ops where "rest_accepts J (rest_trust v) token p" "ctx_scopes p = Inr scopes" "legacy_scope call \<in> set scopes"
    "claim_text p ''sub'' = Inr sub" "st' = hr_run (map (Pair today) ops) st" "list_all (hr_op_by sub) ops"
    "st' \<noteq> st \<longrightarrow> sub \<noteq> []" "hr_inv st \<longrightarrow> hr_inv st'"
proof -
  from assms obtain g c r0 where vt: "verify_token J net lax_int st token v default_legacy_ctx = (Some g, v', c)"
    and t: "legacy_tool_of lr today call c st = (r0, audit, st')" "r = Some r0"
    by (auto simp: legacy_request_def Let_def split: prod.splits option.splits)
  from vt obtain p where p: "rest_validate_token J net token v = (Inr p, v')" "legacy_context st p = Inr c"
    by (auto simp: verify_token_def Let_def split: sum.splits prod.splits if_splits option.splits)
  then have c: "ctx_scopes p = Inr (lx_scopes c)" "claim_text p ''sub'' = Inr (lx_user_sub c)"
    by (auto simp: legacy_context_def split: sum.splits prod.splits)
  obtain ops where ops: "st' = hr_run (map (Pair today) ops) st" "list_all (hr_op_by (lx_user_sub c)) ops"
    using legacy_tool_run [OF t(1)] by (auto simp: runs_by_def)
  show thesis
    by (rule that [OF rest_validate_accepts [OF p(1)] c(1) _ c(2) ops])
       (use legacy_tool_scope [OF t(1)] legacy_tool_user [OF t(1)] assms(2) t(2) ops(1) hr_inv_run in auto)
qed

text \<open>The audit line of a review names the agent the token delegates to, and nobody else writes one.\<close>

lemma legacy_audit:
  assumes "legacy_tool_of lr today call c st = (r, audit, st')" "line \<in> set audit"
  shows "\<exists>i. (call = CApprove i \<or> (\<exists>w. call = CReject i w)) \<and> (\<exists>q. map_of (hs_leave_requests st') i = Some q
     \<and> lr_reviewed_by_sub q = Some (lx_user_sub c) \<and> lr_status q \<in> {''Approved'', ''Rejected''})"
  using assms
  by (cases call)
     (auto simp: legacy_defs legacy_scoped_eq legacy_for_user_eq audit_review_def approve_leave_request_def
        reject_leave_request_def case_prod_beta Let_def dict_simps split: if_splits sum.splits svc.splits)

end
