(* ===== verification/Introspector.thy ===== *)
theory Introspector
  imports AuthErrors
begin

text \<open>
  \<open>common/auth/introspector.py\<close>: the cache of introspection results of a resource server with its
  two evictions and its collection.  \<open>introspect\<close> itself raises \<open>NotImplementedError\<close>, so nothing
  of the present program fills the cache.
\<close>

record introspection_config =
  in_introspection_url :: string
  in_client_id :: string
  in_client_secret :: string
  in_cache_ttl_seconds :: real

definition default_introspection_config :: "string \<Rightarrow> string \<Rightarrow> string \<Rightarrow> introspection_config" where
  "default_introspection_config url cid secret =
     \<lparr>in_introspection_url = url, in_client_id = cid, in_client_secret = secret, in_cache_ttl_seconds = 2\<rparr>"

record introspection_result =
  ir_active :: bool
  ir_sub :: "string option"
  ir_sid :: "string option"
  ir_aud :: "string option"
  ir_scope :: "string option"
  ir_raw :: pydict

text \<open>The cache, in insertion order, with one entry per key.\<close>

type_synonym introspection_cache = "(string \<times> real \<times> introspection_result) list"

definition introspection_key :: "(string \<Rightarrow> string) \<Rightarrow> string \<Rightarrow> string option \<Rightarrow> string" where
  "introspection_key sha256_hex token jti = (if or_empty jti \<noteq> [] then or_empty jti else sha256_hex token)"

definition introspect :: "string \<Rightarrow> string option \<Rightarrow> introspection_result res" where
  "introspect token jti = Inl (EPy ''NotImplementedError'')"

text \<open>The loop over a copy of the items, with the deletions and the count.\<close>

fun evict_loop :: "(real \<times> introspection_result \<Rightarrow> bool) \<Rightarrow> introspection_cache \<Rightarrow> introspection_cache \<Rightarrow> nat
     \<Rightarrow> nat \<times> introspection_cache" where
  "evict_loop hit [] cache evicted = (evicted, cache)"
| "evict_loop hit ((k, e) # items) cache evicted =
     (if hit e then evict_loop hit items (AList.delete k cache) (Suc evicted) else evict_loop hit items cache evicted)"

definition evict_by_sid :: "string \<Rightarrow> introspection_cache \<Rightarrow> nat \<times> introspection_cache" where
  "evict_by_sid sid cache = evict_loop (\<lambda>(exp, r). ir_sid r = Some sid) cache cache 0"

definition evict_by_sub :: "string \<Rightarrow> introspection_cache \<Rightarrow> nat \<times> introspection_cache" where
  "evict_by_sub sub cache = evict_loop (\<lambda>(exp, r). ir_sub r = Some sub) cache cache 0"

definition introspection_gc :: "real \<Rightarrow> introspection_cache \<Rightarrow> introspection_cache" where
  "introspection_gc now cache = snd (evict_loop (\<lambda>(exp, r). exp < now) cache cache 0)"

section \<open>What an eviction leaves\<close>

lemma evict_loop_filter:
  assumes "distinct (map fst items)"
  shows "evict_loop hit items cache n =
     (n + length (filter (hit \<circ> snd) items),
      filter (\<lambda>(k, e). k \<notin> fst ` set (filter (hit \<circ> snd) items)) cache)"
  using assms
proof (induction items arbitrary: cache n)
  case Nil
  then show ?case by simp
next
  case (Cons a items)
  obtain k e where a: "a = (k, e)" by (cases a)
  have d: "AList.delete k cache = filter (\<lambda>(k', e). k' \<noteq> k) cache" for cache :: introspection_cache
    by (simp add: AList.delete_eq case_prod_beta eq_commute)
  show ?case
    using Cons by (auto simp: a d case_prod_beta intro!: filter_cong)
qed

lemma evict_whole:
  assumes "distinct (map fst cache)"
  shows "evict_loop hit cache cache 0 = (length (filter (hit \<circ> snd) cache), filter (\<lambda>(k, e). \<not> hit e) cache)"
proof -
  have "(k \<notin> fst ` set (filter (hit \<circ> snd) cache)) = (\<not> hit e)" if "(k, e) \<in> set cache" for k e
  proof -
    have "e' = e" if "(k, e') \<in> set cache" for e'
      using eq_key_imp_eq_value [OF assms that \<open>(k, e) \<in> set cache\<close>] .
    then show ?thesis using that by force
  qed
  then have "filter (\<lambda>(k, e). k \<notin> fst ` set (filter (hit \<circ> snd) cache)) cache = filter (\<lambda>(k, e). \<not> hit e) cache"
    by (intro filter_cong) auto
  with evict_loop_filter [OF assms] show ?thesis by simp
qed

text \<open>An eviction removes exactly the entries of the session, or of the subject, and counts them.\<close>

lemma evict_by_sid_exact:
  assumes "distinct (map fst cache)"
  shows "evict_by_sid sid cache = (length (filter (\<lambda>(k, exp, r). ir_sid r = Some sid) cache),
     filter (\<lambda>(k, exp, r). ir_sid r \<noteq> Some sid) cache)"
  by (simp add: evict_by_sid_def evict_whole [OF assms] comp_def split_def)

lemma evict_by_sub_exact:
  assumes "distinct (map fst cache)"
  shows "evict_by_sub sub cache = (length (filter (\<lambda>(k, exp, r). ir_sub r = Some sub) cache),
     filter (\<lambda>(k, exp, r). ir_sub r \<noteq> Some sub) cache)"
  by (simp add: evict_by_sub_def evict_whole [OF assms] comp_def split_def)

lemma introspection_gc_exact:
  "distinct (map fst cache) \<Longrightarrow> introspection_gc now cache = filter (\<lambda>(k, exp, r). now \<le> exp) cache"
  by (simp add: introspection_gc_def evict_whole split_def not_less)

end
