(* ===== verification/ItDispatcher.thy ===== *)
theory ItDispatcher
  imports Dispatcher
begin

text \<open>
  \<open>it_agent/ciba/orchestrator.py\<close> read on its own: the dispatcher of the IT agent as one function per
  method of its class, in the order of the file and without the stages \<open>Dispatcher\<close> cuts the shared
  flow into.  The file calls itself a structural mirror of the HR agent's; the equations at the
  end say that it is the shared dispatcher over the IT agent's tools, so that what is proved of
  the one holds of the other.
\<close>

section \<open>Token ids and revocation\<close>

definition it_jti_of :: "agent_lib \<Rightarrow> oauth_token \<Rightarrow> string" where
  "it_jti_of lib tok =
     (if is_str (access_token tok) \<and> truthy (access_token tok)
      then (case al_unverified_claims lib (py_str (access_token tok)) of
              None \<Rightarrow> []
            | Some payload \<Rightarrow> (let raw_jti = pyget payload ''jti'' in if truthy raw_jti then py_str raw_jti else []))
      else [])"

definition it_revoke_jti :: "string \<Rightarrow> dispatcher \<Rightarrow> dispatcher" where
  "it_revoke_jti jti d =
     (case dp_jti_to_cache_key d jti of
        None \<Rightarrow> d
      | Some cache_key \<Rightarrow>
          d\<lparr>dp_jti_to_cache_key := (dp_jti_to_cache_key d)(jti := None), dp_token_cache := (dp_token_cache d)(cache_key := None)\<rparr>)"

definition it_denylist_contains :: "jti_denylist \<Rightarrow> dispatcher \<Rightarrow> string \<Rightarrow> bool" where
  "it_denylist_contains denylist d jti = (dp_attached d \<and> jti \<noteq> [] \<and> denylist_contains denylist jti)"

section \<open>A call\<close>

text \<open>From step 2 on: the consent text, the agent's own token, the request and its registration.\<close>

definition it_request_consent ::
  "agent_lib \<Rightarrow> dispatcher_deps \<Rightarrow> dispatch_world \<Rightarrow> tool_entry \<Rightarrow> pydict \<Rightarrow> string \<Rightarrow> string \<Rightarrow> string option
     \<Rightarrow> real option \<Rightarrow> dispatcher \<Rightarrow> dispatch_outcome \<times> dispatcher"
where
  "it_request_consent lib deps w te mcp_kwargs user_sub request_id last_logout_reason prior_iat d =
     (let ciba_scope = (if or_empty (te_scope te) \<noteq> [] then or_empty (te_scope te) else dd_ciba_scope deps);
          is_refresh = (prior_iat \<noteq> None);
          binding_msg = render (select_template last_logout_reason is_refresh) (dd_agent_label deps) (te_action te) request_id
      in case ensure_valid_token (dw_mint w) (dw_actor_now w) (dw_actor_lock w) (dp_provider d) of
           (Inl e, p) \<Rightarrow>
             (replied (Inr (ErrorReply \<lparr>ep_error_id = ''ERR-AGENT-INTERNAL'',
                ep_reason = ''Failed to obtain actor token: '' @ al_str_exn lib e\<rparr>)), d\<lparr>dp_provider := p\<rparr>)
         | (Inr actor_token, p) \<Rightarrow>
             if \<not> has_len (access_token actor_token) then (replied (Inl (EPy ''TypeError'')), d\<lparr>dp_provider := p\<rparr>)
             else
              (case initiate (dd_ciba deps) (dw_ciba w) (dw_initiated_at w) (dd_oauth_client_id deps)
                      (dd_oauth_client_secret deps) user_sub binding_msg (access_token actor_token) ciba_scope None of
                 Inl e \<Rightarrow>
                   (replied (Inr (ErrorReply \<lparr>ep_error_id = ''ERR-CIBA-001'',
                      ep_reason = ''CIBA initiation failed: '' @ al_str_exn lib e\<rparr>)), d\<lparr>dp_provider := p\<rparr>)
               | Inr req \<Rightarrow>
                   (register_consent
                      \<lparr>jb_request = req, jb_method = te_method te, jb_kwargs = mcp_kwargs, jb_request_id = request_id,
                       jb_cache_key = (user_sub, ciba_scope)\<rparr>
                      (dw_initiated_at w)
                      (\<lambda>auth_req_id auth_url.
                         \<lparr>cn_auth_req_id = auth_req_id, cn_auth_url = auth_url, cn_agent_label = dd_agent_label deps,
                          cn_action = te_action te, cn_scope = ciba_scope, cn_binding_message = binding_msg,
                          cn_expires_in = cr_expires_in_s req, cn_is_refresh = is_refresh, cn_prior_consent_at = prior_iat,
                          cn_action_text = None\<rparr>), d\<lparr>dp_provider := p\<rparr>)))"

definition it_dispatcher_call ::
  "agent_lib \<Rightarrow> dispatcher_deps \<Rightarrow> dispatch_world \<Rightarrow> jti_denylist \<Rightarrow> string \<Rightarrow> pydict \<Rightarrow> string \<Rightarrow> string
     \<Rightarrow> string option \<Rightarrow> dispatcher \<Rightarrow> dispatch_outcome \<times> dispatcher"
where
  "it_dispatcher_call lib deps w denylist tool args user_sub request_id last_logout_reason d =
     (case it_tool_registry tool of
        None \<Rightarrow>
          (replied (Inr (ErrorReply \<lparr>ep_error_id = ''ERR-AGENT-001-tool-not-found'',
             ep_reason = ''Tool '' @ repr_str tool @ '' is not registered in the IT dispatcher''\<rparr>)), d)
      | Some te \<Rightarrow>
         (case te_kwargs te args of
            Inl e \<Rightarrow> (replied (Inl e), d)
          | Inr mcp_kwargs \<Rightarrow>
             (let missing = sort (filter (\<lambda>k. \<not> truthy (pyget args k)) (it_required_args tool));
                  cache_key = (user_sub, if or_empty (te_scope te) \<noteq> [] then or_empty (te_scope te) else dd_ciba_scope deps);
                  cached = dp_token_cache d cache_key;
                  prior_iat = map_option ct_iat cached;
                  cached_jti = (case cached of None \<Rightarrow> [] | Some c \<Rightarrow> it_jti_of lib (ct_token c));
                  dropped = d\<lparr>dp_token_cache := (dp_token_cache d)(cache_key := None)\<rparr>;
                  consent = it_request_consent lib deps w te mcp_kwargs user_sub request_id last_logout_reason prior_iat
              in if missing \<noteq> [] then
                   (replied (Inr (ErrorReply \<lparr>ep_error_id = ''ERR-AGENT-002'',
                      ep_reason = ''Missing required arguments for '' @ tool @ '': '' @ py_repr (PList (map PStr missing))\<rparr>)), d)
                 else if cached \<noteq> None \<and> it_denylist_contains denylist d cached_jti then
                   consent (dropped\<lparr>dp_jti_to_cache_key := (dp_jti_to_cache_key d)(cached_jti := None)\<rparr>)
                 else (case cached of
                         None \<Rightarrow> consent d
                       | Some c \<Rightarrow>
                          if is_near_expiry c (dw_now w) then consent d
                          else (case dw_mcp w (te_method te) (ct_token c) request_id mcp_kwargs of
                                  McpHttpError status json \<Rightarrow> consent dropped
                                | McpRaised e \<Rightarrow> (replied (Inl e), d)
                                | McpOk tool_result \<Rightarrow>
                                   (case tool_result of
                                      PDict data \<Rightarrow>
                                        (replied (Inr (ResultReply \<lparr>rp_data = data, rp_token_jti = it_jti_of lib (ct_token c),
                                           rp_token_exp = trunc_real (ct_expires_at c), rp_token_iat = trunc_real (ct_iat c)\<rparr>)), d)
                                    | _ \<Rightarrow> (replied (Inl (EPy ''ValidationError'')), d)))))))"

section \<open>The background task\<close>

definition it_run_to_completion ::
  "agent_lib \<Rightarrow> dispatcher_deps \<Rightarrow> run_world \<Rightarrow> dispatch_job \<Rightarrow> pending_state \<Rightarrow> dispatcher
     \<Rightarrow> (pending_state \<times> dispatcher) option"
where
  "it_run_to_completion lib deps w job state d =
     (let done = state\<lparr>pd_result := None, pd_error := None, pd_completion := True, pd_polling := False\<rparr>;
          caught = (\<lambda>e. done\<lparr>pd_error := Some
            (if raised_as e CIBADeniedError then \<lparr>ep_error_id = ''ERR-CIBA-005'', ep_reason = ''user_denied''\<rparr>
             else if raised_as e CIBAExpiredError then \<lparr>ep_error_id = ''ERR-CIBA-009'', ep_reason = ''auth_req_id_expired''\<rparr>
             else if raised_as e CIBATimeoutError then
               \<lparr>ep_error_id = ''ERR-CIBA-010'', ep_reason = if rw_cancel_set w then ''cancelled'' else ''polling_timeout''\<rparr>
             else \<lparr>ep_error_id = ''ERR-AGENT-INTERNAL'', ep_reason = al_str_exn lib e\<rparr>)\<rparr>)
      in case poll_for_token (dd_ciba deps) (rw_poll w) (rw_start w) (jb_request job) (Some (dd_max_poll_seconds deps)) of
           None \<Rightarrow> None
         | Some (Inl e, sends) \<Rightarrow> Some (caught e, d)
         | Some (Inr token_b, sends) \<Rightarrow>
            (case rw_mcp w (jb_method job) token_b (jb_request_id job) (jb_kwargs job) of
               McpRaised e \<Rightarrow> Some (caught e, d)
             | McpHttpError status json \<Rightarrow>
                 (let upstream_id = upstream_error_id json
                  in Some (done\<lparr>pd_error :=
                       (case (if truthy upstream_id then upstream_id else PStr ''ERR-MCP-005'') of
                          PStr error_id \<Rightarrow> Some \<lparr>ep_error_id = error_id,
                            ep_reason = ''MCP HTTP '' @ show_int status @ '': '' @ al_str_exn lib (EPy ''HTTPStatusError'')\<rparr>
                        | _ \<Rightarrow> None)\<rparr>, d))
             | McpOk tool_result \<Rightarrow>
                 (let iat = expires_at token_b - of_int (expires_in token_b);
                      jti = it_jti_of lib token_b;
                      d1 = d\<lparr>dp_token_cache := (dp_token_cache d)(jb_cache_key job \<mapsto>
                               \<lparr>ct_token = token_b, ct_iat = iat, ct_expires_at = expires_at token_b\<rparr>)\<rparr>;
                      d2 = (if jti \<noteq> [] then d1\<lparr>dp_jti_to_cache_key := (dp_jti_to_cache_key d1)(jti \<mapsto> jb_cache_key job)\<rparr> else d1)
                  in case tool_result of
                       PDict data \<Rightarrow>
                         Some (done\<lparr>pd_result := Some \<lparr>rp_data = data, rp_token_jti = jti,
                           rp_token_exp = trunc_real (expires_at token_b), rp_token_iat = trunc_real iat\<rparr>\<rparr>, d2)
                     | _ \<Rightarrow> Some (caught (EPy ''ValidationError''), d2))))"

section \<open>It is the shared dispatcher\<close>

lemma it_jti_of_eq: "it_jti_of lib tok = jti_of lib tok"
  by (cases "access_token tok") (auto simp: it_jti_of_def jti_of_def Let_def split: option.split)

lemma it_revoke_jti_eq: "it_revoke_jti jti d = revoke_jti jti d"
  by (auto simp: it_revoke_jti_def revoke_jti_def Let_def fun_upd_idem split: option.split)

lemma it_denylist_contains_eq: "it_denylist_contains denylist d jti = disp_denylist_contains denylist d jti"
  by (simp add: it_denylist_contains_def disp_denylist_contains_def)

lemma it_request_consent_eq:
  "start_consent it_agent lib deps w tool args te kw user rid reason prior d
     = it_request_consent lib deps w te kw user rid reason prior d"
  by (simp add: start_consent_def it_request_consent_def it_agent_def it_consent_texts_def binding_message_def
      effective_scope_def Let_def split: prod.split sum.split)

lemma disp_denied_jti: "disp_denylist_contains denylist d j \<Longrightarrow> j \<noteq> []"
  by (auto simp: disp_denylist_contains_def)

theorem it_dispatcher_call_eq: "it_dispatcher_call = it_dispatch"
proof (intro ext)
  fix lib deps w denylist tool args user rid reason d
  show "it_dispatcher_call lib deps w denylist tool args user rid reason d = it_dispatch lib deps w denylist tool args user rid reason d"
  proof (cases "it_tool_registry tool")
    case None
    then show ?thesis by (simp add: it_dispatcher_call_def it_dispatch_def dispatch_def check_request_def it_agent_def)
  next
    case (Some te)
    show ?thesis
    proof (cases "te_kwargs te args")
      case (Inl e)
      with Some show ?thesis by (simp add: it_dispatcher_call_def it_dispatch_def dispatch_def check_request_def it_agent_def)
    next
      case (Inr kw)
      let ?missing = "sort (filter (\<lambda>k. \<not> truthy (pyget args k)) (it_required_args tool))"
      have c: "check_request it_agent tool args =
          (if ?missing \<noteq> [] then Inr (Inl \<lparr>ep_error_id = ''ERR-AGENT-002'',
             ep_reason = ''Missing required arguments for '' @ tool @ '': '' @ py_repr (PList (map PStr ?missing))\<rparr>)
           else Inr (Inr (te, kw)))"
        using Some Inr by (simp add: check_request_def it_agent_def Let_def)
      show ?thesis
        unfolding it_dispatcher_call_def it_dispatch_def dispatch_def c it_request_consent_eq
        by (simp add: Some Inr serve_cached_def effective_scope_def it_jti_of_eq it_denylist_contains_eq make_result_def Let_def
            disp_denied_jti split: option.split mcp_reply.split py.split)
    qed
  qed
qed

theorem it_run_to_completion_eq: "it_run_to_completion = run_to_completion"
proof (intro ext)
  fix lib deps w job state d
  note defs = it_run_to_completion_def run_to_completion_def run_tool_def http_error_def cache_issued_def make_result_def
    it_jti_of_eq exn_error_def [symmetric] Let_def
  show "it_run_to_completion lib deps w job state d = run_to_completion lib deps w job state d"
  proof (cases "poll_for_token (dd_ciba deps) (rw_poll w) (rw_start w) (jb_request job) (Some (dd_max_poll_seconds deps))")
    case None
    then show ?thesis by (simp add: defs)
  next
    case (Some x)
    obtain polled sends where x: "x = (polled, sends)" by (cases x)
    show ?thesis
    proof (cases polled)
      case (Inl e)
      with Some x show ?thesis by (simp add: defs)
    next
      case (Inr tok)
      show ?thesis
      proof (cases "rw_mcp w (jb_method job) tok (jb_request_id job) (jb_kwargs job)")
        case (McpOk v)
        with Some x Inr show ?thesis by (cases v) (simp_all add: defs)
      qed (use Some x Inr in \<open>simp_all add: defs\<close>)
    qed
  qed
qed

end
