(* ===== verification/Spec2Isabelle.thy ===== *)
theory Spec2Isabelle
  imports AuthProps LeaveBook ItProps ReportProps RevocationProps BclProps LoginProps AgentProps WireProps ChatProps RouterProps
    ModelProps LoggingProps DeploymentProps EndToEnd IsAuditProps SynthBcl HrMcp Introspector ItDispatcher
begin

text \<open>
  The Smart Employee Assistant: identity and access management for AI agents.

  An employee talks to an orchestrator in the browser.  The orchestrator routes a message to
  tool calls of two agents (HR and IT), each agent asks the employee for consent at an identity
  server (CIBA) and calls the MCP routes of its server (\<open>hr_server\<close>, \<open>it_server\<close>) with the token
  the consent yields.  A logout ends the sessions of the user and fans the ids of the issued
  tokens out to the four other services, which refuse them from then on.

  Sources are named by their path under \<open>src/\<close>.  A theory holds the definitions of its files and
  the lemmas about them; a theory named \<open>...Props\<close>, with \<open>LeaveBook\<close>, \<open>EndToEnd\<close> and
  \<open>SynthBcl\<close>, holds properties that are numbered \<open>C1\<close>, \<open>C2\<close>, and so on, each followed by a concrete
  case where it has hypotheses.

  \<^bold>\<open>Conventions.\<close>  A dictionary from JSON or a token payload is an association list in insertion
  order (\<open>pydict\<close>), its values are the datatype \<open>py\<close>; module-level and instance variables are the
  fields of a record that every operation takes and returns; an exception is the value \<open>Inl\<close> of
  \<open>'a res\<close>, and each of the catalogued exceptions keeps its class and its error id.  Floats are
  reals and characters are the code points 0 to 255.  What is not under \<open>src/\<close> is an argument:
  PyJWT, the network and the answers of the identity server and of other services, the language
  model and its library, the lax conversions of pydantic, the reading of JSON, of decimal
  fractions and of ISO times, SHA-256, random bytes, the clocks, the file system, the scheduler.
  A clock is a list of readings or a function of the step, never assumed to advance unless a
  hypothesis says so.

  \<^bold>\<open>Shared ground.\<close>  \<open>Prelude\<close> (Python values and texts, dictionaries, the collections \<open>dict_simps\<close>
  and \<open>str_simps\<close>), \<open>Dates\<close> (\<open>date.fromisoformat\<close> and the day ordinal), \<open>UrlText\<close> (query strings,
  URL-safe base 64 and their readers), \<open>Regex\<close> (the regular expressions in use, by backtracking in
  Python's order), \<open>Fifo\<close> (bounded ordered stores), \<open>Samples\<close> (data of the concrete cases).

  \<^bold>\<open>Tokens\<close> (\<open>common/auth/\<close>).  \<open>AuthErrors\<close> (\<open>errors.py\<close>), \<open>TokenModels\<close> (\<open>models.py\<close>, \<open>peer_trust.py\<close>),
  \<open>Jwt\<close> (\<open>jwt_validator.py\<close>: key cache, six-step validation, sanitiser), \<open>Introspector\<close>
  (\<open>introspector.py\<close>), \<open>BindingMessages\<close> (\<open>binding_messages.py\<close>), \<open>Ciba\<close> (\<open>ciba_client.py\<close>), \<open>ActorToken\<close>
  (\<open>actor_token_provider.py\<close>), \<open>IsClient\<close> (\<open>wso2_is_client.py\<close>).  \<open>AuthProps\<close>: what an accepted token
  satisfies.  \<open>AgentProps\<close>: the poll of a consent returns, where credentials go, how old a cached
  token is.

  \<^bold>\<open>Revocation\<close> (\<open>common/revocation/\<close>).  \<open>Denylist\<close> (\<open>jti_denylist.py\<close>), \<open>InternalEvents\<close>
  (\<open>internal_events.py\<close>), \<open>FanOut\<close> (\<open>orchestrator/agent_registry/revoke_client.py\<close>).  \<open>RevocationProps\<close>:
  an acknowledged id is refused by the validators until its token expires, and the gap of a
  sweep that runs before the leeway is over.

  \<^bold>\<open>The servers.\<close>  \<open>McpValidator\<close> (\<open>auth/validators.py\<close> of both), \<open>ToolGuard\<close> (the block every tool
  handler opens with), \<open>HrStore\<close>, \<open>HrService\<close>, \<open>HrCubicles\<close>, \<open>HrLedger\<close> (\<open>hr_server/service/\<close>),
  \<open>HrTools\<close> (\<open>hr_server/mcp/tools.py\<close>), \<open>ItService\<close> (\<open>it_server/service/\<close>), \<open>ItTools\<close>
  (\<open>it_server/mcp/tools.py\<close>), \<open>RestAuth\<close>, \<open>HrRest\<close>, \<open>ItRest\<close> (\<open>rest_api/server.py\<close> and
  \<open>auth/jwt_validator.py\<close> of both), \<open>HrMcp\<close> (the unmounted \<open>hr_server/mcp_server/server.py\<close>).
  \<open>HrProps\<close>, \<open>ItProps\<close>, \<open>RestProps\<close>: which calls have an effect, and the invariants of the stores
  over any requests to the tool and REST routes; which key and which header an accepted REST token
  had (\<open>held_key\<close>), and what a caller without the read scope can tell two stores apart by
  (\<open>same_own\<close>, preserved by every route).  \<open>LeaveBook\<close>: the abstract book of leave claims
  and the refinement of every service operation to it.

  \<^bold>\<open>The agents.\<close>  \<open>McpClients\<close> (\<open>mcp/client.py\<close>), \<open>Dispatcher\<close> (\<open>ciba/orchestrator.py\<close> of both: the two
  files differ in the tools, their required arguments and the consent texts, which are an
  \<open>agent_kind\<close>), \<open>ItDispatcher\<close> (the IT agent's file read on its own, equal to the shared dispatcher), \<open>A2AServer\<close> (\<open>common/a2a/server.py\<close>, \<open>models.py\<close>, \<open>jsonrpc.py\<close>), \<open>AgentRuns\<close> (the states
  an agent process reaches), \<open>A2AClient\<close> (\<open>common/a2a/client.py\<close>), \<open>AgentCards\<close>
  (\<open>common/a2a/agent_card.py\<close>, \<open>orchestrator/agent_registry/cards.py\<close>), \<open>Discovery\<close>
  (\<open>orchestrator/agent_registry/discovery.py\<close>).  \<open>AgentFlowProps\<close>: which consent a result comes from,
  what a revocation ends, who may change an agent's state, and that the scopes agents ask for
  fit the routes of the servers.  \<open>WireProps\<close>: both ends of the agent protocol together.

  \<^bold>\<open>The orchestrator\<close> (\<open>orchestrator/\<close>).  \<open>SessionStore\<close> (\<open>auth/session_store.py\<close>), \<open>Sse\<close> (\<open>events/\<close>),
  \<open>LogoutHandler\<close> (\<open>auth/logout_handler.py\<close>, \<open>auth/is_revoke.py\<close>), \<open>BclReceiver\<close>
  (\<open>auth/bcl_receiver.py\<close>), \<open>Login\<close> (\<open>auth/routes.py\<close>, \<open>auth/pattern_c.py\<close>), \<open>KeywordRouter\<close>
  (\<open>chat/keyword_fallback.py\<close>), \<open>Prompts\<close>, \<open>LlmRouter\<close>, \<open>ModelClient\<close> (\<open>llm/\<close>), \<open>PublicChat\<close>
  (\<open>chat/public_handler.py\<close>, \<open>chat/public_routes.py\<close>), \<open>RenderResult\<close>, \<open>Chat\<close> (\<open>chat/routes.py\<close>), \<open>Reports\<close>
  (\<open>reports/\<close>).  \<open>LogoutProps\<close>, \<open>BclProps\<close>, \<open>LoginProps\<close>, \<open>RouterProps\<close>, \<open>ModelProps\<close>, \<open>ChatProps\<close>,
  \<open>ReportProps\<close> hold their properties.  What must not be shown of a tool's outcome is written
  down apart from the code's tests (\<open>exposing\<close> in \<open>Prompts\<close>), which are proved to decide it; the key
  of an accepted logout token is tied to the receiver's key set (\<open>keys_served\<close> in \<open>Jwt\<close>).

  \<^bold>\<open>Configuration and operation.\<close>  \<open>Settings\<close> (the five \<open>config.py\<close>), \<open>Deployment\<close> (\<open>main.py\<close> of agents
  and servers, \<open>a2a/handler.py\<close>), \<open>OrchestratorApp\<close> (\<open>orchestrator/main.py\<close>), \<open>Logging\<close>
  (\<open>common/logging/\<close>), \<open>IsAudit\<close> (\<open>scripts/check-is-config.py\<close>), \<open>SynthBcl\<close> (\<open>scripts/synth-bcl.py\<close>), with
  \<open>SettingsProps\<close>, \<open>DeploymentProps\<close>, \<open>LoggingProps\<close> and \<open>IsAuditProps\<close>.

  \<^bold>\<open>Components together.\<close>  \<open>Cascade\<close> carries out the fan-outs a logout orders at the event routes of
  the services; \<open>EndToEnd\<close> follows a token from the chat message that obtained it, over the
  session's log and the cascade, to its refusal by the validators.

  \<^bold>\<open>Interfaces.\<close>  \<open>fifo_store\<close> is what a bounded, swept store promises, interpreted on the denylist,
  on the seen logout tokens and on the pending logout reasons.  \<open>token_guard\<close> is what the tool
  handlers rely on of a validator, interpreted on both servers'.  \<open>rest_guard\<close> is the same for the
  REST routes, again on both.  \<open>revocation_receiver\<close> is what the fan-out needs of a receiver,
  interpreted on the event route and on the family of the four services.

  \<^bold>\<open>Time, order and bounds.\<close>  A handler is one step except where it waits for another party and
  others run meanwhile: the await of an agent (\<open>agent_step\<close> starts and ends it separately, and
  runs the background task in between), the two halves of \<open>/auth/exchange\<close> (\<open>auth_step\<close>), and the
  waits of a chat message, in which the session may change.  The locks of the code make the
  cascade over one user's sessions one step.  What a fan-out at the receivers answers is not
  read by the cascade, so \<open>carry_out\<close> runs the ordered fan-outs after it.  The poll of a consent
  may run forever and is a \<open>partial_function\<close>; \<open>poll_terminates\<close> shows that it returns.  The chain
  of authentication steps of an agent is cut at the four the code allows (\<open>max_authn_steps\<close>).  All
  other recursion is structural or has a measure; no fuel is used.  Caps are the code's: 10000
  ids in the denylist and pending logins, 100 events of a host in 60 seconds, 600 seconds for a
  pending login (applied when another is added), 3 audiences.

  \<^bold>\<open>Not modelled.\<close>  Log lines except those a property is about, message texts that repeat library
  texts, the two HTML pages but for the inserted values; static files, the order of the
  middleware, the start and end of background tasks and HTTP clients (\<open>main.py\<close> of all
  services); the empty IT application \<open>it_server/mcp_server/server.py\<close>; the probes of the identity
  server (\<open>idp_capability_test/\<close>), \<open>scripts/demo-smoke.py\<close>, \<open>tools/bcl_listener.py\<close> and
  \<open>client/serve.py\<close>, which are run by hand and keep no state of the program; the browser's
  JavaScript.
\<close>

section \<open>A first consequence\<close>

text \<open>
  A token whose id is on the denylist of the HR server is never accepted by its
  validator, whatever the network, the clocks and the library reply.
\<close>

theorem hr_revoked_token_rejected:
  assumes "hr_validate_token J net mt now tok (Some req) v = (Inr c, v')"
    and "mv_revocation v = Some st" and "c_jti c = PStr j"
  shows "\<not> (j \<noteq> [] \<and> denylist_contains (revoked_jtis st) j)"
  using hr_validate_token_ok(4) [OF assms(1)] assms(2,3) by (auto simp: jti_revoked_def)

lemma hr_revoked_token_rejected_witness:
  "\<exists>v'. \<not> (''j1'' \<noteq> [] \<and> denylist_contains (revoked_jtis (sample_revocation [''j9''])) ''j1'')
     \<and> hr_validate_token sample_jwt sample_net 4000 1500 ''alice'' (Some (set [''hr_self_rest''])) (sample_validator [''j9''])
       = (Inr (sample_claims ''alice'' ''j1'' ''hr_self_rest''), v')"
proof -
  have "py_split ''hr_self_rest'' = [''hr_self_rest'']" by (simp add: py_split_def py_ws_def)
  then obtain v' where v': "hr_validate_token sample_jwt sample_net 4000 1500 ''alice''
      (Some (set [''hr_self_rest''])) (sample_validator [''j9'']) = (Inr (sample_claims ''alice'' ''j1'' ''hr_self_rest''), v')"
    using sample_hr_step [of "''alice''" "''alice''" "''j1''" "''hr_self_rest''" 1500 "[''hr_self_rest'']"
        "[''hr_self_rest'']" "[''j9'']"] by simp
  have "mv_revocation (sample_validator [''j9'']) = Some (sample_revocation [''j9''])"
    by (simp add: sample_validator_def attach_revocation_def)
  then show ?thesis
    using hr_revoked_token_rejected [OF v', of "sample_revocation [''j9'']" "''j1''"] v'
    by (simp add: sample_claims_def)
qed

end
